(* ===== verification/Prelude.thy ===== *)
theory Prelude
  imports Complex_Main "HOL-Library.AList"
begin

section \<open>Shared vocabulary of the development\<close>

text \<open>
  Nothing in this theory is about the program: it holds the result type of the service
  methods, the table operations the database model is built from, the JavaScript
  collections the code uses (\<open>Map\<close> in insertion order, \<open>Set\<close> used to drop duplicates),
  and the generic contracts (locales) that the components instantiate.
\<close>

named_theorems frame_simps "what an effectful helper leaves unchanged"
named_theorems svc_defs "unfolding rules of small service helpers"

subsection \<open>Results of service methods\<close>

text \<open>
  An \<open>async\<close> service method returns a value or throws; the writes it committed before a
  throw stay in the database. A method is therefore a function from the state to an
  exception or a value, together with the state it leaves behind. A Prisma
  \<open>$transaction\<close> is the exception: a throw inside it rolls its writes back.
\<close>

type_synonym ('e, 'a, 's) result = "('e + 'a) \<times> 's"

definition fail :: "'e \<Rightarrow> 's \<Rightarrow> ('e, 'a, 's) result" where
  "fail e s = (Inl e, s)"

definition ok :: "'a \<Rightarrow> 's \<Rightarrow> ('e, 'a, 's) result" where
  "ok a s = (Inr a, s)"

fun bindR :: "('e, 'a, 's) result \<Rightarrow> ('a \<Rightarrow> 's \<Rightarrow> ('e, 'b, 's) result) \<Rightarrow> ('e, 'b, 's) result" where
  "bindR (Inl e, s) k = (Inl e, s)"
| "bindR (Inr a, s) k = k a s"

definition transaction :: "('s \<Rightarrow> ('e, 'a, 's) result) \<Rightarrow> 's \<Rightarrow> ('e, 'a, 's) result" where
  "transaction body s = (case body s of (Inl e, _) \<Rightarrow> (Inl e, s) | (Inr a, s') \<Rightarrow> (Inr a, s'))"

text \<open>A pure check or computation that may throw, run at a state.\<close>

definition liftE :: "'e + 'a \<Rightarrow> 's \<Rightarrow> ('e, 'a, 's) result" where
  "liftE x s = (case x of Inl e \<Rightarrow> fail e s | Inr a \<Rightarrow> ok a s)"

lemma fail_sel [simp]: "fst (fail e s) = Inl e" "snd (fail e s) = s"
  by (simp_all add: fail_def)

lemma ok_sel [simp]: "fst (ok a s) = Inr a" "snd (ok a s) = s"
  by (simp_all add: ok_def)

lemma fail_not_ok [simp]:
  "fail e s \<noteq> (Inr a, t)" "(Inr a, t) \<noteq> fail e s"
  "fail e s = (Inl e', t) \<longleftrightarrow> e' = e \<and> t = s"
  by (auto simp: fail_def)

lemma ok_not_fail [simp]:
  "ok a s \<noteq> (Inl e, t)" "(Inl e, t) \<noteq> ok a s"
  "ok a s = (Inr b, t) \<longleftrightarrow> b = a \<and> t = s"
  by (auto simp: ok_def)

lemma bindR_fail [simp]: "bindR (fail e s) k = fail e s"
  by (simp add: fail_def)

lemma bindR_ok [simp]: "bindR (ok a s) k = k a s"
  by (simp add: ok_def)

lemma liftE_simps [simp]: "liftE (Inl e) s = fail e s" "liftE (Inr a) s = ok a s"
  by (simp_all add: liftE_def)

lemma liftE_Inr_iff: "liftE x s = (Inr a, t) \<longleftrightarrow> x = Inr a \<and> t = s"
  by (cases x) (auto simp: fail_def ok_def)

lemma bindR_Inr_iff:
  "bindR r k = (Inr b, t) \<longleftrightarrow> (\<exists>a s. r = (Inr a, s) \<and> k a s = (Inr b, t))"
  by (cases "(r, k)" rule: bindR.cases) auto

lemma bindR_Inl_iff:
  "bindR r k = (Inl e, t) \<longleftrightarrow> r = (Inl e, t) \<or> (\<exists>a s. r = (Inr a, s) \<and> k a s = (Inl e, t))"
  by (cases "(r, k)" rule: bindR.cases) auto

lemma bindR_eq_iff:
  "bindR r k = (x, t) \<longleftrightarrow>
    (\<exists>e. r = (Inl e, t) \<and> x = Inl e) \<or> (\<exists>a s. r = (Inr a, s) \<and> k a s = (x, t))"
  by (cases "(r, k)" rule: bindR.cases) auto

lemma liftE_eq_iff: "liftE y s = (x, t) \<longleftrightarrow> t = s \<and> x = y"
  by (cases y) (auto simp: fail_def ok_def)

lemma fail_eq_iff: "fail e s = (x, t) \<longleftrightarrow> x = Inl e \<and> t = s"
  by (auto simp: fail_def)

lemma ok_eq_iff: "ok a s = (x, t) \<longleftrightarrow> x = Inr a \<and> t = s"
  by (auto simp: ok_def)

lemma snd_bindR:
  "snd (bindR r k) = (case fst r of Inl _ \<Rightarrow> snd r | Inr a \<Rightarrow> snd (k a (snd r)))"
  by (cases "(r, k)" rule: bindR.cases) auto

lemma bindR_keeps:
  assumes "h (snd x) = c" and "\<And>a u. x = (Inr a, u) \<Longrightarrow> h u = c \<Longrightarrow> h (snd (k a u)) = c"
  shows "h (snd (bindR x k)) = c"
  using assms by (cases "(x, k)" rule: bindR.cases) auto

text \<open>The value of a run that is known to return, with the state it leaves.\<close>

lemma run_InrE:
  assumes "case fst r of Inl _ \<Rightarrow> False | Inr a \<Rightarrow> P a"
  obtains a where "r = (Inr a, snd r)" "P a"
  using assms by (cases r; cases "fst r") auto

lemma transaction_ok: "body s = ok a t \<Longrightarrow> transaction body s = ok a t"
  by (simp add: transaction_def ok_def)

lemma transaction_fail: "body s = fail e t \<Longrightarrow> transaction body s = fail e s"
  by (simp add: transaction_def fail_def)

lemma transaction_Inl: "transaction body s = (Inl e, t) \<Longrightarrow> t = s"
  by (auto simp: transaction_def split: prod.splits sum.splits)

lemma transaction_Inr: "transaction body s = (Inr a, t) \<longleftrightarrow> body s = (Inr a, t)"
  by (auto simp: transaction_def split: prod.splits sum.splits)

subsection \<open>Tables\<close>

text \<open>
  A table is the list of its rows in creation order. \<open>findRow\<close> is Prisma's
  \<open>findUnique\<close> on a key column, \<open>updRow\<close> an \<open>update\<close> of one key, \<open>updWhere\<close> an
  \<open>updateMany\<close> (the number of rows it touches is \<open>countWhere\<close>).
\<close>

definition findRow :: "('r \<Rightarrow> 'k) \<Rightarrow> 'k \<Rightarrow> 'r list \<Rightarrow> 'r option" where
  "findRow key k rows = List.find (\<lambda>r. key r = k) rows"

definition updRow :: "('r \<Rightarrow> 'k) \<Rightarrow> 'k \<Rightarrow> ('r \<Rightarrow> 'r) \<Rightarrow> 'r list \<Rightarrow> 'r list" where
  "updRow key k f rows = map (\<lambda>r. if key r = k then f r else r) rows"

definition updWhere :: "('r \<Rightarrow> bool) \<Rightarrow> ('r \<Rightarrow> 'r) \<Rightarrow> 'r list \<Rightarrow> 'r list" where
  "updWhere p f rows = map (\<lambda>r. if p r then f r else r) rows"

definition countWhere :: "('r \<Rightarrow> bool) \<Rightarrow> 'r list \<Rightarrow> nat" where
  "countWhere p rows = length (filter p rows)"

lemma findRow_Nil [simp]: "findRow key k [] = None"
  by (simp add: findRow_def)

lemma findRow_Cons [simp]: "findRow key k (r # rs) = (if key r = k then Some r else findRow key k rs)"
  by (simp add: findRow_def)

lemma findRow_Some_key: "findRow key k rows = Some r \<Longrightarrow> key r = k"
  by (induction rows) (auto split: if_splits)

lemma findRow_Some_set: "findRow key k rows = Some r \<Longrightarrow> r \<in> set rows"
  by (induction rows) (auto split: if_splits)

lemma findRow_None_iff: "findRow key k rows = None \<longleftrightarrow> (\<forall>r \<in> set rows. key r \<noteq> k)"
  by (induction rows) auto

lemma findRow_append:
  "findRow key k (xs @ ys) = (case findRow key k xs of None \<Rightarrow> findRow key k ys | Some r \<Rightarrow> Some r)"
  by (induction xs) auto

lemma findRow_distinct:
  "distinct (map key rows) \<Longrightarrow> r \<in> set rows \<Longrightarrow> findRow key (key r) rows = Some r"
  by (induction rows) (auto simp: rev_image_eqI)

lemma findRow_updRow:
  assumes "\<And>r. key (f r) = key r"
  shows "findRow key k (updRow key k' f rows) =
    (if k = k' then map_option f (findRow key k rows) else findRow key k rows)"
  using assms by (induction rows) (auto simp: updRow_def)

lemma findRow_updWhere:
  assumes "\<And>r. key (f r) = key r"
  shows "findRow key k (updWhere p f rows) =
    map_option (\<lambda>r. if p r then f r else r) (findRow key k rows)"
  using assms by (induction rows) (auto simp: updWhere_def)

lemma map_key_updRow:
  assumes "\<And>r. key (f r) = key r"
  shows "map key (updRow key' k f rows) = map key rows"
  using assms by (induction rows) (auto simp: updRow_def)

lemma map_key_updWhere:
  assumes "\<And>r. key (f r) = key r"
  shows "map key (updWhere p f rows) = map key rows"
  using assms by (induction rows) (auto simp: updWhere_def)

lemma in_updRow: "r \<in> set (updRow key k f rows) \<longleftrightarrow>
    (\<exists>q \<in> set rows. r = (if key q = k then f q else q))"
  unfolding updRow_def set_map image_iff ..

lemma in_updWhere: "r \<in> set (updWhere p f rows) \<longleftrightarrow>
    (\<exists>q \<in> set rows. r = (if p q then f q else q))"
  unfolding updWhere_def set_map image_iff ..

lemma updRow_absent: "findRow key k rows = None \<Longrightarrow> updRow key k f rows = rows"
  by (induction rows) (auto simp: updRow_def split: if_splits)

lemma updWhere_none: "(\<And>r. r \<in> set rows \<Longrightarrow> \<not> p r) \<Longrightarrow> updWhere p f rows = rows"
  by (induction rows) (auto simp: updWhere_def)

lemma updWhere_stable:
  assumes "\<And>r. p r \<Longrightarrow> p (f r) \<and> f (f r) = f r"
  shows "updWhere p f (updWhere p f rows) = updWhere p f rows"
  using assms by (induction rows) (auto simp: updWhere_def)

lemma countWhere_updWhere:
  assumes "\<And>r. p (f r) = p r"
  shows "countWhere p (updWhere q f rows) = countWhere p rows"
  using assms by (induction rows) (auto simp: updWhere_def countWhere_def)

lemma sum_list_updRow:
  fixes g :: "'r \<Rightarrow> int"
  assumes "distinct (map key rows)" and "findRow key k rows = Some r"
  shows "sum_list (map g (updRow key k f rows)) = sum_list (map g rows) + (g (f r) - g r)"
  using assms
proof (induction rows)
  case Nil
  then show ?case by simp
next
  case (Cons x rows)
  show ?case
  proof (cases "key x = k")
    case True
    with Cons.prems(1) have "\<forall>q \<in> set rows. key q \<noteq> k" by (metis distinct.simps(2) image_eqI list.set_map list.simps(9))
    then have "updRow key k f rows = rows" by (simp add: updRow_absent findRow_None_iff)
    with True Cons.prems show ?thesis by (simp add: updRow_def)
  next
    case False
    with Cons show ?thesis by (simp add: updRow_def)
  qed
qed

lemma sum_list_map_updRow_same:
  assumes "\<And>r. key r = k \<Longrightarrow> g (f r) = g r"
  shows "map g (updRow key k f rows) = map g rows"
  using assms by (induction rows) (auto simp: updRow_def)

subsection \<open>JavaScript collections\<close>

text \<open>
  A JavaScript \<open>Map\<close> iterates in insertion order and \<open>set\<close> on a present key keeps its
  place: this is \<^const>\<open>AList.update\<close>. \<open>Array.from(new Set(xs))\<close> keeps the first
  occurrence of each value.
\<close>

fun uniq :: "'a list \<Rightarrow> 'a list" where
  "uniq [] = []"
| "uniq (x # xs) = x # uniq (removeAll x xs)"

lemma set_uniq [simp]: "set (uniq xs) = set xs"
  by (induction xs rule: uniq.induct) auto

lemma distinct_uniq [simp]: "distinct (uniq xs)"
  by (induction xs rule: uniq.induct) auto

lemma uniq_Nil_iff [simp]: "uniq xs = [] \<longleftrightarrow> xs = []"
  by (cases xs) auto

lemma uniq_distinct: "distinct xs \<Longrightarrow> uniq xs = xs"
  by (induction xs) (auto simp: removeAll_id)

text \<open>JavaScript's truthiness of an optional string: absent and empty are both false.\<close>

definition truthy :: "string option \<Rightarrow> bool" where
  "truthy x \<longleftrightarrow> (case x of None \<Rightarrow> False | Some t \<Rightarrow> t \<noteq> [])"

definition startsWith :: "string \<Rightarrow> string \<Rightarrow> bool" where
  "startsWith t p \<longleftrightarrow> take (length p) t = p"

text \<open>\<open>String.prototype.trim\<close> on the ASCII white space characters.\<close>

definition js_space :: "char \<Rightarrow> bool" where
  "js_space c \<longleftrightarrow> c \<in> {CHR '' '', CHR 0x09, CHR 0x0A, CHR 0x0B, CHR 0x0C, CHR 0x0D}"

definition trim :: "string \<Rightarrow> string" where
  "trim t = rev (dropWhile js_space (rev (dropWhile js_space t)))"

text \<open>The first present value of two optional ones (\<open>a ?? b\<close> on nullable operands).\<close>

definition orElse :: "'a option \<Rightarrow> 'a option \<Rightarrow> 'a option" where
  "orElse a b = (case a of None \<Rightarrow> b | Some x \<Rightarrow> Some x)"

text \<open>
  The numbers a request can carry. \<open>JNaN\<close> is separate because the code tests for it.
\<close>

datatype js_number = JNaN | JNum rat

subsection \<open>Contract of a table access pair\<close>

text \<open>
  \<open>get\<close> reads the row of a key, \<open>put\<close> rewrites it in place with a function that keeps the
  key. Every table of the database model gives such a pair; what the services need of one
  is proved here once.
\<close>

locale row_store =
  fixes key :: "'r \<Rightarrow> 'k"
    and get :: "'s \<Rightarrow> 'k \<Rightarrow> 'r option"
    and put :: "'k \<Rightarrow> ('r \<Rightarrow> 'r) \<Rightarrow> 's \<Rightarrow> 's"
  assumes get_put: "(\<And>r. key (f r) = key r) \<Longrightarrow>
      get (put k f s) j = (if j = k then map_option f (get s k) else get s j)"
    and get_key: "get s k = Some r \<Longrightarrow> key r = k"
    and put_absent: "get s k = None \<Longrightarrow> put k f s = s"
begin

lemma get_put_same: "(\<And>r. key (f r) = key r) \<Longrightarrow> get (put k f s) k = map_option f (get s k)"
  by (simp add: get_put)

lemma get_put_other: "(\<And>r. key (f r) = key r) \<Longrightarrow> j \<noteq> k \<Longrightarrow> get (put k f s) j = get s j"
  by (simp add: get_put)

lemma put_keeps_domain: "(\<And>r. key (f r) = key r) \<Longrightarrow> get (put k f s) j = None \<longleftrightarrow> get s j = None"
  by (simp add: get_put)

lemma put_field:
  assumes "\<And>r. key (f r) = key r" and "\<And>r. fld (f r) = fld r"
  shows "map_option fld (get (put k f s) j) = map_option fld (get s j)"
  using assms by (cases "get s k") (auto simp: get_put)

end

subsection \<open>Contract of an idempotent timer handler\<close>

text \<open>
  The watchdogs are armed twice, in process and as a durable job, and both may fire. The
  contract that makes this harmless: a handler that is not armed does nothing, and a
  handler that ran is no longer armed, whatever the environment of either run.
\<close>

locale idempotent_handler =
  fixes armed :: "'s \<Rightarrow> bool"
    and run :: "'e \<Rightarrow> 's \<Rightarrow> 's"
  assumes run_unarmed: "\<not> armed s \<Longrightarrow> run e s = s"
    and run_disarms: "\<not> armed (run e s)"
begin

lemma run_twice: "run e' (run e s) = run e s"
  by (rule run_unarmed [OF run_disarms])

lemma run_many: "fold run (e # es) s = run e s"
proof -
  have "fold run es t = t" if "\<not> armed t" for t
    using that by (induction es) (simp_all add: run_unarmed)
  then show ?thesis by (simp add: run_disarms)
qed

end

subsection \<open>Contract of an invariant of a step relation\<close>

locale inductive_invariant =
  fixes init :: "'s \<Rightarrow> bool"
    and step :: "'s \<Rightarrow> 's \<Rightarrow> bool"
    and inv :: "'s \<Rightarrow> bool"
  assumes init_inv: "init s \<Longrightarrow> inv s"
    and step_inv: "inv s \<Longrightarrow> step s t \<Longrightarrow> inv t"
begin

lemma run_inv: "inv s \<Longrightarrow> step\<^sup>*\<^sup>* s t \<Longrightarrow> inv t"
  by (erule rtranclp_induct) (auto intro: step_inv)

lemma reachable_inv: "init s \<Longrightarrow> step\<^sup>*\<^sup>* s t \<Longrightarrow> inv t"
  by (blast intro: init_inv run_inv)

end

end
