(* ===== verification/Model.thy ===== *)
theory Model
  imports Prelude
begin

section \<open>The data the services work on\<close>

text \<open>
  The enumerations (\<open>src/common/enums\<close>, \<open>prisma/schema.prisma\<close>), the table rows the
  modelled services read or write, the database state, the request environment (clock,
  generated ids, what Stripe answers) and the exceptions. Rows keep the columns the
  modelled code uses under the column's name with a two-letter prefix; a \<open>DateTime\<close> is its
  epoch time in milliseconds, a nullable column an \<open>option\<close>.
\<close>

type_synonym id = string
type_synonym time = int
type_synonym point = "js_number \<times> js_number"

subsection \<open>Enumerations\<close>

datatype user_role = R_Buyer | R_Seller | R_Driver | R_Admin | R_Moderator

datatype kyc_status = K_Pending | K_Approved | K_Rejected

datatype fulfillment_choice = F_Delivery | F_Pickup

text \<open>What a listing offers: the Prisma enum \<open>Fulfillment\<close>.\<close>

datatype fulfillment = Offers_Delivery | Offers_Pickup | Offers_Both

datatype delivery_timing = T_Asap | T_Scheduled

datatype order_status =
  O_Pending | O_Confirmed | O_Preparing | O_Ready | O_PickedUp | O_InDelivery | O_Delivered
  | O_Completed | O_NoDriverAvailable | O_Cancelled | O_Refunded | O_Disputed

datatype delivery_status =
  D_Unassigned | D_Searching | D_Assigned | D_EnRouteToPickup | D_AtPickup | D_PickedUp
  | D_EnRouteToDropoff | D_AtDropoff | D_Delivered | D_Cancelled | D_Failed

datatype subscription_status =
  S_None | S_Active | S_Trialing | S_PastDue | S_Canceled | S_Expired | S_Unpaid
  | S_Incomplete | S_IncompleteExpired

datatype wallet_type =
  WT_OrderEarning | WT_DeliveryEarning | WT_Commission | WT_Refund | WT_Withdrawal | WT_DriverDebt

datatype wallet_status = WS_Pending | WS_Available | WS_Held | WS_PaidOut | WS_Cancelled

datatype actor_role = A_Seller | A_Driver | A_Buyer

datatype strike_severity = Sev_Light | Sev_Serious | Sev_Critical

datatype strike_source = Src_Delivery | Src_Order | Src_Report | Src_System

datatype dispute_type =
  DT_NeverReceived | DT_WrongOrder | DT_SpoiledFood | DT_FoodPoisoning
  | DT_SubjectiveDissatisfaction | DT_AllergenFalseDeclaration | DT_Chargeback

datatype dispute_status = DS_Open | DS_AutoRefunded | DS_Rejected | DS_AdminReview | DS_Resolved

datatype issue_severity = I_Abort | I_Report

datatype unavailable_reason = UR_SellerAbsent | UR_FoodNotAvailable

datatype charter_kind = CGU | CGV | Ch_Hygiene | Ch_FaitMaison | Ch_Punctuality | Ch_Care

datatype seller_category = SC_FaitMaison | SC_Traiteur | SC_Restaurant

datatype dietary_tag = DTag_Halal | DTag_Vegan | DTag_GlutenFree | DTag_Casher

datatype allergen =
  Al_Gluten | Al_Crustaces | Al_Oeufs | Al_Poissons | Al_Arachides | Al_Soja | Al_Lait
  | Al_FruitsACoque | Al_Celeri | Al_Moutarde | Al_Sesame | Al_Sulfites | Al_Lupin | Al_Mollusques

datatype cuisine_type =
  Cu_Orientale | Cu_Francaise | Cu_Africaine | Cu_Portugaise | Cu_Italienne | Cu_Espagnole
  | Cu_Latine

datatype dish_type = Dy_Entree | Dy_Plat | Dy_Dessert | Dy_CocktailDinatoire | Dy_Boisson

datatype day_of_week = Monday | Tuesday | Wednesday | Thursday | Friday | Saturday | Sunday

datatype address_kind = AK_BuyerDelivery | AK_SellerPickup | AK_DriverHome

datatype kyc_doc_type =
  KD_IdFront | KD_IdBack | KD_Selfie | KD_DrivingLicense | KD_CarteGrise | KD_Insurance

datatype id_document_type = ID_CarteIdentite | ID_Passeport | ID_TitreSejour

datatype vehicle_type = V_Bicycle | V_Scooter | V_Car

datatype rating_criterion = RC_Hygiene | RC_FoodQuality | RC_Packaging

datatype conversation_type = CT_BuyerSeller | CT_BuyerDelivery | CT_SellerDriver | CT_Support

datatype participant_role = P_Buyer | P_Seller | P_Delivery | P_Support

datatype message_type = M_Text | M_Image | M_System

datatype catalog_status = CO_Pending | CO_Paid | CO_Failed | CO_Cancelled | CO_Refunded

datatype catalog_claim_type = CC_NeverReceived | CC_Defective | CC_WrongItem

datatype catalog_claim_status =
  CS_Open | CS_AdminReview | CS_Refunded | CS_ReplacementRequested | CS_Rejected | CS_Resolved

datatype report_reason =
  RR_Spam | RR_Inappropriate | RR_Offensive | RR_Fake | RR_Duplicate | RR_NonFaitMaison
  | RR_MauvaiseHygiene | RR_Other

datatype report_status = RS_Pending | RS_Dismissed | RS_Resolved | RS_Rejected

subsection \<open>Rows\<close>

record user_row =
  u_id :: id
  u_supabaseId :: id
  u_email :: string
  u_role :: user_role
  u_stripeCustomerId :: "id option"
  u_deletedAt :: "time option"
  u_isSuspended :: bool
  u_suspendedAt :: "time option"
  u_suspensionReason :: "string option"
  u_firstName :: string
  u_lastName :: string
  u_avatarPath :: "string option"
  u_phone :: "string option"
  u_emailVerified :: bool
  u_phoneVerified :: bool
  u_acceptedCgu :: bool
  u_acceptedCgv :: bool
  u_acceptedAt :: "time option"

record seller_row =
  sp_userId :: id
  sp_kycStatus :: kyc_status
  sp_deliveryFeeCents :: "int option"
  sp_isPremium :: bool
  sp_stripeConnectAccountId :: "id option"
  sp_stripeOnboardingCompleted :: bool
  sp_stripeSubscriptionId :: "id option"
  sp_subscriptionStatus :: subscription_status
  sp_subscriptionCurrentPeriodEnd :: "time option"
  sp_neighborhood :: "string option"
  sp_location :: "point option"
  sp_category :: "seller_category option"
  sp_displayName :: "string option"
  sp_bio :: "string option"
  sp_profilePhotoUrl :: "string option"
  sp_dateOfBirth :: "time option"
  sp_hygieneCommitment :: "bool option"
  sp_faitMaisonCommitment :: "bool option"
  sp_deliveryRadiusKm :: "rat option"
  sp_prepMinMinutes :: "int option"
  sp_prepMaxMinutes :: "int option"
  sp_averageRating :: "rat option"
  sp_reviewCount :: int
  sp_revenueCatCustomerId :: "id option"
  sp_revenueCatEntitlement :: "string option"
  sp_subscriptionPlan :: "string option"
  sp_subscriptionProductId :: "string option"
  sp_subscriptionCategory :: "seller_category option"
  sp_trialEndsAt :: "time option"

record driver_row =
  dp_userId :: id
  dp_kycStatus :: kyc_status
  dp_stripeConnectAccountId :: "id option"
  dp_stripeOnboardingCompleted :: bool
  dp_lastKnownPoint :: "point option"
  dp_lastSeenAt :: "time option"
  dp_isOnline :: bool
  dp_dateOfBirth :: "time option"
  dp_vehicleType :: "vehicle_type option"

record buyer_row =
  bp_userId :: id
  bp_dietaryPreferences :: "dietary_tag list"
  bp_allergies :: "allergen list"
  bp_createdAt :: time
  bp_updatedAt :: time

record listing_row =
  l_id :: id
  l_sellerId :: id
  l_name :: string
  l_imageUrls :: "string list"
  l_priceCents :: int
  l_portionsLeft :: "int option"
  l_isAvailable :: bool
  l_fulfillment :: fulfillment
  l_expiresAt :: "time option"
  l_deletedAt :: "time option"
  l_description :: "string option"
  l_originalPriceCents :: "int option"
  l_discountPercent :: "int option"
  l_cuisineTypes :: "cuisine_type list"
  l_dishTypes :: "dish_type list"
  l_dietaryTags :: "dietary_tag list"
  l_allergens :: "allergen list"
  l_otherAllergens :: "string option"
  l_isVeg :: bool
  l_menuCategory :: "string option"
  l_category :: seller_category
  l_prepMinutes :: int
  l_createdAt :: time

record addon_row =
  a_id :: id
  a_listingId :: id
  a_label :: string
  a_priceDeltaCents :: int
  a_isSelectedByDefault :: bool
  a_sortOrder :: int

text \<open>The columns an inline drop-off address writes (\<open>CreateAddressDto\<close> has the same ones).\<close>

record address_data =
  ad_type :: "string option"
  ad_customLabel :: "string option"
  ad_fullAddress :: string
  ad_city :: string
  ad_postalCode :: "string option"
  ad_apartment :: "string option"
  ad_floor :: "string option"
  ad_digicode :: "string option"
  ad_deliveryNotes :: "string option"
  ad_lat :: "js_number option"
  ad_lng :: "js_number option"

record address_row =
  ad_id :: id
  ad_userId :: id
  ad_kind :: address_kind
  ad_data :: address_data
  ad_point :: "point option"
  ad_deletedAt :: "time option"
  ad_updatedAt :: time

record item_addon_row =
  ia_id :: id
  ia_labelSnapshot :: string
  ia_priceDeltaCentsSnapshot :: int

record item_row =
  i_id :: id
  i_listingId :: id
  i_listingNameSnapshot :: string
  i_listingImageUrlSnapshot :: "string option"
  i_unitPriceCentsSnapshot :: int
  i_quantity :: int
  i_note :: "string option"
  i_addOns :: "item_addon_row list"

record order_row =
  o_id :: id
  o_orderNumber :: string
  o_buyerId :: id
  o_sellerId :: id
  o_status :: order_status
  o_subtotalCents :: int
  o_fulfillmentFeeCents :: int
  o_commissionRateBps :: int
  o_commissionCents :: int
  o_sellerEarningsCents :: int
  o_buyerTotalCents :: int
  o_fulfillmentChoice :: fulfillment_choice
  o_dropoffAddressId :: "id option"
  o_deliveryInstructions :: "string option"
  o_deliveryTiming :: delivery_timing
  o_scheduledAt :: "time option"
  o_expectedAt :: "time option"
  o_note :: "string option"
  o_stripePaymentIntentId :: "id option"
  o_inventoryRestored :: bool
  o_stripeRefundId :: "id option"
  o_refundedAt :: "time option"
  o_placedAt :: time
  o_confirmedAt :: "time option"
  o_readyAt :: "time option"
  o_completedAt :: "time option"
  o_cancelledAt :: "time option"
  o_cancellationReason :: "string option"
  o_items :: "item_row list"

record delivery_row =
  d_id :: id
  d_orderId :: id
  d_driverId :: "id option"
  d_status :: delivery_status
  d_driverAssignedAt :: "time option"
  d_pickedUpAt :: "time option"
  d_deliveredAt :: "time option"
  d_failedAt :: "time option"
  d_failureReason :: "string option"
  d_pickupToken :: "string option"
  d_pickupConfirmedAt :: "time option"
  d_pickupConfirmedByDriverId :: "id option"
  d_pickupPoint :: "js_number option \<times> js_number option"
  d_deliveryToken :: "string option"
  d_deliveredConfirmedAt :: "time option"
  d_deliveredConfirmedByDriverId :: "id option"
  d_deliveredPoint :: "js_number option \<times> js_number option"
  d_deliveredAsAbsent :: bool
  d_absentProofPhotoUrl :: "string option"
  d_absentProofPoint :: "js_number option \<times> js_number option"
  d_absentProofTakenAt :: "time option"
  d_absentProofContactAttemptedAt :: "time option"
  d_absentProofNote :: "string option"
  d_sellerUnavailableReason :: "unavailable_reason option"
  d_sellerUnavailableAt :: "time option"
  d_sellerUnavailablePoint :: "js_number option \<times> js_number option"
  d_sellerUnavailableNote :: "string option"
  d_sellerUnavailablePhotoUrl :: "string option"

record wallet_row =
  w_id :: id
  w_userId :: id
  w_orderId :: "id option"
  w_type :: wallet_type
  w_amountCents :: int
  w_status :: wallet_status
  w_withdrawalId :: "id option"
  w_availableAt :: "time option"
  w_releasedAt :: "time option"
  w_transferId :: "id option"
  w_createdAt :: time

record strike_row =
  k_id :: id
  k_userId :: id
  k_actorRole :: actor_role
  k_points :: int
  k_reason :: string
  k_severity :: strike_severity
  k_sourceType :: strike_source
  k_sourceId :: "id option"
  k_orderId :: "id option"
  k_deliveryId :: "id option"
  k_notes :: "string option"
  k_createdBy :: "id option"
  k_createdAt :: time
  k_expiresAt :: "time option"

record charge_meta =
  cm_amount :: int
  cm_currency :: string
  cm_reason :: string
  cm_stripeStatus :: string
  cm_evidenceDueBy :: "time option"

record dispute_row =
  dis_id :: id
  dis_orderId :: id
  dis_buyerId :: id
  dis_sellerId :: id
  dis_deliveryId :: "id option"
  dis_type :: dispute_type
  dis_status :: dispute_status
  dis_description :: "string option"
  dis_photoUrls :: "string list option"
  dis_proofFileUrls :: "string list option"
  dis_refundRequested :: bool
  dis_refundApproved :: bool
  dis_refundAmountCents :: "int option"
  dis_adminNotes :: "string option"
  dis_stripeDisputeId :: "id option"
  dis_metadata :: "charge_meta option"
  dis_resolvedAt :: "time option"

record issue_row =
  is_id :: id
  is_deliveryId :: id
  is_driverId :: id
  is_issueCode :: string
  is_severity :: issue_severity
  is_stageWhenReported :: order_status
  is_freeText :: "string option"

record audit_row =
  au_actorId :: "id option"
  au_action :: string
  au_targetId :: id

record legal_doc_row =
  ld_id :: id
  ld_kind :: charter_kind
  ld_version :: string
  ld_title :: string
  ld_content :: string
  ld_isActive :: bool
  ld_publishedAt :: "time option"
  ld_createdBy :: "id option"
  ld_updatedBy :: "id option"

record charter_row =
  uc_userId :: id
  uc_charter :: charter_kind
  uc_version :: string

record conversation_row =
  cv_id :: id
  cv_type :: conversation_type
  cv_orderId :: "id option"
  cv_storeId :: "id option"
  cv_lastMessage :: "string option"
  cv_lastMessageAt :: "time option"

record participant_row =
  cp_id :: id
  cp_conversationId :: id
  cp_userId :: id
  cp_role :: participant_role
  cp_unreadCount :: int
  cp_lastReadAt :: "time option"

record message_row =
  m_id :: id
  m_conversationId :: id
  m_senderId :: id
  m_content :: string
  m_messageType :: message_type
  m_createdAt :: time

record catalog_product_row =
  pr_id :: id
  pr_name :: string
  pr_description :: "string option"
  pr_imageUrls :: "string list"
  pr_priceCents :: int
  pr_currency :: string
  pr_isActive :: bool
  pr_createdById :: "id option"
  pr_deletedAt :: "time option"

record catalog_item_row =
  cit_id :: id
  cit_productId :: "id option"
  cit_nameSnapshot :: string
  cit_unitPriceCents :: int
  cit_quantity :: int
  cit_lineTotalCents :: int

record catalog_order_row =
  co_id :: id
  co_sellerId :: id
  co_status :: catalog_status
  co_totalCents :: int
  co_currency :: string
  co_stripePaymentIntentId :: "id option"
  co_stripeRefundId :: "id option"
  co_createdAt :: time
  co_paidAt :: "time option"
  co_items :: "catalog_item_row list"

record catalog_claim_row =
  cc_id :: id
  cc_catalogOrderId :: id
  cc_sellerId :: id
  cc_type :: catalog_claim_type
  cc_status :: catalog_claim_status
  cc_description :: string
  cc_photoUrls :: "string list"
  cc_adminNotes :: "string option"
  cc_refundAmountCents :: "int option"
  cc_replacementNotes :: "string option"
  cc_stripeRefundId :: "id option"
  cc_resolvedAt :: "time option"

record review_row =
  rv_id :: id
  rv_orderId :: id
  rv_authorId :: id
  rv_sellerId :: id
  rv_rating :: int
  rv_body :: string

record criterion_row =
  cr_reviewId :: id
  cr_criterion :: rating_criterion
  cr_value :: rat
  cr_sampleCount :: int

record idempotency_row =
  ik_id :: id
  ik_userId :: id
  ik_key :: string
  ik_requestHash :: string
  ik_responseStatus :: int
  ik_responseBody :: string
  ik_expiresAt :: time

record bookmark_row =
  bm_buyerId :: id
  bm_listingId :: id

record kyc_doc_row =
  kd_id :: id
  kd_userId :: id
  kd_type :: kyc_doc_type
  kd_fileUrl :: string
  kd_reviewState :: kyc_status
  kd_reviewerId :: "id option"
  kd_reviewedAt :: "time option"
  kd_rejectionReason :: "string option"
  kd_metadata :: "id_document_type option"
  kd_submittedAt :: time

record report_row =
  rp_id :: id
  rp_reporterId :: id
  rp_targetType :: string
  rp_targetId :: id
  rp_reason :: report_reason
  rp_description :: "string option"
  rp_status :: report_status
  rp_reviewedBy :: "id option"
  rp_adminNote :: "string option"

record business_row =
  bu_userId :: id
  bu_businessName :: string
  bu_siret :: "string option"
  bu_facadeUrl :: "string option"
  bu_legalForm :: "string option"

record opening_row =
  oh_sellerId :: id
  oh_dayOfWeek :: day_of_week
  oh_startTime :: int
  oh_endTime :: int

record cuisine_row =
  sc_userId :: id
  sc_cuisineType :: cuisine_type

record dish_row =
  sd_userId :: id
  sd_dishType :: dish_type

record zone_row =
  dz_userId :: id
  dz_zoneId :: id

subsection \<open>What leaves the process\<close>

text \<open>
  Redis publications, pushes, durable jobs and the Stripe calls that succeeded, in the
  order the code makes them. A publication or a push that fails is swallowed by the code,
  so the entry records the attempt. A push names its recipients, its \<open>type\<close> tag and the
  order (or delivery) it is about.
\<close>

datatype effect =
  PubOrderStatus id order_status
  | PubDeliveryCancelled id id id string string
  | PubDriverLocation id point
  | Push "id list" string id
  | Enqueue string id int string
  | StripePaymentIntent id int id
  | StripeRefund id id id
  | StripeTransfer id id int id
  | StripeCatalogIntent id int id
  | StripeCatalogRefund id id int id
  | PubMessage id id
  | AuthUserUpdate id string string
  | AuthEmailOtp string bool
  | SmsOtp string
  | StripeAccountCreated id id

subsection \<open>Database\<close>

record db =
  t_users :: "user_row list"
  t_sellers :: "seller_row list"
  t_drivers :: "driver_row list"
  t_listings :: "listing_row list"
  t_addOns :: "addon_row list"
  t_addresses :: "address_row list"
  t_orders :: "order_row list"
  t_deliveries :: "delivery_row list"
  t_wallet :: "wallet_row list"
  t_strikes :: "strike_row list"
  t_disputes :: "dispute_row list"
  t_issues :: "issue_row list"
  t_audit :: "audit_row list"
  t_legalDocs :: "legal_doc_row list"
  t_charters :: "charter_row list"
  t_conversations :: "conversation_row list"
  t_catalogOrders :: "catalog_order_row list"
  t_participants :: "participant_row list"
  t_messages :: "message_row list"
  t_catalogProducts :: "catalog_product_row list"
  t_catalogClaims :: "catalog_claim_row list"
  t_reviews :: "review_row list"
  t_criteria :: "criterion_row list"
  t_idempotency :: "idempotency_row list"
  t_bookmarks :: "bookmark_row list"
  t_kycDocs :: "kyc_doc_row list"
  t_reports :: "report_row list"
  t_buyers :: "buyer_row list"
  t_businesses :: "business_row list"
  t_openings :: "opening_row list"
  t_sellerCuisines :: "cuisine_row list"
  t_sellerDishes :: "dish_row list"
  t_driverZones :: "zone_row list"
  timers :: "(string \<times> int) list"
  out :: "effect list"

subsection \<open>Request environment\<close>

text \<open>
  What one request sees of the world outside the repository's code: the clock, whether
  \<open>NODE_ENV\<close> is \<open>development\<close>, the ids the \<open>ulid\<close> package generates for each purpose, the
  random token, and the answers of Stripe (\<open>Inl\<close> is a thrown error). \<open>e_refundWriteOk\<close> and
  \<open>e_piWriteOk\<close> say whether the two database writes the code guards with its own
  \<open>try/catch\<close> succeed. The remaining fields are the environment variables the services
  read once, with the meaning and the defaults given where they are used.
\<close>

datatype id_purpose =
  ForOrder | ForAddress | ForItem nat | ForItemAddOn nat nat | ForDelivery
  | ForSellerEarning | ForCommission | ForDriverEarning | ForCompensation | ForDebt
  | ForWithdrawal | ForWithdrawalEntry | ForStrike | ForDispute | ForIssue | ForConversation
  | ForParticipant nat | ForMessage | ForReview | ForListing | ForListingAddOn nat
  | ForCatalogProduct | ForCatalogOrder | ForCatalogItem nat | ForCatalogClaim | ForKycDoc
  | ForReport | ForLegalDoc | ForIdempotency | ForUser | ForUpload | ForDevice

record env =
  e_now :: time
  e_isDev :: bool
  e_ulid :: "id_purpose \<Rightarrow> id"
  e_token :: string
  e_orderCode :: string
  e_custRetrieve :: "id \<Rightarrow> bool option"
  e_custCreate :: "string + id"
  e_piCreate :: "string + (id \<times> string option)"
  e_piWriteOk :: bool
  e_piRetrieve :: "id \<Rightarrow> string option"
  e_refundCreate :: "id \<Rightarrow> string + id"
  e_refundWriteOk :: bool
  e_transferCreate :: "string + id"
  e_deliveryFeeCents :: int
  e_platformFeeBps :: int
  e_walletReleaseHours :: int
  e_noDriverMinutes :: int
  e_noDriverResponseMinutes :: int
  e_driverDeliveryMinutes :: int

subsection \<open>Exceptions\<close>

text \<open>
  The NestJS exception classes the services throw, with one reason per message of the
  source (template arguments become constructor arguments). \<open>UncaughtError\<close> is any error that is
  no HTTP exception: a \<open>TypeError\<close>, a failed call of Stripe that nothing catches. The reasons are grouped by
  the part of the code that throws them.
\<close>

datatype entity =
  UserProfile | AnOrder | ADelivery | ADispute | DropoffAddress | OrderDelivery | AListing
  | ASeller | AProduct | ACatalogOrder | ACatalogClaim | APeerUser | AParticipant | AReviewer
  | AKycDocument | AnAddress | AReport | ALegalDocument | AnAdminAccount | ARoleProfile
  | AnyUser

datatype buyer_reason =
  CompleteBuyerProfile | DeletedUser | BuyerSuspended | TermsNotAccepted
  | ScheduledAtRequired | ScheduledAtOnlyScheduled | ItemNotForDelivery | ItemNotForPickup
  | ExactlyOneAddress | AddressNotYours

datatype cart_reason =
  ListingsNotFound | SeveralSellers | SellerNotFound | SellerNotApproved
  | SellerAccountUnavailable | SellerSuspended | SellerNotAccepting | SellerFeeMissing
  | ListingUnavailable string | ListingNotAvailable string | ListingNoLongerAvailable string
  | UnknownAddOn id | AddOnOtherListing id id | OutOfStock string

datatype pay_reason =
  ProviderUnavailable | MissingClientSecret | MoneyMathMismatch | PaymentNotCompleted
  | InDebt | InsufficientBalance int | PayoutSetupRequired | TransferFailed string

datatype party_reason =
  CannotConfirmOthers | CannotViewOthers | CannotTrackOthers | OtherSellersOrder | OrderNotYours
  | OnlyBuyerDecides | OnlyPartiesConfirmPickup

datatype state_reason =
  WrongStatus order_status | PickupQrDeliveryOnly | NotReadyForPickup | NotInDelivery
  | PickupNotConfirmed | NoDecisionRequired | OrderAlreadyResolved | PickupAlreadyConfirmed
  | CannotCancelOrder | ConfirmPickupPickupOnly | ConfirmDeliveryDeliveryOnly

datatype claim_reason =
  NotYetPaid | ClaimWindowPassed | ProofRequired | DescriptionRequired | DisputeAlreadyOpen
  | DisputeTypeUnsupported

datatype driver_reason =
  OnlyDrivers | DriverSuspended | DriverKycRequired | OtherDriversDelivery
  | NotAssignedToDriver | DeliveryNoLongerAvailable | WrongDeliveryStatus delivery_status
  | PickupAlreadyScanned | NotReadyForScan | InvalidQrCode | DeliveryAlreadyConfirmed
  | PhotoRequired | GpsRequired | AlreadyReported

datatype listing_reason =
  OnlySellersManageListings | KycNotApproved | SubscriptionInactive | SellerAccountSuspended
  | CompleteSellerProfile | AcceptTermsFirst | TooManyImages | OriginalBelowPrice
  | PriceCapExceeded | PortionsRequired | ExpiryRequired | DishTypesNotAllowed "dish_type list"
  | NoneWithAllergens | AllergensRequired | OtherSellersListing

datatype listing_query_reason =
  InvalidDate | DateNotInFuture | LatLngTogether | DistanceNeedsLocation

datatype review_reason =
  NotYourOrder | ReviewWrongStatus order_status | AlreadyReviewed
  | ScoreOutOfRange rating_criterion | BinaryCriterion rating_criterion

datatype sub_reason =
  PlanNotConfigured | OnlySellersSubscribe | SubscriptionAlreadyActive | NoBillingAccount
  | OnlySellersPortal | InvalidWebhookAuth

datatype seller_reason =
  OnlySellersUpdateProfile | PrepRange | RadiusTooLarge int | NoBusinessForFaitMaison
  | SiretRequired | SiretInvalid | DishTypeRequired

datatype catalog_reason =
  OnlySellersPurchase | ProductsUnavailable | MixedCurrencies | OrderHasNoPayment
  | CatalogPaymentNotCompleted | NotYourCatalogOrder | NotEligibleForClaim
  | ClaimWindowOver | ClaimAlreadyOpen | OrderAlreadyRefunded

datatype chat_reason =
  EmptyMessage | MessageTooLong | NotParticipant | SupportNeedsPeer | PeerOrOrderRequired
  | NotOrderParty | NoDriverAssigned | OnlyBuyerOrDriver | OnlySellerOrDriver
  | OnlyBuyerOrSeller | TypeNeedsOrderOrPeer conversation_type | SelfConversation

datatype kyc_reason =
  KycRolesOnly | SellerProfileMissing | FaitMaisonNoKyc | SellerDocNotAllowed kyc_doc_type
  | DriverProfileMissing | VehicleTypeFirst | MotorizedOnly kyc_doc_type | IdTypeRequired
  | DocAlreadyIn kyc_status | OnboardingRolesOnly | RoleProfileMissing | SignFailed

datatype account_reason =
  IdempotencyKeyRequired | ProfileExists | EmailRequired | EmailTaken | AddressKindReserved address_kind user_role
  | IdempotencyKeyReused | TargetRequired | NonFaitMaisonNeedsListing | OnlyFaitMaisonListings
  | AlreadyReported2 | BadReportStatus | VersionExists charter_kind string
  | OnlyDriversUpdate | DriverTooYoung | OnlyBuyersPreferences | UnknownAddressKind string
  | CategoryRequired | CityRequired

datatype auth_reason =
  SignupTimedOut | ConfirmEmailFirst | AuthMessage string | InvalidCredentials
  | RefreshTokenInvalid | UnsupportedProvider | EmailUsed | SocialCodeInvalid
  | PhoneCodeInvalid | PhoneCodeExpired | PhoneAlreadyUsed | SmsNotSent | AuthServiceError
  | PreludeUnavailable | CodeSendFailed | CodeCheckFailed | MissingAuthHeader | BearerExpected
  | TokenPayloadInvalid | TokenMalformed | TokenSecretMissing | TokenKidMissing
  | TokenAlgUnsupported string | TokenInvalid

datatype file_reason =
  UploadNotAllowed string user_role | UploadNoKyc | UploadNoFacade | UploadUrlFailed

datatype connect_reason =
  ConnectUrlsMissing | ConnectRolesOnly | ConnectNotEnabled | ConnectUnavailable

datatype reason =
  Listing listing_reason | ListingQuery listing_query_reason | Review review_reason
  | Sub sub_reason | Seller seller_reason | Catalog catalog_reason | Chat chat_reason
  | Kyc kyc_reason | Account account_reason
  | Auth auth_reason | Connect connect_reason | File file_reason |
  Buyer buyer_reason | Cart cart_reason | Pay pay_reason | Party party_reason
  | State state_reason | Claim claim_reason | Driver driver_reason

datatype exn =
  NotFound entity | BadRequest reason | Forbidden reason | Conflict reason
  | ServiceUnavailable reason | InternalError reason | Unauthorized reason
  | BusinessRule reason | TooManyRequests reason | PrismaValidation | PrismaConflict
  | UncaughtError

subsection \<open>Access to the tables\<close>

definition getUser :: "db \<Rightarrow> id \<Rightarrow> user_row option" where
  "getUser s i = findRow u_id i (t_users s)"

definition getUserBySupabase :: "db \<Rightarrow> id \<Rightarrow> user_row option" where
  "getUserBySupabase s i = findRow u_supabaseId i (t_users s)"

definition getSeller :: "db \<Rightarrow> id \<Rightarrow> seller_row option" where
  "getSeller s i = findRow sp_userId i (t_sellers s)"

definition getDriver :: "db \<Rightarrow> id \<Rightarrow> driver_row option" where
  "getDriver s i = findRow dp_userId i (t_drivers s)"

definition getListing :: "db \<Rightarrow> id \<Rightarrow> listing_row option" where
  "getListing s i = findRow l_id i (t_listings s)"

definition getBuyerProfile :: "db \<Rightarrow> id \<Rightarrow> buyer_row option" where
  "getBuyerProfile s i = findRow bp_userId i (t_buyers s)"

definition getOrder :: "db \<Rightarrow> id \<Rightarrow> order_row option" where
  "getOrder s i = findRow o_id i (t_orders s)"

definition getDelivery :: "db \<Rightarrow> id \<Rightarrow> delivery_row option" where
  "getDelivery s i = findRow d_id i (t_deliveries s)"

definition getDispute :: "db \<Rightarrow> id \<Rightarrow> dispute_row option" where
  "getDispute s i = findRow dis_id i (t_disputes s)"

definition updUser :: "id \<Rightarrow> (user_row \<Rightarrow> user_row) \<Rightarrow> db \<Rightarrow> db" where
  "updUser i f s = s\<lparr>t_users := updRow u_id i f (t_users s)\<rparr>"

definition updSeller :: "id \<Rightarrow> (seller_row \<Rightarrow> seller_row) \<Rightarrow> db \<Rightarrow> db" where
  "updSeller i f s = s\<lparr>t_sellers := updRow sp_userId i f (t_sellers s)\<rparr>"

definition updDriver :: "id \<Rightarrow> (driver_row \<Rightarrow> driver_row) \<Rightarrow> db \<Rightarrow> db" where
  "updDriver i f s = s\<lparr>t_drivers := updRow dp_userId i f (t_drivers s)\<rparr>"

definition updOrder :: "id \<Rightarrow> (order_row \<Rightarrow> order_row) \<Rightarrow> db \<Rightarrow> db" where
  "updOrder i f s = s\<lparr>t_orders := updRow o_id i f (t_orders s)\<rparr>"

definition updDelivery :: "id \<Rightarrow> (delivery_row \<Rightarrow> delivery_row) \<Rightarrow> db \<Rightarrow> db" where
  "updDelivery i f s = s\<lparr>t_deliveries := updRow d_id i f (t_deliveries s)\<rparr>"

definition updDispute :: "id \<Rightarrow> (dispute_row \<Rightarrow> dispute_row) \<Rightarrow> db \<Rightarrow> db" where
  "updDispute i f s = s\<lparr>t_disputes := updRow dis_id i f (t_disputes s)\<rparr>"

definition emit :: "effect \<Rightarrow> db \<Rightarrow> db" where
  "emit e s = s\<lparr>out := out s @ [e]\<rparr>"

text \<open>
  The newest delivery of an order, \<open>deliveries: { orderBy: { createdAt: 'desc' }, take: 1 }\<close>:
  the table is in creation order.
\<close>

definition latestDelivery :: "db \<Rightarrow> id \<Rightarrow> delivery_row option" where
  "latestDelivery s oid = List.find (\<lambda>d. d_orderId d = oid) (rev (t_deliveries s))"

interpretation usr: row_store u_id getUser updUser
  by unfold_locales
    (auto simp: getUser_def updUser_def findRow_updRow updRow_absent dest: findRow_Some_key)

interpretation sel: row_store sp_userId getSeller updSeller
  by unfold_locales
    (auto simp: getSeller_def updSeller_def findRow_updRow updRow_absent dest: findRow_Some_key)

interpretation drv: row_store dp_userId getDriver updDriver
  by unfold_locales
    (auto simp: getDriver_def updDriver_def findRow_updRow updRow_absent dest: findRow_Some_key)

interpretation ord: row_store o_id getOrder updOrder
  by unfold_locales
    (auto simp: getOrder_def updOrder_def findRow_updRow updRow_absent dest: findRow_Some_key)

interpretation del: row_store d_id getDelivery updDelivery
  by unfold_locales
    (auto simp: getDelivery_def updDelivery_def findRow_updRow updRow_absent dest: findRow_Some_key)

interpretation dis: row_store dis_id getDispute updDispute
  by unfold_locales
    (auto simp: getDispute_def updDispute_def findRow_updRow updRow_absent dest: findRow_Some_key)

lemmas get_put_simps = usr.get_put sel.get_put drv.get_put ord.get_put del.get_put dis.get_put

end
