(* ===== verification/Pricing.thy ===== *)
theory Pricing
  imports Model
begin

section \<open>Order pricing\<close>

text \<open>
  \<open>src/common/constants/pricing.constants.ts\<close>: the commission and fee arithmetic, in
  cents. JavaScript computes \<open>x * bps / 10_000\<close> in binary floating point and rounds it with
  \<open>Math.round\<close>, the floor of the argument plus one half. For cents amounts the product is
  far below \<open>2 ^ 53\<close>, so it is exact, and a quotient that is not a tie is at least
  \<open>1 / 10_000\<close> away from one, more than the rounding of the division: the result is the one
  of exact arithmetic, which is what \<open>roundDiv\<close> computes.
\<close>

definition roundDiv :: "int \<Rightarrow> int \<Rightarrow> int" where
  "roundDiv n d = (2 * n + d) div (2 * d)"

lemma roundDiv_floor:
  assumes "0 < d"
  shows "roundDiv n d = \<lfloor>real_of_int n / real_of_int d + 1 / 2\<rfloor>"
proof -
  have "real_of_int n / real_of_int d + 1 / 2 = real_of_int (2 * n + d) / real_of_int (2 * d)"
    using assms by (simp add: field_simps)
  then show ?thesis
    by (simp only: roundDiv_def floor_divide_of_int_eq)
qed

lemma roundDiv_bounds:
  assumes "0 < d"
  shows "2 * d * roundDiv n d \<le> 2 * n + d" and "2 * n < 2 * d * roundDiv n d + d"
proof -
  have "(2 * n + d) = 2 * d * ((2 * n + d) div (2 * d)) + (2 * n + d) mod (2 * d)"
    by simp
  moreover have "0 \<le> (2 * n + d) mod (2 * d)" "(2 * n + d) mod (2 * d) < 2 * d"
    using assms by simp_all
  ultimately show "2 * d * roundDiv n d \<le> 2 * n + d" "2 * n < 2 * d * roundDiv n d + d"
    unfolding roundDiv_def by linarith+
qed

lemma roundDiv_nonneg: "0 < d \<Longrightarrow> 0 \<le> n \<Longrightarrow> 0 \<le> roundDiv n d"
  by (simp add: roundDiv_def pos_imp_zdiv_nonneg_iff)

lemma roundDiv_mono: "0 < d \<Longrightarrow> m \<le> n \<Longrightarrow> roundDiv m d \<le> roundDiv n d"
  by (simp add: roundDiv_def zdiv_mono1)

subsection \<open>Environment overrides\<close>

text \<open>
  \<open>envInt\<close> reads a non-negative integer variable. \<open>Number\<close> is the language's string to
  number conversion; its result is a rational, or none for \<open>NaN\<close> and the infinities
  (\<open>Number.isFinite\<close> fails on both).
\<close>

definition envInt :: "(string \<Rightarrow> rat option) \<Rightarrow> string option \<Rightarrow> int \<Rightarrow> int" where
  "envInt Number raw fallback =
    (if raw = None \<or> raw = Some [] then fallback
     else case Number (the raw) of
         None \<Rightarrow> fallback
       | Some n \<Rightarrow> if 0 \<le> n then \<lfloor>n + 1 / 2\<rfloor> else fallback)"

definition COMMISSION_RATE_BPS_STANDARD :: int where
  "COMMISSION_RATE_BPS_STANDARD = 3000"

definition COMMISSION_RATE_BPS_PREMIUM :: int where
  "COMMISSION_RATE_BPS_PREMIUM = 2500"

definition COMMISSION_MIN_CENTS :: int where
  "COMMISSION_MIN_CENTS = 100"

text \<open>The flat delivery fee and the buyer fee rate, as the variables override them.\<close>

definition DELIVERY_FEE_CENTS :: "(string \<Rightarrow> rat option) \<Rightarrow> (string \<Rightarrow> string option) \<Rightarrow> int" where
  "DELIVERY_FEE_CENTS Number getenv =
    envInt Number (getenv ''DELIVERY_FEE_CENTS'')
      (envInt Number (getenv ''DEFAULT_DELIVERY_FEE_CENTS'') 500)"

definition PLATFORM_BUYER_FEE_BPS :: "(string \<Rightarrow> rat option) \<Rightarrow> (string \<Rightarrow> string option) \<Rightarrow> int" where
  "PLATFORM_BUYER_FEE_BPS Number getenv = envInt Number (getenv ''PLATFORM_BUYER_FEE_BPS'') 500"

lemma envInt_nonneg: "0 \<le> fallback \<Longrightarrow> 0 \<le> envInt Number raw fallback"
  by (auto simp: envInt_def split: option.splits)

subsection \<open>The price split\<close>

record order_totals =
  subtotalCents :: int
  fulfillmentFeeCents :: int
  commissionRateBps :: int
  commissionCents :: int
  sellerEarningsCents :: int
  platformBuyerFeeCents :: int
  buyerTotalCents :: int

definition priceOrder :: "int \<Rightarrow> int \<Rightarrow> int \<Rightarrow> bool \<Rightarrow> bool \<Rightarrow> exn + order_totals" where
  "priceOrder deliveryFee platformBps subtotal isPremium isDelivery =
    (let fee = (if isDelivery then deliveryFee else 0);
         rate = (if isPremium then COMMISSION_RATE_BPS_PREMIUM else COMMISSION_RATE_BPS_STANDARD);
         commission = max (roundDiv (subtotal * rate) 10000) COMMISSION_MIN_CENTS;
         earnings = subtotal - commission;
         platformFee = roundDiv ((subtotal + fee) * platformBps) 10000;
         total = subtotal + fee + platformFee
     in if commission + earnings + fee + platformFee \<noteq> total
        then Inl (InternalError (Pay MoneyMathMismatch))
        else Inr \<lparr>subtotalCents = subtotal, fulfillmentFeeCents = fee,
                  commissionRateBps = rate, commissionCents = commission,
                  sellerEarningsCents = earnings, platformBuyerFeeCents = platformFee,
                  buyerTotalCents = total\<rparr>)"

text \<open>What a split that adds up is: everything the buyer pays has exactly one destination.\<close>

definition split_ok :: "order_totals \<Rightarrow> bool" where
  "split_ok t \<longleftrightarrow>
     commissionCents t + sellerEarningsCents t = subtotalCents t \<and>
     subtotalCents t + fulfillmentFeeCents t + platformBuyerFeeCents t = buyerTotalCents t"

lemma priceOrder_eq:
  "priceOrder deliveryFee platformBps subtotal isPremium isDelivery =
    (let fee = (if isDelivery then deliveryFee else 0);
         rate = (if isPremium then COMMISSION_RATE_BPS_PREMIUM else COMMISSION_RATE_BPS_STANDARD);
         commission = max (roundDiv (subtotal * rate) 10000) COMMISSION_MIN_CENTS;
         platformFee = roundDiv ((subtotal + fee) * platformBps) 10000
     in Inr \<lparr>subtotalCents = subtotal, fulfillmentFeeCents = fee,
             commissionRateBps = rate, commissionCents = commission,
             sellerEarningsCents = subtotal - commission, platformBuyerFeeCents = platformFee,
             buyerTotalCents = subtotal + fee + platformFee\<rparr>)"
  by (simp add: priceOrder_def Let_def)

lemma priceOrder_cases:
  assumes "priceOrder fee bps sub prem dlv = r"
  obtains t where "r = Inr t" and "split_ok t" and "subtotalCents t = sub"
    and "fulfillmentFeeCents t = (if dlv then fee else 0)"
    and "commissionCents t =
      max (roundDiv (sub * commissionRateBps t) 10000) COMMISSION_MIN_CENTS"
    and "commissionRateBps t =
      (if prem then COMMISSION_RATE_BPS_PREMIUM else COMMISSION_RATE_BPS_STANDARD)"
    and "platformBuyerFeeCents t = roundDiv ((sub + fulfillmentFeeCents t) * bps) 10000"
  by (rule that [OF assms [symmetric, unfolded priceOrder_eq Let_def]]) (simp_all add: split_ok_def)

lemma priceOrder_ok: "\<exists>t. priceOrder fee bps sub prem dlv = Inr t"
  by (rule priceOrder_cases [of fee bps sub prem dlv]) auto

text \<open>The money check in \<open>priceOrder\<close> never fires: for any subtotal, fees and tier the
  function returns a split, and in it the commission and the seller's earnings make up the
  subtotal, and subtotal, delivery fee and platform fee make up the buyer's total.\<close>

theorem priceOrder_total_split:
  "\<exists>t. priceOrder fee bps sub prem dlv = Inr t \<and> subtotalCents t = sub \<and>
     commissionCents t + sellerEarningsCents t = sub \<and>
     sellerEarningsCents t + commissionCents t + fulfillmentFeeCents t
       + platformBuyerFeeCents t = buyerTotalCents t"
  by (rule priceOrder_cases [of fee bps sub prem dlv]) (auto simp: split_ok_def)

text \<open>Bounds of the split for the rates in use. For a subtotal of at least one euro, a
  non-negative delivery fee and a non-negative platform rate, the seller's earnings lie
  between zero and the subtotal less one euro, the commission is at least the rate's share
  of the subtotal rounded to a cent, and the buyer never pays less than dishes plus
  delivery.\<close>

theorem priceOrder_bounds:
  assumes "priceOrder fee bps sub prem dlv = Inr t"
    and "100 \<le> sub" and "0 \<le> fee" and "0 \<le> bps"
  shows "0 \<le> sellerEarningsCents t \<and> sellerEarningsCents t \<le> sub - 100 \<and>
    20000 * commissionCents t \<ge> 2 * sub * commissionRateBps t - 10000 \<and>
    sub + fulfillmentFeeCents t \<le> buyerTotalCents t"
proof -
  obtain t' where t': "Inr t = (Inr t' :: exn + order_totals)" and ok: "split_ok t'"
    and sub: "subtotalCents t' = sub"
    and fee: "fulfillmentFeeCents t' = (if dlv then fee else 0)"
    and com: "commissionCents t' = max (roundDiv (sub * commissionRateBps t') 10000) COMMISSION_MIN_CENTS"
    and rate: "commissionRateBps t' =
      (if prem then COMMISSION_RATE_BPS_PREMIUM else COMMISSION_RATE_BPS_STANDARD)"
    and plat: "platformBuyerFeeCents t' = roundDiv ((sub + fulfillmentFeeCents t') * bps) 10000"
    using priceOrder_cases [OF assms(1)] .
  let ?r = "roundDiv (sub * commissionRateBps t') 10000"
  have low: "2 * (sub * commissionRateBps t') < 20000 * ?r + 10000"
    and high: "20000 * ?r \<le> 2 * (sub * commissionRateBps t') + 10000"
    using roundDiv_bounds [of 10000 "sub * commissionRateBps t'"] by simp_all
  have "sub * commissionRateBps t' \<le> sub * 3000"
    using assms(2) rate
    by (intro mult_left_mono)
      (auto simp: COMMISSION_RATE_BPS_PREMIUM_def COMMISSION_RATE_BPS_STANDARD_def)
  with high assms(2) have "?r \<le> sub" by linarith
  moreover have "0 \<le> platformBuyerFeeCents t'"
    unfolding plat by (rule roundDiv_nonneg) (use assms fee in auto)
  moreover have "commissionCents t' = max ?r 100"
    using com by (simp add: COMMISSION_MIN_CENTS_def)
  moreover have "commissionCents t' + sellerEarningsCents t' = sub"
    and "sub + fulfillmentFeeCents t' + platformBuyerFeeCents t' = buyerTotalCents t'"
    using ok sub by (simp_all add: split_ok_def)
  moreover have "t = t'" using t' by simp
  ultimately show ?thesis
    using low assms(2) by (auto simp: max_def split: if_splits)
qed

theorem priceOrder_bounds_witness:
  "\<exists>t. priceOrder 500 500 1200 False True = Inr t \<and> 0 \<le> sellerEarningsCents t \<and>
     buyerTotalCents t = 1785 \<and> sellerEarningsCents t = 840"
proof -
  let ?t = "\<lparr>subtotalCents = 1200, fulfillmentFeeCents = 500, commissionRateBps = 3000,
    commissionCents = 360, sellerEarningsCents = 840, platformBuyerFeeCents = 85,
    buyerTotalCents = 1785\<rparr>"
  have "priceOrder 500 500 1200 False True = Inr ?t"
    by (simp add: priceOrder_def Let_def roundDiv_def COMMISSION_RATE_BPS_STANDARD_def
        COMMISSION_MIN_CENTS_def)
  with priceOrder_bounds [OF this] show ?thesis by simp
qed

end
