(* ===== verification/Inventory.thy ===== *)
theory Inventory
  imports Model
begin

section \<open>Inventory\<close>

text \<open>
  The stock of a listing (\<open>portionsLeft\<close>, null for a dish cooked to order) is taken when an
  order is placed and given back when it is cancelled. Both directions of
  \<open>src/modules/orders/orders.service.ts\<close> first sum the quantities per listing in a
  JavaScript \<open>Map\<close> and then run one SQL update per listing; the same restoring loop occurs
  in every cancelling path and in the payment webhook. A cart line is the pair of a listing
  id and a quantity.
\<close>

type_synonym stock_line = "id \<times> int"

text \<open>\<open>m.set(id, (m.get(id) ?? 0) + quantity)\<close> over the lines.\<close>

primrec aggregateFrom :: "(id \<times> int) list \<Rightarrow> stock_line list \<Rightarrow> (id \<times> int) list" where
  "aggregateFrom m [] = m"
| "aggregateFrom m (x # xs) =
    aggregateFrom
      (AList.update (fst x) ((case map_of m (fst x) of None \<Rightarrow> 0 | Some q \<Rightarrow> q) + snd x) m) xs"

definition aggregate :: "stock_line list \<Rightarrow> (id \<times> int) list" where
  "aggregate xs = aggregateFrom [] xs"

text \<open>
  \<open>UPDATE "Listing" SET "portionsLeft" = "portionsLeft" - q WHERE "id" = i AND "portionsLeft" >= q\<close>:
  the number of rows it changed and the table. A comparison with a null is not true, so a
  row without a stock is not selected.
\<close>

definition hasStock :: "id \<Rightarrow> int \<Rightarrow> listing_row \<Rightarrow> bool" where
  "hasStock i q l \<longleftrightarrow>
    l_id l = i \<and> (case l_portionsLeft l of None \<Rightarrow> False | Some n \<Rightarrow> q \<le> n)"

definition takeStock :: "id \<Rightarrow> int \<Rightarrow> listing_row list \<Rightarrow> nat \<times> listing_row list" where
  "takeStock i q rows =
    (countWhere (hasStock i q) rows,
     updWhere (hasStock i q)
       (\<lambda>l. l\<lparr>l_portionsLeft := map_option (\<lambda>n. n - q) (l_portionsLeft l)\<rparr>) rows)"

text \<open>\<open>UPDATE "Listing" SET "portionsLeft" = 99 WHERE "id" = i\<close> (development only).\<close>

definition refillStock :: "id \<Rightarrow> listing_row list \<Rightarrow> listing_row list" where
  "refillStock i rows = updRow l_id i (\<lambda>l. l\<lparr>l_portionsLeft := Some 99\<rparr>) rows"

text \<open>
  The loop of \<open>atomicDecrementInventory\<close>: in development a failed take is retried once after
  a refill; a take that still changes no row throws, and the enclosing transaction rolls
  the earlier takes back.
\<close>

fun decrementLoop :: "bool \<Rightarrow> (id \<Rightarrow> string option) \<Rightarrow> (id \<times> int) list \<Rightarrow> listing_row list
    \<Rightarrow> exn + listing_row list" where
  "decrementLoop isDev nameById [] rows = Inr rows"
| "decrementLoop isDev nameById ((i, q) # wanted) rows =
    (let (updated, rows1) = takeStock i q rows;
         (updated2, rows2) =
           (if updated = 0 \<and> isDev then takeStock i q (refillStock i rows1) else (updated, rows1))
     in if updated2 = 0
        then Inl (Conflict (Cart (OutOfStock
               (case nameById i of None \<Rightarrow> ''Listing'' | Some nm \<Rightarrow> nm))))
        else decrementLoop isDev nameById wanted rows2)"

definition atomicDecrementInventory :: "bool \<Rightarrow> (id \<Rightarrow> string option) \<Rightarrow> stock_line list
    \<Rightarrow> listing_row list \<Rightarrow> exn + listing_row list" where
  "atomicDecrementInventory isDev nameById items rows =
    decrementLoop isDev nameById (aggregate items) rows"

text \<open>\<open>UPDATE "Listing" SET "portionsLeft" = "portionsLeft" + q WHERE "id" = i\<close>, per listing.\<close>

definition giveStock :: "id \<Rightarrow> int \<Rightarrow> listing_row list \<Rightarrow> listing_row list" where
  "giveStock i q rows =
    updRow l_id i (\<lambda>l. l\<lparr>l_portionsLeft := map_option (\<lambda>n. n + q) (l_portionsLeft l)\<rparr>) rows"

primrec restoreLoop :: "(id \<times> int) list \<Rightarrow> listing_row list \<Rightarrow> listing_row list" where
  "restoreLoop [] rows = rows"
| "restoreLoop (x # xs) rows = restoreLoop xs (giveStock (fst x) (snd x) rows)"

definition linesOf :: "item_row list \<Rightarrow> stock_line list" where
  "linesOf items = map (\<lambda>i. (i_listingId i, i_quantity i)) items"

definition restoreInventory :: "item_row list \<Rightarrow> listing_row list \<Rightarrow> listing_row list" where
  "restoreInventory items rows = restoreLoop (aggregate (linesOf items)) rows"

subsection \<open>Reference: quantities without the intermediate map\<close>

definition wantedOf :: "stock_line list \<Rightarrow> id \<Rightarrow> int" where
  "wantedOf xs i = sum_list (map snd (filter (\<lambda>x. fst x = i) xs))"

definition shiftStock :: "(id \<Rightarrow> int) \<Rightarrow> listing_row list \<Rightarrow> listing_row list" where
  "shiftStock g rows =
    map (\<lambda>l. l\<lparr>l_portionsLeft := map_option (\<lambda>n. n + g (l_id l)) (l_portionsLeft l)\<rparr>) rows"

lemma wantedOf_Nil [simp]: "wantedOf [] = (\<lambda>_. 0)"
  by (simp add: wantedOf_def fun_eq_iff)

lemma wantedOf_Cons [simp]: "wantedOf (x # xs) i = (if fst x = i then snd x else 0) + wantedOf xs i"
  by (simp add: wantedOf_def)

lemma wantedOf_absent: "i \<notin> fst ` set xs \<Longrightarrow> wantedOf xs i = 0"
  by (induction xs) auto

lemma map_of_aggregateFrom:
  "map_of (aggregateFrom m xs) i =
    (if i \<in> fst ` set xs
     then Some ((case map_of m i of None \<Rightarrow> 0 | Some q \<Rightarrow> q) + wantedOf xs i)
     else map_of m i)"
proof (induction xs arbitrary: m)
  case Nil
  then show ?case by simp
next
  case (Cons x xs)
  show ?case
    by (simp add: Cons.IH AList.update_conv' wantedOf_absent)
qed

lemma map_of_aggregate:
  "map_of (aggregate xs) i = (if i \<in> fst ` set xs then Some (wantedOf xs i) else None)"
  by (simp add: aggregate_def map_of_aggregateFrom)

lemma distinct_aggregateFrom:
  "distinct (map fst m) \<Longrightarrow> distinct (map fst (aggregateFrom m xs))"
  by (induction xs arbitrary: m) (simp_all add: AList.distinct_update)

lemma distinct_aggregate [simp]: "distinct (map fst (aggregate xs))"
  by (simp add: aggregate_def distinct_aggregateFrom)

lemma aggregate_iff: "(i, q) \<in> set (aggregate xs) \<longleftrightarrow> i \<in> fst ` set xs \<and> q = wantedOf xs i"
  using map_of_eq_Some_iff [OF distinct_aggregate, of xs i q]
  by (auto simp: map_of_aggregate split: if_splits)

lemma ball_aggregate:
  "(\<forall>x \<in> set (aggregate xs). P (fst x) (snd x)) \<longleftrightarrow> (\<forall>i \<in> fst ` set xs. P i (wantedOf xs i))"
  using aggregate_iff [of _ _ xs] by (metis prod.collapse fst_conv snd_conv)

lemma wantedOf_aggregate [simp]: "wantedOf (aggregate xs) = wantedOf xs"
proof
  have "wantedOf ys i = (case map_of ys i of None \<Rightarrow> 0 | Some q \<Rightarrow> q)"
    if "distinct (map fst ys)" for ys :: "stock_line list" and i
    using that by (induction ys) (auto simp: wantedOf_absent rev_image_eqI split: option.splits)
  from this [OF distinct_aggregate, of xs] show "wantedOf (aggregate xs) i = wantedOf xs i" for i
    by (cases "i \<in> fst ` set xs") (simp_all add: map_of_aggregate wantedOf_absent)
qed

subsection \<open>Both loops against the reference\<close>

lemma shiftStock_zero [simp]: "shiftStock (\<lambda>_. 0) rows = rows"
  by (induction rows) (simp_all add: shiftStock_def option.map_ident)

lemma shiftStock_shiftStock [simp]:
  "shiftStock g (shiftStock h rows) = shiftStock (\<lambda>i. h i + g i) rows"
  by (induction rows) (auto simp: shiftStock_def option.map_comp o_def add.assoc)

lemma map_l_id_shiftStock [simp]: "map l_id (shiftStock g rows) = map l_id rows"
  by (induction rows) (simp_all add: shiftStock_def)

lemma giveStock_shift: "giveStock i q rows = shiftStock (\<lambda>j. if j = i then q else 0) rows"
  by (induction rows) (auto simp: giveStock_def shiftStock_def updRow_def option.map_ident)

lemma restoreLoop_shift: "restoreLoop ws rows = shiftStock (wantedOf ws) rows"
  by (induction ws arbitrary: rows)
    (auto simp: giveStock_shift intro!: arg_cong2 [where f = shiftStock])

lemma restoreInventory_shift: "restoreInventory items rows = shiftStock (wantedOf (linesOf items)) rows"
  by (simp add: restoreInventory_def restoreLoop_shift)

lemma hasStock_shiftStock:
  "g i = 0 \<Longrightarrow> (\<exists>l \<in> set (shiftStock g rows). hasStock i q l) \<longleftrightarrow> (\<exists>l \<in> set rows. hasStock i q l)"
  by (auto simp: shiftStock_def hasStock_def split: option.splits) force+

lemma takeStock_shift:
  assumes "distinct (map l_id rows)" and "l \<in> set rows" and "hasStock i q l"
  shows "takeStock i q rows = (1, shiftStock (\<lambda>j. if j = i then - q else 0) rows)"
  using assms
proof (induction rows)
  case Nil
  then show ?case by simp
next
  case (Cons r rows)
  show ?case
  proof (cases "l_id r = i")
    case True
    with Cons.prems(1) have no: "\<forall>l' \<in> set rows. l_id l' \<noteq> i"
      by (metis distinct.simps(2) image_eqI list.set_map list.simps(9))
    with Cons.prems(2,3) have r: "hasStock i q r"
      by (auto simp: hasStock_def)
    from no have "countWhere (hasStock i q) rows = 0" "updWhere (hasStock i q) f rows = rows" for f
      by (auto simp: countWhere_def hasStock_def filter_empty_conv intro!: updWhere_none)
    moreover have "shiftStock (\<lambda>j. if j = i then - q else 0) rows = rows"
      using no by (induction rows) (auto simp: shiftStock_def option.map_ident)
    ultimately show ?thesis
      using r True by (simp add: takeStock_def countWhere_def updWhere_def shiftStock_def)
  next
    case False
    with Cons.prems have "takeStock i q rows = (1, shiftStock (\<lambda>j. if j = i then - q else 0) rows)"
      by (intro Cons.IH) (auto simp: hasStock_def)
    moreover have "\<not> hasStock i q r" using False by (simp add: hasStock_def)
    ultimately show ?thesis using False
      by (simp add: takeStock_def countWhere_def updWhere_def shiftStock_def option.map_ident)
  qed
qed

lemma takeStock_none:
  assumes "\<not> (\<exists>l \<in> set rows. hasStock i q l)"
  shows "takeStock i q rows = (0, rows)"
  using assms by (auto simp: takeStock_def countWhere_def filter_empty_conv intro!: updWhere_none)

lemma decrementLoop_Cons_prod:
  assumes "distinct (map l_id rows)"
  shows "decrementLoop False nm ((i, q) # ws) rows =
    (if \<exists>l \<in> set rows. hasStock i q l
     then decrementLoop False nm ws (shiftStock (\<lambda>j. if j = i then - q else 0) rows)
     else Inl (Conflict (Cart (OutOfStock (case nm i of None \<Rightarrow> ''Listing'' | Some n \<Rightarrow> n)))))"
  using takeStock_shift [OF assms] takeStock_none by (auto simp: Let_def)

lemma decrementLoop_prod:
  assumes "distinct (map fst ws)" and "distinct (map l_id rows)"
  shows "decrementLoop False nm ws rows = Inr rows' \<longleftrightarrow>
    (\<forall>x \<in> set ws. \<exists>l \<in> set rows. hasStock (fst x) (snd x) l) \<and>
    rows' = shiftStock (\<lambda>i. - wantedOf ws i) rows"
  using assms
proof (induction ws arbitrary: rows)
  case Nil
  then show ?case by auto
next
  case (Cons w ws)
  obtain i q where w: "w = (i, q)" by force
  let ?rows = "shiftStock (\<lambda>j. if j = i then - q else 0) rows"
  have fresh: "i \<notin> fst ` set ws" using Cons.prems(1) w by simp
  have IH: "decrementLoop False nm ws ?rows = Inr rows' \<longleftrightarrow>
    (\<forall>x \<in> set ws. \<exists>l \<in> set ?rows. hasStock (fst x) (snd x) l) \<and>
    rows' = shiftStock (\<lambda>i. - wantedOf ws i) ?rows"
    using Cons.prems by (intro Cons.IH) (auto simp: w)
  have "(\<forall>x \<in> set ws. \<exists>l \<in> set ?rows. hasStock (fst x) (snd x) l) \<longleftrightarrow>
    (\<forall>x \<in> set ws. \<exists>l \<in> set rows. hasStock (fst x) (snd x) l)"
  proof (rule ball_cong [OF refl])
    fix x assume "x \<in> set ws"
    with fresh have "(if fst x = i then - q else 0) = 0" by auto
    then show "(\<exists>l \<in> set ?rows. hasStock (fst x) (snd x) l) \<longleftrightarrow>
        (\<exists>l \<in> set rows. hasStock (fst x) (snd x) l)"
      by (rule hasStock_shiftStock)
  qed
  moreover have "shiftStock (\<lambda>i. - wantedOf ws i) ?rows = shiftStock (\<lambda>j. - wantedOf (w # ws) j) rows"
    by (auto simp: w intro!: arg_cong2 [where f = shiftStock])
  ultimately show ?case
    using IH unfolding w decrementLoop_Cons_prod [OF Cons.prems(2)] by auto
qed

text \<open>In production, placing an order takes stock all or nothing: for a cart and a listing
  table with distinct ids, the per-listing loop succeeds exactly when every listing of the
  cart tracks a stock of at least the summed quantity, and then every listing's stock has
  dropped by exactly the quantity the cart asks of it, other listings being unchanged.\<close>

theorem atomicDecrement_exact:
  assumes "distinct (map l_id rows)"
  shows "atomicDecrementInventory False nm items rows = Inr rows' \<longleftrightarrow>
    (\<forall>i \<in> fst ` set items. \<exists>l \<in> set rows. hasStock i (wantedOf items i) l) \<and>
    rows' = shiftStock (\<lambda>i. - wantedOf items i) rows"
  unfolding atomicDecrementInventory_def decrementLoop_prod [OF distinct_aggregate assms]
    ball_aggregate [where P = "\<lambda>i q. \<exists>l \<in> set rows. hasStock i q l"]
  by simp

lemma decrement_restore:
  assumes "distinct (map l_id rows)"
    and "atomicDecrementInventory False nm (linesOf items) rows = Inr rows'"
  shows "restoreInventory items rows' = rows"
proof -
  have "rows' = shiftStock (\<lambda>i. - wantedOf (linesOf items) i) rows"
    using assms(2) decrementLoop_prod [OF distinct_aggregate assms(1)]
    unfolding atomicDecrementInventory_def by simp
  then show ?thesis by (simp add: restoreInventory_shift)
qed

definition demo_listing :: "id \<Rightarrow> int option \<Rightarrow> listing_row" where
  "demo_listing i stock = \<lparr>l_id = i, l_sellerId = ''s'', l_name = ''dish'', l_imageUrls = [],
    l_priceCents = 900, l_portionsLeft = stock, l_isAvailable = True,
    l_fulfillment = Offers_Both, l_expiresAt = None, l_deletedAt = None, l_description = None,
    l_originalPriceCents = None, l_discountPercent = None, l_cuisineTypes = [], l_dishTypes = [],
    l_dietaryTags = [], l_allergens = [Al_Lait], l_otherAllergens = None, l_isVeg = False,
    l_menuCategory = None, l_category = SC_Restaurant, l_prepMinutes = 20, l_createdAt = 0\<rparr>"

theorem atomicDecrement_exact_witness:
  "atomicDecrementInventory False (\<lambda>_. None) [(''a'', 2), (''b'', 1), (''a'', 1)]
     [demo_listing ''a'' (Some 5), demo_listing ''b'' (Some 1)] =
   Inr [demo_listing ''a'' (Some 2), demo_listing ''b'' (Some 0)]"
  by (subst atomicDecrement_exact) (auto simp: demo_listing_def shiftStock_def hasStock_def)

text \<open>The restoring loop shared by every cancelling path adds back to each listing exactly
  the quantities the order's items took, however often a listing occurs among the items;
  a listing without a stock stays without one.\<close>

theorem restoreInventory_exact:
  "restoreInventory items rows =
    map (\<lambda>l. l\<lparr>l_portionsLeft :=
      map_option (\<lambda>n. n + (\<Sum>i \<leftarrow> items. if i_listingId i = l_id l then i_quantity i else 0))
        (l_portionsLeft l)\<rparr>) rows"
proof -
  have "wantedOf (linesOf items) j = (\<Sum>i \<leftarrow> items. if i_listingId i = j then i_quantity i else 0)"
    for j by (induction items) (simp_all add: linesOf_def)
  then show ?thesis
    by (simp add: restoreInventory_shift shiftStock_def)
qed

text \<open>A listing without a stock (the schema's \<open>null = "cook to order"\<close>) cannot be ordered
  outside development: whatever else is in the cart, taking its stock throws.\<close>

theorem cook_to_order_never_orderable:
  assumes "distinct (map l_id rows)" and "l \<in> set rows" and "l_portionsLeft l = None"
    and "l_id l \<in> fst ` set items"
  shows "\<exists>nm'. atomicDecrementInventory False nm items rows = Inl (Conflict (Cart (OutOfStock nm')))"
proof -
  have only: "l' = l" if "l' \<in> set rows" "l_id l' = l_id l" for l'
    using assms(1,2) that by (auto simp: distinct_map inj_on_def)
  have nostock: "\<not> (\<exists>l' \<in> set rows. hasStock (l_id l) (wantedOf items (l_id l)) l')"
    using only assms(3) by (metis (mono_tags, lifting) hasStock_def option.simps(4))
  have err: "(\<exists>r. decrementLoop False nm ws rs = Inr r) \<or>
      (\<exists>nm'. decrementLoop False nm ws rs = Inl (Conflict (Cart (OutOfStock nm'))))" for ws rs
    by (induction "False" nm ws rs rule: decrementLoop.induct) (auto simp: Let_def split: prod.splits)
  have "atomicDecrementInventory False nm items rows \<noteq> Inr r" for r
    using nostock assms(4) decrementLoop_prod [OF distinct_aggregate assms(1)]
      ball_aggregate [where P = "\<lambda>i q. \<exists>l \<in> set rows. hasStock i q l"]
    unfolding atomicDecrementInventory_def by blast
  with err [of "aggregate items" rows] show ?thesis
    unfolding atomicDecrementInventory_def by auto
qed

theorem cook_to_order_never_orderable_witness:
  "\<exists>nm'. atomicDecrementInventory False (\<lambda>_. None) [(''a'', 1)] [demo_listing ''a'' None]
     = Inl (Conflict (Cart (OutOfStock nm')))"
  by (rule cook_to_order_never_orderable [where l = "demo_listing ''a'' None"])
    (simp_all add: demo_listing_def)

end
