(* ===== verification/Wallet.thy ===== *)
theory Wallet
  imports Model
begin

section \<open>The wallet ledger\<close>

text \<open>
  \<open>src/modules/wallets/wallets.service.ts\<close>. Sellers and drivers are paid into a ledger of
  entries; an entry is credited PENDING when an order is delivered, released to AVAILABLE
  by a sweep after a safety window, and paid out by a withdrawal, the only operation that
  moves money (one Stripe transfer). Entries are never deleted. The unique constraint
  \<open>(orderId, userId, type)\<close> of the table, together with \<open>skipDuplicates\<close>, makes crediting
  idempotent; rows without an order id never collide on it.
\<close>

definition PLATFORM_USER_ID :: id where
  "PLATFORM_USER_ID = ''PLATFORM''"

definition WITHDRAWAL_MIN_CENTS :: int where
  "WITHDRAWAL_MIN_CENTS = 5000"

definition hourMs :: int where
  "hourMs = 60 * 60 * 1000"

subsection \<open>Inserting with skipDuplicates\<close>

definition conflicts :: "wallet_row \<Rightarrow> wallet_row \<Rightarrow> bool" where
  "conflicts r e \<longleftrightarrow> w_id r = w_id e \<or>
     w_orderId r \<noteq> None \<and> w_orderId r = w_orderId e \<and> w_userId r = w_userId e \<and> w_type r = w_type e"

fun createManySkip :: "wallet_row list \<Rightarrow> wallet_row list \<Rightarrow> nat \<times> wallet_row list" where
  "createManySkip [] table = (0, table)"
| "createManySkip (r # rs) table =
    (if list_ex (conflicts r) table then createManySkip rs table
     else (let (n, table') = createManySkip rs (table @ [r]) in (Suc n, table')))"

definition newEntry :: "env \<Rightarrow> id_purpose \<Rightarrow> id \<Rightarrow> id \<Rightarrow> wallet_type \<Rightarrow> int \<Rightarrow> wallet_status
    \<Rightarrow> time option \<Rightarrow> wallet_row" where
  "newEntry env p user oid ty amount status availableAt =
    \<lparr>w_id = e_ulid env p, w_userId = user, w_orderId = Some oid, w_type = ty,
     w_amountCents = amount, w_status = status, w_withdrawalId = None,
     w_availableAt = availableAt, w_releasedAt = None, w_transferId = None,
     w_createdAt = e_now env\<rparr>"

definition insertEntries :: "wallet_row list \<Rightarrow> db \<Rightarrow> db" where
  "insertEntries rows s = s\<lparr>t_wallet := snd (createManySkip rows (t_wallet s))\<rparr>"

subsection \<open>Crediting\<close>

text \<open>
  The delivered delivery with the newest \<open>deliveredAt\<close>. Postgres sorts nulls first in a
  descending order, so a missing timestamp counts as newest; of equal timestamps the
  model takes the first row.
\<close>

definition laterThan :: "time option \<Rightarrow> time option \<Rightarrow> bool" where
  "laterThan a b \<longleftrightarrow>
    (case b of None \<Rightarrow> False | Some tb \<Rightarrow> (case a of None \<Rightarrow> True | Some ta \<Rightarrow> tb < ta))"

definition latestDelivered :: "db \<Rightarrow> id \<Rightarrow> delivery_row option" where
  "latestDelivered s oid =
    (case filter (\<lambda>d. d_orderId d = oid \<and> d_status d = D_Delivered) (t_deliveries s) of
       [] \<Rightarrow> None
     | d # ds \<Rightarrow> Some (foldl (\<lambda>m x. if laterThan (d_deliveredAt x) (d_deliveredAt m) then x else m) d ds))"

definition creditRows :: "env \<Rightarrow> order_row \<Rightarrow> delivery_row option \<Rightarrow> wallet_row list" where
  "creditRows env ord dlv =
    (let disputed = (o_status ord = O_Disputed);
         deliveredAt = (case Option.bind dlv d_deliveredAt of None \<Rightarrow> e_now env | Some t \<Rightarrow> t);
         status = (if disputed then WS_Held else WS_Pending);
         availableAt = (if disputed then None
           else Some (deliveredAt + e_walletReleaseHours env * hourMs))
     in (if 0 < o_sellerEarningsCents ord
         then [newEntry env ForSellerEarning (o_sellerId ord) (o_id ord) WT_OrderEarning
                 (o_sellerEarningsCents ord) status availableAt] else []) @
        (if 0 < o_commissionCents ord
         then [newEntry env ForCommission PLATFORM_USER_ID (o_id ord) WT_Commission
                 (o_commissionCents ord) WS_Available (Some (e_now env))] else []) @
        (case Option.bind dlv d_driverId of
           None \<Rightarrow> []
         | Some driverId \<Rightarrow>
             if o_fulfillmentChoice ord = F_Delivery \<and> driverId \<noteq> [] \<and> 0 < o_fulfillmentFeeCents ord
             then [newEntry env ForDriverEarning driverId (o_id ord) WT_DeliveryEarning
                     (o_fulfillmentFeeCents ord) status availableAt] else []))"

definition creditForCompletedOrder :: "env \<Rightarrow> id \<Rightarrow> db \<Rightarrow> db" where
  "creditForCompletedOrder env oid s =
    (case getOrder s oid of
       None \<Rightarrow> s
     | Some ord \<Rightarrow>
         if o_status ord \<notin> {O_Delivered, O_Completed, O_Disputed} then s
         else insertEntries (creditRows env ord (latestDelivered s oid)) s)"

definition compensateDriver :: "env \<Rightarrow> id \<Rightarrow> id \<Rightarrow> int \<Rightarrow> db \<Rightarrow> db" where
  "compensateDriver env oid driverId amount s =
    (if amount \<le> 0 then s
     else insertEntries [newEntry env ForCompensation driverId oid WT_DeliveryEarning amount
            WS_Available (Some (e_now env))] s)"

definition creditSellerEarning :: "env \<Rightarrow> id \<Rightarrow> id \<Rightarrow> int \<Rightarrow> db \<Rightarrow> db" where
  "creditSellerEarning env oid sellerId amount s =
    (if amount \<le> 0 then s
     else insertEntries [newEntry env ForSellerEarning sellerId oid WT_OrderEarning amount
            WS_Available (Some (e_now env))] s)"

definition recordDriverDebt :: "env \<Rightarrow> id \<Rightarrow> id \<Rightarrow> int \<Rightarrow> db \<Rightarrow> db" where
  "recordDriverDebt env oid driverId amount s =
    (if amount \<le> 0 then s
     else insertEntries [newEntry env ForDebt driverId oid WT_DriverDebt (- amount)
            WS_Available (Some (e_now env))] s)"

text \<open>
  \<open>walletEntry.updateMany({ where: { orderId, type?, status: 'PENDING' }, data: { status:
  'CANCELLED' } })\<close>: the reversal the refund paths of the orders service run.
\<close>

definition cancelPending :: "(wallet_row \<Rightarrow> bool) \<Rightarrow> db \<Rightarrow> db" where
  "cancelPending p s = s\<lparr>t_wallet :=
     updWhere (\<lambda>e. p e \<and> w_status e = WS_Pending) (\<lambda>e. e\<lparr>w_status := WS_Cancelled\<rparr>) (t_wallet s)\<rparr>"

subsection \<open>The release sweep\<close>

definition due :: "time \<Rightarrow> wallet_row \<Rightarrow> bool" where
  "due now e \<longleftrightarrow> w_status e = WS_Pending \<and>
     (case w_availableAt e of None \<Rightarrow> False | Some t \<Rightarrow> t \<le> now) \<and>
     w_type e \<in> {WT_OrderEarning, WT_DeliveryEarning}"

definition orderStatusOf :: "db \<Rightarrow> id option \<Rightarrow> order_status option" where
  "orderStatusOf s oid =
    (if truthy oid then map_option o_status (getOrder s (the oid)) else None)"

definition releasable :: "db \<Rightarrow> wallet_row \<Rightarrow> bool" where
  "releasable s e \<longleftrightarrow> orderStatusOf s (w_orderId e) \<in> {Some O_Delivered, Some O_Completed}"

definition reversible :: "db \<Rightarrow> wallet_row \<Rightarrow> bool" where
  "reversible s e \<longleftrightarrow> orderStatusOf s (w_orderId e) \<in> {Some O_Cancelled, Some O_Refunded}"

definition releaseDuePendingEntries :: "time \<Rightarrow> db \<Rightarrow> nat \<times> db" where
  "releaseDuePendingEntries now s =
    (let dues = filter (due now) (t_wallet s);
         rel = filter (releasable s) dues;
         rev' = filter (reversible s) dues;
         relIds = map w_id rel; revIds = map w_id rev';
         w1 = (if rel = [] then t_wallet s
               else updWhere (\<lambda>e. w_id e \<in> set relIds \<and> w_status e = WS_Pending)
                      (\<lambda>e. e\<lparr>w_status := WS_Available, w_releasedAt := Some now\<rparr>) (t_wallet s));
         w2 = (if rev' = [] then w1
               else updWhere (\<lambda>e. w_id e \<in> set revIds \<and> w_status e = WS_Pending)
                      (\<lambda>e. e\<lparr>w_status := WS_Cancelled\<rparr>) w1)
     in (length rel,
         s\<lparr>t_wallet := w2,
           out := out s @ map (\<lambda>u. Push [u] ''wallet_funds_available'' []) (uniq (map w_userId rel))\<rparr>))"

subsection \<open>Reading\<close>

definition sumByStatus :: "db \<Rightarrow> id \<Rightarrow> wallet_status \<Rightarrow> int" where
  "sumByStatus s user st =
    sum_list (map w_amountCents (filter (\<lambda>e. w_userId e = user \<and> w_status e = st) (t_wallet s)))"

record wallet_summary =
  ws_availableCents :: int
  ws_pendingCents :: int
  ws_heldCents :: int
  ws_paidOutCents :: int
  ws_debtCents :: int
  ws_totalBalanceCents :: int
  ws_minWithdrawalCents :: int
  ws_canWithdraw :: bool
  ws_entries :: "wallet_row list"

text \<open>The wallet of the caller with the 50 newest entries.\<close>

definition walletSummary :: "id \<Rightarrow> db \<Rightarrow> exn + wallet_summary" where
  "walletSummary supabaseId s =
    (case getUserBySupabase s supabaseId of
       None \<Rightarrow> Inl (NotFound UserProfile)
     | Some user \<Rightarrow>
         let availableRaw = sumByStatus s (u_id user) WS_Available;
             pending = sumByStatus s (u_id user) WS_Pending;
             held = sumByStatus s (u_id user) WS_Held;
             paidOut = sumByStatus s (u_id user) WS_PaidOut;
             available = max 0 availableRaw;
             debt = (if availableRaw < 0 then - availableRaw else 0)
         in Inr \<lparr>ws_availableCents = available, ws_pendingCents = pending, ws_heldCents = held,
                 ws_paidOutCents = paidOut, ws_debtCents = debt,
                 ws_totalBalanceCents = availableRaw + pending + held,
                 ws_minWithdrawalCents = WITHDRAWAL_MIN_CENTS,
                 ws_canWithdraw = (debt = 0 \<and> available \<ge> WITHDRAWAL_MIN_CENTS),
                 ws_entries = take 50 (rev (sort_key w_createdAt
                   (filter (\<lambda>e. w_userId e = u_id user) (t_wallet s))))\<rparr>)"

text \<open>Admin: the order with its ledger entries, oldest first.\<close>

definition orderFinancials :: "id \<Rightarrow> db \<Rightarrow> exn + (order_row \<times> wallet_row list)" where
  "orderFinancials oid s =
    (case getOrder s oid of
       None \<Rightarrow> Inl (NotFound AnOrder)
     | Some ord \<Rightarrow> Inr (ord, sort_key w_createdAt (filter (\<lambda>e. w_orderId e = Some oid) (t_wallet s))))"

subsection \<open>Withdrawal\<close>

text \<open>
  A withdrawal reads the entries and checks the gates, calls Stripe, and only then settles
  the ledger in a transaction. The three parts are separate definitions because other
  requests can run between them.
\<close>

definition resolvePayoutTarget :: "id \<Rightarrow> user_role \<Rightarrow> db \<Rightarrow> id option \<times> bool" where
  "resolvePayoutTarget user role s =
    (if role = R_Driver
     then (case getDriver s user of None \<Rightarrow> (None, False)
           | Some d \<Rightarrow> (dp_stripeConnectAccountId d, dp_stripeOnboardingCompleted d))
     else (case getSeller s user of None \<Rightarrow> (None, False)
           | Some d \<Rightarrow> (sp_stripeConnectAccountId d, sp_stripeOnboardingCompleted d)))"

record payout_plan =
  pp_userId :: id
  pp_entryIds :: "id list"
  pp_totalCents :: int
  pp_account :: id

definition availableEntries :: "db \<Rightarrow> id \<Rightarrow> wallet_row list" where
  "availableEntries s user =
    filter (\<lambda>e. w_userId e = user \<and> w_status e = WS_Available) (t_wallet s)"

definition prepareWithdrawal :: "id \<Rightarrow> db \<Rightarrow> exn + payout_plan" where
  "prepareWithdrawal supabaseId s =
    (case getUserBySupabase s supabaseId of
       None \<Rightarrow> Inl (NotFound UserProfile)
     | Some user \<Rightarrow>
         let available = availableEntries s (u_id user);
             total = sum_list (map w_amountCents available);
             (account, onboarded) = resolvePayoutTarget (u_id user) (u_role user) s
         in if total < 0 then Inl (BadRequest (Pay InDebt))
            else if total < WITHDRAWAL_MIN_CENTS then Inl (BadRequest (Pay (InsufficientBalance total)))
            else if \<not> onboarded \<or> \<not> truthy account then Inl (Forbidden (Pay PayoutSetupRequired))
            else Inr \<lparr>pp_userId = u_id user, pp_entryIds = map w_id available,
                      pp_totalCents = total, pp_account = the account\<rparr>)"

definition settleWithdrawal :: "env \<Rightarrow> payout_plan \<Rightarrow> id \<Rightarrow> db \<Rightarrow> db" where
  "settleWithdrawal env plan transferId s = s\<lparr>t_wallet :=
     updWhere (\<lambda>e. w_id e \<in> set (pp_entryIds plan))
       (\<lambda>e. e\<lparr>w_status := WS_PaidOut, w_withdrawalId := Some (e_ulid env ForWithdrawal)\<rparr>) (t_wallet s) @
     [\<lparr>w_id = e_ulid env ForWithdrawalEntry, w_userId = pp_userId plan, w_orderId = None,
       w_type = WT_Withdrawal, w_amountCents = - pp_totalCents plan, w_status = WS_PaidOut,
       w_withdrawalId = Some (e_ulid env ForWithdrawal), w_availableAt = None,
       w_releasedAt = None, w_transferId = Some transferId, w_createdAt = e_now env\<rparr>]\<rparr>"

definition payWithdrawal :: "env \<Rightarrow> payout_plan \<Rightarrow> db \<Rightarrow> (exn, id \<times> int \<times> id, db) result" where
  "payWithdrawal env plan s =
    (case e_transferCreate env of
       Inl msg \<Rightarrow> fail (BadRequest (Pay (TransferFailed msg))) s
     | Inr transferId \<Rightarrow>
         ok (e_ulid env ForWithdrawal, pp_totalCents plan, transferId)
           (settleWithdrawal env plan transferId
             (emit (StripeTransfer (e_ulid env ForWithdrawal) (pp_account plan) (pp_totalCents plan)
               transferId) s)))"

definition requestWithdrawal :: "env \<Rightarrow> id \<Rightarrow> db \<Rightarrow> (exn, id \<times> int \<times> id, db) result" where
  "requestWithdrawal env supabaseId s =
    (case prepareWithdrawal supabaseId s of
       Inl e \<Rightarrow> fail e s
     | Inr plan \<Rightarrow> payWithdrawal env plan s)"

subsection \<open>Uniqueness\<close>

definition wallet_unique :: "wallet_row list \<Rightarrow> bool" where
  "wallet_unique t \<longleftrightarrow> sorted_wrt (\<lambda>a b. \<not> conflicts a b) t"

lemma conflicts_sym: "conflicts a b \<Longrightarrow> conflicts b a"
  by (auto simp: conflicts_def)

lemma wallet_unique_Nil [simp]: "wallet_unique []"
  by (simp add: wallet_unique_def)

lemma wallet_unique_snoc:
  "wallet_unique (t @ [r]) \<longleftrightarrow> wallet_unique t \<and> \<not> list_ex (conflicts r) t"
  by (auto simp: wallet_unique_def sorted_wrt_append list_ex_iff dest: conflicts_sym)

lemma createManySkip_unique: "wallet_unique t \<Longrightarrow> wallet_unique (snd (createManySkip rs t))"
  by (induction rs t rule: createManySkip.induct)
    (auto simp: wallet_unique_snoc split: prod.splits)

lemma createManySkip_extends: "\<exists>ys. snd (createManySkip rs t) = t @ ys \<and> set ys \<subseteq> set rs"
proof (induction rs t rule: createManySkip.induct)
  case (1 t)
  then show ?case by simp
next
  case (2 r rs t)
  show ?case
  proof (cases "list_ex (conflicts r) t")
    case True
    with 2(1) show ?thesis by auto
  next
    case False
    with 2(2) obtain ys where "snd (createManySkip rs (t @ [r])) = (t @ [r]) @ ys" "set ys \<subseteq> set rs"
      by blast
    with False show ?thesis
      by (auto split: prod.splits intro!: exI [of _ "r # ys"])
  qed
qed

lemma wallet_unique_map:
  assumes "wallet_unique t"
    and "\<And>e. w_id (f e) = w_id e \<and> w_orderId (f e) = w_orderId e \<and> w_userId (f e) = w_userId e
      \<and> w_type (f e) = w_type e"
  shows "wallet_unique (map f t)"
  using assms by (simp add: wallet_unique_def sorted_wrt_map conflicts_def)

lemma wallet_unique_filter:
  assumes "wallet_unique t"
  shows "length (filter (\<lambda>e. w_orderId e = Some oid \<and> w_userId e = u \<and> w_type e = ty) t) \<le> 1"
  using assms
proof (induction t rule: rev_induct)
  case (snoc r t)
  have "filter (\<lambda>e. w_orderId e = Some oid \<and> w_userId e = u \<and> w_type e = ty) t = []"
    if "w_orderId r = Some oid \<and> w_userId r = u \<and> w_type r = ty"
    using that snoc.prems
    by (auto simp: wallet_unique_snoc filter_empty_conv list_ex_iff conflicts_def)
  with snoc show ?case by (auto simp: wallet_unique_snoc)
qed simp

subsection \<open>The contract of a ledger operation\<close>

text \<open>
  What the orders and deliveries services rely on: an operation keeps the unique constraint
  and never removes an entry or changes whose it is, for which order, of which type and how
  much; only the status and the payout columns of an existing entry may change.
\<close>

definition same_entry :: "wallet_row \<Rightarrow> wallet_row \<Rightarrow> bool" where
  "same_entry a b \<longleftrightarrow> w_id b = w_id a \<and> w_userId b = w_userId a \<and> w_orderId b = w_orderId a \<and>
     w_type b = w_type a \<and> w_amountCents b = w_amountCents a"

definition ledger_extends :: "wallet_row list \<Rightarrow> wallet_row list \<Rightarrow> bool" where
  "ledger_extends t t' \<longleftrightarrow> length t \<le> length t' \<and> list_all2 same_entry t (take (length t) t')"

lemma same_entry_refl [simp]: "same_entry a a"
  by (simp add: same_entry_def)

lemma ledger_extends_refl [simp]: "ledger_extends t t"
  by (simp add: ledger_extends_def list.rel_refl)

lemma ledger_extends_trans:
  assumes "ledger_extends a b" and "ledger_extends b c"
  shows "ledger_extends a c"
proof -
  have "list_all2 same_entry (take (length a) b) (take (length a) c)"
    using assms list_all2_takeI [of same_entry b "take (length b) c" "length a"]
    by (auto simp: ledger_extends_def min_def)
  with assms show ?thesis
    unfolding ledger_extends_def
    by (auto intro: list_all2_trans [of same_entry same_entry same_entry] simp: same_entry_def)
qed

lemma ledger_extends_append: "ledger_extends t (t @ ys)"
  by (simp add: ledger_extends_def list.rel_refl)

lemma ledger_extends_map: "(\<And>e. same_entry e (f e)) \<Longrightarrow> ledger_extends t (map f t @ ys)"
  by (simp add: ledger_extends_def list_all2_map2 list.rel_refl)

locale ledger_operation =
  fixes led :: "'s \<Rightarrow> wallet_row list" and operate :: "'s \<Rightarrow> 's"
  assumes op_unique: "wallet_unique (led s) \<Longrightarrow> wallet_unique (led (operate s))"
    and op_extends: "ledger_extends (led s) (led (operate s))"
begin

lemma op_keeps_entry:
  assumes "i < length (led s)"
  shows "i < length (led (operate s)) \<and> same_entry (led s ! i) (led (operate s) ! i)"
proof -
  have "list_all2 same_entry (led s) (take (length (led s)) (led (operate s)))"
    and len: "length (led s) \<le> length (led (operate s))"
    using op_extends [of s] by (simp_all add: ledger_extends_def)
  then have "same_entry (led s ! i) (take (length (led s)) (led (operate s)) ! i)"
    using assms by (blast dest: list_all2_nthD)
  with assms len show ?thesis by simp
qed

lemma op_single_credit:
  assumes "wallet_unique (led s)"
  shows "length (filter (\<lambda>e. w_orderId e = Some oid \<and> w_userId e = u \<and> w_type e = ty)
    (led (operate s))) \<le> 1"
  by (rule wallet_unique_filter [OF op_unique [OF assms]])

end

lemma t_wallet_insertEntries [simp]:
  "t_wallet (insertEntries rows s) = snd (createManySkip rows (t_wallet s))"
  by (simp add: insertEntries_def)

lemma insert_op: "ledger_operation t_wallet (insertEntries rows)"
proof
  show "ledger_extends (t_wallet s) (t_wallet (insertEntries rows s))" for s
    using createManySkip_extends [of rows "t_wallet s"] by (auto simp: ledger_extends_append)
qed (simp add: createManySkip_unique)

interpretation ins: ledger_operation t_wallet "insertEntries rows" for rows
  by (rule insert_op)

interpretation cred: ledger_operation t_wallet "creditForCompletedOrder env oid" for env oid
  by unfold_locales
    (auto simp: creditForCompletedOrder_def split: option.splits
      intro: ins.op_extends [simplified] createManySkip_unique)

interpretation comp: ledger_operation t_wallet "compensateDriver env oid driverId amount"
  for env oid driverId amount
  by unfold_locales
    (auto simp: compensateDriver_def simp del: createManySkip.simps
      intro: ins.op_extends [simplified] createManySkip_unique)

interpretation sellcred: ledger_operation t_wallet "creditSellerEarning env oid sellerId amount"
  for env oid sellerId amount
  by unfold_locales
    (auto simp: creditSellerEarning_def simp del: createManySkip.simps
      intro: ins.op_extends [simplified] createManySkip_unique)

interpretation debt: ledger_operation t_wallet "recordDriverDebt env oid driverId amount"
  for env oid driverId amount
  by unfold_locales
    (auto simp: recordDriverDebt_def simp del: createManySkip.simps
      intro: ins.op_extends [simplified] createManySkip_unique)

interpretation canc: ledger_operation t_wallet "cancelPending p" for p
  by unfold_locales
    (auto simp: cancelPending_def updWhere_def same_entry_def
      intro!: wallet_unique_map ledger_extends_map [where ys = "[]", simplified])

lemma updWhere_ledger:
  assumes "\<And>e. same_entry e (f e)"
  shows "ledger_extends t (updWhere p f t)" and "wallet_unique t \<Longrightarrow> wallet_unique (updWhere p f t)"
  using assms by (auto simp: updWhere_def same_entry_def
      intro!: wallet_unique_map ledger_extends_map [where ys = "[]", simplified])

interpretation release: ledger_operation t_wallet "\<lambda>s. snd (releaseDuePendingEntries now s)" for now
proof
  fix s :: db
  have a: "same_entry e (e\<lparr>w_status := x, w_releasedAt := y\<rparr>)"
    and b: "same_entry e (e\<lparr>w_status := x\<rparr>)" for e x y
    by (simp_all add: same_entry_def)
  show "wallet_unique (t_wallet s) \<Longrightarrow> wallet_unique (t_wallet (snd (releaseDuePendingEntries now s)))"
    by (simp add: releaseDuePendingEntries_def Let_def updWhere_ledger(2) a b)
  show "ledger_extends (t_wallet s) (t_wallet (snd (releaseDuePendingEntries now s)))"
    by (simp add: releaseDuePendingEntries_def Let_def updWhere_ledger(1) a b
        ledger_extends_trans [OF updWhere_ledger(1) updWhere_ledger(1)])
qed

subsection \<open>Crediting twice\<close>

text \<open>
  The ids a crediting call generates, all of them new to the ledger and pairwise different:
  what the \<open>ulid\<close> package documents.
\<close>

definition fresh_ids :: "env \<Rightarrow> id_purpose list \<Rightarrow> wallet_row list \<Rightarrow> bool" where
  "fresh_ids env ps t \<longleftrightarrow> distinct (map (e_ulid env) ps) \<and> (\<forall>p \<in> set ps. e_ulid env p \<notin> w_id ` set t)"

definition same_credit :: "wallet_row \<Rightarrow> wallet_row \<Rightarrow> bool" where
  "same_credit a b \<longleftrightarrow> w_orderId a \<noteq> None \<and> w_orderId a = w_orderId b \<and> w_userId a = w_userId b
     \<and> w_type a = w_type b"

lemma createManySkip_all_present:
  "(\<And>r. r \<in> set rs \<Longrightarrow> \<exists>e \<in> set t. conflicts r e) \<Longrightarrow> createManySkip rs t = (0, t)"
  by (induction rs) (auto simp: list_ex_iff)

lemma createManySkip_keeps: "e \<in> set t \<Longrightarrow> e \<in> set (snd (createManySkip rs t))"
  using createManySkip_extends [of rs t] by auto

lemma createManySkip_covers:
  assumes "distinct (map w_id rs)" and "w_id ` set rs \<inter> w_id ` set t = {}"
    and "\<And>r. r \<in> set rs \<Longrightarrow> w_orderId r \<noteq> None"
  shows "r \<in> set rs \<Longrightarrow> \<exists>e \<in> set (snd (createManySkip rs t)). same_credit r e"
  using assms
proof (induction rs t rule: createManySkip.induct)
  case (1 t)
  then show ?case by simp
next
  case (2 q rs t)
  consider (present) "list_ex (conflicts q) t" | (new) "\<not> list_ex (conflicts q) t" by blast
  then show ?case
  proof cases
    case present
    then obtain e where e: "e \<in> set t" "conflicts q e" by (auto simp: list_ex_iff)
    with "2.prems"(3,4) have "same_credit q e"
      by (auto simp: conflicts_def same_credit_def)
    with e(1) have "\<exists>e \<in> set (snd (createManySkip rs t)). same_credit q e"
      by (blast intro: createManySkip_keeps)
    with present 2 show ?thesis by auto
  next
    case new
    have "q \<in> set (snd (createManySkip rs (t @ [q])))"
      by (simp add: createManySkip_keeps)
    moreover have "same_credit q q" using "2.prems"(4) by (simp add: same_credit_def)
    moreover have "\<exists>e \<in> set (snd (createManySkip rs (t @ [q]))). same_credit r e" if "r \<in> set rs"
      using "2.prems" that by (intro "2.IH"(2) [OF new]) auto
    ultimately show ?thesis using new "2.prems"(1) by (auto split: prod.splits)
  qed
qed

lemma insertEntries_frame [frame_simps]:
  "t_orders (insertEntries rows s) = t_orders s" "t_deliveries (insertEntries rows s) = t_deliveries s"
  by (simp_all add: insertEntries_def)

lemma creditForCompletedOrder_frame [frame_simps]:
  "t_orders (creditForCompletedOrder env oid s) = t_orders s"
  "t_deliveries (creditForCompletedOrder env oid s) = t_deliveries s"
  by (simp_all add: creditForCompletedOrder_def frame_simps split: option.splits)

lemma creditRows_keys:
  "map (\<lambda>r. (w_orderId r, w_userId r, w_type r)) (creditRows env' ord dlv) =
   map (\<lambda>r. (w_orderId r, w_userId r, w_type r)) (creditRows env ord dlv)"
  by (simp add: creditRows_def newEntry_def Let_def split: option.split)

lemma creditRows_orderId: "r \<in> set (creditRows env ord dlv) \<Longrightarrow> w_orderId r = Some (o_id ord)"
  by (auto simp: creditRows_def newEntry_def Let_def split: option.splits if_splits)

lemma creditRows_same_credit:
  assumes "r' \<in> set (creditRows env' ord dlv)"
  shows "\<exists>r \<in> set (creditRows env ord dlv). same_credit r' r"
proof -
  let ?k = "\<lambda>r. (w_orderId r, w_userId r, w_type r)"
  have "?k r' \<in> set (map ?k (creditRows env' ord dlv))"
    unfolding set_map using assms by (rule imageI)
  then have "?k r' \<in> set (map ?k (creditRows env ord dlv))"
    by (simp only: creditRows_keys [of env' ord dlv env])
  then obtain r where "r \<in> set (creditRows env ord dlv)" "?k r = ?k r'" by force
  moreover have "w_orderId r' = Some (o_id ord)" using assms by (rule creditRows_orderId)
  ultimately show ?thesis by (intro bexI [of _ r]) (auto simp: same_credit_def)
qed

lemma creditRows_ids:
  assumes "fresh_ids env [ForSellerEarning, ForCommission, ForDriverEarning] t"
  shows "distinct (map w_id (creditRows env ord dlv))"
    and "w_id ` set (creditRows env ord dlv) \<inter> w_id ` set t = {}"
  using assms
  by (auto simp: creditRows_def newEntry_def Let_def fresh_ids_def split: option.splits)

lemma same_credit_trans: "same_credit a b \<Longrightarrow> same_credit b c \<Longrightarrow> same_credit a c"
  by (auto simp: same_credit_def)

lemma same_credit_conflicts: "same_credit a b \<Longrightarrow> conflicts a b"
  by (auto simp: same_credit_def conflicts_def)

text \<open>C35: Crediting a completed order is idempotent: a second confirmation or webhook, whatever
  its clock and generated ids, adds no entry and changes none, provided the first call's
  generated ids were new.\<close>

theorem credit_idempotent:
  assumes "fresh_ids env [ForSellerEarning, ForCommission, ForDriverEarning] (t_wallet s)"
  shows "creditForCompletedOrder env' oid (creditForCompletedOrder env oid s) =
    creditForCompletedOrder env oid s"
proof (cases "getOrder s oid")
  case None
  then show ?thesis by (simp add: creditForCompletedOrder_def)
next
  case (Some ord)
  let ?s = "creditForCompletedOrder env oid s"
  let ?rows = "\<lambda>env. creditRows env ord (latestDelivered s oid)"
  show ?thesis
  proof (cases "o_status ord \<in> {O_Delivered, O_Completed, O_Disputed}")
    case False
    with Some show ?thesis by (simp add: creditForCompletedOrder_def)
  next
    case True
    with Some have s: "?s = insertEntries (?rows env) s"
      by (simp add: creditForCompletedOrder_def)
    have "\<exists>e \<in> set (t_wallet ?s). conflicts r e" if r: "r \<in> set (?rows env')" for r
    proof -
      from creditRows_same_credit [OF r] obtain r' where r': "r' \<in> set (?rows env)" "same_credit r r'"
        by blast
      have "\<exists>e \<in> set (snd (createManySkip (?rows env) (t_wallet s))). same_credit r' e"
        by (intro createManySkip_covers creditRows_ids [OF assms] r'(1)) (simp add: creditRows_orderId)
      with r'(2) show ?thesis
        unfolding s t_wallet_insertEntries by (meson same_credit_trans same_credit_conflicts)
    qed
    then have "insertEntries (?rows env') ?s = ?s"
      by (simp add: insertEntries_def createManySkip_all_present)
    moreover have "getOrder ?s oid = Some ord" "latestDelivered ?s oid = latestDelivered s oid"
      using Some by (simp_all add: getOrder_def latestDelivered_def frame_simps)
    ultimately show ?thesis
      unfolding creditForCompletedOrder_def [of env' oid ?s] using True by simp
  qed
qed

fun demo_ulid :: "id_purpose \<Rightarrow> id" where
  "demo_ulid ForOrder = ''o''"
| "demo_ulid ForAddress = ''ad''"
| "demo_ulid (ForItem n) = ''it''"
| "demo_ulid (ForItemAddOn n m) = ''ia''"
| "demo_ulid ForDelivery = ''d''"
| "demo_ulid ForSellerEarning = ''w1''"
| "demo_ulid ForCommission = ''w2''"
| "demo_ulid ForDriverEarning = ''w3''"
| "demo_ulid ForCompensation = ''w4''"
| "demo_ulid ForDebt = ''w5''"
| "demo_ulid ForWithdrawal = ''wd''"
| "demo_ulid ForWithdrawalEntry = ''w6''"
| "demo_ulid ForStrike = ''k''"
| "demo_ulid ForDispute = ''dis''"
| "demo_ulid ForIssue = ''is''"
| "demo_ulid ForConversation = ''cv''"
| "demo_ulid (ForParticipant n) = replicate (Suc n) (CHR ''p'')"
| "demo_ulid _ = ''n''"

definition demo_env :: env where
  "demo_env = \<lparr>e_now = 0, e_isDev = False,
    e_ulid = demo_ulid,
    e_token = ''tok'', e_orderCode = ''IC-1'', e_custRetrieve = (\<lambda>_. Some False),
    e_custCreate = Inr ''cus'', e_piCreate = Inr (''pi'', Some ''secret''), e_piWriteOk = True,
    e_piRetrieve = (\<lambda>_. Some ''succeeded''), e_refundCreate = (\<lambda>_. Inr ''re''),
    e_refundWriteOk = True, e_transferCreate = Inr ''tr'', e_deliveryFeeCents = 500,
    e_platformFeeBps = 500, e_walletReleaseHours = 24, e_noDriverMinutes = 15,
    e_noDriverResponseMinutes = 10, e_driverDeliveryMinutes = 60\<rparr>"

definition empty_db :: db where
  "empty_db = \<lparr>t_users = [], t_sellers = [], t_drivers = [], t_listings = [], t_addOns = [],
    t_addresses = [], t_orders = [], t_deliveries = [], t_wallet = [], t_strikes = [],
    t_disputes = [], t_issues = [], t_audit = [], t_legalDocs = [], t_charters = [],
    t_conversations = [], t_catalogOrders = [], t_participants = [], t_messages = [],
    t_catalogProducts = [], t_catalogClaims = [], t_reviews = [], t_criteria = [],
    t_idempotency = [], t_bookmarks = [], t_kycDocs = [], t_reports = [], t_buyers = [],
    t_businesses = [], t_openings = [], t_sellerCuisines = [], t_sellerDishes = [],
    t_driverZones = [], timers = [], out = []\<rparr>"

definition demo_order :: "id \<Rightarrow> order_status \<Rightarrow> fulfillment_choice \<Rightarrow> order_row" where
  "demo_order oid st choice = \<lparr>o_id = oid, o_orderNumber = ''IC-1'', o_buyerId = ''b'',
    o_sellerId = ''s'', o_status = st, o_subtotalCents = 6000, o_fulfillmentFeeCents = 500,
    o_commissionRateBps = 3000, o_commissionCents = 1800, o_sellerEarningsCents = 4200,
    o_buyerTotalCents = 6825, o_fulfillmentChoice = choice, o_dropoffAddressId = None,
    o_deliveryInstructions = None, o_deliveryTiming = T_Asap, o_scheduledAt = None,
    o_expectedAt = None, o_note = None, o_stripePaymentIntentId = Some ''pi'',
    o_inventoryRestored = False, o_stripeRefundId = None, o_refundedAt = None, o_placedAt = 0,
    o_confirmedAt = Some 1, o_readyAt = None, o_completedAt = None, o_cancelledAt = None,
    o_cancellationReason = None, o_items = []\<rparr>"

definition demo_entry :: "id \<Rightarrow> id option \<Rightarrow> int \<Rightarrow> wallet_status \<Rightarrow> wallet_row" where
  "demo_entry i oid amount st = \<lparr>w_id = i, w_userId = ''s'', w_orderId = oid,
    w_type = WT_OrderEarning, w_amountCents = amount, w_status = st, w_withdrawalId = None,
    w_availableAt = Some 0, w_releasedAt = None, w_transferId = None, w_createdAt = 0\<rparr>"

theorem credit_idempotent_witness:
  "let s = empty_db\<lparr>t_orders := [demo_order ''o'' O_Delivered F_Pickup]\<rparr>;
       s1 = creditForCompletedOrder demo_env ''o'' s
   in length (t_wallet s1) = 2 \<and>
      creditForCompletedOrder (demo_env\<lparr>e_now := 7\<rparr>) ''o'' s1 = s1"
proof -
  let ?s = "empty_db\<lparr>t_orders := [demo_order ''o'' O_Delivered F_Pickup]\<rparr>"
  have "fresh_ids demo_env [ForSellerEarning, ForCommission, ForDriverEarning] (t_wallet ?s)"
    by (simp add: fresh_ids_def demo_env_def empty_db_def)
  moreover have "length (t_wallet (creditForCompletedOrder demo_env ''o'' ?s)) = 2"
    by code_simp
  ultimately show ?thesis by (simp add: credit_idempotent Let_def)
qed

subsection \<open>The sweep as one pass\<close>

definition sweepEntry :: "time \<Rightarrow> db \<Rightarrow> wallet_row \<Rightarrow> wallet_row" where
  "sweepEntry now s e =
    (if \<not> due now e then e
     else if releasable s e then e\<lparr>w_status := WS_Available, w_releasedAt := Some now\<rparr>
     else if reversible s e then e\<lparr>w_status := WS_Cancelled\<rparr>
     else e)"

lemma releasable_not_reversible: "releasable s e \<Longrightarrow> \<not> reversible s e"
  by (auto simp: releasable_def reversible_def)

lemma due_pending: "due now e \<Longrightarrow> w_status e = WS_Pending"
  by (simp add: due_def)

lemma updWhere_ids_guard:
  "(if xs = [] then t else updWhere (\<lambda>e. w_id e \<in> set (map w_id xs) \<and> w_status e = WS_Pending) f t)
   = updWhere (\<lambda>e. w_id e \<in> w_id ` set xs \<and> w_status e = WS_Pending) f t"
  by (cases xs) (simp_all add: updWhere_none)

text \<open>C36: The release sweep treats every ledger entry on its own: a PENDING seller or driver
  earning whose release time has come becomes AVAILABLE when its order is delivered or
  completed, CANCELLED when it is cancelled or refunded, and every other entry (a disputed
  order's, a later one, a commission) stays as it was; it reports the number released.\<close>

theorem release_sweep_entrywise:
  assumes "distinct (map w_id (t_wallet s))"
  shows "t_wallet (snd (releaseDuePendingEntries now s)) = map (sweepEntry now s) (t_wallet s) \<and>
    fst (releaseDuePendingEntries now s) =
      length (filter (\<lambda>e. due now e \<and> releasable s e) (t_wallet s))"
proof
  have id: "w_id e \<in> w_id ` {x \<in> set (t_wallet s). P x} \<longleftrightarrow> P e" if "e \<in> set (t_wallet s)" for e P
    using assms that by (auto simp: distinct_map inj_on_def)
  show "t_wallet (snd (releaseDuePendingEntries now s)) = map (sweepEntry now s) (t_wallet s)"
    unfolding releaseDuePendingEntries_def Let_def updWhere_ids_guard
    by (auto simp: updWhere_def sweepEntry_def id filter_filter
        dest: due_pending releasable_not_reversible)
  show "fst (releaseDuePendingEntries now s) =
      length (filter (\<lambda>e. due now e \<and> releasable s e) (t_wallet s))"
    by (simp add: releaseDuePendingEntries_def Let_def conj_commute)
qed

theorem release_sweep_entrywise_witness:
  "map w_status (t_wallet (snd (releaseDuePendingEntries 5 (empty_db\<lparr>
      t_orders := [demo_order ''o'' O_Delivered F_Pickup, demo_order ''p'' O_Refunded F_Pickup],
      t_wallet := [demo_entry ''1'' (Some ''o'') 4200 WS_Pending,
        demo_entry ''2'' (Some ''p'') 10 WS_Pending]\<rparr>))))
   = [WS_Available, WS_Cancelled]"
proof -
  let ?s = "empty_db\<lparr>
      t_orders := [demo_order ''o'' O_Delivered F_Pickup, demo_order ''p'' O_Refunded F_Pickup],
      t_wallet := [demo_entry ''1'' (Some ''o'') 4200 WS_Pending,
        demo_entry ''2'' (Some ''p'') 10 WS_Pending]\<rparr>"
  have "distinct (map w_id (t_wallet ?s))" by (simp add: demo_entry_def)
  note release_sweep_entrywise [OF this, of 5]
  then show ?thesis
    by (simp add: sweepEntry_def due_def releasable_def reversible_def orderStatusOf_def truthy_def
        getOrder_def demo_entry_def demo_order_def)
qed

lemma status_in_updWhere:
  assumes "\<And>e. w_status (f e) \<noteq> st" and "x \<in> set (updWhere p f t)" and "w_status x = st"
  shows "x \<in> set t \<and> \<not> p x"
  using assms by (auto simp: in_updWhere split: if_splits) metis

text \<open>The sweep as an idempotent job: a second run at the same instant finds nothing to do.\<close>

definition sweepArmed :: "time \<Rightarrow> db \<Rightarrow> bool" where
  "sweepArmed now s \<longleftrightarrow> list_ex (\<lambda>e. due now e \<and> (releasable s e \<or> reversible s e)) (t_wallet s)"

interpretation sweep: idempotent_handler "sweepArmed now" "\<lambda>(_::env) s. snd (releaseDuePendingEntries now s)"
  for now
proof
  fix s and e :: env
  assume "\<not> sweepArmed now s"
  then have none: "filter (releasable s) (filter (due now) (t_wallet s)) = []"
    "filter (reversible s) (filter (due now) (t_wallet s)) = []"
    by (auto simp: sweepArmed_def list_ex_iff filter_empty_conv)
  show "snd (releaseDuePendingEntries now s) = s"
    unfolding releaseDuePendingEntries_def Let_def none by simp
next
  fix s and e :: env
  let ?t = "snd (releaseDuePendingEntries now s)"
  have same: "orderStatusOf ?t = orderStatusOf s"
    by (simp add: releaseDuePendingEntries_def Let_def orderStatusOf_def getOrder_def fun_eq_iff)
  have "\<not> (due now x \<and> (releasable s x \<or> reversible s x))" if "x \<in> set (t_wallet ?t)" for x
  proof
    assume x: "due now x \<and> (releasable s x \<or> reversible s x)"
    then have p: "w_status x = WS_Pending" by (blast dest: due_pending)
    note pend = status_in_updWhere [OF _ _ p]
    have "x \<in> set (updWhere (\<lambda>e. w_id e \<in> w_id ` set (filter (reversible s) (filter (due now) (t_wallet s)))
            \<and> w_status e = WS_Pending) (\<lambda>e. e\<lparr>w_status := WS_Cancelled\<rparr>)
        (updWhere (\<lambda>e. w_id e \<in> w_id ` set (filter (releasable s) (filter (due now) (t_wallet s)))
            \<and> w_status e = WS_Pending)
          (\<lambda>e. e\<lparr>w_status := WS_Available, w_releasedAt := Some now\<rparr>) (t_wallet s)))"
      using that unfolding releaseDuePendingEntries_def Let_def updWhere_ids_guard by simp
    from pend [OF _ this] have r: "w_id x \<notin> w_id ` {y \<in> set (t_wallet s). due now y \<and> reversible s y}"
      and "x \<in> set (updWhere (\<lambda>e. w_id e \<in> w_id ` set (filter (releasable s) (filter (due now) (t_wallet s)))
            \<and> w_status e = WS_Pending)
          (\<lambda>e. e\<lparr>w_status := WS_Available, w_releasedAt := Some now\<rparr>) (t_wallet s))"
      using p by auto
    from pend [OF _ this(2)] x r p show False by auto
  qed
  then show "\<not> sweepArmed now ?t"
    unfolding sweepArmed_def releasable_def reversible_def same list_ex_iff by blast
qed

subsection \<open>Withdrawals\<close>

lemma available_after_settle:
  assumes "x \<in> set (t_wallet (settleWithdrawal env plan tr s))" and "w_status x = WS_Available"
  shows "x \<in> set (t_wallet s) \<and> w_id x \<notin> set (pp_entryIds plan)"
proof -
  from assms have "x \<in> set (updWhere (\<lambda>e. w_id e \<in> set (pp_entryIds plan))
      (\<lambda>e. e\<lparr>w_status := WS_PaidOut, w_withdrawalId := Some (e_ulid env ForWithdrawal)\<rparr>) (t_wallet s))"
    by (auto simp: settleWithdrawal_def)
  then show ?thesis by (rule status_in_updWhere [rotated, OF _ assms(2)]) simp
qed

lemma prepare_Inr_iff:
  "prepareWithdrawal sb s = Inr plan \<longleftrightarrow>
    (\<exists>user. getUserBySupabase s sb = Some user \<and> pp_userId plan = u_id user \<and>
       pp_entryIds plan = map w_id (availableEntries s (u_id user)) \<and>
       pp_totalCents plan = sumByStatus s (u_id user) WS_Available \<and>
       WITHDRAWAL_MIN_CENTS \<le> pp_totalCents plan \<and>
       resolvePayoutTarget (u_id user) (u_role user) s = (Some (pp_account plan), True) \<and>
       pp_account plan \<noteq> [])"
  by (cases plan)
    (auto simp: prepareWithdrawal_def Let_def sumByStatus_def availableEntries_def truthy_def
      WITHDRAWAL_MIN_CENTS_def split: option.splits prod.splits)

definition amountIn :: "id \<Rightarrow> wallet_status \<Rightarrow> wallet_row \<Rightarrow> int" where
  "amountIn u st e = (if w_userId e = u \<and> w_status e = st then w_amountCents e else 0)"

lemma sumByStatus_amountIn: "sumByStatus s u st = sum_list (map (amountIn u st) (t_wallet s))"
  by (simp add: sumByStatus_def sum_list_map_filter' amountIn_def [abs_def])

lemma amountIn_paid:
  "amountIn v st (e\<lparr>w_status := WS_PaidOut, w_withdrawalId := x\<rparr>) =
    (if st = WS_PaidOut \<and> w_userId e = v then w_amountCents e else 0)"
  by (auto simp: amountIn_def)

lemma sumByStatus_settle:
  assumes "distinct (map w_id (t_wallet s))" and "pp_entryIds plan = map w_id (availableEntries s u)"
    and "pp_userId plan = u"
  shows "sumByStatus (settleWithdrawal env plan tr s) v st =
    (if v = u \<and> st = WS_Available then 0
     else if v = u \<and> st = WS_PaidOut
     then sumByStatus s u WS_PaidOut + sumByStatus s u WS_Available - pp_totalCents plan
     else sumByStatus s v st)"
proof -
  let ?paid = "\<lambda>e. e\<lparr>w_status := WS_PaidOut, w_withdrawalId := Some (e_ulid env ForWithdrawal)\<rparr>"
  let ?h = "\<lambda>e. (if v = u \<and> st = WS_Available then 0 else amountIn v st e) +
    (if v = u \<and> st = WS_PaidOut then amountIn u WS_Available e else 0)"
  have mem: "w_id e \<in> set (pp_entryIds plan) \<longleftrightarrow> w_userId e = u \<and> w_status e = WS_Available"
    if "e \<in> set (t_wallet s)" for e
    using assms(1,2) that by (auto simp: availableEntries_def distinct_map inj_on_def)
  have "amountIn v st (if w_id e \<in> set (pp_entryIds plan) then ?paid e else e) = ?h e"
    if "e \<in> set (t_wallet s)" for e
  proof (cases "w_userId e = u \<and> w_status e = WS_Available")
    case True
    then show ?thesis unfolding mem [OF that] by (simp add: amountIn_paid) (auto simp: amountIn_def)
  next
    case False
    then show ?thesis unfolding mem [OF that] by (auto simp: amountIn_def)
  qed
  then have "map (amountIn v st) (updWhere (\<lambda>e. w_id e \<in> set (pp_entryIds plan)) ?paid (t_wallet s)) =
      map ?h (t_wallet s)"
    unfolding updWhere_def map_map o_def by (intro map_cong refl)
  then have total: "sumByStatus (settleWithdrawal env plan tr s) v st =
      sum_list (map ?h (t_wallet s)) + (if v = u \<and> st = WS_PaidOut then - pp_totalCents plan else 0)"
    using assms(3) by (simp add: sumByStatus_amountIn settleWithdrawal_def)
      (simp add: amountIn_def)
  consider "v = u" "st = WS_Available" | "v = u" "st = WS_PaidOut"
    | "v \<noteq> u" | "st \<noteq> WS_Available" "st \<noteq> WS_PaidOut" by blast
  then show ?thesis
  proof cases
    case 1
    then show ?thesis unfolding total by simp
  next
    case 2
    then show ?thesis unfolding total by (simp add: sum_list_addf sumByStatus_amountIn)
  next
    case 3
    then show ?thesis unfolding total by (simp add: sumByStatus_amountIn)
  next
    case 4
    then show ?thesis unfolding total by (simp add: sumByStatus_amountIn)
  qed
qed

text \<open>C37: A withdrawal that returns pays out the caller's whole AVAILABLE balance, at least
  50 euros, to the caller's own onboarded account in one transfer; afterwards the caller has
  no AVAILABLE balance and no other balance of any user has changed.\<close>

theorem withdrawal_pays_balance:
  assumes "distinct (map w_id (t_wallet s))"
    and "requestWithdrawal env sb s = (Inr (wid, amount, tr), s')"
  shows "\<exists>user account. getUserBySupabase s sb = Some user \<and>
    resolvePayoutTarget (u_id user) (u_role user) s = (Some account, True) \<and>
    amount = sumByStatus s (u_id user) WS_Available \<and> 5000 \<le> amount \<and>
    out s' = out s @ [StripeTransfer wid account amount tr] \<and>
    sumByStatus s' (u_id user) WS_Available = 0 \<and>
    (\<forall>v st. (v, st) \<noteq> (u_id user, WS_Available) \<longrightarrow> sumByStatus s' v st = sumByStatus s v st)"
proof -
  from assms(2) obtain plan where plan: "prepareWithdrawal sb s = Inr plan"
    and pay: "payWithdrawal env plan s = (Inr (wid, amount, tr), s')"
    by (auto simp: requestWithdrawal_def split: sum.splits)
  from plan obtain user where user: "getUserBySupabase s sb = Some user"
    "pp_userId plan = u_id user" "pp_entryIds plan = map w_id (availableEntries s (u_id user))"
    "pp_totalCents plan = sumByStatus s (u_id user) WS_Available"
    "WITHDRAWAL_MIN_CENTS \<le> pp_totalCents plan"
    "resolvePayoutTarget (u_id user) (u_role user) s = (Some (pp_account plan), True)"
    by (auto simp: prepare_Inr_iff)
  let ?s = "emit (StripeTransfer wid (pp_account plan) amount tr) s"
  from pay have s': "s' = settleWithdrawal env plan tr ?s" and amt: "amount = pp_totalCents plan"
    by (auto simp: payWithdrawal_def ok_def fail_def split: sum.splits)
  have "sumByStatus s' v st = (if v = u_id user \<and> st = WS_Available then 0 else sumByStatus s v st)"
    for v st
    using sumByStatus_settle [of ?s plan "u_id user" env tr v st] assms(1) user(2-4)
    by (simp add: s' emit_def availableEntries_def sumByStatus_def)
  moreover have "out s' = out s @ [StripeTransfer wid (pp_account plan) amount tr]"
    by (simp add: s' settleWithdrawal_def emit_def)
  ultimately show ?thesis
    using user amt by (auto simp: WITHDRAWAL_MIN_CENTS_def)
qed

abbreviation demo_user :: "id \<Rightarrow> id \<Rightarrow> user_role \<Rightarrow> user_row" where
  "demo_user i supabaseId role \<equiv> \<lparr>u_id = i, u_supabaseId = supabaseId, u_email = ''e'',
    u_role = role, u_stripeCustomerId = None, u_deletedAt = None, u_isSuspended = False,
    u_suspendedAt = None, u_suspensionReason = None, u_firstName = ''F'', u_lastName = ''L'',
    u_avatarPath = None, u_phone = None, u_emailVerified = True, u_phoneVerified = False,
    u_acceptedCgu = True, u_acceptedCgv = True, u_acceptedAt = Some 0\<rparr>"

definition payout_db :: db where
  "payout_db = empty_db\<lparr>
    t_users := [demo_user ''s'' ''sb'' R_Seller],
    t_sellers := [\<lparr>sp_userId = ''s'', sp_kycStatus = K_Approved, sp_deliveryFeeCents = Some 300,
      sp_isPremium = False, sp_stripeConnectAccountId = Some ''acct'',
      sp_stripeOnboardingCompleted = True, sp_stripeSubscriptionId = None,
      sp_subscriptionStatus = S_Active, sp_subscriptionCurrentPeriodEnd = None,
      sp_neighborhood = None, sp_location = None, sp_category = Some SC_Restaurant,
      sp_displayName = Some ''Chez S'', sp_bio = None, sp_profilePhotoUrl = None,
      sp_dateOfBirth = None, sp_hygieneCommitment = None, sp_faitMaisonCommitment = None,
      sp_deliveryRadiusKm = None, sp_prepMinMinutes = None, sp_prepMaxMinutes = None,
      sp_averageRating = None, sp_reviewCount = 0, sp_revenueCatCustomerId = None,
      sp_revenueCatEntitlement = None, sp_subscriptionPlan = None,
      sp_subscriptionProductId = None, sp_subscriptionCategory = None,
      sp_trialEndsAt = None\<rparr>],
    t_wallet := [demo_entry ''1'' (Some ''o'') 4000 WS_Available,
      demo_entry ''2'' (Some ''p'') 2000 WS_Available]\<rparr>"

lemma payout_db_plan: "prepareWithdrawal ''sb'' payout_db = Inr
    \<lparr>pp_userId = ''s'', pp_entryIds = [''1'', ''2''], pp_totalCents = 6000, pp_account = ''acct''\<rparr>"
  by code_simp

theorem withdrawal_pays_balance_witness:
  "\<exists>s'. requestWithdrawal demo_env ''sb'' payout_db = (Inr (''wd'', 6000, ''tr''), s') \<and>
    sumByStatus s' ''s'' WS_Available = 0"
proof -
  have d: "distinct (map w_id (t_wallet payout_db))" by code_simp
  have r: "requestWithdrawal demo_env ''sb'' payout_db =
      (Inr (''wd'', 6000, ''tr''), snd (requestWithdrawal demo_env ''sb'' payout_db))"
    by (simp add: requestWithdrawal_def payout_db_plan payWithdrawal_def demo_env_def ok_def)
  have "getUserBySupabase payout_db ''sb'' = Some user \<Longrightarrow> u_id user = ''s''" for user
    by (auto simp: payout_db_def getUserBySupabase_def)
  with withdrawal_pays_balance [OF d r] r show ?thesis by auto
qed

text \<open>C38: Two withdrawal requests of one user that both read the ledger before either settles
  it are both paid: each makes a transfer of the whole balance, so twice the balance leaves
  the platform, and the ledger ends with no AVAILABLE balance rather than a debt.\<close>

theorem concurrent_withdrawals_pay_twice:
  assumes "prepareWithdrawal sb s = Inr plan"
    and "e_transferCreate env1 = Inr t1" and "e_transferCreate env2 = Inr t2"
    and "distinct (map w_id (t_wallet s))"
  shows "\<exists>s1 s2. payWithdrawal env1 plan s = (Inr (e_ulid env1 ForWithdrawal, pp_totalCents plan, t1), s1) \<and>
    payWithdrawal env2 plan s1 = (Inr (e_ulid env2 ForWithdrawal, pp_totalCents plan, t2), s2) \<and>
    out s2 = out s @
      [StripeTransfer (e_ulid env1 ForWithdrawal) (pp_account plan) (pp_totalCents plan) t1,
       StripeTransfer (e_ulid env2 ForWithdrawal) (pp_account plan) (pp_totalCents plan) t2] \<and>
    pp_totalCents plan = sumByStatus s (pp_userId plan) WS_Available \<and>
    sumByStatus s2 (pp_userId plan) WS_Available = 0"
proof -
  from assms(1) have plan: "pp_entryIds plan = map w_id (availableEntries s (pp_userId plan))"
    "pp_totalCents plan = sumByStatus s (pp_userId plan) WS_Available"
    by (auto simp: prepare_Inr_iff)
  define s1 where "s1 = settleWithdrawal env1 plan t1
    (emit (StripeTransfer (e_ulid env1 ForWithdrawal) (pp_account plan) (pp_totalCents plan) t1) s)"
  define s2 where "s2 = settleWithdrawal env2 plan t2
    (emit (StripeTransfer (e_ulid env2 ForWithdrawal) (pp_account plan) (pp_totalCents plan) t2) s1)"
  have mem: "w_id e \<in> set (pp_entryIds plan) \<longleftrightarrow> w_userId e = pp_userId plan \<and> w_status e = WS_Available"
    if "e \<in> set (t_wallet s)" for e
    using assms(4) that unfolding plan by (auto simp: availableEntries_def distinct_map inj_on_def)
  have "\<not> (w_userId e = pp_userId plan \<and> w_status e = WS_Available)" if "e \<in> set (t_wallet s2)" for e
  proof
    assume e: "w_userId e = pp_userId plan \<and> w_status e = WS_Available"
    with that have "e \<in> set (t_wallet s1)"
      using available_after_settle unfolding s2_def emit_def by fastforce
    with e have "e \<in> set (t_wallet s)" "w_id e \<notin> set (pp_entryIds plan)"
      using available_after_settle unfolding s1_def emit_def by fastforce+
    with e show False by (simp add: mem)
  qed
  then have "filter (\<lambda>e. w_userId e = pp_userId plan \<and> w_status e = WS_Available) (t_wallet s2) = []"
    by (simp add: filter_empty_conv)
  then have "sumByStatus s2 (pp_userId plan) WS_Available = 0"
    unfolding sumByStatus_def by (simp only: list.simps sum_list.Nil)
  moreover have "out s2 = out s @
      [StripeTransfer (e_ulid env1 ForWithdrawal) (pp_account plan) (pp_totalCents plan) t1,
       StripeTransfer (e_ulid env2 ForWithdrawal) (pp_account plan) (pp_totalCents plan) t2]"
    by (simp add: s1_def s2_def settleWithdrawal_def emit_def)
  moreover have "payWithdrawal env1 plan s = (Inr (e_ulid env1 ForWithdrawal, pp_totalCents plan, t1), s1)"
    "payWithdrawal env2 plan s1 = (Inr (e_ulid env2 ForWithdrawal, pp_totalCents plan, t2), s2)"
    using assms(2,3) by (simp_all add: payWithdrawal_def ok_def s1_def s2_def)
  ultimately show ?thesis using plan(2) by blast
qed

theorem concurrent_withdrawals_pay_twice_witness:
  "\<exists>plan s1 s2. prepareWithdrawal ''sb'' payout_db = Inr plan \<and> pp_totalCents plan = 6000 \<and>
    payWithdrawal demo_env plan payout_db = (Inr (''wd'', 6000, ''tr''), s1) \<and>
    payWithdrawal (demo_env\<lparr>e_transferCreate := Inr ''tr2''\<rparr>) plan s1 = (Inr (''wd'', 6000, ''tr2''), s2) \<and>
    out s2 = [StripeTransfer ''wd'' ''acct'' 6000 ''tr'', StripeTransfer ''wd'' ''acct'' 6000 ''tr2'']"
proof -
  have env: "e_transferCreate demo_env = Inr ''tr''" "e_ulid demo_env ForWithdrawal = ''wd''"
    "e_transferCreate (demo_env\<lparr>e_transferCreate := Inr ''tr2''\<rparr>) = Inr ''tr2''"
    "e_ulid (demo_env\<lparr>e_transferCreate := Inr ''tr2''\<rparr>) ForWithdrawal = ''wd''"
    by (simp_all add: demo_env_def)
  have db: "distinct (map w_id (t_wallet payout_db))" "out payout_db = []"
    by (simp_all add: payout_db_def empty_db_def demo_env_def demo_entry_def)
  show ?thesis
    using concurrent_withdrawals_pay_twice [OF payout_db_plan env(1,3) db(1)] payout_db_plan
    by (auto simp: env db(2))
qed

text \<open>What the wallet screen promises is what the withdrawal checks: the summary says a
  user can withdraw exactly when the withdrawal's debt and minimum gates let the user pass,
  so that only the payout account set-up can still refuse.\<close>

theorem summary_predicts_withdrawal:
  assumes "walletSummary sb s = Inr w"
  shows "ws_canWithdraw w \<longleftrightarrow>
    (prepareWithdrawal sb s = Inl (Forbidden (Pay PayoutSetupRequired)) \<or>
     (\<exists>plan. prepareWithdrawal sb s = Inr plan \<and> pp_totalCents plan = ws_availableCents w))"
proof -
  from assms obtain user where user: "getUserBySupabase s sb = Some user"
    and w: "ws_availableCents w = max 0 (sumByStatus s (u_id user) WS_Available)"
    "ws_canWithdraw w \<longleftrightarrow> WITHDRAWAL_MIN_CENTS \<le> sumByStatus s (u_id user) WS_Available"
    by (auto simp: walletSummary_def Let_def WITHDRAWAL_MIN_CENTS_def split: option.splits)
  have total: "sum_list (map w_amountCents (availableEntries s (u_id user))) =
      sumByStatus s (u_id user) WS_Available"
    by (simp add: sumByStatus_def availableEntries_def)
  show ?thesis
    using user w by (auto simp: prepareWithdrawal_def total Let_def WITHDRAWAL_MIN_CENTS_def
        split: prod.splits if_splits)
qed

theorem summary_predicts_withdrawal_witness:
  "\<exists>w. walletSummary ''sb'' payout_db = Inr w \<and> ws_canWithdraw w"
proof -
  obtain w where w: "walletSummary ''sb'' payout_db = Inr w"
    using that by (cases "walletSummary ''sb'' payout_db")
      (simp_all add: walletSummary_def payout_db_def getUserBySupabase_def Let_def)
  moreover from w have "ws_availableCents w = 6000"
    by (auto simp: walletSummary_def payout_db_def getUserBySupabase_def Let_def sumByStatus_def
        demo_entry_def)
  ultimately show ?thesis
    using summary_predicts_withdrawal [OF w] payout_db_plan by simp
qed

end
