(* ===== verification/Notify.thy ===== *)
theory Notify
  imports Model
begin

section \<open>Notifications, realtime events, audit and timers\<close>

text \<open>
  The side channels every service uses: \<open>src/modules/notifications/notifications.service.ts\<close>
  (pushes), the two Redis publications and the watchdog timers of
  \<open>src/modules/orders/orders.service.ts\<close>, and
  \<open>src/infrastructure/audit/audit.service.ts\<close>. All of them are best effort in the code (a
  failure is swallowed), so each is a total function of the state that records the attempt;
  device tokens and message texts are not modelled. The frame lemmas say that none of
  them touches the business tables.
\<close>

subsection \<open>Pushes\<close>

definition sendToUsers :: "id list \<Rightarrow> string \<Rightarrow> id \<Rightarrow> db \<Rightarrow> db" where
  "sendToUsers ids kind about s = emit (Push ids kind about) s"

definition dispatch :: "id list \<Rightarrow> string \<Rightarrow> id \<Rightarrow> db \<Rightarrow> db" where
  "dispatch userIds kind about s =
    (let ids = uniq (filter (\<lambda>i. i \<noteq> []) userIds)
     in if ids = [] then s else sendToUsers ids kind about s)"

definition notifyOrderPaid :: "id \<Rightarrow> id \<Rightarrow> db \<Rightarrow> db" where
  "notifyOrderPaid sellerUserId oid s = emit (Push [sellerUserId] ''order_paid'' oid) s"

definition notifyOrderStatus :: "id \<Rightarrow> string \<Rightarrow> db \<Rightarrow> db" where
  "notifyOrderStatus oid event s =
    (case getOrder s oid of
       None \<Rightarrow> s
     | Some ord \<Rightarrow> if o_buyerId ord = [] then s else dispatch [o_buyerId ord] event oid s)"

definition notifyDeliveryEvent :: "id \<Rightarrow> id \<Rightarrow> string \<Rightarrow> bool \<Rightarrow> bool \<Rightarrow> db \<Rightarrow> db" where
  "notifyDeliveryEvent oid did event toBuyer toSeller s =
    (case getOrder s oid of
       None \<Rightarrow> s
     | Some ord \<Rightarrow>
         dispatch ((if toBuyer then [o_buyerId ord] else []) @
                   (if toSeller then [o_sellerId ord] else [])) event did s)"

definition notifyDeliveryAvailable :: "id \<Rightarrow> id \<Rightarrow> db \<Rightarrow> db" where
  "notifyDeliveryAvailable oid did s =
    (let ids = map dp_userId (filter dp_isOnline (t_drivers s))
     in if ids = [] then s else dispatch ids ''delivery_available'' did s)"

subsection \<open>Redis publications\<close>

definition publishOrderStatusChanged :: "id \<Rightarrow> order_status \<Rightarrow> db \<Rightarrow> db" where
  "publishOrderStatusChanged oid st s = emit (PubOrderStatus oid st) s"

definition publishDeliveryCancelledToDriver :: "id \<Rightarrow> id \<Rightarrow> id \<Rightarrow> string \<Rightarrow> string \<Rightarrow> db \<Rightarrow> db" where
  "publishDeliveryCancelledToDriver driverId did oid st why s =
    emit (PubDeliveryCancelled driverId did oid st why) s"

subsection \<open>Audit\<close>

definition auditRecord :: "id option \<Rightarrow> string \<Rightarrow> id \<Rightarrow> db \<Rightarrow> db" where
  "auditRecord actor action target s = s\<lparr>t_audit := t_audit s @
     [\<lparr>au_actorId = actor, au_action = action, au_targetId = target\<rparr>]\<rparr>"

subsection \<open>Watchdog timers\<close>

text \<open>
  A watchdog is armed twice: an in-process timeout under a key (re-arming replaces it) and
  a durable job whose \<open>jobId\<close> keeps duplicates out of the queue. Firing a timeout removes
  it and runs the handler.
\<close>

definition clearTimer :: "string \<Rightarrow> db \<Rightarrow> db" where
  "clearTimer key s = s\<lparr>timers := filter (\<lambda>t. fst t \<noteq> key) (timers s)\<rparr>"

definition enqueueTimerJob :: "string \<Rightarrow> id \<Rightarrow> int \<Rightarrow> string \<Rightarrow> db \<Rightarrow> db" where
  "enqueueTimerJob jobName target delayMs jobId s = emit (Enqueue jobName target delayMs jobId) s"

definition armTimer :: "string \<Rightarrow> int \<Rightarrow> db \<Rightarrow> db" where
  "armTimer key delayMs s =
    (let s1 = clearTimer key s in s1\<lparr>timers := timers s1 @ [(key, delayMs)]\<rparr>)"

definition noDriverTimeoutKey :: "id \<Rightarrow> string" where
  "noDriverTimeoutKey oid = ''no-driver:'' @ oid"

definition noDriverResponseKey :: "id \<Rightarrow> string" where
  "noDriverResponseKey oid = ''no-driver-response:'' @ oid"

definition driverDeliveryKey :: "id \<Rightarrow> string" where
  "driverDeliveryKey did = ''driver-delivery:'' @ did"

definition NoDriverTimeout :: string where
  "NoDriverTimeout = ''no_driver_timeout''"

definition NoDriverBuyerResponseTimeout :: string where
  "NoDriverBuyerResponseTimeout = ''no_driver_buyer_response_timeout''"

definition DriverDeliveryTimeout :: string where
  "DriverDeliveryTimeout = ''driver_delivery_timeout''"

definition scheduleNoDriverTimeout :: "env \<Rightarrow> id \<Rightarrow> db \<Rightarrow> db" where
  "scheduleNoDriverTimeout env oid s =
    (let ms = e_noDriverMinutes env * 60000;
         s1 = armTimer (noDriverTimeoutKey oid) ms s
     in enqueueTimerJob NoDriverTimeout oid ms (NoDriverTimeout @ '':'' @ oid) s1)"

definition scheduleNoDriverResponseTimeout :: "env \<Rightarrow> id \<Rightarrow> db \<Rightarrow> db" where
  "scheduleNoDriverResponseTimeout env oid s =
    (let ms = e_noDriverResponseMinutes env * 60000;
         s1 = armTimer (noDriverResponseKey oid) ms s
     in enqueueTimerJob NoDriverBuyerResponseTimeout oid ms
          (NoDriverBuyerResponseTimeout @ '':'' @ oid) s1)"

definition scheduleDriverDeliveryTimeout :: "env \<Rightarrow> id \<Rightarrow> db \<Rightarrow> db" where
  "scheduleDriverDeliveryTimeout env did s =
    (let ms = e_driverDeliveryMinutes env * 60000;
         s1 = armTimer (driverDeliveryKey did) ms s
     in enqueueTimerJob DriverDeliveryTimeout did ms (DriverDeliveryTimeout @ '':'' @ did) s1)"

subsection \<open>What they leave alone\<close>

text \<open>
  The business part of the state: everything but the audit log, the timers and the
  outgoing effects.
\<close>

definition business :: "db \<Rightarrow> db" where
  "business s = s\<lparr>t_audit := [], timers := [], out := []\<rparr>"

lemma business_sel:
  assumes "business s = business t"
  shows "t_users s = t_users t" "t_sellers s = t_sellers t" "t_drivers s = t_drivers t"
    "t_listings s = t_listings t" "t_addOns s = t_addOns t" "t_addresses s = t_addresses t"
    "t_orders s = t_orders t" "t_deliveries s = t_deliveries t" "t_wallet s = t_wallet t"
    "t_strikes s = t_strikes t" "t_disputes s = t_disputes t" "t_issues s = t_issues t"
    "t_legalDocs s = t_legalDocs t" "t_charters s = t_charters t"
    "t_conversations s = t_conversations t" "t_catalogOrders s = t_catalogOrders t"
    "t_participants s = t_participants t" "t_messages s = t_messages t"
    "t_catalogProducts s = t_catalogProducts t" "t_catalogClaims s = t_catalogClaims t"
    "t_reviews s = t_reviews t" "t_criteria s = t_criteria t"
    "t_idempotency s = t_idempotency t" "t_bookmarks s = t_bookmarks t"
    "t_kycDocs s = t_kycDocs t" "t_reports s = t_reports t" "t_buyers s = t_buyers t"
    "t_businesses s = t_businesses t" "t_openings s = t_openings t"
    "t_sellerCuisines s = t_sellerCuisines t" "t_sellerDishes s = t_sellerDishes t"
    "t_driverZones s = t_driverZones t"
  using assms by (cases s; cases t; simp add: business_def)+

lemmas side_defs = emit_def sendToUsers_def dispatch_def notifyOrderPaid_def notifyOrderStatus_def
  notifyDeliveryEvent_def notifyDeliveryAvailable_def publishOrderStatusChanged_def
  publishDeliveryCancelledToDriver_def auditRecord_def clearTimer_def enqueueTimerJob_def
  armTimer_def scheduleNoDriverTimeout_def scheduleNoDriverResponseTimeout_def
  scheduleDriverDeliveryTimeout_def

lemma business_emit: "business (emit e s) = business s"
  by (simp add: business_def emit_def)

lemma business_quiet: "business (s\<lparr>t_audit := a\<rparr>) = business s" "business (s\<lparr>timers := ts\<rparr>) = business s"
  by (simp_all add: business_def)

lemma business_side [frame_simps]:
  "business (sendToUsers ids k a s) = business s"
  "business (notifyOrderPaid u oid s) = business s"
  "business (notifyOrderStatus oid k s) = business s"
  "business (notifyDeliveryEvent oid did k b c s) = business s"
  "business (notifyDeliveryAvailable oid did s) = business s"
  "business (publishOrderStatusChanged oid st s) = business s"
  "business (publishDeliveryCancelledToDriver u did oid t w s) = business s"
  "business (auditRecord actor act tg s) = business s"
  "business (clearTimer key s) = business s"
  "business (scheduleNoDriverTimeout env oid s) = business s"
  "business (scheduleNoDriverResponseTimeout env oid s) = business s"
  "business (scheduleDriverDeliveryTimeout env did s) = business s"
  by (simp_all only: sendToUsers_def dispatch_def notifyOrderPaid_def notifyOrderStatus_def
      notifyDeliveryEvent_def notifyDeliveryAvailable_def publishOrderStatusChanged_def
      publishDeliveryCancelledToDriver_def auditRecord_def clearTimer_def enqueueTimerJob_def armTimer_def
      scheduleNoDriverTimeout_def scheduleNoDriverResponseTimeout_def scheduleDriverDeliveryTimeout_def
      Let_def business_emit business_quiet if_cancel option.case_distrib [of business] if_distrib [of business]
      split: option.splits if_splits)
    simp_all

lemmas side_frames = business_side [THEN business_sel(1)] business_side [THEN business_sel(2)]
  business_side [THEN business_sel(3)] business_side [THEN business_sel(4)]
  business_side [THEN business_sel(5)] business_side [THEN business_sel(6)]
  business_side [THEN business_sel(7)] business_side [THEN business_sel(8)]
  business_side [THEN business_sel(9)] business_side [THEN business_sel(10)]
  business_side [THEN business_sel(11)] business_side [THEN business_sel(12)]
  business_side [THEN business_sel(13)] business_side [THEN business_sel(14)]
  business_side [THEN business_sel(15)] business_side [THEN business_sel(16)]

declare side_frames [simp]

lemma get_side:
  assumes "business s = business t"
  shows "getOrder s = getOrder t" "getDelivery s = getDelivery t" "getUser s = getUser t"
    "getUserBySupabase s = getUserBySupabase t" "getSeller s = getSeller t"
    "getDriver s = getDriver t" "getDispute s = getDispute t" "latestDelivery s = latestDelivery t"
  using business_sel [OF assms]
  by (simp_all add: getOrder_def getDelivery_def getUser_def getUserBySupabase_def getSeller_def
      getDriver_def getDispute_def latestDelivery_def fun_eq_iff)

lemmas get_frames = business_side [THEN get_side(1)] business_side [THEN get_side(2)]
  business_side [THEN get_side(3)] business_side [THEN get_side(4)]
  business_side [THEN get_side(5)] business_side [THEN get_side(6)]
  business_side [THEN get_side(7)] business_side [THEN get_side(8)]

declare get_frames [simp]

end
