(* ===== verification/Charters.thy ===== *)
theory Charters
  imports Model
begin

section \<open>Terms acceptance and the subscription gate\<close>

text \<open>
  \<open>src/modules/compliance/charters/record-terms-acceptance.util.ts\<close>,
  \<open>src/modules/compliance/legal-documents/resolve-active-terms-versions.util.ts\<close> and
  \<open>src/modules/subscriptions/subscription.util.ts\<close>.
\<close>

text \<open>\<open>ACTIVE_CHARTER_VERSIONS\<close>, the fallback when no document is published.\<close>

definition ACTIVE_CHARTER_VERSIONS :: "charter_kind \<Rightarrow> string" where
  "ACTIVE_CHARTER_VERSIONS k = (case k of CGU \<Rightarrow> ''v1.0'' | CGV \<Rightarrow> ''v1.0'' | Ch_Hygiene \<Rightarrow> ''v1.0''
     | Ch_FaitMaison \<Rightarrow> ''v1.0'' | Ch_Punctuality \<Rightarrow> ''v1.0'' | Ch_Care \<Rightarrow> ''v1.0'')"

definition resolveActiveTermsVersions :: "db \<Rightarrow> charter_kind \<Rightarrow> string" where
  "resolveActiveTermsVersions s =
    fold (\<lambda>doc versions. versions(ld_kind doc := ld_version doc))
      (filter (\<lambda>doc. ld_kind doc \<in> {CGU, CGV} \<and> ld_isActive doc) (t_legalDocs s)) ACTIVE_CHARTER_VERSIONS"

text \<open>\<open>userCharter.upsert\<close> on the primary key \<open>(userId, charter, version)\<close>.\<close>

definition upsertCharter :: "charter_row \<Rightarrow> db \<Rightarrow> db" where
  "upsertCharter row s =
    (if row \<in> set (t_charters s) then s else s\<lparr>t_charters := t_charters s @ [row]\<rparr>)"

definition recordTermsAcceptance :: "id \<Rightarrow> db \<Rightarrow> db" where
  "recordTermsAcceptance userId s =
    (let versions = resolveActiveTermsVersions s
     in fold (\<lambda>c. upsertCharter \<lparr>uc_userId = userId, uc_charter = c, uc_version = versions c\<rparr>)
          [CGU, CGV] s)"

definition isSubscriptionActive :: "time \<Rightarrow> subscription_status \<Rightarrow> time option \<Rightarrow> bool" where
  "isSubscriptionActive now status periodEnd \<longleftrightarrow>
    (if status \<noteq> S_Active \<and> status \<noteq> S_Trialing then False
     else case periodEnd of None \<Rightarrow> True | Some e \<Rightarrow> \<not> e \<le> now)"

definition subscriptionStatusFromStripe :: "string \<Rightarrow> subscription_status" where
  "subscriptionStatusFromStripe raw =
    (if raw = ''active'' then S_Active
     else if raw = ''trialing'' then S_Trialing
     else if raw = ''past_due'' then S_PastDue
     else if raw = ''canceled'' then S_Canceled
     else if raw = ''unpaid'' then S_Unpaid
     else if raw = ''incomplete'' then S_Incomplete
     else if raw = ''incomplete_expired'' then S_IncompleteExpired
     else S_Incomplete)"

lemma recordTermsAcceptance_eq:
  "\<exists>cs. recordTermsAcceptance userId s = s\<lparr>t_charters := t_charters s @ cs\<rparr>"
proof -
  have upsert: "\<exists>cs. upsertCharter row s = s\<lparr>t_charters := t_charters s @ cs\<rparr>" for row s
  proof (cases "row \<in> set (t_charters s)")
    case True
    then show ?thesis by (intro exI [of _ "[]"]) (simp add: upsertCharter_def)
  next
    case False
    then show ?thesis by (intro exI [of _ "[row]"]) (simp add: upsertCharter_def)
  qed
  let ?r = "\<lambda>c. \<lparr>uc_userId = userId, uc_charter = c, uc_version = resolveActiveTermsVersions s c\<rparr>"
  obtain c1 where c1: "upsertCharter (?r CGU) s = s\<lparr>t_charters := t_charters s @ c1\<rparr>"
    using upsert by blast
  obtain c2 where "upsertCharter (?r CGV) (s\<lparr>t_charters := t_charters s @ c1\<rparr>)
      = s\<lparr>t_charters := t_charters s @ c1 @ c2\<rparr>"
    using upsert [of "?r CGV" "s\<lparr>t_charters := t_charters s @ c1\<rparr>"] by auto
  with c1 show ?thesis
    by (auto simp: recordTermsAcceptance_def Let_def)
qed

lemma recordTermsAcceptance_frame [simp]:
  "t_orders (recordTermsAcceptance u s) = t_orders s"
  "t_listings (recordTermsAcceptance u s) = t_listings s"
  "t_deliveries (recordTermsAcceptance u s) = t_deliveries s"
  "t_wallet (recordTermsAcceptance u s) = t_wallet s"
  "t_users (recordTermsAcceptance u s) = t_users s"
  "t_strikes (recordTermsAcceptance u s) = t_strikes s"
  "out (recordTermsAcceptance u s) = out s"
  "getOrder (recordTermsAcceptance u s) = getOrder s"
  using recordTermsAcceptance_eq [of u s] by (auto simp: getOrder_def fun_eq_iff)

end
