(* ===== verification/Strikes.thy ===== *)
theory Strikes
  imports Notify Wallet
begin

section \<open>Strikes and suspension\<close>

text \<open>
  \<open>src/modules/strikes/strikes.service.ts\<close>. An incident adds points to a user in a role, at
  most once per incident; the points of the last 90 days suspend the account from 3 on, and
  a critical infraction suspends it at once.
\<close>

definition STRIKE_WINDOW_DAYS :: int where
  "STRIKE_WINDOW_DAYS = 90"

definition SUSPENSION_THRESHOLD_POINTS :: int where
  "SUSPENSION_THRESHOLD_POINTS = 3"

definition dayMs :: int where
  "dayMs = 24 * 60 * 60 * 1000"

record strike_input =
  si_userId :: id
  si_role :: actor_role
  si_points :: int
  si_reason :: string
  si_severity :: strike_severity
  si_sourceType :: strike_source
  si_sourceId :: "id option"
  si_orderId :: "id option"
  si_deliveryId :: "id option"
  si_notes :: "string option"
  si_createdBy :: "id option"

text \<open>
  The key an incident is deduplicated by: the delivery if there is one, else the order,
  else the source id. Without any of them the strike is always added.
\<close>

definition sourceMatches :: "strike_input \<Rightarrow> strike_row \<Rightarrow> bool" where
  "sourceMatches inp r \<longleftrightarrow>
    (if truthy (si_deliveryId inp) then k_deliveryId r = si_deliveryId inp
     else if truthy (si_orderId inp) then k_orderId r = si_orderId inp
     else if truthy (si_sourceId inp) then k_sourceId r = si_sourceId inp
     else False)"

definition sameIncident :: "strike_input \<Rightarrow> strike_row \<Rightarrow> bool" where
  "sameIncident inp r \<longleftrightarrow> k_userId r = si_userId inp \<and> k_actorRole r = si_role inp \<and>
     k_reason r = si_reason inp \<and> sourceMatches inp r"

definition isSuspended :: "id \<Rightarrow> db \<Rightarrow> bool" where
  "isSuspended userId s = (case getUser s userId of None \<Rightarrow> False | Some u \<Rightarrow> u_isSuspended u)"

definition getActiveStrikePoints :: "time \<Rightarrow> id \<Rightarrow> actor_role \<Rightarrow> db \<Rightarrow> int" where
  "getActiveStrikePoints now userId role s =
    sum_list (map k_points (filter (\<lambda>k. k_userId k = userId \<and> k_actorRole k = role \<and>
      now - STRIKE_WINDOW_DAYS * dayMs \<le> k_createdAt k) (t_strikes s)))"

definition suspendUser :: "time \<Rightarrow> id \<Rightarrow> string \<Rightarrow> db \<Rightarrow> db" where
  "suspendUser now userId reason s =
    (let hit = (\<lambda>u. u_id u = userId \<and> \<not> u_isSuspended u);
         count = countWhere hit (t_users s);
         s1 = s\<lparr>t_users := updWhere hit
                 (\<lambda>u. u\<lparr>u_isSuspended := True, u_suspendedAt := Some now,
                        u_suspensionReason := Some reason\<rparr>) (t_users s)\<rparr>
     in if 0 < count then sendToUsers [userId] ''account_suspended'' userId s1 else s1)"

definition evaluateSuspension :: "time \<Rightarrow> id \<Rightarrow> actor_role \<Rightarrow> string option \<Rightarrow> db \<Rightarrow> bool \<times> db" where
  "evaluateSuspension now userId role reason s =
    (if SUSPENSION_THRESHOLD_POINTS \<le> getActiveStrikePoints now userId role s
     then (True, suspendUser now userId
             (case reason of None \<Rightarrow> ''strike_threshold_reached'' | Some r \<Rightarrow> r) s)
     else (False, s))"

definition strikeRow :: "env \<Rightarrow> strike_input \<Rightarrow> strike_row" where
  "strikeRow env inp =
    \<lparr>k_id = e_ulid env ForStrike, k_userId = si_userId inp, k_actorRole = si_role inp,
     k_points = si_points inp, k_reason = si_reason inp, k_severity = si_severity inp,
     k_sourceType = si_sourceType inp, k_sourceId = si_sourceId inp, k_orderId = si_orderId inp,
     k_deliveryId = si_deliveryId inp, k_notes = si_notes inp, k_createdBy = si_createdBy inp,
     k_createdAt = e_now env, k_expiresAt = Some (e_now env + STRIKE_WINDOW_DAYS * dayMs)\<rparr>"

text \<open>The pair of the code's \<open>created\<close> and \<open>suspended\<close>, with the state left behind.\<close>

definition addStrike :: "env \<Rightarrow> strike_input \<Rightarrow> db \<Rightarrow> (bool \<times> bool) \<times> db" where
  "addStrike env inp s =
    (if list_ex (sameIncident inp) (t_strikes s)
     then ((False, isSuspended (si_userId inp) s), s)
     else
       (let s1 = s\<lparr>t_strikes := t_strikes s @ [strikeRow env inp]\<rparr>;
            (suspended, s2) = evaluateSuspension (e_now env) (si_userId inp) (si_role inp)
              (Some (si_reason inp)) s1
        in ((True, suspended), s2)))"

definition unsuspendUser :: "id \<Rightarrow> db \<Rightarrow> db" where
  "unsuspendUser userId s = updUser userId
     (\<lambda>u. u\<lparr>u_isSuspended := False, u_suspendedAt := None, u_suspensionReason := None\<rparr>) s"

definition immediateExclude :: "env \<Rightarrow> id \<Rightarrow> actor_role \<Rightarrow> string \<Rightarrow> strike_source \<Rightarrow> id option
    \<Rightarrow> id option \<Rightarrow> db \<Rightarrow> db" where
  "immediateExclude env userId role reason sourceType deliveryId orderId s =
    suspendUser (e_now env) userId reason (snd (addStrike env
      \<lparr>si_userId = userId, si_role = role, si_points = SUSPENSION_THRESHOLD_POINTS,
       si_reason = reason, si_severity = Sev_Critical, si_sourceType = sourceType,
       si_sourceId = None, si_orderId = orderId, si_deliveryId = deliveryId,
       si_notes = None, si_createdBy = None\<rparr> s))"

text \<open>The strike history of a user, newest first, at most 100.\<close>

definition strikesListForUser :: "id \<Rightarrow> db \<Rightarrow> strike_row list" where
  "strikesListForUser userId s =
    take 100 (rev (sort_key k_createdAt (filter (\<lambda>k. k_userId k = userId) (t_strikes s))))"

subsection \<open>Frames\<close>

text \<open>A strike touches the strikes, the suspension columns and the pushes only.\<close>

definition strikeless :: "db \<Rightarrow> db" where
  "strikeless s = s\<lparr>t_users := [], t_strikes := [], out := []\<rparr>"

lemma strikeless_sel:
  assumes "strikeless s = strikeless t"
  shows "t_sellers s = t_sellers t" "t_drivers s = t_drivers t" "t_listings s = t_listings t"
    "t_addresses s = t_addresses t" "t_orders s = t_orders t" "t_deliveries s = t_deliveries t"
    "t_wallet s = t_wallet t" "t_disputes s = t_disputes t" "t_audit s = t_audit t"
    "timers s = timers t"
  using assms by (cases s; cases t; simp add: strikeless_def)+

lemma strikeless_suspendUser: "strikeless (suspendUser now u r s) = strikeless s"
  by (simp add: suspendUser_def Let_def strikeless_def sendToUsers_def emit_def)

lemma strikeless_evaluate: "strikeless (snd (evaluateSuspension now u role r s)) = strikeless s"
  by (simp add: evaluateSuspension_def strikeless_suspendUser split: option.split)

lemma strikeless_addStrike: "strikeless (snd (addStrike env inp s)) = strikeless s"
  using strikeless_evaluate [of "e_now env" "si_userId inp" "si_role inp" "Some (si_reason inp)"
      "s\<lparr>t_strikes := t_strikes s @ [strikeRow env inp]\<rparr>"]
  by (simp add: addStrike_def Let_def split_beta) (simp add: strikeless_def)

lemma strikeless_immediateExclude:
  "strikeless (immediateExclude env u role r src did oid s) = strikeless s"
  by (simp add: immediateExclude_def strikeless_suspendUser strikeless_addStrike)

lemmas strike_frames [simp] = strikeless_sel [OF strikeless_suspendUser]
  strikeless_sel [OF strikeless_addStrike] strikeless_sel [OF strikeless_immediateExclude]

lemma get_strike_frames [simp]:
  "getOrder (snd (addStrike env inp s)) = getOrder s"
  "getDelivery (snd (addStrike env inp s)) = getDelivery s"
  "getOrder (immediateExclude env u role r src did oid s) = getOrder s"
  "getDelivery (immediateExclude env u role r src did oid s) = getDelivery s"
  by (simp_all add: getOrder_def getDelivery_def fun_eq_iff)

subsection \<open>Correctness\<close>

lemma t_strikes_suspend [simp]: "t_strikes (suspendUser now u r s) = t_strikes s"
  by (simp add: suspendUser_def Let_def sendToUsers_def emit_def)

lemma t_strikes_evaluate [simp]: "t_strikes (snd (evaluateSuspension now u role r s)) = t_strikes s"
  by (simp add: evaluateSuspension_def)

lemma t_strikes_addStrike:
  "t_strikes (snd (addStrike env inp s)) =
    (if list_ex (sameIncident inp) (t_strikes s) then t_strikes s
     else t_strikes s @ [strikeRow env inp])"
  by (simp add: addStrike_def Let_def split_beta)

lemma getUser_suspendUser:
  "getUser (suspendUser now u r s) v = map_option
    (\<lambda>x. if u_id x = u \<and> \<not> u_isSuspended x
      then x\<lparr>u_isSuspended := True, u_suspendedAt := Some now, u_suspensionReason := Some r\<rparr> else x)
    (getUser s v)"
  by (simp add: getUser_def suspendUser_def Let_def sendToUsers_def emit_def findRow_updWhere)

lemma getUser_id: "getUser s v = Some x \<Longrightarrow> u_id x = v"
  by (rule usr.get_key)

lemma isSuspended_suspendUser:
  "isSuspended v (suspendUser now u r s) \<longleftrightarrow> isSuspended v s \<or> v = u \<and> getUser s u \<noteq> None"
  by (cases "getUser s v") (auto simp: isSuspended_def getUser_suspendUser dest: getUser_id)

lemma suspendUser_suspended:
  assumes "\<forall>u \<in> set (t_users s). u_id u = userId \<longrightarrow> u_isSuspended u"
  shows "suspendUser now userId r s = s"
proof -
  have "countWhere (\<lambda>u. u_id u = userId \<and> \<not> u_isSuspended u) (t_users s) = 0"
    "updWhere (\<lambda>u. u_id u = userId \<and> \<not> u_isSuspended u) f (t_users s) = t_users s" for f
    using assms by (auto simp: countWhere_def filter_empty_conv intro!: updWhere_none)
  then show ?thesis by (simp add: suspendUser_def Let_def)
qed

lemma suspendUser_all_suspended:
  "\<forall>u \<in> set (t_users (suspendUser now userId r s)). u_id u = userId \<longrightarrow> u_isSuspended u"
proof (intro ballI impI)
  fix x assume x: "x \<in> set (t_users (suspendUser now userId r s))" "u_id x = userId"
  let ?hit = "\<lambda>u. u_id u = userId \<and> \<not> u_isSuspended u"
  let ?f = "\<lambda>u. u\<lparr>u_isSuspended := True, u_suspendedAt := Some now, u_suspensionReason := Some r\<rparr>"
  from x(1) have "x \<in> set (updWhere ?hit ?f (t_users s))"
    by (simp add: suspendUser_def Let_def sendToUsers_def emit_def split: if_splits)
  then obtain q where "x = (if ?hit q then ?f q else q)" by (auto simp: in_updWhere)
  with x(2) show "u_isSuspended x" by (cases "?hit q") (simp, metis)
qed

definition hasSource :: "strike_input \<Rightarrow> bool" where
  "hasSource inp \<longleftrightarrow> truthy (si_deliveryId inp) \<or> truthy (si_orderId inp) \<or> truthy (si_sourceId inp)"

lemma strikeRow_sameIncident: "hasSource inp \<Longrightarrow> sameIncident inp (strikeRow env inp)"
  by (auto simp: sameIncident_def sourceMatches_def strikeRow_def hasSource_def)

text \<open>One incident strikes at most once: when the strike names a delivery, an order or a
  source, recording it again, at any later time, creates no strike, suspends nobody and
  leaves the whole database as the first call left it.\<close>

theorem addStrike_once:
  assumes "hasSource inp"
  shows "\<exists>susp. addStrike env' inp (snd (addStrike env inp s)) = ((False, susp), snd (addStrike env inp s))"
proof -
  have "list_ex (sameIncident inp) (t_strikes (snd (addStrike env inp s)))"
    using strikeRow_sameIncident [OF assms, of env] by (auto simp: t_strikes_addStrike)
  then show ?thesis by (simp add: addStrike_def)
qed

definition demo_strike :: "id \<Rightarrow> int \<Rightarrow> strike_input" where
  "demo_strike oid pts = \<lparr>si_userId = ''s'', si_role = A_Seller, si_points = pts,
    si_reason = ''WRONG_ORDER'', si_severity = Sev_Light, si_sourceType = Src_Order,
    si_sourceId = None, si_orderId = Some oid, si_deliveryId = None, si_notes = None,
    si_createdBy = None\<rparr>"

theorem addStrike_once_witness:
  "\<exists>susp. addStrike (demo_env\<lparr>e_now := 5\<rparr>) (demo_strike ''o'' 1)
      (snd (addStrike demo_env (demo_strike ''o'' 1) empty_db)) =
    ((False, susp), snd (addStrike demo_env (demo_strike ''o'' 1) empty_db))"
  by (rule addStrike_once) (simp add: hasSource_def demo_strike_def truthy_def)

text \<open>A new strike suspends exactly at the threshold: it reports a suspension when the
  user's points in that role over the last 90 days, the new ones included, reach 3, the
  account is then suspended, and below the threshold no account changes.\<close>

theorem addStrike_threshold:
  assumes "\<not> list_ex (sameIncident inp) (t_strikes s)"
  shows "\<exists>susp s'. addStrike env inp s = ((True, susp), s') \<and>
    (susp \<longleftrightarrow> 3 \<le> getActiveStrikePoints (e_now env) (si_userId inp) (si_role inp) s + si_points inp) \<and>
    (susp \<longrightarrow> (getUser s (si_userId inp) \<noteq> None \<longrightarrow> isSuspended (si_userId inp) s')) \<and>
    (\<not> susp \<longrightarrow> t_users s' = t_users s)"
proof -
  let ?s = "s\<lparr>t_strikes := t_strikes s @ [strikeRow env inp]\<rparr>"
  let ?r = "evaluateSuspension (e_now env) (si_userId inp) (si_role inp) (Some (si_reason inp)) ?s"
  have pts: "getActiveStrikePoints (e_now env) (si_userId inp) (si_role inp) ?s =
    getActiveStrikePoints (e_now env) (si_userId inp) (si_role inp) s + si_points inp"
    by (simp add: getActiveStrikePoints_def strikeRow_def STRIKE_WINDOW_DAYS_def dayMs_def)
  have "getUser ?s = getUser s" by (simp add: getUser_def fun_eq_iff)
  then have "addStrike env inp s = ((True, fst ?r), snd ?r) \<and>
    (fst ?r \<longleftrightarrow> 3 \<le> getActiveStrikePoints (e_now env) (si_userId inp) (si_role inp) s + si_points inp) \<and>
    (fst ?r \<longrightarrow> (getUser s (si_userId inp) \<noteq> None \<longrightarrow> isSuspended (si_userId inp) (snd ?r))) \<and>
    (\<not> fst ?r \<longrightarrow> t_users (snd ?r) = t_users s)"
    using assms
    by (auto simp: addStrike_def Let_def split_beta evaluateSuspension_def pts
        SUSPENSION_THRESHOLD_POINTS_def isSuspended_suspendUser)
  then show ?thesis by blast
qed

theorem addStrike_threshold_witness:
  "\<exists>s'. addStrike demo_env (demo_strike ''o'' 3) payout_db = ((True, True), s') \<and> isSuspended ''s'' s'"
proof -
  have "\<not> list_ex (sameIncident (demo_strike ''o'' 3)) (t_strikes payout_db)"
    by (simp add: payout_db_def empty_db_def)
  from addStrike_threshold [OF this, of demo_env] show ?thesis
    by (auto simp: demo_strike_def getActiveStrikePoints_def payout_db_def empty_db_def getUser_def)
qed

lemma immediateExclude_always:
  "isSuspended u (immediateExclude env u role why src did oid s) \<longleftrightarrow> getUser s u \<noteq> None"
proof -
  have known: "getUser (snd (addStrike env inp s)) u = None \<longleftrightarrow> getUser s u = None" for inp
    by (simp add: addStrike_def Let_def split_beta evaluateSuspension_def getUser_suspendUser)
      (simp add: getUser_def)
  have sus: "isSuspended u t \<Longrightarrow> getUser t u \<noteq> None" for t
    by (auto simp: isSuspended_def split: option.splits)
  show ?thesis
    unfolding immediateExclude_def isSuspended_suspendUser using sus known by metis
qed

text \<open>A critical infraction always ends in a suspended account, whether its strike is new
  or a duplicate, and running it twice is the same as running it once.\<close>

theorem immediateExclude_suspends:
  "(getUser s u \<noteq> None \<longrightarrow> isSuspended u (immediateExclude env u role why src did oid s)) \<and>
   (truthy did \<or> truthy oid \<longrightarrow>
    immediateExclude env' u role why src did oid (immediateExclude env u role why src did oid s) =
    immediateExclude env u role why src did oid s)"
proof -
  define inp where "inp = \<lparr>si_userId = u, si_role = role, si_points = SUSPENSION_THRESHOLD_POINTS,
       si_reason = why, si_severity = Sev_Critical, si_sourceType = src,
       si_sourceId = None, si_orderId = oid, si_deliveryId = did,
       si_notes = None, si_createdBy = None\<rparr>"
  have run: "immediateExclude env u role why src did oid s =
      suspendUser (e_now env) u why (snd (addStrike env inp s))" for env s
    by (simp add: immediateExclude_def inp_def)
  have known: "getUser (snd (addStrike env inp s)) u = None \<longleftrightarrow> getUser s u = None"
    by (simp add: addStrike_def Let_def split_beta evaluateSuspension_def getUser_suspendUser)
      (simp add: getUser_def)
  let ?t = "immediateExclude env u role why src did oid s"
  have "immediateExclude env' u role why src did oid ?t = ?t" if "truthy did \<or> truthy oid"
  proof -
    have "hasSource inp" using that by (auto simp: hasSource_def inp_def)
    then have "list_ex (sameIncident inp) (t_strikes ?t)"
      using strikeRow_sameIncident [of inp env] unfolding run by (auto simp: t_strikes_addStrike)
    then have "snd (addStrike env' inp ?t) = ?t" by (simp add: addStrike_def)
    moreover have "suspendUser (e_now env') u why ?t = ?t"
      unfolding run [of env s] by (rule suspendUser_suspended [OF suspendUser_all_suspended])
    ultimately show ?thesis using run [of env' ?t] by simp
  qed
  then show ?thesis
    by (auto simp: run isSuspended_suspendUser known)
qed

theorem immediateExclude_suspends_witness:
  "isSuspended ''s'' (immediateExclude demo_env ''s'' A_Driver ''X'' Src_Delivery (Some ''d'') None payout_db)
   \<and> immediateExclude (demo_env\<lparr>e_now := 9\<rparr>) ''s'' A_Driver ''X'' Src_Delivery (Some ''d'') None
      (immediateExclude demo_env ''s'' A_Driver ''X'' Src_Delivery (Some ''d'') None payout_db)
   = immediateExclude demo_env ''s'' A_Driver ''X'' Src_Delivery (Some ''d'') None payout_db"
proof -
  have "getUser payout_db ''s'' \<noteq> None" by (simp add: payout_db_def getUser_def)
  with immediateExclude_suspends show ?thesis by (simp add: truthy_def)
qed

end
