(* ===== verification/Orders_Create.thy ===== *)
theory Orders_Create
  imports Pricing Inventory Charters Strikes
begin

section \<open>Placing an order\<close>

text \<open>
  \<open>createOrder\<close> of \<open>src/modules/orders/orders.service.ts\<close> with the helpers it calls: the cart
  validation, the drop-off address, the totals, the Stripe customer, the transaction that
  takes the stock and inserts the order, and the PaymentIntent. The request body is
  \<open>CreateOrderDto\<close> after the global validation pipe (quantities are positive integers,
  \<open>scheduledAt\<close> is a date).
\<close>

record cart_item =
  ci_listingId :: id
  ci_quantity :: int
  ci_note :: "string option"
  ci_addOnIds :: "id list option"

record create_order_dto =
  c_items :: "cart_item list"
  c_fulfillmentChoice :: fulfillment_choice
  c_dropoffAddressId :: "id option"
  c_dropoffAddress :: "address_data option"
  c_deliveryInstructions :: "string option"
  c_deliveryTiming :: "delivery_timing option"
  c_scheduledAt :: "time option"
  c_note :: "string option"
  c_termsAccepted :: "bool option"

record cart =
  ca_listings :: "listing_row list"
  ca_addOns :: "addon_row list"
  ca_sellerId :: id
  ca_isPremium :: bool

subsection \<open>Cart validation\<close>

definition addOnIdsOf :: "cart_item \<Rightarrow> id list" where
  "addOnIdsOf item = (case ci_addOnIds item of None \<Rightarrow> [] | Some ids \<Rightarrow> ids)"

fun liveCheck :: "time \<Rightarrow> listing_row list \<Rightarrow> exn option" where
  "liveCheck now [] = None"
| "liveCheck now (l # ls) =
    (if l_deletedAt l \<noteq> None then Some (BadRequest (Cart (ListingUnavailable (l_name l))))
     else if \<not> l_isAvailable l then Some (BadRequest (Cart (ListingNotAvailable (l_name l))))
     else if (case l_expiresAt l of None \<Rightarrow> False | Some e \<Rightarrow> e \<le> now)
     then Some (BadRequest (Cart (ListingNoLongerAvailable (l_name l))))
     else liveCheck now ls)"

fun addOnCheckItem :: "addon_row list \<Rightarrow> id \<Rightarrow> id list \<Rightarrow> exn option" where
  "addOnCheckItem rows listingId [] = None"
| "addOnCheckItem rows listingId (a # as) =
    (case findRow a_id a rows of
       None \<Rightarrow> Some (BadRequest (Cart (UnknownAddOn a)))
     | Some row \<Rightarrow>
         if a_listingId row \<noteq> listingId then Some (BadRequest (Cart (AddOnOtherListing a listingId)))
         else addOnCheckItem rows listingId as)"

fun addOnCheck :: "addon_row list \<Rightarrow> cart_item list \<Rightarrow> exn option" where
  "addOnCheck rows [] = None"
| "addOnCheck rows (item # items) =
    (case addOnCheckItem rows (ci_listingId item) (addOnIdsOf item) of
       Some e \<Rightarrow> Some e
     | None \<Rightarrow> addOnCheck rows items)"

definition sellerCheck :: "time \<Rightarrow> seller_row \<Rightarrow> user_row \<Rightarrow> exn option" where
  "sellerCheck now seller user =
    (if sp_kycStatus seller \<noteq> K_Approved then Some (BadRequest (Cart SellerNotApproved))
     else if u_deletedAt user \<noteq> None then Some (BadRequest (Cart SellerAccountUnavailable))
     else if u_isSuspended user then Some (BadRequest (Cart SellerSuspended))
     else if \<not> isSubscriptionActive now (sp_subscriptionStatus seller)
               (sp_subscriptionCurrentPeriodEnd seller)
     then Some (BadRequest (Cart SellerNotAccepting))
     else if sp_deliveryFeeCents seller = None then Some (BadRequest (Cart SellerFeeMissing))
     else None)"

text \<open>
  \<open>listing.findMany\<close> goes through the soft-delete extension, which hides rows with a
  \<open>deletedAt\<close>. An empty cart cannot pass the validation pipe; without it the seller lookup
  would run on \<open>undefined\<close>, which Prisma rejects.
\<close>

definition loadAndValidateCart :: "env \<Rightarrow> cart_item list \<Rightarrow> db \<Rightarrow> exn + cart" where
  "loadAndValidateCart env items s =
    (let listingIds = uniq (map ci_listingId items);
         listings = filter (\<lambda>l. l_id l \<in> set listingIds \<and> l_deletedAt l = None) (t_listings s)
     in if length listings \<noteq> length listingIds then Inl (BadRequest (Cart ListingsNotFound))
     else let sellerIds = uniq (map l_sellerId listings)
     in if 1 < length sellerIds then Inl (BadRequest (Cart SeveralSellers))
     else case sellerIds of [] \<Rightarrow> Inl PrismaValidation | sellerId # _ \<Rightarrow>
       (case (getSeller s sellerId, getUser s sellerId) of
          (Some seller, Some user) \<Rightarrow>
            (case sellerCheck (e_now env) seller user of Some e \<Rightarrow> Inl e | None \<Rightarrow>
             (case liveCheck (e_now env) listings of Some e \<Rightarrow> Inl e | None \<Rightarrow>
              (let addOnIds = uniq (concat (map addOnIdsOf items));
                   rows = filter (\<lambda>a. a_id a \<in> set addOnIds) (t_addOns s)
               in case addOnCheck rows items of Some e \<Rightarrow> Inl e | None \<Rightarrow>
                 Inr \<lparr>ca_listings = listings, ca_addOns = rows, ca_sellerId = sellerId,
                      ca_isPremium = sp_isPremium seller\<rparr>)))
        | _ \<Rightarrow> Inl (BadRequest (Cart SellerNotFound))))"

subsection \<open>Scheduling and fulfilment gates\<close>

definition deliverable :: "listing_row \<Rightarrow> bool" where
  "deliverable l \<longleftrightarrow> l_fulfillment l = Offers_Delivery \<or> l_fulfillment l = Offers_Both"

definition collectable :: "listing_row \<Rightarrow> bool" where
  "collectable l \<longleftrightarrow> l_fulfillment l = Offers_Pickup \<or> l_fulfillment l = Offers_Both"

definition dtoCheck :: "create_order_dto \<Rightarrow> listing_row list \<Rightarrow> exn option" where
  "dtoCheck dto listings =
    (if c_deliveryTiming dto = Some T_Scheduled \<and> c_scheduledAt dto = None
     then Some (BadRequest (Buyer ScheduledAtRequired))
     else if c_deliveryTiming dto \<noteq> Some T_Scheduled \<and> c_scheduledAt dto \<noteq> None
     then Some (BadRequest (Buyer ScheduledAtOnlyScheduled))
     else if c_fulfillmentChoice dto = F_Delivery \<and> \<not> list_all deliverable listings
     then Some (BadRequest (Buyer ItemNotForDelivery))
     else if c_fulfillmentChoice dto = F_Pickup \<and> \<not> list_all collectable listings
     then Some (BadRequest (Buyer ItemNotForPickup))
     else None)"

subsection \<open>Drop-off address\<close>

definition createInlineAddress :: "env \<Rightarrow> id \<Rightarrow> address_data \<Rightarrow> db \<Rightarrow> (exn, id, db) result" where
  "createInlineAddress env buyerId addr s =
    (let aid = e_ulid env ForAddress;
         point = (case (ad_lng addr, ad_lat addr) of
           (Some lng, Some lat) \<Rightarrow> Some (lng, lat) | _ \<Rightarrow> None)
     in ok aid (s\<lparr>t_addresses := t_addresses s @
          [\<lparr>ad_id = aid, ad_userId = buyerId, ad_kind = AK_BuyerDelivery, ad_data = addr,
            ad_point = point, ad_deletedAt = None, ad_updatedAt = e_now env\<rparr>]\<rparr>))"

definition resolveDropoffAddress :: "env \<Rightarrow> id \<Rightarrow> create_order_dto \<Rightarrow> db \<Rightarrow> (exn, id, db) result" where
  "resolveDropoffAddress env buyerId dto s =
    (let hasId = truthy (c_dropoffAddressId dto); hasInline = (c_dropoffAddress dto \<noteq> None)
     in if hasId = hasInline then fail (BadRequest (Buyer ExactlyOneAddress)) s
     else if hasId then
       (case findRow ad_id (the (c_dropoffAddressId dto)) (t_addresses s) of
          None \<Rightarrow> fail (NotFound DropoffAddress) s
        | Some existing \<Rightarrow>
            if ad_deletedAt existing \<noteq> None then fail (NotFound DropoffAddress) s
            else if ad_userId existing \<noteq> buyerId then fail (Forbidden (Buyer AddressNotYours)) s
            else ok (ad_id existing) s)
     else createInlineAddress env buyerId (the (c_dropoffAddress dto)) s)"

subsection \<open>Totals\<close>

text \<open>
  A price that is not in the map is \<open>undefined\<close> and makes the sum \<open>NaN\<close>, which fails the
  money check; a missing add-on is a \<open>TypeError\<close>. Neither happens for a validated cart.
\<close>

primrec addOnsCents :: "addon_row list \<Rightarrow> id list \<Rightarrow> int option" where
  "addOnsCents rows [] = Some 0"
| "addOnsCents rows (a # as) =
    (case findRow a_id a rows of
       None \<Rightarrow> None
     | Some row \<Rightarrow> map_option (\<lambda>n. a_priceDeltaCents row + n) (addOnsCents rows as))"

primrec subtotalOf :: "listing_row list \<Rightarrow> addon_row list \<Rightarrow> cart_item list \<Rightarrow> exn + int" where
  "subtotalOf listings rows [] = Inr 0"
| "subtotalOf listings rows (item # items) =
    (case addOnsCents rows (addOnIdsOf item) of
       None \<Rightarrow> Inl UncaughtError
     | Some addons \<Rightarrow>
         (case findRow l_id (ci_listingId item) listings of
            None \<Rightarrow> Inl (InternalError (Pay MoneyMathMismatch))
          | Some l \<Rightarrow>
              (case subtotalOf listings rows items of
                 Inl e \<Rightarrow> Inl e
               | Inr n \<Rightarrow> Inr ((l_priceCents l + addons) * ci_quantity item + n))))"

definition computeTotals :: "env \<Rightarrow> cart_item list \<Rightarrow> cart \<Rightarrow> fulfillment_choice \<Rightarrow> exn + order_totals" where
  "computeTotals env items cart choice =
    (case subtotalOf (ca_listings cart) (ca_addOns cart) items of
       Inl e \<Rightarrow> Inl e
     | Inr subtotal \<Rightarrow>
         priceOrder (e_deliveryFeeCents env) (e_platformFeeBps env) subtotal (ca_isPremium cart)
           (choice = F_Delivery))"

subsection \<open>Stripe customer\<close>

text \<open>
  The write of the customer id violates its unique constraint (P2002) when another user
  already has it.
\<close>

definition customerTaken :: "id \<Rightarrow> id \<Rightarrow> db \<Rightarrow> bool" where
  "customerTaken userId cid s \<longleftrightarrow>
    list_ex (\<lambda>u. u_id u \<noteq> userId \<and> u_stripeCustomerId u = Some cid) (t_users s)"

definition storeCustomer :: "id \<Rightarrow> id \<Rightarrow> db \<Rightarrow> (exn, id, db) result" where
  "storeCustomer userId cid s =
    (if customerTaken userId cid s
     then (case Option.bind (getUser s userId) u_stripeCustomerId of
             Some other \<Rightarrow> if other \<noteq> [] then ok other s else fail PrismaConflict s
           | None \<Rightarrow> fail PrismaConflict s)
     else ok cid (updUser userId (\<lambda>u. u\<lparr>u_stripeCustomerId := Some cid\<rparr>) s))"

definition ensureStripeCustomer :: "env \<Rightarrow> id \<Rightarrow> id option \<Rightarrow> db \<Rightarrow> (exn, id, db) result" where
  "ensureStripeCustomer env userId existing s =
    (if truthy existing \<and> \<not> startsWith (the existing) ''cus_dev_'' \<and>
        e_custRetrieve env (the existing) = Some False
     then ok (the existing) s
     else case e_custCreate env of
         Inr cid \<Rightarrow> storeCustomer userId cid s
       | Inl _ \<Rightarrow>
           if e_isDev env then storeCustomer userId (''cus_dev_'' @ take 16 userId) s
           else fail (ServiceUnavailable (Pay ProviderUnavailable)) s)"

subsection \<open>The transaction\<close>

text \<open>
  The rows a cart line becomes. The name, the price and the add-ons are looked up with a
  non-null assertion (\<^const>\<open>the\<close>): the totals were computed from the same lookups before.
\<close>

definition itemRow :: "env \<Rightarrow> cart \<Rightarrow> listing_row list \<Rightarrow> nat \<times> cart_item \<Rightarrow> item_row" where
  "itemRow env cart table ni =
    (let item = snd ni; n = fst ni; l = the (findRow l_id (ci_listingId item) (ca_listings cart))
     in \<lparr>i_id = e_ulid env (ForItem n), i_listingId = ci_listingId item,
         i_listingNameSnapshot = l_name l,
         i_listingImageUrlSnapshot =
           (case findRow l_id (ci_listingId item) table of
              None \<Rightarrow> None
            | Some row \<Rightarrow> (case l_imageUrls row of [] \<Rightarrow> None | u # _ \<Rightarrow> Some u)),
         i_unitPriceCentsSnapshot = l_priceCents l, i_quantity = ci_quantity item,
         i_note = ci_note item,
         i_addOns = map (\<lambda>(m, a). let row = the (findRow a_id a (ca_addOns cart)) in
             \<lparr>ia_id = e_ulid env (ForItemAddOn n m), ia_labelSnapshot = a_label row,
              ia_priceDeltaCentsSnapshot = a_priceDeltaCents row\<rparr>)
           (zip [0..<length (addOnIdsOf item)] (addOnIdsOf item))\<rparr>)"

definition newOrder :: "env \<Rightarrow> id \<Rightarrow> cart \<Rightarrow> id option \<Rightarrow> create_order_dto \<Rightarrow> order_totals
    \<Rightarrow> listing_row list \<Rightarrow> order_row" where
  "newOrder env buyerId cart dropoff dto totals table =
    \<lparr>o_id = e_ulid env ForOrder, o_orderNumber = e_orderCode env, o_buyerId = buyerId,
     o_sellerId = ca_sellerId cart, o_status = O_Pending, o_subtotalCents = subtotalCents totals,
     o_fulfillmentFeeCents = fulfillmentFeeCents totals,
     o_commissionRateBps = commissionRateBps totals, o_commissionCents = commissionCents totals,
     o_sellerEarningsCents = sellerEarningsCents totals,
     o_buyerTotalCents = buyerTotalCents totals,
     o_fulfillmentChoice = c_fulfillmentChoice dto, o_dropoffAddressId = dropoff,
     o_deliveryInstructions = c_deliveryInstructions dto,
     o_deliveryTiming = (case c_deliveryTiming dto of None \<Rightarrow> T_Asap | Some t \<Rightarrow> t),
     o_scheduledAt = c_scheduledAt dto, o_expectedAt = None, o_note = c_note dto,
     o_stripePaymentIntentId = None, o_inventoryRestored = False, o_stripeRefundId = None,
     o_refundedAt = None, o_placedAt = e_now env, o_confirmedAt = None, o_readyAt = None,
     o_completedAt = None, o_cancelledAt = None, o_cancellationReason = None,
     o_items = map (itemRow env cart table) (zip [0..<length (c_items dto)] (c_items dto))\<rparr>"

definition stockLines :: "cart_item list \<Rightarrow> stock_line list" where
  "stockLines items = map (\<lambda>i. (ci_listingId i, ci_quantity i)) items"

definition placeOrder :: "env \<Rightarrow> id \<Rightarrow> cart \<Rightarrow> id option \<Rightarrow> create_order_dto \<Rightarrow> order_totals \<Rightarrow> db
    \<Rightarrow> (exn, order_row, db) result" where
  "placeOrder env buyerId cart dropoff dto totals s =
    (case atomicDecrementInventory (e_isDev env)
        (\<lambda>i. map_option l_name (findRow l_id i (ca_listings cart)))
        (stockLines (c_items dto)) (t_listings s) of
       Inl e \<Rightarrow> fail e s
     | Inr table \<Rightarrow>
         let ord = newOrder env buyerId cart dropoff dto totals table
         in ok ord (s\<lparr>t_listings := table, t_orders := t_orders s @ [ord]\<rparr>))"

subsection \<open>The payment\<close>

definition backfillPaymentIntent :: "env \<Rightarrow> id \<Rightarrow> id \<Rightarrow> db \<Rightarrow> db" where
  "backfillPaymentIntent env oid pid s =
    (if e_piWriteOk env then updOrder oid (\<lambda>r. r\<lparr>o_stripePaymentIntentId := Some pid\<rparr>) s else s)"

definition finishOrder :: "env \<Rightarrow> order_row \<Rightarrow> id \<Rightarrow> string option \<Rightarrow> db
    \<Rightarrow> (exn, order_row \<times> string, db) result" where
  "finishOrder env ord pid secret s =
    (let s1 = backfillPaymentIntent env (o_id ord) pid s
     in if \<not> truthy secret then fail (ServiceUnavailable (Pay MissingClientSecret)) s1
        else ok (ord, the secret) s1)"

definition payOrder :: "env \<Rightarrow> order_row \<Rightarrow> db \<Rightarrow> (exn, order_row \<times> string, db) result" where
  "payOrder env ord s =
    (case e_piCreate env of
       Inr (pid, secret) \<Rightarrow>
         finishOrder env ord pid secret (emit (StripePaymentIntent (o_id ord) (o_buyerTotalCents ord) pid) s)
     | Inl _ \<Rightarrow>
         if e_isDev env
         then finishOrder env ord (''pi_dev_'' @ o_id ord)
                (Some (''pi_dev_'' @ o_id ord @ ''_secret_devbypass'')) s
         else fail (ServiceUnavailable (Pay ProviderUnavailable)) s)"

subsection \<open>The whole operation\<close>

definition buyerCheck :: "db \<Rightarrow> create_order_dto \<Rightarrow> user_row \<Rightarrow> exn option" where
  "buyerCheck s dto buyer =
    (if getBuyerProfile s (u_id buyer) = None then Some (BadRequest (Buyer CompleteBuyerProfile))
     else if u_deletedAt buyer \<noteq> None then Some (Forbidden (Buyer DeletedUser))
     else if u_isSuspended buyer then Some (Forbidden (Buyer BuyerSuspended))
     else if c_termsAccepted dto \<noteq> Some True then Some (BadRequest (Buyer TermsNotAccepted))
     else None)"

definition dropoffFor :: "env \<Rightarrow> id \<Rightarrow> create_order_dto \<Rightarrow> db \<Rightarrow> (exn, id option, db) result" where
  "dropoffFor env buyerId dto s =
    (if c_fulfillmentChoice dto = F_Delivery
     then bindR (resolveDropoffAddress env buyerId dto s) (\<lambda>aid s. ok (Some aid) s)
     else ok None s)"

text \<open>Sections 1 to 4 of the method: everything that is checked before anything is written.\<close>

definition acceptCart :: "env \<Rightarrow> id \<Rightarrow> create_order_dto \<Rightarrow> db \<Rightarrow> exn + (user_row \<times> cart)" where
  "acceptCart env supabaseId dto s =
    (case getUserBySupabase s supabaseId of
       None \<Rightarrow> Inl (NotFound UserProfile)
     | Some buyer \<Rightarrow>
        (case buyerCheck s dto buyer of Some e \<Rightarrow> Inl e | None \<Rightarrow>
         (case loadAndValidateCart env (c_items dto) s of Inl e \<Rightarrow> Inl e | Inr cart \<Rightarrow>
          (case dtoCheck dto (ca_listings cart) of Some e \<Rightarrow> Inl e | None \<Rightarrow> Inr (buyer, cart)))))"

text \<open>Sections 7 to 10: the customer, the transaction, the consent record and the payment.\<close>

definition placeAndPay :: "env \<Rightarrow> user_row \<Rightarrow> cart \<Rightarrow> id option \<Rightarrow> create_order_dto \<Rightarrow> order_totals
    \<Rightarrow> db \<Rightarrow> (exn, order_row \<times> string, db) result" where
  "placeAndPay env buyer cart dropoff dto totals s =
    bindR (ensureStripeCustomer env (u_id buyer) (u_stripeCustomerId buyer) s) (\<lambda>_ s.
    bindR (placeOrder env (u_id buyer) cart dropoff dto totals s) (\<lambda>ord s.
      payOrder env ord (recordTermsAcceptance (u_id buyer) s)))"

definition createOrder :: "env \<Rightarrow> id \<Rightarrow> create_order_dto \<Rightarrow> db
    \<Rightarrow> (exn, order_row \<times> string, db) result" where
  "createOrder env supabaseId dto s =
    bindR (liftE (acceptCart env supabaseId dto s) s) (\<lambda>(buyer, cart) s.
    bindR (dropoffFor env (u_id buyer) dto s) (\<lambda>dropoff s.
    bindR (liftE (computeTotals env (c_items dto) cart (c_fulfillmentChoice dto)) s) (\<lambda>totals s.
      placeAndPay env buyer cart dropoff dto totals s)))"

subsection \<open>Properties of placing an order\<close>

lemma dropoffFor_frame:
  "dropoffFor env b dto s = (r, t) \<Longrightarrow> \<exists>addrs. t = s\<lparr>t_addresses := addrs\<rparr>"
  by (auto simp: dropoffFor_def resolveDropoffAddress_def createInlineAddress_def bindR_eq_iff
      fail_eq_iff ok_eq_iff Let_def split: if_splits option.splits intro: exI [of _ "t_addresses s"])

lemma ensureStripeCustomer_frame:
  "ensureStripeCustomer env u c s = (r, t) \<Longrightarrow> \<exists>us. t = s\<lparr>t_users := us\<rparr>"
  by (auto simp: ensureStripeCustomer_def storeCustomer_def updUser_def
      fail_eq_iff ok_eq_iff split: if_splits option.splits sum.splits intro: exI [of _ "t_users s"])

definition untouched :: "db \<Rightarrow> db \<Rightarrow> bool" where
  "untouched s t \<longleftrightarrow> t_listings t = t_listings s \<and> t_orders t = t_orders s \<and> out t = out s"

lemma untouched_refl [simp]: "untouched s s"
  by (simp add: untouched_def)

lemma untouched_trans: "untouched s t \<Longrightarrow> untouched t u \<Longrightarrow> untouched s u"
  by (simp add: untouched_def)

lemma untouched_steps:
  "dropoffFor env b dto s = (rd, t) \<Longrightarrow> untouched s t"
  "ensureStripeCustomer env u c s = (rc, t) \<Longrightarrow> untouched s t"
  "placeOrder env b cart dropoff dto totals s = (Inl e, t) \<Longrightarrow> untouched s t"
  by (auto simp: untouched_def placeOrder_def Let_def fail_eq_iff ok_eq_iff split: sum.splits
      dest: dropoffFor_frame ensureStripeCustomer_frame)

lemma bindR_untouched:
  assumes "bindR x k = (r, t)" and "untouched s0 s" and "\<And>r u. x = (r, u) \<Longrightarrow> untouched s u"
  obtains e where "r = Inl e" "untouched s0 t"
    | a u where "x = (Inr a, u)" "untouched s0 u" "k a u = (r, t)"
  using assms unfolding bindR_eq_iff by (blast intro: untouched_trans)

lemma placeAndPay_result:
  assumes "placeAndPay env buyer cart dropoff dto totals s = (r, s')"
  obtains e where "r = Inl e" "untouched s s'"
    | s1 ord s2 where "untouched s s1" "placeOrder env (u_id buyer) cart dropoff dto totals s1 = (Inr ord, s2)"
      "payOrder env ord (recordTermsAcceptance (u_id buyer) s2) = (r, s')"
  using assms unfolding placeAndPay_def
proof (rule bindR_untouched [OF _ untouched_refl untouched_steps(2)])
  fix c s1 assume u: "untouched s s1" and "bindR (placeOrder env (u_id buyer) cart dropoff dto totals s1)
    (\<lambda>ord s. payOrder env ord (recordTermsAcceptance (u_id buyer) s)) = (r, s')"
  then consider e where "r = Inl e" "placeOrder env (u_id buyer) cart dropoff dto totals s1 = (Inl e, s')"
    | ord s2 where "placeOrder env (u_id buyer) cart dropoff dto totals s1 = (Inr ord, s2)"
      "payOrder env ord (recordTermsAcceptance (u_id buyer) s2) = (r, s')"
    unfolding bindR_eq_iff by blast
  then show thesis
  proof cases
    case (1 e)
    with untouched_trans [OF u untouched_steps(3)] show thesis by (intro that(1)) auto
  next
    case (2 ord s2)
    with u show thesis by (intro that(2))
  qed
qed (assumption | rule that(1))+

text \<open>A call either leaves stock, orders and effects alone and throws, or reaches the payment.\<close>

lemma createOrder_result:
  assumes "createOrder env sid dto s = (r, s')"
  obtains e where "r = Inl e" "untouched s s'"
    | buyer cart dropoff totals s1 ord s2 where
      "acceptCart env sid dto s = Inr (buyer, cart)"
      "computeTotals env (c_items dto) cart (c_fulfillmentChoice dto) = Inr totals"
      "untouched s s1" "placeOrder env (u_id buyer) cart dropoff dto totals s1 = (Inr ord, s2)"
      "payOrder env ord (recordTermsAcceptance (u_id buyer) s2) = (r, s')"
proof (cases "acceptCart env sid dto s")
  case (Inl e)
  with assms show thesis by (intro that(1)) (auto simp: createOrder_def fail_eq_iff)
next
  case (Inr bc)
  obtain buyer cart where bc: "bc = (buyer, cart)" by force
  note gate = Inr [unfolded bc]
  from assms have "bindR (dropoffFor env (u_id buyer) dto s) (\<lambda>dropoff s.
    bindR (liftE (computeTotals env (c_items dto) cart (c_fulfillmentChoice dto)) s) (\<lambda>totals s.
      placeAndPay env buyer cart dropoff dto totals s)) = (r, s')"
    by (simp add: createOrder_def gate)
  then show thesis
  proof (rule bindR_untouched [OF _ untouched_refl untouched_steps(1)])
    fix dropoff s1 assume u: "untouched s s1" and rest: "bindR (liftE (computeTotals env (c_items dto)
      cart (c_fulfillmentChoice dto)) s1) (\<lambda>totals s. placeAndPay env buyer cart dropoff dto totals s) = (r, s')"
    show thesis
    proof (cases "computeTotals env (c_items dto) cart (c_fulfillmentChoice dto)")
      case (Inl e)
      with rest u show thesis by (intro that(1)) (auto simp: fail_eq_iff)
    next
      case (Inr totals)
      with rest have "placeAndPay env buyer cart dropoff dto totals s1 = (r, s')" by simp
      then show thesis
        by (rule placeAndPay_result)
          (auto intro: that(1) untouched_trans [OF u] that(2) [OF gate Inr untouched_trans [OF u]])
    qed
  qed (assumption | rule that(1))+
qed

text \<open>What the payment step does to the database.\<close>

lemma payOrder_Inr:
  assumes "payOrder env ord s = (Inr (ord', secret), t)" and "\<not> e_isDev env"
  obtains pid where "ord' = ord"
    "t = backfillPaymentIntent env (o_id ord) pid
      (emit (StripePaymentIntent (o_id ord) (o_buyerTotalCents ord) pid) s)"
  using assms by (auto simp: payOrder_def finishOrder_def Let_def fail_eq_iff ok_eq_iff
      split: sum.splits if_splits)

lemma placeOrder_Inr:
  assumes "placeOrder env b cart dropoff dto totals s = (Inr ord, t)"
  obtains table where "atomicDecrementInventory (e_isDev env)
      (\<lambda>i. map_option l_name (findRow l_id i (ca_listings cart)))
      (stockLines (c_items dto)) (t_listings s) = Inr table"
    "ord = newOrder env b cart dropoff dto totals table"
    "t = s\<lparr>t_listings := table, t_orders := t_orders s @ [ord]\<rparr>"
  using assms by (auto simp: placeOrder_def Let_def fail_eq_iff ok_eq_iff split: sum.splits)

lemma newOrder_sel [simp]:
  "o_id (newOrder env b cart d dto tot tb) = e_ulid env ForOrder"
  "o_status (newOrder env b cart d dto tot tb) = O_Pending"
  "o_buyerId (newOrder env b cart d dto tot tb) = b"
  "o_sellerId (newOrder env b cart d dto tot tb) = ca_sellerId cart"
  "o_inventoryRestored (newOrder env b cart d dto tot tb) = False"
  "o_stripePaymentIntentId (newOrder env b cart d dto tot tb) = None"
  "o_fulfillmentChoice (newOrder env b cart d dto tot tb) = c_fulfillmentChoice dto"
  by (simp_all add: newOrder_def)

lemma linesOf_newOrder [simp]:
  "linesOf (o_items (newOrder env b cart d dto tot tb)) = stockLines (c_items dto)"
  by (simp add: newOrder_def linesOf_def stockLines_def itemRow_def Let_def o_def)
    (simp add: comp_def flip: map_map [of "\<lambda>i. (ci_listingId i, ci_quantity i)" snd, unfolded o_def])

lemma updOrder_snoc:
  assumes "findRow o_id i os = None" and "o_id ord = i"
  shows "updRow o_id i f (os @ [ord]) = os @ [f ord]"
  using updRow_absent [OF assms(1), of f] assms(2) by (simp add: updRow_def)

text \<open>C5: A successful order placement appends one PENDING order, creates one PaymentIntent for
  exactly the order's buyer total, backfills its id when that write succeeds, and takes from
  the stock exactly the quantities of the order's own item rows.\<close>

theorem createOrder_effect:
  assumes "createOrder env sid dto s = (Inr (ord, secret), s')" and "\<not> e_isDev env"
    and "distinct (map l_id (t_listings s))" and "getOrder s (e_ulid env ForOrder) = None"
  shows "\<exists>pid. t_orders s' = t_orders s @
      [if e_piWriteOk env then ord\<lparr>o_stripePaymentIntentId := Some pid\<rparr> else ord] \<and>
    o_id ord = e_ulid env ForOrder \<and> o_status ord = O_Pending \<and> \<not> o_inventoryRestored ord \<and>
    out s' = out s @ [StripePaymentIntent (o_id ord) (o_buyerTotalCents ord) pid] \<and>
    t_listings s' = shiftStock (\<lambda>i. - wantedOf (linesOf (o_items ord)) i) (t_listings s)"
  using assms(1)
proof (rule createOrder_result)
  fix buyer cart dropoff totals s1 ord' s2
  assume u: "untouched s s1"
    and p: "placeOrder env (u_id buyer) cart dropoff dto totals s1 = (Inr ord', s2)"
    and pay: "payOrder env ord' (recordTermsAcceptance (u_id buyer) s2) = (Inr (ord, secret), s')"
  from pay assms(2) obtain pid where ord: "ord = ord'" and s': "s' = backfillPaymentIntent env (o_id ord') pid
      (emit (StripePaymentIntent (o_id ord') (o_buyerTotalCents ord') pid)
        (recordTermsAcceptance (u_id buyer) s2))"
    by (rule payOrder_Inr)
  from p obtain table where dec: "atomicDecrementInventory (e_isDev env)
      (\<lambda>i. map_option l_name (findRow l_id i (ca_listings cart)))
      (stockLines (c_items dto)) (t_listings s1) = Inr table"
    and ord': "ord' = newOrder env (u_id buyer) cart dropoff dto totals table"
    and s2: "s2 = s1\<lparr>t_listings := table, t_orders := t_orders s1 @ [ord']\<rparr>"
    by (rule placeOrder_Inr)
  have table: "table = shiftStock (\<lambda>i. - wantedOf (stockLines (c_items dto)) i) (t_listings s)"
    using dec assms(2,3) u decrementLoop_prod [OF distinct_aggregate]
    by (simp add: untouched_def atomicDecrementInventory_def)
  have absent: "findRow o_id (o_id ord') (t_orders s) = None"
    using assms(4) by (simp add: ord' getOrder_def)
  show ?thesis
    using u absent
    by (intro exI [of _ pid])
      (simp add: ord s' s2 table untouched_def backfillPaymentIntent_def updOrder_def emit_def
        updOrder_snoc, simp add: ord')
qed simp

definition shop_db :: db where
  "shop_db = payout_db\<lparr>
    t_users := t_users payout_db @
      [demo_user ''b'' ''bb'' R_Buyer, demo_user ''v'' ''vb'' R_Driver],
    t_buyers := [\<lparr>bp_userId = ''b'', bp_dietaryPreferences = [], bp_allergies = [],
      bp_createdAt = 0, bp_updatedAt = 0\<rparr>],
    t_drivers := [\<lparr>dp_userId = ''v'', dp_kycStatus = K_Approved, dp_stripeConnectAccountId = None,
      dp_stripeOnboardingCompleted = False, dp_lastKnownPoint = None, dp_lastSeenAt = None,
      dp_isOnline = True, dp_dateOfBirth = None, dp_vehicleType = Some V_Bicycle\<rparr>],
    t_listings := [demo_listing ''a'' (Some 5)],
    t_addOns := [\<lparr>a_id = ''x'', a_listingId = ''a'', a_label = ''sauce'', a_priceDeltaCents = 50,
      a_isSelectedByDefault = False, a_sortOrder = 0\<rparr>]\<rparr>"

definition demo_dto :: create_order_dto where
  "demo_dto = \<lparr>c_items = [\<lparr>ci_listingId = ''a'', ci_quantity = 2, ci_note = None,
      ci_addOnIds = Some [''x'']\<rparr>],
    c_fulfillmentChoice = F_Pickup, c_dropoffAddressId = None, c_dropoffAddress = None,
    c_deliveryInstructions = None, c_deliveryTiming = None, c_scheduledAt = None, c_note = None,
    c_termsAccepted = Some True\<rparr>"

lemma demo_createOrder:
  obtains ord s' where "createOrder demo_env ''bb'' demo_dto shop_db = (Inr (ord, ''secret''), s')"
    and "o_buyerTotalCents ord = 1995"
proof -
  have "case fst (createOrder demo_env ''bb'' demo_dto shop_db) of Inl _ \<Rightarrow> False
      | Inr (ord, sec) \<Rightarrow> sec = ''secret'' \<and> o_buyerTotalCents ord = 1995"
    by code_simp
  then show thesis
    by (cases "createOrder demo_env ''bb'' demo_dto shop_db")
      (auto split: sum.splits prod.splits intro: that)
qed

lemma shop_db_facts:
  "\<not> e_isDev demo_env" "distinct (map l_id (t_listings shop_db))"
  "getOrder shop_db (e_ulid demo_env ForOrder) = None"
  by code_simp+

theorem createOrder_effect_witness:
  "\<exists>ord s' pid. createOrder demo_env ''bb'' demo_dto shop_db = (Inr (ord, ''secret''), s') \<and>
    out s' = [StripePaymentIntent ''o'' 1995 pid] \<and> o_status ord = O_Pending"
proof -
  obtain ord s' where run: "createOrder demo_env ''bb'' demo_dto shop_db = (Inr (ord, ''secret''), s')"
    and tot: "o_buyerTotalCents ord = 1995" by (rule demo_createOrder)
  have "e_ulid demo_env ForOrder = ''o''" "out shop_db = []" by code_simp+
  then show ?thesis
    using createOrder_effect [OF run shop_db_facts] run tot by auto
qed

subsection \<open>The price of an order\<close>

definition snapshotTotal :: "item_row list \<Rightarrow> int" where
  "snapshotTotal items = (\<Sum>i \<leftarrow> items.
    (i_unitPriceCentsSnapshot i + (\<Sum>a \<leftarrow> i_addOns i. ia_priceDeltaCentsSnapshot a)) * i_quantity i)"

lemma addOnsCents_sum:
  "addOnsCents rows ids = Some n \<Longrightarrow> (\<Sum>a \<leftarrow> ids. a_priceDeltaCents (the (findRow a_id a rows))) = n"
  by (induction ids arbitrary: n) (auto split: option.splits)

lemma itemRow_addOns_sum:
  "(\<Sum>a \<leftarrow> i_addOns (itemRow env cart table (n, item)). ia_priceDeltaCentsSnapshot a) =
    (\<Sum>a \<leftarrow> addOnIdsOf item. a_priceDeltaCents (the (findRow a_id a (ca_addOns cart))))"
proof -
  have "(\<Sum>p \<leftarrow> zip [0..<length ids] ids. f (snd p)) = (\<Sum>a \<leftarrow> ids. f a)" for ids and f :: "id \<Rightarrow> int"
  proof -
    have "map (\<lambda>p. f (snd p)) (zip [0..<length ids] ids) = map f (map snd (zip [0..<length ids] ids))"
      by (simp only: map_map comp_def)
    also have "\<dots> = map f ids" by (subst map_snd_zip) simp_all
    finally show ?thesis by (rule arg_cong [where f = sum_list])
  qed
  from this [of "\<lambda>a. a_priceDeltaCents (the (findRow a_id a (ca_addOns cart)))" "addOnIdsOf item"]
  show ?thesis by (simp add: itemRow_def Let_def o_def split_beta)
qed

lemma subtotalOf_snapshots:
  assumes "subtotalOf (ca_listings cart) (ca_addOns cart) items = Inr n"
  shows "snapshotTotal (map (itemRow env cart table) (zip [k..<k + length items] items)) = n"
  using assms
proof (induction items arbitrary: n k)
  case Nil
  then show ?case by (simp add: snapshotTotal_def)
next
  case (Cons item items)
  from Cons.prems obtain addons l m where
    "addOnsCents (ca_addOns cart) (addOnIdsOf item) = Some addons"
    "findRow l_id (ci_listingId item) (ca_listings cart) = Some l"
    and m: "subtotalOf (ca_listings cart) (ca_addOns cart) items = Inr m"
    and n: "n = (l_priceCents l + addons) * ci_quantity item + m"
    by (auto split: option.splits sum.splits)
  note here = this
  have "[k..<k + length (item # items)] = k # [Suc k..<Suc k + length items]"
    by (subst upt_conv_Cons) simp_all
  moreover have "i_unitPriceCentsSnapshot (itemRow env cart table (k, item)) = l_priceCents l"
    "i_quantity (itemRow env cart table (k, item)) = ci_quantity item"
    using here by (simp_all add: itemRow_def Let_def)
  ultimately show ?case
    using Cons.IH [OF m, of "Suc k"] addOnsCents_sum [OF here(1)] n
    by (simp add: snapshotTotal_def itemRow_addOns_sum)
qed

text \<open>The stored money columns of a new order are determined by its own item rows: the
  subtotal is the sum of the snapshotted unit prices and add-on prices times the quantities,
  commission and seller earnings split the subtotal, and the buyer's total adds the flat
  delivery fee (delivery orders only) and the platform's percentage of both.\<close>

theorem order_money_from_snapshots:
  assumes "createOrder env sid dto s = (Inr (ord, secret), s')"
  shows "o_subtotalCents ord = snapshotTotal (o_items ord) \<and>
    o_commissionCents ord + o_sellerEarningsCents ord = o_subtotalCents ord \<and>
    o_fulfillmentFeeCents ord = (if o_fulfillmentChoice ord = F_Delivery then e_deliveryFeeCents env else 0) \<and>
    o_buyerTotalCents ord = o_subtotalCents ord + o_fulfillmentFeeCents ord +
      roundDiv ((o_subtotalCents ord + o_fulfillmentFeeCents ord) * e_platformFeeBps env) 10000"
  using assms
proof (rule createOrder_result)
  fix buyer cart dropoff totals s1 ord' s2
  assume t: "computeTotals env (c_items dto) cart (c_fulfillmentChoice dto) = Inr totals"
    and p: "placeOrder env (u_id buyer) cart dropoff dto totals s1 = (Inr ord', s2)"
    and pay: "payOrder env ord' (recordTermsAcceptance (u_id buyer) s2) = (Inr (ord, secret), s')"
  from pay have "ord = ord'" by (auto simp: payOrder_def finishOrder_def Let_def fail_eq_iff ok_eq_iff
      split: sum.splits if_splits)
  with p obtain table where ord: "ord = newOrder env (u_id buyer) cart dropoff dto totals table"
    by (auto elim: placeOrder_Inr)
  from t obtain n where n: "subtotalOf (ca_listings cart) (ca_addOns cart) (c_items dto) = Inr n"
    and price: "priceOrder (e_deliveryFeeCents env) (e_platformFeeBps env) n (ca_isPremium cart)
      (c_fulfillmentChoice dto = F_Delivery) = Inr totals"
    by (auto simp: computeTotals_def split: sum.splits)
  have "snapshotTotal (o_items ord) = n"
    using subtotalOf_snapshots [OF n, of env table 0] by (simp add: ord newOrder_def)
  moreover from price have "split_ok totals" "subtotalCents totals = n"
    "fulfillmentFeeCents totals = (if c_fulfillmentChoice dto = F_Delivery then e_deliveryFeeCents env else 0)"
    "platformBuyerFeeCents totals = roundDiv ((n + fulfillmentFeeCents totals) * e_platformFeeBps env) 10000"
    by (auto elim!: priceOrder_cases)
  ultimately show ?thesis
    by (simp add: ord newOrder_def split_ok_def)
qed simp

theorem order_money_from_snapshots_witness:
  "\<exists>ord s'. createOrder demo_env ''bb'' demo_dto shop_db = (Inr (ord, ''secret''), s') \<and>
    o_subtotalCents ord = snapshotTotal (o_items ord) \<and> o_buyerTotalCents ord = 1995"
proof -
  obtain ord s' where run: "createOrder demo_env ''bb'' demo_dto shop_db = (Inr (ord, ''secret''), s')"
    and tot: "o_buyerTotalCents ord = 1995" by (rule demo_createOrder)
  with order_money_from_snapshots [OF run] show ?thesis by blast
qed

subsection \<open>The gates\<close>

definition offers :: "fulfillment_choice \<Rightarrow> listing_row \<Rightarrow> bool" where
  "offers choice l \<longleftrightarrow> (case choice of F_Delivery \<Rightarrow> deliverable l | F_Pickup \<Rightarrow> collectable l)"

definition live :: "time \<Rightarrow> listing_row \<Rightarrow> bool" where
  "live now l \<longleftrightarrow> l_deletedAt l = None \<and> l_isAvailable l \<and>
     (case l_expiresAt l of None \<Rightarrow> True | Some e \<Rightarrow> now < e)"

lemma liveCheck_None: "liveCheck now ls = None \<longleftrightarrow> list_all (live now) ls"
  by (induction ls) (auto simp: live_def split: option.splits)

lemma length_filter_ids:
  assumes "distinct (map key rows)" and "distinct ids"
    and "length (filter (\<lambda>r. key r \<in> set ids \<and> P r) rows) = length ids" and "i \<in> set ids"
  shows "\<exists>r \<in> set rows. key r = i \<and> P r"
proof -
  define rs where "rs = filter (\<lambda>r. key r \<in> set ids \<and> P r) rows"
  have rs: "r \<in> set rs \<longleftrightarrow> r \<in> set rows \<and> key r \<in> set ids \<and> P r" for r
    by (auto simp: rs_def)
  have "distinct (map key rs)" using assms(1) by (simp add: rs_def distinct_map_filter)
  then have "card (set (map key rs)) = length (map key rs)" by (rule distinct_card)
  then have "card (set (map key rs)) = card (set ids)"
    using assms(3) by (simp add: rs_def [symmetric] distinct_card [OF assms(2)])
  moreover have "set (map key rs) \<subseteq> set ids" using rs by auto
  ultimately have "set (map key rs) = set ids" by (intro card_subset_eq) simp_all
  with assms(4) obtain r where "r \<in> set rs" "key r = i" by (metis image_iff list.set_map)
  with rs show ?thesis by blast
qed

lemma loadAndValidateCart_Inr:
  assumes "loadAndValidateCart env items s = Inr cart" and "distinct (map l_id (t_listings s))"
  obtains seller user where "getSeller s (ca_sellerId cart) = Some seller"
    "getUser s (ca_sellerId cart) = Some user" "sellerCheck (e_now env) seller user = None"
    "list_all (live (e_now env)) (ca_listings cart)"
    "\<forall>l \<in> set (ca_listings cart). l \<in> set (t_listings s) \<and> l_sellerId l = ca_sellerId cart"
    "\<forall>item \<in> set items. \<exists>l \<in> set (ca_listings cart). l_id l = ci_listingId item"
proof -
  define ids where "ids = uniq (map ci_listingId items)"
  define ls where "ls = filter (\<lambda>l. l_id l \<in> set ids \<and> l_deletedAt l = None) (t_listings s)"
  from assms(1) obtain seller user rest where len: "length ls = length ids"
    and one: "uniq (map l_sellerId ls) = ca_sellerId cart # rest" "\<not> 1 < length (uniq (map l_sellerId ls))"
    and cart: "ca_listings cart = ls" "getSeller s (ca_sellerId cart) = Some seller"
      "getUser s (ca_sellerId cart) = Some user" "sellerCheck (e_now env) seller user = None"
      "liveCheck (e_now env) ls = None"
    unfolding loadAndValidateCart_def Let_def ids_def [symmetric] ls_def [symmetric]
    by (auto split: if_splits list.splits option.splits)
  have "set (map l_sellerId ls) = {ca_sellerId cart}"
    using one by (metis One_nat_def length_Cons less_Suc_eq_0_disj list.exhaust list.set(1,2) set_uniq
        zero_less_Suc not_less_eq)
  then have "\<forall>l \<in> set ls. l \<in> set (t_listings s) \<and> l_sellerId l = ca_sellerId cart"
    by (auto simp: ls_def)
  moreover have "\<forall>item \<in> set items. \<exists>l \<in> set ls. l_id l = ci_listingId item"
    using length_filter_ids [OF assms(2) distinct_uniq len [unfolded ls_def ids_def]]
    by (fastforce simp: ls_def ids_def)
  ultimately show thesis
    using cart by (intro that) (simp_all add: liveCheck_None)
qed

lemma acceptCart_Inr:
  assumes "acceptCart env sid dto s = Inr (buyer, cart)"
  shows "getUserBySupabase s sid = Some buyer" and "buyerCheck s dto buyer = None"
    and "loadAndValidateCart env (c_items dto) s = Inr cart" and "dtoCheck dto (ca_listings cart) = None"
  using assms by (auto simp: acceptCart_def split: option.splits sum.splits)

lemma dtoCheck_offers: "dtoCheck dto ls = None \<Longrightarrow> list_all (offers (c_fulfillmentChoice dto)) ls"
  by (cases "c_fulfillmentChoice dto")
    (auto simp: dtoCheck_def offers_def list_all_iff split: if_splits)

text \<open>An order is only ever placed by a live, unsuspended buyer with a profile who accepted
  the terms, with one approved, unsuspended seller whose subscription is active, and for
  listings of that seller that exist, are available, not expired and offer the chosen way of
  handing over.\<close>

theorem createOrder_gates:
  assumes "createOrder env sid dto s = (Inr (ord, secret), s')" and "distinct (map l_id (t_listings s))"
  shows "\<exists>buyer seller user. getUserBySupabase s sid = Some buyer \<and> o_buyerId ord = u_id buyer \<and>
    getBuyerProfile s (u_id buyer) \<noteq> None \<and> u_deletedAt buyer = None \<and> \<not> u_isSuspended buyer \<and>
    c_termsAccepted dto = Some True \<and>
    getSeller s (o_sellerId ord) = Some seller \<and> getUser s (o_sellerId ord) = Some user \<and>
    sp_kycStatus seller = K_Approved \<and> \<not> u_isSuspended user \<and> u_deletedAt user = None \<and>
    isSubscriptionActive (e_now env) (sp_subscriptionStatus seller) (sp_subscriptionCurrentPeriodEnd seller) \<and>
    (\<forall>item \<in> set (c_items dto). \<exists>l \<in> set (t_listings s). l_id l = ci_listingId item \<and>
      l_sellerId l = o_sellerId ord \<and> live (e_now env) l \<and> offers (c_fulfillmentChoice dto) l)"
  using assms(1)
proof (rule createOrder_result)
  fix buyer cart dropoff totals s1 ord' s2
  assume acc: "acceptCart env sid dto s = Inr (buyer, cart)"
    and p: "placeOrder env (u_id buyer) cart dropoff dto totals s1 = (Inr ord', s2)"
    and pay: "payOrder env ord' (recordTermsAcceptance (u_id buyer) s2) = (Inr (ord, secret), s')"
  from pay have "ord = ord'" by (auto simp: payOrder_def finishOrder_def Let_def fail_eq_iff ok_eq_iff
      split: sum.splits if_splits)
  with p have ids: "o_buyerId ord = u_id buyer" "o_sellerId ord = ca_sellerId cart"
    by (auto elim: placeOrder_Inr)
  note a = acceptCart_Inr [OF acc]
  obtain seller user where c: "getSeller s (ca_sellerId cart) = Some seller"
    "getUser s (ca_sellerId cart) = Some user" "sellerCheck (e_now env) seller user = None"
    "list_all (live (e_now env)) (ca_listings cart)"
    "\<forall>l \<in> set (ca_listings cart). l \<in> set (t_listings s) \<and> l_sellerId l = ca_sellerId cart"
    "\<forall>item \<in> set (c_items dto). \<exists>l \<in> set (ca_listings cart). l_id l = ci_listingId item"
    by (rule loadAndValidateCart_Inr [OF a(3) assms(2)])
  have "\<exists>l \<in> set (t_listings s). l_id l = ci_listingId item \<and> l_sellerId l = o_sellerId ord \<and>
      live (e_now env) l \<and> offers (c_fulfillmentChoice dto) l" if "item \<in> set (c_items dto)" for item
    using c(4-6) that dtoCheck_offers [OF a(4)] unfolding ids list_all_iff by blast
  moreover have "getBuyerProfile s (u_id buyer) \<noteq> None \<and> u_deletedAt buyer = None \<and> \<not> u_isSuspended buyer \<and>
      c_termsAccepted dto = Some True"
    using a(2) by (auto simp: buyerCheck_def split: if_splits)
  moreover have "sp_kycStatus seller = K_Approved \<and> \<not> u_isSuspended user \<and> u_deletedAt user = None \<and>
      isSubscriptionActive (e_now env) (sp_subscriptionStatus seller) (sp_subscriptionCurrentPeriodEnd seller)"
    using c(3) by (auto simp: sellerCheck_def split: if_splits)
  ultimately show ?thesis
    using a(1) c(1,2) ids by (intro exI [of _ buyer] exI [of _ seller] exI [of _ user]) simp
qed simp

theorem createOrder_gates_witness:
  "\<exists>ord s'. createOrder demo_env ''bb'' demo_dto shop_db = (Inr (ord, ''secret''), s') \<and>
    (\<exists>seller. getSeller shop_db (o_sellerId ord) = Some seller \<and> sp_kycStatus seller = K_Approved)"
proof -
  obtain ord s' where run: "createOrder demo_env ''bb'' demo_dto shop_db = (Inr (ord, ''secret''), s')"
    by (rule demo_createOrder)
  with createOrder_gates [OF run shop_db_facts(2)] show ?thesis by blast
qed



end
