(* ===== verification/Orders_Lifecycle.thy ===== *)
theory Orders_Lifecycle
  imports Orders_Create
begin

section \<open>The life of an order: payment, kitchen, handing over, cancelling\<close>

text \<open>
  \<open>src/modules/orders/orders.service.ts\<close>: payment confirmation, the reads, the seller's
  transitions, the two QR codes and the delivery proof, the completion of an order, the
  refund helper and the seller's cancellation. The guards are in the order of the code;
  \<open>findOrderWithRelations\<close> is the reload every method returns.
\<close>

subsection \<open>Shared lookups\<close>

definition findOrderWithRelations :: "id \<Rightarrow> db \<Rightarrow> (exn, order_row, db) result" where
  "findOrderWithRelations oid s =
    (case getOrder s oid of None \<Rightarrow> fail (NotFound AnOrder) s | Some ord \<Rightarrow> ok ord s)"

definition assertSellerUser :: "id \<Rightarrow> db \<Rightarrow> exn + id" where
  "assertSellerUser supabaseId s =
    (case getUserBySupabase s supabaseId of
       None \<Rightarrow> Inl (NotFound UserProfile) | Some user \<Rightarrow> Inr (u_id user))"

definition loadOrderForSellerAction :: "id \<Rightarrow> id \<Rightarrow> db \<Rightarrow> exn + order_row" where
  "loadOrderForSellerAction oid sellerId s =
    (case getOrder s oid of
       None \<Rightarrow> Inl (NotFound AnOrder)
     | Some ord \<Rightarrow>
         if o_sellerId ord \<noteq> sellerId then Inl (Forbidden (Party OtherSellersOrder)) else Inr ord)"

definition loadAsSeller :: "id \<Rightarrow> id \<Rightarrow> db \<Rightarrow> exn + (id \<times> order_row)" where
  "loadAsSeller supabaseId oid s =
    (case assertSellerUser supabaseId s of
       Inl e \<Rightarrow> Inl e
     | Inr sellerId \<Rightarrow>
         (case loadOrderForSellerAction oid sellerId s of
            Inl e \<Rightarrow> Inl e | Inr ord \<Rightarrow> Inr (sellerId, ord)))"

subsection \<open>Payment confirmation\<close>

definition isPaymentSucceeded :: "env \<Rightarrow> id option \<Rightarrow> bool" where
  "isPaymentSucceeded env pid \<longleftrightarrow>
    (if \<not> truthy pid \<or> startsWith (the pid) ''pi_dev_'' then e_isDev env
     else case e_piRetrieve env (the pid) of None \<Rightarrow> False | Some st \<Rightarrow> st = ''succeeded'')"

definition confirmOrderPaid :: "env \<Rightarrow> order_row \<Rightarrow> db \<Rightarrow> db" where
  "confirmOrderPaid env ord s =
    (let s1 = updOrder (o_id ord)
           (\<lambda>r. r\<lparr>o_status := O_Confirmed, o_confirmedAt := Some (e_now env)\<rparr>) s;
         s2 = publishOrderStatusChanged (o_id ord) O_Confirmed s1
     in notifyOrderPaid (o_sellerId ord) (o_id ord) s2)"

definition confirmPaymentForBuyer :: "env \<Rightarrow> id \<Rightarrow> id \<Rightarrow> db \<Rightarrow> (exn, order_row, db) result" where
  "confirmPaymentForBuyer env supabaseId oid s =
    (case getUserBySupabase s supabaseId of None \<Rightarrow> fail (NotFound UserProfile) s | Some user \<Rightarrow>
     (case getOrder s oid of None \<Rightarrow> fail (NotFound AnOrder) s | Some ord \<Rightarrow>
      if o_buyerId ord \<noteq> u_id user then fail (Forbidden (Party CannotConfirmOthers)) s
      else if o_status ord = O_Pending then
        (if \<not> isPaymentSucceeded env (o_stripePaymentIntentId ord)
         then fail (Conflict (Pay PaymentNotCompleted)) s
         else findOrderWithRelations oid (confirmOrderPaid env ord s))
      else findOrderWithRelations oid s))"

subsection \<open>Reads\<close>

definition findOrderById :: "id \<Rightarrow> id \<Rightarrow> db \<Rightarrow> exn + order_row" where
  "findOrderById supabaseId oid s =
    (case getUserBySupabase s supabaseId of None \<Rightarrow> Inl (NotFound UserProfile) | Some user \<Rightarrow>
     (case getOrder s oid of None \<Rightarrow> Inl (NotFound AnOrder) | Some ord \<Rightarrow>
      if o_buyerId ord \<noteq> u_id user \<and> o_sellerId ord \<noteq> u_id user
      then Inl (Forbidden (Party CannotViewOthers)) else Inr ord))"

record tracking_driver =
  td_firstName :: string
  td_lastName :: string
  td_avatarPath :: "string option"
  td_phone :: "string option"

record tracking =
  tr_orderStatus :: order_status
  tr_cancellationReason :: "string option"
  tr_fulfillmentChoice :: fulfillment_choice
  tr_deliveryStatus :: "delivery_status option"
  tr_deliveryId :: "id option"
  tr_pickup :: "point option"
  tr_dropoff :: "point option"
  tr_driver :: "point option"
  tr_driverInfo :: "tracking_driver option"

text \<open>The joins of the raw query: an inner join on the seller profile, outer joins elsewhere.\<close>

definition trackingRow :: "order_row \<Rightarrow> seller_row \<Rightarrow> delivery_row option \<Rightarrow> db \<Rightarrow> tracking" where
  "trackingRow ord seller dlv s =
    (let driverId = Option.bind dlv d_driverId in
     \<lparr>tr_orderStatus = o_status ord, tr_cancellationReason = o_cancellationReason ord,
      tr_fulfillmentChoice = o_fulfillmentChoice ord,
      tr_deliveryStatus = map_option d_status dlv, tr_deliveryId = map_option d_id dlv,
      tr_pickup = sp_location seller,
      tr_dropoff = Option.bind (Option.bind (o_dropoffAddressId ord)
        (\<lambda>a. findRow ad_id a (t_addresses s))) ad_point,
      tr_driver = Option.bind (Option.bind driverId (getDriver s)) dp_lastKnownPoint,
      tr_driverInfo = map_option (\<lambda>d. case getUser s d of
          None \<Rightarrow> \<lparr>td_firstName = [], td_lastName = [], td_avatarPath = None, td_phone = None\<rparr>
        | Some u \<Rightarrow> \<lparr>td_firstName = u_firstName u, td_lastName = u_lastName u,
                     td_avatarPath = u_avatarPath u, td_phone = u_phone u\<rparr>) driverId\<rparr>)"

definition getTracking :: "id \<Rightarrow> id \<Rightarrow> db \<Rightarrow> exn + tracking" where
  "getTracking supabaseId oid s =
    (case getUserBySupabase s supabaseId of None \<Rightarrow> Inl (NotFound UserProfile) | Some user \<Rightarrow>
     (case getOrder s oid of None \<Rightarrow> Inl (NotFound AnOrder) | Some ord \<Rightarrow>
      (case getSeller s (o_sellerId ord) of None \<Rightarrow> Inl (NotFound AnOrder) | Some seller \<Rightarrow>
       let dlv = latestDelivery s oid
       in if u_id user = o_buyerId ord \<or> u_id user = o_sellerId ord \<or>
             Option.bind dlv d_driverId = Some (u_id user)
          then Inr (trackingRow ord seller dlv s)
          else Inl (Forbidden (Party CannotTrackOthers)))))"

definition listOrders :: "(order_row \<Rightarrow> bool) \<Rightarrow> order_status option \<Rightarrow> nat \<Rightarrow> nat \<Rightarrow> db
    \<Rightarrow> order_row list \<times> bool" where
  "listOrders mine status limit offset s =
    (let rows = take (limit + 1) (drop offset (rev (sort_key o_placedAt
           (filter (\<lambda>r. mine r \<and> (case status of None \<Rightarrow> True | Some st \<Rightarrow> o_status r = st))
             (t_orders s)))));
         hasMore = (limit < length rows)
     in (if hasMore then take limit rows else rows, hasMore))"

definition listForBuyer :: "id \<Rightarrow> order_status option \<Rightarrow> nat \<Rightarrow> nat \<Rightarrow> db
    \<Rightarrow> exn + (order_row list \<times> bool)" where
  "listForBuyer supabaseId status limit offset s =
    (case getUserBySupabase s supabaseId of None \<Rightarrow> Inl (NotFound UserProfile)
     | Some user \<Rightarrow> Inr (listOrders (\<lambda>r. o_buyerId r = u_id user) status limit offset s))"

definition listForSeller :: "id \<Rightarrow> order_status option \<Rightarrow> nat \<Rightarrow> nat \<Rightarrow> db
    \<Rightarrow> exn + (order_row list \<times> bool)" where
  "listForSeller supabaseId status limit offset s =
    (case getUserBySupabase s supabaseId of None \<Rightarrow> Inl (NotFound UserProfile)
     | Some user \<Rightarrow> Inr (listOrders (\<lambda>r. o_sellerId r = u_id user) status limit offset s))"

subsection \<open>Kitchen\<close>

definition transitionAsSeller :: "id \<Rightarrow> id \<Rightarrow> order_status list \<Rightarrow> order_status
    \<Rightarrow> (order_row \<Rightarrow> order_row) \<Rightarrow> db \<Rightarrow> (exn, order_row, db) result" where
  "transitionAsSeller supabaseId oid from to timestamps s =
    (case loadAsSeller supabaseId oid s of
       Inl e \<Rightarrow> fail e s
     | Inr (_, existing) \<Rightarrow>
         if o_status existing \<notin> set from then fail (Conflict (State (WrongStatus (o_status existing)))) s
         else findOrderWithRelations oid (publishOrderStatusChanged oid to
           (updOrder oid (\<lambda>r. timestamps (r\<lparr>o_status := to\<rparr>)) s)))"

definition startPreparing :: "id \<Rightarrow> id \<Rightarrow> db \<Rightarrow> (exn, order_row, db) result" where
  "startPreparing supabaseId oid s =
    bindR (transitionAsSeller supabaseId oid [O_Confirmed] O_Preparing (\<lambda>r. r) s) (\<lambda>ord s.
      ok ord (notifyOrderStatus oid ''order_preparing'' s))"

definition newDelivery :: "env \<Rightarrow> id \<Rightarrow> delivery_row" where
  "newDelivery env oid =
    \<lparr>d_id = e_ulid env ForDelivery, d_orderId = oid, d_driverId = None, d_status = D_Searching,
     d_driverAssignedAt = None, d_pickedUpAt = None, d_deliveredAt = None, d_failedAt = None,
     d_failureReason = None, d_pickupToken = Some (e_token env), d_pickupConfirmedAt = None,
     d_pickupConfirmedByDriverId = None, d_pickupPoint = (None, None), d_deliveryToken = None,
     d_deliveredConfirmedAt = None, d_deliveredConfirmedByDriverId = None,
     d_deliveredPoint = (None, None), d_deliveredAsAbsent = False, d_absentProofPhotoUrl = None,
     d_absentProofPoint = (None, None), d_absentProofTakenAt = None,
     d_absentProofContactAttemptedAt = None, d_absentProofNote = None,
     d_sellerUnavailableReason = None, d_sellerUnavailableAt = None,
     d_sellerUnavailablePoint = (None, None), d_sellerUnavailableNote = None,
     d_sellerUnavailablePhotoUrl = None\<rparr>"

definition markReady :: "env \<Rightarrow> id \<Rightarrow> id \<Rightarrow> db \<Rightarrow> (exn, order_row, db) result" where
  "markReady env supabaseId oid s =
    (case loadAsSeller supabaseId oid s of
       Inl e \<Rightarrow> fail e s
     | Inr (_, existing) \<Rightarrow>
         if o_status existing \<noteq> O_Preparing
         then fail (Conflict (State (WrongStatus (o_status existing)))) s
         else
           let isDelivery = (o_fulfillmentChoice existing = F_Delivery);
               did = e_ulid env ForDelivery;
               s1 = updOrder oid (\<lambda>r. r\<lparr>o_status := O_Ready, o_readyAt := Some (e_now env)\<rparr>) s;
               s2 = (if isDelivery then s1\<lparr>t_deliveries := t_deliveries s1 @ [newDelivery env oid]\<rparr>
                     else s1);
               s3 = publishOrderStatusChanged oid O_Ready s2;
               s4 = notifyOrderStatus oid ''order_ready'' s3;
               s5 = (if isDelivery
                     then scheduleNoDriverTimeout env oid (notifyDeliveryAvailable oid did s4)
                     else s4)
           in findOrderWithRelations oid s5)"

subsection \<open>QR codes and the delivery proof\<close>

record qr_payload =
  qr_orderId :: id
  qr_deliveryId :: id
  qr_token :: string
  qr_data :: string

definition qrData :: "string \<Rightarrow> id \<Rightarrow> id \<Rightarrow> string \<Rightarrow> string" where
  "qrData kind oid did token =
    ''incacook://'' @ kind @ ''?orderId='' @ oid @ ''&deliveryId='' @ did @ ''&token='' @ token"

text \<open>The token of the delivery, minted and stored when it has none yet.\<close>

definition tokenOf :: "env \<Rightarrow> string option \<Rightarrow> string" where
  "tokenOf env t = (if truthy t then the t else e_token env)"

definition getSellerPickupQr :: "env \<Rightarrow> id \<Rightarrow> id \<Rightarrow> db \<Rightarrow> (exn, qr_payload, db) result" where
  "getSellerPickupQr env supabaseId oid s =
    (case assertSellerUser supabaseId s of Inl e \<Rightarrow> fail e s | Inr sellerId \<Rightarrow>
     (case getOrder s oid of None \<Rightarrow> fail (NotFound AnOrder) s | Some ord \<Rightarrow>
      if o_sellerId ord \<noteq> sellerId then fail (Forbidden (Party OrderNotYours)) s
      else if o_fulfillmentChoice ord \<noteq> F_Delivery then fail (BadRequest (State PickupQrDeliveryOnly)) s
      else (case latestDelivery s oid of None \<Rightarrow> fail (BadRequest (State NotReadyForPickup)) s
        | Some dlv \<Rightarrow>
            let token = tokenOf env (d_pickupToken dlv);
                s1 = (if truthy (d_pickupToken dlv) then s
                      else updDelivery (d_id dlv) (\<lambda>d. d\<lparr>d_pickupToken := Some token\<rparr>) s)
            in ok \<lparr>qr_orderId = oid, qr_deliveryId = d_id dlv, qr_token = token,
                   qr_data = qrData ''pickup'' oid (d_id dlv) token\<rparr> s1)))"

definition getBuyerDeliveryQr :: "env \<Rightarrow> id \<Rightarrow> id \<Rightarrow> db \<Rightarrow> (exn, qr_payload, db) result" where
  "getBuyerDeliveryQr env supabaseId oid s =
    (case getUserBySupabase s supabaseId of None \<Rightarrow> fail (NotFound UserProfile) s | Some buyer \<Rightarrow>
     (case getOrder s oid of None \<Rightarrow> fail (NotFound AnOrder) s | Some ord \<Rightarrow>
      if o_buyerId ord \<noteq> u_id buyer then fail (Forbidden (Party OrderNotYours)) s
      else if o_status ord \<noteq> O_InDelivery then fail (BadRequest (State NotInDelivery)) s
      else (case latestDelivery s oid of None \<Rightarrow> fail (BadRequest (State PickupNotConfirmed)) s
        | Some dlv \<Rightarrow>
            if \<not> truthy (d_driverId dlv) \<or> d_pickupConfirmedAt dlv = None
            then fail (BadRequest (State PickupNotConfirmed)) s
            else
              let token = tokenOf env (d_deliveryToken dlv);
                  s1 = (if truthy (d_deliveryToken dlv) then s
                        else updDelivery (d_id dlv) (\<lambda>d. d\<lparr>d_deliveryToken := Some token\<rparr>) s)
              in ok \<lparr>qr_orderId = oid, qr_deliveryId = d_id dlv, qr_token = token,
                     qr_data = qrData ''delivery'' oid (d_id dlv) token\<rparr> s1)))"

record delivery_proof =
  pf_orderId :: id
  pf_deliveryId :: id
  pf_deliveredAsAbsent :: bool
  pf_status :: delivery_status
  pf_deliveredAt :: "time option"
  pf_photoUrl :: "string option"
  pf_point :: "js_number option \<times> js_number option"
  pf_takenAt :: "time option"
  pf_note :: "string option"
  pf_contactAttemptedAt :: "time option"

definition getOrderDeliveryProof :: "id \<Rightarrow> id \<Rightarrow> db \<Rightarrow> exn + delivery_proof" where
  "getOrderDeliveryProof supabaseId oid s =
    (case getUserBySupabase s supabaseId of None \<Rightarrow> Inl (NotFound UserProfile) | Some user \<Rightarrow>
     (case getOrder s oid of None \<Rightarrow> Inl (NotFound AnOrder) | Some ord \<Rightarrow>
      if o_buyerId ord \<noteq> u_id user \<and> o_sellerId ord \<noteq> u_id user
      then Inl (Forbidden (Party OrderNotYours))
      else (case latestDelivery s oid of None \<Rightarrow> Inl (NotFound OrderDelivery) | Some dlv \<Rightarrow>
        Inr \<lparr>pf_orderId = oid, pf_deliveryId = d_id dlv,
             pf_deliveredAsAbsent = d_deliveredAsAbsent dlv, pf_status = d_status dlv,
             pf_deliveredAt = d_deliveredAt dlv, pf_photoUrl = d_absentProofPhotoUrl dlv,
             pf_point = d_absentProofPoint dlv, pf_takenAt = d_absentProofTakenAt dlv,
             pf_note = d_absentProofNote dlv,
             pf_contactAttemptedAt = d_absentProofContactAttemptedAt dlv\<rparr>)))"

subsection \<open>Completion\<close>

definition releaseFundsForCompletedOrder :: "env \<Rightarrow> id \<Rightarrow> db \<Rightarrow> db" where
  "releaseFundsForCompletedOrder env oid s = creditForCompletedOrder env oid s"

definition deliverOrder :: "id \<Rightarrow> db \<Rightarrow> db" where
  "deliverOrder oid s = publishOrderStatusChanged oid O_Delivered
     (updOrder oid (\<lambda>r. r\<lparr>o_status := O_Delivered\<rparr>) s)"

definition confirmPickup :: "env \<Rightarrow> id \<Rightarrow> id \<Rightarrow> db \<Rightarrow> (exn, order_row, db) result" where
  "confirmPickup env supabaseId oid s =
    (case assertSellerUser supabaseId s of Inl e \<Rightarrow> fail e s | Inr callerId \<Rightarrow>
     (case getOrder s oid of None \<Rightarrow> fail (NotFound AnOrder) s | Some ord \<Rightarrow>
      if o_sellerId ord \<noteq> callerId \<and> o_buyerId ord \<noteq> callerId
      then fail (Forbidden (Party OnlyPartiesConfirmPickup)) s
      else if o_fulfillmentChoice ord \<noteq> F_Pickup then fail (BadRequest (State ConfirmPickupPickupOnly)) s
      else if o_status ord \<noteq> O_Ready then fail (Conflict (State (WrongStatus (o_status ord)))) s
      else findOrderWithRelations oid (releaseFundsForCompletedOrder env oid (deliverOrder oid s))))"

definition confirmDeliveredByDriver :: "env \<Rightarrow> id \<Rightarrow> db \<Rightarrow> (exn, order_row, db) result" where
  "confirmDeliveredByDriver env oid s =
    (case getOrder s oid of None \<Rightarrow> fail (NotFound AnOrder) s | Some ord \<Rightarrow>
     if o_fulfillmentChoice ord \<noteq> F_Delivery then fail (BadRequest (State ConfirmDeliveryDeliveryOnly)) s
     else
       let s1 = (if o_status ord \<noteq> O_Delivered then deliverOrder oid s else s)
       in findOrderWithRelations oid (releaseFundsForCompletedOrder env oid s1))"

subsection \<open>Refund\<close>

definition refundOrderIfNeeded :: "env \<Rightarrow> id \<Rightarrow> db \<Rightarrow> db" where
  "refundOrderIfNeeded env oid s =
    (case getOrder s oid of None \<Rightarrow> s | Some ord \<Rightarrow>
     if truthy (o_stripeRefundId ord) then s
     else if \<not> truthy (o_stripePaymentIntentId ord) then s
     else (case e_refundCreate env (the (o_stripePaymentIntentId ord)) of
        Inl msg \<Rightarrow> auditRecord None ''order.refund.failed'' oid s
      | Inr rid \<Rightarrow>
          let s1 = emit (StripeRefund oid (the (o_stripePaymentIntentId ord)) rid) s;
              s2 = (if e_refundWriteOk env
                    then updOrder oid (\<lambda>r. r\<lparr>o_stripeRefundId := Some rid,
                           o_refundedAt := Some (e_now env)\<rparr>) s1
                    else s1);
              s3 = auditRecord None ''order.refund'' oid s2
          in cancelPending (\<lambda>e. w_orderId e = Some oid) s3))"

subsection \<open>Cancelling\<close>

text \<open>The restoring step all cancelling transactions share, and the cancelled row.\<close>

definition restock :: "order_row \<Rightarrow> db \<Rightarrow> db" where
  "restock ord s =
    (if o_inventoryRestored ord then s
     else s\<lparr>t_listings := restoreInventory (o_items ord) (t_listings s)\<rparr>)"

definition cancelRow :: "time \<Rightarrow> string \<Rightarrow> order_row \<Rightarrow> order_row" where
  "cancelRow now why r = r\<lparr>o_status := O_Cancelled, o_cancelledAt := Some now,
     o_cancellationReason := Some why, o_inventoryRestored := True\<rparr>"

definition cancellableFrom :: "order_status list" where
  "cancellableFrom = [O_Confirmed, O_Preparing, O_Ready]"

text \<open>
  The cancellation in two parts: the checks on the order as first read, and everything from
  the transaction on, which reads the order again. Another request may run in between.
\<close>

definition checkCancelAsSeller :: "id \<Rightarrow> id \<Rightarrow> db \<Rightarrow> exn + id" where
  "checkCancelAsSeller supabaseId oid s =
    (case loadAsSeller supabaseId oid s of
       Inl e \<Rightarrow> Inl e
     | Inr (sellerId, existing) \<Rightarrow>
         if o_status existing \<notin> set cancellableFrom
         then Inl (Conflict (State (WrongStatus (o_status existing)))) else Inr sellerId)"

definition cancelAsSellerTx :: "env \<Rightarrow> id \<Rightarrow> string \<Rightarrow> db \<Rightarrow> (exn, unit, db) result" where
  "cancelAsSellerTx env oid why s =
    (case getOrder s oid of
       None \<Rightarrow> fail (NotFound AnOrder) s
     | Some fresh \<Rightarrow>
         if o_status fresh \<notin> set cancellableFrom then ok () s
         else ok () (updOrder oid (cancelRow (e_now env) why) (restock fresh s)))"

definition commitCancelAsSeller :: "env \<Rightarrow> id \<Rightarrow> id \<Rightarrow> string \<Rightarrow> db \<Rightarrow> (exn, order_row, db) result" where
  "commitCancelAsSeller env sellerId oid why s =
    bindR (transaction (cancelAsSellerTx env oid why) s) (\<lambda>_ s.
      let s1 = auditRecord (Some sellerId) ''order.cancel_by_seller'' oid s;
          s2 = refundOrderIfNeeded env oid s1;
          s3 = notifyOrderStatus oid ''order_cancelled'' s2
      in findOrderWithRelations oid s3)"

definition cancelAsSeller :: "env \<Rightarrow> id \<Rightarrow> id \<Rightarrow> string \<Rightarrow> db \<Rightarrow> (exn, order_row, db) result" where
  "cancelAsSeller env supabaseId oid why s =
    (case checkCancelAsSeller supabaseId oid s of
       Inl e \<Rightarrow> fail e s
     | Inr sellerId \<Rightarrow> commitCancelAsSeller env sellerId oid why s)"

record cannot_provide_dto =
  cp_reason :: "string option"
  cp_note :: "string option"

text \<open>\<open>x?.trim() || y\<close>: the trimmed text, or the other value when that is absent or empty.\<close>

definition trimOr :: "string option \<Rightarrow> string \<Rightarrow> string" where
  "trimOr x y = (case x of None \<Rightarrow> y | Some t \<Rightarrow> if trim t = [] then y else trim t)"

definition cannotProvideCheck :: "order_row \<Rightarrow> delivery_row option \<Rightarrow> exn option" where
  "cannotProvideCheck ord dlv =
    (if Option.bind dlv d_pickupConfirmedAt \<noteq> None \<or> o_status ord = O_InDelivery \<or>
        o_status ord = O_PickedUp
     then Some (Conflict (State PickupAlreadyConfirmed))
     else if o_status ord \<in> {O_Cancelled, O_Refunded, O_Delivered, O_Completed}
     then Some (Conflict (State OrderAlreadyResolved))
     else if o_status ord \<notin> set cancellableFrom then Some (BadRequest (State CannotCancelOrder))
     else None)"

definition cancelDelivery :: "env \<Rightarrow> string \<Rightarrow> id \<Rightarrow> db \<Rightarrow> db" where
  "cancelDelivery env why did s = updDelivery did
     (\<lambda>d. d\<lparr>d_status := D_Cancelled, d_failedAt := Some (e_now env), d_failureReason := Some why\<rparr>) s"

definition cannotProvideTx :: "env \<Rightarrow> order_row \<Rightarrow> delivery_row option \<Rightarrow> db \<Rightarrow> db" where
  "cannotProvideTx env ord dlv s =
    (let s1 = updOrder (o_id ord) (cancelRow (e_now env) ''seller_cannot_provide'') (restock ord s)
     in case dlv of
          None \<Rightarrow> s1
        | Some d \<Rightarrow>
            if d_status d \<noteq> D_Cancelled \<and> d_status d \<noteq> D_Failed
            then cancelDelivery env ''seller_cannot_provide'' (d_id d) s1 else s1)"

definition cannotProvideStrike :: "order_row \<Rightarrow> cannot_provide_dto \<Rightarrow> strike_input" where
  "cannotProvideStrike ord dto =
    \<lparr>si_userId = o_sellerId ord, si_role = A_Seller, si_points = 1,
     si_reason = ''SELLER_CANNOT_PROVIDE'', si_severity = Sev_Light, si_sourceType = Src_Order,
     si_sourceId = None, si_orderId = Some (o_id ord), si_deliveryId = None,
     si_notes = Some (trimOr (cp_note dto) (trimOr (cp_reason dto) ''seller_cannot_provide'')),
     si_createdBy = None\<rparr>"

definition cannotProvideNotify :: "order_row \<Rightarrow> delivery_row option \<Rightarrow> db \<Rightarrow> db" where
  "cannotProvideNotify ord dlv s =
    (let oid = o_id ord;
         s1 = sendToUsers [o_sellerId ord] ''order_cancelled'' oid
                (sendToUsers [o_buyerId ord] ''order_cancelled'' oid s);
         driver = (if truthy (Option.bind dlv d_driverId) then Option.bind dlv d_driverId else None)
     in case driver of
          None \<Rightarrow> s1
        | Some v \<Rightarrow> publishDeliveryCancelledToDriver v (d_id (the dlv)) oid ''CANCELLED''
            ''seller_cannot_provide'' (sendToUsers [v] ''delivery_cancelled'' oid s1))"

definition sellerCannotProvide :: "env \<Rightarrow> id \<Rightarrow> id \<Rightarrow> cannot_provide_dto \<Rightarrow> db
    \<Rightarrow> (exn, order_row, db) result" where
  "sellerCannotProvide env supabaseId oid dto s =
    (case assertSellerUser supabaseId s of Inl e \<Rightarrow> fail e s | Inr sellerId \<Rightarrow>
     (case getOrder s oid of None \<Rightarrow> fail (NotFound AnOrder) s | Some ord \<Rightarrow>
      if o_sellerId ord \<noteq> sellerId then fail (Forbidden (Party OrderNotYours)) s
      else (case cannotProvideCheck ord (latestDelivery s oid) of Some e \<Rightarrow> fail e s | None \<Rightarrow>
        let dlv = latestDelivery s oid;
            s1 = cannotProvideTx env ord dlv s;
            s2 = refundOrderIfNeeded env oid s1;
            s3 = snd (addStrike env (cannotProvideStrike ord dto) s2);
            s4 = publishOrderStatusChanged oid O_Cancelled s3
        in findOrderWithRelations oid (cannotProvideNotify ord dlv s4))))"

subsection \<open>Frames\<close>

lemma upd_frames [simp]:
  "t_deliveries (updOrder i f s) = t_deliveries s" "t_wallet (updOrder i f s) = t_wallet s"
  "t_listings (updOrder i f s) = t_listings s" "t_users (updOrder i f s) = t_users s"
  "t_strikes (updOrder i f s) = t_strikes s" "t_disputes (updOrder i f s) = t_disputes s"
  "t_sellers (updOrder i f s) = t_sellers s" "t_drivers (updOrder i f s) = t_drivers s"
  "out (updOrder i f s) = out s" "timers (updOrder i f s) = timers s"
  "t_orders (updDelivery i g s) = t_orders s" "t_wallet (updDelivery i g s) = t_wallet s"
  "t_listings (updDelivery i g s) = t_listings s" "t_users (updDelivery i g s) = t_users s"
  "t_strikes (updDelivery i g s) = t_strikes s" "t_disputes (updDelivery i g s) = t_disputes s"
  "t_drivers (updDelivery i g s) = t_drivers s" "out (updDelivery i g s) = out s"
  "t_orders (updDispute i h s) = t_orders s" "t_deliveries (updDispute i h s) = t_deliveries s"
  "t_wallet (updDispute i h s) = t_wallet s" "t_listings (updDispute i h s) = t_listings s"
  "out (updDispute i h s) = out s"
  "t_orders (updDriver i k s) = t_orders s" "t_deliveries (updDriver i k s) = t_deliveries s"
  "t_wallet (updDriver i k s) = t_wallet s" "t_listings (updDriver i k s) = t_listings s"
  "out (updDriver i k s) = out s"
  by (simp_all add: updOrder_def updDelivery_def updDispute_def updDriver_def)

lemma upd_get_frames [simp]:
  "getDelivery (updOrder i f s) = getDelivery s" "getUserBySupabase (updOrder i f s) = getUserBySupabase s"
  "getUser (updOrder i f s) = getUser s" "latestDelivery (updOrder i f s) = latestDelivery s"
  "getDriver (updOrder i f s) = getDriver s"
  "getOrder (updDelivery i g s) = getOrder s" "getUserBySupabase (updDelivery i g s) = getUserBySupabase s"
  "getUser (updDelivery i g s) = getUser s" "getDriver (updDelivery i g s) = getDriver s"
  "getOrder (updDriver i k s) = getOrder s" "getDelivery (updDriver i k s) = getDelivery s"
  by (simp_all add: getDelivery_def getUserBySupabase_def getUser_def latestDelivery_def getOrder_def
      getDriver_def updOrder_def updDelivery_def updDriver_def fun_eq_iff)

lemma wallet_frames [simp]:
  "t_orders (cancelPending p s) = t_orders s" "t_deliveries (cancelPending p s) = t_deliveries s"
  "t_listings (cancelPending p s) = t_listings s" "t_users (cancelPending p s) = t_users s"
  "t_strikes (cancelPending p s) = t_strikes s" "out (cancelPending p s) = out s"
  "t_orders (compensateDriver env oid d a s) = t_orders s"
  "t_deliveries (compensateDriver env oid d a s) = t_deliveries s"
  "t_listings (compensateDriver env oid d a s) = t_listings s"
  "out (compensateDriver env oid d a s) = out s"
  "t_orders (creditSellerEarning env oid d a s) = t_orders s"
  "t_deliveries (creditSellerEarning env oid d a s) = t_deliveries s"
  "t_listings (creditSellerEarning env oid d a s) = t_listings s"
  "t_users (creditSellerEarning env oid d a s) = t_users s"
  "out (creditSellerEarning env oid d a s) = out s"
  "t_orders (recordDriverDebt env oid d a s) = t_orders s"
  "t_deliveries (recordDriverDebt env oid d a s) = t_deliveries s"
  "t_listings (recordDriverDebt env oid d a s) = t_listings s"
  "t_users (recordDriverDebt env oid d a s) = t_users s"
  "out (recordDriverDebt env oid d a s) = out s"
  "t_orders (creditForCompletedOrder env oid s) = t_orders s"
  "t_deliveries (creditForCompletedOrder env oid s) = t_deliveries s"
  "t_listings (creditForCompletedOrder env oid s) = t_listings s"
  "out (creditForCompletedOrder env oid s) = out s"
  by (simp_all add: cancelPending_def compensateDriver_def creditSellerEarning_def
      recordDriverDebt_def creditForCompletedOrder_def insertEntries_def split: option.split)

lemma restock_frames [simp]:
  "t_orders (restock ord s) = t_orders s" "t_deliveries (restock ord s) = t_deliveries s"
  "t_wallet (restock ord s) = t_wallet s" "t_users (restock ord s) = t_users s"
  "t_strikes (restock ord s) = t_strikes s" "out (restock ord s) = out s"
  by (simp_all add: restock_def)

lemma get_order_frames [simp]:
  "getOrder (restock ord s) = getOrder s" "getOrder (cancelPending p s) = getOrder s"
  "getOrder (creditForCompletedOrder env oid s) = getOrder s"
  "getDelivery (creditForCompletedOrder env oid s) = getDelivery s"
  "getOrder (compensateDriver env oid d a s) = getOrder s"
  "getOrder (creditSellerEarning env oid d a s) = getOrder s"
  "getOrder (recordDriverDebt env oid d a s) = getOrder s"
  "getDelivery (compensateDriver env oid d a s) = getDelivery s"
  "getDelivery (creditSellerEarning env oid d a s) = getDelivery s"
  "getDelivery (recordDriverDebt env oid d a s) = getDelivery s"
  "getDelivery (restock ord s) = getDelivery s" "getDelivery (cancelPending p s) = getDelivery s"
  by (simp_all add: getOrder_def getDelivery_def fun_eq_iff)

lemma emit_frames [simp]:
  "t_orders (emit e s) = t_orders s" "t_deliveries (emit e s) = t_deliveries s"
  "t_wallet (emit e s) = t_wallet s" "t_listings (emit e s) = t_listings s"
  "t_users (emit e s) = t_users s" "t_strikes (emit e s) = t_strikes s"
  "t_disputes (emit e s) = t_disputes s" "out (emit e s) = out s @ [e]"
  "getOrder (emit e s) = getOrder s" "getDelivery (emit e s) = getDelivery s"
  by (simp_all add: emit_def getOrder_def getDelivery_def fun_eq_iff)

subsection \<open>The refund\<close>

text \<open>What a refund does to the order table: nothing, or the two refund columns of one order.\<close>

lemma refund_orders:
  "t_orders (refundOrderIfNeeded env oid s) = t_orders s \<or>
   (\<exists>x y. t_orders (refundOrderIfNeeded env oid s) =
     updRow o_id oid (\<lambda>r. r\<lparr>o_stripeRefundId := x, o_refundedAt := y\<rparr>) (t_orders s))"
  by (simp add: refundOrderIfNeeded_def Let_def split: option.split sum.split)
    (auto simp: updOrder_def)

lemma refund_frames [simp]:
  "t_deliveries (refundOrderIfNeeded env oid s) = t_deliveries s"
  "t_listings (refundOrderIfNeeded env oid s) = t_listings s"
  "t_users (refundOrderIfNeeded env oid s) = t_users s"
  "t_strikes (refundOrderIfNeeded env oid s) = t_strikes s"
  "getDelivery (refundOrderIfNeeded env oid s) = getDelivery s"
  by (simp_all add: refundOrderIfNeeded_def Let_def getDelivery_def fun_eq_iff
      split: option.split sum.split)

lemma refund_field:
  assumes "\<And>r x y. fld (r\<lparr>o_stripeRefundId := x, o_refundedAt := y\<rparr>) = fld r"
  shows "map_option fld (getOrder (refundOrderIfNeeded env oid s) i) = map_option fld (getOrder s i)"
  using refund_orders [of env oid s]
  by (auto simp: getOrder_def findRow_updRow option.map_comp o_def assms)

lemma refund_present [simp]:
  "getOrder (refundOrderIfNeeded env oid s) i = None \<longleftrightarrow> getOrder s i = None"
  using refund_field [of "\<lambda>_. ()" env oid s i] by (auto simp: map_option_is_None dest: arg_cong [where f = "\<lambda>x. x = None"])

lemma refund_status:
  "getOrder (refundOrderIfNeeded env oid s) i = Some r \<Longrightarrow>
    \<exists>q. getOrder s i = Some q \<and> o_status r = o_status q"
  using refund_field [of o_status env oid s i] by (cases "getOrder s i") auto

subsection \<open>Properties\<close>

lemma confirmOrderPaid_get:
  assumes "getOrder s (o_id ord) = Some ord"
  shows "getOrder (confirmOrderPaid env ord s) (o_id ord) =
    Some (ord\<lparr>o_status := O_Confirmed, o_confirmedAt := Some (e_now env)\<rparr>)"
  using assms by (simp add: confirmOrderPaid_def Let_def ord.get_put)

lemma getUserBySupabase_confirm [simp]:
  "getUserBySupabase (confirmOrderPaid env ord s) = getUserBySupabase s"
  by (simp add: confirmOrderPaid_def Let_def)

lemma getOrder_id: "getOrder s i = Some r \<Longrightarrow> o_id r = i"
  by (rule ord.get_key)

lemma confirmPaymentForBuyer_Inr:
  assumes "confirmPaymentForBuyer env sid oid s = (Inr ord', s')"
  obtains user ord where "getUserBySupabase s sid = Some user" "getOrder s oid = Some ord"
    "o_buyerId ord = u_id user"
    "o_status ord = O_Pending \<and> isPaymentSucceeded env (o_stripePaymentIntentId ord) \<and>
       s' = confirmOrderPaid env ord s \<and>
       ord' = ord\<lparr>o_status := O_Confirmed, o_confirmedAt := Some (e_now env)\<rparr> \<or>
     o_status ord \<noteq> O_Pending \<and> s' = s \<and> ord' = ord"
proof -
  from assms obtain user ord where u: "getUserBySupabase s sid = Some user" "getOrder s oid = Some ord"
    "o_buyerId ord = u_id user"
    by (auto simp: confirmPaymentForBuyer_def split: option.splits if_splits)
  have "o_status ord = O_Pending \<and> isPaymentSucceeded env (o_stripePaymentIntentId ord) \<and>
       s' = confirmOrderPaid env ord s \<and>
       ord' = ord\<lparr>o_status := O_Confirmed, o_confirmedAt := Some (e_now env)\<rparr> \<or>
     o_status ord \<noteq> O_Pending \<and> s' = s \<and> ord' = ord"
    using assms u confirmOrderPaid_get [of s ord env] getOrder_id [OF u(2)]
    by (auto simp: confirmPaymentForBuyer_def findOrderWithRelations_def split: if_splits)
  with u show thesis by (rule that)
qed

text \<open>Outside development a buyer's confirmation never trusts the client: it succeeds only
  for the order's own buyer, moves the order from PENDING to CONFIRMED only when Stripe says
  the stored PaymentIntent succeeded, and from then on repeating it changes nothing.\<close>

theorem confirmPayment_verified:
  assumes "confirmPaymentForBuyer env sid oid s = (Inr ord', s')" and "\<not> e_isDev env"
  shows "\<exists>user ord. getUserBySupabase s sid = Some user \<and> getOrder s oid = Some ord \<and>
    o_buyerId ord = u_id user \<and>
    (if o_status ord = O_Pending
     then o_status ord' = O_Confirmed \<and>
       (\<exists>pid. o_stripePaymentIntentId ord = Some pid \<and> e_piRetrieve env pid = Some ''succeeded'')
     else s' = s \<and> ord' = ord) \<and>
    confirmPaymentForBuyer env' sid oid s' = (Inr ord', s')"
  using assms(1)
proof (rule confirmPaymentForBuyer_Inr)
  fix user ord
  assume u: "getUserBySupabase s sid = Some user" and o: "getOrder s oid = Some ord"
    and b: "o_buyerId ord = u_id user"
    and alt: "o_status ord = O_Pending \<and> isPaymentSucceeded env (o_stripePaymentIntentId ord) \<and>
       s' = confirmOrderPaid env ord s \<and>
       ord' = ord\<lparr>o_status := O_Confirmed, o_confirmedAt := Some (e_now env)\<rparr> \<or>
     o_status ord \<noteq> O_Pending \<and> s' = s \<and> ord' = ord"
  have id: "o_id ord = oid" using o by (rule getOrder_id)
  have "getUserBySupabase s' sid = Some user \<and> getOrder s' oid = Some ord' \<and>
      o_buyerId ord' = u_id user \<and> o_status ord' \<noteq> O_Pending"
    using alt u o b id confirmOrderPaid_get [of s ord env] by auto
  then have "confirmPaymentForBuyer env' sid oid s' = (Inr ord', s')"
    by (simp add: confirmPaymentForBuyer_def findOrderWithRelations_def ok_def)
  moreover have "\<exists>pid. o_stripePaymentIntentId ord = Some pid \<and> e_piRetrieve env pid = Some ''succeeded''"
    if "isPaymentSucceeded env (o_stripePaymentIntentId ord)"
    using that assms(2) by (auto simp: isPaymentSucceeded_def truthy_def split: if_splits option.splits)
  ultimately show ?thesis using u o b alt by (intro exI [of _ user] exI [of _ ord]) auto
qed

definition order_db :: "order_status \<Rightarrow> fulfillment_choice \<Rightarrow> db" where
  "order_db st choice = shop_db\<lparr>t_orders := [demo_order ''o'' st choice]\<rparr>"

theorem confirmPayment_verified_witness:
  "\<exists>ord' s'. confirmPaymentForBuyer demo_env ''bb'' ''o'' (order_db O_Pending F_Pickup) = (Inr ord', s') \<and>
    o_status ord' = O_Confirmed \<and> confirmPaymentForBuyer demo_env ''bb'' ''o'' s' = (Inr ord', s')"
proof -
  have "case fst (confirmPaymentForBuyer demo_env ''bb'' ''o'' (order_db O_Pending F_Pickup)) of
      Inl _ \<Rightarrow> False | Inr r \<Rightarrow> o_status r = O_Confirmed" by code_simp
  then obtain ord' s' where run: "confirmPaymentForBuyer demo_env ''bb'' ''o'' (order_db O_Pending F_Pickup)
      = (Inr ord', s')" and c: "o_status ord' = O_Confirmed"
    by (cases "confirmPaymentForBuyer demo_env ''bb'' ''o'' (order_db O_Pending F_Pickup)")
      (auto split: sum.splits)
  from confirmPayment_verified [OF run shop_db_facts(1)] run c show ?thesis by blast
qed

text \<open>Money goes back once: when Stripe accepts a refund and the write of its id succeeds,
  every later refund of the same order, by whatever path, is a no-op.\<close>

theorem refund_once:
  assumes "getOrder s oid = Some ord" and "o_stripePaymentIntentId ord = Some pid" and "pid \<noteq> []"
    and "e_refundCreate env pid = Inr rid" and "rid \<noteq> []" and "e_refundWriteOk env"
  shows "refundOrderIfNeeded env' oid (refundOrderIfNeeded env oid s) = refundOrderIfNeeded env oid s"
proof -
  have "\<exists>r. getOrder (refundOrderIfNeeded env oid s) oid = Some r \<and> truthy (o_stripeRefundId r)"
    using assms by (cases "truthy (o_stripeRefundId ord)")
      (auto simp: refundOrderIfNeeded_def Let_def ord.get_put truthy_def)
  then show ?thesis by (auto simp: refundOrderIfNeeded_def [of env'])
qed

theorem refund_once_witness:
  "refundOrderIfNeeded (demo_env\<lparr>e_now := 5\<rparr>) ''o'' (refundOrderIfNeeded demo_env ''o'' (order_db O_Cancelled F_Pickup))
     = refundOrderIfNeeded demo_env ''o'' (order_db O_Cancelled F_Pickup) \<and>
   out (refundOrderIfNeeded demo_env ''o'' (order_db O_Cancelled F_Pickup)) = [StripeRefund ''o'' ''pi'' ''re'']"
proof
  show "refundOrderIfNeeded (demo_env\<lparr>e_now := 5\<rparr>) ''o'' (refundOrderIfNeeded demo_env ''o'' (order_db O_Cancelled F_Pickup))
     = refundOrderIfNeeded demo_env ''o'' (order_db O_Cancelled F_Pickup)"
  proof (rule refund_once [where pid = "''pi''" and rid = "''re''"])
    show "getOrder (order_db O_Cancelled F_Pickup) ''o'' = Some (demo_order ''o'' O_Cancelled F_Pickup)"
      by (simp add: order_db_def getOrder_def demo_order_def)
  qed (simp_all add: demo_order_def demo_env_def)
  show "out (refundOrderIfNeeded demo_env ''o'' (order_db O_Cancelled F_Pickup)) = [StripeRefund ''o'' ''pi'' ''re'']"
    by code_simp
qed

text \<open>Declaring a delivery order ready opens exactly one unclaimed search with its pickup
  token, arms the no-driver watchdog in process and in the queue, and leaves the other
  deliveries alone; a pickup order opens none.\<close>

theorem markReady_opens_search:
  assumes "markReady env sid oid s = (Inr ord', s')"
  shows "\<exists>ord. getOrder s oid = Some ord \<and> o_status ord = O_Preparing \<and> o_status ord' = O_Ready \<and>
    (if o_fulfillmentChoice ord = F_Delivery
     then t_deliveries s' = t_deliveries s @ [newDelivery env oid] \<and>
       (noDriverTimeoutKey oid, e_noDriverMinutes env * 60000) \<in> set (timers s') \<and>
       Enqueue NoDriverTimeout oid (e_noDriverMinutes env * 60000) (NoDriverTimeout @ '':'' @ oid) \<in> set (out s')
     else t_deliveries s' = t_deliveries s \<and> timers s' = timers s)"
proof -
  from assms obtain sel ord where l: "loadAsSeller sid oid s = Inr (sel, ord)" and st: "o_status ord = O_Preparing"
    by (auto simp: markReady_def split: sum.splits if_splits)
  from l have o: "getOrder s oid = Some ord"
    by (auto simp: loadAsSeller_def loadOrderForSellerAction_def split: sum.splits option.splits if_splits)
  have t: "timers (notifyOrderStatus a b x) = timers x" "timers (publishOrderStatusChanged a c x) = timers x"
    "timers (notifyDeliveryAvailable a d x) = timers x" for a b c d x
    by (simp_all add: side_defs Let_def split: option.split)
  have arm: "(noDriverTimeoutKey oid, e_noDriverMinutes env * 60000) \<in> set (timers (scheduleNoDriverTimeout env oid x))"
    "Enqueue NoDriverTimeout oid (e_noDriverMinutes env * 60000) (NoDriverTimeout @ '':'' @ oid)
      \<in> set (out (scheduleNoDriverTimeout env oid x))" for x
    by (simp_all add: scheduleNoDriverTimeout_def armTimer_def enqueueTimerJob_def Let_def emit_def)
  show ?thesis
  proof (cases "o_fulfillmentChoice ord = F_Delivery")
    case True
    with assms l st o arm show ?thesis
      by (auto simp: markReady_def Let_def findOrderWithRelations_def fail_eq_iff ok_eq_iff
          ord.get_put split: option.splits) (auto simp: getOrder_def updOrder_def findRow_updRow)
  next
    case False
    with assms l st o t show ?thesis
      by (auto simp: markReady_def Let_def findOrderWithRelations_def fail_eq_iff ok_eq_iff
          ord.get_put split: option.splits)
  qed
qed

theorem markReady_opens_search_witness:
  "\<exists>ord' s'. markReady demo_env ''sb'' ''o'' (order_db O_Preparing F_Delivery) = (Inr ord', s') \<and>
    t_deliveries s' = [newDelivery demo_env ''o'']"
proof -
  have "case fst (markReady demo_env ''sb'' ''o'' (order_db O_Preparing F_Delivery)) of
      Inl _ \<Rightarrow> False | Inr r \<Rightarrow> True" by code_simp
  then obtain ord' s' where run: "markReady demo_env ''sb'' ''o'' (order_db O_Preparing F_Delivery) = (Inr ord', s')"
    by (cases "markReady demo_env ''sb'' ''o'' (order_db O_Preparing F_Delivery)") (auto split: sum.splits)
  moreover have "getOrder (order_db O_Preparing F_Delivery) ''o'' = Some (demo_order ''o'' O_Preparing F_Delivery)"
    "o_fulfillmentChoice (demo_order ''o'' O_Preparing F_Delivery) = F_Delivery"
    "t_deliveries (order_db O_Preparing F_Delivery) = []" by code_simp+
  ultimately show ?thesis using markReady_opens_search [OF run] by auto
qed

lemma refund_emits:
  assumes "getOrder s oid = Some ord" and "\<not> truthy (o_stripeRefundId ord)"
    and "o_stripePaymentIntentId ord = Some pid" and "pid \<noteq> []" and "e_refundCreate env pid = Inr rid"
  shows "StripeRefund oid pid rid \<in> set (out (refundOrderIfNeeded env oid s))"
  using assms by (simp add: refundOrderIfNeeded_def Let_def truthy_def)
    (simp add: auditRecord_def cancelPending_def)

lemma out_notifyOrderStatus: "set (out s) \<subseteq> set (out (notifyOrderStatus oid k s))"
  by (auto simp: side_defs Let_def split: option.split)

lemma loadAsSeller_Inr:
  assumes "loadAsSeller sid oid s = Inr (sel, ord)"
  shows "getOrder s oid = Some ord" and "o_sellerId ord = sel"
    and "\<exists>u. getUserBySupabase s sid = Some u \<and> u_id u = sel"
  using assms by (auto simp: loadAsSeller_def loadOrderForSellerAction_def assertSellerUser_def
      split: sum.splits option.splits if_splits)

text \<open>A seller's cancellation, from CONFIRMED, PREPARING or READY only and by the order's own
  seller only, cancels the order, gives its stock back unless that already happened and
  refunds the buyer, but it does not touch the order's deliveries: an open driver search
  stays open.\<close>

theorem cancelAsSeller_effect:
  assumes "cancelAsSeller env sid oid why s = (Inr ord', s')"
  shows "\<exists>user ord. getUserBySupabase s sid = Some user \<and> getOrder s oid = Some ord \<and>
    o_sellerId ord = u_id user \<and> o_status ord \<in> {O_Confirmed, O_Preparing, O_Ready} \<and>
    o_status ord' = O_Cancelled \<and> o_inventoryRestored ord' \<and>
    t_listings s' = (if o_inventoryRestored ord then t_listings s
                     else restoreInventory (o_items ord) (t_listings s)) \<and>
    t_deliveries s' = t_deliveries s \<and>
    (\<forall>pid rid. \<not> truthy (o_stripeRefundId ord) \<longrightarrow> o_stripePaymentIntentId ord = Some pid \<longrightarrow> pid \<noteq> [] \<longrightarrow>
      e_refundCreate env pid = Inr rid \<longrightarrow> StripeRefund oid pid rid \<in> set (out s'))"
proof -
  from assms obtain sel where chk: "checkCancelAsSeller sid oid s = Inr sel"
    and com: "commitCancelAsSeller env sel oid why s = (Inr ord', s')"
    by (auto simp: cancelAsSeller_def split: sum.splits)
  from chk obtain ord where l: "loadAsSeller sid oid s = Inr (sel, ord)" and st: "o_status ord \<in> set cancellableFrom"
    by (auto simp: checkCancelAsSeller_def split: sum.splits if_splits)
  note who = loadAsSeller_Inr [OF l]
  define t where "t = auditRecord (Some sel) ''order.cancel_by_seller'' oid
    (updOrder oid (cancelRow (e_now env) why) (restock ord s))"
  have row: "getOrder t oid = Some (cancelRow (e_now env) why ord)"
    by (simp add: t_def ord.get_put who(1) cancelRow_def)
  have tx: "transaction (cancelAsSellerTx env oid why) s =
      ok () (updOrder oid (cancelRow (e_now env) why) (restock ord s))"
    using st who(1) by (intro transaction_ok) (simp add: cancelAsSellerTx_def)
  from com tx have s': "s' = notifyOrderStatus oid ''order_cancelled'' (refundOrderIfNeeded env oid t)"
    and ord': "getOrder s' oid = Some ord'"
    by (auto simp: commitCancelAsSeller_def t_def Let_def findOrderWithRelations_def
        split: option.splits)
  have "o_status ord' = O_Cancelled \<and> o_inventoryRestored ord'"
    using ord' row refund_field [of "\<lambda>r. (o_status r, o_inventoryRestored r)" env oid t oid]
    by (auto simp: s' cancelRow_def)
  moreover have "StripeRefund oid pid rid \<in> set (out s')" if "\<not> truthy (o_stripeRefundId ord)"
      "o_stripePaymentIntentId ord = Some pid" "pid \<noteq> []" "e_refundCreate env pid = Inr rid" for pid rid
    using refund_emits [OF row, of pid env rid] that out_notifyOrderStatus
    unfolding s' cancelRow_def by fastforce
  moreover have "t_deliveries s' = t_deliveries s" "t_listings s' = t_listings (restock ord s)"
    by (simp_all add: s' t_def)
  ultimately show ?thesis
    using who st by (auto simp: cancellableFrom_def restock_def)
qed

theorem cancelAsSeller_effect_witness:
  "\<exists>ord' s'. cancelAsSeller demo_env ''sb'' ''o'' ''sick'' (order_db O_Ready F_Delivery) = (Inr ord', s') \<and>
    o_status ord' = O_Cancelled \<and> StripeRefund ''o'' ''pi'' ''re'' \<in> set (out s')"
proof -
  have "case fst (cancelAsSeller demo_env ''sb'' ''o'' ''sick'' (order_db O_Ready F_Delivery)) of
      Inl _ \<Rightarrow> False | Inr r \<Rightarrow> True" by code_simp
  then obtain ord' s' where run: "cancelAsSeller demo_env ''sb'' ''o'' ''sick'' (order_db O_Ready F_Delivery) = (Inr ord', s')"
    by (cases "cancelAsSeller demo_env ''sb'' ''o'' ''sick'' (order_db O_Ready F_Delivery)") (auto split: sum.splits)
  have "getOrder (order_db O_Ready F_Delivery) ''o'' = Some (demo_order ''o'' O_Ready F_Delivery)"
    "o_stripePaymentIntentId (demo_order ''o'' O_Ready F_Delivery) = Some ''pi''"
    "\<not> truthy (o_stripeRefundId (demo_order ''o'' O_Ready F_Delivery))"
    "e_refundCreate demo_env ''pi'' = Inr ''re''" by code_simp+
  with cancelAsSeller_effect [OF run] run show ?thesis by auto
qed

text \<open>The cancellation that loses its race is not the no-op its comment claims: when the
  order has become DELIVERED between the check and the transaction, the order stays
  DELIVERED but the cancellation is still written to the audit log and the buyer refunded.\<close>

theorem cancel_lost_race_refunds:
  assumes "getOrder s oid = Some ord" and "o_status ord = O_Delivered" and "\<not> truthy (o_stripeRefundId ord)"
    and "o_stripePaymentIntentId ord = Some pid" and "pid \<noteq> []" and "e_refundCreate env pid = Inr rid"
  shows "\<exists>ord' s'. commitCancelAsSeller env sel oid why s = (Inr ord', s') \<and> o_status ord' = O_Delivered \<and>
    StripeRefund oid pid rid \<in> set (out s') \<and>
    \<lparr>au_actorId = Some sel, au_action = ''order.cancel_by_seller'', au_targetId = oid\<rparr> \<in> set (t_audit s')"
proof -
  define t where "t = auditRecord (Some sel) ''order.cancel_by_seller'' oid s"
  have row: "getOrder t oid = Some ord" using assms(1) by (simp add: t_def)
  let ?s' = "notifyOrderStatus oid ''order_cancelled'' (refundOrderIfNeeded env oid t)"
  obtain ord' where ord': "getOrder ?s' oid = Some ord'"
    using row by (cases "getOrder ?s' oid") auto
  have "o_status ord' = O_Delivered"
    using ord' refund_status [of env oid t oid ord'] row assms(2) by auto
  moreover have "transaction (cancelAsSellerTx env oid why) s = ok () s"
    using assms(1,2) by (intro transaction_ok) (simp add: cancelAsSellerTx_def cancellableFrom_def)
  then have "commitCancelAsSeller env sel oid why s = (Inr ord', ?s')"
    using ord' by (simp add: commitCancelAsSeller_def t_def Let_def findOrderWithRelations_def)
  moreover have "StripeRefund oid pid rid \<in> set (out ?s')"
    using refund_emits [OF row assms(3-6)] out_notifyOrderStatus by blast
  moreover have "set (t_audit t) \<subseteq> set (t_audit ?s')"
    by (auto simp: refundOrderIfNeeded_def Let_def auditRecord_def cancelPending_def updOrder_def
        notifyOrderStatus_def dispatch_def sendToUsers_def emit_def split: option.split sum.split)
  ultimately show ?thesis
    by (intro exI [of _ ord'] exI [of _ ?s']) (auto simp: t_def auditRecord_def)
qed

theorem cancel_lost_race_refunds_witness:
  "\<exists>ord' s'. commitCancelAsSeller demo_env ''s'' ''o'' ''sick'' (order_db O_Delivered F_Pickup) = (Inr ord', s') \<and>
    o_status ord' = O_Delivered \<and> StripeRefund ''o'' ''pi'' ''re'' \<in> set (out s')"
proof -
  have o: "getOrder (order_db O_Delivered F_Pickup) ''o'' = Some (demo_order ''o'' O_Delivered F_Pickup)"
    by code_simp
  show ?thesis
    using cancel_lost_race_refunds [OF o, of "''pi''" demo_env "''re''" "''s''" "''sick''"]
    by (auto simp: demo_order_def demo_env_def truthy_def)
qed

end
