(* ===== verification/Orders_Watchdogs.thy ===== *)
theory Orders_Watchdogs
  imports Orders_Lifecycle
begin

section \<open>The watchdogs of a delivery order\<close>

text \<open>
  \<open>src/modules/orders/orders.service.ts\<close>: no driver claims the delivery (the buyer is asked,
  then the order is cancelled or switched to pickup), the seller has no food when the driver
  arrives, and the driver disappears after picking the food up. The timer handlers read the
  state they find, so running one twice, in process and from the queue, is harmless.
\<close>

subsection \<open>No driver available\<close>

definition noDriverDue :: "order_row \<Rightarrow> delivery_row option \<Rightarrow> bool" where
  "noDriverDue ord dlv \<longleftrightarrow>
     \<not> (truthy (Option.bind dlv d_driverId) \<or>
        (case dlv of None \<Rightarrow> False | Some d \<Rightarrow> d_status d \<noteq> D_Searching)) \<and>
     o_status ord = O_Ready \<and> o_fulfillmentChoice ord = F_Delivery"

definition handleNoDriverTimeout :: "env \<Rightarrow> id \<Rightarrow> db \<Rightarrow> db" where
  "handleNoDriverTimeout env oid s =
    (case getOrder s oid of
       None \<Rightarrow> s
     | Some ord \<Rightarrow>
         if \<not> noDriverDue ord (latestDelivery s oid) then s
         else
           let s1 = updOrder oid (\<lambda>r. r\<lparr>o_status := O_NoDriverAvailable\<rparr>) s;
               s2 = publishOrderStatusChanged oid O_NoDriverAvailable s1;
               s3 = sendToUsers [o_buyerId ord] ''no_driver_available'' oid s2
           in scheduleNoDriverResponseTimeout env oid s3)"

definition switchOrderToPickup :: "env \<Rightarrow> order_row \<Rightarrow> delivery_row option \<Rightarrow> db \<Rightarrow> db" where
  "switchOrderToPickup env ord dlv s =
    (let oid = o_id ord;
         s1 = updOrder oid (\<lambda>r. r\<lparr>o_status := O_Ready, o_fulfillmentChoice := F_Pickup\<rparr>) s;
         s2 = (case dlv of None \<Rightarrow> s1
               | Some d \<Rightarrow> cancelDelivery env ''no_driver_switched_to_pickup'' (d_id d) s1);
         s3 = publishOrderStatusChanged oid O_Ready s2
     in sendToUsers [o_buyerId ord] ''order_switched_pickup'' oid
          (sendToUsers [o_sellerId ord] ''order_switched_pickup'' oid s3))"

definition cancelNoDriverOrder :: "env \<Rightarrow> id \<Rightarrow> string \<Rightarrow> db \<Rightarrow> db" where
  "cancelNoDriverOrder env oid why s =
    (case getOrder s oid of
       None \<Rightarrow> s
     | Some ord \<Rightarrow>
         let s1 = updOrder oid (cancelRow (e_now env) why) (restock ord s);
             s2 = (case latestDelivery s oid of None \<Rightarrow> s1
                   | Some d \<Rightarrow> cancelDelivery env why (d_id d) s1);
             s3 = refundOrderIfNeeded env oid s2;
             s4 = publishOrderStatusChanged oid O_Cancelled s3
         in sendToUsers [o_sellerId ord] ''order_cancelled'' oid
              (sendToUsers [o_buyerId ord] ''order_cancelled'' oid s4))"

datatype no_driver_decision = SWITCH_TO_PICKUP | CANCEL_AND_REFUND

definition decideNoDriver :: "env \<Rightarrow> id \<Rightarrow> id \<Rightarrow> no_driver_decision \<Rightarrow> db
    \<Rightarrow> (exn, order_row, db) result" where
  "decideNoDriver env supabaseId oid decision s =
    (case getUserBySupabase s supabaseId of None \<Rightarrow> fail (NotFound UserProfile) s | Some user \<Rightarrow>
     (case getOrder s oid of None \<Rightarrow> fail (NotFound AnOrder) s | Some ord \<Rightarrow>
      if o_buyerId ord \<noteq> u_id user then fail (Forbidden (Party OnlyBuyerDecides)) s
      else if o_status ord \<noteq> O_NoDriverAvailable then fail (Conflict (State NoDecisionRequired)) s
      else
        let s1 = clearTimer (noDriverResponseKey oid) s;
            s2 = (case decision of
                    SWITCH_TO_PICKUP \<Rightarrow> switchOrderToPickup env ord (latestDelivery s oid) s1
                  | CANCEL_AND_REFUND \<Rightarrow> cancelNoDriverOrder env oid ''no_driver_buyer_cancelled'' s1)
        in findOrderWithRelations oid s2))"

definition autoCancelNoResponse :: "env \<Rightarrow> id \<Rightarrow> db \<Rightarrow> db" where
  "autoCancelNoResponse env oid s =
    (case getOrder s oid of
       None \<Rightarrow> s
     | Some ord \<Rightarrow>
         if o_status ord \<noteq> O_NoDriverAvailable then s
         else cancelNoDriverOrder env oid ''buyer_no_response_after_no_driver'' s)"

subsection \<open>Seller unavailable at pickup\<close>

definition sellerUnavailableStrike :: "order_row \<Rightarrow> strike_input" where
  "sellerUnavailableStrike ord =
    \<lparr>si_userId = o_sellerId ord, si_role = A_Seller, si_points = 1,
     si_reason = ''SELLER_UNAVAILABLE'', si_severity = Sev_Light, si_sourceType = Src_Delivery,
     si_sourceId = None, si_orderId = Some (o_id ord), si_deliveryId = None,
     si_notes = None, si_createdBy = None\<rparr>"

definition cancelForSellerUnavailable :: "env \<Rightarrow> id \<Rightarrow> id \<Rightarrow> db \<Rightarrow> (exn, unit, db) result" where
  "cancelForSellerUnavailable env oid driverId s =
    (case getOrder s oid of
       None \<Rightarrow> fail (NotFound AnOrder) s
     | Some ord \<Rightarrow>
         if o_status ord \<in> {O_Cancelled, O_Refunded, O_Delivered, O_Completed}
         then fail (Conflict (State OrderAlreadyResolved)) s
         else
           let s1 = updOrder oid (cancelRow (e_now env) ''seller_unavailable'') (restock ord s);
               s2 = refundOrderIfNeeded env oid s1;
               s3 = (if driverId \<noteq> [] \<and> 0 < o_fulfillmentFeeCents ord
                     then compensateDriver env oid driverId (o_fulfillmentFeeCents ord) s2 else s2);
               s4 = snd (addStrike env (sellerUnavailableStrike ord) s3);
               s5 = publishOrderStatusChanged oid O_Cancelled s4
           in ok () (sendToUsers [o_sellerId ord] ''order_cancelled'' oid
                (sendToUsers [o_buyerId ord] ''order_cancelled'' oid s5)))"

subsection \<open>Driver disappeared after pickup\<close>

text \<open>
  The GPS description of the handler is a log line that never gates the decision
  (\<open>describeDriverGps\<close>); it has no counterpart here.
\<close>

definition driverDue :: "delivery_row \<Rightarrow> bool" where
  "driverDue d \<longleftrightarrow>
     \<not> (d_status d = D_Delivered \<or> d_deliveredConfirmedAt d \<noteq> None \<or> d_deliveredAsAbsent d) \<and>
     \<not> (d_status d = D_Failed \<or> d_status d = D_Cancelled) \<and>
     d_pickupConfirmedAt d \<noteq> None"

definition failDelivery :: "env \<Rightarrow> id \<Rightarrow> db \<Rightarrow> db" where
  "failDelivery env did s = updDelivery did
     (\<lambda>d. d\<lparr>d_status := D_Failed, d_failedAt := Some (e_now env),
            d_failureReason := Some ''driver_disappeared''\<rparr>) s"

definition disappearedTx :: "env \<Rightarrow> id \<Rightarrow> id \<Rightarrow> db \<Rightarrow> db" where
  "disappearedTx env oid did s = updOrder oid
     (\<lambda>r. r\<lparr>o_status := O_Cancelled, o_cancelledAt := Some (e_now env),
            o_cancellationReason := Some ''driver_disappeared''\<rparr>) (failDelivery env did s)"

text \<open>The settlement: refund the buyer, pay the seller, charge and exclude the driver.\<close>

definition settleDisappeared :: "env \<Rightarrow> order_row \<Rightarrow> id \<Rightarrow> id option \<Rightarrow> db \<Rightarrow> db" where
  "settleDisappeared env ord did driver s =
    (let oid = o_id ord;
         s1 = cancelPending (\<lambda>e. w_orderId e = Some oid \<and> w_type e = WT_DeliveryEarning) s;
         s2 = refundOrderIfNeeded env oid s1;
         s3 = (if 0 < o_sellerEarningsCents ord
               then creditSellerEarning env oid (o_sellerId ord) (o_sellerEarningsCents ord) s2
               else s2)
     in case driver of
          None \<Rightarrow> s3
        | Some v \<Rightarrow>
            let s4 = (if 0 < o_buyerTotalCents ord
                      then recordDriverDebt env oid v (o_buyerTotalCents ord) s3 else s3)
            in immediateExclude env v A_Driver ''DRIVER_DISAPPEARED_AFTER_PICKUP'' Src_Delivery
                 (Some did) (Some oid) s4)"

definition notifyDisappeared :: "order_row \<Rightarrow> id \<Rightarrow> id option \<Rightarrow> db \<Rightarrow> db" where
  "notifyDisappeared ord did driver s =
    (let oid = o_id ord;
         s1 = publishOrderStatusChanged oid O_Cancelled s;
         s2 = sendToUsers [o_buyerId ord] ''order_cancelled'' oid s1;
         s3 = sendToUsers [o_sellerId ord] ''driver_disappeared'' oid s2
     in case driver of
          None \<Rightarrow> s3
        | Some v \<Rightarrow> publishDeliveryCancelledToDriver v did oid ''FAILED'' ''driver_disappeared''
            (sendToUsers [v] ''driver_disappeared'' oid s3))"

definition resolveDriverDisappeared :: "env \<Rightarrow> order_row \<Rightarrow> id \<Rightarrow> id option \<Rightarrow> db \<Rightarrow> db" where
  "resolveDriverDisappeared env ord did driverId s =
    (let driver = (if truthy driverId then driverId else None)
     in notifyDisappeared ord did driver
          (settleDisappeared env ord did driver (disappearedTx env (o_id ord) did s)))"

definition handleDriverDeliveryTimeout :: "env \<Rightarrow> id \<Rightarrow> db \<Rightarrow> db" where
  "handleDriverDeliveryTimeout env did s =
    (case getDelivery s did of
       None \<Rightarrow> s
     | Some d \<Rightarrow>
         if \<not> driverDue d then s
         else (case getOrder s (d_orderId d) of
             None \<Rightarrow> s
           | Some ord \<Rightarrow>
               if o_status ord \<noteq> O_InDelivery then s
               else resolveDriverDisappeared env ord did (d_driverId d) s))"

subsection \<open>Firing\<close>

text \<open>
  A fired in-process timeout removes its own entry and runs the handler; the durable job of
  \<open>src/jobs/order-timers.processor.ts\<close> runs the handler alone.
\<close>

definition fireNoDriver :: "env \<Rightarrow> id \<Rightarrow> db \<Rightarrow> db" where
  "fireNoDriver env oid s = handleNoDriverTimeout env oid (clearTimer (noDriverTimeoutKey oid) s)"

definition fireNoDriverResponse :: "env \<Rightarrow> id \<Rightarrow> db \<Rightarrow> db" where
  "fireNoDriverResponse env oid s = autoCancelNoResponse env oid (clearTimer (noDriverResponseKey oid) s)"

definition fireDriverDelivery :: "env \<Rightarrow> id \<Rightarrow> db \<Rightarrow> db" where
  "fireDriverDelivery env did s = handleDriverDeliveryTimeout env did (clearTimer (driverDeliveryKey did) s)"

subsection \<open>Firing twice is firing once\<close>

lemma getOrder_cancelled:
  assumes "getOrder s oid = Some ord"
  shows "\<exists>r. getOrder (updOrder oid (cancelRow now why) s) oid = Some r \<and> o_status r = O_Cancelled"
  using assms by (simp add: ord.get_put cancelRow_def)

lemma cancelDelivery_frames [simp]:
  "getOrder (cancelDelivery env why did s) = getOrder s"
  "t_orders (cancelDelivery env why did s) = t_orders s"
  "t_listings (cancelDelivery env why did s) = t_listings s"
  "t_wallet (cancelDelivery env why did s) = t_wallet s"
  "out (cancelDelivery env why did s) = out s"
  by (simp_all add: cancelDelivery_def)

lemma cancelNoDriverOrder_status:
  assumes "getOrder s oid = Some ord"
  shows "\<exists>r. getOrder (cancelNoDriverOrder env oid why s) oid = Some r \<and> o_status r = O_Cancelled"
proof -
  define t where "t = (case latestDelivery s oid of
      None \<Rightarrow> updOrder oid (cancelRow (e_now env) why) (restock ord s)
    | Some d \<Rightarrow> cancelDelivery env why (d_id d) (updOrder oid (cancelRow (e_now env) why) (restock ord s)))"
  have "getOrder t oid = Some (cancelRow (e_now env) why ord)"
    using assms by (simp add: t_def ord.get_put cancelRow_def split: option.split)
  then obtain r where "getOrder (refundOrderIfNeeded env oid t) oid = Some r"
    by (cases "getOrder (refundOrderIfNeeded env oid t) oid") auto
  moreover from refund_status [OF this] have "o_status r = O_Cancelled"
    using \<open>getOrder t oid = _\<close> by (auto simp: cancelRow_def)
  ultimately show ?thesis
    using assms by (simp add: cancelNoDriverOrder_def Let_def t_def)
qed

definition noDriverArmed :: "id \<Rightarrow> db \<Rightarrow> bool" where
  "noDriverArmed oid s \<longleftrightarrow>
    (case getOrder s oid of None \<Rightarrow> False | Some ord \<Rightarrow> noDriverDue ord (latestDelivery s oid))"

definition responseArmed :: "id \<Rightarrow> db \<Rightarrow> bool" where
  "responseArmed oid s \<longleftrightarrow> map_option o_status (getOrder s oid) = Some O_NoDriverAvailable"

definition driverArmed :: "id \<Rightarrow> db \<Rightarrow> bool" where
  "driverArmed did s \<longleftrightarrow> (case getDelivery s did of None \<Rightarrow> False | Some d \<Rightarrow>
     driverDue d \<and> map_option o_status (getOrder s (d_orderId d)) = Some O_InDelivery)"

interpretation nodrv: idempotent_handler "noDriverArmed oid" "\<lambda>env. handleNoDriverTimeout env oid" for oid
proof
  show "handleNoDriverTimeout env oid s = s" if "\<not> noDriverArmed oid s" for env s
    using that by (auto simp: noDriverArmed_def handleNoDriverTimeout_def split: option.split)
  show "\<not> noDriverArmed oid (handleNoDriverTimeout env oid s)" for env s
    by (auto simp: noDriverArmed_def handleNoDriverTimeout_def noDriverDue_def Let_def ord.get_put
        split: option.splits if_splits)
qed

interpretation noresp: idempotent_handler "responseArmed oid" "\<lambda>env. autoCancelNoResponse env oid" for oid
proof
  show "autoCancelNoResponse env oid s = s" if "\<not> responseArmed oid s" for env s
    using that by (auto simp: responseArmed_def autoCancelNoResponse_def split: option.split)
  show "\<not> responseArmed oid (autoCancelNoResponse env oid s)" for env s
  proof (cases "responseArmed oid s")
    case True
    then obtain ord where o: "getOrder s oid = Some ord" "o_status ord = O_NoDriverAvailable"
      by (auto simp: responseArmed_def)
    from cancelNoDriverOrder_status [OF o(1), of env "''buyer_no_response_after_no_driver''"] o
    show ?thesis by (auto simp: responseArmed_def autoCancelNoResponse_def)
  next
    case False
    then show ?thesis by (auto simp: responseArmed_def autoCancelNoResponse_def split: option.splits)
  qed
qed

lemma settle_frames [simp]:
  "t_deliveries (settleDisappeared env ord did drv s) = t_deliveries s"
  "getDelivery (settleDisappeared env ord did drv s) = getDelivery s"
  "t_listings (settleDisappeared env ord did drv s) = t_listings s"
  by (simp_all add: settleDisappeared_def Let_def split: option.split)

lemma notify_disappeared_frames [simp]:
  "business (notifyDisappeared ord did drv s) = business s"
  by (simp add: notifyDisappeared_def Let_def frame_simps split: option.split)

lemmas notify_disappeared_sel [simp] = notify_disappeared_frames [THEN business_sel(1)]
  notify_disappeared_frames [THEN business_sel(4)] notify_disappeared_frames [THEN business_sel(7)]
  notify_disappeared_frames [THEN business_sel(8)] notify_disappeared_frames [THEN business_sel(9)]
  notify_disappeared_frames [THEN business_sel(10)] notify_disappeared_frames [THEN get_side(1)]
  notify_disappeared_frames [THEN get_side(2)]

lemma resolve_delivery:
  assumes "getDelivery s did = Some d"
  shows "getDelivery (resolveDriverDisappeared env ord did drv s) did =
    Some (d\<lparr>d_status := D_Failed, d_failedAt := Some (e_now env),
            d_failureReason := Some ''driver_disappeared''\<rparr>)"
  using assms by (simp add: resolveDriverDisappeared_def Let_def disappearedTx_def failDelivery_def del.get_put)

interpretation gone: idempotent_handler "driverArmed did" "\<lambda>env. handleDriverDeliveryTimeout env did" for did
proof
  show "handleDriverDeliveryTimeout env did s = s" if "\<not> driverArmed did s" for env s
    using that by (auto simp: driverArmed_def handleDriverDeliveryTimeout_def split: option.split)
  show "\<not> driverArmed did (handleDriverDeliveryTimeout env did s)" for env s
  proof (cases "driverArmed did s")
    case True
    then obtain d ord where "getDelivery s did = Some d" "driverDue d" "getOrder s (d_orderId d) = Some ord"
      "o_status ord = O_InDelivery" by (auto simp: driverArmed_def split: option.splits)
    then show ?thesis
      by (simp add: handleDriverDeliveryTimeout_def driverArmed_def resolve_delivery driverDue_def)
  next
    case False
    then show ?thesis
      by (auto simp: driverArmed_def handleDriverDeliveryTimeout_def split: option.split)
  qed
qed

text \<open>A watchdog may fire any number of times, from the in-process timer, from the durable
  job and from retries of it: after the first run every further one leaves the whole state
  unchanged, outgoing pushes and Stripe calls included.\<close>

theorem timers_idempotent:
  "fold (\<lambda>e. handleNoDriverTimeout e oid) (env # envs) s = handleNoDriverTimeout env oid s \<and>
   fold (\<lambda>e. autoCancelNoResponse e oid) (env # envs) s = autoCancelNoResponse env oid s \<and>
   fold (\<lambda>e. handleDriverDeliveryTimeout e did) (env # envs) s = handleDriverDeliveryTimeout env did s"
  by (intro conjI nodrv.run_many noresp.run_many gone.run_many)

subsection \<open>What the watchdogs do\<close>

lemma in_timers_arm: "(key, ms) \<in> set (timers (armTimer key ms s))"
  by (simp add: armTimer_def Let_def)

lemma timers_response:
  "(noDriverResponseKey oid, e_noDriverResponseMinutes env * 60000) \<in> set (timers (scheduleNoDriverResponseTimeout env oid s))"
  "set (out s) \<subseteq> set (out (scheduleNoDriverResponseTimeout env oid s))"
  by (auto simp: scheduleNoDriverResponseTimeout_def Let_def enqueueTimerJob_def emit_def armTimer_def clearTimer_def)

text \<open>The no-driver watchdog acts on a READY delivery order whose newest delivery nobody has
  claimed, and on nothing else: such an order is parked as NO_DRIVER_AVAILABLE, its buyer is
  asked and the answer's own watchdog is armed, while no delivery, stock or money moves.\<close>

theorem noDriver_timeout_effect:
  assumes "getOrder s oid = Some ord"
  shows "let s' = handleNoDriverTimeout env oid s in
    (if noDriverDue ord (latestDelivery s oid)
     then getOrder s' oid = Some (ord\<lparr>o_status := O_NoDriverAvailable\<rparr>) \<and>
       t_deliveries s' = t_deliveries s \<and> t_wallet s' = t_wallet s \<and> t_listings s' = t_listings s \<and>
       Push [o_buyerId ord] ''no_driver_available'' oid \<in> set (out s') \<and>
       (noDriverResponseKey oid, e_noDriverResponseMinutes env * 60000) \<in> set (timers s')
     else s' = s)"
proof -
  have "Push [o_buyerId ord] ''no_driver_available'' oid \<in>
    set (out (scheduleNoDriverResponseTimeout env oid (sendToUsers [o_buyerId ord] ''no_driver_available'' oid x)))" for x
    using timers_response(2) [of "sendToUsers [o_buyerId ord] ''no_driver_available'' oid x" env oid]
    by (auto simp: sendToUsers_def)
  then show ?thesis
    using assms by (simp add: handleNoDriverTimeout_def Let_def ord.get_put timers_response(1))
qed

theorem noDriver_timeout_effect_witness:
  "map_option o_status (getOrder (handleNoDriverTimeout demo_env ''o'' (order_db O_Ready F_Delivery)) ''o'')
    = Some O_NoDriverAvailable"
proof -
  have "getOrder (order_db O_Ready F_Delivery) ''o'' = Some (demo_order ''o'' O_Ready F_Delivery)"
    "noDriverDue (demo_order ''o'' O_Ready F_Delivery) (latestDelivery (order_db O_Ready F_Delivery) ''o'')"
    by code_simp+
  with noDriver_timeout_effect [OF this(1), of demo_env] show ?thesis by (simp add: Let_def)
qed

lemma getDelivery_cancelDelivery:
  "getDelivery (cancelDelivery env why did s) did = map_option
    (\<lambda>d. d\<lparr>d_status := D_Cancelled, d_failedAt := Some (e_now env), d_failureReason := Some why\<rparr>)
    (getDelivery s did)"
  by (simp add: cancelDelivery_def del.get_put)

lemma switch_order:
  assumes "getOrder s (o_id ord) = Some ord"
  shows "getOrder (switchOrderToPickup env ord dlv s) (o_id ord) =
    Some (ord\<lparr>o_status := O_Ready, o_fulfillmentChoice := F_Pickup\<rparr>)"
  using assms by (simp add: switchOrderToPickup_def Let_def ord.get_put split: option.split)

lemma clearTimer_get [simp]: "getOrder (clearTimer k s) = getOrder s" "latestDelivery (clearTimer k s) = latestDelivery s"
  by simp_all

text \<open>The decision about an order without a driver is the buyer's, exactly while the order
  waits for it. Switching keeps the order alive as a READY pickup order and refunds nothing;
  cancelling cancels the order and gives its stock back. Either way the newest delivery of the
  order is cancelled, even one that a driver claimed in the meantime.\<close>

theorem decideNoDriver_effect:
  assumes "decideNoDriver env sid oid dec s = (Inr ord', s')"
  shows "\<exists>user ord. getUserBySupabase s sid = Some user \<and> getOrder s oid = Some ord \<and>
    o_buyerId ord = u_id user \<and> o_status ord = O_NoDriverAvailable \<and>
    (case dec of
       SWITCH_TO_PICKUP \<Rightarrow> o_status ord' = O_Ready \<and> o_fulfillmentChoice ord' = F_Pickup \<and>
         t_wallet s' = t_wallet s \<and> t_listings s' = t_listings s
     | CANCEL_AND_REFUND \<Rightarrow> o_status ord' = O_Cancelled \<and>
         t_listings s' = t_listings (restock ord s)) \<and>
    (\<forall>d x. latestDelivery s oid = Some d \<longrightarrow> getDelivery s' (d_id d) = Some x \<longrightarrow> d_status x = D_Cancelled)"
proof -
  let ?s1 = "clearTimer (noDriverResponseKey oid) s"
  let ?run = "case dec of SWITCH_TO_PICKUP \<Rightarrow> \<lambda>ord. switchOrderToPickup env ord (latestDelivery s oid) ?s1
    | CANCEL_AND_REFUND \<Rightarrow> \<lambda>ord. cancelNoDriverOrder env oid ''no_driver_buyer_cancelled'' ?s1"
  from assms obtain user ord where who: "getUserBySupabase s sid = Some user" "getOrder s oid = Some ord"
      "o_buyerId ord = u_id user" "o_status ord = O_NoDriverAvailable"
    and s': "s' = ?run ord" and ord': "getOrder s' oid = Some ord'"
    by (auto simp: decideNoDriver_def Let_def findOrderWithRelations_def
        split: option.splits if_splits no_driver_decision.splits)
  have id: "o_id ord = oid" by (rule getOrder_id [OF who(2)])
  have one: "getOrder ?s1 oid = Some ord" using who(2) by simp
  show ?thesis
  proof (cases dec)
    case SWITCH_TO_PICKUP
    with s' have s'': "s' = switchOrderToPickup env ord (latestDelivery s oid) ?s1" by simp
    have "o_status ord' = O_Ready \<and> o_fulfillmentChoice ord' = F_Pickup"
      using switch_order [of ?s1 ord env "latestDelivery s oid"] one id ord' s'' by auto
    moreover have "t_wallet s' = t_wallet s" "t_listings s' = t_listings s"
      by (simp_all add: s'' switchOrderToPickup_def Let_def split: option.split)
    moreover have "\<forall>d x. latestDelivery s oid = Some d \<longrightarrow> getDelivery s' (d_id d) = Some x \<longrightarrow> d_status x = D_Cancelled"
      by (auto simp: s'' switchOrderToPickup_def Let_def getDelivery_cancelDelivery)
    ultimately show ?thesis using who unfolding SWITCH_TO_PICKUP no_driver_decision.case by blast
  next
    case CANCEL_AND_REFUND
    with s' have s'': "s' = cancelNoDriverOrder env oid ''no_driver_buyer_cancelled'' ?s1" by simp
    have "o_status ord' = O_Cancelled"
      using cancelNoDriverOrder_status [OF one, of env "''no_driver_buyer_cancelled''"] ord' s'' by auto
    moreover have "t_listings s' = t_listings (restock ord s)"
      using who(2) by (simp add: s'' cancelNoDriverOrder_def Let_def restock_def split: option.split)
    moreover have "\<forall>d x. latestDelivery s oid = Some d \<longrightarrow> getDelivery s' (d_id d) = Some x \<longrightarrow> d_status x = D_Cancelled"
      using who(2) by (auto simp: s'' cancelNoDriverOrder_def Let_def getDelivery_cancelDelivery)
    ultimately show ?thesis using who unfolding CANCEL_AND_REFUND no_driver_decision.case by blast
  qed
qed

definition demo_delivery :: "delivery_status \<Rightarrow> id option \<Rightarrow> delivery_row" where
  "demo_delivery st drv = (newDelivery demo_env ''o'')\<lparr>d_status := st, d_driverId := drv,
     d_pickupConfirmedAt := (if st = D_PickedUp then Some 100 else None)\<rparr>"

definition delivery_db :: "order_status \<Rightarrow> delivery_status \<Rightarrow> id option \<Rightarrow> db" where
  "delivery_db ost st drv = (order_db ost F_Delivery)\<lparr>t_deliveries := [demo_delivery st drv], t_wallet := []\<rparr>"

theorem decideNoDriver_effect_witness:
  "\<exists>ord' s'. decideNoDriver demo_env ''bb'' ''o'' SWITCH_TO_PICKUP
      (delivery_db O_NoDriverAvailable D_Assigned (Some ''v'')) = (Inr ord', s') \<and>
    o_fulfillmentChoice ord' = F_Pickup"
proof -
  let ?run = "decideNoDriver demo_env ''bb'' ''o'' SWITCH_TO_PICKUP
      (delivery_db O_NoDriverAvailable D_Assigned (Some ''v''))"
  have "case fst ?run of Inl _ \<Rightarrow> False | Inr r \<Rightarrow> True" by code_simp
  then obtain ord' s' where run: "?run = (Inr ord', s')" by (cases ?run) (auto split: sum.splits)
  with decideNoDriver_effect [OF run] show ?thesis by auto
qed

subsection \<open>Settlements\<close>

text \<open>An entry for an order the ledger does not know yet is appended.\<close>

definition ledgerFree :: "id \<Rightarrow> wallet_row list \<Rightarrow> bool" where
  "ledgerFree oid t \<longleftrightarrow> (\<forall>e \<in> set t. w_orderId e \<noteq> Some oid)"

lemma insert_single:
  assumes "\<forall>e \<in> set (t_wallet s). w_id e \<noteq> w_id r"
    and "\<forall>e \<in> set (t_wallet s). w_orderId e = w_orderId r \<longrightarrow> w_type e \<noteq> w_type r"
  shows "t_wallet (insertEntries [r] s) = t_wallet s @ [r]"
  using assms by (auto simp: list_ex_iff conflicts_def)

lemma insert_fresh:
  assumes "ledgerFree oid (t_wallet s)" and "e_ulid env p \<notin> w_id ` set (t_wallet s)"
  shows "t_wallet (insertEntries [newEntry env p u oid ty a st av] s) =
    t_wallet s @ [newEntry env p u oid ty a st av]"
  using assms by (intro insert_single) (auto simp: newEntry_def ledgerFree_def image_iff)

lemma cancelPending_free:
  assumes "ledgerFree oid (t_wallet s)" and "\<And>e. p e \<Longrightarrow> w_orderId e = Some oid"
  shows "t_wallet (cancelPending p s) = t_wallet s"
  using assms by (auto simp: cancelPending_def ledgerFree_def intro!: updWhere_none)

lemma refund_ledger_free:
  assumes "ledgerFree oid (t_wallet s)"
  shows "t_wallet (refundOrderIfNeeded env oid s) = t_wallet s"
  using assms by (auto simp: refundOrderIfNeeded_def Let_def cancelPending_free
      split: option.split sum.split)

lemma out_settle:
  "set (out (refundOrderIfNeeded env (o_id ord) (cancelPending
      (\<lambda>e. w_orderId e = Some (o_id ord) \<and> w_type e = WT_DeliveryEarning) s)))
    \<subseteq> set (out (settleDisappeared env ord did drv s))"
proof -
  have a: "set (out s) \<subseteq> set (out (snd (addStrike env inp s)))" for inp s
    by (auto simp: addStrike_def Let_def split_beta evaluateSuspension_def suspendUser_def
        sendToUsers_def)
  have b: "set (out s) \<subseteq> set (out (suspendUser now u r s))" for now u r s
    by (auto simp: suspendUser_def Let_def sendToUsers_def)
  have "set (out s) \<subseteq> set (out (immediateExclude env u role why src did oid s))" for u role why src did oid s
    unfolding immediateExclude_def by (rule subset_trans [OF a b])
  from subset_trans [OF _ this] show ?thesis
    by (simp add: settleDisappeared_def Let_def split: option.split)
qed

lemma out_notify_disappeared: "set (out s) \<subseteq> set (out (notifyDisappeared ord did drv s))"
  by (auto simp: notifyDisappeared_def Let_def sendToUsers_def publishOrderStatusChanged_def
      publishDeliveryCancelledToDriver_def split: option.split)

text \<open>What the seller is paid and the driver owes.\<close>

definition disappearedEntries :: "env \<Rightarrow> order_row \<Rightarrow> id \<Rightarrow> wallet_row list" where
  "disappearedEntries env ord v =
    (if 0 < o_sellerEarningsCents ord
     then [newEntry env ForSellerEarning (o_sellerId ord) (o_id ord) WT_OrderEarning
             (o_sellerEarningsCents ord) WS_Available (Some (e_now env))] else []) @
    (if 0 < o_buyerTotalCents ord
     then [newEntry env ForDebt v (o_id ord) WT_DriverDebt (- o_buyerTotalCents ord) WS_Available
             (Some (e_now env))] else [])"

lemma settle_ledger:
  assumes "ledgerFree (o_id ord) (t_wallet s)" and "fresh_ids env [ForSellerEarning, ForDebt] (t_wallet s)"
  shows "t_wallet (settleDisappeared env ord did (Some v) s) = t_wallet s @ disappearedEntries env ord v"
proof -
  let ?s1 = "cancelPending (\<lambda>e. w_orderId e = Some (o_id ord) \<and> w_type e = WT_DeliveryEarning) s"
  let ?s2 = "refundOrderIfNeeded env (o_id ord) ?s1"
  have w1: "t_wallet ?s1 = t_wallet s" using assms(1) by (auto intro: cancelPending_free)
  have w2: "t_wallet ?s2 = t_wallet s" using assms(1) w1 by (simp add: refund_ledger_free)
  have fr: "e_ulid env ForSellerEarning \<noteq> e_ulid env ForDebt"
    "\<forall>e \<in> set (t_wallet s). w_id e \<noteq> e_ulid env ForSellerEarning \<and> w_id e \<noteq> e_ulid env ForDebt"
    using assms(2) by (auto simp: fresh_ids_def image_iff)
  have free: "\<forall>e \<in> set (t_wallet s). w_orderId e \<noteq> Some (o_id ord)" using assms(1) by (simp add: ledgerFree_def)
  let ?a = "newEntry env ForSellerEarning (o_sellerId ord) (o_id ord) WT_OrderEarning
             (o_sellerEarningsCents ord) WS_Available (Some (e_now env))"
  let ?b = "newEntry env ForDebt v (o_id ord) WT_DriverDebt (- o_buyerTotalCents ord) WS_Available
             (Some (e_now env))"
  let ?s3 = "if 0 < o_sellerEarningsCents ord then creditSellerEarning env (o_id ord) (o_sellerId ord)
      (o_sellerEarningsCents ord) ?s2 else ?s2"
  have w3: "t_wallet ?s3 = t_wallet s @ (if 0 < o_sellerEarningsCents ord then [?a] else [])"
    using fr free w2 by (simp add: creditSellerEarning_def insert_single newEntry_def del: t_wallet_insertEntries)
  have "t_wallet (insertEntries [?b] ?s3) = t_wallet ?s3 @ [?b]"
    using fr free w3 by (intro insert_single) (auto simp: newEntry_def split: if_splits)
  then have "t_wallet (if 0 < o_buyerTotalCents ord then recordDriverDebt env (o_id ord) v (o_buyerTotalCents ord) ?s3 else ?s3)
      = t_wallet s @ disappearedEntries env ord v"
    unfolding disappearedEntries_def recordDriverDebt_def using w3 by (simp del: t_wallet_insertEntries)
  then show ?thesis by (simp add: settleDisappeared_def Let_def)
qed

lemma settle_suspends:
  assumes "getUser s v \<noteq> None"
  shows "isSuspended v (settleDisappeared env ord did (Some v) s)"
proof -
  have u: "getUser x = getUser y" if "t_users x = t_users y" for x y
    using that by (simp add: getUser_def fun_eq_iff)
  have "getUser (refundOrderIfNeeded env oid (cancelPending p s)) = getUser s"
    "getUser (creditSellerEarning env oid w a x) = getUser x"
    "getUser (recordDriverDebt env oid w a x) = getUser x" for oid p w a x
    by (rule u; simp)+
  with assms show ?thesis
    by (simp add: settleDisappeared_def Let_def immediateExclude_always)
qed

text \<open>C33: A driver who vanishes with the food: the order is cancelled and its stock stays gone,
  the delivery fails, the buyer is refunded, and for an order new to the ledger exactly two
  entries are booked: the seller's full earnings, withdrawable at once, and the order's total
  as a debt of the driver, whose account is suspended.\<close>

theorem driver_disappeared_settlement:
  assumes "getDelivery s did = Some d" and "driverDue d" and "d_driverId d = Some v" and "v \<noteq> []"
    and "getOrder s (d_orderId d) = Some ord" and "o_status ord = O_InDelivery"
    and "getUser s v \<noteq> None"
    and "ledgerFree (d_orderId d) (t_wallet s)" and "fresh_ids env [ForSellerEarning, ForDebt] (t_wallet s)"
  shows "let s' = handleDriverDeliveryTimeout env did s in
    map_option o_status (getOrder s' (d_orderId d)) = Some O_Cancelled \<and>
    t_listings s' = t_listings s \<and>
    map_option d_status (getDelivery s' did) = Some D_Failed \<and>
    t_wallet s' = t_wallet s @ disappearedEntries env ord v \<and>
    isSuspended v s' \<and>
    (\<forall>pid rid. \<not> truthy (o_stripeRefundId ord) \<longrightarrow> o_stripePaymentIntentId ord = Some pid \<longrightarrow> pid \<noteq> [] \<longrightarrow>
      e_refundCreate env pid = Inr rid \<longrightarrow> StripeRefund (d_orderId d) pid rid \<in> set (out s'))"
proof -
  let ?oid = "d_orderId d"
  let ?t = "disappearedTx env ?oid did s"
  let ?u = "settleDisappeared env ord did (Some v) ?t"
  have id: "o_id ord = ?oid" by (rule getOrder_id [OF assms(5)])
  have run: "handleDriverDeliveryTimeout env did s = notifyDisappeared ord did (Some v) ?u"
    using assms id by (simp add: handleDriverDeliveryTimeout_def resolveDriverDisappeared_def truthy_def Let_def)
  define r where "r = ord\<lparr>o_status := O_Cancelled, o_cancelledAt := Some (e_now env),
            o_cancellationReason := Some ''driver_disappeared''\<rparr>"
  have row: "getOrder ?t ?oid = Some r"
    using assms(5) by (simp add: disappearedTx_def failDelivery_def ord.get_put r_def)
  have tx: "t_wallet ?t = t_wallet s" "t_listings ?t = t_listings s" "getUser ?t = getUser s"
    by (simp_all add: disappearedTx_def failDelivery_def)
  let ?p = "cancelPending (\<lambda>e. w_orderId e = Some ?oid \<and> w_type e = WT_DeliveryEarning) ?t"
  have row': "getOrder ?p ?oid = Some r" using row by simp
  have "getOrder ?u ?oid = getOrder (refundOrderIfNeeded env ?oid ?p) ?oid"
    by (simp add: settleDisappeared_def Let_def id)
  moreover have "map_option o_status (getOrder (refundOrderIfNeeded env ?oid ?p) ?oid) = Some O_Cancelled"
    using refund_field [of o_status env ?oid ?p ?oid] row' by (simp add: r_def)
  ultimately have "map_option o_status (getOrder ?u ?oid) = Some O_Cancelled" by simp
  moreover have "t_wallet ?u = t_wallet s @ disappearedEntries env ord v"
    using settle_ledger [of ord ?t env did v] assms(8,9) by (simp add: tx id)
  moreover have "isSuspended v ?u" by (rule settle_suspends) (simp add: tx assms(7))
  moreover have "StripeRefund ?oid pid rid \<in> set (out (notifyDisappeared ord did (Some v) ?u))"
    if "\<not> truthy (o_stripeRefundId ord)" "o_stripePaymentIntentId ord = Some pid" "pid \<noteq> []"
      "e_refundCreate env pid = Inr rid" for pid rid
    using refund_emits [OF row', of pid env rid] that out_settle [of env ord ?t did "Some v"]
      out_notify_disappeared [of ?u ord did "Some v"]
    by (auto simp: r_def id)
  moreover have "map_option d_status (getDelivery ?u did) = Some D_Failed"
    using assms(1) by (simp add: disappearedTx_def failDelivery_def del.get_put)
  moreover have "isSuspended v (notifyDisappeared ord did (Some v) ?u) = isSuspended v ?u"
    by (simp add: isSuspended_def getUser_def)
  ultimately show ?thesis by (simp add: run Let_def tx)
qed

theorem driver_disappeared_settlement_witness:
  "map_option d_status (getDelivery (handleDriverDeliveryTimeout demo_env ''d''
      (delivery_db O_InDelivery D_PickedUp (Some ''v''))) ''d'') = Some D_Failed"
proof -
  let ?s = "delivery_db O_InDelivery D_PickedUp (Some ''v'')"
  let ?d = "demo_delivery D_PickedUp (Some ''v'')"
  have "getDelivery ?s ''d'' = Some ?d" by code_simp
  moreover have "driverDue ?d" by code_simp
  moreover have "d_driverId ?d = Some ''v''" "''v'' \<noteq> []" by (simp_all add: demo_delivery_def)
  moreover have "getOrder ?s (d_orderId ?d) = Some (demo_order ''o'' O_InDelivery F_Delivery)" by code_simp
  moreover have "o_status (demo_order ''o'' O_InDelivery F_Delivery) = O_InDelivery"
    by (simp add: demo_order_def)
  moreover have "ledgerFree (d_orderId ?d) (t_wallet ?s)" by code_simp
  moreover have "fresh_ids demo_env [ForSellerEarning, ForDebt] (t_wallet ?s)"
    by (simp add: fresh_ids_def demo_env_def delivery_db_def order_db_def shop_db_def payout_db_def demo_entry_def)
  moreover have "map_option u_id (getUser ?s ''v'') = Some ''v''" by code_simp
  then have "getUser ?s ''v'' \<noteq> None" by auto
  ultimately show ?thesis
    using driver_disappeared_settlement [of ?s "''d''" ?d "''v''"] by (simp add: Let_def)
qed

text \<open>A driver who finds no food at the seller's: unless the order is already resolved, which is
  a conflict that changes nothing, the order is cancelled, its stock given back, the driver
  paid the delivery fee at once in one new ledger entry, and the seller has a strike for the
  order.\<close>

theorem seller_unavailable_settlement:
  assumes "getOrder s oid = Some ord" and "oid \<noteq> []" and "v \<noteq> []"
    and "ledgerFree oid (t_wallet s)" and "fresh_ids env [ForCompensation] (t_wallet s)"
  shows "if o_status ord \<in> {O_Cancelled, O_Refunded, O_Delivered, O_Completed}
    then cancelForSellerUnavailable env oid v s = (Inl (Conflict (State OrderAlreadyResolved)), s)
    else \<exists>s'. cancelForSellerUnavailable env oid v s = (Inr (), s') \<and>
      map_option o_status (getOrder s' oid) = Some O_Cancelled \<and>
      t_listings s' = t_listings (restock ord s) \<and>
      t_wallet s' = t_wallet s @ (if 0 < o_fulfillmentFeeCents ord
        then [newEntry env ForCompensation v oid WT_DeliveryEarning (o_fulfillmentFeeCents ord)
                WS_Available (Some (e_now env))] else []) \<and>
      list_ex (sameIncident (sellerUnavailableStrike ord)) (t_strikes s')"
proof (cases "o_status ord \<in> {O_Cancelled, O_Refunded, O_Delivered, O_Completed}")
  case True
  with assms(1) show ?thesis by (simp add: cancelForSellerUnavailable_def fail_def)
next
  case False
  have id: "o_id ord = oid" by (rule getOrder_id [OF assms(1)])
  define t1 where "t1 = updOrder oid (cancelRow (e_now env) ''seller_unavailable'') (restock ord s)"
  define t2 where "t2 = refundOrderIfNeeded env oid t1"
  define t3 where "t3 = (if 0 < o_fulfillmentFeeCents ord
    then compensateDriver env oid v (o_fulfillmentFeeCents ord) t2 else t2)"
  let ?s' = "sendToUsers [o_sellerId ord] ''order_cancelled'' oid
       (sendToUsers [o_buyerId ord] ''order_cancelled'' oid
         (publishOrderStatusChanged oid O_Cancelled (snd (addStrike env (sellerUnavailableStrike ord) t3))))"
  have run: "cancelForSellerUnavailable env oid v s = (Inr (), ?s')"
    using assms(1,3) False by (simp add: cancelForSellerUnavailable_def Let_def t1_def t2_def t3_def ok_def)
  have "getOrder t1 oid = Some (cancelRow (e_now env) ''seller_unavailable'' ord)"
    using assms(1) by (simp add: t1_def ord.get_put cancelRow_def)
  then have "map_option o_status (getOrder t2 oid) = Some O_Cancelled"
    using refund_field [of o_status env oid t1 oid] by (simp add: t2_def cancelRow_def)
  then have st: "map_option o_status (getOrder ?s' oid) = Some O_Cancelled" by (simp add: t3_def)
  have w2: "t_wallet t2 = t_wallet s"
    using assms(4) by (simp add: t2_def t1_def refund_ledger_free)
  have w3: "t_wallet t3 = t_wallet s @ (if 0 < o_fulfillmentFeeCents ord
        then [newEntry env ForCompensation v oid WT_DeliveryEarning (o_fulfillmentFeeCents ord)
                WS_Available (Some (e_now env))] else [])"
    using assms(4,5) w2 by (simp add: t3_def compensateDriver_def insert_fresh fresh_ids_def
        del: t_wallet_insertEntries)
  have "hasSource (sellerUnavailableStrike ord)"
    using assms(2) id by (simp add: hasSource_def sellerUnavailableStrike_def truthy_def)
  then have k: "list_ex (sameIncident (sellerUnavailableStrike ord)) (t_strikes ?s')"
    using strikeRow_sameIncident [of "sellerUnavailableStrike ord" env] by (auto simp: t_strikes_addStrike)
  have l: "t_listings ?s' = t_listings (restock ord s)" by (simp add: t3_def t2_def t1_def)
  have w: "t_wallet ?s' = t_wallet t3" by simp
  show ?thesis unfolding if_not_P [OF False]
    by (intro exI [of _ ?s'] conjI run st l k trans [OF w w3])
qed

theorem seller_unavailable_settlement_witness:
  "\<exists>s'. cancelForSellerUnavailable demo_env ''o'' ''v'' (delivery_db O_Ready D_Cancelled (Some ''v'')) = (Inr (), s') \<and>
    length (t_wallet s') = 1 \<and> map_option o_status (getOrder s' ''o'') = Some O_Cancelled"
proof -
  let ?s = "delivery_db O_Ready D_Cancelled (Some ''v'')"
  have o: "getOrder ?s ''o'' = Some (demo_order ''o'' O_Ready F_Delivery)" by code_simp
  have w: "t_wallet ?s = []" by code_simp
  then have "ledgerFree ''o'' (t_wallet ?s)" "fresh_ids demo_env [ForCompensation] (t_wallet ?s)"
    by (simp_all add: ledgerFree_def fresh_ids_def)
  from seller_unavailable_settlement [OF o _ _ this, of "''v''"] w show ?thesis
    by (auto simp: demo_order_def)
qed

end
