(* ===== verification/Orders_Disputes.thy ===== *)
theory Orders_Disputes
  imports Orders_Lifecycle
begin

section \<open>Disputes\<close>

text \<open>
  \<open>src/modules/orders/orders.service.ts\<close>: a buyer's claim about a paid order is decided by a
  table (refunded at once, rejected, or handed to an admin), and the admin operations on a
  dispute. Chargebacks enter through the Stripe webhook.
\<close>

record create_dispute_dto =
  cd_type :: dispute_type
  cd_description :: "string option"
  cd_photoUrls :: "string list option"
  cd_proofFileUrls :: "string list option"

subsection \<open>The decision\<close>

record dispute_decision =
  dd_status :: dispute_status
  dd_autoRefund :: bool
  dd_sellerStrike :: bool
  dd_refundApproved :: bool
  dd_refundAmountCents :: "int option"

definition review :: dispute_decision where
  "review = \<lparr>dd_status = DS_AdminReview, dd_autoRefund = False, dd_sellerStrike = False,
     dd_refundApproved = False, dd_refundAmountCents = None\<rparr>"

definition autoRefunded :: "bool \<Rightarrow> order_row \<Rightarrow> dispute_decision" where
  "autoRefunded strike ord = \<lparr>dd_status = DS_AutoRefunded, dd_autoRefund = True,
     dd_sellerStrike = strike, dd_refundApproved = True,
     dd_refundAmountCents = Some (o_buyerTotalCents ord)\<rparr>"

definition provenDelivered :: "delivery_row option \<Rightarrow> bool" where
  "provenDelivered dlv \<longleftrightarrow>
    (case dlv of None \<Rightarrow> False | Some d \<Rightarrow> d_deliveredConfirmedAt d \<noteq> None \<or> d_deliveredAsAbsent d)"

fun decideDispute :: "dispute_type \<Rightarrow> order_row \<Rightarrow> delivery_row option \<Rightarrow> exn + dispute_decision" where
  "decideDispute DT_SubjectiveDissatisfaction ord dlv =
     Inr (review\<lparr>dd_status := DS_Rejected\<rparr>)"
| "decideDispute DT_NeverReceived ord dlv =
     Inr (if provenDelivered dlv then review else autoRefunded False ord)"
| "decideDispute DT_WrongOrder ord dlv = Inr (autoRefunded True ord)"
| "decideDispute DT_SpoiledFood ord dlv = Inr review"
| "decideDispute DT_FoodPoisoning ord dlv = Inr review"
| "decideDispute DT_AllergenFalseDeclaration ord dlv = Inr review"
| "decideDispute DT_Chargeback ord dlv = Inl (BadRequest (Claim DisputeTypeUnsupported))"

definition claimWindowMs :: int where
  "claimWindowMs = 24 * 60 * 60 * 1000"

definition claimCheck :: "env \<Rightarrow> create_dispute_dto \<Rightarrow> order_row \<Rightarrow> delivery_row option \<Rightarrow> db \<Rightarrow> exn option" where
  "claimCheck env dto ord dlv s =
    (if o_status ord = O_Pending then Some (BadRequest (Claim NotYetPaid))
     else if o_status ord \<in> {O_Delivered, O_Completed} \<and>
       (case Option.bind dlv d_deliveredAt of None \<Rightarrow> False
        | Some t \<Rightarrow> claimWindowMs < e_now env - t)
     then Some (BadRequest (Claim ClaimWindowPassed))
     else if cd_type dto = DT_FoodPoisoning \<and>
       (case cd_proofFileUrls dto of None \<Rightarrow> True | Some fs \<Rightarrow> fs = [])
     then Some (BadRequest (Claim ProofRequired))
     else if cd_type dto = DT_AllergenFalseDeclaration \<and>
       (case cd_description dto of None \<Rightarrow> True | Some t \<Rightarrow> trim t = [])
     then Some (BadRequest (Claim DescriptionRequired))
     else if list_ex (\<lambda>x. dis_orderId x = o_id ord \<and> dis_type x = cd_type dto \<and>
       (dis_status x = DS_Open \<or> dis_status x = DS_AdminReview)) (t_disputes s)
     then Some (Conflict (Claim DisputeAlreadyOpen))
     else None)"

subsection \<open>Filing a claim\<close>

definition refundForDispute :: "env \<Rightarrow> id \<Rightarrow> db \<Rightarrow> db" where
  "refundForDispute env oid s = publishOrderStatusChanged oid O_Refunded
     (updOrder oid (\<lambda>r. r\<lparr>o_status := O_Refunded\<rparr>) (refundOrderIfNeeded env oid s))"

definition notifyDisputeParties :: "id \<Rightarrow> id \<Rightarrow> id \<Rightarrow> dispute_type \<Rightarrow> db \<Rightarrow> db" where
  "notifyDisputeParties buyerId sellerId oid ty s =
    (let s1 = sendToUsers [buyerId] ''dispute'' oid s
     in if ty \<noteq> DT_SubjectiveDissatisfaction then sendToUsers [sellerId] ''dispute_seller'' oid s1
        else s1)"

definition newDispute :: "env \<Rightarrow> create_dispute_dto \<Rightarrow> order_row \<Rightarrow> delivery_row option
    \<Rightarrow> dispute_decision \<Rightarrow> dispute_row" where
  "newDispute env dto ord dlv dec =
    \<lparr>dis_id = e_ulid env ForDispute, dis_orderId = o_id ord, dis_buyerId = o_buyerId ord,
     dis_sellerId = o_sellerId ord, dis_deliveryId = map_option d_id dlv, dis_type = cd_type dto,
     dis_status = dd_status dec, dis_description = cd_description dto,
     dis_photoUrls = cd_photoUrls dto, dis_proofFileUrls = cd_proofFileUrls dto,
     dis_refundRequested =
       (cd_type dto \<notin> {DT_SubjectiveDissatisfaction, DT_AllergenFalseDeclaration}),
     dis_refundApproved = dd_refundApproved dec,
     dis_refundAmountCents = dd_refundAmountCents dec, dis_adminNotes = None,
     dis_stripeDisputeId = None, dis_metadata = None,
     dis_resolvedAt = (if dd_status dec = DS_AutoRefunded \<or> dd_status dec = DS_Rejected
       then Some (e_now env) else None)\<rparr>"

definition wrongOrderStrike :: "order_row \<Rightarrow> strike_input" where
  "wrongOrderStrike ord =
    \<lparr>si_userId = o_sellerId ord, si_role = A_Seller, si_points = 1, si_reason = ''WRONG_ORDER'',
     si_severity = Sev_Light, si_sourceType = Src_Order, si_sourceId = None,
     si_orderId = Some (o_id ord), si_deliveryId = None, si_notes = None, si_createdBy = None\<rparr>"

definition fileDispute :: "env \<Rightarrow> create_dispute_dto \<Rightarrow> order_row \<Rightarrow> delivery_row option
    \<Rightarrow> dispute_decision \<Rightarrow> db \<Rightarrow> db" where
  "fileDispute env dto ord dlv dec s =
    (let s1 = s\<lparr>t_disputes := t_disputes s @ [newDispute env dto ord dlv dec]\<rparr>;
         s2 = (if dd_autoRefund dec then refundForDispute env (o_id ord) s1 else s1);
         s3 = (if dd_sellerStrike dec then snd (addStrike env (wrongOrderStrike ord) s2) else s2)
     in notifyDisputeParties (o_buyerId ord) (o_sellerId ord) (o_id ord) (cd_type dto) s3)"

definition createDispute :: "env \<Rightarrow> id \<Rightarrow> id \<Rightarrow> create_dispute_dto \<Rightarrow> db
    \<Rightarrow> (exn, dispute_row, db) result" where
  "createDispute env supabaseId oid dto s =
    (case getUserBySupabase s supabaseId of None \<Rightarrow> fail (NotFound UserProfile) s | Some buyer \<Rightarrow>
     (case getOrder s oid of None \<Rightarrow> fail (NotFound AnOrder) s | Some ord \<Rightarrow>
      if o_buyerId ord \<noteq> u_id buyer then fail (Forbidden (Party OrderNotYours)) s
      else
       let dlv = latestDelivery s oid
       in case claimCheck env dto ord dlv s of Some e \<Rightarrow> fail e s | None \<Rightarrow>
          (case decideDispute (cd_type dto) ord dlv of
             Inl e \<Rightarrow> fail e s
           | Inr dec \<Rightarrow> ok (newDispute env dto ord dlv dec) (fileDispute env dto ord dlv dec s))))"

subsection \<open>Administration\<close>

definition listDisputes :: "dispute_status option \<Rightarrow> dispute_type option \<Rightarrow> string option \<Rightarrow> db
    \<Rightarrow> dispute_row list" where
  "listDisputes status ty search s =
    (let q = (case search of None \<Rightarrow> [] | Some t \<Rightarrow> trim t)
     in take 100 (rev (filter (\<lambda>x.
          (case status of None \<Rightarrow> True | Some st \<Rightarrow> dis_status x = st) \<and>
          (case ty of None \<Rightarrow> True | Some t \<Rightarrow> dis_type x = t) \<and>
          (q = [] \<or> dis_id x = q \<or> dis_orderId x = q \<or> dis_buyerId x = q \<or> dis_sellerId x = q))
          (t_disputes s))))"

definition findDispute :: "id \<Rightarrow> db \<Rightarrow> exn + dispute_row" where
  "findDispute i s =
    (case getDispute s i of None \<Rightarrow> Inl (NotFound ADispute) | Some x \<Rightarrow> Inr x)"

definition closeDispute :: "env \<Rightarrow> dispute_status \<Rightarrow> string option \<Rightarrow> dispute_row \<Rightarrow> dispute_row" where
  "closeDispute env st notes x = x\<lparr>dis_status := st,
     dis_adminNotes := orElse notes (dis_adminNotes x), dis_resolvedAt := Some (e_now env)\<rparr>"

text \<open>The updated row an admin operation returns.\<close>

definition returnDispute :: "id \<Rightarrow> dispute_row \<Rightarrow> db \<Rightarrow> (exn, dispute_row, db) result" where
  "returnDispute i fallback s =
    ok (case getDispute s i of None \<Rightarrow> fallback | Some x \<Rightarrow> x) s"

definition adminApproveRefund :: "env \<Rightarrow> id \<Rightarrow> string option \<Rightarrow> db \<Rightarrow> (exn, dispute_row, db) result" where
  "adminApproveRefund env i notes s =
    (case findDispute i s of Inl e \<Rightarrow> fail e s | Inr x \<Rightarrow>
     let amount = orElse (dis_refundAmountCents x)
           (map_option o_buyerTotalCents (getOrder s (dis_orderId x)));
         s1 = refundForDispute env (dis_orderId x) s;
         s2 = updDispute i (\<lambda>r. (closeDispute env DS_Resolved notes r)
                \<lparr>dis_refundApproved := True, dis_refundAmountCents := amount\<rparr>) s1;
         s3 = notifyDisputeParties (dis_buyerId x) (dis_sellerId x) (dis_orderId x) (dis_type x) s2
     in returnDispute i x s3)"

definition adminRejectDispute :: "env \<Rightarrow> id \<Rightarrow> string option \<Rightarrow> db \<Rightarrow> (exn, dispute_row, db) result" where
  "adminRejectDispute env i notes s =
    (case findDispute i s of Inl e \<Rightarrow> fail e s | Inr x \<Rightarrow>
     let s1 = updDispute i (closeDispute env DS_Rejected notes) s;
         s2 = notifyDisputeParties (dis_buyerId x) (dis_sellerId x) (dis_orderId x) (dis_type x) s1
     in returnDispute i x s2)"

definition adminResolveDispute :: "env \<Rightarrow> id \<Rightarrow> string option \<Rightarrow> db \<Rightarrow> (exn, dispute_row, db) result" where
  "adminResolveDispute env i notes s =
    (case findDispute i s of Inl e \<Rightarrow> fail e s | Inr x \<Rightarrow>
     returnDispute i x (updDispute i (closeDispute env DS_Resolved notes) s))"

definition allergenStrike :: "dispute_row \<Rightarrow> string option \<Rightarrow> strike_input" where
  "allergenStrike x notes =
    \<lparr>si_userId = dis_sellerId x, si_role = A_Seller, si_points = 2,
     si_reason = ''ALLERGEN_FALSE_DECLARATION'', si_severity = Sev_Serious,
     si_sourceType = Src_Order, si_sourceId = Some (dis_id x), si_orderId = Some (dis_orderId x),
     si_deliveryId = None, si_notes = orElse notes (dis_description x), si_createdBy = None\<rparr>"

definition adminConfirmAllergenViolation :: "env \<Rightarrow> id \<Rightarrow> string option \<Rightarrow> db
    \<Rightarrow> (exn, dispute_row, db) result" where
  "adminConfirmAllergenViolation env i notes s =
    (case findDispute i s of Inl e \<Rightarrow> fail e s | Inr x \<Rightarrow>
     let s1 = snd (addStrike env (allergenStrike x notes) s);
         s2 = updDispute i (closeDispute env DS_Resolved notes) s1;
         s3 = sendToUsers [dis_sellerId x] ''allergen_strike'' (dis_orderId x) s2;
         s4 = sendToUsers [dis_buyerId x] ''dispute'' (dis_orderId x) s3
     in returnDispute i x s4)"

definition fraudStrike :: "dispute_row \<Rightarrow> string option \<Rightarrow> strike_input" where
  "fraudStrike x notes =
    \<lparr>si_userId = dis_buyerId x, si_role = A_Buyer, si_points = 2,
     si_reason = ''FRAUDULENT_CHARGEBACK'', si_severity = Sev_Serious, si_sourceType = Src_Order,
     si_sourceId = orElse (dis_stripeDisputeId x) (Some (dis_id x)),
     si_orderId = Some (dis_orderId x), si_deliveryId = None,
     si_notes = orElse notes (dis_description x), si_createdBy = None\<rparr>"

definition adminConfirmFraudulentChargeback :: "env \<Rightarrow> id \<Rightarrow> string option \<Rightarrow> db
    \<Rightarrow> (exn, dispute_row, db) result" where
  "adminConfirmFraudulentChargeback env i notes s =
    (case findDispute i s of Inl e \<Rightarrow> fail e s | Inr x \<Rightarrow>
     let s1 = snd (addStrike env (fraudStrike x notes) s);
         s2 = updDispute i (closeDispute env DS_Resolved notes) s1
     in returnDispute i x (sendToUsers [dis_buyerId x] ''chargeback_fraud'' (dis_orderId x) s2))"

subsection \<open>Properties\<close>

lemma getOrder_refundForDispute:
  "map_option o_status (getOrder (refundForDispute env oid s) i) =
    (if i = oid then map_option (\<lambda>_. O_Refunded) (getOrder s i) else map_option o_status (getOrder s i))"
proof -
  have "getOrder (refundOrderIfNeeded env oid s) i = None \<longleftrightarrow> getOrder s i = None" by (rule refund_present)
  then show ?thesis
    using refund_field [of o_status env oid s i]
    by (cases "getOrder s i"; cases "getOrder (refundOrderIfNeeded env oid s) i")
      (auto simp: refundForDispute_def ord.get_put)
qed

lemma refundForDispute_frames [simp]:
  "t_listings (refundForDispute env oid s) = t_listings s"
  "t_deliveries (refundForDispute env oid s) = t_deliveries s"
  "t_strikes (refundForDispute env oid s) = t_strikes s"
  by (simp_all add: refundForDispute_def)

lemma refundForDispute_disputes [simp]: "t_disputes (refundForDispute env oid s) = t_disputes s"
  by (simp add: refundForDispute_def refundOrderIfNeeded_def Let_def cancelPending_def
      split: option.split sum.split)

lemma notifyDisputeParties_frames [simp]:
  "business (notifyDisputeParties b v oid ty s) = business s"
  by (simp add: notifyDisputeParties_def Let_def frame_simps)

lemmas notifyDispute_sel [simp] = notifyDisputeParties_frames [THEN business_sel(7)]
  notifyDisputeParties_frames [THEN business_sel(8)] notifyDisputeParties_frames [THEN business_sel(9)]
  notifyDisputeParties_frames [THEN business_sel(11)] notifyDisputeParties_frames [THEN get_side(1)]
  notifyDisputeParties_frames [THEN business_sel(4)]

lemma createDispute_Inr:
  assumes "createDispute env sid oid dto s = (Inr d, s')"
  obtains buyer ord dec where "getUserBySupabase s sid = Some buyer" "getOrder s oid = Some ord"
    "o_buyerId ord = u_id buyer" "claimCheck env dto ord (latestDelivery s oid) s = None"
    "decideDispute (cd_type dto) ord (latestDelivery s oid) = Inr dec"
    "d = newDispute env dto ord (latestDelivery s oid) dec"
    "s' = fileDispute env dto ord (latestDelivery s oid) dec s"
  using assms by (auto simp: createDispute_def Let_def split: option.splits if_splits sum.splits)

lemma fileDispute_order:
  "map_option o_status (getOrder (fileDispute env dto ord dlv dec s) (o_id ord)) =
    (if dd_autoRefund dec then map_option (\<lambda>_. O_Refunded) (getOrder s (o_id ord))
     else map_option o_status (getOrder s (o_id ord)))"
proof -
  have "getOrder (s\<lparr>t_disputes := x\<rparr>) = getOrder s" for x by (simp add: getOrder_def fun_eq_iff)
  then show ?thesis by (simp add: fileDispute_def Let_def getOrder_refundForDispute)
qed

lemma fileDispute_disputes:
  "t_disputes (fileDispute env dto ord dlv dec s) = t_disputes s @ [newDispute env dto ord dlv dec]"
  by (simp add: fileDispute_def Let_def)

text \<open>When a claim is refunded at once.\<close>

definition refundedAtOnce :: "dispute_type \<Rightarrow> delivery_row option \<Rightarrow> bool" where
  "refundedAtOnce ty dlv \<longleftrightarrow> ty = DT_WrongOrder \<or> ty = DT_NeverReceived \<and> \<not> provenDelivered dlv"

lemma decideDispute_cases:
  assumes "decideDispute ty ord dlv = Inr dec"
  shows "if refundedAtOnce ty dlv
    then dec = autoRefunded (ty = DT_WrongOrder) ord
    else dec = (if ty = DT_SubjectiveDissatisfaction then review\<lparr>dd_status := DS_Rejected\<rparr> else review) \<and>
      ty \<noteq> DT_Chargeback"
  using assms by (cases ty) (auto simp: refundedAtOnce_def)


definition demo_claim :: "dispute_type \<Rightarrow> create_dispute_dto" where
  "demo_claim ty = \<lparr>cd_type = ty, cd_description = None, cd_photoUrls = None, cd_proofFileUrls = None\<rparr>"


definition openClaim :: "db \<Rightarrow> id \<Rightarrow> dispute_type \<Rightarrow> bool" where
  "openClaim s oid ty \<longleftrightarrow> list_ex (\<lambda>x. dis_orderId x = oid \<and> dis_type x = ty \<and>
     (dis_status x = DS_Open \<or> dis_status x = DS_AdminReview)) (t_disputes s)"

text \<open>The 24-hour claim window hangs on the delivery's time of delivery. A delivered order of a
  delivery handed over more than a day ago takes no further claim; a collected order has no
  delivery, so its buyer's claim that nothing was received is accepted and refunded at once,
  however late it comes and although the hand-over was confirmed.\<close>

theorem claim_window_needs_delivery:
  assumes "getUserBySupabase s sid = Some buyer" and "getOrder s oid = Some ord"
    and "o_buyerId ord = u_id buyer" and "o_status ord = O_Delivered"
    and "\<not> openClaim s oid DT_NeverReceived" and "cd_type dto = DT_NeverReceived"
  shows "case Option.bind (latestDelivery s oid) d_deliveredAt of
      Some t \<Rightarrow> 24 * 3600 * 1000 < e_now env - t \<longrightarrow>
        createDispute env sid oid dto s = (Inl (BadRequest (Claim ClaimWindowPassed)), s)
    | None \<Rightarrow> latestDelivery s oid = None \<longrightarrow>
        (\<exists>d s'. createDispute env sid oid dto s = (Inr d, s') \<and> dis_status d = DS_AutoRefunded \<and>
          map_option o_status (getOrder s' oid) = Some O_Refunded)"
proof (cases "Option.bind (latestDelivery s oid) d_deliveredAt")
  case (Some t)
  have "claimCheck env dto ord (latestDelivery s oid) s = Some (BadRequest (Claim ClaimWindowPassed))"
    if "24 * 3600 * 1000 < e_now env - t"
    using that Some assms(4) by (simp add: claimCheck_def claimWindowMs_def)
  with Some assms(1-3) show ?thesis by (simp add: createDispute_def Let_def fail_def)
next
  case None
  have id: "o_id ord = oid" by (rule getOrder_id [OF assms(2)])
  let ?s' = "fileDispute env dto ord None (autoRefunded False ord) s"
  have "createDispute env sid oid dto s = (Inr (newDispute env dto ord None (autoRefunded False ord)), ?s')"
    if "latestDelivery s oid = None"
  proof -
    have "claimCheck env dto ord None s = None"
      using assms(4-6) id by (simp add: claimCheck_def openClaim_def)
    with that assms(1-3,6) show ?thesis by (simp add: createDispute_def Let_def provenDelivered_def ok_def)
  qed
  moreover have "map_option o_status (getOrder ?s' oid) = Some O_Refunded"
    using fileDispute_order [of env dto ord None "autoRefunded False ord" s] assms(2)
    by (simp add: id autoRefunded_def)
  ultimately show ?thesis using None by (simp add: newDispute_def autoRefunded_def)
qed

theorem claim_window_needs_delivery_witness:
  "\<exists>d s'. createDispute (demo_env\<lparr>e_now := 10 ^ 12\<rparr>) ''bb'' ''o'' (demo_claim DT_NeverReceived)
      (order_db O_Delivered F_Pickup) = (Inr d, s') \<and> dis_status d = DS_AutoRefunded"
proof -
  let ?s = "order_db O_Delivered F_Pickup"
  have o: "getOrder ?s ''o'' = Some (demo_order ''o'' O_Delivered F_Pickup)" by code_simp
  have u: "map_option u_id (getUserBySupabase ?s ''bb'') = Some ''b''" by code_simp
  then obtain buyer where b: "getUserBySupabase ?s ''bb'' = Some buyer" "u_id buyer = ''b''" by auto
  have "latestDelivery ?s ''o'' = None" by code_simp
  moreover have "\<not> openClaim ?s ''o'' DT_NeverReceived" by code_simp
  ultimately show ?thesis
    using claim_window_needs_delivery [OF b(1) o, of "demo_claim DT_NeverReceived" "demo_env\<lparr>e_now := 10 ^ 12\<rparr>"] b(2)
    by (auto simp: demo_order_def demo_claim_def)
qed

text \<open>When Stripe refuses the refund of a dispute, the order is marked REFUNDED all the same:
  no money moves and no refund id is stored, but the realtime event already says REFUNDED.\<close>

theorem dispute_refunded_without_refund:
  assumes "getOrder s oid = Some ord" and "\<not> truthy (o_stripeRefundId ord)"
    and "o_stripePaymentIntentId ord = Some pid" and "pid \<noteq> []" and "e_refundCreate env pid = Inl msg"
  shows "getOrder (refundForDispute env oid s) oid = Some (ord\<lparr>o_status := O_Refunded\<rparr>) \<and>
    out (refundForDispute env oid s) = out s @ [PubOrderStatus oid O_Refunded] \<and>
    t_wallet (refundForDispute env oid s) = t_wallet s"
proof -
  have r: "refundOrderIfNeeded env oid s = auditRecord None ''order.refund.failed'' oid s"
    using assms by (simp add: refundOrderIfNeeded_def truthy_def)
  have "out (auditRecord a b c s) = out s" for a b c by (simp add: auditRecord_def)
  then show ?thesis
    using assms(1) by (simp add: refundForDispute_def r ord.get_put publishOrderStatusChanged_def)
qed

theorem dispute_refunded_without_refund_witness:
  "map_option o_status (getOrder (refundForDispute (demo_env\<lparr>e_refundCreate := \<lambda>_. Inl ''card''\<rparr>) ''o''
      (order_db O_Delivered F_Delivery)) ''o'') = Some O_Refunded"
proof -
  have o: "getOrder (order_db O_Delivered F_Delivery) ''o'' = Some (demo_order ''o'' O_Delivered F_Delivery)"
    by code_simp
  show ?thesis
    using dispute_refunded_without_refund [OF o, of "''pi''" "demo_env\<lparr>e_refundCreate := \<lambda>_. Inl ''card''\<rparr>" "''card''"]
    by (simp add: demo_order_def truthy_def)
qed

end
