(* ===== verification/Deliveries.thy ===== *)
theory Deliveries
  imports Orders_Watchdogs
begin

section \<open>The driver's side\<close>

text \<open>
  \<open>src/modules/deliveries/deliveries.service.ts\<close> and the seller-driver thread of
  \<open>src/modules/messaging/conversations.service.ts\<close>. A driver goes online, claims a searching
  delivery (one atomic UPDATE), scans the seller's QR, then the buyer's or proves an absent
  buyer, or reports that the seller has nothing to hand over.
\<close>

subsection \<open>Who is calling\<close>

definition assertDriver :: "id \<Rightarrow> db \<Rightarrow> exn + (user_row \<times> driver_row)" where
  "assertDriver supabaseId s =
    (case getUserBySupabase s supabaseId of None \<Rightarrow> Inl (NotFound UserProfile) | Some user \<Rightarrow>
     if u_role user \<noteq> R_Driver then Inl (Forbidden (Driver OnlyDrivers))
     else (case getDriver s (u_id user) of None \<Rightarrow> Inl (Forbidden (Driver OnlyDrivers))
       | Some drv \<Rightarrow> Inr (user, drv)))"

definition loadDeliveryForDriver :: "id \<Rightarrow> id \<Rightarrow> db \<Rightarrow> exn + delivery_row" where
  "loadDeliveryForDriver did driverId s =
    (case getDelivery s did of
       None \<Rightarrow> Inl (NotFound ADelivery)
     | Some dlv \<Rightarrow>
         if d_driverId dlv \<noteq> Some driverId then Inl (Forbidden (Driver NotAssignedToDriver))
         else Inr dlv)"

definition loadAsDriver :: "id \<Rightarrow> id \<Rightarrow> db \<Rightarrow> exn + (id \<times> delivery_row)" where
  "loadAsDriver supabaseId did s =
    (case assertDriver supabaseId s of
       Inl e \<Rightarrow> Inl e
     | Inr (_, drv) \<Rightarrow>
         (case loadDeliveryForDriver did (dp_userId drv) s of
            Inl e \<Rightarrow> Inl e | Inr dlv \<Rightarrow> Inr (dp_userId drv, dlv)))"

definition loadDelivery :: "id \<Rightarrow> db \<Rightarrow> (exn, delivery_row, db) result" where
  "loadDelivery did s =
    (case getDelivery s did of None \<Rightarrow> fail (NotFound ADelivery) s | Some dlv \<Rightarrow> ok dlv s)"

subsection \<open>Online status and location\<close>

text \<open>
  In development a driver without an approved KYC is approved on the spot; elsewhere the
  call is refused.
\<close>

definition approveKyc :: "id \<Rightarrow> db \<Rightarrow> db" where
  "approveKyc driverId s = updDriver driverId (\<lambda>d. d\<lparr>dp_kycStatus := K_Approved\<rparr>) s"

definition setOnline :: "env \<Rightarrow> id \<Rightarrow> bool \<Rightarrow> js_number option \<Rightarrow> js_number option \<Rightarrow> db
    \<Rightarrow> (exn, unit, db) result" where
  "setOnline env supabaseId isOnline lat lng s =
    (case assertDriver supabaseId s of Inl e \<Rightarrow> fail e s | Inr (user, drv) \<Rightarrow>
     if isOnline \<and> u_isSuspended user then fail (Forbidden (Driver DriverSuspended)) s
     else if isOnline \<and> dp_kycStatus drv \<noteq> K_Approved \<and> \<not> e_isDev env
     then fail (Forbidden (Driver DriverKycRequired)) s
     else
       let s1 = (if isOnline \<and> dp_kycStatus drv \<noteq> K_Approved then approveKyc (dp_userId drv) s else s);
           s2 = updDriver (dp_userId drv)
                  (\<lambda>d. d\<lparr>dp_isOnline := isOnline, dp_lastSeenAt := Some (e_now env)\<rparr>) s1;
           s3 = (case (lng, lat) of
                   (Some x, Some y) \<Rightarrow>
                     updDriver (dp_userId drv) (\<lambda>d. d\<lparr>dp_lastKnownPoint := Some (x, y)\<rparr>) s2
                 | _ \<Rightarrow> s2)
       in ok () s3)"

definition ACTIVE_DELIVERY_STATUSES :: "delivery_status list" where
  "ACTIVE_DELIVERY_STATUSES =
    [D_Assigned, D_EnRouteToPickup, D_AtPickup, D_PickedUp, D_EnRouteToDropoff, D_AtDropoff]"

text \<open>
  The driver's active delivery assigned last; a missing assignment time sorts first, as
  Postgres does in a descending order.
\<close>

definition activeDelivery :: "id \<Rightarrow> db \<Rightarrow> delivery_row option" where
  "activeDelivery driverId s =
    (case filter (\<lambda>d. d_driverId d = Some driverId \<and> d_status d \<in> set ACTIVE_DELIVERY_STATUSES)
        (t_deliveries s) of
       [] \<Rightarrow> None
     | d # ds \<Rightarrow> Some (foldl (\<lambda>m x. if laterThan (d_driverAssignedAt x) (d_driverAssignedAt m)
         then x else m) d ds))"

definition recordLocation :: "env \<Rightarrow> id \<Rightarrow> js_number \<Rightarrow> js_number \<Rightarrow> db
    \<Rightarrow> (exn, bool \<times> id option, db) result" where
  "recordLocation env supabaseId lat lng s =
    (case assertDriver supabaseId s of Inl e \<Rightarrow> fail e s | Inr (_, drv) \<Rightarrow>
     let s1 = updDriver (dp_userId drv)
           (\<lambda>d. d\<lparr>dp_lastKnownPoint := Some (lng, lat), dp_lastSeenAt := Some (e_now env)\<rparr>) s
     in case activeDelivery (dp_userId drv) s1 of
          None \<Rightarrow> ok (False, None) s1
        | Some act \<Rightarrow> ok (True, Some (d_id act)) (emit (PubDriverLocation (d_id act) (lng, lat)) s1))"

subsection \<open>Reads\<close>

text \<open>
  The jobs offered to a driver: unclaimed searching deliveries, nearest seller first, then
  oldest first. The distance of two points is the \<open><->\<close> of PostGIS, a parameter; a missing
  point sorts last.
\<close>

definition distKey :: "(point \<Rightarrow> point \<Rightarrow> rat) \<Rightarrow> point option \<Rightarrow> db \<Rightarrow> delivery_row \<Rightarrow> rat option" where
  "distKey gap me s d =
    (case (me, Option.bind (Option.bind (getOrder s (d_orderId d)) (\<lambda>r. getSeller s (o_sellerId r)))
        sp_location) of
       (Some p, Some q) \<Rightarrow> Some (gap p q) | _ \<Rightarrow> None)"

definition offerable :: "db \<Rightarrow> delivery_row \<Rightarrow> bool" where
  "offerable s d \<longleftrightarrow> d_status d = D_Searching \<and> d_driverId d = None \<and>
     Option.bind (getOrder s (d_orderId d)) (\<lambda>r. getSeller s (o_sellerId r)) \<noteq> None"

definition eligibleJobs :: "(point \<Rightarrow> point \<Rightarrow> rat) \<Rightarrow> point option \<Rightarrow> db \<Rightarrow> delivery_row list" where
  "eligibleJobs gap me s =
    (let ds = filter (offerable s) (t_deliveries s); key = distKey gap me s
     in sort_key (the \<circ> key) (filter (\<lambda>d. key d \<noteq> None) ds) @ filter (\<lambda>d. key d = None) ds)"

record enrichment =
  en_pickup :: "point option"
  en_dropoff :: "point option"
  en_dropoffFullAddress :: string
  en_sellerName :: "string option"
  en_recipientName :: "string option"
  en_orderTotalCents :: int
  en_placedAt :: time
  en_itemCount :: int

text \<open>\<open>[first, last].filter(Boolean).join(' ').trim()\<close>, absent when empty.\<close>

definition displayName :: "user_row \<Rightarrow> string option" where
  "displayName u =
    (let parts = filter (\<lambda>p. p \<noteq> []) [u_firstName u, u_lastName u];
         nm = trim (case parts of [] \<Rightarrow> [] | [p] \<Rightarrow> p | p # q # _ \<Rightarrow> p @ '' '' @ q)
     in if nm = [] then None else Some nm)"

text \<open>The inner joins of the query: a row is enriched when all its parts exist.\<close>

definition loadDeliveryEnrichment :: "db \<Rightarrow> delivery_row \<Rightarrow> enrichment option" where
  "loadDeliveryEnrichment s d =
    Option.bind (getOrder s (d_orderId d)) (\<lambda>r.
    Option.bind (getUser s (o_sellerId r)) (\<lambda>u.
    Option.bind (getUser s (o_buyerId r)) (\<lambda>b.
    Option.bind (Option.bind (o_dropoffAddressId r) (\<lambda>i. findRow ad_id i (t_addresses s))) (\<lambda>a.
    Option.bind (getSeller s (o_sellerId r)) (\<lambda>sel.
      Some \<lparr>en_pickup = sp_location sel, en_dropoff = ad_point a,
            en_dropoffFullAddress = ad_fullAddress (ad_data a), en_sellerName = displayName u,
            en_recipientName = displayName b, en_orderTotalCents = o_buyerTotalCents r,
            en_placedAt = o_placedAt r,
            en_itemCount = sum_list (map i_quantity (o_items r))\<rparr>)))))"

text \<open>
  The page: the ids in offering order select the rows, which come back oldest first; the
  limit is applied to the rows in that order.
\<close>

definition listAvailable :: "(point \<Rightarrow> point \<Rightarrow> rat) \<Rightarrow> id \<Rightarrow> nat \<Rightarrow> nat \<Rightarrow> db
    \<Rightarrow> exn + ((delivery_row \<times> enrichment option) list \<times> bool)" where
  "listAvailable gap supabaseId limit offset s =
    (case assertDriver supabaseId s of Inl e \<Rightarrow> Inl e | Inr (_, drv) \<Rightarrow>
     let ids = map d_id (take (limit + 1) (drop offset
           (eligibleJobs gap (Option.bind (getDriver s (dp_userId drv)) dp_lastKnownPoint) s)))
     in if ids = [] then Inr ([], False)
     else let rows = filter (\<lambda>d. d_id d \<in> set ids) (t_deliveries s);
              hasMore = (limit < length ids);
              sliced = (if hasMore then take limit rows else rows)
     in Inr (map (\<lambda>d. (d, loadDeliveryEnrichment s d)) sliced, hasMore))"

definition listMine :: "id \<Rightarrow> delivery_status option \<Rightarrow> nat \<Rightarrow> nat \<Rightarrow> db
    \<Rightarrow> exn + (delivery_row list \<times> bool)" where
  "listMine supabaseId status limit offset s =
    (case assertDriver supabaseId s of Inl e \<Rightarrow> Inl e | Inr (_, drv) \<Rightarrow>
     let rows = take (limit + 1) (drop offset (rev (filter (\<lambda>d. d_driverId d = Some (dp_userId drv) \<and>
           (case status of None \<Rightarrow> True | Some st \<Rightarrow> d_status d = st)) (t_deliveries s))));
         hasMore = (limit < length rows)
     in Inr (if hasMore then take limit rows else rows, hasMore))"

definition findDeliveryById :: "id \<Rightarrow> id \<Rightarrow> db \<Rightarrow> exn + delivery_row" where
  "findDeliveryById supabaseId did s =
    (case assertDriver supabaseId s of Inl e \<Rightarrow> Inl e | Inr (_, drv) \<Rightarrow>
     (case getDelivery s did of None \<Rightarrow> Inl (NotFound ADelivery) | Some dlv \<Rightarrow>
      if truthy (d_driverId dlv) \<and> d_driverId dlv \<noteq> Some (dp_userId drv)
      then Inl (Forbidden (Driver OtherDriversDelivery)) else Inr dlv))"

subsection \<open>Claiming\<close>

definition isParticipant :: "db \<Rightarrow> id \<Rightarrow> id \<Rightarrow> bool" where
  "isParticipant s cid uid \<longleftrightarrow>
    (\<exists>p \<in> set (t_participants s). cp_conversationId p = cid \<and> cp_userId p = uid)"

definition newParticipant :: "id \<Rightarrow> id \<Rightarrow> id \<Rightarrow> participant_role \<Rightarrow> participant_row" where
  "newParticipant i cid uid role = \<lparr>cp_id = i, cp_conversationId = cid, cp_userId = uid,
    cp_role = role, cp_unreadCount = 0, cp_lastReadAt = None\<rparr>"

definition ensureSellerDriverConversation :: "env \<Rightarrow> id \<Rightarrow> id \<Rightarrow> db \<Rightarrow> (id option \<times> bool) \<times> db" where
  "ensureSellerDriverConversation env oid driverId s =
    (case getOrder s oid of
       None \<Rightarrow> ((None, False), s)
     | Some ord \<Rightarrow>
         if o_sellerId ord = driverId then ((None, False), s)
         else (case List.find (\<lambda>c. cv_type c = CT_SellerDriver \<and> cv_orderId c = Some oid \<and>
                 isParticipant s (cv_id c) (o_sellerId ord) \<and> isParticipant s (cv_id c) driverId)
                 (t_conversations s) of
             Some c \<Rightarrow> ((Some (cv_id c), False), s)
           | None \<Rightarrow>
               ((Some (e_ulid env ForConversation), True),
                s\<lparr>t_conversations := t_conversations s @
                  [\<lparr>cv_id = e_ulid env ForConversation, cv_type = CT_SellerDriver,
                    cv_orderId = Some oid, cv_storeId = None, cv_lastMessage = None,
                    cv_lastMessageAt = None\<rparr>],
                 t_participants := t_participants s @
                  [newParticipant (e_ulid env (ForParticipant 0)) (e_ulid env ForConversation)
                     (o_sellerId ord) P_Seller,
                   newParticipant (e_ulid env (ForParticipant 1)) (e_ulid env ForConversation)
                     driverId P_Delivery]\<rparr>)))"

text \<open>
  The atomic claim: one UPDATE guarded by the status and the missing driver. The number of
  changed rows decides who wins.
\<close>

definition claimable :: "id \<Rightarrow> delivery_row \<Rightarrow> bool" where
  "claimable did d \<longleftrightarrow> d_id d = did \<and> d_status d = D_Searching \<and> d_driverId d = None"

definition claimUpdate :: "env \<Rightarrow> id \<Rightarrow> id \<Rightarrow> db \<Rightarrow> nat \<times> db" where
  "claimUpdate env driverId did s =
    (countWhere (claimable did) (t_deliveries s),
     s\<lparr>t_deliveries := updWhere (claimable did)
        (\<lambda>d. d\<lparr>d_driverId := Some driverId, d_status := D_Assigned,
               d_driverAssignedAt := Some (e_now env)\<rparr>) (t_deliveries s)\<rparr>)"

definition claim :: "env \<Rightarrow> id \<Rightarrow> id \<Rightarrow> db \<Rightarrow> (exn, delivery_row, db) result" where
  "claim env supabaseId did s =
    (case assertDriver supabaseId s of Inl e \<Rightarrow> fail e s | Inr (user, drv) \<Rightarrow>
     if u_isSuspended user then fail (Forbidden (Driver DriverSuspended)) s
     else if dp_kycStatus drv \<noteq> K_Approved \<and> \<not> e_isDev env
     then fail (Forbidden (Driver DriverKycRequired)) s
     else
       let s1 = (if dp_kycStatus drv \<noteq> K_Approved then approveKyc (dp_userId drv) s else s);
           (updated, s2) = claimUpdate env (dp_userId drv) did s1
       in if updated = 0 then fail (Conflict (Driver DeliveryNoLongerAvailable)) s2
       else bindR (loadDelivery did s2) (\<lambda>dlv s3.
         let s4 = notifyDeliveryEvent (d_orderId dlv) did ''delivery_assigned'' True False s3
         in ok dlv (snd (ensureSellerDriverConversation env (d_orderId dlv) (dp_userId drv) s4))))"

subsection \<open>Arrival and pickup\<close>

definition transitionDelivery :: "id \<Rightarrow> id \<Rightarrow> delivery_status list \<Rightarrow> delivery_status \<Rightarrow> db
    \<Rightarrow> (exn, delivery_row, db) result" where
  "transitionDelivery supabaseId did from to s =
    (case loadAsDriver supabaseId did s of Inl e \<Rightarrow> fail e s | Inr (_, dlv) \<Rightarrow>
     if d_status dlv \<notin> set from then fail (Conflict (Driver (WrongDeliveryStatus (d_status dlv)))) s
     else loadDelivery did (updDelivery did (\<lambda>d. d\<lparr>d_status := to\<rparr>) s))"

definition arriveAtPickup :: "id \<Rightarrow> id \<Rightarrow> db \<Rightarrow> (exn, delivery_row, db) result" where
  "arriveAtPickup supabaseId did s =
    bindR (transitionDelivery supabaseId did [D_Assigned] D_AtPickup s) (\<lambda>dlv s.
      ok dlv (notifyDeliveryEvent (d_orderId dlv) did ''driver_at_pickup'' True True s))"

definition PRE_PICKUP :: "delivery_status list" where
  "PRE_PICKUP = [D_Assigned, D_EnRouteToPickup, D_AtPickup]"

definition POST_PICKUP :: "delivery_status list" where
  "POST_PICKUP = [D_PickedUp, D_EnRouteToDropoff, D_AtDropoff, D_Delivered]"

definition OUT_FOR_DELIVERY :: "delivery_status list" where
  "OUT_FOR_DELIVERY = [D_PickedUp, D_EnRouteToDropoff, D_AtDropoff]"

record scan_dto =
  sc_token :: string
  sc_lat :: "js_number option"
  sc_lng :: "js_number option"

definition pickupScanCheck :: "scan_dto \<Rightarrow> delivery_row \<Rightarrow> exn option" where
  "pickupScanCheck dto dlv =
    (if d_pickupConfirmedAt dlv \<noteq> None \<or> d_status dlv \<in> set POST_PICKUP
     then Some (Conflict (Driver PickupAlreadyScanned))
     else if d_status dlv \<notin> set PRE_PICKUP then Some (Conflict (Driver NotReadyForScan))
     else if \<not> truthy (d_pickupToken dlv) \<or> d_pickupToken dlv \<noteq> Some (sc_token dto)
     then Some (BadRequest (Driver InvalidQrCode))
     else None)"

definition pickedUpRow :: "env \<Rightarrow> id \<Rightarrow> scan_dto \<Rightarrow> delivery_row \<Rightarrow> delivery_row" where
  "pickedUpRow env driverId dto d =
    d\<lparr>d_status := D_PickedUp, d_pickedUpAt := Some (e_now env),
      d_pickupConfirmedAt := Some (e_now env), d_pickupConfirmedByDriverId := Some driverId,
      d_pickupPoint := (sc_lng dto, sc_lat dto), d_deliveryToken := Some (e_token env)\<rparr>"

definition confirmDriverPickup :: "env \<Rightarrow> id \<Rightarrow> id \<Rightarrow> scan_dto \<Rightarrow> db \<Rightarrow> (exn, delivery_row, db) result" where
  "confirmDriverPickup env supabaseId did dto s =
    (case loadAsDriver supabaseId did s of Inl e \<Rightarrow> fail e s | Inr (driverId, dlv) \<Rightarrow>
     (case pickupScanCheck dto dlv of Some e \<Rightarrow> fail e s | None \<Rightarrow>
      let oid = d_orderId dlv;
          s1 = updDelivery did (pickedUpRow env driverId dto) s;
          s2 = updOrder oid (\<lambda>r. r\<lparr>o_status := O_InDelivery\<rparr>) s1;
          s3 = publishOrderStatusChanged oid O_InDelivery s2;
          s4 = notifyDeliveryEvent oid did ''order_picked_up'' True True s3;
          s5 = scheduleDriverDeliveryTimeout env did s4
      in loadDelivery did s5))"

subsection \<open>Drop-off\<close>

definition outForDeliveryCheck :: "delivery_row \<Rightarrow> exn option" where
  "outForDeliveryCheck dlv =
    (if d_deliveredConfirmedAt dlv \<noteq> None \<or> d_status dlv = D_Delivered
     then Some (Conflict (Driver DeliveryAlreadyConfirmed))
     else if d_status dlv \<notin> set OUT_FOR_DELIVERY
     then (if d_status dlv \<in> {D_Unassigned, D_Searching} \<union> set PRE_PICKUP
           then Some (Conflict (State PickupNotConfirmed))
           else Some (Conflict (State NotInDelivery)))
     else None)"

definition deliveryScanCheck :: "scan_dto \<Rightarrow> delivery_row \<Rightarrow> exn option" where
  "deliveryScanCheck dto dlv =
    (case outForDeliveryCheck dlv of Some e \<Rightarrow> Some e | None \<Rightarrow>
     if \<not> truthy (d_deliveryToken dlv) \<or> d_deliveryToken dlv \<noteq> Some (sc_token dto)
     then Some (BadRequest (Driver InvalidQrCode)) else None)"

definition deliveredRow :: "env \<Rightarrow> id \<Rightarrow> js_number option \<times> js_number option \<Rightarrow> delivery_row \<Rightarrow> delivery_row" where
  "deliveredRow env driverId pt d =
    d\<lparr>d_status := D_Delivered, d_deliveredAt := Some (e_now env),
      d_deliveredConfirmedAt := Some (e_now env), d_deliveredConfirmedByDriverId := Some driverId,
      d_deliveredPoint := pt\<rparr>"

definition confirmDelivery :: "env \<Rightarrow> id \<Rightarrow> id \<Rightarrow> scan_dto \<Rightarrow> db \<Rightarrow> (exn, delivery_row, db) result" where
  "confirmDelivery env supabaseId did dto s =
    (case loadAsDriver supabaseId did s of Inl e \<Rightarrow> fail e s | Inr (driverId, dlv) \<Rightarrow>
     (case deliveryScanCheck dto dlv of Some e \<Rightarrow> fail e s | None \<Rightarrow>
      let oid = d_orderId dlv;
          s1 = updDelivery did (deliveredRow env driverId (sc_lng dto, sc_lat dto)) s
      in bindR (confirmDeliveredByDriver env oid s1) (\<lambda>_ s2.
           let s3 = notifyDeliveryEvent oid did ''delivery_completed'' True True s2;
               s4 = sendToUsers [driverId] ''delivery_completed'' did s3
           in loadDelivery did s4)))"

record absent_dto =
  ab_photoUrl :: "string option"
  ab_lat :: "js_number option"
  ab_lng :: "js_number option"
  ab_note :: "string option"

text \<open>\<open>typeof x === 'number' && !Number.isNaN(x)\<close>, and \<open>x?.trim() || null\<close>.\<close>

definition isNumber :: "js_number option \<Rightarrow> bool" where
  "isNumber x \<longleftrightarrow> (case x of None \<Rightarrow> False | Some JNaN \<Rightarrow> False | Some (JNum _) \<Rightarrow> True)"

definition trimmed :: "string option \<Rightarrow> string option" where
  "trimmed x = (case x of None \<Rightarrow> None | Some t \<Rightarrow> if trim t = [] then None else Some (trim t))"

definition absentCheck :: "absent_dto \<Rightarrow> delivery_row \<Rightarrow> exn option" where
  "absentCheck dto dlv =
    (case outForDeliveryCheck dlv of Some e \<Rightarrow> Some e | None \<Rightarrow>
     if trimmed (ab_photoUrl dto) = None then Some (BadRequest (Driver PhotoRequired))
     else if \<not> (isNumber (ab_lat dto) \<and> isNumber (ab_lng dto))
     then Some (BadRequest (Driver GpsRequired)) else None)"

definition absentRow :: "env \<Rightarrow> id \<Rightarrow> absent_dto \<Rightarrow> delivery_row \<Rightarrow> delivery_row" where
  "absentRow env driverId dto d =
    (deliveredRow env driverId (ab_lng dto, ab_lat dto) d)
      \<lparr>d_deliveredAsAbsent := True, d_absentProofPhotoUrl := trimmed (ab_photoUrl dto),
       d_absentProofPoint := (ab_lng dto, ab_lat dto), d_absentProofTakenAt := Some (e_now env),
       d_absentProofNote := trimmed (ab_note dto)\<rparr>"

definition absentNotify :: "id \<Rightarrow> id \<Rightarrow> id \<Rightarrow> db \<Rightarrow> db" where
  "absentNotify driverId oid did s =
    (let s1 = (case getOrder s oid of
           None \<Rightarrow> s
         | Some ord \<Rightarrow>
             let s0 = (if o_buyerId ord \<noteq> [] then sendToUsers [o_buyerId ord] ''delivery_completed'' did s
                       else s)
             in if o_sellerId ord \<noteq> [] then sendToUsers [o_sellerId ord] ''delivery_completed'' did s0
                else s0)
     in sendToUsers [driverId] ''delivery_completed'' did s1)"

definition confirmAbsentDropoff :: "env \<Rightarrow> id \<Rightarrow> id \<Rightarrow> absent_dto \<Rightarrow> db
    \<Rightarrow> (exn, delivery_row, db) result" where
  "confirmAbsentDropoff env supabaseId did dto s =
    (case loadAsDriver supabaseId did s of Inl e \<Rightarrow> fail e s | Inr (driverId, dlv) \<Rightarrow>
     (case absentCheck dto dlv of Some e \<Rightarrow> fail e s | None \<Rightarrow>
      let s1 = updDelivery did (absentRow env driverId dto) s
      in bindR (confirmDeliveredByDriver env (d_orderId dlv) s1) (\<lambda>_ s2.
           loadDelivery did (absentNotify driverId (d_orderId dlv) did s2))))"

subsection \<open>Reports\<close>

record unavailable_dto =
  un_reason :: unavailable_reason
  un_lat :: "js_number option"
  un_lng :: "js_number option"
  un_note :: "string option"
  un_photoUrl :: "string option"

definition unavailableCheck :: "unavailable_dto \<Rightarrow> delivery_row \<Rightarrow> db \<Rightarrow> exn option" where
  "unavailableCheck dto dlv s =
    (if d_sellerUnavailableAt dlv \<noteq> None \<or> d_status dlv = D_Cancelled \<or> d_status dlv = D_Failed
     then Some (Conflict (Driver AlreadyReported))
     else if d_pickupConfirmedAt dlv \<noteq> None \<or> d_status dlv \<in> set POST_PICKUP
     then Some (Conflict (State PickupAlreadyConfirmed))
     else (case getOrder s (d_orderId dlv) of None \<Rightarrow> Some (NotFound AnOrder) | Some ord \<Rightarrow>
       if o_status ord \<in> {O_Cancelled, O_Refunded, O_Delivered, O_Completed}
       then Some (Conflict (State OrderAlreadyResolved))
       else if \<not> (isNumber (un_lat dto) \<and> isNumber (un_lng dto))
       then Some (BadRequest (Driver GpsRequired)) else None))"

definition reasonText :: "unavailable_reason \<Rightarrow> string" where
  "reasonText r = (case r of UR_SellerAbsent \<Rightarrow> ''SELLER_ABSENT'' | UR_FoodNotAvailable \<Rightarrow> ''FOOD_NOT_AVAILABLE'')"

definition unavailableRow :: "env \<Rightarrow> unavailable_dto \<Rightarrow> delivery_row \<Rightarrow> delivery_row" where
  "unavailableRow env dto d =
    d\<lparr>d_status := D_Cancelled, d_failedAt := Some (e_now env),
      d_failureReason := Some (''seller_unavailable:'' @ reasonText (un_reason dto)),
      d_sellerUnavailableReason := Some (un_reason dto), d_sellerUnavailableAt := Some (e_now env),
      d_sellerUnavailablePoint := (un_lng dto, un_lat dto),
      d_sellerUnavailableNote := trimmed (un_note dto),
      d_sellerUnavailablePhotoUrl := trimmed (un_photoUrl dto)\<rparr>"

definition reportSellerUnavailable :: "env \<Rightarrow> id \<Rightarrow> id \<Rightarrow> unavailable_dto \<Rightarrow> db
    \<Rightarrow> (exn, delivery_row, db) result" where
  "reportSellerUnavailable env supabaseId did dto s =
    (case loadAsDriver supabaseId did s of Inl e \<Rightarrow> fail e s | Inr (driverId, dlv) \<Rightarrow>
     (case unavailableCheck dto dlv s of Some e \<Rightarrow> fail e s | None \<Rightarrow>
      bindR (cancelForSellerUnavailable env (d_orderId dlv) driverId
          (updDelivery did (unavailableRow env dto) s)) (\<lambda>_ s1.
        let s2 = sendToUsers [driverId] ''seller_unavailable'' did s1;
            s3 = publishDeliveryCancelledToDriver driverId did (d_orderId dlv) ''CANCELLED''
                   ''seller_unavailable'' s2
        in loadDelivery did s3)))"

record issue_dto =
  ij_issueCode :: string
  ij_severity :: issue_severity
  ij_stageWhenReported :: order_status
  ij_freeText :: "string option"

definition reportIssue :: "env \<Rightarrow> id \<Rightarrow> id \<Rightarrow> issue_dto \<Rightarrow> db \<Rightarrow> (exn, id \<times> issue_severity, db) result" where
  "reportIssue env supabaseId did dto s =
    (case loadAsDriver supabaseId did s of Inl e \<Rightarrow> fail e s | Inr (driverId, dlv) \<Rightarrow>
     let iid = e_ulid env ForIssue;
         s1 = s\<lparr>t_issues := t_issues s @
           [\<lparr>is_id = iid, is_deliveryId = d_id dlv, is_driverId = driverId,
             is_issueCode = ij_issueCode dto, is_severity = ij_severity dto,
             is_stageWhenReported = ij_stageWhenReported dto, is_freeText = ij_freeText dto\<rparr>]\<rparr>;
         s2 = (if ij_severity dto = I_Abort
               then auditRecord (Some driverId) ''delivery.issue_abort'' iid s1 else s1)
     in ok (iid, ij_severity dto) s2)"

subsection \<open>The claim race\<close>

lemma assertDriver_Inr:
  assumes "assertDriver sid s = Inr (user, drv)"
  shows "getUserBySupabase s sid = Some user" and "u_role user = R_Driver"
    and "getDriver s (u_id user) = Some drv" and "dp_userId drv = u_id user"
  using assms by (auto simp: assertDriver_def split: option.splits if_splits dest: drv.get_key)

lemma upd_driver_frames [simp]:
  "getUserBySupabase (updDriver i f s) = getUserBySupabase s"
  "t_deliveries (approveKyc v s) = t_deliveries s" "t_users (approveKyc v s) = t_users s"
  by (simp_all add: getUserBySupabase_def updDriver_def approveKyc_def fun_eq_iff)

lemma ensureConversation_deliveries [simp]:
  "t_deliveries (snd (ensureSellerDriverConversation env oid v s)) = t_deliveries s"
  "t_orders (snd (ensureSellerDriverConversation env oid v s)) = t_orders s"
  "t_users (snd (ensureSellerDriverConversation env oid v s)) = t_users s"
  by (simp_all add: ensureSellerDriverConversation_def split: option.split)

text \<open>What a claim leaves of the deliveries: the rows as they were, or the rows after the UPDATE.\<close>

definition assignRow :: "env \<Rightarrow> id \<Rightarrow> delivery_row \<Rightarrow> delivery_row" where
  "assignRow env v d = d\<lparr>d_driverId := Some v, d_status := D_Assigned,
     d_driverAssignedAt := Some (e_now env)\<rparr>"

lemma claimUpdate_rows:
  "t_deliveries (snd (claimUpdate env v did s)) = updWhere (claimable did) (assignRow env v) (t_deliveries s)"
  "fst (claimUpdate env v did s) = countWhere (claimable did) (t_deliveries s)"
  by (simp_all add: claimUpdate_def assignRow_def [abs_def])

lemma countWhere_0: "countWhere p xs = 0 \<longleftrightarrow> (\<forall>x \<in> set xs. \<not> p x)"
  by (auto simp: countWhere_def filter_empty_conv)

lemma not_claimable_after:
  "countWhere (claimable did) (updWhere (claimable did) (assignRow env v) ds) = 0"
proof -
  have "\<not> claimable did (if claimable did q then assignRow env v q else q)" for q
    by (simp add: claimable_def assignRow_def)
  then show ?thesis by (auto simp: countWhere_0 in_updWhere)
qed

lemma claim_lost:
  assumes "countWhere (claimable did) (t_deliveries s) = 0" and "claim env sid did s = (r, s')"
  shows "(\<exists>e. r = Inl e) \<and> t_deliveries s' = t_deliveries s \<and> t_users s' = t_users s"
proof -
  have "updWhere (claimable did) f (t_deliveries s) = t_deliveries s" for f
    using assms(1) by (intro updWhere_none) (simp add: countWhere_0)
  with assms show ?thesis
    by (auto simp: claim_def Let_def claimUpdate_def fail_eq_iff updDriver_def approveKyc_def
        split: sum.splits if_splits)
qed

lemma claim_won:
  assumes "claim env sid did s = (Inr dlv, s')"
  obtains user where "getUserBySupabase s sid = Some user" "u_role user = R_Driver"
    "\<not> u_isSuspended user" "countWhere (claimable did) (t_deliveries s) \<noteq> 0"
    "t_deliveries s' = updWhere (claimable did) (assignRow env (u_id user)) (t_deliveries s)"
    "getDelivery s' did = Some dlv"
proof -
  from assms obtain user drv where d: "assertDriver sid s = Inr (user, drv)"
    by (auto simp: claim_def fail_eq_iff split: sum.splits)
  note who = assertDriver_Inr [OF d]
  let ?s1 = "if dp_kycStatus drv \<noteq> K_Approved then approveKyc (dp_userId drv) s else s"
  let ?s2 = "snd (claimUpdate env (u_id user) did ?s1)"
  have rows: "t_deliveries ?s1 = t_deliveries s" by simp
  from assms d who(4) have ok: "\<not> u_isSuspended user" "fst (claimUpdate env (u_id user) did ?s1) \<noteq> 0"
    and run: "bindR (loadDelivery did ?s2) (\<lambda>dlv s3.
         let s4 = notifyDeliveryEvent (d_orderId dlv) did ''delivery_assigned'' True False s3
         in ok dlv (snd (ensureSellerDriverConversation env (d_orderId dlv) (u_id user) s4))) = (Inr dlv, s')"
    by (auto simp: claim_def Let_def split_beta fail_eq_iff split: if_splits)
  from run have l: "getDelivery ?s2 did = Some dlv" and ds: "t_deliveries s' = t_deliveries ?s2"
    by (auto simp: loadDelivery_def bindR_eq_iff fail_eq_iff ok_eq_iff Let_def split: option.splits)
  have "getDelivery s' did = Some dlv" using l ds by (simp add: getDelivery_def)
  moreover have "t_deliveries s' = updWhere (claimable did) (assignRow env (u_id user)) (t_deliveries s)"
    unfolding ds claimUpdate_rows rows ..
  ultimately show thesis
    using that who ok claimUpdate_rows(2) [of env "u_id user" did ?s1] rows by simp
qed

text \<open>Several drivers claim one delivery, one after the other in some order.\<close>

fun claims :: "id \<Rightarrow> (env \<times> id) list \<Rightarrow> db \<Rightarrow> (exn + delivery_row) list \<times> db" where
  "claims did [] s = ([], s)"
| "claims did ((env, sid) # cs) s =
    (let (r, s1) = claim env sid did s; (rs, s2) = claims did cs s1 in (r # rs, s2))"

definition won :: "exn + delivery_row \<Rightarrow> bool" where
  "won r \<longleftrightarrow> (case r of Inl _ \<Rightarrow> False | Inr _ \<Rightarrow> True)"

lemma claims_lost:
  assumes "countWhere (claimable did) (t_deliveries s) = 0"
  shows "list_all (\<lambda>r. \<not> won r) (fst (claims did cs s)) \<and>
    t_deliveries (snd (claims did cs s)) = t_deliveries s"
  using assms
proof (induction did cs s rule: claims.induct)
  case (2 did env sid cs s)
  obtain r s1 where c: "claim env sid did s = (r, s1)" by (cases "claim env sid did s")
  from claim_lost [OF "2.prems" c] have "\<not> won r" "t_deliveries s1 = t_deliveries s"
    by (auto simp: won_def)
  with "2.IH" [OF c [symmetric] refl] "2.prems" c show ?case by (simp add: split_beta)
qed simp

lemma claim_users: "t_users (snd (claim env sid did s)) = t_users s"
  by (simp add: claim_def Let_def split_beta claimUpdate_def loadDelivery_def snd_bindR
      split: sum.split option.split)

lemma claim_failed_rows:
  assumes "claim env sid did s = (Inl e, s')"
  shows "t_deliveries s' = t_deliveries s"
proof -
  have "getDelivery (snd (claimUpdate env v did x)) did \<noteq> None"
    if "fst (claimUpdate env v did x) \<noteq> 0" for v x
  proof -
    from that obtain d where "d \<in> set (t_deliveries x)" "d_id d = did"
      by (auto simp: claimUpdate_rows countWhere_0 claimable_def)
    moreover have "d_id (assignRow env v q) = d_id q" for q by (simp add: assignRow_def)
    ultimately show ?thesis
      by (auto simp: getDelivery_def claimUpdate_rows findRow_updWhere findRow_None_iff)
  qed
  moreover have same: "updWhere (claimable did) f ds = ds" if "countWhere (claimable did) ds = 0" for f ds
    using that by (intro updWhere_none) (simp add: countWhere_0)
  ultimately have gone: "\<forall>f. updWhere (claimable did) f (t_deliveries x) = t_deliveries x"
    if "getDelivery (snd (claimUpdate env v did x)) did = None" for v x
    using that by (metis claimUpdate_rows(2))
  show ?thesis
    using assms by (auto simp: claim_def Let_def split_beta fail_eq_iff loadDelivery_def
        claimUpdate_rows same split: sum.splits if_splits option.splits dest!: gone)
qed

text \<open>C6: However many drivers claim a delivery, and in whatever order their requests are served, at
  most one wins. The winner is a driver who is not suspended and had the delivery assigned to
  them by the one UPDATE that hit; no losing claim, before or after, changes a delivery.\<close>

theorem claim_one_winner:
  "let (rs, s') = claims did cs s in
    length (filter won rs) \<le> 1 \<and>
    (\<forall>dlv. Inr dlv \<in> set rs \<longrightarrow> getDelivery s' did = Some dlv \<and>
      (\<exists>env sid user. (env, sid) \<in> set cs \<and> getUserBySupabase s sid = Some user \<and>
        u_role user = R_Driver \<and> \<not> u_isSuspended user \<and>
        t_deliveries s' = updWhere (claimable did) (assignRow env (u_id user)) (t_deliveries s))) \<and>
    (list_all (\<lambda>r. \<not> won r) rs \<longrightarrow> t_deliveries s' = t_deliveries s)"
proof (induction did cs s rule: claims.induct)
  case (2 did env sid cs s)
  obtain r s1 where c: "claim env sid did s = (r, s1)" by (cases "claim env sid did s")
  obtain rs s2 where r: "claims did cs s1 = (rs, s2)" by (cases "claims did cs s1")
  have u: "getUserBySupabase s1 x = getUserBySupabase s x" for x
    using claim_users [of env sid did s] c by (simp add: getUserBySupabase_def)
  show ?case
  proof (cases r)
    case (Inl e)
    with claim_failed_rows [of env sid did s e s1] c have "t_deliveries s1 = t_deliveries s" by simp
    moreover have "\<not> won r" using Inl by (simp add: won_def)
    ultimately show ?thesis using "2.IH" [OF c [symmetric] refl] u
      by (simp add: c r Inl) blast
  next
    case (Inr dlv)
    from c have "claim env sid did s = (Inr dlv, s1)" by (simp add: Inr)
    then obtain user where w: "getUserBySupabase s sid = Some user" "u_role user = R_Driver"
      "\<not> u_isSuspended user"
      "t_deliveries s1 = updWhere (claimable did) (assignRow env (u_id user)) (t_deliveries s)"
      "getDelivery s1 did = Some dlv" by (rule claim_won)
    from claims_lost [of did s1 cs] w(4) r
    have l: "list_all (\<lambda>r. \<not> won r) rs" "t_deliveries s2 = t_deliveries s1"
      by (simp_all add: not_claimable_after)
    then have "filter won rs = []" "\<And>x. Inr x \<notin> set rs"
      by (auto simp: filter_empty_conv list_all_iff won_def)
    moreover have "getDelivery s2 did = Some dlv" using w(5) l(2) by (simp add: getDelivery_def)
    moreover have "won (Inr dlv)" by (simp add: won_def)
    ultimately show ?thesis using w l(2) by (simp add: c r Inr) blast
  qed
qed simp

theorem claim_one_winner_witness:
  "\<exists>dlv s'. claims ''d'' [(demo_env, ''sb''), (demo_env, ''vb''), (demo_env, ''vb'')]
      (delivery_db O_Ready D_Searching None) =
        ([Inl (Forbidden (Driver OnlyDrivers)), Inr dlv, Inl (Conflict (Driver DeliveryNoLongerAvailable))], s') \<and>
    getDelivery s' ''d'' = Some dlv \<and> d_driverId dlv = Some ''v''"
proof -
  let ?s = "delivery_db O_Ready D_Searching None"
  let ?cs = "[(demo_env, ''sb''), (demo_env, ''vb''), (demo_env, ''vb'')]"
  have "map (case_sum (\<lambda>e. e) (\<lambda>dlv. UncaughtError)) (fst (claims ''d'' ?cs ?s)) =
      [Forbidden (Driver OnlyDrivers), UncaughtError, Conflict (Driver DeliveryNoLongerAvailable)] \<and>
    map (case_sum (\<lambda>e. None) (\<lambda>dlv. d_driverId dlv)) (fst (claims ''d'' ?cs ?s)) = [None, Some ''v'', None]"
    by code_simp
  then obtain dlv where r: "fst (claims ''d'' ?cs ?s) =
      [Inl (Forbidden (Driver OnlyDrivers)), Inr dlv, Inl (Conflict (Driver DeliveryNoLongerAvailable))]"
    and v: "d_driverId dlv = Some ''v''"
    by (auto split: sum.splits)
  then obtain s' where run: "claims ''d'' ?cs ?s = ([Inl (Forbidden (Driver OnlyDrivers)), Inr dlv,
      Inl (Conflict (Driver DeliveryNoLongerAvailable))], s')" by (cases "claims ''d'' ?cs ?s") auto
  from claim_one_winner [of "''d''" ?cs ?s] run have "getDelivery s' ''d'' = Some dlv" by simp
  with run v show ?thesis by blast
qed

subsection \<open>The two scans\<close>

lemma loadAsDriver_Inr:
  assumes "loadAsDriver sid did s = Inr (v, dlv)"
  shows "getDelivery s did = Some dlv" and "d_driverId dlv = Some v"
    and "\<exists>user. getUserBySupabase s sid = Some user \<and> u_role user = R_Driver \<and> u_id user = v"
proof -
  from assms obtain user drv where a: "assertDriver sid s = Inr (user, drv)"
    and l: "loadDeliveryForDriver did (dp_userId drv) s = Inr dlv" and v: "dp_userId drv = v"
    by (auto simp: loadAsDriver_def split: sum.splits)
  from l v show "getDelivery s did = Some dlv" "d_driverId dlv = Some v"
    by (auto simp: loadDeliveryForDriver_def split: option.splits if_splits)
  from assertDriver_Inr [OF a] v
  show "\<exists>user. getUserBySupabase s sid = Some user \<and> u_role user = R_Driver \<and> u_id user = v" by metis
qed

lemma getDelivery_id: "getDelivery s i = Some d \<Longrightarrow> d_id d = i"
  by (rule del.get_key)

lemma loadDelivery_Inr: "loadDelivery did s = (Inr d, s') \<longleftrightarrow> s' = s \<and> getDelivery s did = Some d"
  by (auto simp: loadDelivery_def split: option.splits)

lemma pickedUpRow_id [simp]: "d_id (pickedUpRow env v dto d) = d_id d"
  by (simp add: pickedUpRow_def)

lemma deliveredRow_id [simp]: "d_id (deliveredRow env v pt d) = d_id d"
  by (simp add: deliveredRow_def)

lemma timers_driver:
  "(driverDeliveryKey did, e_driverDeliveryMinutes env * 60000) \<in> set (timers (scheduleDriverDeliveryTimeout env did s))"
  by (simp add: scheduleDriverDeliveryTimeout_def Let_def enqueueTimerJob_def emit_def armTimer_def)

text \<open>The pickup scan: it succeeds only for the driver the delivery is assigned to, before any
  pickup, with the delivery's own non-empty pickup token. It marks the food picked up, moves
  the order to IN_DELIVERY, mints the buyer's token and arms the delivery watchdog, and no
  second scan of the delivery by that driver succeeds.\<close>

theorem pickup_scan_effect:
  assumes "confirmDriverPickup env sid did dto s = (Inr dlv', s')"
  shows "\<exists>v dlv. getDelivery s did = Some dlv \<and> d_driverId dlv = Some v \<and>
    (\<exists>user. getUserBySupabase s sid = Some user \<and> u_role user = R_Driver \<and> u_id user = v) \<and>
    d_pickupConfirmedAt dlv = None \<and> d_status dlv \<in> {D_Assigned, D_EnRouteToPickup, D_AtPickup} \<and>
    d_pickupToken dlv = Some (sc_token dto) \<and> sc_token dto \<noteq> [] \<and>
    dlv' = pickedUpRow env v dto dlv \<and> getDelivery s' did = Some dlv' \<and>
    map_option o_status (getOrder s' (d_orderId dlv)) = map_option (\<lambda>_. O_InDelivery) (getOrder s (d_orderId dlv)) \<and>
    t_wallet s' = t_wallet s \<and>
    (driverDeliveryKey did, e_driverDeliveryMinutes env * 60000) \<in> set (timers s') \<and>
    (\<forall>dto'. pickupScanCheck dto' dlv' = Some (Conflict (Driver PickupAlreadyScanned)))"
proof -
  from assms obtain v dlv where l: "loadAsDriver sid did s = Inr (v, dlv)" and chk: "pickupScanCheck dto dlv = None"
    by (auto simp: confirmDriverPickup_def fail_eq_iff split: sum.splits option.splits)
  note who = loadAsDriver_Inr [OF l]
  let ?t = "notifyDeliveryEvent (d_orderId dlv) did ''order_picked_up'' True True
     (publishOrderStatusChanged (d_orderId dlv) O_InDelivery
       (updOrder (d_orderId dlv) (\<lambda>r. r\<lparr>o_status := O_InDelivery\<rparr>)
         (updDelivery did (pickedUpRow env v dto) s)))"
  from assms l chk have s': "s' = scheduleDriverDeliveryTimeout env did ?t" and g: "getDelivery s' did = Some dlv'"
    by (simp_all add: confirmDriverPickup_def Let_def loadDelivery_Inr)
  have dlv': "dlv' = pickedUpRow env v dto dlv"
    using g who(1) by (simp add: s' del.get_put)
  have c: "d_pickupConfirmedAt dlv = None" "d_status dlv \<in> {D_Assigned, D_EnRouteToPickup, D_AtPickup}"
      "d_pickupToken dlv = Some (sc_token dto)" "sc_token dto \<noteq> []"
    using chk by (auto simp: pickupScanCheck_def PRE_PICKUP_def truthy_def split: if_splits option.splits)
  have st: "map_option o_status (getOrder s' (d_orderId dlv)) =
      map_option (\<lambda>_. O_InDelivery) (getOrder s (d_orderId dlv))"
    by (simp add: s' ord.get_put option.map_comp o_def)
  have w: "t_wallet s' = t_wallet s" by (simp add: s')
  have again: "\<forall>dto'. pickupScanCheck dto' dlv' = Some (Conflict (Driver PickupAlreadyScanned))"
    by (simp add: dlv' pickupScanCheck_def pickedUpRow_def)
  have t: "(driverDeliveryKey did, e_driverDeliveryMinutes env * 60000) \<in> set (timers s')"
    unfolding s' by (rule timers_driver)
  show ?thesis
    by (intro exI [of _ v] exI [of _ dlv] conjI who c dlv' g st w t again)
qed

definition scan :: "string \<Rightarrow> scan_dto" where
  "scan tok = \<lparr>sc_token = tok, sc_lat = None, sc_lng = None\<rparr>"

theorem pickup_scan_effect_witness:
  "\<exists>dlv' s'. confirmDriverPickup demo_env ''vb'' ''d'' (scan ''tok'') (delivery_db O_Ready D_Assigned (Some ''v'')) = (Inr dlv', s') \<and>
    t_wallet s' = [] \<and> d_status dlv' = D_PickedUp"
proof -
  let ?run = "confirmDriverPickup demo_env ''vb'' ''d'' (scan ''tok'') (delivery_db O_Ready D_Assigned (Some ''v''))"
  have "case fst ?run of Inl _ \<Rightarrow> False | Inr r \<Rightarrow> True" by code_simp
  then obtain dlv' s' where run: "?run = (Inr dlv', s')" by (cases ?run) (auto split: sum.splits)
  have "t_wallet (delivery_db O_Ready D_Assigned (Some ''v'')) = []" by code_simp
  with run pickup_scan_effect [OF run] show ?thesis by (auto simp: pickedUpRow_def)
qed

lemma deliverOrder_get:
  "getOrder (deliverOrder oid s) oid = map_option (\<lambda>r. r\<lparr>o_status := O_Delivered\<rparr>) (getOrder s oid)"
  by (simp add: deliverOrder_def ord.get_put)

lemma deliverOrder_frames [simp]:
  "t_deliveries (deliverOrder oid s) = t_deliveries s" "t_wallet (deliverOrder oid s) = t_wallet s"
  "getDelivery (deliverOrder oid s) = getDelivery s"
  by (simp_all add: deliverOrder_def)

lemma latestDelivered_cong: "t_deliveries s = t_deliveries t \<Longrightarrow> latestDelivered s = latestDelivered t"
  by (simp add: latestDelivered_def fun_eq_iff)

lemma confirmDeliveredByDriver_Inr:
  assumes "confirmDeliveredByDriver env oid s = (Inr ord', s')"
  obtains ord where "getOrder s oid = Some ord" "o_fulfillmentChoice ord = F_Delivery"
    "getOrder s' oid = Some (ord\<lparr>o_status := O_Delivered\<rparr>)" "t_deliveries s' = t_deliveries s"
    "t_wallet s' = snd (createManySkip (creditRows env (ord\<lparr>o_status := O_Delivered\<rparr>) (latestDelivered s oid)) (t_wallet s))"
proof -
  from assms obtain ord where o: "getOrder s oid = Some ord" "o_fulfillmentChoice ord = F_Delivery"
    by (auto simp: confirmDeliveredByDriver_def fail_eq_iff split: option.splits if_splits)
  let ?s1 = "if o_status ord \<noteq> O_Delivered then deliverOrder oid s else s"
  have g: "getOrder ?s1 oid = Some (ord\<lparr>o_status := O_Delivered\<rparr>)"
    using o(1) by (auto simp: deliverOrder_get)
  have d: "t_deliveries ?s1 = t_deliveries s" "t_wallet ?s1 = t_wallet s" by simp_all
  have s': "s' = creditForCompletedOrder env oid ?s1"
    using assms o by (auto simp: confirmDeliveredByDriver_def findOrderWithRelations_def Let_def
        releaseFundsForCompletedOrder_def fail_eq_iff split: option.splits if_splits)
  show thesis
  proof (rule that [OF o])
    show "getOrder s' oid = Some (ord\<lparr>o_status := O_Delivered\<rparr>)" using g by (simp add: s')
    show "t_deliveries s' = t_deliveries s" using d by (simp add: s' del: if_split)
    show "t_wallet s' = snd (createManySkip (creditRows env (ord\<lparr>o_status := O_Delivered\<rparr>) (latestDelivered s oid)) (t_wallet s))"
      using g d latestDelivered_cong [OF d(1)] by (simp add: s' creditForCompletedOrder_def del: if_split)
  qed
qed

text \<open>C32: The drop-off scan: it succeeds only for the assigned driver, after the pickup, with the
  buyer's non-empty token. It marks delivery and order DELIVERED and books exactly the order's
  credits that the ledger does not hold yet; the same delivery cannot be confirmed twice.
  Whatever status the order had, CANCELLED and REFUNDED included, is overwritten.\<close>

theorem delivery_scan_effect:
  assumes "confirmDelivery env sid did dto s = (Inr dlv', s')"
  shows "\<exists>v dlv ord. getDelivery s did = Some dlv \<and> d_driverId dlv = Some v \<and>
    (\<exists>user. getUserBySupabase s sid = Some user \<and> u_role user = R_Driver \<and> u_id user = v) \<and>
    d_deliveredConfirmedAt dlv = None \<and> d_status dlv \<in> {D_PickedUp, D_EnRouteToDropoff, D_AtDropoff} \<and>
    d_deliveryToken dlv = Some (sc_token dto) \<and> sc_token dto \<noteq> [] \<and>
    dlv' = deliveredRow env v (sc_lng dto, sc_lat dto) dlv \<and> getDelivery s' did = Some dlv' \<and>
    getOrder s (d_orderId dlv) = Some ord \<and> o_fulfillmentChoice ord = F_Delivery \<and>
    getOrder s' (d_orderId dlv) = Some (ord\<lparr>o_status := O_Delivered\<rparr>) \<and>
    t_wallet s' = snd (createManySkip (creditRows env (ord\<lparr>o_status := O_Delivered\<rparr>)
      (latestDelivered s' (d_orderId dlv))) (t_wallet s)) \<and>
    (\<forall>dto'. deliveryScanCheck dto' dlv' = Some (Conflict (Driver DeliveryAlreadyConfirmed)))"
proof -
  from assms obtain v dlv where l: "loadAsDriver sid did s = Inr (v, dlv)" and chk: "deliveryScanCheck dto dlv = None"
    by (auto simp: confirmDelivery_def fail_eq_iff split: sum.splits option.splits)
  note who = loadAsDriver_Inr [OF l]
  let ?oid = "d_orderId dlv"
  let ?s1 = "updDelivery did (deliveredRow env v (sc_lng dto, sc_lat dto)) s"
  from assms l chk obtain x s2 where cd: "confirmDeliveredByDriver env ?oid ?s1 = (Inr x, s2)"
    and s': "s' = sendToUsers [v] ''delivery_completed'' did (notifyDeliveryEvent ?oid did ''delivery_completed'' True True s2)"
    and g: "getDelivery s' did = Some dlv'"
    by (auto simp: confirmDelivery_def Let_def bindR_Inr_iff loadDelivery_Inr)
  from cd obtain ord where o: "getOrder s ?oid = Some ord" "o_fulfillmentChoice ord = F_Delivery"
    "getOrder s2 ?oid = Some (ord\<lparr>o_status := O_Delivered\<rparr>)" "t_deliveries s2 = t_deliveries ?s1"
    and w2: "t_wallet s2 = snd (createManySkip (creditRows env (ord\<lparr>o_status := O_Delivered\<rparr>) (latestDelivered ?s1 ?oid)) (t_wallet s))"
    by (rule confirmDeliveredByDriver_Inr) simp
  have ds: "t_deliveries s' = t_deliveries ?s1" using o(4) by (simp add: s')
  have "getDelivery s' did = getDelivery ?s1 did" using ds by (simp add: getDelivery_def)
  with g who(1) have dlv': "dlv' = deliveredRow env v (sc_lng dto, sc_lat dto) dlv"
    by (simp add: del.get_put)
  have c: "d_deliveredConfirmedAt dlv = None" "d_status dlv \<in> {D_PickedUp, D_EnRouteToDropoff, D_AtDropoff}"
      "d_deliveryToken dlv = Some (sc_token dto)" "sc_token dto \<noteq> []"
    using chk by (auto simp: deliveryScanCheck_def outForDeliveryCheck_def OUT_FOR_DELIVERY_def truthy_def
        split: if_splits option.splits)
  have st: "getOrder s' ?oid = Some (ord\<lparr>o_status := O_Delivered\<rparr>)" using o(3) by (simp add: s')
  have w: "t_wallet s' = snd (createManySkip (creditRows env (ord\<lparr>o_status := O_Delivered\<rparr>)
      (latestDelivered s' ?oid)) (t_wallet s))"
    using w2 latestDelivered_cong [OF ds] by (simp add: s')
  have again: "\<forall>dto'. deliveryScanCheck dto' dlv' = Some (Conflict (Driver DeliveryAlreadyConfirmed))"
    by (simp add: dlv' deliveryScanCheck_def outForDeliveryCheck_def deliveredRow_def)
  show ?thesis
    by (intro exI [of _ v] exI [of _ dlv] exI [of _ ord] conjI who c dlv' g o(1,2) st w again)
qed

theorem delivery_scan_effect_witness:
  "\<exists>dlv' s'. confirmDelivery demo_env ''vb'' ''d'' (scan ''t2'') (updDelivery ''d'' (\<lambda>d. d\<lparr>d_deliveryToken := Some ''t2''\<rparr>)
      (delivery_db O_Cancelled D_PickedUp (Some ''v''))) = (Inr dlv', s') \<and>
    map_option o_status (getOrder s' ''o'') = Some O_Delivered"
proof -
  let ?s = "updDelivery ''d'' (\<lambda>d. d\<lparr>d_deliveryToken := Some ''t2''\<rparr>) (delivery_db O_Cancelled D_PickedUp (Some ''v''))"
  let ?run = "confirmDelivery demo_env ''vb'' ''d'' (scan ''t2'') ?s"
  have "case fst ?run of Inl _ \<Rightarrow> False | Inr r \<Rightarrow> True" by code_simp
  then obtain dlv' s' where run: "?run = (Inr dlv', s')" by (cases ?run) (auto split: sum.splits)
  have "map_option d_orderId (getDelivery ?s ''d'') = Some ''o''" by code_simp
  with run delivery_scan_effect [OF run] show ?thesis by auto
qed

subsection \<open>The offered page\<close>

text \<open>The page of offered jobs is not nearest first: of the two nearest jobs it fetches to fill a
  page of one, the driver is shown the older of the two. A nearest job that is newer than the
  second nearest is on no page, although the page says there are more.\<close>

theorem nearest_job_hidden:
  assumes "assertDriver sid s = Inr (user, drv)"
    and "eligibleJobs gap (Option.bind (getDriver s (dp_userId drv)) dp_lastKnownPoint) s = near # second # rest"
    and "t_deliveries s = xs @ second # ys @ near # zs" and "distinct (map d_id (t_deliveries s))"
  shows "listAvailable gap sid 1 0 s = Inr ([(second, loadDeliveryEnrichment s second)], True) \<and>
    (rest = [] \<longrightarrow> listAvailable gap sid 1 1 s = Inr ([(second, loadDeliveryEnrichment s second)], False))"
proof -
  have d: "d_id second \<noteq> d_id near" "\<And>x. x \<in> set (xs @ ys @ zs) \<Longrightarrow> d_id x \<noteq> d_id near \<and> d_id x \<noteq> d_id second"
    using assms(3,4) by (auto simp: rev_image_eqI)
  have out: "filter (\<lambda>x. d_id x = d_id near \<or> d_id x = d_id second) ls = []"
    "filter (\<lambda>x. d_id x = d_id second) ls = []" if "set ls \<subseteq> set (xs @ ys @ zs)" for ls
    using d(2) that by (auto simp: filter_empty_conv)
  have sub: "set xs \<subseteq> set (xs @ ys @ zs)" "set ys \<subseteq> set (xs @ ys @ zs)" "set zs \<subseteq> set (xs @ ys @ zs)"
    by auto
  have two: "filter (\<lambda>x. d_id x = d_id near \<or> d_id x = d_id second) (t_deliveries s) = [second, near]"
    "filter (\<lambda>x. d_id x = d_id second) (t_deliveries s) = [second]"
    using d(1) out [OF sub(1)] out [OF sub(2)] out [OF sub(3)] by (auto simp: assms(3))
  show ?thesis using assms(1,2) two d(1) by (simp add: listAvailable_def Let_def numeral_2_eq_2)
qed

definition two_jobs_db :: db where
  "two_jobs_db = (delivery_db O_Ready D_Searching None)\<lparr>
    t_sellers := t_sellers payout_db @ map (\<lambda>p. p\<lparr>sp_userId := ''t'', sp_location := Some (JNum 1, JNum 1)\<rparr>)
      (t_sellers payout_db),
    t_drivers := map (\<lambda>d. d\<lparr>dp_lastKnownPoint := Some (JNum 1, JNum 1)\<rparr>) (t_drivers shop_db),
    t_orders := [demo_order ''o'' O_Ready F_Delivery, (demo_order ''p'' O_Ready F_Delivery)\<lparr>o_sellerId := ''t''\<rparr>],
    t_deliveries := [demo_delivery D_Searching None,
      (demo_delivery D_Searching None)\<lparr>d_id := ''e'', d_orderId := ''p''\<rparr>]\<rparr>"

theorem nearest_job_hidden_witness:
  "\<exists>e. listAvailable (\<lambda>_ _. 0) ''vb'' 1 0 two_jobs_db = Inr ([(demo_delivery D_Searching None, e)], True)"
proof -
  let ?a = "demo_delivery D_Searching None"
  let ?b = "?a\<lparr>d_id := ''e'', d_orderId := ''p''\<rparr>"
  have "case assertDriver ''vb'' two_jobs_db of Inl _ \<Rightarrow> False | Inr (u, d) \<Rightarrow> dp_userId d = ''v''" by code_simp
  then obtain u d where a: "assertDriver ''vb'' two_jobs_db = Inr (u, d)" "dp_userId d = ''v''"
    by (auto split: sum.splits)
  have "eligibleJobs (\<lambda>_ _. 0) (Option.bind (getDriver two_jobs_db ''v'') dp_lastKnownPoint) two_jobs_db = [?b, ?a]"
    by code_simp
  with a have e: "eligibleJobs (\<lambda>_ _. 0) (Option.bind (getDriver two_jobs_db (dp_userId d)) dp_lastKnownPoint)
      two_jobs_db = ?b # ?a # []" by simp
  have t: "t_deliveries two_jobs_db = [] @ ?a # [] @ ?b # []" by (simp add: two_jobs_db_def)
  have "distinct (map d_id (t_deliveries two_jobs_db))" by code_simp
  from nearest_job_hidden [OF a(1) e t this] show ?thesis by simp
qed

end
