(* ===== verification/StripeWebhook.thy ===== *)
theory StripeWebhook
  imports Orders_Lifecycle
begin

section \<open>Stripe events\<close>

text \<open>
  \<open>src/modules/payments/webhooks/stripe-webhook-handler.service.ts\<close>. Stripe reports payments,
  subscriptions, chargebacks and account changes, possibly several times. The records below
  hold the fields of the event objects the handler reads; the signature check and the parsing
  are the controller's and Stripe's. A retrieved subscription is a parameter.
\<close>

record payment_intent =
  pi_id :: id
  pi_metaType :: "string option"
  pi_metaOrderId :: "id option"
  pi_metaCatalogOrderId :: "id option"
  pi_lastErrorMessage :: "string option"
  pi_cancellationReason :: "string option"

record stripe_subscription =
  su_id :: id
  su_status :: string
  su_metaUserId :: "id option"
  su_customerId :: "id option"
  su_currentPeriodEnd :: "int option"

record stripe_dispute =
  sd_id :: id
  sd_paymentIntentId :: "id option"
  sd_metaOrderId :: "id option"
  sd_amount :: int
  sd_currency :: string
  sd_reason :: string
  sd_status :: string
  sd_evidenceDueBy :: "int option"

record stripe_account =
  ac_id :: id
  ac_chargesEnabled :: bool
  ac_payoutsEnabled :: bool
  ac_detailsSubmitted :: bool
  ac_metaRole :: "user_role option"

record checkout_session =
  cs_isSubscriptionMode :: bool
  cs_subscriptionId :: "id option"

datatype stripe_event =
  AccountUpdated stripe_account
  | PaymentIntentSucceeded payment_intent
  | PaymentIntentFailed payment_intent
  | PaymentIntentCanceled payment_intent
  | CheckoutCompleted checkout_session
  | SubscriptionChanged stripe_subscription
  | InvoicePaymentFailed "id option"
  | ChargeDispute stripe_dispute
  | OtherEvent

subsection \<open>Finding the order\<close>

definition orderByPaymentIntent :: "id \<Rightarrow> db \<Rightarrow> order_row option" where
  "orderByPaymentIntent pid s = List.find (\<lambda>r. o_stripePaymentIntentId r = Some pid) (t_orders s)"

definition findOrderForPaymentIntent :: "payment_intent \<Rightarrow> db \<Rightarrow> order_row option" where
  "findOrderForPaymentIntent evt s =
    (case (if truthy (pi_metaOrderId evt) then getOrder s (the (pi_metaOrderId evt)) else None) of
       Some ord \<Rightarrow> Some ord
     | None \<Rightarrow> orderByPaymentIntent (pi_id evt) s)"

definition findOrderForDispute :: "stripe_dispute \<Rightarrow> db \<Rightarrow> order_row option" where
  "findOrderForDispute d s =
    (case (if truthy (sd_paymentIntentId d) then orderByPaymentIntent (the (sd_paymentIntentId d)) s
           else None) of
       Some ord \<Rightarrow> Some ord
     | None \<Rightarrow>
         if truthy (sd_metaOrderId d) then getOrder s (the (sd_metaOrderId d)) else None)"

subsection \<open>Payments\<close>

definition isCatalog :: "payment_intent \<Rightarrow> bool" where
  "isCatalog evt \<longleftrightarrow> pi_metaType evt = Some ''catalog_order''"

definition catalogOrderIdFor :: "payment_intent \<Rightarrow> db \<Rightarrow> id option" where
  "catalogOrderIdFor evt s =
    (if truthy (pi_metaCatalogOrderId evt) then pi_metaCatalogOrderId evt
     else map_option co_id
       (List.find (\<lambda>c. co_stripePaymentIntentId c = Some (pi_id evt)) (t_catalogOrders s)))"

definition markCatalogOrderPaid :: "env \<Rightarrow> payment_intent \<Rightarrow> db \<Rightarrow> db" where
  "markCatalogOrderPaid env evt s =
    (case catalogOrderIdFor evt s of None \<Rightarrow> s | Some i \<Rightarrow>
     s\<lparr>t_catalogOrders := updWhere (\<lambda>c. co_id c = i \<and> co_status c = CO_Pending)
        (\<lambda>c. c\<lparr>co_status := CO_Paid, co_paidAt := Some (e_now env),
               co_stripePaymentIntentId := Some (pi_id evt)\<rparr>) (t_catalogOrders s)\<rparr>)"

definition markCatalogOrderFailed :: "payment_intent \<Rightarrow> db \<Rightarrow> db" where
  "markCatalogOrderFailed evt s =
    (case catalogOrderIdFor evt s of None \<Rightarrow> s | Some i \<Rightarrow>
     s\<lparr>t_catalogOrders := updWhere (\<lambda>c. co_id c = i \<and> co_status c = CO_Pending)
        (\<lambda>c. c\<lparr>co_status := CO_Failed\<rparr>) (t_catalogOrders s)\<rparr>)"

text \<open>The stored payment id wins; the event's is written only where there is none.\<close>

definition backfillPi :: "id \<Rightarrow> order_row \<Rightarrow> order_row" where
  "backfillPi pid r =
    (if truthy (o_stripePaymentIntentId r) then r else r\<lparr>o_stripePaymentIntentId := Some pid\<rparr>)"

definition handlePaymentIntentSucceeded :: "env \<Rightarrow> payment_intent \<Rightarrow> db \<Rightarrow> db" where
  "handlePaymentIntentSucceeded env evt s =
    (if isCatalog evt then markCatalogOrderPaid env evt s
     else case findOrderForPaymentIntent evt s of None \<Rightarrow> s | Some ord \<Rightarrow>
       if o_status ord \<noteq> O_Pending then s
       else
         let s1 = updOrder (o_id ord) (\<lambda>r. backfillPi (pi_id evt)
               (r\<lparr>o_status := O_Confirmed, o_confirmedAt := Some (e_now env)\<rparr>)) s;
             s2 = publishOrderStatusChanged (o_id ord) O_Confirmed s1
         in notifyOrderPaid (o_sellerId ord) (o_id ord) s2)"

definition failureReason :: "payment_intent \<Rightarrow> string" where
  "failureReason evt =
    (case orElse (pi_lastErrorMessage evt) (pi_cancellationReason evt) of
       None \<Rightarrow> ''payment_failed'' | Some why \<Rightarrow> why)"

text \<open>
  The transaction reads the order again and does nothing when it is no longer PENDING; the
  status is published either way.
\<close>

definition paymentFailedTx :: "env \<Rightarrow> payment_intent \<Rightarrow> id \<Rightarrow> db \<Rightarrow> db" where
  "paymentFailedTx env evt oid s =
    (case getOrder s oid of
       None \<Rightarrow> s
     | Some fresh \<Rightarrow>
         if o_status fresh \<noteq> O_Pending then s
         else updOrder oid (\<lambda>r. backfillPi (pi_id evt) (cancelRow (e_now env) (failureReason evt) r))
                (restock fresh s))"

definition handlePaymentIntentFailed :: "env \<Rightarrow> payment_intent \<Rightarrow> db \<Rightarrow> db" where
  "handlePaymentIntentFailed env evt s =
    (if isCatalog evt then markCatalogOrderFailed evt s
     else case findOrderForPaymentIntent evt s of None \<Rightarrow> s | Some ord \<Rightarrow>
       if o_status ord = O_Cancelled then s
       else if o_status ord \<noteq> O_Pending then s
       else publishOrderStatusChanged (o_id ord) O_Cancelled (paymentFailedTx env evt (o_id ord) s))"

subsection \<open>Chargebacks\<close>

definition chargeMeta :: "stripe_dispute \<Rightarrow> charge_meta" where
  "chargeMeta d = \<lparr>cm_amount = sd_amount d, cm_currency = sd_currency d, cm_reason = sd_reason d,
     cm_stripeStatus = sd_status d,
     cm_evidenceDueBy = (case sd_evidenceDueBy d of None \<Rightarrow> None
       | Some t \<Rightarrow> if t = 0 then None else Some (t * 1000))\<rparr>"

definition handleChargeDispute :: "env \<Rightarrow> stripe_dispute \<Rightarrow> db \<Rightarrow> db" where
  "handleChargeDispute env d s =
    (case findOrderForDispute d s of None \<Rightarrow> s | Some ord \<Rightarrow>
     (case List.find (\<lambda>x. dis_stripeDisputeId x = Some (sd_id d)) (t_disputes s) of
        Some existing \<Rightarrow>
          updDispute (dis_id existing) (\<lambda>x. x\<lparr>dis_metadata := Some (chargeMeta d)\<rparr>) s
      | None \<Rightarrow>
          s\<lparr>t_disputes := t_disputes s @
            [\<lparr>dis_id = e_ulid env ForDispute, dis_orderId = o_id ord, dis_buyerId = o_buyerId ord,
              dis_sellerId = o_sellerId ord, dis_deliveryId = None, dis_type = DT_Chargeback,
              dis_status = DS_AdminReview,
              dis_description = Some (''Chargeback Stripe ('' @ sd_reason d @ '')''),
              dis_photoUrls = None, dis_proofFileUrls = None, dis_refundRequested = False,
              dis_refundApproved = False, dis_refundAmountCents = None, dis_adminNotes = None,
              dis_stripeDisputeId = Some (sd_id d), dis_metadata = Some (chargeMeta d),
              dis_resolvedAt = None\<rparr>]\<rparr>))"

subsection \<open>Subscriptions\<close>

definition subscriptionOwner :: "stripe_subscription \<Rightarrow> db \<Rightarrow> id option" where
  "subscriptionOwner sub s =
    (case (if truthy (su_metaUserId sub) then getSeller s (the (su_metaUserId sub)) else None) of
       Some sp \<Rightarrow> Some (sp_userId sp)
     | None \<Rightarrow>
         if truthy (su_customerId sub)
         then map_option u_id (List.find (\<lambda>u. u_stripeCustomerId u = su_customerId sub \<and>
                u_deletedAt u = None \<and> getSeller s (u_id u) \<noteq> None) (t_users s))
         else None)"

definition applySubscriptionState :: "stripe_subscription \<Rightarrow> db \<Rightarrow> db" where
  "applySubscriptionState sub s =
    (case subscriptionOwner sub s of None \<Rightarrow> s | Some owner \<Rightarrow>
     updSeller owner (\<lambda>p. p\<lparr>sp_stripeSubscriptionId := Some (su_id sub),
       sp_subscriptionStatus := subscriptionStatusFromStripe (su_status sub),
       sp_subscriptionCurrentPeriodEnd := (case su_currentPeriodEnd sub of None \<Rightarrow> None
         | Some t \<Rightarrow> if t = 0 then None else Some (t * 1000))\<rparr>) s)"

text \<open>\<open>retrieve\<close> is Stripe's answer for a subscription id; a failed call throws.\<close>

definition refreshSubscription :: "(id \<Rightarrow> stripe_subscription option) \<Rightarrow> id option \<Rightarrow> db
    \<Rightarrow> (exn, unit, db) result" where
  "refreshSubscription retrieve subId s =
    (if \<not> truthy subId then ok () s
     else case retrieve (the subId) of
         None \<Rightarrow> fail UncaughtError s
       | Some sub \<Rightarrow> ok () (applySubscriptionState sub s))"

definition handleCheckoutCompleted :: "(id \<Rightarrow> stripe_subscription option) \<Rightarrow> checkout_session \<Rightarrow> db
    \<Rightarrow> (exn, unit, db) result" where
  "handleCheckoutCompleted retrieve session s =
    (if \<not> cs_isSubscriptionMode session then ok () s
     else refreshSubscription retrieve (cs_subscriptionId session) s)"

subsection \<open>Connect accounts\<close>

definition updateSellerOnboarding :: "id \<Rightarrow> bool \<Rightarrow> db \<Rightarrow> db" where
  "updateSellerOnboarding acct completed s = s\<lparr>t_sellers :=
     updWhere (\<lambda>p. sp_stripeConnectAccountId p = Some acct)
       (\<lambda>p. p\<lparr>sp_stripeOnboardingCompleted := completed\<rparr>) (t_sellers s)\<rparr>"

definition updateDriverOnboarding :: "id \<Rightarrow> bool \<Rightarrow> db \<Rightarrow> db" where
  "updateDriverOnboarding acct completed s = s\<lparr>t_drivers :=
     updWhere (\<lambda>d. dp_stripeConnectAccountId d = Some acct)
       (\<lambda>d. d\<lparr>dp_stripeOnboardingCompleted := completed\<rparr>) (t_drivers s)\<rparr>"

definition handleAccountUpdated :: "stripe_account \<Rightarrow> db \<Rightarrow> db" where
  "handleAccountUpdated a s =
    (let completed = ac_chargesEnabled a \<and> ac_payoutsEnabled a \<and> ac_detailsSubmitted a
     in if ac_metaRole a = Some R_Seller then updateSellerOnboarding (ac_id a) completed s
     else if ac_metaRole a = Some R_Driver then updateDriverOnboarding (ac_id a) completed s
     else if list_ex (\<lambda>p. sp_stripeConnectAccountId p = Some (ac_id a)) (t_sellers s)
     then updateSellerOnboarding (ac_id a) completed s
     else if list_ex (\<lambda>d. dp_stripeConnectAccountId d = Some (ac_id a)) (t_drivers s)
     then updateDriverOnboarding (ac_id a) completed s
     else s)"

subsection \<open>Dispatch\<close>

fun handleEvent :: "env \<Rightarrow> (id \<Rightarrow> stripe_subscription option) \<Rightarrow> stripe_event \<Rightarrow> db
    \<Rightarrow> (exn, unit, db) result" where
  "handleEvent env retrieve (AccountUpdated a) s = ok () (handleAccountUpdated a s)"
| "handleEvent env retrieve (PaymentIntentSucceeded evt) s =
     ok () (handlePaymentIntentSucceeded env evt s)"
| "handleEvent env retrieve (PaymentIntentFailed evt) s = ok () (handlePaymentIntentFailed env evt s)"
| "handleEvent env retrieve (PaymentIntentCanceled evt) s = ok () (handlePaymentIntentFailed env evt s)"
| "handleEvent env retrieve (CheckoutCompleted cs) s = handleCheckoutCompleted retrieve cs s"
| "handleEvent env retrieve (SubscriptionChanged sub) s = ok () (applySubscriptionState sub s)"
| "handleEvent env retrieve (InvoicePaymentFailed subId) s = refreshSubscription retrieve subId s"
| "handleEvent env retrieve (ChargeDispute d) s = ok () (handleChargeDispute env d s)"
| "handleEvent env retrieve OtherEvent s = ok () s"

subsection \<open>Repeated and late payment events\<close>

text \<open>
  The first row a search finds keeps the property it was found by when the update of all rows
  of its key keeps that property: the search then ends at a row of the same key.
\<close>

lemma find_updWhere_key:
  assumes "List.find P rows = Some r" and "\<And>q. p q \<longleftrightarrow> key q = key r \<and> g q"
    and "\<And>q. key (f q) = key q" and "\<And>q. P q \<Longrightarrow> P (f q)"
  shows "\<exists>q \<in> set rows. List.find P (updWhere p f rows) = Some (if p q then f q else q) \<and> key q = key r"
  using assms(1)
proof (induction rows)
  case (Cons x rows)
  show ?case
  proof (cases "P (if p x then f x else x)")
    case True
    have "key x = key r"
    proof (cases "P x")
      case False
      with True have "p x" by (auto split: if_splits)
      then show ?thesis by (simp add: assms(2))
    next
      case True
      with Cons.prems show ?thesis by simp
    qed
    with True show ?thesis by (intro bexI [of _ x]) (simp_all add: updWhere_def)
  next
    case False
    then have "\<not> P x" using assms(4) by (auto split: if_splits)
    with Cons False show ?thesis by (auto simp: updWhere_def)
  qed
qed simp

lemma updRow_updWhere: "updRow key k f rows = updWhere (\<lambda>r. key r = k) f rows"
  by (simp add: updRow_def updWhere_def)

text \<open>After an update of the order the event is about, the event still finds that order, updated.\<close>

lemma find_again:
  assumes "findOrderForPaymentIntent evt s = Some ord" and "\<And>r. o_id (f r) = o_id r"
    and "\<And>r. o_stripePaymentIntentId r = Some (pi_id evt) \<Longrightarrow> o_stripePaymentIntentId (f r) = Some (pi_id evt)"
  shows "\<exists>q. findOrderForPaymentIntent evt (updOrder (o_id ord) f s) = Some (f q)"
proof -
  let ?s' = "updOrder (o_id ord) f s"
  let ?meta = "\<lambda>s. if truthy (pi_metaOrderId evt) then getOrder s (the (pi_metaOrderId evt)) else None"
  show ?thesis
  proof (cases "?meta s")
    case (Some r)
    with assms(1) have "r = ord" by (simp add: findOrderForPaymentIntent_def)
    moreover have t: "truthy (pi_metaOrderId evt)" "getOrder s (the (pi_metaOrderId evt)) = Some r"
      using Some by (simp_all split: if_splits)
    ultimately have "getOrder ?s' (the (pi_metaOrderId evt)) = Some (f ord)"
      using getOrder_id [OF t(2)] by (simp add: ord.get_put assms(2))
    with t have "findOrderForPaymentIntent evt ?s' = Some (f ord)" by (simp add: findOrderForPaymentIntent_def)
    then show ?thesis by blast
  next
    case None
    then have "?meta ?s' = None" by (simp add: ord.put_keeps_domain assms(2) split: if_splits)
    moreover from None assms(1) have "List.find (\<lambda>r. o_stripePaymentIntentId r = Some (pi_id evt)) (t_orders s) = Some ord"
      by (simp add: findOrderForPaymentIntent_def orderByPaymentIntent_def)
    from find_updWhere_key [OF this, of "\<lambda>r. o_id r = o_id ord" o_id "\<lambda>_. True" f]
    have "\<exists>q. orderByPaymentIntent (pi_id evt) ?s' = Some (f q)"
      by (auto simp: orderByPaymentIntent_def updOrder_def updRow_updWhere assms(2,3))
    ultimately show ?thesis by (simp add: findOrderForPaymentIntent_def)
  qed
qed

lemma byIntent_publish [simp]:
  "orderByPaymentIntent p (publishOrderStatusChanged i st s) = orderByPaymentIntent p s"
  "orderByPaymentIntent p (notifyOrderPaid u i s) = orderByPaymentIntent p s"
  by (simp_all add: orderByPaymentIntent_def)

lemma find_publish [simp]:
  "findOrderForPaymentIntent evt (publishOrderStatusChanged i st s) = findOrderForPaymentIntent evt s"
  "findOrderForPaymentIntent evt (notifyOrderPaid u i s) = findOrderForPaymentIntent evt s"
  by (simp_all add: findOrderForPaymentIntent_def cong: option.case_cong)

lemma backfillPi_sel [simp]:
  "o_id (backfillPi p r) = o_id r" "o_status (backfillPi p r) = o_status r"
  "o_items (backfillPi p r) = o_items r" "o_inventoryRestored (backfillPi p r) = o_inventoryRestored r"
  "o_stripePaymentIntentId r = Some p \<Longrightarrow> o_stripePaymentIntentId (backfillPi p r) = Some p"
  by (simp_all add: backfillPi_def)

text \<open>Whether the event still has something to do: its order is PENDING, or its catalog order is.\<close>

definition paymentOpen :: "payment_intent \<Rightarrow> db \<Rightarrow> bool" where
  "paymentOpen evt s \<longleftrightarrow>
    (if isCatalog evt
     then \<exists>c \<in> set (t_catalogOrders s). catalogOrderIdFor evt s = Some (co_id c) \<and> co_status c = CO_Pending
     else map_option o_status (findOrderForPaymentIntent evt s) = Some O_Pending)"

lemma catalog_unarmed:
  assumes "\<not> paymentOpen evt s" and "isCatalog evt" and "catalogOrderIdFor evt s = Some i"
  shows "updWhere (\<lambda>c. co_id c = i \<and> co_status c = CO_Pending) f (t_catalogOrders s) = t_catalogOrders s"
proof (rule updWhere_none)
  show "\<not> (co_id c = i \<and> co_status c = CO_Pending)" if "c \<in> set (t_catalogOrders s)" for c
    using assms that unfolding paymentOpen_def by metis
qed

lemma paid_unarmed:
  assumes "\<not> paymentOpen evt s"
  shows "handlePaymentIntentSucceeded env evt s = s"
proof (cases "isCatalog evt")
  case True
  with catalog_unarmed [OF assms True] show ?thesis
    by (simp add: handlePaymentIntentSucceeded_def markCatalogOrderPaid_def split: option.split)
next
  case False
  with assms show ?thesis
    by (simp add: paymentOpen_def handlePaymentIntentSucceeded_def split: option.split)
qed

lemma failed_unarmed:
  assumes "\<not> paymentOpen evt s"
  shows "handlePaymentIntentFailed env evt s = s"
proof (cases "isCatalog evt")
  case True
  with catalog_unarmed [OF assms True] show ?thesis
    by (simp add: handlePaymentIntentFailed_def markCatalogOrderFailed_def split: option.split)
next
  case False
  with assms show ?thesis
    by (simp add: paymentOpen_def handlePaymentIntentFailed_def split: option.split)
qed

lemma catalog_closed:
  assumes "catalogOrderIdFor evt s = Some i"
    and "\<And>c. co_id (f c) = co_id c \<and> co_status (f c) \<noteq> CO_Pending"
    and "\<And>c. co_stripePaymentIntentId c = Some (pi_id evt) \<Longrightarrow> co_stripePaymentIntentId (f c) = Some (pi_id evt)"
    and "isCatalog evt"
  shows "\<not> paymentOpen evt (s\<lparr>t_catalogOrders := updWhere (\<lambda>c. co_id c = i \<and> co_status c = CO_Pending) f (t_catalogOrders s)\<rparr>)"
proof -
  let ?rows = "updWhere (\<lambda>c. co_id c = i \<and> co_status c = CO_Pending) f (t_catalogOrders s)"
  let ?s' = "s\<lparr>t_catalogOrders := ?rows\<rparr>"
  have closed: "co_status c \<noteq> CO_Pending" if "c \<in> set ?rows" "co_id c = i" for c
  proof -
    from that(1) obtain q where "c = (if co_id q = i \<and> co_status q = CO_Pending then f q else q)"
      by (auto simp: in_updWhere)
    with that(2) assms(2) show ?thesis by (cases "co_id q = i \<and> co_status q = CO_Pending") auto
  qed
  have "catalogOrderIdFor evt ?s' = Some i"
  proof (cases "truthy (pi_metaCatalogOrderId evt)")
    case True
    with assms(1) show ?thesis by (simp add: catalogOrderIdFor_def)
  next
    case False
    with assms(1) obtain r where r: "List.find (\<lambda>c. co_stripePaymentIntentId c = Some (pi_id evt)) (t_catalogOrders s) = Some r"
      "co_id r = i" by (auto simp: catalogOrderIdFor_def)
    from find_updWhere_key [OF r(1), of "\<lambda>c. co_id c = i \<and> co_status c = CO_Pending" co_id "\<lambda>c. co_status c = CO_Pending" f] r(2) assms(2,3)
    obtain q where q: "List.find (\<lambda>c. co_stripePaymentIntentId c = Some (pi_id evt)) ?rows =
        Some (if co_id q = i \<and> co_status q = CO_Pending then f q else q)" "co_id q = i" by auto
    have "co_id (if co_id q = i \<and> co_status q = CO_Pending then f q else q) = i" using q(2) assms(2) by simp
    with q(1) False show ?thesis by (simp add: catalogOrderIdFor_def)
  qed
  with closed assms(4) show ?thesis by (auto simp: paymentOpen_def)
qed

lemma paid_closes: "\<not> paymentOpen evt (handlePaymentIntentSucceeded env evt s)"
proof (cases "paymentOpen evt s")
  case True
  show ?thesis
  proof (cases "isCatalog evt")
    case True
    from \<open>paymentOpen evt s\<close> True obtain i where i: "catalogOrderIdFor evt s = Some i"
      by (auto simp: paymentOpen_def)
    show ?thesis
      using catalog_closed [OF i, of "\<lambda>c. c\<lparr>co_status := CO_Paid, co_paidAt := Some (e_now env),
               co_stripePaymentIntentId := Some (pi_id evt)\<rparr>"] True i
      by (simp add: handlePaymentIntentSucceeded_def markCatalogOrderPaid_def)
  next
    case False
    with True obtain ord where o: "findOrderForPaymentIntent evt s = Some ord" "o_status ord = O_Pending"
      by (auto simp: paymentOpen_def)
    let ?f = "\<lambda>r. backfillPi (pi_id evt) (r\<lparr>o_status := O_Confirmed, o_confirmedAt := Some (e_now env)\<rparr>)"
    from find_again [OF o(1), of ?f] obtain q where "findOrderForPaymentIntent evt (updOrder (o_id ord) ?f s) = Some (?f q)"
      by auto
    with o False show ?thesis by (simp add: paymentOpen_def handlePaymentIntentSucceeded_def Let_def)
  qed
next
  case False
  then show ?thesis by (simp add: paid_unarmed)
qed

interpretation paid: idempotent_handler "paymentOpen evt" "\<lambda>env. handlePaymentIntentSucceeded env evt" for evt
  by unfold_locales (simp_all add: paid_unarmed paid_closes)

lemma found_is_stored:
  assumes "findOrderForPaymentIntent evt s = Some ord" and "distinct (map o_id (t_orders s))"
  shows "getOrder s (o_id ord) = Some ord"
proof -
  have "ord \<in> set (t_orders s)"
    using assms(1) by (auto simp: findOrderForPaymentIntent_def orderByPaymentIntent_def getOrder_def
        find_Some_iff split: option.splits if_splits dest: findRow_Some_set)
  with assms(2) show ?thesis by (simp add: getOrder_def findRow_distinct)
qed

lemma find_restock [simp]:
  "findOrderForPaymentIntent evt (restock ord s) = findOrderForPaymentIntent evt s"
  by (simp add: findOrderForPaymentIntent_def orderByPaymentIntent_def cong: option.case_cong)

definition failRow :: "env \<Rightarrow> payment_intent \<Rightarrow> order_row \<Rightarrow> order_row" where
  "failRow env evt r = backfillPi (pi_id evt) (cancelRow (e_now env) (failureReason evt) r)"

lemma failRow_sel [simp]:
  "o_id (failRow env evt r) = o_id r" "o_status (failRow env evt r) = O_Cancelled"
  "o_stripePaymentIntentId r = Some (pi_id evt) \<Longrightarrow> o_stripePaymentIntentId (failRow env evt r) = Some (pi_id evt)"
  by (simp_all add: failRow_def cancelRow_def)

lemma handleFailed_run:
  assumes "\<not> isCatalog evt" and "findOrderForPaymentIntent evt s = Some ord" and "o_status ord = O_Pending"
    and "distinct (map o_id (t_orders s))"
  shows "handlePaymentIntentFailed env evt s = publishOrderStatusChanged (o_id ord) O_Cancelled
    (updOrder (o_id ord) (failRow env evt) (restock ord s))"
  using assms found_is_stored [OF assms(2,4)]
  by (simp add: handlePaymentIntentFailed_def paymentFailedTx_def failRow_def [abs_def])

lemma failed_closes:
  assumes "distinct (map o_id (t_orders s))"
  shows "\<not> paymentOpen evt (handlePaymentIntentFailed env evt s)"
proof (cases "paymentOpen evt s")
  case True
  show ?thesis
  proof (cases "isCatalog evt")
    case cat: True
    from True cat obtain i where i: "catalogOrderIdFor evt s = Some i" by (auto simp: paymentOpen_def)
    show ?thesis
      using catalog_closed [OF i, of "\<lambda>c. c\<lparr>co_status := CO_Failed\<rparr>"] cat i
      by (simp add: handlePaymentIntentFailed_def markCatalogOrderFailed_def)
  next
    case False
    with True obtain ord where o: "findOrderForPaymentIntent evt s = Some ord" "o_status ord = O_Pending"
      by (auto simp: paymentOpen_def)
    from find_again [of evt "restock ord s" ord "failRow env evt"] o(1)
    obtain q where "findOrderForPaymentIntent evt (updOrder (o_id ord) (failRow env evt) (restock ord s)) = Some (failRow env evt q)"
      by auto
    with False show ?thesis by (simp add: paymentOpen_def handleFailed_run [OF False o assms])
  qed
next
  case False
  then show ?thesis by (simp add: failed_unarmed)
qed


definition demo_pi :: payment_intent where
  "demo_pi = \<lparr>pi_id = ''pi'', pi_metaType = None, pi_metaOrderId = Some ''o'',
    pi_metaCatalogOrderId = None, pi_lastErrorMessage = Some ''declined'', pi_cancellationReason = None\<rparr>"


text \<open>A failed payment of a pending order cancels it, gives its stock back unless that was
  done before, records why, and touches no delivery and no ledger entry.\<close>

theorem payment_failure_effect:
  assumes "\<not> isCatalog evt" and "findOrderForPaymentIntent evt s = Some ord" and "o_status ord = O_Pending"
    and "distinct (map o_id (t_orders s))"
  shows "let s' = handlePaymentIntentFailed env evt s in
    t_listings s' = (if o_inventoryRestored ord then t_listings s
      else restoreInventory (o_items ord) (t_listings s)) \<and>
    (\<exists>r. getOrder s' (o_id ord) = Some r \<and> o_status r = O_Cancelled \<and> o_inventoryRestored r \<and>
      o_cancellationReason r = Some (failureReason evt)) \<and>
    t_deliveries s' = t_deliveries s \<and> t_wallet s' = t_wallet s"
proof -
  have "getOrder (updOrder (o_id ord) (failRow env evt) (restock ord s)) (o_id ord) = Some (failRow env evt ord)"
    using found_is_stored [OF assms(2,4)] by (simp add: ord.get_put)
  then show ?thesis
    by (simp add: handleFailed_run [OF assms] Let_def restock_def)
      (simp add: failRow_def backfillPi_def cancelRow_def)
qed

theorem payment_failure_effect_witness:
  "map_option o_cancellationReason (getOrder (handlePaymentIntentFailed demo_env demo_pi (order_db O_Pending F_Pickup)) ''o'')
    = Some (Some ''declined'')"
proof -
  let ?s = "order_db O_Pending F_Pickup"
  have "\<not> isCatalog demo_pi" "findOrderForPaymentIntent demo_pi ?s = Some (demo_order ''o'' O_Pending F_Pickup)"
    "distinct (map o_id (t_orders ?s))" by code_simp+
  moreover have "o_status (demo_order ''o'' O_Pending F_Pickup) = O_Pending"
    "o_id (demo_order ''o'' O_Pending F_Pickup) = ''o''" by (simp_all add: demo_order_def)
  moreover have "failureReason demo_pi = ''declined''" by code_simp
  ultimately show ?thesis
    using payment_failure_effect [of demo_pi ?s "demo_order ''o'' O_Pending F_Pickup" demo_env]
    by (auto simp: Let_def)
qed

definition stripeDisputes :: "id \<Rightarrow> db \<Rightarrow> dispute_row list" where
  "stripeDisputes i s = filter (\<lambda>x. dis_stripeDisputeId x = Some i) (t_disputes s)"

lemma handleChargeDispute_keeps:
  "t_orders (handleChargeDispute env d s) = t_orders s" "t_wallet (handleChargeDispute env d s) = t_wallet s"
  by (simp_all add: handleChargeDispute_def split: option.split)

lemma handleChargeDispute_known:
  assumes "stripeDisputes (sd_id d) s \<noteq> []"
  shows "map (\<lambda>x. (dis_id x, dis_stripeDisputeId x, dis_orderId x)) (t_disputes (handleChargeDispute env d s)) =
    map (\<lambda>x. (dis_id x, dis_stripeDisputeId x, dis_orderId x)) (t_disputes s)"
proof -
  have "List.find (\<lambda>x. dis_stripeDisputeId x = Some (sd_id d)) (t_disputes s) \<noteq> None"
    using assms by (auto simp: stripeDisputes_def find_None_iff filter_empty_conv)
  then show ?thesis
    by (auto simp: handleChargeDispute_def updDispute_def updRow_def split: option.split)
qed

lemma stripeDisputes_length:
  "length (stripeDisputes i s) = length (filter (\<lambda>x. fst (snd x) = Some i)
    (map (\<lambda>x. (dis_id x, dis_stripeDisputeId x, dis_orderId x)) (t_disputes s)))"
  by (simp add: stripeDisputes_def filter_map o_def)

text \<open>A chargeback that Stripe reports many times, as it is created, updated and closed, is one
  dispute: the first event of a known order opens one for an admin, every further event of the
  same Stripe dispute only refreshes its details. No chargeback event moves the order to
  DISPUTED or holds its earnings back.\<close>

theorem chargeback_single_dispute:
  assumes "findOrderForDispute d s = Some ord" and "stripeDisputes (sd_id d) s = []"
    and "\<forall>(e, x) \<in> set evs. sd_id x = sd_id d"
  shows "let s' = fold (\<lambda>(e, x). handleChargeDispute e x) ((env, d) # evs) s in
    length (stripeDisputes (sd_id d) s') = 1 \<and> length (t_disputes s') = Suc (length (t_disputes s)) \<and>
    t_orders s' = t_orders s \<and> t_wallet s' = t_wallet s"
proof -
  let ?s1 = "handleChargeDispute env d s"
  have none: "List.find (\<lambda>x. dis_stripeDisputeId x = Some (sd_id d)) (t_disputes s) = None"
    using assms(2) by (auto simp: stripeDisputes_def find_None_iff filter_empty_conv)
  have one: "length (stripeDisputes (sd_id d) ?s1) = 1" "length (t_disputes ?s1) = Suc (length (t_disputes s))"
    using assms(1,2) none by (simp_all add: handleChargeDispute_def stripeDisputes_def)
  have "length (stripeDisputes (sd_id d) (fold (\<lambda>(e, x). handleChargeDispute e x) evs t)) = 1 \<and>
      length (t_disputes (fold (\<lambda>(e, x). handleChargeDispute e x) evs t)) = length (t_disputes t) \<and>
      t_orders (fold (\<lambda>(e, x). handleChargeDispute e x) evs t) = t_orders t \<and>
      t_wallet (fold (\<lambda>(e, x). handleChargeDispute e x) evs t) = t_wallet t"
    if "length (stripeDisputes (sd_id d) t) = 1" for t
    using that assms(3)
  proof (induction evs arbitrary: t)
    case (Cons ev evs)
    obtain e x where ev: "ev = (e, x)" by (cases ev)
    with Cons.prems have "sd_id x = sd_id d" "stripeDisputes (sd_id x) t \<noteq> []" by auto
    note k = handleChargeDispute_known [OF this(2), of e]
    have "length (stripeDisputes (sd_id d) (handleChargeDispute e x t)) = 1"
      unfolding stripeDisputes_length k using Cons.prems(1) by (simp add: stripeDisputes_length)
    with Cons ev arg_cong [OF k, of length] show ?case by (auto simp: handleChargeDispute_keeps)
  qed simp
  from this [OF one(1)] one show ?thesis by (simp add: Let_def handleChargeDispute_keeps)
qed

definition demo_chargeback :: stripe_dispute where
  "demo_chargeback = \<lparr>sd_id = ''dp'', sd_paymentIntentId = Some ''pi'', sd_metaOrderId = None,
    sd_amount = 6825, sd_currency = ''eur'', sd_reason = ''fraudulent'', sd_status = ''needs_response'',
    sd_evidenceDueBy = Some 100\<rparr>"

theorem chargeback_single_dispute_witness:
  "length (t_disputes (handleChargeDispute demo_env demo_chargeback
     (handleChargeDispute demo_env demo_chargeback (order_db O_Delivered F_Pickup)))) = 1"
proof -
  let ?s = "order_db O_Delivered F_Pickup"
  have "findOrderForDispute demo_chargeback ?s = Some (demo_order ''o'' O_Delivered F_Pickup)" by code_simp
  moreover have "stripeDisputes (sd_id demo_chargeback) ?s = []" "t_disputes ?s = []" by code_simp+
  ultimately show ?thesis
    using chargeback_single_dispute [of demo_chargeback ?s _ "[(demo_env, demo_chargeback)]" demo_env]
    by (simp add: Let_def)
qed

end
