(* ===== verification/Jobs.thy ===== *)
theory Jobs
  imports Orders_Watchdogs
begin

section \<open>The background worker\<close>

text \<open>
  \<open>src/jobs/order-timers.processor.ts\<close> and \<open>src/jobs/wallet-release.processor.ts\<close>: the durable
  jobs that mirror the in-process watchdogs and the ledger sweep. A job carries its name and
  the ids it is about; an unknown name, or a job without its id, does nothing.
\<close>

record timer_job =
  tj_name :: string
  tj_orderId :: "id option"
  tj_deliveryId :: "id option"

definition processTimerJob :: "env \<Rightarrow> timer_job \<Rightarrow> db \<Rightarrow> db" where
  "processTimerJob env job s =
    (if tj_name job = NoDriverTimeout
     then (if truthy (tj_orderId job) then handleNoDriverTimeout env (the (tj_orderId job)) s else s)
     else if tj_name job = NoDriverBuyerResponseTimeout
     then (if truthy (tj_orderId job) then autoCancelNoResponse env (the (tj_orderId job)) s else s)
     else if tj_name job = DriverDeliveryTimeout
     then (if truthy (tj_deliveryId job)
           then handleDriverDeliveryTimeout env (the (tj_deliveryId job)) s else s)
     else s)"

definition processWalletSweep :: "env \<Rightarrow> db \<Rightarrow> db" where
  "processWalletSweep env s = snd (releaseDuePendingEntries (e_now env) s)"

text \<open>The job a watchdog puts into the queue is the one whose processing runs its handler.\<close>

lemma processTimerJob_simps:
  "oid \<noteq> [] \<Longrightarrow> processTimerJob env \<lparr>tj_name = NoDriverTimeout, tj_orderId = Some oid, tj_deliveryId = None\<rparr> s =
     handleNoDriverTimeout env oid s"
  "oid \<noteq> [] \<Longrightarrow> processTimerJob env \<lparr>tj_name = NoDriverBuyerResponseTimeout, tj_orderId = Some oid, tj_deliveryId = None\<rparr> s =
     autoCancelNoResponse env oid s"
  "did \<noteq> [] \<Longrightarrow> processTimerJob env \<lparr>tj_name = DriverDeliveryTimeout, tj_orderId = o', tj_deliveryId = Some did\<rparr> s =
     handleDriverDeliveryTimeout env did s"
  by (simp_all add: processTimerJob_def truthy_def NoDriverTimeout_def NoDriverBuyerResponseTimeout_def
      DriverDeliveryTimeout_def)

subsection \<open>An order nobody delivers is settled\<close>

definition noDriverJob :: "id \<Rightarrow> timer_job" where
  "noDriverJob oid = \<lparr>tj_name = NoDriverTimeout, tj_orderId = Some oid, tj_deliveryId = None\<rparr>"

definition responseJob :: "id \<Rightarrow> timer_job" where
  "responseJob oid = \<lparr>tj_name = NoDriverBuyerResponseTimeout, tj_orderId = Some oid, tj_deliveryId = None\<rparr>"

lemma refund_succeeds:
  assumes "getOrder s oid = Some r" and "\<not> truthy (o_stripeRefundId r)" and "o_stripePaymentIntentId r = Some pid"
    and "pid \<noteq> []" and "e_refundCreate env pid = Inr rid" and "e_refundWriteOk env"
  shows "getOrder (refundOrderIfNeeded env oid s) oid =
      Some (r\<lparr>o_stripeRefundId := Some rid, o_refundedAt := Some (e_now env)\<rparr>) \<and>
    StripeRefund oid pid rid \<in> set (out (refundOrderIfNeeded env oid s)) \<and>
    t_listings (refundOrderIfNeeded env oid s) = t_listings s"
proof (intro conjI)
  show "StripeRefund oid pid rid \<in> set (out (refundOrderIfNeeded env oid s))"
    using assms by (simp add: refundOrderIfNeeded_def Let_def truthy_def auditRecord_def emit_def)
qed (use assms in \<open>simp_all add: refundOrderIfNeeded_def Let_def ord.get_put truthy_def\<close>)

lemma cancelNoDriverOrder_settles:
  fixes reason_text :: string
  assumes s: "getOrder s oid = Some ord" and "\<not> truthy (o_stripeRefundId ord)"
    and "o_stripePaymentIntentId ord = Some pid" and "pid \<noteq> []" and "e_refundCreate env pid = Inr rid"
    and "e_refundWriteOk env"
  defines "t \<equiv> cancelNoDriverOrder env oid reason_text s"
  shows "(\<exists>r. getOrder t oid = Some r \<and> o_status r = O_Cancelled \<and> o_inventoryRestored r \<and>
      o_stripeRefundId r = Some rid) \<and> StripeRefund oid pid rid \<in> set (out t) \<and>
    t_listings t = (if o_inventoryRestored ord then t_listings s else restoreInventory (o_items ord) (t_listings s))"
proof -
  define u where "u = (case latestDelivery s oid of
      None \<Rightarrow> updOrder oid (cancelRow (e_now env) reason_text) (restock ord s)
    | Some d \<Rightarrow> cancelDelivery env reason_text (d_id d) (updOrder oid (cancelRow (e_now env) reason_text) (restock ord s)))"
  have u: "getOrder u oid = Some (cancelRow (e_now env) reason_text ord)"
    "t_listings u = (if o_inventoryRestored ord then t_listings s else restoreInventory (o_items ord) (t_listings s))"
    using s by (auto simp: u_def ord.get_put cancelRow_def restock_def getOrder_def [of "_\<lparr>t_listings := _\<rparr>"]
        getOrder_def [symmetric] split: option.split)
  have t: "t = sendToUsers [o_sellerId ord] ''order_cancelled'' oid (sendToUsers [o_buyerId ord] ''order_cancelled'' oid
      (publishOrderStatusChanged oid O_Cancelled (refundOrderIfNeeded env oid u)))"
    using s by (simp add: t_def cancelNoDriverOrder_def Let_def u_def)
  have "getOrder (refundOrderIfNeeded env oid u) oid = Some ((cancelRow (e_now env) reason_text ord)
        \<lparr>o_stripeRefundId := Some rid, o_refundedAt := Some (e_now env)\<rparr>) \<and>
      StripeRefund oid pid rid \<in> set (out (refundOrderIfNeeded env oid u)) \<and>
      t_listings (refundOrderIfNeeded env oid u) = t_listings u"
    using assms(2-6) by (intro refund_succeeds [OF u(1)]) (simp_all add: cancelRow_def)
  then show ?thesis
    using u(2) by (simp add: t cancelRow_def sendToUsers_def publishOrderStatusChanged_def emit_def getOrder_def)
qed



end
