(* ===== verification/Stock_Spec.thy ===== *)
theory Stock_Spec
  imports Inventory
begin

section \<open>Abstract specification: stock and refunds\<close>

text \<open>
  What the order system promises about food and money, without its database: a shelf with the
  portions of each listing, the orders with the lines they took from it, and the refunds made
  at the payment provider. An order is placed against the shelf, gives its lines back at most
  once and is refunded at most once. \<open>System.thy\<close> shows that every request of the modelled
  services is a sequence of these three steps.
\<close>

record order_core =
  oc_lines :: "stock_line list"
  oc_restored :: bool
  oc_refund :: "id option"

record shelf =
  sh_stock :: "(id \<times> int option) list"
  sh_orders :: "(id \<times> order_core) list"
  sh_refunds :: "(id \<times> id) list"

definition shiftShelf :: "(id \<Rightarrow> int) \<Rightarrow> (id \<times> int option) list \<Rightarrow> (id \<times> int option) list" where
  "shiftShelf g st = map (\<lambda>(i, n). (i, map_option (\<lambda>m. m + g i) n)) st"

definition setOrder :: "id \<Rightarrow> (order_core \<Rightarrow> order_core) \<Rightarrow> (id \<times> order_core) list \<Rightarrow> (id \<times> order_core) list" where
  "setOrder oid f os = map (\<lambda>(i, c). (i, if i = oid then f c else c)) os"

inductive shelf_step :: "shelf \<Rightarrow> shelf \<Rightarrow> bool" where
  Place: "oid \<notin> fst ` set (sh_orders c) \<Longrightarrow> \<forall>x \<in> set ls. 1 \<le> snd x \<Longrightarrow>
    \<forall>i \<in> fst ` set ls. \<exists>n. (i, Some n) \<in> set (sh_stock c) \<and> wantedOf ls i \<le> n \<Longrightarrow>
    shelf_step c (c\<lparr>sh_stock := shiftShelf (\<lambda>i. - wantedOf ls i) (sh_stock c),
      sh_orders := sh_orders c @ [(oid, \<lparr>oc_lines = ls, oc_restored = False, oc_refund = None\<rparr>)]\<rparr>)"
| Give_Back: "(oid, ord) \<in> set (sh_orders c) \<Longrightarrow> \<not> oc_restored ord \<Longrightarrow>
    shelf_step c (c\<lparr>sh_stock := shiftShelf (wantedOf (oc_lines ord)) (sh_stock c),
      sh_orders := setOrder oid (\<lambda>r. r\<lparr>oc_restored := True\<rparr>) (sh_orders c)\<rparr>)"
| Refund: "(oid, ord) \<in> set (sh_orders c) \<Longrightarrow> oc_refund ord = None \<Longrightarrow>
    shelf_step c (c\<lparr>sh_orders := setOrder oid (\<lambda>r. r\<lparr>oc_refund := Some rid\<rparr>) (sh_orders c),
      sh_refunds := sh_refunds c @ [(oid, rid)]\<rparr>)"

subsection \<open>Its invariant\<close>

text \<open>
  \<open>onLoan c i\<close> is what the orders that have not given back hold of listing \<open>i\<close>. The total
  \<open>K i\<close> of shelf and loans never changes; no shelf goes negative; an order is refunded exactly
  when it carries the refund, and once.
\<close>

definition onLoan :: "shelf \<Rightarrow> id \<Rightarrow> int" where
  "onLoan c i = sum_list (map (\<lambda>(_, r). if oc_restored r then 0 else wantedOf (oc_lines r) i) (sh_orders c))"

definition refundCount :: "shelf \<Rightarrow> id \<Rightarrow> nat" where
  "refundCount c oid = length (filter (\<lambda>x. fst x = oid) (sh_refunds c))"

definition well_kept :: "shelf \<Rightarrow> bool" where
  "well_kept c \<longleftrightarrow> distinct (map fst (sh_orders c)) \<and> distinct (map fst (sh_stock c)) \<and>
     (\<forall>(_, r) \<in> set (sh_orders c). \<forall>x \<in> set (oc_lines r). 1 \<le> snd x)"

definition conserved :: "(id \<Rightarrow> int) \<Rightarrow> shelf \<Rightarrow> bool" where
  "conserved K c \<longleftrightarrow> (\<forall>i n. (i, Some n) \<in> set (sh_stock c) \<longrightarrow> 0 \<le> n \<and> n + onLoan c i = K i)"

definition refunds_recorded :: "shelf \<Rightarrow> bool" where
  "refunds_recorded c \<longleftrightarrow> (\<forall>oid. refundCount c oid =
     (case map_of (sh_orders c) oid of None \<Rightarrow> 0 | Some r \<Rightarrow> if oc_refund r = None then 0 else 1))"

definition shelf_inv :: "(id \<Rightarrow> int) \<Rightarrow> shelf \<Rightarrow> bool" where
  "shelf_inv K c \<longleftrightarrow> well_kept c \<and> conserved K c \<and> refunds_recorded c"

lemma fst_shiftShelf [simp]: "map fst (shiftShelf g st) = map fst st"
  by (simp add: shiftShelf_def split_beta o_def)

lemma fst_setOrder [simp]: "map fst (setOrder oid f os) = map fst os"
  by (simp add: setOrder_def split_beta o_def)

lemma shiftShelf_iff: "(i, Some n) \<in> set (shiftShelf g st) \<longleftrightarrow> (i, Some (n - g i)) \<in> set st"
proof -
  have "(i, Some n) = (case x of (j, m) \<Rightarrow> (j, map_option (\<lambda>k. k + g j) m)) \<longleftrightarrow> x = (i, Some (n - g i))" for x
    by (cases x; cases "snd x") auto
  then show ?thesis by (simp add: shiftShelf_def image_iff)
qed

lemma map_of_setOrder: "map_of (setOrder oid f os) i =
    (if i = oid then map_option f (map_of os i) else map_of os i)"
  by (induction os) (auto simp: setOrder_def)

lemma setOrder_snd:
  assumes "(i, r) \<in> set (setOrder oid f os)" and "\<And>r. g (f r) = g r"
  shows "\<exists>r'. (i, r') \<in> set os \<and> g r = g r'"
  using assms by (auto simp: setOrder_def split: if_splits)

lemma sum_setOrder:
  fixes g :: "order_core \<Rightarrow> int"
  assumes "distinct (map fst os)" and "(oid, r) \<in> set os"
  shows "sum_list (map (\<lambda>(_, r). g r) (setOrder oid f os)) =
    sum_list (map (\<lambda>(_, r). g r) os) + (g (f r) - g r)"
  using assms
proof (induction os)
  case (Cons x os)
  obtain i c where x: "x = (i, c)" by force
  show ?case
  proof (cases "i = oid")
    case True
    with Cons.prems x have "c = r" "oid \<notin> fst ` set os" by (auto simp: rev_image_eqI)
    then have "setOrder oid f os = os" by (induction os) (auto simp: setOrder_def)
    with True x \<open>c = r\<close> show ?thesis by (simp add: setOrder_def)
  next
    case False
    with Cons x show ?thesis by (simp add: setOrder_def)
  qed
qed simp

lemma wantedOf_nonneg: "\<forall>x \<in> set ls. 1 \<le> snd x \<Longrightarrow> 0 \<le> wantedOf ls i"
  by (induction ls) auto

lemma wantedOf_outside: "i \<notin> fst ` set ls \<Longrightarrow> wantedOf ls i = 0"
  by (rule wantedOf_absent)

lemma well_kept_step: "shelf_step c c' \<Longrightarrow> well_kept c \<Longrightarrow> well_kept c'"
proof (induction rule: shelf_step.induct)
  case (Give_Back oid ord c)
  then show ?case
    by (force simp: well_kept_def dest: setOrder_snd [where g = oc_lines])
next
  case (Refund oid ord c rid)
  then show ?case
    by (force simp: well_kept_def dest: setOrder_snd [where g = oc_lines])
qed (auto simp: well_kept_def)

lemma conserved_step: "shelf_step c c' \<Longrightarrow> well_kept c \<Longrightarrow> conserved K c \<Longrightarrow> conserved K c'"
proof (induction rule: shelf_step.induct)
  case (Place oid c ls)
  let ?c' = "c\<lparr>sh_stock := shiftShelf (\<lambda>i. - wantedOf ls i) (sh_stock c),
      sh_orders := sh_orders c @ [(oid, \<lparr>oc_lines = ls, oc_restored = False, oc_refund = None\<rparr>)]\<rparr>"
  have loan: "onLoan ?c' i = onLoan c i + wantedOf ls i" for i by (simp add: onLoan_def)
  show ?case unfolding conserved_def
  proof (intro allI impI)
    fix i n assume "(i, Some n) \<in> set (sh_stock ?c')"
    then have m: "(i, Some (n + wantedOf ls i)) \<in> set (sh_stock c)" by (simp add: shiftShelf_iff)
    with Place.prems(2) have "n + wantedOf ls i + onLoan c i = K i" "0 \<le> n + wantedOf ls i"
      by (auto simp: conserved_def)
    moreover have "0 \<le> n"
    proof (cases "i \<in> fst ` set ls")
      case True
      with Place.hyps(3) obtain k where k: "(i, Some k) \<in> set (sh_stock c)" "wantedOf ls i \<le> k" by blast
      with m Place.prems(1) have "k = n + wantedOf ls i"
        by (auto simp: well_kept_def dest: eq_key_imp_eq_value)
      with k show ?thesis by simp
    next
      case False
      with \<open>0 \<le> n + wantedOf ls i\<close> show ?thesis by (simp add: wantedOf_outside)
    qed
    ultimately show "0 \<le> n \<and> n + onLoan ?c' i = K i" using loan by simp
  qed
next
  case (Give_Back oid ord c)
  let ?c' = "c\<lparr>sh_stock := shiftShelf (wantedOf (oc_lines ord)) (sh_stock c),
      sh_orders := setOrder oid (\<lambda>r. r\<lparr>oc_restored := True\<rparr>) (sh_orders c)\<rparr>"
  have loan: "onLoan ?c' i = onLoan c i - wantedOf (oc_lines ord) i" for i
    using sum_setOrder [of "sh_orders c" oid ord "\<lambda>r. if oc_restored r then 0 else wantedOf (oc_lines r) i"
        "\<lambda>r. r\<lparr>oc_restored := True\<rparr>"] Give_Back
    by (simp add: onLoan_def well_kept_def)
  have pos: "0 \<le> wantedOf (oc_lines ord) i" for i
    using Give_Back by (intro wantedOf_nonneg) (auto simp: well_kept_def)
  show ?case unfolding conserved_def
  proof (intro allI impI)
    fix i n assume "(i, Some n) \<in> set (sh_stock ?c')"
    then have "(i, Some (n - wantedOf (oc_lines ord) i)) \<in> set (sh_stock c)" by (simp add: shiftShelf_iff)
    with Give_Back.prems(2) have "0 \<le> n - wantedOf (oc_lines ord) i"
      "n - wantedOf (oc_lines ord) i + onLoan c i = K i" unfolding conserved_def by blast+
    with pos [of i] loan [of i] show "0 \<le> n \<and> n + onLoan ?c' i = K i" by simp
  qed
next
  case (Refund oid ord c rid)
  let ?c' = "c\<lparr>sh_orders := setOrder oid (\<lambda>r. r\<lparr>oc_refund := Some rid\<rparr>) (sh_orders c),
      sh_refunds := sh_refunds c @ [(oid, rid)]\<rparr>"
  have "onLoan ?c' i = onLoan c i" for i
    using sum_setOrder [of "sh_orders c" oid ord "\<lambda>r. if oc_restored r then 0 else wantedOf (oc_lines r) i"
        "\<lambda>r. r\<lparr>oc_refund := Some rid\<rparr>"] Refund
    by (simp add: onLoan_def well_kept_def)
  with Refund.prems(2) show ?case by (simp add: conserved_def)
qed

lemma refunds_step: "shelf_step c c' \<Longrightarrow> well_kept c \<Longrightarrow> refunds_recorded c \<Longrightarrow> refunds_recorded c'"
proof (induction rule: shelf_step.induct)
  case (Place oid c ls)
  then have "map_of (sh_orders c) oid = None" by (simp add: map_of_eq_None_iff)
  with Place.prems(2) have "refundCount c oid = 0" by (auto simp: refunds_recorded_def)
  with Place.prems(2) \<open>map_of (sh_orders c) oid = None\<close> show ?case
    by (auto simp: refunds_recorded_def refundCount_def map_add_def split: option.split)
next
  case (Give_Back oid ord c)
  then show ?case
    by (auto simp: refunds_recorded_def refundCount_def map_of_setOrder split: option.splits)
next
  case (Refund oid ord c rid)
  then have "map_of (sh_orders c) oid = Some ord" by (simp add: well_kept_def)
  with Refund show ?case
    by (auto simp: refunds_recorded_def refundCount_def map_of_setOrder split: option.splits)
qed

text \<open>The shop before its first order.\<close>

definition shelf_open :: "(id \<Rightarrow> int) \<Rightarrow> shelf \<Rightarrow> bool" where
  "shelf_open K c \<longleftrightarrow> sh_orders c = [] \<and> sh_refunds c = [] \<and> distinct (map fst (sh_stock c)) \<and>
     (\<forall>i n. (i, Some n) \<in> set (sh_stock c) \<longrightarrow> 0 \<le> n \<and> n = K i)"

lemma shelf_open_inv: "shelf_open K c \<Longrightarrow> shelf_inv K c"
  by (simp add: shelf_open_def shelf_inv_def well_kept_def conserved_def refunds_recorded_def
      onLoan_def refundCount_def)

interpretation shelf: inductive_invariant "shelf_open K" shelf_step "shelf_inv K" for K
  by unfold_locales (auto simp: shelf_inv_def intro: well_kept_step conserved_step refunds_step
      dest: shelf_open_inv)

end
