(* ===== verification/System.thy ===== *)
theory System
  imports Stock_Spec Jobs Deliveries Orders_Disputes StripeWebhook
begin

section \<open>The order system as a whole\<close>

text \<open>
  All requests of the order, delivery, wallet and dispute services, of the background worker and
  of Stripe about payments, as one step
  relation on the database, in any order and interleaving. \<open>CommitCancel\<close> and \<open>PayPlan\<close> are
  the second halves of a cancellation and of a withdrawal, which run after other requests may
  have come in between. The relation is simulated by the machine of \<open>Stock_Spec.thy\<close>.
\<close>

subsection \<open>Requests\<close>

datatype order_request =
  CreateOrder id create_order_dto
  | ConfirmPayment id id
  | StartPreparing id id
  | MarkReady id id
  | SellerPickupQr id id
  | BuyerDeliveryQr id id
  | ConfirmPickup id id
  | CancelAsSeller id id string
  | CommitCancel id id string
  | SellerCannotProvide id id cannot_provide_dto
  | DecideNoDriver id id no_driver_decision

datatype dispute_request =
  FileDispute id id create_dispute_dto
  | ApproveRefund id "string option"
  | RejectDispute id "string option"
  | ResolveDispute id "string option"
  | ConfirmAllergen id "string option"
  | ConfirmFraud id "string option"

datatype driver_request =
  SetOnline id bool "js_number option" "js_number option"
  | RecordLocation id js_number js_number
  | ClaimDelivery id id
  | ArriveAtPickup id id
  | ScanPickup id id scan_dto
  | ScanDelivery id id scan_dto
  | AbsentDropoff id id absent_dto
  | ReportUnavailable id id unavailable_dto
  | ReportIssue id id issue_dto

datatype background =
  FireNoDriver id
  | FireNoResponse id
  | FireDriverDelivery id
  | TimerJob timer_job
  | WalletSweep
  | StripeEvent "id \<Rightarrow> stripe_subscription option" stripe_event
  | Withdraw id
  | PayPlan payout_plan
  | Unsuspend id

datatype request =
  OrderReq order_request | DisputeReq dispute_request | DriverReq driver_request | Background background

fun runOrder :: "env \<Rightarrow> order_request \<Rightarrow> db \<Rightarrow> db" where
  "runOrder env (CreateOrder u dto) s = snd (createOrder env u dto s)"
| "runOrder env (ConfirmPayment u oid) s = snd (confirmPaymentForBuyer env u oid s)"
| "runOrder env (StartPreparing u oid) s = snd (startPreparing u oid s)"
| "runOrder env (MarkReady u oid) s = snd (markReady env u oid s)"
| "runOrder env (SellerPickupQr u oid) s = snd (getSellerPickupQr env u oid s)"
| "runOrder env (BuyerDeliveryQr u oid) s = snd (getBuyerDeliveryQr env u oid s)"
| "runOrder env (ConfirmPickup u oid) s = snd (confirmPickup env u oid s)"
| "runOrder env (CancelAsSeller u oid why) s = snd (cancelAsSeller env u oid why s)"
| "runOrder env (CommitCancel sel oid why) s = snd (commitCancelAsSeller env sel oid why s)"
| "runOrder env (SellerCannotProvide u oid dto) s = snd (sellerCannotProvide env u oid dto s)"
| "runOrder env (DecideNoDriver u oid d) s = snd (decideNoDriver env u oid d s)"

fun runDispute :: "env \<Rightarrow> dispute_request \<Rightarrow> db \<Rightarrow> db" where
  "runDispute env (FileDispute u oid dto) s = snd (createDispute env u oid dto s)"
| "runDispute env (ApproveRefund i n) s = snd (adminApproveRefund env i n s)"
| "runDispute env (RejectDispute i n) s = snd (adminRejectDispute env i n s)"
| "runDispute env (ResolveDispute i n) s = snd (adminResolveDispute env i n s)"
| "runDispute env (ConfirmAllergen i n) s = snd (adminConfirmAllergenViolation env i n s)"
| "runDispute env (ConfirmFraud i n) s = snd (adminConfirmFraudulentChargeback env i n s)"

fun runDriver :: "env \<Rightarrow> driver_request \<Rightarrow> db \<Rightarrow> db" where
  "runDriver env (SetOnline u b x y) s = snd (setOnline env u b x y s)"
| "runDriver env (RecordLocation u x y) s = snd (recordLocation env u x y s)"
| "runDriver env (ClaimDelivery u did) s = snd (claim env u did s)"
| "runDriver env (ArriveAtPickup u did) s = snd (arriveAtPickup u did s)"
| "runDriver env (ScanPickup u did dto) s = snd (confirmDriverPickup env u did dto s)"
| "runDriver env (ScanDelivery u did dto) s = snd (confirmDelivery env u did dto s)"
| "runDriver env (AbsentDropoff u did dto) s = snd (confirmAbsentDropoff env u did dto s)"
| "runDriver env (ReportUnavailable u did dto) s = snd (reportSellerUnavailable env u did dto s)"
| "runDriver env (ReportIssue u did dto) s = snd (reportIssue env u did dto s)"

fun runBackground :: "env \<Rightarrow> background \<Rightarrow> db \<Rightarrow> db" where
  "runBackground env (FireNoDriver oid) s = fireNoDriver env oid s"
| "runBackground env (FireNoResponse oid) s = fireNoDriverResponse env oid s"
| "runBackground env (FireDriverDelivery did) s = fireDriverDelivery env did s"
| "runBackground env (TimerJob job) s = processTimerJob env job s"
| "runBackground env WalletSweep s = processWalletSweep env s"
| "runBackground env (StripeEvent retrieve evt) s = snd (handleEvent env retrieve evt s)"
| "runBackground env (Withdraw u) s = snd (requestWithdrawal env u s)"
| "runBackground env (PayPlan plan) s = snd (payWithdrawal env plan s)"
| "runBackground env (Unsuspend u) s = unsuspendUser u s"

fun exec :: "env \<Rightarrow> request \<Rightarrow> db \<Rightarrow> db" where
  "exec env (OrderReq r) s = runOrder env r s"
| "exec env (DisputeReq r) s = runDispute env r s"
| "exec env (DriverReq r) s = runDriver env r s"
| "exec env (Background r) s = runBackground env r s"

text \<open>
  The assumptions on one request: production, a generated order id that is new, cart
  quantities as \<open>CreateOrderItemDto\<close> validates them (\<open>@IsInt() @Min(1)\<close>), Stripe's refund ids
  are not empty and the write of a refund id succeeds.
\<close>

fun validRequest :: "request \<Rightarrow> bool" where
  "validRequest (OrderReq (CreateOrder u dto)) = list_all (\<lambda>it. 1 \<le> ci_quantity it) (c_items dto)"
| "validRequest _ = True"

definition legal :: "env \<Rightarrow> request \<Rightarrow> db \<Rightarrow> bool" where
  "legal env r s \<longleftrightarrow> \<not> e_isDev env \<and> e_refundWriteOk env \<and> validRequest r \<and>
     (\<forall>p rid. e_refundCreate env p = Inr rid \<longrightarrow> rid \<noteq> []) \<and> getOrder s (e_ulid env ForOrder) = None"

inductive sys_step :: "db \<Rightarrow> db \<Rightarrow> bool" where
  Request: "legal env r s \<Longrightarrow> sys_step s (exec env r s)"

inductive_cases sys_stepE: "sys_step s t"

subsection \<open>Abstraction\<close>

definition coreOf :: "order_row \<Rightarrow> order_core" where
  "coreOf r = \<lparr>oc_lines = linesOf (o_items r), oc_restored = o_inventoryRestored r,
     oc_refund = (if truthy (o_stripeRefundId r) then o_stripeRefundId r else None)\<rparr>"

fun refundOf :: "effect \<Rightarrow> (id \<times> id) list" where
  "refundOf (StripeRefund oid pid rid) = [(oid, rid)]"
| "refundOf _ = []"

definition absDb :: "db \<Rightarrow> shelf" where
  "absDb s = \<lparr>sh_stock = map (\<lambda>l. (l_id l, l_portionsLeft l)) (t_listings s),
     sh_orders = map (\<lambda>r. (o_id r, coreOf r)) (t_orders s),
     sh_refunds = concat (map refundOf (out s))\<rparr>"

text \<open>A well kept shelf evolves by steps of the machine.\<close>

definition evolves :: "shelf \<Rightarrow> shelf \<Rightarrow> bool" where
  "evolves c c' \<longleftrightarrow> (well_kept c \<longrightarrow> shelf_step\<^sup>*\<^sup>* c c')"

lemma well_kept_steps: "shelf_step\<^sup>*\<^sup>* c c' \<Longrightarrow> well_kept c \<Longrightarrow> well_kept c'"
  by (induction rule: rtranclp_induct) (auto intro: well_kept_step)

lemma evolves_refl [simp]: "evolves c c"
  by (simp add: evolves_def)

lemma evolves_trans: "evolves a b \<Longrightarrow> evolves b c \<Longrightarrow> evolves a c"
  by (auto simp: evolves_def intro: rtranclp_trans well_kept_steps)

subsection \<open>Steps that the abstraction does not see\<close>

lemma absDb_cong:
  "t_listings t = t_listings s \<Longrightarrow> t_orders t = t_orders s \<Longrightarrow>
   concat (map refundOf (out t)) = concat (map refundOf (out s)) \<Longrightarrow> absDb t = absDb s"
  by (simp add: absDb_def)

named_theorems silent "operations the abstraction does not see"

lemma absDb_emit [silent]: "refundOf e = [] \<Longrightarrow> absDb (emit e s) = absDb s"
  by (simp add: absDb_def)

lemma absDb_updOrder [silent]:
  assumes "\<And>r. o_id (f r) = o_id r" and "\<And>r. coreOf (f r) = coreOf r"
  shows "absDb (updOrder i f s) = absDb s"
  using assms by (simp add: absDb_def updOrder_def updRow_def o_def if_distrib [of o_id] if_distrib [of coreOf]
      cong: if_cong)

lemma absDb_side [silent]:
  "absDb (sendToUsers ids k a s) = absDb s"
  "absDb (notifyOrderPaid u oid s) = absDb s"
  "absDb (notifyOrderStatus oid k s) = absDb s"
  "absDb (notifyDeliveryEvent oid did k b c s) = absDb s"
  "absDb (notifyDeliveryAvailable oid did s) = absDb s"
  "absDb (publishOrderStatusChanged oid st s) = absDb s"
  "absDb (publishDeliveryCancelledToDriver u did oid t w s) = absDb s"
  "absDb (auditRecord actor act tg s) = absDb s"
  "absDb (clearTimer key s) = absDb s"
  "absDb (scheduleNoDriverTimeout env oid s) = absDb s"
  "absDb (scheduleNoDriverResponseTimeout env oid s) = absDb s"
  "absDb (scheduleDriverDeliveryTimeout env did s) = absDb s"
  by (simp_all add: side_defs Let_def absDb_def split: option.splits)

lemma absDb_upd [silent]:
  "absDb (updUser i fu s) = absDb s" "absDb (updSeller i fs s) = absDb s"
  "absDb (updDriver i fd s) = absDb s" "absDb (updDelivery i fl s) = absDb s"
  "absDb (updDispute i fi s) = absDb s"
  by (simp_all add: absDb_def updUser_def updSeller_def updDriver_def updDelivery_def updDispute_def)

lemma absDb_fields [silent]:
  "absDb (s\<lparr>t_deliveries := ds\<rparr>) = absDb s" "absDb (s\<lparr>t_disputes := di\<rparr>) = absDb s"
  "absDb (s\<lparr>t_participants := pa\<rparr>) = absDb s"
  "absDb (s\<lparr>t_issues := is\<rparr>) = absDb s" "absDb (s\<lparr>t_conversations := cv\<rparr>) = absDb s"
  "absDb (s\<lparr>t_catalogOrders := co\<rparr>) = absDb s" "absDb (s\<lparr>t_sellers := se\<rparr>) = absDb s"
  "absDb (s\<lparr>t_drivers := dr\<rparr>) = absDb s" "absDb (s\<lparr>t_wallet := wa\<rparr>) = absDb s"
  "absDb (s\<lparr>t_users := us\<rparr>) = absDb s" "absDb (s\<lparr>t_strikes := st\<rparr>) = absDb s"
  by (simp_all add: absDb_def)

lemma absDb_wallet [silent]:
  "absDb (cancelPending p s) = absDb s" "absDb (insertEntries rows s) = absDb s"
  "absDb (creditForCompletedOrder env oid s) = absDb s"
  "absDb (compensateDriver env oid d a s) = absDb s"
  "absDb (creditSellerEarning env oid d a s) = absDb s"
  "absDb (recordDriverDebt env oid d a s) = absDb s"
  by (simp_all add: absDb_def cancelPending_def compensateDriver_def creditSellerEarning_def
      recordDriverDebt_def creditForCompletedOrder_def insertEntries_def split: option.split)

lemma absDb_suspend: "absDb (suspendUser now u r s) = absDb s"
  by (simp add: suspendUser_def Let_def silent)

lemma absDb_strike [silent]:
  "absDb (snd (addStrike env inp s)) = absDb s" "absDb (immediateExclude env u role r src did oid s) = absDb s"
  by (simp_all add: addStrike_def immediateExclude_def evaluateSuspension_def Let_def split_beta
      absDb_suspend silent)

subsection \<open>The three visible steps\<close>

lemma setOrder_updRow:
  assumes "\<And>r. o_id (f r) = o_id r" and "\<And>r. coreOf (f r) = g (coreOf r)"
  shows "map (\<lambda>r. (o_id r, coreOf r)) (updRow o_id oid f rows) =
    setOrder oid g (map (\<lambda>r. (o_id r, coreOf r)) rows)"
  using assms by (induction rows) (auto simp: updRow_def setOrder_def)

lemma setOrder_same:
  assumes "distinct (map fst os)" and "(oid, r) \<in> set os" and "f r = r"
  shows "setOrder oid f os = os"
proof -
  have "(case x of (i, c) \<Rightarrow> (i, if i = oid then f c else c)) = x" if "x \<in> set os" for x
    using that assms by (auto split: prod.split dest: eq_key_imp_eq_value)
  then show ?thesis by (simp add: setOrder_def map_idI)
qed

lemma getOrder_abs: "getOrder s oid = Some ord \<Longrightarrow> (oid, coreOf ord) \<in> set (sh_orders (absDb s))"
  using getOrder_id [of s oid ord] by (auto simp: absDb_def getOrder_def image_iff dest!: findRow_Some_set)

lemma shiftShelf_stock:
  "map (\<lambda>l. (l_id l, l_portionsLeft l)) (shiftStock g rows) =
    shiftShelf g (map (\<lambda>l. (l_id l, l_portionsLeft l)) rows)"
  by (simp add: shiftStock_def shiftShelf_def o_def)

lemma evolves_refund:
  assumes "e_refundWriteOk env" and "\<forall>p rid. e_refundCreate env p = Inr rid \<longrightarrow> rid \<noteq> []"
  shows "evolves (absDb s) (absDb (refundOrderIfNeeded env oid s))"
proof -
  have "\<exists>ord rid. getOrder s oid = Some ord \<and> \<not> truthy (o_stripeRefundId ord) \<and>
      absDb (refundOrderIfNeeded env oid s) = (absDb s)\<lparr>
        sh_orders := setOrder oid (\<lambda>r. r\<lparr>oc_refund := Some rid\<rparr>) (sh_orders (absDb s)),
        sh_refunds := sh_refunds (absDb s) @ [(oid, rid)]\<rparr> \<or>
      absDb (refundOrderIfNeeded env oid s) = absDb s"
  proof (cases "absDb (refundOrderIfNeeded env oid s) = absDb s")
    case True
    then show ?thesis by blast
  next
    case False
    then obtain ord rid where o: "getOrder s oid = Some ord" "\<not> truthy (o_stripeRefundId ord)"
        "e_refundCreate env (the (o_stripePaymentIntentId ord)) = Inr rid"
        "truthy (o_stripePaymentIntentId ord)"
      by (auto simp: refundOrderIfNeeded_def silent split: option.splits if_splits sum.splits)
    have rid: "rid \<noteq> []" using assms(2) o(3) by blast
    let ?f = "\<lambda>r. r\<lparr>o_stripeRefundId := Some rid, o_refundedAt := Some (e_now env)\<rparr>"
    have "absDb (refundOrderIfNeeded env oid s) =
        absDb (updOrder oid ?f (emit (StripeRefund oid (the (o_stripePaymentIntentId ord)) rid) s))"
      using o assms(1) by (simp add: refundOrderIfNeeded_def Let_def silent)
    moreover have "coreOf (?f r) = (coreOf r)\<lparr>oc_refund := Some rid\<rparr>" for r
      using rid by (simp add: coreOf_def truthy_def)
    then have "map (\<lambda>r. (o_id r, coreOf r)) (updRow o_id oid ?f (t_orders s)) =
        setOrder oid (\<lambda>r. r\<lparr>oc_refund := Some rid\<rparr>) (sh_orders (absDb s))"
      by (simp add: setOrder_updRow [of ?f "\<lambda>r. r\<lparr>oc_refund := Some rid\<rparr>"] absDb_def)
    ultimately show ?thesis using o by (auto simp: absDb_def updOrder_def)
  qed
  then show ?thesis
  proof (elim exE disjE conjE)
    fix ord rid
    assume o: "getOrder s oid = Some ord" "\<not> truthy (o_stripeRefundId ord)"
      and t: "absDb (refundOrderIfNeeded env oid s) = (absDb s)\<lparr>
        sh_orders := setOrder oid (\<lambda>r. r\<lparr>oc_refund := Some rid\<rparr>) (sh_orders (absDb s)),
        sh_refunds := sh_refunds (absDb s) @ [(oid, rid)]\<rparr>"
    have "shelf_step (absDb s) (absDb (refundOrderIfNeeded env oid s))"
      unfolding t using o(2) by (intro Refund [OF getOrder_abs [OF o(1)]]) (simp add: coreOf_def)
    then show ?thesis by (auto simp: evolves_def)
  qed (simp add: evolves_def)
qed

lemma evolves_cancel:
  assumes "getOrder s oid = Some ord" and "\<And>r. o_id (f r) = o_id r"
    and "\<And>r. coreOf (f r) = (coreOf r)\<lparr>oc_restored := True\<rparr>"
  shows "evolves (absDb s) (absDb (updOrder oid f (restock ord s)))"
proof (cases "o_inventoryRestored ord")
  case True
  have "setOrder oid (\<lambda>r. r\<lparr>oc_restored := True\<rparr>) (sh_orders (absDb s)) = sh_orders (absDb s)"
    if "well_kept (absDb s)"
    using that True by (intro setOrder_same [OF _ getOrder_abs [OF assms(1)]]) (auto simp: well_kept_def coreOf_def)
  then have "absDb (updOrder oid f (restock ord s)) = absDb s" if "well_kept (absDb s)"
    using that True setOrder_updRow [of f "\<lambda>r. r\<lparr>oc_restored := True\<rparr>" oid "t_orders s", OF assms(2,3)]
    by (simp add: absDb_def updOrder_def restock_def)
  then show ?thesis by (simp add: evolves_def)
next
  case False
  have "absDb (updOrder oid f (restock ord s)) = (absDb s)\<lparr>
      sh_stock := shiftShelf (wantedOf (oc_lines (coreOf ord))) (sh_stock (absDb s)),
      sh_orders := setOrder oid (\<lambda>r. r\<lparr>oc_restored := True\<rparr>) (sh_orders (absDb s))\<rparr>"
    using False setOrder_updRow [of f "\<lambda>r. r\<lparr>oc_restored := True\<rparr>" oid "t_orders s", OF assms(2,3)]
    by (simp add: absDb_def updOrder_def restock_def restoreInventory_shift shiftShelf_stock coreOf_def)
  moreover have "\<not> oc_restored (coreOf ord)" using False by (simp add: coreOf_def)
  ultimately have "shelf_step (absDb s) (absDb (updOrder oid f (restock ord s)))"
    using Give_Back [OF getOrder_abs [OF assms(1)]] by simp
  then show ?thesis by (auto simp: evolves_def)
qed

lemma coreOf_cancelRow [simp]: "coreOf (cancelRow now why r) = (coreOf r)\<lparr>oc_restored := True\<rparr>"
  by (simp add: cancelRow_def coreOf_def)

lemma cancelRow_id [simp]: "o_id (cancelRow now why r) = o_id r"
  by (simp add: cancelRow_def)

lemma evolves_cancelRow:
  "getOrder s oid = Some ord \<Longrightarrow> evolves (absDb s) (absDb (updOrder oid (cancelRow now why) (restock ord s)))"
  by (rule evolves_cancel) simp_all

lemma coreOf_upd [simp]:
  "coreOf (r\<lparr>o_status := st\<rparr>) = coreOf r" "coreOf (r\<lparr>o_confirmedAt := t\<rparr>) = coreOf r"
  "coreOf (r\<lparr>o_readyAt := t\<rparr>) = coreOf r" "coreOf (r\<lparr>o_fulfillmentChoice := ch\<rparr>) = coreOf r"
  "coreOf (r\<lparr>o_cancelledAt := t\<rparr>) = coreOf r" "coreOf (r\<lparr>o_cancellationReason := w\<rparr>) = coreOf r"
  "coreOf (r\<lparr>o_stripePaymentIntentId := p\<rparr>) = coreOf r"
  by (simp_all add: coreOf_def)

text \<open>A cancellation followed by a refund, which is how most paths end.\<close>

lemma evolves_cancel_refund:
  assumes "e_refundWriteOk env" and "\<forall>p rid. e_refundCreate env p = Inr rid \<longrightarrow> rid \<noteq> []"
    and "evolves (absDb s) (absDb t)"
  shows "evolves (absDb s) (absDb (refundOrderIfNeeded env oid t))"
  by (rule evolves_trans [OF assms(3) evolves_refund [OF assms(1,2)]])

definition honest :: "env \<Rightarrow> bool" where
  "honest env \<longleftrightarrow> \<not> e_isDev env \<and> e_refundWriteOk env \<and>
     (\<forall>p rid. e_refundCreate env p = Inr rid \<longrightarrow> rid \<noteq> [])"

lemma evolves_refund_after:
  "honest env \<Longrightarrow> evolves c (absDb t) \<Longrightarrow> evolves c (absDb (refundOrderIfNeeded env oid t))"
  by (rule evolves_trans [OF _ evolves_refund]) (simp_all add: honest_def)

subsection \<open>Placing an order\<close>

lemma absDb_untouched: "untouched s t \<Longrightarrow> absDb t = absDb s"
  by (simp add: untouched_def absDb_def)

lemma absDb_terms [silent]: "absDb (recordTermsAcceptance u s) = absDb s"
  using recordTermsAcceptance_eq [of u s] by (auto simp: absDb_def)

lemma absDb_pay:
  assumes "payOrder env ord s = (r, t)"
  shows "absDb t = absDb s"
proof -
  have "absDb (backfillPaymentIntent env i p x) = absDb x" for i p x
    by (simp add: backfillPaymentIntent_def silent)
  then show ?thesis
    using assms by (auto simp: payOrder_def finishOrder_def Let_def fail_eq_iff ok_eq_iff silent
        split: sum.splits if_splits)
qed

lemma evolves_place:
  assumes "placeOrder env b cart d dto tot s = (Inr ord, t)" and "\<not> e_isDev env"
    and "\<forall>it \<in> set (c_items dto). 1 \<le> ci_quantity it" and "getOrder s (e_ulid env ForOrder) = None"
  shows "evolves (absDb s) (absDb t)"
  unfolding evolves_def
proof
  assume w: "well_kept (absDb s)"
  then have dist: "distinct (map l_id (t_listings s))" by (simp add: well_kept_def absDb_def o_def)
  let ?ls = "stockLines (c_items dto)"
  from assms(1) obtain table where dec: "atomicDecrementInventory (e_isDev env)
      (\<lambda>i. map_option l_name (findRow l_id i (ca_listings cart))) ?ls (t_listings s) = Inr table"
    and ord: "ord = newOrder env b cart d dto tot table"
    and t: "t = s\<lparr>t_listings := table, t_orders := t_orders s @ [ord]\<rparr>"
    by (rule placeOrder_Inr)
  from dec assms(2) have loop: "(\<forall>x \<in> set (aggregate ?ls). \<exists>l \<in> set (t_listings s). hasStock (fst x) (snd x) l)"
    and table: "table = shiftStock (\<lambda>i. - wantedOf ?ls i) (t_listings s)"
    using decrementLoop_prod [OF distinct_aggregate dist] by (simp_all add: atomicDecrementInventory_def)
  have core: "coreOf ord = \<lparr>oc_lines = ?ls, oc_restored = False, oc_refund = None\<rparr>"
    by (simp add: coreOf_def ord) (simp add: newOrder_def truthy_def)
  have "shelf_step (absDb s) ((absDb s)\<lparr>
      sh_stock := shiftShelf (\<lambda>i. - wantedOf ?ls i) (sh_stock (absDb s)),
      sh_orders := sh_orders (absDb s) @ [(o_id ord, \<lparr>oc_lines = ?ls, oc_restored = False, oc_refund = None\<rparr>)]\<rparr>)"
  proof (rule Place)
    show "o_id ord \<notin> fst ` set (sh_orders (absDb s))"
      using assms(4) by (auto simp: ord absDb_def getOrder_def findRow_None_iff)
    show "\<forall>x \<in> set ?ls. 1 \<le> snd x" using assms(3) by (auto simp: stockLines_def)
    show "\<forall>i \<in> fst ` set ?ls. \<exists>n. (i, Some n) \<in> set (sh_stock (absDb s)) \<and> wantedOf ?ls i \<le> n"
    proof
      fix i assume "i \<in> fst ` set ?ls"
      then have "(i, wantedOf ?ls i) \<in> set (aggregate ?ls)" by (simp add: aggregate_iff)
      with loop obtain l where l: "l \<in> set (t_listings s)" "hasStock i (wantedOf ?ls i) l" by fastforce
      from l(2) obtain n where "l_id l = i" "l_portionsLeft l = Some n" "wantedOf ?ls i \<le> n"
        by (auto simp: hasStock_def split: option.splits)
      with l(1) show "\<exists>n. (i, Some n) \<in> set (sh_stock (absDb s)) \<and> wantedOf ?ls i \<le> n"
        by (intro exI [of _ n]) (auto simp: absDb_def image_iff intro!: bexI [of _ l])
    qed
  qed
  also have "(absDb s)\<lparr>sh_stock := shiftShelf (\<lambda>i. - wantedOf ?ls i) (sh_stock (absDb s)),
      sh_orders := sh_orders (absDb s) @ [(o_id ord, \<lparr>oc_lines = ?ls, oc_restored = False, oc_refund = None\<rparr>)]\<rparr>
    = absDb t"
    by (simp add: t absDb_def table shiftShelf_stock core)
  finally show "shelf_step\<^sup>*\<^sup>* (absDb s) (absDb t)" by blast
qed

lemma evolves_createOrder:
  assumes "honest env" and "\<forall>it \<in> set (c_items dto). 1 \<le> ci_quantity it"
    and "getOrder s (e_ulid env ForOrder) = None"
  shows "evolves (absDb s) (absDb (snd (createOrder env u dto s)))"
proof -
  obtain r s' where run: "createOrder env u dto s = (r, s')" by force
  then show ?thesis
  proof (rule createOrder_result)
    fix e assume "untouched s s'"
    with run show ?thesis by (simp add: absDb_untouched)
  next
    fix buyer cart dropoff totals s1 ord s2
    assume u: "untouched s s1" and p: "placeOrder env (u_id buyer) cart dropoff dto totals s1 = (Inr ord, s2)"
      and pay: "payOrder env ord (recordTermsAcceptance (u_id buyer) s2) = (r, s')"
    have "getOrder s1 (e_ulid env ForOrder) = None" using assms(3) u by (simp add: getOrder_def untouched_def)
    with p assms(1,2) have "evolves (absDb s1) (absDb s2)" by (intro evolves_place) (simp_all add: honest_def)
    with run absDb_untouched [OF u] absDb_pay [OF pay] show ?thesis by (simp add: silent)
  qed
qed

subsection \<open>Requests that neither place, give back nor refund\<close>

lemma absDb_find [silent]: "absDb (snd (findOrderWithRelations oid s)) = absDb s"
  by (simp add: findOrderWithRelations_def split: option.split)

lemma absDb_load [silent]: "absDb (snd (loadDelivery did s)) = absDb s"
  by (simp add: loadDelivery_def split: option.split)

lemma absDb_deliver [silent]: "absDb (deliverOrder oid s) = absDb s"
  "absDb (releaseFundsForCompletedOrder env oid s) = absDb s"
  by (simp_all add: deliverOrder_def releaseFundsForCompletedOrder_def silent)

lemma absDb_confirmDelivered [silent]: "absDb (snd (confirmDeliveredByDriver env oid s)) = absDb s"
  by (simp add: confirmDeliveredByDriver_def Let_def silent split: option.split)

lemma absDb_transition [silent]:
  assumes "\<And>r. o_id (ts r) = o_id r" and "\<And>r. coreOf (ts r) = coreOf r"
  shows "absDb (snd (transitionAsSeller u oid from to ts s)) = absDb s"
  using assms by (simp add: transitionAsSeller_def split_beta silent split: sum.split)

lemma absDb_orders [silent]:
  "absDb (snd (confirmPaymentForBuyer env u oid s)) = absDb s"
  "absDb (snd (startPreparing u oid s)) = absDb s"
  "absDb (snd (markReady env u oid s)) = absDb s"
  "absDb (snd (getSellerPickupQr env u oid s)) = absDb s"
  "absDb (snd (getBuyerDeliveryQr env u oid s)) = absDb s"
  "absDb (snd (confirmPickup env u oid s)) = absDb s"
  by (simp_all add: confirmPaymentForBuyer_def confirmOrderPaid_def startPreparing_def snd_bindR markReady_def
      getSellerPickupQr_def getBuyerDeliveryQr_def confirmPickup_def Let_def split_beta silent
      split: option.split sum.split)

lemma absDb_ensureConversation [silent]: "absDb (snd (ensureSellerDriverConversation env oid v s)) = absDb s"
  by (simp add: ensureSellerDriverConversation_def silent split: option.split)

lemma absDb_approve [silent]: "absDb (approveKyc v s) = absDb s" "absDb (snd (claimUpdate env v did s)) = absDb s"
  by (simp_all add: approveKyc_def claimUpdate_def silent)

lemma absDb_drivers [silent]:
  "absDb (snd (setOnline env u b x y s)) = absDb s"
  "absDb (snd (claim env u did s)) = absDb s"
  "absDb (snd (arriveAtPickup u did s)) = absDb s"
  "absDb (snd (confirmDriverPickup env u did dto s)) = absDb s"
  by (simp_all add: setOnline_def claim_def arriveAtPickup_def transitionDelivery_def confirmDriverPickup_def
      snd_bindR Let_def split_beta silent split: option.split sum.split)

lemma absDb_dropoffs [silent]:
  "absDb (snd (recordLocation env u lat lng s)) = absDb s"
  "absDb (snd (confirmDelivery env u did dto' s)) = absDb s"
  "absDb (snd (confirmAbsentDropoff env u did ab s)) = absDb s"
  "absDb (snd (reportIssue env u did iss s)) = absDb s"
  by (simp_all add: recordLocation_def confirmDelivery_def confirmAbsentDropoff_def absentNotify_def
      reportIssue_def snd_bindR Let_def split_beta silent split: option.split sum.split)

lemma absDb_admin [silent]:
  "absDb (snd (adminRejectDispute env i n s)) = absDb s"
  "absDb (snd (adminResolveDispute env i n s)) = absDb s"
  "absDb (snd (adminConfirmAllergenViolation env i n s)) = absDb s"
  "absDb (snd (adminConfirmFraudulentChargeback env i n s)) = absDb s"
  by (simp_all add: adminRejectDispute_def adminResolveDispute_def adminConfirmAllergenViolation_def
      adminConfirmFraudulentChargeback_def returnDispute_def notifyDisputeParties_def Let_def silent
      split: sum.split)

lemma absDb_withdraw [silent]:
  "absDb (snd (payWithdrawal env plan s)) = absDb s" "absDb (snd (requestWithdrawal env u s)) = absDb s"
  by (simp_all add: payWithdrawal_def requestWithdrawal_def settleWithdrawal_def silent split: sum.split)

lemma refundOf_pushes: "concat (map refundOf (map (\<lambda>u. Push [u] k []) us)) = []"
  by (induction us) simp_all

lemma absDb_sweep [silent]: "absDb (processWalletSweep env s) = absDb s"
  using refundOf_pushes by (simp add: processWalletSweep_def releaseDuePendingEntries_def Let_def absDb_def)

lemma absDb_unsuspend [silent]: "absDb (unsuspendUser u s) = absDb s"
  by (simp add: unsuspendUser_def silent)

lemma absDb_noDriver [silent]: "absDb (handleNoDriverTimeout env oid s) = absDb s"
  by (simp add: handleNoDriverTimeout_def Let_def silent split: option.split)

lemma absDb_cancelDelivery [silent]: "absDb (cancelDelivery env why did s) = absDb s"
  by (simp add: cancelDelivery_def silent)

lemma absDb_switch [silent]: "absDb (switchOrderToPickup env ord dlv s) = absDb s"
  by (simp add: switchOrderToPickup_def Let_def silent split: option.split)

subsection \<open>Requests that cancel or refund\<close>

lemma evolves_commitCancel:
  assumes "honest env"
  shows "evolves (absDb s) (absDb (snd (commitCancelAsSeller env sel oid why s)))"
proof (cases "getOrder s oid")
  case None
  then have "transaction (cancelAsSellerTx env oid why) s = fail (NotFound AnOrder) s"
    by (intro transaction_fail) (simp add: cancelAsSellerTx_def)
  then show ?thesis by (simp add: commitCancelAsSeller_def)
next
  case (Some ord)
  define t where "t = (if o_status ord \<notin> set cancellableFrom then s
    else updOrder oid (cancelRow (e_now env) why) (restock ord s))"
  have "transaction (cancelAsSellerTx env oid why) s = ok () t"
    using Some by (intro transaction_ok) (simp add: cancelAsSellerTx_def t_def)
  moreover have "evolves (absDb s) (absDb t)"
    using evolves_cancelRow [OF Some] by (simp add: t_def)
  ultimately show ?thesis
    by (simp add: commitCancelAsSeller_def Let_def silent evolves_refund_after [OF assms])
qed

lemma evolves_cannotProvide:
  assumes "honest env"
  shows "evolves (absDb s) (absDb (snd (sellerCannotProvide env u oid dto s)))"
proof -
  have "evolves (absDb s) (absDb (cannotProvideTx env ord dlv s))" if "getOrder s oid = Some ord" for ord dlv
    using evolves_cancelRow [OF that] getOrder_id [OF that]
    by (simp add: cannotProvideTx_def Let_def silent split: option.split)
  moreover have "absDb (cannotProvideNotify ord dlv x) = absDb x" for ord dlv x
    by (simp add: cannotProvideNotify_def Let_def silent split: option.split)
  ultimately show ?thesis
    by (simp add: sellerCannotProvide_def Let_def silent evolves_refund_after [OF assms]
        split: option.split sum.split)
qed

lemma evolves_noDriverOrder:
  assumes "honest env"
  shows "evolves (absDb s) (absDb (cancelNoDriverOrder env oid why s))"
proof (cases "getOrder s oid")
  case (Some ord)
  define t where "t = (case latestDelivery s oid of
      None \<Rightarrow> updOrder oid (cancelRow (e_now env) why) (restock ord s)
    | Some d \<Rightarrow> cancelDelivery env why (d_id d) (updOrder oid (cancelRow (e_now env) why) (restock ord s)))"
  have "evolves (absDb s) (absDb t)"
    using evolves_cancelRow [OF Some] by (simp add: t_def silent split: option.split)
  with Some show ?thesis
    by (simp add: cancelNoDriverOrder_def Let_def silent t_def evolves_refund_after [OF assms])
qed (simp add: cancelNoDriverOrder_def)

lemma evolves_noDriver:
  assumes "honest env"
  shows "evolves (absDb s) (absDb (autoCancelNoResponse env oid s))"
    and "evolves (absDb s) (absDb (snd (decideNoDriver env u oid dec s)))"
  using evolves_noDriverOrder [OF assms, of "clearTimer (noDriverResponseKey oid) s"] evolves_noDriverOrder [OF assms]
  by (simp_all add: autoCancelNoResponse_def decideNoDriver_def Let_def silent
      split: option.split no_driver_decision.split)

lemma evolves_disappeared:
  assumes "honest env"
  shows "evolves (absDb s) (absDb (handleDriverDeliveryTimeout env did s))"
proof -
  have "absDb (disappearedTx env oid did s) = absDb s" for oid
    by (simp add: disappearedTx_def failDelivery_def silent)
  moreover have "absDb (notifyDisappeared ord did v x) = absDb x" for ord v x
    by (simp add: notifyDisappeared_def Let_def silent split: option.split)
  moreover have "evolves (absDb x) (absDb (settleDisappeared env ord did v x))" for ord v x
    by (simp add: settleDisappeared_def Let_def silent evolves_refund_after [OF assms] split: option.split)
  ultimately show ?thesis
    by (simp add: handleDriverDeliveryTimeout_def resolveDriverDisappeared_def Let_def split: option.split)
      metis
qed

lemma evolves_unavailable:
  assumes "honest env"
  shows "evolves (absDb s) (absDb (snd (cancelForSellerUnavailable env oid v s)))"
proof (cases "getOrder s oid")
  case (Some ord)
  show ?thesis
    using Some by (simp add: cancelForSellerUnavailable_def Let_def silent
        evolves_refund_after [OF assms evolves_cancelRow [OF Some]])
qed (simp add: cancelForSellerUnavailable_def)

lemma evolves_report:
  assumes "honest env"
  shows "evolves (absDb s) (absDb (snd (reportSellerUnavailable env u did dto s)))"
  using evolves_unavailable [OF assms, of "updDelivery did (unavailableRow env dto) s"]
  by (simp add: reportSellerUnavailable_def snd_bindR Let_def silent split_beta split: option.split sum.split)

lemma evolves_refundForDispute:
  assumes "honest env"
  shows "evolves c (absDb s) \<Longrightarrow> evolves c (absDb (refundForDispute env oid s))"
  by (simp add: refundForDispute_def silent evolves_refund_after [OF assms])

lemma evolves_dispute:
  assumes "honest env"
  shows "evolves (absDb s) (absDb (snd (createDispute env u oid dto s)))"
    and "evolves (absDb s) (absDb (snd (adminApproveRefund env i n s)))"
proof -
  have "absDb (notifyDisputeParties b v o' ty x) = absDb x" for b v o' ty x
    by (simp add: notifyDisputeParties_def Let_def silent)
  then show "evolves (absDb s) (absDb (snd (createDispute env u oid dto s)))"
    and "evolves (absDb s) (absDb (snd (adminApproveRefund env i n s)))"
    by (simp_all add: createDispute_def fileDispute_def adminApproveRefund_def returnDispute_def Let_def silent
        evolves_refundForDispute [OF assms] split: option.split sum.split)
qed

lemma evolves_stripe: "evolves (absDb s) (absDb (snd (handleEvent env retrieve evt s)))"
proof -
  have bf: "coreOf (backfillPi p r) = coreOf r" for p r by (simp add: backfillPi_def)
  have paid: "absDb (handlePaymentIntentSucceeded env x s) = absDb s" for x
    by (simp add: handlePaymentIntentSucceeded_def markCatalogOrderPaid_def Let_def silent bf split: option.split)
  have "evolves (absDb s) (absDb (paymentFailedTx env x oid s))" for x oid
  proof (cases "getOrder s oid")
    case (Some ord)
    then show ?thesis by (simp add: paymentFailedTx_def evolves_cancel [OF Some] bf)
  qed (simp add: paymentFailedTx_def)
  then have failed: "evolves (absDb s) (absDb (handlePaymentIntentFailed env x s))" for x
    by (simp add: handlePaymentIntentFailed_def markCatalogOrderFailed_def silent split: option.split)
  have sub: "absDb (applySubscriptionState x s) = absDb s" for x
    by (simp add: applySubscriptionState_def silent split: option.split)
  show ?thesis
    by (cases evt) (simp_all add: paid failed sub handleAccountUpdated_def updateSellerOnboarding_def
        updateDriverOnboarding_def handleChargeDispute_def handleCheckoutCompleted_def refreshSubscription_def
        Let_def silent split: option.split)
qed

subsection \<open>The simulation\<close>

lemma evolves_jobs:
  assumes "honest env"
  shows "evolves (absDb s) (absDb (processTimerJob env job s))"
  by (simp add: processTimerJob_def silent evolves_noDriver(1) [OF assms] evolves_disappeared [OF assms])

lemma evolves_timer:
  assumes "honest env"
  shows "evolves (absDb s) (absDb (autoCancelNoResponse env oid (clearTimer k s)))"
    and "evolves (absDb s) (absDb (handleDriverDeliveryTimeout env oid (clearTimer k s)))"
  using evolves_noDriver(1) [OF assms, of "clearTimer k s"] evolves_disappeared [OF assms, of "clearTimer k s"]
  by (simp_all add: silent)

lemma evolves_exec:
  assumes "legal env r s"
  shows "evolves (absDb s) (absDb (exec env r s))"
proof -
  from assms have h: "honest env" and id: "getOrder s (e_ulid env ForOrder) = None" and v: "validRequest r"
    by (auto simp: legal_def honest_def)
  show ?thesis
  proof (cases r)
    case (OrderReq q)
    show ?thesis
    proof (cases q)
      case (CreateOrder u dto)
      with v OrderReq have "\<forall>it \<in> set (c_items dto). 1 \<le> ci_quantity it" by (simp add: list_all_iff)
      with CreateOrder OrderReq evolves_createOrder [OF h _ id] show ?thesis by simp
    next
      case (CancelAsSeller u oid why)
      with OrderReq evolves_commitCancel [OF h] show ?thesis
        by (simp add: cancelAsSeller_def split: sum.split)
    qed (simp_all add: OrderReq silent evolves_commitCancel [OF h] evolves_cannotProvide [OF h] evolves_noDriver [OF h])
  next
    case (DisputeReq q)
    then show ?thesis by (cases q) (simp_all add: silent evolves_dispute [OF h])
  next
    case (DriverReq q)
    then show ?thesis by (cases q) (simp_all add: silent evolves_report [OF h])
  next
    case (Background q)
    then show ?thesis
      by (cases q) (simp_all add: silent fireNoDriver_def fireNoDriverResponse_def fireDriverDelivery_def
          evolves_stripe evolves_jobs [OF h] evolves_timer [OF h])
  qed
qed


lemma shelf_open_shop: "shelf_open (\<lambda>_. 5) (absDb shop_db)"
  by (simp add: shelf_open_def absDb_def shop_db_def payout_db_def empty_db_def demo_listing_def)

lemma demo_legal:
  assumes "validRequest r" and "getOrder s ''o'' = None"
  shows "legal demo_env r s"
  using assms by (simp add: legal_def) (simp add: demo_env_def)


interpretation sys: inductive_invariant "\<lambda>s. shelf_open K (absDb s)" sys_step "\<lambda>s. shelf_inv K (absDb s)" for K
proof
  show "shelf_inv K (absDb s)" if "shelf_open K (absDb s)" for s using that by (rule shelf_open_inv)
  show "shelf_inv K (absDb t)" if "shelf_inv K (absDb s)" "sys_step s t" for s t
    using that(2)
  proof cases
    case (Request env r)
    with that(1) evolves_exec have "shelf_step\<^sup>*\<^sup>* (absDb s) (absDb t)"
      by (auto simp: evolves_def shelf_inv_def)
    with that(1) show ?thesis by (rule shelf.run_inv)
  qed
qed

text \<open>The portions of a listing that orders hold which have not given them back.\<close>

definition heldBy :: "db \<Rightarrow> id \<Rightarrow> int" where
  "heldBy s i = sum_list (map (\<lambda>r. wantedOf (linesOf (o_items r)) i)
     (filter (\<lambda>r. \<not> o_inventoryRestored r) (t_orders s)))"

lemma onLoan_heldBy: "onLoan (absDb s) i = heldBy s i"
proof -
  have "sum_list (map (\<lambda>r. if p r then 0 else g r) xs) = sum_list (map g (filter (\<lambda>r. \<not> p r) xs))"
    for p and g :: "order_row \<Rightarrow> int" and xs by (induction xs) simp_all
  then show ?thesis by (simp add: onLoan_def heldBy_def absDb_def coreOf_def o_def)
qed


lemma shop_step: "sys_step shop_db (exec demo_env (OrderReq (CreateOrder ''bb'' demo_dto)) shop_db)"
proof -
  have "getOrder shop_db ''o'' = None" by code_simp
  moreover have "validRequest (OrderReq (CreateOrder ''bb'' demo_dto))" by code_simp
  ultimately show ?thesis by (intro Request demo_legal)
qed



subsection \<open>A cancelled and refunded order that is paid out\<close>

text \<open>
  A run of the real handlers from a shop without orders: a delivery order is placed, paid,
  cooked and announced; the seller cancels it, which refunds the buyer; its search is still
  open, so a driver claims it, scans both codes and delivers.
\<close>

definition later_env :: env where
  "later_env = demo_env\<lparr>e_ulid := (\<lambda>p. if p = ForOrder then ''next'' else e_ulid demo_env p), e_now := 10\<rparr>"

definition delivery_dto :: create_order_dto where
  "delivery_dto = demo_dto\<lparr>c_fulfillmentChoice := F_Delivery,
     c_dropoffAddress := Some \<lparr>ad_type = None, ad_customLabel = None, ad_fullAddress = ''1 rue A'',
       ad_city = ''Lyon'', ad_postalCode = None, ad_apartment = None, ad_floor = None, ad_digicode = None,
       ad_deliveryNotes = None, ad_lat = Some (JNum 1), ad_lng = Some (JNum 1)\<rparr>\<rparr>"

definition clean_shop :: db where
  "clean_shop = shop_db\<lparr>t_wallet := []\<rparr>"

definition resurrection :: "(env \<times> request) list" where
  "resurrection =
    [(demo_env, OrderReq (CreateOrder ''bb'' delivery_dto)),
     (later_env, OrderReq (ConfirmPayment ''bb'' ''o'')),
     (later_env, OrderReq (StartPreparing ''sb'' ''o'')),
     (later_env, OrderReq (MarkReady ''sb'' ''o'')),
     (later_env, OrderReq (CancelAsSeller ''sb'' ''o'' ''closed'')),
     (later_env, DriverReq (ClaimDelivery ''vb'' ''d'')),
     (later_env, DriverReq (ScanPickup ''vb'' ''d'' (scan ''tok''))),
     (later_env, DriverReq (ScanDelivery ''vb'' ''d'' (scan ''tok'')))]"

fun runAll :: "(env \<times> request) list \<Rightarrow> db \<Rightarrow> db" where
  "runAll [] s = s"
| "runAll ((env, r) # rs) s = runAll rs (exec env r s)"

fun legalAll :: "(env \<times> request) list \<Rightarrow> db \<Rightarrow> bool" where
  "legalAll [] s = True"
| "legalAll ((env, r) # rs) s = (validRequest r \<and> getOrder s (e_ulid env ForOrder) = None \<and>
     legalAll rs (exec env r s))"

lemma runAll_steps:
  assumes "legalAll rs s" and "\<forall>(env, r) \<in> set rs. honest env"
  shows "sys_step\<^sup>*\<^sup>* s (runAll rs s)"
  using assms
proof (induction rs s rule: runAll.induct)
  case (2 env r rs s)
  then have "legal env r s" by (simp add: legal_def honest_def)
  then have "sys_step s (exec env r s)" by (rule Request)
  with 2 show ?case by (auto intro: converse_rtranclp_into_rtranclp)
qed simp

lemma demo_honest: "honest demo_env" "honest later_env"
  by (simp_all add: honest_def later_env_def) (simp_all add: demo_env_def)

lemma resurrection_runs: "sys_step\<^sup>*\<^sup>* clean_shop (runAll resurrection clean_shop)"
proof (rule runAll_steps)
  show "legalAll resurrection clean_shop" by code_simp
  show "\<forall>(env, r) \<in> set resurrection. honest env" by (simp add: resurrection_def demo_honest)
qed

text \<open>The columns of the end state that the property below reads, evaluated once.\<close>

definition outcome :: "db \<Rightarrow> order_status option \<times> bool option \<times> bool \<times> (id \<times> wallet_type \<times> wallet_status) list" where
  "outcome s = (map_option o_status (getOrder s ''o''), map_option o_inventoryRestored (getOrder s ''o''),
     StripeRefund ''o'' ''pi'' ''re'' \<in> set (out s), map (\<lambda>e. (w_userId e, w_type e, w_status e)) (t_wallet s))"

lemma resurrection_outcome: "outcome (runAll resurrection clean_shop) = (Some O_Delivered, Some True, True,
    [(''s'', WT_OrderEarning, WS_Pending), (''PLATFORM'', WT_Commission, WS_Available),
     (''v'', WT_DeliveryEarning, WS_Pending)])"
  by code_simp



end
