(* ===== verification/Idempotency.thy ===== *)
theory Idempotency
  imports Orders_Create
begin

section \<open>Idempotency keys and the order endpoint\<close>

text \<open>
  \<open>src/common/services/idempotency.service.ts\<close> and the handler of \<open>POST /v1/orders\<close> in
  \<open>src/modules/orders/orders.controller.ts\<close>. A response is stored under the user and the
  key with a hash of the request body; a repeated request gets the stored response, a
  different body under the same key is refused. The digest of \<open>node:crypto\<close>, the JSON text
  of a body and the JSON text of a response are parameters of the definitions.
\<close>

definition TTL_HOURS :: int where
  "TTL_HOURS = 24"

text \<open>\<open>hashBody\<close>: the digest of \<open>JSON.stringify(body ?? null)\<close>.\<close>

definition hashBody :: "(string \<Rightarrow> string) \<Rightarrow> string option \<Rightarrow> string" where
  "hashBody sha body = sha (case body of None \<Rightarrow> ''null'' | Some text \<Rightarrow> text)"

definition resolveUserId :: "id \<Rightarrow> db \<Rightarrow> exn + id" where
  "resolveUserId supabaseId s =
    (case getUserBySupabase s supabaseId of
       None \<Rightarrow> Inl (NotFound UserProfile) | Some u \<Rightarrow> Inr (u_id u))"

text \<open>\<open>findUnique\<close> on \<open>(userId, key)\<close>.\<close>

definition findKey :: "id \<Rightarrow> string \<Rightarrow> db \<Rightarrow> idempotency_row option" where
  "findKey userId key s =
    findRow (\<lambda>r. (ik_userId r, ik_key r)) (userId, key) (t_idempotency s)"

definition idem_get :: "(string \<Rightarrow> string) \<Rightarrow> id \<Rightarrow> string \<Rightarrow> string option \<Rightarrow> db
    \<Rightarrow> exn + (int \<times> string) option" where
  "idem_get sha supabaseId key body s =
    (case resolveUserId supabaseId s of Inl e \<Rightarrow> Inl e | Inr userId \<Rightarrow>
     (case findKey userId key s of
        None \<Rightarrow> Inr None
      | Some existing \<Rightarrow>
          if ik_requestHash existing \<noteq> hashBody sha body
          then Inl (Conflict (Account IdempotencyKeyReused))
          else Inr (Some (ik_responseStatus existing, ik_responseBody existing))))"

definition idem_save :: "(string \<Rightarrow> string) \<Rightarrow> env \<Rightarrow> id \<Rightarrow> string \<Rightarrow> string option \<Rightarrow> int \<Rightarrow> string
    \<Rightarrow> db \<Rightarrow> (exn, unit, db) result" where
  "idem_save sha env supabaseId key body status response s =
    (case resolveUserId supabaseId s of Inl e \<Rightarrow> fail e s | Inr userId \<Rightarrow>
     if findKey userId key s \<noteq> None then fail PrismaConflict s
     else ok () (s\<lparr>t_idempotency := t_idempotency s @
       [\<lparr>ik_id = e_ulid env ForIdempotency, ik_userId = userId, ik_key = key,
         ik_requestHash = hashBody sha body, ik_responseStatus = status,
         ik_responseBody = response,
         ik_expiresAt = e_now env + TTL_HOURS * 3600 * 1000\<rparr>]\<rparr>))"

text \<open>
  The handler of \<open>POST /v1/orders\<close>. \<open>stringify\<close> is the JSON text of the DTO, \<open>render\<close> that of
  the response it builds from the order and the client secret.
\<close>

record idem_codec =
  ic_sha :: "string \<Rightarrow> string"
  ic_stringify :: "create_order_dto \<Rightarrow> string"
  ic_render :: "order_row \<times> string \<Rightarrow> string"

text \<open>What the handler does after the store had no answer.\<close>

definition ordersCreateWork :: "idem_codec \<Rightarrow> env \<Rightarrow> id \<Rightarrow> string \<Rightarrow> create_order_dto \<Rightarrow> db
    \<Rightarrow> (exn, string, db) result" where
  "ordersCreateWork cod env supabaseId key dto s =
    bindR (createOrder env supabaseId dto s) (\<lambda>created s.
      let response = ic_render cod created in
      bindR (idem_save (ic_sha cod) env supabaseId key (Some (ic_stringify cod dto)) 201 response s)
        (\<lambda>_ s. ok response s))"

definition ordersCreate :: "idem_codec \<Rightarrow> env \<Rightarrow> id \<Rightarrow> string option \<Rightarrow> create_order_dto \<Rightarrow> db
    \<Rightarrow> (exn, string, db) result" where
  "ordersCreate cod env supabaseId header dto s =
    (if \<not> truthy header then fail (BadRequest (Account IdempotencyKeyRequired)) s
     else bindR (liftE (idem_get (ic_sha cod) supabaseId (the header)
                   (Some (ic_stringify cod dto)) s) s) (\<lambda>cached s.
         case cached of
           Some (_, response) \<Rightarrow> ok response s
         | None \<Rightarrow> ordersCreateWork cod env supabaseId (the header) dto s))"

subsection \<open>What the store promises\<close>

lemma findKey_snoc:
  "findKey u k (s\<lparr>t_idempotency := t_idempotency s @ [r]\<rparr>) =
    (case findKey u k s of Some q \<Rightarrow> Some q
     | None \<Rightarrow> if ik_userId r = u \<and> ik_key r = k then Some r else None)"
  by (simp add: findKey_def findRow_append split: option.split)

lemma resolve_idem [simp]: "resolveUserId sb (s\<lparr>t_idempotency := x\<rparr>) = resolveUserId sb s"
  by (simp add: resolveUserId_def getUserBySupabase_def)

lemma idem_save_Inr:
  assumes "idem_save sha env sb key body st resp s = (Inr u, t)"
  obtains uid where "resolveUserId sb s = Inr uid" "findKey uid key s = None"
    "t = s\<lparr>t_idempotency := t_idempotency s @
       [\<lparr>ik_id = e_ulid env ForIdempotency, ik_userId = uid, ik_key = key,
         ik_requestHash = hashBody sha body, ik_responseStatus = st, ik_responseBody = resp,
         ik_expiresAt = e_now env + TTL_HOURS * 3600 * 1000\<rparr>]\<rparr>"
  using assms by (auto simp: idem_save_def fail_eq_iff ok_eq_iff split: sum.splits if_splits)

lemma idem_get_after_save_same:
  "idem_save sha env sb key body st resp s = (Inr u, t) \<Longrightarrow>
   idem_get sha sb key body t = Inr (Some (st, resp))"
  by (erule idem_save_Inr) (simp add: idem_get_def findKey_snoc)

text \<open>A response that was saved is what a repeated request reads back, and the same key
  with a body of another hash is refused; every other key of every user reads as before.\<close>

theorem idem_get_after_save:
  assumes "idem_save sha env sb key body st resp s = (Inr u, t)"
  shows "idem_get sha sb key body t = Inr (Some (st, resp)) \<and>
    (hashBody sha body' \<noteq> hashBody sha body \<longrightarrow>
      idem_get sha sb key body' t = Inl (Conflict (Account IdempotencyKeyReused))) \<and>
    (key' \<noteq> key \<longrightarrow> idem_get sha sb' key' body' t = idem_get sha sb' key' body' s)"
proof -
  obtain uid where save: "resolveUserId sb s = Inr uid" "findKey uid key s = None"
    "t = s\<lparr>t_idempotency := t_idempotency s @
       [\<lparr>ik_id = e_ulid env ForIdempotency, ik_userId = uid, ik_key = key,
         ik_requestHash = hashBody sha body, ik_responseStatus = st, ik_responseBody = resp,
         ik_expiresAt = e_now env + TTL_HOURS * 3600 * 1000\<rparr>]\<rparr>"
    by (rule idem_save_Inr [OF assms])
  have "idem_get sha sb key body' t = Inl (Conflict (Account IdempotencyKeyReused))"
    if "hashBody sha body' \<noteq> hashBody sha body"
    using save that by (auto simp: idem_get_def findKey_snoc)
  moreover have "idem_get sha sb' key' body' t = idem_get sha sb' key' body' s" if "key' \<noteq> key"
    using that unfolding save(3) idem_get_def findKey_snoc
    by (auto split: sum.split option.split)
  ultimately show ?thesis
    using idem_get_after_save_same [OF assms] by blast
qed

subsection \<open>The endpoint runs the order once\<close>

text \<open>What the store looks at: the accounts' ids and the stored responses.\<close>

definition accounts :: "db \<Rightarrow> (id \<times> id) list \<times> idempotency_row list" where
  "accounts s = (map (\<lambda>u. (u_supabaseId u, u_id u)) (t_users s), t_idempotency s)"

lemma resolve_accounts:
  assumes "accounts t = accounts s"
  shows "resolveUserId sb t = resolveUserId sb s"
proof -
  have find: "map_option u_id (findRow u_supabaseId sb us) =
      map_of (map (\<lambda>u. (u_supabaseId u, u_id u)) us) sb" for us
    by (induction us) auto
  have "resolveUserId sb q = (case map_of (fst (accounts q)) sb of None \<Rightarrow> Inl (NotFound UserProfile)
      | Some i \<Rightarrow> Inr i)" for q
    unfolding resolveUserId_def getUserBySupabase_def accounts_def fst_conv find [symmetric]
    by (simp split: option.split)
  with assms show ?thesis by simp
qed

lemma findKey_accounts: "accounts t = accounts s \<Longrightarrow> findKey u k t = findKey u k s"
  by (simp add: findKey_def accounts_def)

lemma idem_get_accounts:
  assumes "accounts t = accounts s"
  shows "idem_get sha sb k b t = idem_get sha sb k b s"
  unfolding idem_get_def resolve_accounts [OF assms] findKey_accounts [OF assms] ..

lemma accounts_fields [simp]:
  "accounts (s\<lparr>t_addresses := x1\<rparr>) = accounts s" "accounts (s\<lparr>t_orders := x2\<rparr>) = accounts s"
  "accounts (s\<lparr>t_listings := x3\<rparr>) = accounts s" "accounts (s\<lparr>t_charters := x4\<rparr>) = accounts s"
  "accounts (emit e s) = accounts s" "accounts (updOrder i f s) = accounts s"
  by (simp_all add: accounts_def emit_def updOrder_def)

lemma accounts_customer [simp]:
  "accounts (updUser i (\<lambda>u. u\<lparr>u_stripeCustomerId := c\<rparr>) s) = accounts s"
  by (simp add: accounts_def updUser_def map_key_updRow [of "\<lambda>u. (u_supabaseId u, u_id u)"])

lemma accounts_createOrder: "accounts (snd (createOrder env sb dto s)) = accounts s"
proof -
  have drop: "accounts (snd (dropoffFor env b dto s)) = accounts s" for b s
    by (cases "dropoffFor env b dto s") (auto dest!: dropoffFor_frame)
  have cust: "accounts (snd (ensureStripeCustomer env u c s)) = accounts s" for u c s
    by (auto simp: ensureStripeCustomer_def storeCustomer_def split: option.split sum.split)
  have terms: "accounts (recordTermsAcceptance u s) = accounts s" for u s
    using recordTermsAcceptance_eq [of u s] by auto
  have place: "accounts (snd (placeOrder env b cart dropoff dto totals s)) = accounts s"
    for b cart dropoff totals s
    by (simp add: placeOrder_def Let_def split: sum.split)
  have fin: "accounts (snd (finishOrder env ord p sec s)) = accounts s" for ord p sec s
    by (simp add: finishOrder_def backfillPaymentIntent_def Let_def)
  have pay: "accounts (snd (payOrder env ord s)) = accounts s" for ord s
    by (simp add: payOrder_def fin split: sum.split)
  have both: "accounts (snd (placeAndPay env b cart dropoff dto totals s)) = accounts s"
    for b cart dropoff totals s
    unfolding placeAndPay_def
    by (intro bindR_keeps [where h = accounts]) (simp_all add: cust place pay terms)
  have lift: "accounts (snd (liftE x s)) = accounts s" for x :: "exn + 'x" and s
    by (cases x) simp_all
  show ?thesis
    unfolding createOrder_def
    by (intro bindR_keeps [where h = accounts] lift)
      (auto intro!: bindR_keeps [where h = accounts] simp: lift drop both)
qed

text \<open>C10: Repeating \<open>POST /v1/orders\<close> with the key and the body of a request that succeeded
  returns the first response and changes nothing: no second order, no second stock
  movement, no second payment, whatever the clock, the ids and Stripe would answer now.\<close>

theorem ordersCreate_replays:
  assumes "ordersCreate cod env sb hdr dto s = (Inr resp, t)"
  shows "ordersCreate cod env' sb hdr dto t = (Inr resp, t)"
proof -
  let ?key = "the hdr" and ?body = "Some (ic_stringify cod dto)"
  have hdr: "truthy hdr" using assms by (auto simp: ordersCreate_def fail_eq_iff split: if_splits)
  obtain cached where g: "idem_get (ic_sha cod) sb ?key ?body s = Inr cached"
    using assms hdr by (cases "idem_get (ic_sha cod) sb ?key ?body s")
      (auto simp: ordersCreate_def fail_eq_iff)
  have "\<exists>st. idem_get (ic_sha cod) sb ?key ?body t = Inr (Some (st, resp))"
  proof (cases cached)
    case None
    then obtain created u where "idem_save (ic_sha cod) env sb ?key ?body 201 resp u = (Inr (), t)"
      using assms hdr g
      by (auto simp: ordersCreate_def ordersCreateWork_def Let_def bindR_eq_iff ok_eq_iff fail_eq_iff)
    from idem_get_after_save_same [OF this] show ?thesis by blast
  next
    case (Some c)
    with assms hdr g show ?thesis
      by (cases c) (auto simp: ordersCreate_def Let_def ok_eq_iff)
  qed
  then show ?thesis using hdr by (auto simp: ordersCreate_def Let_def ok_def)
qed

definition plain_codec :: idem_codec where
  "plain_codec = \<lparr>ic_sha = (\<lambda>x. x), ic_stringify = (\<lambda>_. ''body''), ic_render = (\<lambda>(o1, sec). o_id o1 @ sec)\<rparr>"

definition order_run :: "(exn, string, db) result" where
  "order_run = ordersCreate plain_codec demo_env ''bb'' (Some ''k1'') demo_dto shop_db"

lemma order_run_Inr: "order_run = (Inr ''osecret'', snd order_run)"
  by code_simp

theorem ordersCreate_replays_witness:
  "ordersCreate plain_codec (demo_env\<lparr>e_now := 5, e_ulid := (\<lambda>_. ''z'')\<rparr>) ''bb'' (Some ''k1'') demo_dto
     (snd order_run) = (Inr ''osecret'', snd order_run)"
  by (rule ordersCreate_replays [where env = demo_env and s = shop_db]) (simp add: order_run_Inr [symmetric] order_run_def [symmetric])

definition save_run :: "(exn, unit, db) result" where
  "save_run = idem_save (\<lambda>x. x) demo_env ''bb'' ''k1'' (Some ''body'') 201 ''resp'' shop_db"

theorem idem_get_after_save_witness:
  "idem_get (\<lambda>x. x) ''bb'' ''k1'' (Some ''body'') (snd save_run) = Inr (Some (201, ''resp'')) \<and>
   idem_get (\<lambda>x. x) ''bb'' ''k1'' (Some ''other'') (snd save_run) =
     Inl (Conflict (Account IdempotencyKeyReused))"
proof -
  have "save_run = (Inr (), snd save_run)" by code_simp
  then show ?thesis
    using idem_get_after_save [of "\<lambda>x. x" demo_env "''bb''" "''k1''" "Some ''body''" 201 "''resp''"
        shop_db "()" "snd save_run" "Some ''other''"]
    by (simp add: save_run_def [symmetric] hashBody_def)
qed

subsection \<open>Two requests at once\<close>

lemma placed_order_kept:
  assumes "createOrder env sb dto s = (Inr (ord, sec), t)"
  shows "length (t_orders t) = Suc (length (t_orders s))"
  using assms
proof (rule createOrder_result)
  fix buyer cart dropoff totals s1 o1 s2
  assume u: "untouched s s1" and p: "placeOrder env (u_id buyer) cart dropoff dto totals s1 = (Inr o1, s2)"
    and pay: "payOrder env o1 (recordTermsAcceptance (u_id buyer) s2) = (Inr (ord, sec), t)"
  have "length (t_orders s2) = Suc (length (t_orders s))"
    using p u by (auto simp: placeOrder_def Let_def untouched_def fail_eq_iff ok_eq_iff split: sum.splits)
  moreover have "length (t_orders (recordTermsAcceptance (u_id buyer) s2)) = length (t_orders s2)"
    using recordTermsAcceptance_eq [of "u_id buyer" s2] by auto
  moreover have "length (t_orders t) = length (t_orders (recordTermsAcceptance (u_id buyer) s2))"
    using pay by (auto simp: payOrder_def finishOrder_def backfillPaymentIntent_def Let_def emit_def
        updOrder_def updRow_def fail_eq_iff ok_eq_iff split: sum.splits if_splits)
  ultimately show ?thesis by simp
qed simp

text \<open>The look-up and the save are two statements: of two requests with one key that both
  found nothing stored, the second to finish places its own order too, and then fails on the
  unique key. Its order, stock and payment intent stay, and its client is told of an error.\<close>

theorem raced_key_orders_twice:
  assumes "ordersCreateWork cod env sb key dto s = (Inr resp, t)"
    and "createOrder env' sb dto t = (Inr (ord2, sec2), t2)"
  shows "ordersCreateWork cod env' sb key dto t = (Inl PrismaConflict, t2) \<and>
    length (t_orders t2) = length (t_orders s) + 2"
proof -
  obtain ord sec u where c: "createOrder env sb dto s = (Inr (ord, sec), u)"
    and sv: "idem_save (ic_sha cod) env sb key (Some (ic_stringify cod dto)) 201 resp u = (Inr (), t)"
    using assms(1) by (auto simp: ordersCreateWork_def Let_def bindR_eq_iff ok_eq_iff)
  obtain uid where r: "resolveUserId sb u = Inr uid"
    and t: "t = u\<lparr>t_idempotency := t_idempotency u @
       [\<lparr>ik_id = e_ulid env ForIdempotency, ik_userId = uid, ik_key = key,
         ik_requestHash = hashBody (ic_sha cod) (Some (ic_stringify cod dto)),
         ik_responseStatus = 201, ik_responseBody = resp,
         ik_expiresAt = e_now env + TTL_HOURS * 3600 * 1000\<rparr>]\<rparr>"
    by (rule idem_save_Inr [OF sv])
  have acc: "accounts t2 = accounts t"
    using accounts_createOrder [of env' sb dto t] assms(2) by simp
  have "findKey uid key t \<noteq> None"
    by (simp add: t findKey_snoc split: option.split)
  then have "idem_save (ic_sha cod) env' sb key body st resp' t2 = fail PrismaConflict t2" for body st resp'
    using resolve_accounts [OF acc, of sb] findKey_accounts [OF acc] r t by (simp add: idem_save_def)
  with assms(2) have "ordersCreateWork cod env' sb key dto t = (Inl PrismaConflict, t2)"
    by (simp add: ordersCreateWork_def Let_def fail_def)
  moreover have "length (t_orders t2) = Suc (length (t_orders t))"
    by (rule placed_order_kept [OF assms(2)])
  ultimately show ?thesis
    using placed_order_kept [OF c] by (simp add: t)
qed

definition first_of_race :: "(exn, string, db) result" where
  "first_of_race = ordersCreateWork plain_codec demo_env ''bb'' ''k1'' demo_dto shop_db"

definition second_env :: env where
  "second_env = demo_env\<lparr>e_ulid := (\<lambda>p. CHR ''2'' # demo_ulid p), e_piCreate := Inr (''pi2'', Some ''sec2'')\<rparr>"

definition second_order :: "(exn, order_row \<times> string, db) result" where
  "second_order = createOrder second_env ''bb'' demo_dto (snd first_of_race)"

theorem raced_key_orders_twice_witness:
  "ordersCreateWork plain_codec second_env ''bb'' ''k1'' demo_dto (snd first_of_race) =
     (Inl PrismaConflict, snd second_order) \<and>
   map o_id (t_orders (snd second_order)) = [''o'', ''2o'']"
proof -
  have a: "first_of_race = (Inr ''osecret'', snd first_of_race)" by code_simp
  have "case fst second_order of Inl _ \<Rightarrow> False | Inr _ \<Rightarrow> True" by code_simp
  then obtain c where "second_order = (Inr c, snd second_order)" by (rule run_InrE)
  then obtain ord sec where b: "second_order = (Inr (ord, sec), snd second_order)" by (cases c) auto
  have "map o_id (t_orders (snd second_order)) = [''o'', ''2o'']" by code_simp
  with raced_key_orders_twice [OF a [unfolded first_of_race_def] b [unfolded second_order_def first_of_race_def]]
  show ?thesis unfolding second_order_def first_of_race_def by simp
qed

end
