(* ===== verification/Reviews.thy ===== *)
theory Reviews
  imports Strikes
begin

section \<open>Reviews and seller ratings\<close>

text \<open>
  \<open>src/modules/reviews/reviews.service.ts\<close>. A buyer rates a delivered order once; the
  seller's cached average and count are recomputed in the same transaction, and a seller
  with ten reviews and an average under 3.5 is suspended. Averages are exact rationals: the
  rounding of a floating point average is not modelled.
\<close>

definition RATING_SUSPENSION_THRESHOLD :: rat where
  "RATING_SUSPENSION_THRESHOLD = 35 / 10"

definition RATING_MIN_REVIEWS :: nat where
  "RATING_MIN_REVIEWS = 10"

datatype rating_value_type = Percent | Score5

fun RATING_CRITERION_VALUE_TYPE :: "rating_criterion \<Rightarrow> rating_value_type" where
  "RATING_CRITERION_VALUE_TYPE RC_Hygiene = Percent"
| "RATING_CRITERION_VALUE_TYPE RC_FoodQuality = Score5"
| "RATING_CRITERION_VALUE_TYPE RC_Packaging = Score5"

record review_criterion_dto =
  rc_criterion :: rating_criterion
  rc_value :: rat
  rc_sampleCount :: "int option"

record create_review_dto =
  rd_rating :: int
  rd_body :: string
  rd_criteriaRatings :: "review_criterion_dto list option"

fun validateCriteriaValues :: "review_criterion_dto list \<Rightarrow> exn option" where
  "validateCriteriaValues [] = None"
| "validateCriteriaValues (r # rs) =
    (let vt = RATING_CRITERION_VALUE_TYPE (rc_criterion r)
     in if vt = Score5 \<and> (rc_value r < 0 \<or> 5 < rc_value r)
        then Some (BadRequest (Review (ScoreOutOfRange (rc_criterion r))))
        else if vt = Percent \<and> rc_value r \<noteq> 0 \<and> rc_value r \<noteq> 100
        then Some (BadRequest (Review (BinaryCriterion (rc_criterion r))))
        else validateCriteriaValues rs)"

subsection \<open>Aggregates\<close>

text \<open>SQL's \<open>AVG\<close>: null on no rows.\<close>

definition average :: "rat list \<Rightarrow> rat option" where
  "average xs = (if xs = [] then None else Some (sum_list xs / of_nat (length xs)))"

definition ratingsOf :: "id \<Rightarrow> review_row list \<Rightarrow> int list" where
  "ratingsOf sellerId rows = map rv_rating (filter (\<lambda>r. rv_sellerId r = sellerId) rows)"

text \<open>\<open>tx.review.aggregate\<close> with the average and the count.\<close>

definition ratingAgg :: "id \<Rightarrow> db \<Rightarrow> rat option \<times> nat" where
  "ratingAgg sellerId s =
    (average (map of_int (ratingsOf sellerId (t_reviews s))), length (ratingsOf sellerId (t_reviews s)))"

text \<open>Prisma's \<open>update\<close> throws when the row is missing.\<close>

definition recomputeSellerAggregates :: "id \<Rightarrow> db \<Rightarrow> (exn, unit, db) result" where
  "recomputeSellerAggregates sellerId s =
    (case getSeller s sellerId of
       None \<Rightarrow> fail UncaughtError s
     | Some _ \<Rightarrow>
         ok () (updSeller sellerId
           (\<lambda>r. r\<lparr>sp_averageRating := fst (ratingAgg sellerId s),
                  sp_reviewCount := int (snd (ratingAgg sellerId s))\<rparr>) s))"

text \<open>The accented letters of the recorded reason are Latin-1 codes.\<close>

definition RATING_SUSPENSION_REASON :: string where
  "RATING_SUSPENSION_REASON = ''Note vendeur inf'' @ [CHR 0xE9] @ ''rieure '' @ [CHR 0xE0] @
     '' 3,5/5 avec au moins 10 avis''"

definition evaluateSellerRatingSuspension :: "time \<Rightarrow> id \<Rightarrow> db \<Rightarrow> db" where
  "evaluateSellerRatingSuspension now sellerId s =
    (let (avg, count) = ratingAgg sellerId s
     in if count < RATING_MIN_REVIEWS \<or>
           (case avg of None \<Rightarrow> True | Some a \<Rightarrow> RATING_SUSPENSION_THRESHOLD \<le> a)
        then s
        else (case getUser s sellerId of
            None \<Rightarrow> s
          | Some user \<Rightarrow>
              if u_isSuspended user then s
              else suspendUser now sellerId RATING_SUSPENSION_REASON s))"

subsection \<open>Creating a review\<close>

definition newReview :: "env \<Rightarrow> id \<Rightarrow> order_row \<Rightarrow> create_review_dto \<Rightarrow> review_row" where
  "newReview env authorId ord dto =
    \<lparr>rv_id = e_ulid env ForReview, rv_orderId = o_id ord, rv_authorId = authorId,
     rv_sellerId = o_sellerId ord, rv_rating = rd_rating dto, rv_body = rd_body dto\<rparr>"

definition criterionRow :: "id \<Rightarrow> review_criterion_dto \<Rightarrow> criterion_row" where
  "criterionRow reviewId c =
    \<lparr>cr_reviewId = reviewId, cr_criterion = rc_criterion c, cr_value = rc_value c,
     cr_sampleCount = (case rc_sampleCount c of None \<Rightarrow> 1 | Some n \<Rightarrow> n)\<rparr>"

definition criteriaOf :: "create_review_dto \<Rightarrow> review_criterion_dto list" where
  "criteriaOf dto = (case rd_criteriaRatings dto of None \<Rightarrow> [] | Some cs \<Rightarrow> cs)"

text \<open>
  The transaction. The order's review is unique (a raced insert fails on it), and a review
  has one row per criterion.
\<close>

definition reviewTx :: "env \<Rightarrow> id \<Rightarrow> order_row \<Rightarrow> create_review_dto \<Rightarrow> db \<Rightarrow> (exn, unit, db) result" where
  "reviewTx env authorId ord dto s =
    (if list_ex (\<lambda>r. rv_orderId r = o_id ord) (t_reviews s) then fail PrismaConflict s
     else if \<not> distinct (map rc_criterion (criteriaOf dto)) then fail PrismaConflict s
     else recomputeSellerAggregates (o_sellerId ord)
       (s\<lparr>t_reviews := t_reviews s @ [newReview env authorId ord dto],
          t_criteria := t_criteria s @
            map (criterionRow (e_ulid env ForReview)) (criteriaOf dto)\<rparr>))"

text \<open>What is checked before anything is written.\<close>

definition reviewGate :: "id \<Rightarrow> id \<Rightarrow> create_review_dto \<Rightarrow> db \<Rightarrow> exn + (id \<times> order_row)" where
  "reviewGate supabaseId orderId dto s =
    (case getUserBySupabase s supabaseId of None \<Rightarrow> Inl (NotFound UserProfile) | Some author \<Rightarrow>
     (case getOrder s orderId of None \<Rightarrow> Inl (NotFound AnOrder) | Some ord \<Rightarrow>
      if o_buyerId ord \<noteq> u_id author then Inl (Forbidden (Review NotYourOrder))
      else if o_status ord \<noteq> O_Delivered
      then Inl (BadRequest (Review (ReviewWrongStatus (o_status ord))))
      else if findRow rv_orderId orderId (t_reviews s) \<noteq> None
      then Inl (Conflict (Review AlreadyReviewed))
      else (case rd_criteriaRatings dto of
          Some cs \<Rightarrow> (case validateCriteriaValues cs of Some e \<Rightarrow> Inl e | None \<Rightarrow> Inr (u_id author, ord))
        | None \<Rightarrow> Inr (u_id author, ord))))"

definition createForOrder :: "env \<Rightarrow> id \<Rightarrow> id \<Rightarrow> create_review_dto \<Rightarrow> db \<Rightarrow> (exn, review_row, db) result" where
  "createForOrder env supabaseId orderId dto s =
    bindR (liftE (reviewGate supabaseId orderId dto s) s) (\<lambda>(authorId, ord) s.
    bindR (transaction (reviewTx env authorId ord dto) s) (\<lambda>_ s.
      ok (newReview env authorId ord dto)
        (evaluateSellerRatingSuspension (e_now env) (o_sellerId ord) s)))"

subsection \<open>Reading\<close>

record seller_stats =
  ss_sellerId :: id
  ss_rating :: "rat option"
  ss_reviewCount :: int
  ss_mealsSold :: nat
  ss_mealsSaved :: nat
  ss_ratingDistribution :: "int \<Rightarrow> nat"
  ss_criteriaRatings :: "(rating_criterion \<times> rat \<times> int) list"

text \<open>\<open>groupBy\<close> on the criterion over the seller's reviews: the average and the sample count.\<close>

definition criteriaStats :: "id \<Rightarrow> db \<Rightarrow> (rating_criterion \<times> rat \<times> int) list" where
  "criteriaStats sellerId s =
    (let mine = filter (\<lambda>c. list_ex (\<lambda>r. rv_id r = cr_reviewId c \<and> rv_sellerId r = sellerId)
           (t_reviews s)) (t_criteria s)
     in map (\<lambda>k. let rows = filter (\<lambda>c. cr_criterion c = k) mine
          in (k, case average (map cr_value rows) of None \<Rightarrow> 0 | Some a \<Rightarrow> a,
              sum_list (map cr_sampleCount rows)))
        (uniq (map cr_criterion mine)))"

definition getSellerStats :: "id \<Rightarrow> db \<Rightarrow> exn + seller_stats" where
  "getSellerStats sellerId s =
    (case getSeller s sellerId of None \<Rightarrow> Inl (NotFound ASeller) | Some seller \<Rightarrow>
     Inr \<lparr>ss_sellerId = sp_userId seller, ss_rating = sp_averageRating seller,
          ss_reviewCount = sp_reviewCount seller,
          ss_mealsSold = countWhere (\<lambda>r. o_sellerId r = sellerId \<and>
            o_status r \<in> {O_Delivered, O_Completed}) (t_orders s),
          ss_mealsSaved = countWhere (\<lambda>b. map_option l_sellerId
            (findRow l_id (bm_listingId b) (t_listings s)) = Some sellerId) (t_bookmarks s),
          ss_ratingDistribution = (\<lambda>n. length (filter (\<lambda>r. r = n) (ratingsOf sellerId (t_reviews s)))),
          ss_criteriaRatings = criteriaStats sellerId s\<rparr>)"

definition reviewsForSeller :: "id \<Rightarrow> nat \<Rightarrow> nat \<Rightarrow> db \<Rightarrow> review_row list \<times> bool" where
  "reviewsForSeller sellerId limit offset s =
    (let rows = take (limit + 1) (drop offset (rev (filter (\<lambda>r. rv_sellerId r = sellerId) (t_reviews s))));
         hasMore = (limit < length rows)
     in (if hasMore then take limit rows else rows, hasMore))"

subsection \<open>Properties\<close>

lemma ratingAgg_cong: "t_reviews t = t_reviews s \<Longrightarrow> ratingAgg i t = ratingAgg i s"
  by (simp add: ratingAgg_def)

lemma suspendUser_tables [simp]:
  "t_reviews (suspendUser now u r s) = t_reviews s" "t_sellers (suspendUser now u r s) = t_sellers s"
  "t_criteria (suspendUser now u r s) = t_criteria s" "t_orders (suspendUser now u r s) = t_orders s"
  by (simp_all add: suspendUser_def sendToUsers_def emit_def Let_def)

lemma evaluate_tables [simp]:
  "t_reviews (evaluateSellerRatingSuspension now i s) = t_reviews s"
  "t_sellers (evaluateSellerRatingSuspension now i s) = t_sellers s"
  by (simp_all add: evaluateSellerRatingSuspension_def split: prod.split option.split)

lemma reviewTx_Inr:
  assumes "reviewTx env a ord dto s = (Inr u, t)"
  obtains sel where "getSeller s (o_sellerId ord) = Some sel"
    "\<forall>r \<in> set (t_reviews s). rv_orderId r \<noteq> o_id ord"
    "t_reviews t = t_reviews s @ [newReview env a ord dto]"
    "t_sellers t = updRow sp_userId (o_sellerId ord)
       (\<lambda>r. r\<lparr>sp_averageRating := fst (ratingAgg (o_sellerId ord) t),
              sp_reviewCount := int (snd (ratingAgg (o_sellerId ord) t))\<rparr>) (t_sellers s)"
    "t_users t = t_users s" "t_orders t = t_orders s" "out t = out s"
  using assms
  by (auto simp: reviewTx_def recomputeSellerAggregates_def getSeller_def updSeller_def ratingAgg_def
      list_ex_iff fail_eq_iff ok_eq_iff split: if_splits option.splits)

lemma createForOrder_cases:
  assumes "createForOrder env sid oid dto s = (r, t)"
  obtains e where "r = Inl e" "t = s"
    | a ord u where "r = Inr (newReview env a ord dto)" "reviewGate sid oid dto s = Inr (a, ord)"
      "reviewTx env a ord dto s = (Inr (), u)"
      "t = evaluateSellerRatingSuspension (e_now env) (o_sellerId ord) u"
proof (cases "reviewGate sid oid dto s")
  case (Inl e)
  with assms show thesis by (intro that(1) [of e]) (auto simp: createForOrder_def fail_eq_iff)
next
  case (Inr p)
  obtain a ord where p: "p = (a, ord)" by force
  show thesis
  proof (cases "reviewTx env a ord dto s")
    case (Pair x u)
    then show thesis
    proof (cases x)
      case (Inl e)
      with assms Pair \<open>reviewGate sid oid dto s = Inr p\<close> p show thesis
        by (intro that(1) [of e]) (auto simp: createForOrder_def transaction_def)
    next
      case (Inr v)
      with assms Pair \<open>reviewGate sid oid dto s = Inr p\<close> p show thesis
        by (intro that(2) [of a ord u]) (auto simp: createForOrder_def transaction_def ok_eq_iff)
    qed
  qed
qed

lemma reviewGate_Inr:
  assumes "reviewGate sid oid dto s = Inr (a, ord)"
  shows "getOrder s oid = Some ord" "o_buyerId ord = a" "o_status ord = O_Delivered"
    "map_option u_id (getUserBySupabase s sid) = Some a"
  using assms by (auto simp: reviewGate_def split: option.splits if_splits)

text \<open>What a seller's cached figures must be: the mean and the number of the reviews in the
  table, with at most one review per order and every rating between one and five.\<close>

definition ratings_ok :: "db \<Rightarrow> bool" where
  "ratings_ok s \<longleftrightarrow> distinct (map rv_orderId (t_reviews s)) \<and>
    (\<forall>r \<in> set (t_reviews s). 1 \<le> rv_rating r \<and> rv_rating r \<le> 5) \<and>
    (\<forall>sel \<in> set (t_sellers s).
      sp_averageRating sel = average (map of_int (ratingsOf (sp_userId sel) (t_reviews s))) \<and>
      sp_reviewCount sel = int (length (ratingsOf (sp_userId sel) (t_reviews s))))"

text \<open>One call of the endpoint with a body the validation pipe lets through.\<close>

definition review_step :: "db \<Rightarrow> db \<Rightarrow> bool" where
  "review_step s t \<longleftrightarrow> (\<exists>env sid oid dto. 1 \<le> rd_rating dto \<and> rd_rating dto \<le> 5 \<and>
     t = snd (createForOrder env sid oid dto s))"

lemma ratingsOf_snoc:
  "ratingsOf i (rs @ [r]) = ratingsOf i rs @ (if rv_sellerId r = i then [rv_rating r] else [])"
  by (simp add: ratingsOf_def)

lemma ratings_ok_step:
  assumes inv: "ratings_ok s" and "review_step s t"
  shows "ratings_ok t"
proof -
  obtain env sid oid dto r where dto: "1 \<le> rd_rating dto" "rd_rating dto \<le> 5"
    and c: "createForOrder env sid oid dto s = (r, t)"
    using assms(2) unfolding review_step_def by (metis prod.collapse)
  from c show ?thesis
  proof (cases rule: createForOrder_cases)
    case (1 e)
    with inv show ?thesis by simp
  next
    case (2 a ord u)
    from 2(3) show ?thesis
    proof (rule reviewTx_Inr)
      assume f: "\<forall>r \<in> set (t_reviews s). rv_orderId r \<noteq> o_id ord"
        and rs: "t_reviews u = t_reviews s @ [newReview env a ord dto]"
        and ss: "t_sellers u = updRow sp_userId (o_sellerId ord)
          (\<lambda>r. r\<lparr>sp_averageRating := fst (ratingAgg (o_sellerId ord) u),
              sp_reviewCount := int (snd (ratingAgg (o_sellerId ord) u))\<rparr>) (t_sellers s)"
      have new: "rv_orderId (newReview env a ord dto) = o_id ord"
        "rv_sellerId (newReview env a ord dto) = o_sellerId ord"
        "rv_rating (newReview env a ord dto) = rd_rating dto"
        by (simp_all add: newReview_def)
      have "distinct (map rv_orderId (t_reviews t))"
        using inv f by (auto simp: 2(4) rs ratings_ok_def new)
      moreover have "\<forall>r \<in> set (t_reviews t). 1 \<le> rv_rating r \<and> rv_rating r \<le> 5"
        using inv dto by (auto simp: 2(4) rs ratings_ok_def new)
      moreover have "sp_averageRating sel = average (map of_int (ratingsOf (sp_userId sel) (t_reviews t))) \<and>
          sp_reviewCount sel = int (length (ratingsOf (sp_userId sel) (t_reviews t)))"
        if sel: "sel \<in> set (t_sellers t)" for sel
      proof -
        obtain q where q: "q \<in> set (t_sellers s)"
          "sel = (if sp_userId q = o_sellerId ord
             then q\<lparr>sp_averageRating := fst (ratingAgg (o_sellerId ord) u),
               sp_reviewCount := int (snd (ratingAgg (o_sellerId ord) u))\<rparr> else q)"
          using sel unfolding 2(4) evaluate_tables ss in_updRow by blast
        then show ?thesis
          using inv by (auto simp: 2(4) rs ratings_ok_def new ratingAgg_def ratingsOf_snoc)
      qed
      ultimately show ?thesis by (simp add: ratings_ok_def)
    qed
  qed
qed

interpretation ratings: inductive_invariant ratings_ok review_step ratings_ok
  by unfold_locales (auto intro: ratings_ok_step)

lemma average_bounds:
  assumes "\<And>x. x \<in> set xs \<Longrightarrow> lo \<le> x \<and> x \<le> hi" and "average xs = Some a"
  shows "lo \<le> a \<and> a \<le> (hi :: rat)"
proof -
  have n: "0 < (of_nat (length xs) :: rat)" and a: "a = sum_list xs / of_nat (length xs)"
    using assms(2) by (auto simp: average_def split: if_splits)
  have "of_nat (length xs) * lo \<le> sum_list xs" "sum_list xs \<le> of_nat (length xs) * hi"
    using assms(1) by (induction xs) (auto simp: algebra_simps intro: add_mono)
  with n show ?thesis by (simp add: a field_simps)
qed

text \<open>C9: Whatever reviews are posted, in whatever order and with whatever outcome, every seller's
  cached average and count stay exactly the mean and the number of the reviews stored for
  that seller, no order is reviewed twice, and an average lies between one and five.\<close>

theorem ratings_stay_exact:
  assumes "ratings_ok s" and "review_step\<^sup>*\<^sup>* s t"
  shows "ratings_ok t \<and> (\<forall>sel a. sel \<in> set (t_sellers t) \<longrightarrow> sp_averageRating sel = Some a \<longrightarrow>
    1 \<le> a \<and> a \<le> 5)"
proof (intro conjI allI impI)
  show inv: "ratings_ok t" by (rule ratings.reachable_inv [OF assms])
  fix sel a assume "sel \<in> set (t_sellers t)" "sp_averageRating sel = Some a"
  with inv have "average (map of_int (ratingsOf (sp_userId sel) (t_reviews t))) = Some a"
    by (simp add: ratings_ok_def)
  moreover have "1 \<le> x \<and> x \<le> 5"
    if "x \<in> set (map of_int (ratingsOf (sp_userId sel) (t_reviews t)))" for x :: rat
    using inv that by (auto simp: ratings_ok_def ratingsOf_def)
  ultimately show "1 \<le> a" "a \<le> 5" using average_bounds by blast+
qed

lemma getUser_suspended:
  "getUser (suspendUser now i r s) j = map_option (\<lambda>u. if u_id u = i \<and> \<not> u_isSuspended u
     then u\<lparr>u_isSuspended := True, u_suspendedAt := Some now, u_suspensionReason := Some r\<rparr> else u)
     (getUser s j)"
  by (simp add: suspendUser_def sendToUsers_def emit_def getUser_def Let_def findRow_updWhere)

lemma evaluate_user:
  "map_option u_isSuspended (getUser (evaluateSellerRatingSuspension now i s) j) =
    map_option (\<lambda>u. u_isSuspended u \<or> (j = i \<and> RATING_MIN_REVIEWS \<le> snd (ratingAgg i s) \<and>
      (\<exists>a. fst (ratingAgg i s) = Some a \<and> a < RATING_SUSPENSION_THRESHOLD))) (getUser s j)"
proof (cases "getUser s j")
  case None
  then show ?thesis
    by (auto simp: evaluateSellerRatingSuspension_def getUser_suspended Let_def split: prod.split option.split)
next
  case (Some u)
  then have "u_id u = j" by (rule usr.get_key)
  with Some show ?thesis
    by (cases "getUser s i")
      (auto simp: evaluateSellerRatingSuspension_def getUser_suspended Let_def not_less not_le
        dest: usr.get_key split: prod.split option.split)
qed

text \<open>A review that is accepted comes from the buyer of a delivered order that had none, is
  added to the table as the last row, and leaves the seller suspended exactly when they were
  already, or now have at least ten reviews with an average under 3.5. No other account
  changes its suspension.\<close>

theorem review_effect:
  assumes "createForOrder env sid oid dto s = (Inr rv, t)"
  shows "\<exists>author ord. getUserBySupabase s sid = Some author \<and> getOrder s oid = Some ord \<and>
    o_buyerId ord = u_id author \<and> o_status ord = O_Delivered \<and> rv_sellerId rv = o_sellerId ord \<and>
    (\<forall>r \<in> set (t_reviews s). rv_orderId r \<noteq> o_id ord) \<and> t_reviews t = t_reviews s @ [rv] \<and>
    (\<forall>j. map_option u_isSuspended (getUser t j) = map_option (\<lambda>u. u_isSuspended u \<or>
       (j = o_sellerId ord \<and> 10 \<le> length (ratingsOf j (t_reviews t)) \<and>
        (\<exists>a. average (map of_int (ratingsOf j (t_reviews t))) = Some a \<and> a < 35 / 10)))
       (getUser s j))"
  using assms
proof (cases rule: createForOrder_cases)
  case (2 a ord u)
  note gate = reviewGate_Inr [OF 2(2)]
  from gate(4) obtain author where author: "getUserBySupabase s sid = Some author" "u_id author = a"
    by auto
  from 2(3) show ?thesis
  proof (rule reviewTx_Inr)
    assume none: "\<forall>r \<in> set (t_reviews s). rv_orderId r \<noteq> o_id ord"
      and rs: "t_reviews u = t_reviews s @ [newReview env a ord dto]" and us: "t_users u = t_users s"
    have "map_option u_isSuspended (getUser t j) = map_option (\<lambda>x. u_isSuspended x \<or>
       (j = o_sellerId ord \<and> 10 \<le> length (ratingsOf j (t_reviews t)) \<and>
        (\<exists>b. average (map of_int (ratingsOf j (t_reviews t))) = Some b \<and> b < 35 / 10))) (getUser s j)" for j
      using us unfolding 2(4) evaluate_user evaluate_tables
      by (auto simp: ratingAgg_def RATING_MIN_REVIEWS_def RATING_SUSPENSION_THRESHOLD_def getUser_def
          intro!: option.map_cong0)
    with 2(1) gate author none rs show ?thesis
      by (intro exI [of _ author] exI [of _ ord]) (simp add: 2(4) newReview_def)
  qed
qed simp

definition demo_review :: "string \<Rightarrow> review_row" where
  "demo_review i = \<lparr>rv_id = i, rv_orderId = i, rv_authorId = ''x'', rv_sellerId = ''s'',
    rv_rating = 3, rv_body = ''ok''\<rparr>"

definition review_db :: db where
  "review_db = updSeller ''s'' (\<lambda>r. r\<lparr>sp_averageRating := Some 3, sp_reviewCount := 9\<rparr>)
    (payout_db\<lparr>t_users := demo_user ''b'' ''bb'' R_Buyer # t_users payout_db,
      t_orders := [demo_order ''o'' O_Delivered F_Pickup],
      t_reviews := map demo_review [''1'', ''2'', ''3'', ''4'', ''5'', ''6'', ''7'', ''8'', ''9'']\<rparr>)"

definition demo_review_dto :: create_review_dto where
  "demo_review_dto = \<lparr>rd_rating = 2, rd_body = ''cold'',
    rd_criteriaRatings = Some [\<lparr>rc_criterion = RC_Hygiene, rc_value = 100, rc_sampleCount = None\<rparr>]\<rparr>"

definition review_run :: "(exn, review_row, db) result" where
  "review_run = createForOrder demo_env ''bb'' ''o'' demo_review_dto review_db"

lemma review_run_Inr: "case fst review_run of Inl _ \<Rightarrow> False | Inr _ \<Rightarrow> True"
  by code_simp

theorem ratings_stay_exact_witness:
  "ratings_ok (snd review_run)"
proof -
  have "ratings_ok review_db"
    by (simp add: ratings_ok_def review_db_def demo_review_def payout_db_def empty_db_def updSeller_def
        updRow_def ratingsOf_def average_def)
  moreover have "review_step\<^sup>*\<^sup>* review_db (snd review_run)"
    unfolding review_step_def review_run_def
    by (intro r_into_rtranclp exI [of _ demo_env] exI [of _ "''bb''"] exI [of _ "''o''"]
        exI [of _ demo_review_dto]) (simp add: demo_review_dto_def)
  ultimately show ?thesis using ratings_stay_exact by blast
qed

theorem review_effect_witness:
  "map_option u_isSuspended (getUser (snd review_run) ''s'') = Some True \<and>
   map_option u_isSuspended (getUser review_db ''s'') = Some False"
proof -
  obtain rv where run: "createForOrder demo_env ''bb'' ''o'' demo_review_dto review_db = (Inr rv, snd review_run)"
    using review_run_Inr unfolding review_run_def by (rule run_InrE)
  have o: "getOrder review_db ''o'' = Some (demo_order ''o'' O_Delivered F_Pickup)"
    and u: "map_option u_isSuspended (getUser review_db ''s'') = Some False"
    and a: "ratingsOf ''s'' (t_reviews (snd review_run)) = [3, 3, 3, 3, 3, 3, 3, 3, 3, 2]"
    by code_simp+
  let ?low = "10 \<le> length (ratingsOf ''s'' (t_reviews (snd review_run))) \<and>
    (\<exists>a. average (map of_int (ratingsOf ''s'' (t_reviews (snd review_run)))) = Some a \<and> a < 35 / 10)"
  have low: ?low
    unfolding a by (intro conjI exI [of _ "29 / 10"]) (simp_all add: average_def)
  have "o_sellerId (demo_order ''o'' O_Delivered F_Pickup) = ''s''" by (simp add: demo_order_def)
  with review_effect [OF run] o
  have "map_option u_isSuspended (getUser (snd review_run) ''s'') =
     map_option (\<lambda>u. u_isSuspended u \<or> (''s'' = ''s'' \<and> ?low)) (getUser review_db ''s'')"
    by fastforce
  then have "map_option u_isSuspended (getUser (snd review_run) ''s'') =
     map_option (\<lambda>u. True) (getUser review_db ''s'')"
    by (simp only: low simp_thms)
  with u show ?thesis by (cases "getUser review_db ''s''") simp_all
qed

end
