(* ===== verification/Calendar.thy ===== *)
theory Calendar
  imports Prelude
begin

section \<open>Calendar arithmetic of \<open>Date\<close>\<close>

text \<open>
  What the services use of JavaScript's \<open>Date\<close>: the year, month and day of a time value and
  the \<open>MakeDay\<close> that \<open>setMonth\<close> and \<open>setFullYear\<close> are built on, which lets the day of the
  month run over into the next month. A time value is milliseconds since the epoch; the
  process is taken to run in UTC, so the local getters are the UTC ones. The year is counted
  from March, which puts the leap day at its end.
\<close>

definition msPerDay :: int where
  "msPerDay = 86400000"

definition dayOf :: "int \<Rightarrow> int" where
  "dayOf t = t div msPerDay"

text \<open>The day number of the first of March of a year.\<close>

definition marchFirst :: "int \<Rightarrow> int" where
  "marchFirst y = 365 * y + y div 4 - y div 100 + y div 400 - 719468"

text \<open>Days from the first of March to the first of the \<open>p\<close>-th month after it.\<close>

definition monthStart :: "int \<Rightarrow> int" where
  "monthStart p = (153 * p + 2) div 5"

text \<open>Months are numbered from 1 and may be any integer.\<close>

definition makeDay :: "int \<Rightarrow> int \<Rightarrow> int \<Rightarrow> int" where
  "makeDay year month date =
    (let y = year + (month - 1) div 12; m = (month - 1) mod 12 + 1
     in marchFirst (if m \<le> 2 then y - 1 else y) + monthStart ((m + 9) mod 12) + date - 1)"

text \<open>The March year of a day number and the day in it: centuries, then leap cycles, then years.\<close>

definition marchYear :: "int \<Rightarrow> int \<times> int" where
  "marchYear day =
    (let z = day + 719468; era = z div 146097; doe = z mod 146097;
         c = min 3 (doe div 36524); r1 = doe - c * 36524;
         q = r1 div 1461; r2 = r1 mod 1461;
         a = min 3 (r2 div 365)
     in (400 * era + 100 * c + 4 * q + a, r2 - a * 365))"

definition civil :: "int \<Rightarrow> int \<times> int \<times> int" where
  "civil day =
    (let (y, doy) = marchYear day; p = (5 * doy + 2) div 153; d = doy - monthStart p + 1
     in if p < 10 then (y, p + 3, d) else (y + 1, p - 9, d))"

subsection \<open>The setters\<close>

definition withDay :: "int \<Rightarrow> int \<Rightarrow> int" where
  "withDay t day = day * msPerDay + t mod msPerDay"

text \<open>\<open>d.setMonth(d.getMonth() + n)\<close> and \<open>d.setFullYear(d.getFullYear() + n)\<close>.\<close>

definition addMonths :: "int \<Rightarrow> int \<Rightarrow> int" where
  "addMonths n t = (let (y, m, d) = civil (dayOf t) in withDay t (makeDay y (m + n) d))"

definition addYears :: "int \<Rightarrow> int \<Rightarrow> int" where
  "addYears n t = (let (y, m, d) = civil (dayOf t) in withDay t (makeDay (y + n) m d))"

subsection \<open>Reading a date back\<close>

lemma div_rem: "0 \<le> r \<Longrightarrow> r < b \<Longrightarrow> (b * q + r) div b = (q :: int)"
  by (simp add: div_pos_pos_trivial)

lemma marchYear_spec:
  assumes "marchYear day = (y, doy)"
  shows "marchFirst y + doy = day \<and> 0 \<le> doy \<and> doy \<le> 365"
proof -
  define z where "z = day + 719468"
  define era where "era = z div 146097"
  define doe where "doe = z mod 146097"
  define c where "c = min 3 (doe div 36524)"
  define r1 where "r1 = doe - c * 36524"
  define q where "q = r1 div 1461"
  define r2 where "r2 = r1 mod 1461"
  define a where "a = min 3 (r2 div 365)"
  have yd: "y = 400 * era + 100 * c + 4 * q + a" "doy = r2 - a * 365"
    using assms unfolding marchYear_def Let_def z_def [symmetric] era_def [symmetric]
      doe_def [symmetric] c_def [symmetric] r1_def [symmetric] q_def [symmetric]
      r2_def [symmetric] a_def [symmetric] by auto
  have doe: "0 \<le> doe" "doe \<le> 146096" "z = 146097 * era + doe" by (auto simp: doe_def era_def)
  have c: "0 \<le> c" "c \<le> 3" "0 \<le> r1" "r1 \<le> 36524"
    using doe unfolding c_def r1_def by (auto simp: min_def split: if_splits)
  have r1: "r1 = 1461 * q + r2" "0 \<le> r2" "r2 \<le> 1460" "0 \<le> q" "q \<le> 24"
    using c unfolding q_def r2_def by auto
  have a: "0 \<le> a" "a \<le> 3" "0 \<le> r2 - a * 365" "r2 - a * 365 \<le> 365"
    using r1 unfolding a_def by (auto simp: min_def split: if_splits)
  have d4: "y div 4 = 100 * era + 25 * c + q" 
    using div_rem [of a 4 "100 * era + 25 * c + q"] a by (simp add: yd algebra_simps)
  have d100: "y div 100 = 4 * era + c"
    using div_rem [of "4 * q + a" 100 "4 * era + c"] a r1 by (simp add: yd algebra_simps)
  have d400: "y div 400 = era"
    using div_rem [of "100 * c + 4 * q + a" 400 era] a r1 c by (simp add: yd algebra_simps)
  have "marchFirst y + doy = z - 719468"
    unfolding marchFirst_def d4 d100 d400 using doe(3) r1(1) r1_def yd by simp
  then show ?thesis using a yd by (simp add: z_def)
qed

definition monthOk :: "int \<Rightarrow> bool" where
  "monthOk doy \<longleftrightarrow> (let p = (5 * doy + 2) div 153 in
     0 \<le> p \<and> p \<le> 11 \<and> monthStart p \<le> doy \<and> doy < monthStart p + 31)"

lemma month_table: "list_all monthOk [0..365]"
  by code_simp

lemma civil_spec:
  assumes "civil day = (y, m, d)"
  shows "makeDay y m d = day \<and> 1 \<le> m \<and> m \<le> 12 \<and> 1 \<le> d \<and> d \<le> 31"
proof -
  obtain my doy where my: "marchYear day = (my, doy)" by force
  note s = marchYear_spec [OF my]
  define p where "p = (5 * doy + 2) div 153"
  have p: "0 \<le> p" "p \<le> 11" "monthStart p \<le> doy" "doy < monthStart p + 31"
    using s month_table by (auto simp: Let_def p_def monthOk_def list_all_iff)
  have v: "(y, m, d) = (if p < 10 then (my, p + 3, doy - monthStart p + 1)
      else (my + 1, p - 9, doy - monthStart p + 1))"
    using assms by (simp add: civil_def my Let_def p_def split: if_splits)
  show ?thesis
  proof (cases "p < 10")
    case True
    moreover have "(p + 3 + 9) mod 12 = p" using p(1,2) by presburger
    ultimately show ?thesis using v p s by (simp add: makeDay_def Let_def)
  next
    case False
    moreover have "(p - 9 + 9) mod 12 = p" using p(1,2) by presburger
    ultimately show ?thesis using v p s by (auto simp: makeDay_def Let_def)
  qed
qed

text \<open>The day number of the civil date read off a time value is the day it was read from.\<close>

lemma makeDay_civil: "(case civil day of (y, m, d) \<Rightarrow> makeDay y m d) = day"
  using civil_spec by (cases "civil day") auto

lemma withDay_dayOf: "withDay t (dayOf t) = t"
  by (simp add: withDay_def dayOf_def)

lemma addMonths_0: "addMonths 0 t = t"
  using civil_spec [of "dayOf t"] by (cases "civil (dayOf t)") (simp add: addMonths_def withDay_dayOf)

subsection \<open>A month later\<close>

lemma div_next:
  fixes y b :: int
  assumes "0 < b"
  shows "(y + 1) div b = y div b + (if b dvd y + 1 then 1 else 0)"
proof (cases "y mod b + 1 = b")
  case True
  then have "y + 1 = b * (y div b + 1)" using mult_div_mod_eq [of b y] by (simp only: distrib_left)
  then show ?thesis using assms by simp
next
  case False
  have r: "0 \<le> y mod b + 1" "y mod b + 1 < b"
    using False assms pos_mod_bound [of b y] pos_mod_sign [of b y] by linarith+
  have y: "y + 1 = b * (y div b) + (y mod b + 1)" by simp
  have "(y + 1) mod b = y mod b + 1" using r y by (metis mod_mult_self4 mod_pos_pos_trivial)
  then have "\<not> b dvd y + 1" using pos_mod_sign [OF assms, of y] by (simp add: dvd_eq_mod_eq_0)
  moreover have "(y + 1) div b = y div b" using div_rem [OF r, of "y div b"] by (simp only: y [symmetric])
  ultimately show ?thesis by simp
qed

lemma marchFirst_Suc: "marchFirst (y + 1) - marchFirst y = 365 \<or> marchFirst (y + 1) - marchFirst y = 366"
proof -
  have "400 dvd y + 1 \<longrightarrow> 100 dvd y + 1" "100 dvd y + 1 \<longrightarrow> 4 dvd y + 1"
    using dvd_trans [of 100 400 "y + 1"] dvd_trans [of 4 100 "y + 1"] by simp_all
  then show ?thesis by (simp add: marchFirst_def div_next)
qed

definition monthLengthOk :: "int \<Rightarrow> bool" where
  "monthLengthOk p \<longleftrightarrow> monthStart (p + 1) - monthStart p \<in> {30, 31}"

lemma month_lengths: "list_all monthLengthOk [0..10]"
  by code_simp

lemma month_length:
  "0 \<le> p \<Longrightarrow> p < 11 \<Longrightarrow> monthStart (p + 1) - monthStart p = 30 \<or> monthStart (p + 1) - monthStart p = 31"
  using month_lengths by (auto simp: list_all_iff monthLengthOk_def)

lemma makeDay_next:
  assumes "1 \<le> m" and "m \<le> 12"
  shows "28 \<le> makeDay y (m + 1) d - makeDay y m d \<and> makeDay y (m + 1) d - makeDay y m d \<le> 31"
proof -
  consider "m = 12" | "m = 1" | "m = 2" | "3 \<le> m" "m \<le> 11" using assms by linarith
  then show ?thesis
  proof cases
    case 4
    then have "(m - 1) div 12 = 0" "(m - 1) mod 12 = m - 1" "m div 12 = 0" "m mod 12 = m"
      "(m - 1 + 1 + 9) mod 12 = m - 3" "(m + 1 + 9) mod 12 = m - 2"
      by (simp_all add: div_pos_pos_trivial mod_pos_pos_trivial) presburger+
    with 4 month_length [of "m - 3"] show ?thesis by (auto simp: makeDay_def Let_def)
  qed (use marchFirst_Suc [of "y - 1"] in \<open>auto simp: makeDay_def Let_def monthStart_def\<close>)
qed

lemma addMonths_1_bounds:
  "t + 28 * msPerDay \<le> addMonths 1 t \<and> addMonths 1 t \<le> t + 31 * msPerDay"
proof -
  obtain y m d where c: "civil (dayOf t) = (y, m, d)" by (cases "civil (dayOf t)") auto
  note s = civil_spec [OF c]
  have "addMonths 1 t = t + (makeDay y (m + 1) d - makeDay y m d) * msPerDay"
    using s withDay_dayOf [of t] by (simp add: addMonths_def c withDay_def algebra_simps)
  moreover have "0 \<le> msPerDay" by (simp add: msPerDay_def)
  ultimately show ?thesis
    using makeDay_next [of m y d] s by (auto intro: mult_right_mono)
qed

end
