(* ===== verification/Subscriptions.thy ===== *)
theory Subscriptions
  imports StripeWebhook Calendar
begin

section \<open>Seller subscriptions\<close>

text \<open>
  \<open>src/modules/subscriptions/revenuecat.util.ts\<close>,
  \<open>src/modules/payments/webhooks/revenuecat-webhook-handler.service.ts\<close> and its controller,
  the synchronisation in \<open>src/modules/sellers/sellers.service.ts\<close> and
  \<open>src/modules/subscriptions/subscriptions.service.ts\<close>. Two providers write the columns the
  listing and order gates read. What RevenueCat's REST API and Stripe answer are parameters.
\<close>

subsection \<open>The mapping shared by the sync endpoint and the webhook\<close>

definition SELLER_STANDARD_ENTITLEMENT :: string where
  "SELLER_STANDARD_ENTITLEMENT = ''seller_standard''"

definition SELLER_PREMIUM_ENTITLEMENT :: string where
  "SELLER_PREMIUM_ENTITLEMENT = ''seller_premium''"

definition entitlementToPlan :: "string option \<Rightarrow> string option" where
  "entitlementToPlan entitlement =
    (if entitlement = Some SELLER_PREMIUM_ENTITLEMENT then Some ''PREMIUM''
     else if entitlement = Some SELLER_STANDARD_ENTITLEMENT then Some ''STANDARD''
     else None)"

definition isPremiumEntitlement :: "string option \<Rightarrow> bool" where
  "isPremiumEntitlement entitlement \<longleftrightarrow> entitlement = Some SELLER_PREMIUM_ENTITLEMENT"

definition pickActiveEntitlement :: "string list \<Rightarrow> string option" where
  "pickActiveEntitlement ids =
    (if SELLER_PREMIUM_ENTITLEMENT \<in> set ids then Some SELLER_PREMIUM_ENTITLEMENT
     else if SELLER_STANDARD_ENTITLEMENT \<in> set ids then Some SELLER_STANDARD_ENTITLEMENT
     else None)"

text \<open>\<open>toUpperCase\<close> and \<open>toLowerCase\<close> on ASCII letters.\<close>

definition upper :: "string \<Rightarrow> string" where
  "upper = map (\<lambda>c. if 97 \<le> (of_char c :: nat) \<and> (of_char c :: nat) \<le> 122
     then char_of ((of_char c :: nat) - 32) else c)"

definition lower :: "string \<Rightarrow> string" where
  "lower = map (\<lambda>c. if 65 \<le> (of_char c :: nat) \<and> (of_char c :: nat) \<le> 90
     then char_of ((of_char c :: nat) + 32) else c)"

definition orEmpty :: "string option \<Rightarrow> string" where
  "orEmpty x = (case x of None \<Rightarrow> [] | Some t \<Rightarrow> t)"

definition activeStatusForPeriod :: "string option \<Rightarrow> subscription_status" where
  "activeStatusForPeriod periodType =
    (let p = upper (orEmpty periodType)
     in if p = ''TRIAL'' \<or> p = ''INTRO'' then S_Trialing else S_Active)"

definition webhookEventToStatus :: "string \<Rightarrow> string option \<Rightarrow> subscription_status option" where
  "webhookEventToStatus ty periodType =
    (if ty \<in> {''INITIAL_PURCHASE'', ''RENEWAL'', ''PRODUCT_CHANGE'', ''UNCANCELLATION'',
              ''SUBSCRIPTION_EXTENDED'', ''NON_RENEWING_PURCHASE''}
     then Some (activeStatusForPeriod periodType)
     else if ty = ''CANCELLATION'' then Some S_Canceled
     else if ty = ''EXPIRATION'' then Some S_Expired
     else if ty = ''BILLING_ISSUE'' then Some S_PastDue
     else None)"

record subscription_update =
  sx_status :: subscription_status
  sx_entitlement :: "string option"
  sx_productId :: "string option"
  sx_expiresAtMs :: "int option"
  sx_isTrial :: bool
  sx_category :: "seller_category option"
  sx_revenueCatCustomerId :: "id option"

definition oneMonthFromNow :: "time \<Rightarrow> time" where
  "oneMonthFromNow from = addMonths 1 from"

text \<open>A JavaScript number as a condition: absent and zero are false.\<close>

definition truthyInt :: "int option \<Rightarrow> bool" where
  "truthyInt x \<longleftrightarrow> (case x of None \<Rightarrow> False | Some n \<Rightarrow> n \<noteq> 0)"

definition subscriptionPeriodEnd :: "time \<Rightarrow> subscription_update \<Rightarrow> time option" where
  "subscriptionPeriodEnd now inp =
    (if truthyInt (sx_expiresAtMs inp) then sx_expiresAtMs inp
     else if sx_status inp = S_Active \<or> sx_status inp = S_Trialing
     then Some (oneMonthFromNow now) else None)"

text \<open>The columns the update writes, as the rewriting of the row they are written to.\<close>

definition buildSubscriptionFields :: "time \<Rightarrow> subscription_update \<Rightarrow> seller_row \<Rightarrow> seller_row" where
  "buildSubscriptionFields now inp r =
    (let active = (sx_status inp = S_Active \<or> sx_status inp = S_Trialing);
         periodEnd = subscriptionPeriodEnd now inp
     in r\<lparr>sp_subscriptionStatus := sx_status inp,
          sp_isPremium := (active \<and> isPremiumEntitlement (sx_entitlement inp)),
          sp_revenueCatEntitlement := sx_entitlement inp,
          sp_subscriptionPlan := entitlementToPlan (sx_entitlement inp),
          sp_subscriptionProductId := sx_productId inp,
          sp_subscriptionCurrentPeriodEnd := periodEnd,
          sp_trialEndsAt := (if sx_isTrial inp then periodEnd else None),
          sp_subscriptionCategory :=
            (case sx_category inp of None \<Rightarrow> sp_subscriptionCategory r | Some c \<Rightarrow> Some c),
          sp_revenueCatCustomerId :=
            (if truthy (sx_revenueCatCustomerId inp) then sx_revenueCatCustomerId inp
             else sp_revenueCatCustomerId r)\<rparr>)"

subsection \<open>The RevenueCat webhook\<close>

record rc_event =
  rce_type :: "string option"
  rce_app_user_id :: "id option"
  rce_original_app_user_id :: "id option"
  rce_product_id :: "string option"
  rce_entitlement_id :: "string option"
  rce_entitlement_ids :: "string list option"
  rce_period_type :: "string option"
  rce_expiration_at_ms :: "int option"

definition rcEntitlementIds :: "rc_event \<Rightarrow> string list" where
  "rcEntitlementIds ev =
    (case rce_entitlement_ids ev of
       Some ids \<Rightarrow> ids
     | None \<Rightarrow> if truthy (rce_entitlement_id ev) then [the (rce_entitlement_id ev)] else [])"

definition rcUpdate :: "rc_event \<Rightarrow> id \<Rightarrow> subscription_status \<Rightarrow> subscription_update" where
  "rcUpdate ev appUserId status =
    \<lparr>sx_status = status, sx_entitlement = pickActiveEntitlement (rcEntitlementIds ev),
     sx_productId = rce_product_id ev, sx_expiresAtMs = rce_expiration_at_ms ev,
     sx_isTrial = (upper (orEmpty (rce_period_type ev)) = ''TRIAL''), sx_category = None,
     sx_revenueCatCustomerId = Some appUserId\<rparr>"

text \<open>\<open>updateMany\<close> on the user id, and when it matches no row on the stored customer id.\<close>

definition rcApply :: "time \<Rightarrow> id \<Rightarrow> subscription_update \<Rightarrow> db \<Rightarrow> db" where
  "rcApply now appUserId upd s =
    (let byUser = (\<lambda>r. sp_userId r = appUserId);
         byCustomer = (\<lambda>r. sp_revenueCatCustomerId r = Some appUserId);
         hit = (if countWhere byUser (t_sellers s) = 0 then byCustomer else byUser)
     in s\<lparr>t_sellers := updWhere hit (buildSubscriptionFields now upd) (t_sellers s)\<rparr>)"

definition rcHandleEvent :: "env \<Rightarrow> rc_event option \<Rightarrow> db \<Rightarrow> db" where
  "rcHandleEvent env body s =
    (case body of None \<Rightarrow> s | Some ev \<Rightarrow>
     if \<not> truthy (rce_type ev) then s
     else let appUserId = orElse (rce_app_user_id ev) (rce_original_app_user_id ev)
     in if \<not> truthy appUserId then s
     else (case webhookEventToStatus (the (rce_type ev)) (rce_period_type ev) of
         None \<Rightarrow> s
       | Some status \<Rightarrow> rcApply (e_now env) (the appUserId) (rcUpdate ev (the appUserId) status) s))"

text \<open>The controller: the shared token is configured and is what the header carries.\<close>

definition rcWebhook :: "env \<Rightarrow> string \<Rightarrow> string option \<Rightarrow> rc_event option \<Rightarrow> db \<Rightarrow> (exn, unit, db) result" where
  "rcWebhook env expected authorization body s =
    (if expected = [] \<or> authorization \<noteq> Some expected
     then fail (Unauthorized (Sub InvalidWebhookAuth)) s
     else ok () (rcHandleEvent env body s))"

subsection \<open>The sync endpoint\<close>

text \<open>
  A RevenueCat subscriber as the REST API returns it: the entitlements in the order of the
  object's keys with their expiry (\<open>None\<close> when absent, \<open>Some None\<close> when it is no date), and
  the period type of each product's subscription.
\<close>

record rc_entitlement =
  re_expires :: "time option option"
  re_product :: "string option"

record rc_subscriber =
  rs_entitlements :: "(string \<times> rc_entitlement) list"
  rs_subscriptions :: "(string \<times> string option) list"

record rc_verified =
  vf_entitlement :: "string option"
  vf_productId :: "string option"
  vf_expiresAtMs :: "int option"
  vf_isTrial :: bool

definition rcStillActive :: "time \<Rightarrow> rc_entitlement \<Rightarrow> bool" where
  "rcStillActive now e \<longleftrightarrow>
    (case re_expires e of None \<Rightarrow> True | Some None \<Rightarrow> False | Some (Some t) \<Rightarrow> now < t)"

text \<open>
  \<open>answer\<close> is \<open>None\<close> when the request fails or its status is an error. \<open>key\<close> is the secret
  REST key of the configuration, empty when there is none.
\<close>

definition verifyWithRevenueCat :: "string \<Rightarrow> time \<Rightarrow> rc_subscriber option \<Rightarrow> rc_verified option" where
  "verifyWithRevenueCat key now answer =
    (if key = [] then None
     else case answer of
         None \<Rightarrow> None
       | Some body \<Rightarrow>
           let activeIds = map fst (filter (\<lambda>(_, e). rcStillActive now e) (rs_entitlements body))
           in (case pickActiveEntitlement activeIds of
               None \<Rightarrow> Some \<lparr>vf_entitlement = None, vf_productId = None, vf_expiresAtMs = None,
                            vf_isTrial = False\<rparr>
             | Some entitlement \<Rightarrow>
                 let ent = map_of (rs_entitlements body) entitlement;
                     productId = Option.bind ent re_product;
                     periodType = (if truthy productId
                       then Option.bind (map_of (rs_subscriptions body) (the productId)) id else None)
                 in Some \<lparr>vf_entitlement = Some entitlement, vf_productId = productId,
                          vf_expiresAtMs = Option.bind (Option.bind ent re_expires) id,
                          vf_isTrial = (lower (orEmpty periodType) = ''trial'')\<rparr>))"

record sync_subscription_dto =
  sy_entitlementId :: "string option"
  sy_productId :: "string option"
  sy_expiresAtMs :: "int option"
  sy_isTrial :: "bool option"
  sy_revenueCatCustomerId :: "id option"
  sy_category :: "seller_category option"

text \<open>\<open>assertSeller\<close> of the sellers service.\<close>

definition assertSellerProfile :: "id \<Rightarrow> db \<Rightarrow> exn + id" where
  "assertSellerProfile supabaseId s =
    (case getUserBySupabase s supabaseId of None \<Rightarrow> Inl (NotFound UserProfile) | Some user \<Rightarrow>
     if u_role user \<noteq> R_Seller \<or> getSeller s (u_id user) = None
     then Inl (Forbidden (Seller OnlySellersUpdateProfile)) else Inr (u_id user))"

definition syncUpdate :: "id \<Rightarrow> rc_verified option \<Rightarrow> sync_subscription_dto \<Rightarrow> subscription_update" where
  "syncUpdate userId verified dto =
    (let entitlement = orElse (Option.bind verified vf_entitlement) (sy_entitlementId dto);
         productId = orElse (Option.bind verified vf_productId) (sy_productId dto);
         expiresAtMs = orElse (Option.bind verified vf_expiresAtMs) (sy_expiresAtMs dto);
         isTrial = (case orElse (map_option vf_isTrial verified) (sy_isTrial dto) of
             None \<Rightarrow> False | Some b \<Rightarrow> b)
     in \<lparr>sx_status = (if truthy entitlement
           then activeStatusForPeriod (Some (if isTrial then ''TRIAL'' else ''NORMAL'')) else S_None),
         sx_entitlement = entitlement, sx_productId = productId, sx_expiresAtMs = expiresAtMs,
         sx_isTrial = isTrial, sx_category = sy_category dto,
         sx_revenueCatCustomerId = Some (case sy_revenueCatCustomerId dto of
             None \<Rightarrow> userId | Some c \<Rightarrow> c)\<rparr>)"

record seller_subscription_response =
  sr_status :: subscription_status
  sr_active :: bool
  sr_isPremium :: bool
  sr_plan :: "string option"
  sr_entitlement :: "string option"
  sr_productId :: "string option"
  sr_currentPeriodEnd :: "time option"
  sr_trialEndsAt :: "time option"

definition toSellerSubscriptionResponse :: "time \<Rightarrow> seller_row \<Rightarrow> seller_subscription_response" where
  "toSellerSubscriptionResponse now p =
    \<lparr>sr_status = sp_subscriptionStatus p,
     sr_active = isSubscriptionActive now (sp_subscriptionStatus p) (sp_subscriptionCurrentPeriodEnd p),
     sr_isPremium = sp_isPremium p, sr_plan = sp_subscriptionPlan p,
     sr_entitlement = sp_revenueCatEntitlement p, sr_productId = sp_subscriptionProductId p,
     sr_currentPeriodEnd = sp_subscriptionCurrentPeriodEnd p, sr_trialEndsAt = sp_trialEndsAt p\<rparr>"

definition syncRevenueCatSubscription :: "env \<Rightarrow> string \<Rightarrow> rc_subscriber option \<Rightarrow> id
    \<Rightarrow> sync_subscription_dto \<Rightarrow> db \<Rightarrow> (exn, seller_subscription_response, db) result" where
  "syncRevenueCatSubscription env key answer supabaseId dto s =
    bindR (liftE (assertSellerProfile supabaseId s) s) (\<lambda>userId s.
      let upd = syncUpdate userId (verifyWithRevenueCat key (e_now env) answer) dto;
          s1 = updSeller userId (buildSubscriptionFields (e_now env) upd) s
      in ok (toSellerSubscriptionResponse (e_now env) (the (getSeller s1 userId))) s1)"

subsection \<open>The Stripe subscription\<close>

datatype 'a expandable = Unset | OnlyId | Expanded 'a

record service_subscription = stripe_subscription +
  su_latestInvoice :: "(id \<times> string option) expandable expandable"

definition clientSecretOf :: "service_subscription \<Rightarrow> string option" where
  "clientSecretOf sub =
    (case su_latestInvoice sub of Expanded (Expanded (_, secret)) \<Rightarrow> secret | _ \<Rightarrow> None)"

definition periodEnd :: "service_subscription \<Rightarrow> time option" where
  "periodEnd sub =
    (if truthyInt (su_currentPeriodEnd sub) then Some (the (su_currentPeriodEnd sub) * 1000) else None)"

definition writeStateFromSub :: "id \<Rightarrow> service_subscription \<Rightarrow> db \<Rightarrow> db" where
  "writeStateFromSub userId sub s = updSeller userId
     (\<lambda>p. p\<lparr>sp_stripeSubscriptionId := Some (su_id sub),
            sp_subscriptionStatus := subscriptionStatusFromStripe (su_status sub),
            sp_subscriptionCurrentPeriodEnd := periodEnd sub\<rparr>) s"

record subscription_state =
  st_status :: subscription_status
  st_currentPeriodEnd :: "time option"
  st_active :: bool

definition subscriptionState :: "time \<Rightarrow> subscription_status \<Rightarrow> time option \<Rightarrow> subscription_state" where
  "subscriptionState now status pend =
    \<lparr>st_status = status, st_currentPeriodEnd = pend, st_active = isSubscriptionActive now status pend\<rparr>"

text \<open>The state is re-read from Stripe only when it is not active and a subscription id is known.\<close>

definition getStatus :: "env \<Rightarrow> (id \<Rightarrow> service_subscription option) \<Rightarrow> id \<Rightarrow> db
    \<Rightarrow> (exn, subscription_state, db) result" where
  "getStatus env retrieve supabaseId s =
    (case getUserBySupabase s supabaseId of None \<Rightarrow> fail (NotFound UserProfile) s | Some user \<Rightarrow>
     (case getSeller s (u_id user) of
        None \<Rightarrow> ok (subscriptionState (e_now env) S_None None) s
      | Some sp \<Rightarrow>
          let stored = ok (subscriptionState (e_now env) (sp_subscriptionStatus sp)
                (sp_subscriptionCurrentPeriodEnd sp)) s
          in if truthy (sp_stripeSubscriptionId sp) \<and>
                \<not> isSubscriptionActive (e_now env) (sp_subscriptionStatus sp)
                    (sp_subscriptionCurrentPeriodEnd sp)
             then (case retrieve (the (sp_stripeSubscriptionId sp)) of
                 None \<Rightarrow> stored
               | Some sub \<Rightarrow>
                   ok (subscriptionState (e_now env) (subscriptionStatusFromStripe (su_status sub))
                        (periodEnd sub)) (writeStateFromSub (u_id user) sub s))
             else stored))"

text \<open>\<open>ensureCustomer\<close>: unlike the orders service it has no fallback of any kind.\<close>

definition ensureCustomer :: "env \<Rightarrow> id \<Rightarrow> id option \<Rightarrow> db \<Rightarrow> (exn, id, db) result" where
  "ensureCustomer env userId existing s =
    (if truthy existing \<and> \<not> startsWith (the existing) ''cus_dev_'' \<and>
        e_custRetrieve env (the existing) = Some False
     then ok (the existing) s
     else case e_custCreate env of
         Inl _ \<Rightarrow> fail UncaughtError s
       | Inr cid \<Rightarrow>
           if customerTaken userId cid s then fail PrismaConflict s
           else ok cid (updUser userId (\<lambda>u. u\<lparr>u_stripeCustomerId := Some cid\<rparr>) s))"

record subscription_created =
  sc_clientSecret :: "string option"
  sc_subscriptionId :: id
  sc_status :: string

definition createdFrom :: "service_subscription \<Rightarrow> subscription_created" where
  "createdFrom sub = \<lparr>sc_clientSecret = clientSecretOf sub, sc_subscriptionId = su_id sub,
     sc_status = su_status sub\<rparr>"

text \<open>
  The existing subscription: an active one is written back and refused, an incomplete one is
  returned again, and anything else (or a failed look-up) lets a fresh one be created.
\<close>

definition reuseSubscription :: "(id \<Rightarrow> service_subscription option) \<Rightarrow> id \<Rightarrow> seller_row \<Rightarrow> db
    \<Rightarrow> (exn, subscription_created, db) result option" where
  "reuseSubscription retrieve userId sp s =
    (if \<not> truthy (sp_stripeSubscriptionId sp) then None
     else case retrieve (the (sp_stripeSubscriptionId sp)) of
         None \<Rightarrow> None
       | Some existing \<Rightarrow>
           if su_status existing = ''active'' \<or> su_status existing = ''trialing''
           then Some (fail (Conflict (Sub SubscriptionAlreadyActive)) (writeStateFromSub userId existing s))
           else if su_status existing = ''incomplete'' then Some (ok (createdFrom existing) s)
           else None)"

definition createSubscription :: "env \<Rightarrow> string \<Rightarrow> (id \<Rightarrow> service_subscription option)
    \<Rightarrow> (string + service_subscription) \<Rightarrow> id \<Rightarrow> db \<Rightarrow> (exn, subscription_created, db) result" where
  "createSubscription env priceId retrieve created supabaseId s =
    (if priceId = [] then fail (ServiceUnavailable (Sub PlanNotConfigured)) s
     else case getUserBySupabase s supabaseId of None \<Rightarrow> fail (NotFound UserProfile) s | Some user \<Rightarrow>
      (case (if u_role user \<noteq> R_Seller then None else getSeller s (u_id user)) of
         None \<Rightarrow> fail (Forbidden (Sub OnlySellersSubscribe)) s
       | Some sp \<Rightarrow>
           if isSubscriptionActive (e_now env) (sp_subscriptionStatus sp)
                (sp_subscriptionCurrentPeriodEnd sp)
           then fail (Conflict (Sub SubscriptionAlreadyActive)) s
           else (case reuseSubscription retrieve (u_id user) sp s of
               Some r \<Rightarrow> r
             | None \<Rightarrow>
                 bindR (ensureCustomer env (u_id user) (u_stripeCustomerId user) s) (\<lambda>_ s.
                   case created of
                     Inl _ \<Rightarrow> fail UncaughtError s
                   | Inr sub \<Rightarrow> ok (createdFrom sub) (writeStateFromSub (u_id user) sub s)))))"

definition createPortalSession :: "(string + string) \<Rightarrow> id \<Rightarrow> db \<Rightarrow> exn + string" where
  "createPortalSession session supabaseId s =
    (case getUserBySupabase s supabaseId of None \<Rightarrow> Inl (NotFound UserProfile) | Some user \<Rightarrow>
     if u_role user \<noteq> R_Seller then Inl (Forbidden (Sub OnlySellersPortal))
     else if \<not> truthy (u_stripeCustomerId user) then Inl (Conflict (Sub NoBillingAccount))
     else (case session of Inl _ \<Rightarrow> Inl UncaughtError | Inr url \<Rightarrow> Inr url))"

subsection \<open>What the gate sees\<close>

text \<open>C40: A RevenueCat update opens the listing and order gate exactly while its status is active
  or trialing and its period has not ended; where the provider sends no expiry the period
  ends a calendar month later, so never before 28 nor after 31 days. The premium commission
  tier is given exactly with an active premium entitlement.\<close>

theorem revenuecat_gate_window:
  "(let r' = buildSubscriptionFields now upd r;
        end = (if truthyInt (sx_expiresAtMs upd) then the (sx_expiresAtMs upd) else oneMonthFromNow now)
    in (isSubscriptionActive t (sp_subscriptionStatus r') (sp_subscriptionCurrentPeriodEnd r') \<longleftrightarrow>
         sx_status upd \<in> {S_Active, S_Trialing} \<and> t < end) \<and>
       (sp_isPremium r' \<longleftrightarrow> sx_status upd \<in> {S_Active, S_Trialing} \<and>
         sx_entitlement upd = Some SELLER_PREMIUM_ENTITLEMENT)) \<and>
   now + 28 * msPerDay \<le> oneMonthFromNow now \<and> oneMonthFromNow now \<le> now + 31 * msPerDay"
  using addMonths_1_bounds [of now]
  by (auto simp: buildSubscriptionFields_def subscriptionPeriodEnd_def isPremiumEntitlement_def
      isSubscriptionActive_def truthyInt_def oneMonthFromNow_def Let_def not_le
      split: option.splits if_splits)

subsection \<open>The two writers\<close>

text \<open>The period types of the two interfaces, upper case in events and lower case in the REST answer.\<close>

definition periodName :: "bool \<Rightarrow> string" where
  "periodName isTrial = (if isTrial then ''TRIAL'' else ''NORMAL'')"

text \<open>For a trial or a normal period the sync endpoint, once RevenueCat confirms the purchase,
  writes the same columns as the webhook's event about it. For an introductory period they
  disagree: the event makes the seller TRIALING and the endpoint ACTIVE.\<close>

theorem sync_webhook_agree:
  assumes v: "vf_entitlement v = Some ent" "ent \<in> {SELLER_STANDARD_ENTITLEMENT, SELLER_PREMIUM_ENTITLEMENT}"
    and ev: "rcEntitlementIds ev = [ent]" "rce_product_id ev = vf_productId v"
      "rce_expiration_at_ms ev = vf_expiresAtMs v" "vf_productId v \<noteq> None" "vf_expiresAtMs v \<noteq> None"
    and dto: "sy_category dto = None" "sy_revenueCatCustomerId dto = None"
  shows "(rce_period_type ev = Some (periodName (vf_isTrial v)) \<longrightarrow>
      map_option (rcUpdate ev userId) (webhookEventToStatus ''INITIAL_PURCHASE'' (rce_period_type ev)) =
        Some (syncUpdate userId (Some v) dto)) \<and>
    (rce_period_type ev = Some ''INTRO'' \<and> \<not> vf_isTrial v \<longrightarrow>
      webhookEventToStatus ''INITIAL_PURCHASE'' (rce_period_type ev) = Some S_Trialing \<and>
      sx_status (syncUpdate userId (Some v) dto) = S_Active)"
proof -
  have up: "upper ''TRIAL'' = ''TRIAL''" "upper ''NORMAL'' = ''NORMAL''" "upper ''INTRO'' = ''INTRO''"
    by code_simp+
  have ent: "ent \<noteq> []" "pickActiveEntitlement [ent] = Some ent"
    using v(2) by (auto simp: pickActiveEntitlement_def SELLER_STANDARD_ENTITLEMENT_def
        SELLER_PREMIUM_ENTITLEMENT_def)
  show ?thesis
    using v(1) ev dto ent
    by (auto simp: rcUpdate_def syncUpdate_def webhookEventToStatus_def activeStatusForPeriod_def
        periodName_def orElse_def orEmpty_def truthy_def up Let_def split: option.splits)
qed

text \<open>The endpoint believes the client even when RevenueCat was asked and knows of no active
  entitlement: any non-empty entitlement the client names opens the gate for at least 28
  days, and naming the premium one gives the premium commission tier.\<close>

theorem sync_trusts_client_hint:
  assumes seller: "assertSellerProfile sb s = Inr uid" "getSeller s uid = Some p"
    and key: "key \<noteq> []" and body: "answer = Some subscriber"
    and none: "pickActiveEntitlement (map fst (filter (\<lambda>(_, e). rcStillActive (e_now env) e)
      (rs_entitlements subscriber))) = None"
    and dto: "sy_entitlementId dto = Some hint" "hint \<noteq> []" "sy_expiresAtMs dto = None"
    and t: "t < e_now env + 28 * msPerDay"
  shows "\<exists>resp s' p'. syncRevenueCatSubscription env key answer sb dto s = (Inr resp, s') \<and>
    getSeller s' uid = Some p' \<and>
    isSubscriptionActive t (sp_subscriptionStatus p') (sp_subscriptionCurrentPeriodEnd p') \<and>
    sp_isPremium p' = (hint = SELLER_PREMIUM_ENTITLEMENT)"
proof -
  define upd where "upd = syncUpdate uid (verifyWithRevenueCat key (e_now env) answer) dto"
  have up: "upper ''TRIAL'' = ''TRIAL''" "upper ''NORMAL'' = ''NORMAL''" by code_simp+
  have u: "sx_status upd \<in> {S_Active, S_Trialing}" "sx_entitlement upd = Some hint"
    "sx_expiresAtMs upd = None"
    using key body none dto
    by (auto simp: upd_def syncUpdate_def verifyWithRevenueCat_def orElse_def truthy_def Let_def
        activeStatusForPeriod_def orEmpty_def up)
  let ?s' = "updSeller uid (buildSubscriptionFields (e_now env) upd) s"
  have "getSeller ?s' uid = Some (buildSubscriptionFields (e_now env) upd p)"
    using seller(2) by (simp add: sel.get_put buildSubscriptionFields_def Let_def)
  moreover have "isSubscriptionActive t (sp_subscriptionStatus (buildSubscriptionFields (e_now env) upd p))
      (sp_subscriptionCurrentPeriodEnd (buildSubscriptionFields (e_now env) upd p))"
    using u t addMonths_1_bounds [of "e_now env"]
    by (auto simp: buildSubscriptionFields_def subscriptionPeriodEnd_def isSubscriptionActive_def
        truthyInt_def oneMonthFromNow_def Let_def)
  moreover have "sp_isPremium (buildSubscriptionFields (e_now env) upd p) = (hint = SELLER_PREMIUM_ENTITLEMENT)"
    using u by (auto simp: buildSubscriptionFields_def isPremiumEntitlement_def Let_def)
  ultimately show ?thesis
    using seller(1) by (auto simp: syncRevenueCatSubscription_def upd_def [symmetric] Let_def ok_def)
qed

text \<open>The Stripe webhook still writes the columns RevenueCat owns: an event about a cancelled
  Stripe subscription of a seller closes the gate, whatever RevenueCat plan is paid for.\<close>

theorem stripe_event_closes_plan:
  assumes "subscriptionOwner sub s = Some uid" and "getSeller s uid = Some p"
    and "su_status sub = ''canceled''"
  shows "\<exists>p'. getSeller (snd (handleEvent env retrieve (SubscriptionChanged sub) s)) uid = Some p' \<and>
    sp_revenueCatEntitlement p' = sp_revenueCatEntitlement p \<and>
    sp_subscriptionPlan p' = sp_subscriptionPlan p \<and>
    \<not> isSubscriptionActive t (sp_subscriptionStatus p') (sp_subscriptionCurrentPeriodEnd p')"
  using assms
  by (simp add: applySubscriptionState_def sel.get_put isSubscriptionActive_def
      subscriptionStatusFromStripe_def)

subsection \<open>Redelivered events\<close>

lemma buildSubscriptionFields_twice:
  "buildSubscriptionFields now upd (buildSubscriptionFields now upd r) = buildSubscriptionFields now upd r"
  by (simp add: buildSubscriptionFields_def Let_def split: option.split)

lemma buildSubscriptionFields_customer:
  "sx_revenueCatCustomerId upd = Some c \<Longrightarrow> c \<noteq> [] \<Longrightarrow>
   sp_revenueCatCustomerId (buildSubscriptionFields now upd r) = Some c"
  by (simp add: buildSubscriptionFields_def truthy_def Let_def)

lemma buildSubscriptionFields_user [simp]:
  "sp_userId (buildSubscriptionFields now upd r) = sp_userId r"
  by (simp add: buildSubscriptionFields_def Let_def)

lemma buildSubscriptionFields_clock:
  assumes "truthyInt (sx_expiresAtMs upd) \<or> sx_status upd \<notin> {S_Active, S_Trialing}"
  shows "buildSubscriptionFields now upd = buildSubscriptionFields now' upd"
  using assms by (auto simp: fun_eq_iff buildSubscriptionFields_def subscriptionPeriodEnd_def Let_def)

lemma rcApply_twice:
  assumes c: "sx_revenueCatCustomerId upd = Some i" "i \<noteq> []"
    and e: "truthyInt (sx_expiresAtMs upd) \<or> sx_status upd \<notin> {S_Active, S_Trialing}"
  shows "rcApply now' i upd (rcApply now i upd s) = rcApply now i upd s"
proof -
  note clock = buildSubscriptionFields_clock [OF e, of now' now]
  have n: "countWhere (\<lambda>r. sp_userId r = i) (updWhere q (buildSubscriptionFields now upd) rows) =
      countWhere (\<lambda>r. sp_userId r = i) rows" for q rows
    by (rule countWhere_updWhere) simp
  show ?thesis
    using c by (simp add: rcApply_def Let_def clock n updWhere_stable buildSubscriptionFields_twice
        buildSubscriptionFields_customer)
qed

text \<open>RevenueCat retries its webhooks: an event that carries an expiry, or closes the plan,
  changes nothing when it is delivered again, at whatever time.\<close>

theorem rc_event_idempotent:
  assumes "truthyInt (rce_expiration_at_ms ev) \<or>
    webhookEventToStatus (the (rce_type ev)) (rce_period_type ev) \<notin> {Some S_Active, Some S_Trialing}"
  shows "rcHandleEvent env' (Some ev) (rcHandleEvent env (Some ev) s) = rcHandleEvent env (Some ev) s"
proof (cases "truthy (rce_type ev) \<and> truthy (orElse (rce_app_user_id ev) (rce_original_app_user_id ev))")
  case True
  let ?i = "the (orElse (rce_app_user_id ev) (rce_original_app_user_id ev))"
  from True have i: "?i \<noteq> []" by (auto simp: truthy_def split: option.splits)
  show ?thesis
  proof (cases "webhookEventToStatus (the (rce_type ev)) (rce_period_type ev)")
    case None
    with True show ?thesis by (simp add: rcHandleEvent_def Let_def)
  next
    case (Some st)
    from rcApply_twice [of "rcUpdate ev ?i st" ?i "e_now env'" "e_now env" s] assms i Some True
    show ?thesis by (simp add: rcHandleEvent_def rcUpdate_def Let_def)
  qed
qed (auto simp: rcHandleEvent_def Let_def)

definition rc_sale :: rc_event where
  "rc_sale = \<lparr>rce_type = Some ''INITIAL_PURCHASE'', rce_app_user_id = Some ''s'',
    rce_original_app_user_id = None, rce_product_id = Some ''monthly'', rce_entitlement_id = None,
    rce_entitlement_ids = Some [SELLER_PREMIUM_ENTITLEMENT], rce_period_type = Some ''NORMAL'',
    rce_expiration_at_ms = Some 5000\<rparr>"

theorem rc_event_idempotent_witness:
  "rcHandleEvent (demo_env\<lparr>e_now := 99\<rparr>) (Some rc_sale) (rcHandleEvent demo_env (Some rc_sale) payout_db) =
     rcHandleEvent demo_env (Some rc_sale) payout_db"
  by (rule rc_event_idempotent) (simp add: rc_sale_def truthyInt_def)

definition rc_confirmed :: rc_verified where
  "rc_confirmed = \<lparr>vf_entitlement = Some SELLER_PREMIUM_ENTITLEMENT, vf_productId = Some ''monthly'',
    vf_expiresAtMs = Some 5000, vf_isTrial = False\<rparr>"

definition empty_sync :: sync_subscription_dto where
  "empty_sync = \<lparr>sy_entitlementId = None, sy_productId = None, sy_expiresAtMs = None,
    sy_isTrial = None, sy_revenueCatCustomerId = None, sy_category = None\<rparr>"

theorem sync_webhook_agree_witness:
  "map_option (rcUpdate rc_sale ''s'') (webhookEventToStatus ''INITIAL_PURCHASE'' (Some ''NORMAL'')) =
     Some (syncUpdate ''s'' (Some rc_confirmed) empty_sync)"
  using sync_webhook_agree [of rc_confirmed SELLER_PREMIUM_ENTITLEMENT rc_sale empty_sync "''s''"]
  by (simp add: rc_confirmed_def rc_sale_def empty_sync_def rcEntitlementIds_def periodName_def)

theorem sync_trusts_client_hint_witness:
  "\<exists>resp s' p'. syncRevenueCatSubscription demo_env ''key''
      (Some \<lparr>rs_entitlements = [], rs_subscriptions = []\<rparr>) ''sb''
      (empty_sync\<lparr>sy_entitlementId := Some SELLER_PREMIUM_ENTITLEMENT\<rparr>) payout_db = (Inr resp, s') \<and>
    getSeller s' ''s'' = Some p' \<and> sp_isPremium p'"
proof -
  have a: "assertSellerProfile ''sb'' payout_db = Inr ''s''" by code_simp
  obtain p where p: "getSeller payout_db ''s'' = Some p" by (simp add: getSeller_def payout_db_def)
  show ?thesis
    using sync_trusts_client_hint [OF a p, of "''key''" "Some \<lparr>rs_entitlements = [], rs_subscriptions = []\<rparr>"
        "\<lparr>rs_entitlements = [], rs_subscriptions = []\<rparr>" demo_env
        "empty_sync\<lparr>sy_entitlementId := Some SELLER_PREMIUM_ENTITLEMENT\<rparr>" SELLER_PREMIUM_ENTITLEMENT 0]
    by (force simp: empty_sync_def demo_env_def msPerDay_def pickActiveEntitlement_def
        SELLER_PREMIUM_ENTITLEMENT_def)
qed

definition cancelled_sub :: stripe_subscription where
  "cancelled_sub = \<lparr>su_id = ''sub'', su_status = ''canceled'', su_metaUserId = Some ''s'',
    su_customerId = None, su_currentPeriodEnd = None\<rparr>"

theorem stripe_event_closes_plan_witness:
  "\<exists>p'. getSeller (snd (handleEvent demo_env (\<lambda>_. None) (SubscriptionChanged cancelled_sub)
       (rcHandleEvent demo_env (Some rc_sale) payout_db))) ''s'' = Some p' \<and>
    sp_subscriptionPlan p' = Some ''PREMIUM'' \<and>
    \<not> isSubscriptionActive 0 (sp_subscriptionStatus p') (sp_subscriptionCurrentPeriodEnd p')"
proof -
  let ?s = "rcHandleEvent demo_env (Some rc_sale) payout_db"
  have o: "subscriptionOwner cancelled_sub ?s = Some ''s''"
    and q: "map_option sp_subscriptionPlan (getSeller ?s ''s'') = Some (Some ''PREMIUM'')"
    by code_simp+
  from q obtain p where p: "getSeller ?s ''s'' = Some p" "sp_subscriptionPlan p = Some ''PREMIUM''" by auto
  from stripe_event_closes_plan [OF o p(1), of demo_env "\<lambda>_. None" 0] p(2) show ?thesis
    by (auto simp: cancelled_sub_def)
qed

end
