(* ===== verification/Sellers.thy ===== *)
theory Sellers
  imports Subscriptions "HOL-Library.Product_Lexorder"
begin

section \<open>Seller profiles\<close>

text \<open>
  \<open>src/modules/sellers/sellers.service.ts\<close> (profile, business, cuisines, the kitchens list)
  and \<open>src/common/constants/seller-radius.constants.ts\<close>. Dates and times of the request
  bodies are already parsed; the synchronisation of the subscription is in the theory
  \<open>Subscriptions\<close>.
\<close>

subsection \<open>Radius caps\<close>

fun CATEGORY_MAX_RADIUS_KM :: "seller_category \<Rightarrow> int" where
  "CATEGORY_MAX_RADIUS_KM SC_FaitMaison = 10"
| "CATEGORY_MAX_RADIUS_KM SC_Traiteur = 50"
| "CATEGORY_MAX_RADIUS_KM SC_Restaurant = 10"

definition DEFAULT_MAX_RADIUS_KM :: int where
  "DEFAULT_MAX_RADIUS_KM = 10"

definition maxRadiusForCategory :: "seller_category option \<Rightarrow> int" where
  "maxRadiusForCategory category =
    (case category of None \<Rightarrow> DEFAULT_MAX_RADIUS_KM | Some c \<Rightarrow> CATEGORY_MAX_RADIUS_KM c)"

subsection \<open>Profile\<close>

record upsert_profile_dto =
  up_category :: seller_category
  up_displayName :: string
  up_bio :: "string option"
  up_profilePhotoUrl :: string
  up_dateOfBirth :: time
  up_neighborhood :: "string option"
  up_deliveryRadiusKm :: "rat option"
  up_deliveryFeeCents :: "int option"
  up_prepMinMinutes :: "int option"
  up_prepMaxMinutes :: "int option"
  up_hygieneCommitment :: "bool option"
  up_faitMaisonCommitment :: "bool option"

definition profileCheck :: "upsert_profile_dto \<Rightarrow> exn option" where
  "profileCheck dto =
    (if (case (up_prepMinMinutes dto, up_prepMaxMinutes dto) of
           (Some lo, Some hi) \<Rightarrow> hi < lo | _ \<Rightarrow> False)
     then Some (BadRequest (Seller PrepRange))
     else if (case up_deliveryRadiusKm dto of None \<Rightarrow> False
         | Some km \<Rightarrow> of_int (maxRadiusForCategory (Some (up_category dto))) < km)
     then Some (BadRequest (Seller (RadiusTooLarge (maxRadiusForCategory (Some (up_category dto))))))
     else None)"

definition profileRow :: "env \<Rightarrow> upsert_profile_dto \<Rightarrow> seller_row \<Rightarrow> seller_row" where
  "profileRow env dto r =
    r\<lparr>sp_category := Some (up_category dto), sp_displayName := Some (up_displayName dto),
      sp_bio := up_bio dto, sp_profilePhotoUrl := Some (up_profilePhotoUrl dto),
      sp_dateOfBirth := Some (up_dateOfBirth dto), sp_neighborhood := up_neighborhood dto,
      sp_deliveryRadiusKm := up_deliveryRadiusKm dto,
      sp_deliveryFeeCents :=
        Some (case up_deliveryFeeCents dto of None \<Rightarrow> e_deliveryFeeCents env | Some n \<Rightarrow> n),
      sp_prepMinMinutes := up_prepMinMinutes dto, sp_prepMaxMinutes := up_prepMaxMinutes dto,
      sp_hygieneCommitment := up_hygieneCommitment dto,
      sp_faitMaisonCommitment := up_faitMaisonCommitment dto,
      sp_kycStatus := (if up_category dto = SC_FaitMaison \<and> sp_kycStatus r = K_Pending
        then K_Approved else sp_kycStatus r)\<rparr>"

definition upsertProfile :: "env \<Rightarrow> id \<Rightarrow> upsert_profile_dto \<Rightarrow> db \<Rightarrow> (exn, seller_row, db) result" where
  "upsertProfile env supabaseId dto s =
    bindR (liftE (assertSellerProfile supabaseId s) s) (\<lambda>userId s.
      case profileCheck dto of Some e \<Rightarrow> fail e s | None \<Rightarrow>
      let s1 = updSeller userId (profileRow env dto) s
      in ok (the (getSeller s1 userId)) s1)"

subsection \<open>Business\<close>

definition digit :: "char \<Rightarrow> int" where
  "digit c = int (of_char c) - 48"

definition isDigit :: "char \<Rightarrow> bool" where
  "isDigit c \<longleftrightarrow> 0 \<le> digit c \<and> digit c \<le> 9"

text \<open>What one digit adds to the sum, at the positions that are doubled and at the others.\<close>

definition luhnDigit :: "nat \<Rightarrow> int \<Rightarrow> int" where
  "luhnDigit i d = (if (13 - i) mod 2 = 1 then (if 9 < d * 2 then d * 2 - 9 else d * 2) else d)"

primrec luhnSum :: "nat \<Rightarrow> string \<Rightarrow> int" where
  "luhnSum i [] = 0"
| "luhnSum i (c # cs) = luhnDigit i (digit c) + luhnSum (Suc i) cs"

definition isValidSiret :: "string \<Rightarrow> bool" where
  "isValidSiret siret \<longleftrightarrow> length siret = 14 \<and> list_all isDigit siret \<and> luhnSum 0 siret mod 10 = 0"

text \<open>\<open>parseTimeOfDay\<close>: the time of day as milliseconds after midnight, from the two numbers of \<open>hh:mm\<close>.\<close>

definition parseTimeOfDay :: "int \<times> int \<Rightarrow> int" where
  "parseTimeOfDay hm = (fst hm * 60 + snd hm) * 60000"

text \<open>The order of the enumeration, for \<open>orderBy: { dayOfWeek: 'asc' }\<close>.\<close>

primrec dayIndex :: "day_of_week \<Rightarrow> nat" where
  "dayIndex Monday = 0" | "dayIndex Tuesday = 1" | "dayIndex Wednesday = 2" | "dayIndex Thursday = 3"
| "dayIndex Friday = 4" | "dayIndex Saturday = 5" | "dayIndex Sunday = 6"

instantiation day_of_week :: linorder
begin

definition less_eq_day_of_week :: "day_of_week \<Rightarrow> day_of_week \<Rightarrow> bool" where
  "less_eq_day_of_week a b \<longleftrightarrow> dayIndex a \<le> dayIndex b"

definition less_day_of_week :: "day_of_week \<Rightarrow> day_of_week \<Rightarrow> bool" where
  "less_day_of_week a b \<longleftrightarrow> dayIndex a < dayIndex b"

instance
proof
  fix a b :: day_of_week
  show "a \<le> b \<Longrightarrow> b \<le> a \<Longrightarrow> a = b"
    by (cases a; cases b) (simp_all add: less_eq_day_of_week_def)
qed (auto simp: less_eq_day_of_week_def less_day_of_week_def)

end

record opening_dto =
  oo_dayOfWeek :: day_of_week
  oo_startTime :: "int \<times> int"
  oo_endTime :: "int \<times> int"

record upsert_business_dto =
  ub_businessName :: string
  ub_siret :: "string option"
  ub_facadeUrl :: "string option"
  ub_legalForm :: "string option"
  ub_openingHours :: "opening_dto list option"

definition siretOf :: "upsert_business_dto \<Rightarrow> string option" where
  "siretOf dto = (if truthy (map_option trim (ub_siret dto)) then map_option trim (ub_siret dto) else None)"

definition businessCheck :: "seller_category option \<Rightarrow> upsert_business_dto \<Rightarrow> exn option" where
  "businessCheck category dto =
    (if category = Some SC_FaitMaison then Some (BadRequest (Seller NoBusinessForFaitMaison))
     else if category = Some SC_Restaurant \<and> siretOf dto = None
     then Some (BadRequest (Seller SiretRequired))
     else (case siretOf dto of None \<Rightarrow> None
       | Some n \<Rightarrow> if isValidSiret n then None else Some (BadRequest (Seller SiretInvalid))))"

definition businessRow :: "id \<Rightarrow> upsert_business_dto \<Rightarrow> business_row" where
  "businessRow userId dto =
    \<lparr>bu_userId = userId, bu_businessName = ub_businessName dto, bu_siret = siretOf dto,
     bu_facadeUrl = ub_facadeUrl dto, bu_legalForm = ub_legalForm dto\<rparr>"

definition openingRow :: "id \<Rightarrow> opening_dto \<Rightarrow> opening_row" where
  "openingRow userId hr =
    \<lparr>oh_sellerId = userId, oh_dayOfWeek = oo_dayOfWeek hr,
     oh_startTime = parseTimeOfDay (oo_startTime hr), oh_endTime = parseTimeOfDay (oo_endTime hr)\<rparr>"

definition hoursOf :: "upsert_business_dto \<Rightarrow> opening_dto list" where
  "hoursOf dto = (case ub_openingHours dto of None \<Rightarrow> [] | Some hs \<Rightarrow> hs)"

text \<open>The SIRET is unique over all businesses, the day over a seller's opening hours.\<close>

definition siretTaken :: "id \<Rightarrow> upsert_business_dto \<Rightarrow> db \<Rightarrow> bool" where
  "siretTaken userId dto s \<longleftrightarrow> siretOf dto \<noteq> None \<and>
    list_ex (\<lambda>b. bu_userId b \<noteq> userId \<and> bu_siret b = siretOf dto) (t_businesses s)"

definition businessTx :: "id \<Rightarrow> upsert_business_dto \<Rightarrow> db \<Rightarrow> (exn, business_row \<times> opening_row list, db) result" where
  "businessTx userId dto s =
    (if siretTaken userId dto s then fail PrismaConflict s
     else if \<not> distinct (map oo_dayOfWeek (hoursOf dto)) then fail PrismaConflict s
     else let row = businessRow userId dto;
              hours = map (openingRow userId) (hoursOf dto);
              rows = (case findRow bu_userId userId (t_businesses s) of
                  None \<Rightarrow> t_businesses s @ [row]
                | Some _ \<Rightarrow> updRow bu_userId userId (\<lambda>_. row) (t_businesses s))
          in ok (row, sort_key oh_dayOfWeek hours) (s\<lparr>t_businesses := rows,
               t_openings := filter (\<lambda>h. oh_sellerId h \<noteq> userId) (t_openings s) @ hours\<rparr>))"

definition upsertBusiness :: "id \<Rightarrow> upsert_business_dto \<Rightarrow> db \<Rightarrow> (exn, business_row \<times> opening_row list, db) result" where
  "upsertBusiness supabaseId dto s =
    bindR (liftE (assertSellerProfile supabaseId s) s) (\<lambda>userId s.
      case businessCheck (Option.bind (getSeller s userId) sp_category) dto of
        Some e \<Rightarrow> fail e s | None \<Rightarrow> transaction (businessTx userId dto) s)"

subsection \<open>Cuisines and dishes\<close>

definition upsertCuisines :: "id \<Rightarrow> cuisine_type list \<Rightarrow> dish_type list \<Rightarrow> db
    \<Rightarrow> (exn, cuisine_type list \<times> dish_type list, db) result" where
  "upsertCuisines supabaseId cuisines dishes s =
    bindR (liftE (assertSellerProfile supabaseId s) s) (\<lambda>userId s.
      let category = Option.bind (getSeller s userId) sp_category;
          isFaitMaison = (category = None \<or> category = Some SC_FaitMaison);
          dishTypes = (if isFaitMaison then [] else dishes)
      in if \<not> isFaitMaison \<and> dishes = [] then fail (BadRequest (Seller DishTypeRequired)) s
         else if \<not> distinct cuisines \<or> \<not> distinct dishTypes then fail PrismaConflict s
         else ok (cuisines, dishTypes)
           (s\<lparr>t_sellerCuisines := filter (\<lambda>c. sc_userId c \<noteq> userId) (t_sellerCuisines s) @
                map (\<lambda>c. \<lparr>sc_userId = userId, sc_cuisineType = c\<rparr>) cuisines,
              t_sellerDishes := filter (\<lambda>d. sd_userId d \<noteq> userId) (t_sellerDishes s) @
                map (\<lambda>d. \<lparr>sd_userId = userId, sd_dishType = d\<rparr>) dishTypes\<rparr>))"

subsection \<open>Kitchens\<close>

record kitchen =
  kt_id :: id
  kt_name :: string
  kt_imageUrl :: string
  kt_rating :: rat
  kt_reviewCount :: int
  kt_isVerified :: bool
  kt_hasFreeDelivery :: bool
  kt_prep :: "(int \<times> int) option"
  kt_tags :: "cuisine_type list"

definition kitchenOf :: "db \<Rightarrow> seller_row \<Rightarrow> kitchen" where
  "kitchenOf s p =
    \<lparr>kt_id = sp_userId p, kt_name = orEmpty (sp_displayName p),
     kt_imageUrl = orEmpty (sp_profilePhotoUrl p),
     kt_rating = (case sp_averageRating p of None \<Rightarrow> 0 | Some a \<Rightarrow> a),
     kt_reviewCount = sp_reviewCount p, kt_isVerified = (sp_kycStatus p = K_Approved),
     kt_hasFreeDelivery = (sp_deliveryFeeCents p = Some 0),
     kt_prep = (case (sp_prepMinMinutes p, sp_prepMaxMinutes p) of
        (Some lo, Some hi) \<Rightarrow> Some (lo, hi) | _ \<Rightarrow> None),
     kt_tags = map sc_cuisineType (filter (\<lambda>c. sc_userId c = sp_userId p) (t_sellerCuisines s))\<rparr>"

text \<open>Best rated first with the unrated last, then by the number of reviews.\<close>

definition kitchenOrder :: "seller_row \<Rightarrow> bool \<times> rat \<times> int" where
  "kitchenOrder p = (sp_averageRating p = None,
     (case sp_averageRating p of None \<Rightarrow> 0 | Some a \<Rightarrow> - a), - sp_reviewCount p)"

definition listKitchens :: "db \<Rightarrow> kitchen list" where
  "listKitchens s =
    map (kitchenOf s) (take 50 (sort_key kitchenOrder (filter (\<lambda>p. sp_displayName p \<noteq> None \<and>
      (case getUser s (sp_userId p) of None \<Rightarrow> False
         | Some u \<Rightarrow> u_deletedAt u = None \<and> \<not> u_isSuspended u)) (t_sellers s))))"

subsection \<open>The identification of a business\<close>

lemma luhnSum_update:
  assumes "i < length xs"
  shows "luhnSum k (xs[i := c]) =
    luhnSum k xs + luhnDigit (k + i) (digit c) - luhnDigit (k + i) (digit (xs ! i))"
  using assms
proof (induction xs arbitrary: i k)
  case (Cons x xs)
  then show ?case by (cases i) auto
qed simp

lemma luhnDigit_inj:
  assumes "0 \<le> d" "d \<le> 9" "0 \<le> e" "e \<le> 9" and "(luhnDigit i d - luhnDigit i e) mod 10 = 0"
  shows "d = e"
proof -
  have "luhnDigit i d - luhnDigit i e = 0"
    using assms by (auto simp: luhnDigit_def split: if_splits) presburger+
  with assms(1-4) show ?thesis
    by (auto simp: luhnDigit_def split: if_splits) presburger+
qed

text \<open>A SIRET with one digit mistyped is never accepted in place of the right one.\<close>

theorem siret_detects_wrong_digit:
  assumes "isValidSiret n" and "i < 14" and "c \<noteq> n ! i"
  shows "\<not> isValidSiret (n[i := c])"
proof
  assume v: "isValidSiret (n[i := c])"
  have n: "length n = 14" "isDigit (n ! i)" "luhnSum 0 n mod 10 = 0"
    using assms(1,2) by (auto simp: isValidSiret_def list_all_length)
  have c: "isDigit c" "luhnSum 0 (n[i := c]) mod 10 = 0"
    using v n(1) assms(2) by (auto simp: isValidSiret_def list_all_length)
  have "(luhnDigit i (digit c) - luhnDigit i (digit (n ! i))) mod 10 = 0"
    using dvd_diff [OF mod_0_imp_dvd [OF c(2)] mod_0_imp_dvd [OF n(3)]] luhnSum_update [of i n 0 c]
      n(1) assms(2) by (simp add: mod_eq_0_iff_dvd)
  then have "digit c = digit (n ! i)"
    using luhnDigit_inj [of "digit c" "digit (n ! i)" i] n(2) c(1) by (simp add: isDigit_def)
  then show False using assms(3) by (simp add: digit_def)
qed

theorem siret_detects_wrong_digit_witness:
  "\<not> isValidSiret (''73282932000074'' [3 := CHR ''7''])"
  by (rule siret_detects_wrong_digit) (simp_all add: isValidSiret_def isDigit_def digit_def luhnDigit_def)

subsection \<open>Businesses\<close>

text \<open>At most one business per seller, only valid numbers, no number twice.\<close>

definition businesses_ok :: "db \<Rightarrow> bool" where
  "businesses_ok s \<longleftrightarrow> distinct (map bu_userId (t_businesses s)) \<and>
    (\<forall>b \<in> set (t_businesses s). bu_siret b \<noteq> None \<longrightarrow> isValidSiret (the (bu_siret b))) \<and>
    (\<forall>b \<in> set (t_businesses s). \<forall>c \<in> set (t_businesses s).
      bu_siret b \<noteq> None \<longrightarrow> bu_siret b = bu_siret c \<longrightarrow> bu_userId b = bu_userId c)"

lemma upsertBusiness_cases:
  assumes "upsertBusiness sb dto s = (r, t)"
  obtains "\<exists>e. r = Inl e" "t = s"
    | uid where "assertSellerProfile sb s = Inr uid"
      "businessCheck (Option.bind (getSeller s uid) sp_category) dto = None"
      "\<not> siretTaken uid dto s" "distinct (map oo_dayOfWeek (hoursOf dto))"
      "t = s\<lparr>t_businesses := (case findRow bu_userId uid (t_businesses s) of
                  None \<Rightarrow> t_businesses s @ [businessRow uid dto]
                | Some _ \<Rightarrow> updRow bu_userId uid (\<lambda>_. businessRow uid dto) (t_businesses s)),
             t_openings := filter (\<lambda>h. oh_sellerId h \<noteq> uid) (t_openings s) @
               map (openingRow uid) (hoursOf dto)\<rparr>"
proof (cases "assertSellerProfile sb s")
  case (Inl e)
  with assms show thesis by (intro that(1)) (auto simp: upsertBusiness_def fail_eq_iff)
next
  case (Inr uid)
  let ?check = "businessCheck (Option.bind (getSeller s uid) sp_category) dto"
  have run: "(case ?check of Some e \<Rightarrow> fail e s | None \<Rightarrow> transaction (businessTx uid dto) s) = (r, t)"
    using assms Inr by (simp add: upsertBusiness_def)
  show thesis
  proof (cases "?check = None \<and> \<not> siretTaken uid dto s \<and> distinct (map oo_dayOfWeek (hoursOf dto))")
    case True
    with run Inr show thesis
      by (intro that(2) [of uid]) (simp_all add: transaction_def businessTx_def ok_def Let_def)
  next
    case False
    with run show thesis
      by (intro that(1); cases ?check)
        (auto simp: transaction_def businessTx_def fail_def split: if_splits)
  qed
qed

definition businessRows :: "id \<Rightarrow> business_row \<Rightarrow> business_row list \<Rightarrow> business_row list" where
  "businessRows uid row rows = (case findRow bu_userId uid rows of
     None \<Rightarrow> rows @ [row] | Some _ \<Rightarrow> updRow bu_userId uid (\<lambda>_. row) rows)"

lemma businessRows_mem:
  assumes "b \<in> set (businessRows uid row rows)"
  shows "b = row \<or> b \<in> set rows \<and> bu_userId b \<noteq> uid"
  using assms by (auto simp: businessRows_def updRow_def findRow_None_iff split: option.splits if_splits)

lemma businessRows_distinct:
  assumes "bu_userId row = uid" and "distinct (map bu_userId rows)"
  shows "distinct (map bu_userId (businessRows uid row rows))"
proof (cases "findRow bu_userId uid rows")
  case None
  with assms(1) have "\<forall>r \<in> set rows. bu_userId r \<noteq> bu_userId row" by (simp add: findRow_None_iff)
  with assms(2) show ?thesis by (auto simp: businessRows_def None)
next
  case (Some r)
  have "map bu_userId (updRow bu_userId uid (\<lambda>_. row) rows) = map bu_userId rows"
    using assms(1) by (induction rows) (auto simp: updRow_def)
  with assms Some show ?thesis by (simp add: businessRows_def)
qed

definition business_step :: "db \<Rightarrow> db \<Rightarrow> bool" where
  "business_step s t \<longleftrightarrow> (\<exists>sb dto. t = snd (upsertBusiness sb dto s))"

lemma businesses_ok_step:
  assumes inv: "businesses_ok s" and "business_step s t"
  shows "businesses_ok t"
proof -
  obtain sb dto r where "upsertBusiness sb dto s = (r, t)"
    using assms(2) unfolding business_step_def by (metis prod.collapse)
  then show ?thesis
  proof (cases rule: upsertBusiness_cases)
    case 1
    with inv show ?thesis by simp
  next
    case (2 uid)
    define row where "row = businessRow uid dto"
    have rows: "t_businesses t = businessRows uid row (t_businesses s)"
      unfolding 2(5) row_def by (simp add: businessRows_def)
    have row: "bu_userId row = uid" "bu_siret row = siretOf dto"
      by (simp_all add: row_def businessRow_def)
    have valid: "siretOf dto \<noteq> None \<longrightarrow> isValidSiret (the (siretOf dto))"
      using 2(2) by (auto simp: businessCheck_def split: if_splits option.splits)
    have free: "siretOf dto \<noteq> None \<longrightarrow> b \<in> set (t_businesses s) \<longrightarrow> bu_userId b \<noteq> uid \<longrightarrow>
        bu_siret b \<noteq> siretOf dto" for b
      using 2(3) by (auto simp: siretTaken_def list_ex_iff)
    have "isValidSiret (the (bu_siret b))"
      if "b \<in> set (t_businesses t)" "bu_siret b \<noteq> None" for b
      using businessRows_mem [OF that(1) [unfolded rows]] that(2) inv valid row
      unfolding businesses_ok_def by metis
    moreover have "bu_userId b = bu_userId c"
      if "b \<in> set (t_businesses t)" "c \<in> set (t_businesses t)" "bu_siret b \<noteq> None" "bu_siret b = bu_siret c" for b c
      using businessRows_mem [OF that(1) [unfolded rows]] businessRows_mem [OF that(2) [unfolded rows]]
        that(3,4) inv free row unfolding businesses_ok_def by metis
    moreover have "distinct (map bu_userId (t_businesses t))"
      using inv unfolding rows businesses_ok_def by (intro businessRows_distinct row(1)) simp
    ultimately show ?thesis unfolding businesses_ok_def by blast
  qed
qed

interpretation firms: inductive_invariant businesses_ok business_step businesses_ok
  by unfold_locales (auto intro: businesses_ok_step)

text \<open>However often and by whomever businesses are saved, every stored SIRET is a valid one,
  no two sellers share a number, and a seller has at most one business.\<close>

theorem businesses_stay_ok:
  assumes "businesses_ok s" and "business_step\<^sup>*\<^sup>* s t"
  shows "businesses_ok t"
  by (rule firms.reachable_inv [OF assms])

definition demo_business :: "string option \<Rightarrow> upsert_business_dto" where
  "demo_business n = \<lparr>ub_businessName = ''Chez S'', ub_siret = n, ub_facadeUrl = None,
    ub_legalForm = None, ub_openingHours = Some [\<lparr>oo_dayOfWeek = Tuesday, oo_startTime = (9, 0),
      oo_endTime = (17, 30)\<rparr>]\<rparr>"

theorem businesses_stay_ok_witness:
  "businesses_ok (snd (upsertBusiness ''sb'' (demo_business (Some ''73282932000074'')) payout_db)) \<and>
   map bu_siret (t_businesses (snd (upsertBusiness ''sb'' (demo_business (Some ''73282932000074'')) payout_db))) =
     [Some ''73282932000074'']"
proof
  have "businesses_ok payout_db" by (simp add: businesses_ok_def payout_db_def empty_db_def)
  moreover have "business_step\<^sup>*\<^sup>* payout_db
      (snd (upsertBusiness ''sb'' (demo_business (Some ''73282932000074'')) payout_db))"
    unfolding business_step_def by blast
  ultimately show "businesses_ok (snd (upsertBusiness ''sb'' (demo_business (Some ''73282932000074'')) payout_db))"
    by (rule businesses_stay_ok)
qed code_simp

subsection \<open>Profiles\<close>

lemma upsertProfile_row:
  assumes "assertSellerProfile sb s = Inr uid" and "getSeller s uid = Some p" and "profileCheck dto = None"
  shows "upsertProfile env sb dto s = (Inr (profileRow env dto p), updSeller uid (profileRow env dto) s)"
    and "getSeller (updSeller uid (profileRow env dto) s) uid = Some (profileRow env dto p)"
  using assms by (simp_all add: upsertProfile_def sel.get_put profileRow_def ok_def Let_def)

lemma assertSellerProfile_Inr:
  assumes "assertSellerProfile sb s = Inr uid"
  obtains u p where "getUserBySupabase s sb = Some u" "u_id u = uid" "u_role u = R_Seller"
    "getSeller s uid = Some p"
  using assms by (auto simp: assertSellerProfile_def split: option.splits if_splits)

lemma assertSellerProfile_updSeller:
  assumes "\<And>r. sp_userId (f r) = sp_userId r"
  shows "assertSellerProfile sb (updSeller i f s) = assertSellerProfile sb s"
proof -
  have "getUserBySupabase (updSeller i f s) sb = getUserBySupabase s sb"
    by (simp add: getUserBySupabase_def updSeller_def)
  moreover have "(getSeller (updSeller i f s) j = None) = (getSeller s j = None)" for j
    using assms by (rule sel.put_keeps_domain)
  ultimately show ?thesis by (simp add: assertSellerProfile_def split: option.split)
qed

text \<open>The identity check can be skipped: a seller who saves the profile once as a home cook and
  once more as any other category is approved in that category, although no document was
  ever sent and nobody reviewed anything.\<close>

theorem kyc_skipped_by_category_change:
  assumes seller: "assertSellerProfile sb s = Inr uid" "getSeller s uid = Some p"
    and pending: "sp_kycStatus p = K_Pending"
    and d1: "up_category d1 = SC_FaitMaison" "profileCheck d1 = None"
    and d2: "up_category d2 \<noteq> SC_FaitMaison" "profileCheck d2 = None"
  shows "\<exists>p1 s1 p2 s2. upsertProfile env sb d1 s = (Inr p1, s1) \<and> upsertProfile env' sb d2 s1 = (Inr p2, s2) \<and>
    getSeller s2 uid = Some p2 \<and> sp_category p2 = Some (up_category d2) \<and> sp_kycStatus p2 = K_Approved \<and>
    t_kycDocs s2 = t_kycDocs s"
proof -
  let ?s1 = "updSeller uid (profileRow env d1) s"
  note one = upsertProfile_row [OF seller d1(2), of env]
  have "assertSellerProfile sb ?s1 = Inr uid"
    using seller(1) by (subst assertSellerProfile_updSeller) (auto simp: profileRow_def)
  note two = upsertProfile_row [OF this one(2) d2(2), of env']
  show ?thesis
    using one two pending d1 d2
    by (intro exI [of _ "profileRow env d1 p"] exI [of _ ?s1]
        exI [of _ "profileRow env' d2 (profileRow env d1 p)"] exI [of _ "updSeller uid (profileRow env' d2) ?s1"])
      (simp add: profileRow_def updSeller_def)
qed

definition demo_profile :: "seller_category \<Rightarrow> upsert_profile_dto" where
  "demo_profile c = \<lparr>up_category = c, up_displayName = ''Chez S'', up_bio = None,
    up_profilePhotoUrl = ''p'', up_dateOfBirth = 0, up_neighborhood = None,
    up_deliveryRadiusKm = Some 10, up_deliveryFeeCents = None, up_prepMinMinutes = Some 10,
    up_prepMaxMinutes = Some 20, up_hygieneCommitment = None, up_faitMaisonCommitment = None\<rparr>"

definition pending_db :: db where
  "pending_db = updSeller ''s'' (\<lambda>r. r\<lparr>sp_kycStatus := K_Pending\<rparr>) payout_db"

theorem kyc_skipped_by_category_change_witness:
  "\<exists>p1 s1 p2 s2. upsertProfile demo_env ''sb'' (demo_profile SC_FaitMaison) pending_db = (Inr p1, s1) \<and>
    upsertProfile demo_env ''sb'' (demo_profile SC_Restaurant) s1 = (Inr p2, s2) \<and>
    sp_category p2 = Some SC_Restaurant \<and> sp_kycStatus p2 = K_Approved"
proof -
  have a: "assertSellerProfile ''sb'' pending_db = Inr ''s''" by code_simp
  have k: "map_option sp_kycStatus (getSeller pending_db ''s'') = Some K_Pending" by code_simp
  then obtain p where p: "getSeller pending_db ''s'' = Some p" "sp_kycStatus p = K_Pending" by auto
  have c: "profileCheck (demo_profile c) = None" for c
    by (cases c) (simp_all add: profileCheck_def demo_profile_def maxRadiusForCategory_def)
  show ?thesis
    using kyc_skipped_by_category_change [OF a p(1,2), of "demo_profile SC_FaitMaison"
        "demo_profile SC_Restaurant" demo_env demo_env] c
    by (auto simp: demo_profile_def)
qed

text \<open>A saved profile keeps to the caps: the stored radius is at most that of its category, a
  stored preparation window is not reversed, and an approval is never taken back.\<close>

theorem upsertProfile_effect:
  assumes "upsertProfile env sb dto s = (Inr q, t)"
  shows "\<exists>uid p. assertSellerProfile sb s = Inr uid \<and> getSeller s uid = Some p \<and>
    getSeller t uid = Some q \<and> q = profileRow env dto p \<and>
    (\<forall>km. sp_deliveryRadiusKm q = Some km \<longrightarrow> km \<le> of_int (maxRadiusForCategory (sp_category q))) \<and>
    (\<forall>lo hi. sp_prepMinMinutes q = Some lo \<longrightarrow> sp_prepMaxMinutes q = Some hi \<longrightarrow> lo \<le> hi) \<and>
    (sp_kycStatus p = K_Approved \<longrightarrow> sp_kycStatus q = K_Approved) \<and>
    (\<forall>j. j \<noteq> uid \<longrightarrow> getSeller t j = getSeller s j)"
proof -
  obtain uid where uid: "assertSellerProfile sb s = Inr uid"
    using assms by (cases "assertSellerProfile sb s") (auto simp: upsertProfile_def)
  then obtain p where p: "getSeller s uid = Some p" by (rule assertSellerProfile_Inr)
  have check: "profileCheck dto = None"
    using assms uid by (cases "profileCheck dto") (auto simp: upsertProfile_def fail_def)
  note row = upsertProfile_row [OF uid p check, of env]
  have q: "q = profileRow env dto p" "t = updSeller uid (profileRow env dto) s"
    using row(1) assms by simp_all
  have "km \<le> of_int (maxRadiusForCategory (sp_category q))" if "sp_deliveryRadiusKm q = Some km" for km
    using check that by (auto simp: q profileRow_def profileCheck_def split: if_splits)
  moreover have "lo \<le> hi" if "sp_prepMinMinutes q = Some lo" "sp_prepMaxMinutes q = Some hi" for lo hi
    using check that by (auto simp: q profileRow_def profileCheck_def split: if_splits)
  moreover have "getSeller t j = getSeller s j" if "j \<noteq> uid" for j
    using that unfolding q(2) by (simp add: sel.get_put profileRow_def)
  moreover have "sp_kycStatus p = K_Approved \<longrightarrow> sp_kycStatus q = K_Approved"
    by (simp add: q profileRow_def)
  ultimately show ?thesis
    using uid p row(2) q by (intro exI [of _ uid] exI [of _ p]) simp
qed

theorem upsertProfile_effect_witness:
  "\<exists>q t. upsertProfile demo_env ''sb'' (demo_profile SC_Traiteur) payout_db = (Inr q, t) \<and>
    sp_kycStatus q = K_Approved"
proof -
  have "case fst (upsertProfile demo_env ''sb'' (demo_profile SC_Traiteur) payout_db) of
      Inl _ \<Rightarrow> False | Inr _ \<Rightarrow> True" by code_simp
  then obtain q t where r: "upsertProfile demo_env ''sb'' (demo_profile SC_Traiteur) payout_db = (Inr q, t)"
    by (rule run_InrE)
  have "assertSellerProfile ''sb'' payout_db = Inr ''s''"
    "map_option sp_kycStatus (getSeller payout_db ''s'') = Some K_Approved" by code_simp+
  with upsertProfile_effect [OF r] r show ?thesis by auto
qed

subsection \<open>The kitchens list\<close>

lemma sorted_take_key: "sorted (map f (take n (sort_key f xs)))"
  by (metis sorted_sort_key sorted_wrt_take take_map)

text \<open>The list shows at most fifty kitchens, only of named sellers whose account is neither
  deleted nor suspended, ordered by rating and then by the number of reviews.\<close>

theorem listKitchens_spec:
  "\<exists>ps. listKitchens s = map (kitchenOf s) ps \<and> length ps \<le> 50 \<and> sorted (map kitchenOrder ps) \<and>
    (\<forall>p \<in> set ps. p \<in> set (t_sellers s) \<and> sp_displayName p \<noteq> None \<and>
      (\<exists>u. getUser s (sp_userId p) = Some u \<and> u_deletedAt u = None \<and> \<not> u_isSuspended u))"
  unfolding listKitchens_def
  by (intro exI conjI, rule refl) (auto simp: sorted_take_key dest!: in_set_takeD split: option.splits)

end
