(* ===== verification/Listings.thy ===== *)
theory Listings
  imports Sellers "HOL-Library.Sublist"
begin

section \<open>Listings, the buyer feed and bookmarks\<close>

text \<open>
  \<open>src/modules/listings/listings.service.ts\<close> and \<open>bookmarks.service.ts\<close>. A date of a body is
  the parsed \<open>Date\<close>: \<open>None\<close> when the field is absent, \<open>Some None\<close> when it is no date. The
  great-circle distance of PostGIS, in metres, is a parameter of the feed.
\<close>

definition FAIT_MAISON_PRICE_CAP_CENTS :: int where
  "FAIT_MAISON_PRICE_CAP_CENTS = 450"

fun DISH_TYPES_BY_CATEGORY :: "seller_category \<Rightarrow> dish_type list" where
  "DISH_TYPES_BY_CATEGORY SC_FaitMaison = []"
| "DISH_TYPES_BY_CATEGORY SC_Restaurant = [Dy_Entree, Dy_Plat, Dy_Dessert, Dy_Boisson]"
| "DISH_TYPES_BY_CATEGORY SC_Traiteur =
    [Dy_Entree, Dy_Plat, Dy_Dessert, Dy_Boisson, Dy_CocktailDinatoire]"

record extra_dto =
  ex_label :: string
  ex_priceDeltaCents :: int
  ex_isSelectedByDefault :: "bool option"

record create_listing_dto =
  cl_name :: string
  cl_description :: "string option"
  cl_imageUrls :: "string list"
  cl_priceCents :: int
  cl_originalPriceCents :: "int option"
  cl_discountPercent :: "int option"
  cl_portionsLeft :: "int option"
  cl_cuisineTypes :: "cuisine_type list option"
  cl_dishTypes :: "dish_type list option"
  cl_dietaryTags :: "dietary_tag list option"
  cl_allergens :: "allergen list option"
  cl_otherAllergens :: "string option"
  cl_declaresNoAllergens :: "bool option"
  cl_isAvailable :: "bool option"
  cl_isVeg :: "bool option"
  cl_menuCategory :: "string option"
  cl_fulfillment :: fulfillment
  cl_prepMinutes :: int
  cl_expiresAt :: "time option option"
  cl_extras :: "extra_dto list option"
  cl_termsAccepted :: "bool option"

record update_listing_dto =
  ul_name :: "string option"
  ul_description :: "string option"
  ul_imageUrls :: "string list option"
  ul_priceCents :: "int option"
  ul_originalPriceCents :: "int option"
  ul_discountPercent :: "int option"
  ul_portionsLeft :: "int option"
  ul_cuisineTypes :: "cuisine_type list option"
  ul_dishTypes :: "dish_type list option"
  ul_dietaryTags :: "dietary_tag list option"
  ul_allergens :: "allergen list option"
  ul_otherAllergens :: "string option"
  ul_declaresNoAllergens :: "bool option"
  ul_isAvailable :: "bool option"
  ul_isVeg :: "bool option"
  ul_menuCategory :: "string option"
  ul_fulfillment :: "fulfillment option"
  ul_prepMinutes :: "int option"
  ul_expiresAt :: "time option option"
  ul_extras :: "extra_dto list option"

subsection \<open>Validation\<close>

definition parseFutureDate :: "time \<Rightarrow> time option \<Rightarrow> exn + time" where
  "parseFutureDate now d =
    (case d of None \<Rightarrow> Inl (BadRequest (ListingQuery InvalidDate)) | Some t \<Rightarrow>
     if t \<le> now then Inl (BadRequest (ListingQuery DateNotInFuture)) else Inr t)"

definition validateListingShape :: "string list \<Rightarrow> int \<Rightarrow> int option \<Rightarrow> exn option" where
  "validateListingShape images price original =
    (if 4 < length images then Some (BadRequest (Listing TooManyImages))
     else if (case original of None \<Rightarrow> False | Some n \<Rightarrow> n < price)
     then Some (BadRequest (Listing OriginalBelowPrice))
     else None)"

text \<open>Of the expiry it only matters here whether there is one.\<close>

definition validateCategoryShape :: "int \<Rightarrow> int option \<Rightarrow> bool \<Rightarrow> dish_type list \<Rightarrow> seller_category \<Rightarrow> exn option" where
  "validateCategoryShape price portions hasExpiry dishTypes category =
    (if category = SC_FaitMaison \<and> FAIT_MAISON_PRICE_CAP_CENTS < price
     then Some (BusinessRule (Listing PriceCapExceeded))
     else if category = SC_FaitMaison \<and> portions = None
     then Some (BadRequest (Listing PortionsRequired))
     else if category = SC_FaitMaison \<and> \<not> hasExpiry
     then Some (BadRequest (Listing ExpiryRequired))
     else let invalid = filter (\<lambda>d. d \<notin> set (DISH_TYPES_BY_CATEGORY category)) dishTypes
          in if invalid \<noteq> [] then Some (BadRequest (Listing (DishTypesNotAllowed invalid))) else None)"

definition validateAllergens :: "allergen list \<Rightarrow> string option \<Rightarrow> bool option \<Rightarrow> exn option" where
  "validateAllergens allergens other declaresNone =
    (let hasReal = (allergens \<noteq> []); hasOther = (case other of None \<Rightarrow> False | Some t \<Rightarrow> trim t \<noteq> [])
     in if declaresNone = Some True
        then (if hasReal \<or> hasOther then Some (BadRequest (Listing NoneWithAllergens)) else None)
        else if \<not> hasReal \<and> \<not> hasOther then Some (BadRequest (Listing AllergensRequired))
        else None)"

subsection \<open>Who may\<close>

record seller_opts =
  op_requireKycApproved :: bool
  op_requireActiveSubscription :: bool

definition assertSeller :: "env \<Rightarrow> seller_opts \<Rightarrow> id \<Rightarrow> db \<Rightarrow> exn + (id \<times> seller_row \<times> bool)" where
  "assertSeller env opts supabaseId s =
    (case getUserBySupabase s supabaseId of None \<Rightarrow> Inl (NotFound UserProfile) | Some user \<Rightarrow>
     (case (if u_role user = R_Seller then getSeller s (u_id user) else None) of
        None \<Rightarrow> Inl (Forbidden (Listing OnlySellersManageListings))
      | Some profile \<Rightarrow>
          if op_requireKycApproved opts \<and> sp_kycStatus profile \<noteq> K_Approved
          then Inl (Forbidden (Listing KycNotApproved))
          else if op_requireActiveSubscription opts \<and>
             \<not> isSubscriptionActive (e_now env) (sp_subscriptionStatus profile)
                 (sp_subscriptionCurrentPeriodEnd profile)
          then Inl (Forbidden (Listing SubscriptionInactive))
          else Inr (u_id user, profile, u_isSuspended user)))"

text \<open>The row the caller owns and that is not deleted.\<close>

definition ownListing :: "id \<Rightarrow> id \<Rightarrow> db \<Rightarrow> exn + listing_row" where
  "ownListing sellerId i s =
    (case getListing s i of None \<Rightarrow> Inl (NotFound AListing) | Some existing \<Rightarrow>
     if l_deletedAt existing \<noteq> None then Inl (NotFound AListing)
     else if l_sellerId existing \<noteq> sellerId then Inl (Forbidden (Listing OtherSellersListing))
     else Inr existing)"

subsection \<open>Extras\<close>

definition extraRow :: "env \<Rightarrow> id \<Rightarrow> nat \<times> extra_dto \<Rightarrow> addon_row" where
  "extraRow env listingId ne =
    \<lparr>a_id = e_ulid env (ForListingAddOn (fst ne)), a_listingId = listingId,
     a_label = ex_label (snd ne), a_priceDeltaCents = ex_priceDeltaCents (snd ne),
     a_isSelectedByDefault = (case ex_isSelectedByDefault (snd ne) of None \<Rightarrow> False | Some b \<Rightarrow> b),
     a_sortOrder = int (fst ne)\<rparr>"

definition replaceExtras :: "env \<Rightarrow> id \<Rightarrow> extra_dto list \<Rightarrow> db \<Rightarrow> db" where
  "replaceExtras env listingId extras s = s\<lparr>t_addOns := t_addOns s @
     map (extraRow env listingId) (zip [0..<length extras] extras)\<rparr>"

definition addOnsOf :: "id \<Rightarrow> db \<Rightarrow> addon_row list" where
  "addOnsOf listingId s = filter (\<lambda>a. a_listingId a = listingId) (t_addOns s)"

definition loadWithAddOns :: "id \<Rightarrow> db \<Rightarrow> (exn, listing_row \<times> addon_row list, db) result" where
  "loadWithAddOns i s =
    (case getListing s i of None \<Rightarrow> fail (NotFound AListing) s | Some l \<Rightarrow> ok (l, addOnsOf i s) s)"

subsection \<open>Writing\<close>

definition newListing :: "env \<Rightarrow> id \<Rightarrow> seller_category \<Rightarrow> create_listing_dto \<Rightarrow> time option \<Rightarrow> listing_row" where
  "newListing env sellerId category dto expiresAt =
    \<lparr>l_id = e_ulid env ForListing, l_sellerId = sellerId, l_name = cl_name dto,
     l_imageUrls = cl_imageUrls dto, l_priceCents = cl_priceCents dto,
     l_portionsLeft = cl_portionsLeft dto,
     l_isAvailable = (case cl_isAvailable dto of None \<Rightarrow> True | Some b \<Rightarrow> b),
     l_fulfillment = cl_fulfillment dto, l_expiresAt = expiresAt, l_deletedAt = None,
     l_description = cl_description dto, l_originalPriceCents = cl_originalPriceCents dto,
     l_discountPercent = cl_discountPercent dto,
     l_cuisineTypes = (case cl_cuisineTypes dto of None \<Rightarrow> [] | Some x \<Rightarrow> x),
     l_dishTypes = (case cl_dishTypes dto of None \<Rightarrow> [] | Some x \<Rightarrow> x),
     l_dietaryTags = (case cl_dietaryTags dto of None \<Rightarrow> [] | Some x \<Rightarrow> x),
     l_allergens = (case cl_allergens dto of None \<Rightarrow> [] | Some x \<Rightarrow> x),
     l_otherAllergens = cl_otherAllergens dto,
     l_isVeg = (case cl_isVeg dto of None \<Rightarrow> False | Some b \<Rightarrow> b),
     l_menuCategory = cl_menuCategory dto, l_category = category,
     l_prepMinutes = cl_prepMinutes dto, l_createdAt = e_now env\<rparr>"

text \<open>The checks of \<open>create\<close>: the caller's gates, the accepted terms, then the shape of the body.\<close>

definition createCheck :: "env \<Rightarrow> id \<Rightarrow> create_listing_dto \<Rightarrow> db \<Rightarrow> exn + (id \<times> seller_category \<times> time option)" where
  "createCheck env supabaseId dto s =
    (case assertSeller env \<lparr>op_requireKycApproved = True, op_requireActiveSubscription = True\<rparr> supabaseId s of
       Inl e \<Rightarrow> Inl e
     | Inr (sellerId, seller, suspended) \<Rightarrow>
         if suspended then Inl (Forbidden (Listing SellerAccountSuspended))
         else (case sp_category seller of
             None \<Rightarrow> Inl (Forbidden (Listing CompleteSellerProfile))
           | Some category \<Rightarrow>
               if cl_termsAccepted dto \<noteq> Some True then Inl (BadRequest (Listing AcceptTermsFirst))
               else (case validateListingShape (cl_imageUrls dto) (cl_priceCents dto) (cl_originalPriceCents dto) of
                   Some e \<Rightarrow> Inl e
                 | None \<Rightarrow>
                     (case validateCategoryShape (cl_priceCents dto) (cl_portionsLeft dto)
                          (cl_expiresAt dto \<noteq> None)
                          (case cl_dishTypes dto of None \<Rightarrow> [] | Some x \<Rightarrow> x) category of
                        Some e \<Rightarrow> Inl e
                      | None \<Rightarrow>
                          (case validateAllergens (case cl_allergens dto of None \<Rightarrow> [] | Some x \<Rightarrow> x)
                               (cl_otherAllergens dto) (cl_declaresNoAllergens dto) of
                             Some e \<Rightarrow> Inl e
                           | None \<Rightarrow>
                               (case cl_expiresAt dto of
                                  None \<Rightarrow> Inr (sellerId, category, None)
                                | Some d \<Rightarrow>
                                    (case parseFutureDate (e_now env) d of
                                       Inl e \<Rightarrow> Inl e
                                     | Inr t \<Rightarrow> Inr (sellerId, category, Some t))))))))"

definition createListing :: "env \<Rightarrow> id \<Rightarrow> create_listing_dto \<Rightarrow> db
    \<Rightarrow> (exn, listing_row \<times> addon_row list, db) result" where
  "createListing env supabaseId dto s =
    bindR (liftE (createCheck env supabaseId dto s) s) (\<lambda>(sellerId, category, expiresAt) s.
    bindR (transaction (\<lambda>s.
        let l = newListing env sellerId category dto expiresAt;
            s1 = s\<lparr>t_listings := t_listings s @ [l]\<rparr>;
            s2 = (case cl_extras dto of None \<Rightarrow> s1 | Some xs \<Rightarrow> replaceExtras env (l_id l) xs s1)
        in if getListing s (l_id l) \<noteq> None then fail PrismaConflict s
           else loadWithAddOns (l_id l) s2) s) (\<lambda>created s.
      ok created (recordTermsAcceptance sellerId s)))"

text \<open>\<open>existing\<close> with the fields of the body over it, as \<open>mergeForValidation\<close> and the update build it.\<close>

definition over :: "'a option \<Rightarrow> 'a \<Rightarrow> 'a" where
  "over new old = (case new of None \<Rightarrow> old | Some x \<Rightarrow> x)"

definition overOpt :: "'a option \<Rightarrow> 'a option \<Rightarrow> 'a option" where
  "overOpt new old = (case new of None \<Rightarrow> old | Some x \<Rightarrow> Some x)"

definition mergedExpiry :: "time \<Rightarrow> listing_row \<Rightarrow> update_listing_dto \<Rightarrow> exn + time option" where
  "mergedExpiry now existing dto =
    (case ul_expiresAt dto of
       None \<Rightarrow> Inr (l_expiresAt existing)
     | Some d \<Rightarrow> (case parseFutureDate now d of Inl e \<Rightarrow> Inl e | Inr t \<Rightarrow> Inr (Some t)))"

definition updateData :: "update_listing_dto \<Rightarrow> time option \<Rightarrow> listing_row \<Rightarrow> listing_row" where
  "updateData dto expiresAt r =
    r\<lparr>l_name := over (ul_name dto) (l_name r),
      l_description := overOpt (ul_description dto) (l_description r),
      l_imageUrls := over (ul_imageUrls dto) (l_imageUrls r),
      l_priceCents := over (ul_priceCents dto) (l_priceCents r),
      l_originalPriceCents := overOpt (ul_originalPriceCents dto) (l_originalPriceCents r),
      l_discountPercent := overOpt (ul_discountPercent dto) (l_discountPercent r),
      l_portionsLeft := overOpt (ul_portionsLeft dto) (l_portionsLeft r),
      l_cuisineTypes := over (ul_cuisineTypes dto) (l_cuisineTypes r),
      l_dishTypes := over (ul_dishTypes dto) (l_dishTypes r),
      l_dietaryTags := over (ul_dietaryTags dto) (l_dietaryTags r),
      l_allergens := over (ul_allergens dto) (l_allergens r),
      l_otherAllergens := overOpt (ul_otherAllergens dto) (l_otherAllergens r),
      l_isAvailable := over (ul_isAvailable dto) (l_isAvailable r),
      l_isVeg := over (ul_isVeg dto) (l_isVeg r),
      l_menuCategory := overOpt (ul_menuCategory dto) (l_menuCategory r),
      l_fulfillment := over (ul_fulfillment dto) (l_fulfillment r),
      l_prepMinutes := over (ul_prepMinutes dto) (l_prepMinutes r),
      l_expiresAt := expiresAt\<rparr>"

definition updateCheck :: "env \<Rightarrow> listing_row \<Rightarrow> update_listing_dto \<Rightarrow> exn + time option" where
  "updateCheck env existing dto =
    (case mergedExpiry (e_now env) existing dto of Inl e \<Rightarrow> Inl e | Inr expiresAt \<Rightarrow>
     (case validateListingShape (over (ul_imageUrls dto) (l_imageUrls existing))
          (over (ul_priceCents dto) (l_priceCents existing))
          (overOpt (ul_originalPriceCents dto) (l_originalPriceCents existing)) of
        Some e \<Rightarrow> Inl e
      | None \<Rightarrow>
          (case validateCategoryShape (over (ul_priceCents dto) (l_priceCents existing))
               (overOpt (ul_portionsLeft dto) (l_portionsLeft existing)) (expiresAt \<noteq> None)
               (over (ul_dishTypes dto) (l_dishTypes existing)) (l_category existing) of
             Some e \<Rightarrow> Inl e
           | None \<Rightarrow>
               (case validateAllergens (over (ul_allergens dto) (l_allergens existing))
                    (overOpt (ul_otherAllergens dto) (l_otherAllergens existing))
                    (ul_declaresNoAllergens dto) of
                  Some e \<Rightarrow> Inl e
                | None \<Rightarrow> Inr expiresAt))))"

definition updListing :: "id \<Rightarrow> (listing_row \<Rightarrow> listing_row) \<Rightarrow> db \<Rightarrow> db" where
  "updListing i f s = s\<lparr>t_listings := updRow l_id i f (t_listings s)\<rparr>"

definition updateListing :: "env \<Rightarrow> id \<Rightarrow> id \<Rightarrow> update_listing_dto \<Rightarrow> db
    \<Rightarrow> (exn, listing_row \<times> addon_row list, db) result" where
  "updateListing env supabaseId i dto s =
    (case assertSeller env \<lparr>op_requireKycApproved = True, op_requireActiveSubscription = True\<rparr> supabaseId s of
       Inl e \<Rightarrow> fail e s
     | Inr (sellerId, _, _) \<Rightarrow>
         (case ownListing sellerId i s of Inl e \<Rightarrow> fail e s | Inr existing \<Rightarrow>
          (case updateCheck env existing dto of Inl e \<Rightarrow> fail e s | Inr expiresAt \<Rightarrow>
           let s1 = updListing i (updateData dto expiresAt) s;
               s2 = (case ul_extras dto of None \<Rightarrow> s1
                 | Some xs \<Rightarrow> replaceExtras env i xs
                     (s1\<lparr>t_addOns := filter (\<lambda>a. a_listingId a \<noteq> i) (t_addOns s1)\<rparr>))
           in loadWithAddOns i s2)))"

definition setAvailability :: "env \<Rightarrow> id \<Rightarrow> id \<Rightarrow> bool \<Rightarrow> db
    \<Rightarrow> (exn, listing_row \<times> addon_row list, db) result" where
  "setAvailability env supabaseId i isAvailable s =
    (case assertSeller env \<lparr>op_requireKycApproved = False, op_requireActiveSubscription = True\<rparr> supabaseId s of
       Inl e \<Rightarrow> fail e s
     | Inr (sellerId, _, _) \<Rightarrow>
         (case ownListing sellerId i s of Inl e \<Rightarrow> fail e s | Inr _ \<Rightarrow>
          loadWithAddOns i (updListing i (\<lambda>r. r\<lparr>l_isAvailable := isAvailable\<rparr>) s)))"

definition softDelete :: "env \<Rightarrow> id \<Rightarrow> id \<Rightarrow> db \<Rightarrow> (exn, unit, db) result" where
  "softDelete env supabaseId i s =
    (case assertSeller env \<lparr>op_requireKycApproved = False, op_requireActiveSubscription = False\<rparr> supabaseId s of
       Inl e \<Rightarrow> fail e s
     | Inr (sellerId, _, _) \<Rightarrow>
         (case ownListing sellerId i s of Inl e \<Rightarrow> fail e s | Inr _ \<Rightarrow>
          ok () (updListing i (\<lambda>r. r\<lparr>l_deletedAt := Some (e_now env), l_isAvailable := False\<rparr>) s)))"

subsection \<open>Reading one's own and by id\<close>

definition findListingById :: "id \<Rightarrow> db \<Rightarrow> exn + (listing_row \<times> addon_row list)" where
  "findListingById i s =
    (case getListing s i of None \<Rightarrow> Inl (NotFound AListing) | Some l \<Rightarrow>
     if l_deletedAt l \<noteq> None then Inl (NotFound AListing)
     else if (case getUser s (l_sellerId l) of None \<Rightarrow> False | Some u \<Rightarrow> u_isSuspended u)
     then Inl (NotFound AListing)
     else Inr (l, addOnsOf i s))"

definition findMyListings :: "env \<Rightarrow> id \<Rightarrow> db \<Rightarrow> exn + listing_row list" where
  "findMyListings env supabaseId s =
    (case assertSeller env \<lparr>op_requireKycApproved = False, op_requireActiveSubscription = False\<rparr> supabaseId s of
       Inl e \<Rightarrow> Inl e
     | Inr (sellerId, _, _) \<Rightarrow>
         Inr (rev (filter (\<lambda>l. l_sellerId l = sellerId \<and> l_deletedAt l = None) (t_listings s))))"

subsection \<open>Search patterns\<close>

text \<open>
  SQL's \<open>LIKE\<close> on characters: \<open>%\<close> is any text, \<open>_\<close> any character and a backslash quotes the next
  one. \<open>ILIKE\<close> compares in lower case. The search text goes into the pattern unquoted.
\<close>

fun sqlLike :: "string \<Rightarrow> string \<Rightarrow> bool" where
  "sqlLike [] xs = (xs = [])"
| "sqlLike (p # ps) xs =
    (if p = CHR ''%'' then sqlLike ps xs \<or> (case xs of [] \<Rightarrow> False | _ # ys \<Rightarrow> sqlLike (p # ps) ys)
     else case xs of [] \<Rightarrow> False | y # ys \<Rightarrow>
       (if p = CHR ''_'' then sqlLike ps ys
        else if p = CHR 0x5C then (case ps of [] \<Rightarrow> False | q # qs \<Rightarrow> q = y \<and> sqlLike qs ys)
        else p = y \<and> sqlLike ps ys))"

definition ilike :: "string \<Rightarrow> string \<Rightarrow> bool" where
  "ilike text pattern = sqlLike (lower pattern) (lower text)"

definition searchPattern :: "string \<Rightarrow> string" where
  "searchPattern t = ''%'' @ t @ ''%''"

subsection \<open>The buyer feed\<close>

datatype feed_sort = Sort_Distance | Sort_Newest | Sort_PriceAsc | Sort_PriceDesc

record feed_query =
  q_category :: "seller_category option"
  q_cuisineTypes :: "cuisine_type list"
  q_dishTypes :: "dish_type list"
  q_fulfillment :: "fulfillment option"
  q_dietary :: "dietary_tag list"
  q_avoidAllergens :: "allergen list"
  q_isVeg :: "bool option"
  q_minPriceCents :: "int option"
  q_maxPriceCents :: "int option"
  q_maxDistanceKm :: "rat option"
  q_inStockOnly :: bool
  q_search :: string
  q_lat :: "js_number option"
  q_lng :: "js_number option"
  q_sort :: "feed_sort option"
  q_limit :: "nat option"
  q_offset :: "nat option"

text \<open>The user's most recently updated delivery address, if it has a point.\<close>

definition resolveBuyerPoint :: "id \<Rightarrow> feed_query \<Rightarrow> db \<Rightarrow> point option" where
  "resolveBuyerPoint supabaseId q s =
    (case (q_lng q, q_lat q) of
       (Some lng, Some lat) \<Rightarrow> Some (lng, lat)
     | _ \<Rightarrow>
         (case getUserBySupabase s supabaseId of None \<Rightarrow> None | Some user \<Rightarrow>
          (case sort_key (\<lambda>a. - ad_updatedAt a) (filter (\<lambda>a. ad_userId a = u_id user \<and>
              ad_kind a = AK_BuyerDelivery \<and> ad_deletedAt a = None) (t_addresses s)) of
             [] \<Rightarrow> None
           | a # _ \<Rightarrow> ad_point a)))"

text \<open>The visibility gate: the conditions that do not depend on the query.\<close>

definition feedVisible :: "time \<Rightarrow> listing_row \<Rightarrow> seller_row \<Rightarrow> user_row \<Rightarrow> bool" where
  "feedVisible now l sp u \<longleftrightarrow>
    l_deletedAt l = None \<and> l_isAvailable l \<and>
    (case l_expiresAt l of None \<Rightarrow> True | Some t \<Rightarrow> now < t) \<and>
    sp_kycStatus sp = K_Approved \<and>
    sp_subscriptionStatus sp \<in> {S_Active, S_Trialing} \<and>
    (case sp_subscriptionCurrentPeriodEnd sp of None \<Rightarrow> True | Some t \<Rightarrow> now < t) \<and>
    u_deletedAt u = None \<and> \<not> u_isSuspended u"

definition overlaps :: "'a list \<Rightarrow> 'a list \<Rightarrow> bool" where
  "overlaps xs ys \<longleftrightarrow> list_ex (\<lambda>x. x \<in> set ys) xs"

definition effectiveKm :: "feed_query \<Rightarrow> rat \<Rightarrow> rat" where
  "effectiveKm q km = min km (of_int (maxRadiusForCategory (q_category q)))"

text \<open>\<open>metres\<close> is PostGIS's distance of two points; of a missing location nothing is within reach.\<close>

definition feedMatches :: "(point \<Rightarrow> point \<Rightarrow> rat) \<Rightarrow> feed_query \<Rightarrow> point option \<Rightarrow> listing_row \<Rightarrow> seller_row \<Rightarrow> bool" where
  "feedMatches metres q pt l sp \<longleftrightarrow>
    (case q_category q of None \<Rightarrow> True | Some c \<Rightarrow> l_category l = c) \<and>
    (q_cuisineTypes q = [] \<or> overlaps (l_cuisineTypes l) (q_cuisineTypes q)) \<and>
    (q_dishTypes q = [] \<or> overlaps (l_dishTypes l) (q_dishTypes q)) \<and>
    (case q_fulfillment q of None \<Rightarrow> True | Some f \<Rightarrow> l_fulfillment l = f) \<and>
    (case q_isVeg q of None \<Rightarrow> True | Some v \<Rightarrow> l_isVeg l = v) \<and>
    (case q_minPriceCents q of None \<Rightarrow> True | Some n \<Rightarrow> n \<le> l_priceCents l) \<and>
    (case q_maxPriceCents q of None \<Rightarrow> True | Some n \<Rightarrow> l_priceCents l \<le> n) \<and>
    set (q_dietary q) \<subseteq> set (l_dietaryTags l) \<and>
    (q_avoidAllergens q = [] \<or> \<not> overlaps (l_allergens l) (q_avoidAllergens q)) \<and>
    (q_search q = [] \<or> ilike (l_name l) (searchPattern (q_search q)) \<or>
      (case l_description l of None \<Rightarrow> False | Some d \<Rightarrow> ilike d (searchPattern (q_search q)))) \<and>
    (q_inStockOnly q \<longrightarrow> (case l_portionsLeft l of None \<Rightarrow> True | Some n \<Rightarrow> 0 < n)) \<and>
    (case (pt, q_maxDistanceKm q) of
       (Some p, Some km) \<Rightarrow> (case sp_location sp of None \<Rightarrow> False
         | Some loc \<Rightarrow> metres loc p \<le> effectiveKm q km * 1000)
     | _ \<Rightarrow> True)"

definition distanceKm :: "(point \<Rightarrow> point \<Rightarrow> rat) \<Rightarrow> point option \<Rightarrow> seller_row \<Rightarrow> rat option" where
  "distanceKm metres pt sp =
    (case (pt, sp_location sp) of (Some p, Some loc) \<Rightarrow> Some (metres loc p / 1000) | _ \<Rightarrow> None)"

type_synonym feed_row = "listing_row \<times> seller_row \<times> rat option"

definition feedSort :: "feed_query \<Rightarrow> point option \<Rightarrow> feed_sort" where
  "feedSort q pt =
    (if q_sort q = Some Sort_Distance \<and> pt = None then Sort_Newest
     else case q_sort q of
         Some srt \<Rightarrow> srt
       | None \<Rightarrow> if pt \<noteq> None then Sort_Distance else Sort_Newest)"

text \<open>The sort keys of the four orders, ascending: the newest listing first among equals.\<close>

fun feedKey :: "feed_sort \<Rightarrow> feed_row \<Rightarrow> bool \<times> rat \<times> int" where
  "feedKey Sort_Distance (l, sp, d) =
    (d = None, (case d of None \<Rightarrow> 0 | Some x \<Rightarrow> x), - l_createdAt l)"
| "feedKey Sort_PriceAsc (l, sp, d) = (False, of_int (l_priceCents l), - l_createdAt l)"
| "feedKey Sort_PriceDesc (l, sp, d) = (False, - of_int (l_priceCents l), - l_createdAt l)"
| "feedKey Sort_Newest (l, sp, d) = (False, 0, - l_createdAt l)"

text \<open>The rows of the join that pass the \<open>WHERE\<close> clause.\<close>

definition feedJoin :: "(point \<Rightarrow> point \<Rightarrow> rat) \<Rightarrow> time \<Rightarrow> feed_query \<Rightarrow> point option \<Rightarrow> db \<Rightarrow> listing_row
    \<Rightarrow> feed_row list" where
  "feedJoin metres now q pt s l =
    (case getSeller s (l_sellerId l) of None \<Rightarrow> [] | Some sp \<Rightarrow>
     (case getUser s (l_sellerId l) of None \<Rightarrow> [] | Some u \<Rightarrow>
      if feedVisible now l sp u \<and> feedMatches metres q pt l sp
      then [(l, sp, distanceKm metres pt sp)] else []))"

definition feedRows :: "(point \<Rightarrow> point \<Rightarrow> rat) \<Rightarrow> time \<Rightarrow> feed_query \<Rightarrow> point option \<Rightarrow> db \<Rightarrow> feed_row list" where
  "feedRows metres now q pt s = concat (map (feedJoin metres now q pt s) (t_listings s))"

record feed_result =
  fr_items :: "feed_row list"
  fr_limit :: nat
  fr_offset :: nat
  fr_hasMore :: bool

definition feed :: "(point \<Rightarrow> point \<Rightarrow> rat) \<Rightarrow> env \<Rightarrow> id \<Rightarrow> feed_query \<Rightarrow> db \<Rightarrow> exn + feed_result" where
  "feed metres env supabaseId q s =
    (if (q_lat q \<noteq> None) \<noteq> (q_lng q \<noteq> None) then Inl (BadRequest (ListingQuery LatLngTogether))
     else let pt = resolveBuyerPoint supabaseId q s;
              limit = (case q_limit q of None \<Rightarrow> 20 | Some n \<Rightarrow> n);
              offset = (case q_offset q of None \<Rightarrow> 0 | Some n \<Rightarrow> n)
     in if pt = None \<and> q_maxDistanceKm q \<noteq> None
        then Inl (BadRequest (ListingQuery DistanceNeedsLocation))
        else let rows = take (limit + 1) (drop offset
               (sort_key (feedKey (feedSort q pt)) (feedRows metres (e_now env) q pt s)));
                 hasMore = (limit < length rows)
          in Inr \<lparr>fr_items = (if hasMore then take limit rows else rows), fr_limit = limit,
                  fr_offset = offset, fr_hasMore = hasMore\<rparr>)"

subsection \<open>Bookmarks\<close>

definition addBookmark :: "id \<Rightarrow> id \<Rightarrow> db \<Rightarrow> (exn, unit, db) result" where
  "addBookmark supabaseId listingId s =
    (case getUserBySupabase s supabaseId of None \<Rightarrow> fail (NotFound UserProfile) s | Some user \<Rightarrow>
     if getListing s listingId = None then fail (NotFound AListing) s
     else let b = \<lparr>bm_buyerId = u_id user, bm_listingId = listingId\<rparr>
          in ok () (if b \<in> set (t_bookmarks s) then s
                    else s\<lparr>t_bookmarks := t_bookmarks s @ [b]\<rparr>))"

definition removeBookmark :: "id \<Rightarrow> id \<Rightarrow> db \<Rightarrow> (exn, unit, db) result" where
  "removeBookmark supabaseId listingId s =
    (case getUserBySupabase s supabaseId of None \<Rightarrow> fail (NotFound UserProfile) s | Some user \<Rightarrow>
     ok () (s\<lparr>t_bookmarks := filter (\<lambda>b. \<not> (bm_buyerId b = u_id user \<and> bm_listingId b = listingId))
        (t_bookmarks s)\<rparr>))"

text \<open>
  The columns of \<open>Listing\<close> in the schema, and the ones the bookmark query selects of it.
  PostgreSQL refuses a query that names a column its table does not have.
\<close>

definition listingColumns :: "string list" where
  "listingColumns = [''id'', ''sellerId'', ''name'', ''description'', ''imageUrls'', ''priceCents'',
     ''originalPriceCents'', ''discountPercent'', ''portionsLeft'', ''cuisineTypes'', ''dishTypes'',
     ''dietaryTags'', ''allergens'', ''otherAllergens'', ''isAvailable'', ''isVeg'',
     ''menuCategory'', ''category'', ''fulfillment'', ''prepMinutes'', ''expiresAt'',
     ''deletedAt'', ''createdAt'', ''updatedAt'']"

definition bookmarkColumns :: "string list" where
  "bookmarkColumns = [''id'', ''sellerId'', ''name'', ''description'', ''imageUrls'', ''priceCents'',
     ''originalPriceCents'', ''discountPercent'', ''portionsLeft'', ''cuisineType'', ''dishType'',
     ''dietaryTags'', ''allergens'', ''otherAllergens'', ''isAvailable'', ''isVeg'',
     ''menuCategory'', ''category'', ''fulfillment'', ''prepMinutes'', ''expiresAt'',
     ''createdAt'', ''updatedAt'']"

definition bookmarkRows :: "id \<Rightarrow> db \<Rightarrow> listing_row list" where
  "bookmarkRows buyerId s =
    concat (map (\<lambda>b. case getListing s (bm_listingId b) of
        None \<Rightarrow> []
      | Some l \<Rightarrow> (case (getSeller s (l_sellerId l), getUser s (l_sellerId l)) of
            (Some sp, Some u) \<Rightarrow>
              if l_deletedAt l = None \<and> sp_kycStatus sp = K_Approved \<and> u_deletedAt u = None
              then [l] else []
          | _ \<Rightarrow> []))
      (rev (filter (\<lambda>b. bm_buyerId b = buyerId) (t_bookmarks s))))"

definition listBookmarks :: "id \<Rightarrow> nat \<Rightarrow> nat \<Rightarrow> db \<Rightarrow> exn + (listing_row list \<times> bool)" where
  "listBookmarks supabaseId limit offset s =
    (case getUserBySupabase s supabaseId of None \<Rightarrow> Inl (NotFound UserProfile) | Some user \<Rightarrow>
     if \<not> set bookmarkColumns \<subseteq> set listingColumns then Inl UncaughtError
     else let rows = take (limit + 1) (drop offset (bookmarkRows (u_id user) s));
         hasMore = (limit < length rows)
     in Inr (if hasMore then take limit rows else rows, hasMore))"

subsection \<open>The shape of stored listings\<close>

text \<open>What validation promises of every stored row.\<close>

definition listing_ok :: "listing_row \<Rightarrow> bool" where
  "listing_ok l \<longleftrightarrow> length (l_imageUrls l) \<le> 4 \<and>
    (\<forall>n. l_originalPriceCents l = Some n \<longrightarrow> l_priceCents l \<le> n) \<and>
    set (l_dishTypes l) \<subseteq> set (DISH_TYPES_BY_CATEGORY (l_category l)) \<and>
    (l_category l = SC_FaitMaison \<longrightarrow>
      l_priceCents l \<le> FAIT_MAISON_PRICE_CAP_CENTS \<and> l_portionsLeft l \<noteq> None \<and> l_expiresAt l \<noteq> None)"

lemma shape_ok:
  assumes "validateListingShape images price original = None"
    and "validateCategoryShape price portions hasExpiry dishes category = None"
  shows "length images \<le> 4 \<and> (\<forall>n. original = Some n \<longrightarrow> price \<le> n) \<and>
    set dishes \<subseteq> set (DISH_TYPES_BY_CATEGORY category) \<and>
    (category = SC_FaitMaison \<longrightarrow> price \<le> FAIT_MAISON_PRICE_CAP_CENTS \<and> portions \<noteq> None \<and> hasExpiry)"
  using assms
  by (auto simp: validateListingShape_def validateCategoryShape_def Let_def filter_empty_conv
      split: if_splits option.splits)

lemma createCheck_Inr:
  assumes "createCheck env sb dto s = Inr (sid, category, expiresAt)"
  shows "listing_ok (newListing env sid category dto expiresAt)"
    and "map_option u_id (getUserBySupabase s sb) = Some sid"
    and "map_option sp_category (getSeller s sid) = Some (Some category)"
    and "map_option sp_kycStatus (getSeller s sid) = Some K_Approved"
proof -
  obtain seller where a: "assertSeller env \<lparr>op_requireKycApproved = True, op_requireActiveSubscription = True\<rparr> sb s
      = Inr (sid, seller, False)" and c: "sp_category seller = Some category"
    and sh: "validateListingShape (cl_imageUrls dto) (cl_priceCents dto) (cl_originalPriceCents dto) = None"
    and cat: "validateCategoryShape (cl_priceCents dto) (cl_portionsLeft dto) (cl_expiresAt dto \<noteq> None)
       (case cl_dishTypes dto of None \<Rightarrow> [] | Some x \<Rightarrow> x) category = None"
    and ex: "(expiresAt \<noteq> None) = (cl_expiresAt dto \<noteq> None)"
    using assms unfolding createCheck_def by (auto split: sum.splits prod.splits option.splits if_splits)
  show "listing_ok (newListing env sid category dto expiresAt)"
    using shape_ok [OF sh cat] ex by (auto simp: listing_ok_def newListing_def)
  show "map_option u_id (getUserBySupabase s sb) = Some sid"
    "map_option sp_category (getSeller s sid) = Some (Some category)"
    "map_option sp_kycStatus (getSeller s sid) = Some K_Approved"
    using a c by (auto simp: assertSeller_def split: option.splits if_splits)
qed

lemma updateCheck_Inr:
  assumes "updateCheck env l dto = Inr expiresAt"
  shows "listing_ok (updateData dto expiresAt l)"
proof -
  have "validateListingShape (over (ul_imageUrls dto) (l_imageUrls l))
          (over (ul_priceCents dto) (l_priceCents l))
          (overOpt (ul_originalPriceCents dto) (l_originalPriceCents l)) = None"
    "validateCategoryShape (over (ul_priceCents dto) (l_priceCents l))
               (overOpt (ul_portionsLeft dto) (l_portionsLeft l)) (expiresAt \<noteq> None)
               (over (ul_dishTypes dto) (l_dishTypes l)) (l_category l) = None"
    using assms unfolding updateCheck_def by (auto split: sum.splits option.splits)
  from shape_ok [OF this] show ?thesis by (simp add: listing_ok_def updateData_def)
qed

subsection \<open>What each operation changes\<close>

lemma createListing_cases:
  assumes "createListing env sb dto s = (r, t)"
  obtains "t = s" "\<exists>e. r = Inl e"
    | sid category expiresAt where "createCheck env sb dto s = Inr (sid, category, expiresAt)"
      "t_listings t = t_listings s @ [newListing env sid category dto expiresAt]" "\<exists>x. r = Inr x"
proof (cases "createCheck env sb dto s")
  case (Inl e)
  with assms show thesis by (intro that(1)) (auto simp: createListing_def fail_eq_iff)
next
  case (Inr p)
  obtain sid category expiresAt where p: "p = (sid, category, expiresAt)" by (cases p) auto
  let ?l = "newListing env sid category dto expiresAt"
  let ?s1 = "s\<lparr>t_listings := t_listings s @ [?l]\<rparr>"
  let ?s2 = "case cl_extras dto of None \<Rightarrow> ?s1 | Some xs \<Rightarrow> replaceExtras env (l_id ?l) xs ?s1"
  have s2: "t_listings ?s2 = t_listings s @ [?l]" by (simp add: replaceExtras_def split: option.split)
  show thesis
  proof (cases "getListing s (l_id ?l)")
    case (Some x)
    with assms Inr p show thesis
      by (intro that(1)) (auto simp: createListing_def transaction_def fail_def Let_def)
  next
    case None
    then have "getListing ?s2 (l_id ?l) = Some ?l" using s2 by (simp add: getListing_def findRow_append)
    then have "createListing env sb dto s =
        (Inr (?l, addOnsOf (l_id ?l) ?s2), recordTermsAcceptance sid ?s2)"
      using Inr p None
      by (simp add: createListing_def transaction_def loadWithAddOns_def Let_def ok_def split: option.splits)
    moreover have "t_listings (recordTermsAcceptance sid ?s2) = t_listings ?s2"
      using recordTermsAcceptance_eq [of sid ?s2] by auto
    ultimately show thesis using assms Inr p s2 by (intro that(2) [of sid category expiresAt]) auto
  qed
qed

lemma ownListing_Inr:
  assumes "ownListing sid i s = Inr l"
  shows "getListing s i = Some l" "l_sellerId l = sid" "l_deletedAt l = None"
  using assms by (auto simp: ownListing_def split: option.splits if_splits)

lemma updateListing_cases:
  assumes "updateListing env sb i dto s = (r, t)"
  obtains "t = s" "\<exists>e. r = Inl e"
    | sid l expiresAt where "map_option u_id (getUserBySupabase s sb) = Some sid"
      "ownListing sid i s = Inr l" "updateCheck env l dto = Inr expiresAt"
      "t_listings t = updRow l_id i (updateData dto expiresAt) (t_listings s)"
proof (cases "assertSeller env \<lparr>op_requireKycApproved = True, op_requireActiveSubscription = True\<rparr> sb s")
  case (Inl e)
  with assms show thesis by (intro that(1)) (auto simp: updateListing_def fail_eq_iff)
next
  case (Inr p)
  obtain sid sel susp where p: "p = (sid, sel, susp)" by (cases p) auto
  from Inr p have sid: "map_option u_id (getUserBySupabase s sb) = Some sid"
    by (auto simp: assertSeller_def split: option.splits if_splits)
  show thesis
  proof (cases "ownListing sid i s")
    case (Inl e)
    with assms Inr p show thesis by (intro that(1)) (auto simp: updateListing_def fail_eq_iff)
  next
    case own: (Inr l)
    show thesis
    proof (cases "updateCheck env l dto")
      case (Inl e)
      with assms \<open>assertSeller _ _ sb s = Inr p\<close> p own show thesis
        by (intro that(1)) (auto simp: updateListing_def fail_eq_iff)
    next
      case chk: (Inr expiresAt)
      with assms \<open>assertSeller _ _ sb s = Inr p\<close> p own sid show thesis
        by (intro that(2) [of sid l expiresAt])
          (auto simp: updateListing_def updListing_def loadWithAddOns_def replaceExtras_def Let_def
            fail_eq_iff ok_eq_iff split: option.splits)
    qed
  qed
qed

lemma toggle_cases:
  assumes "(r, t) = setAvailability env sb i b s \<or> (ru, t) = softDelete env sb i s"
  obtains "t = s"
    | sid l d where "map_option u_id (getUserBySupabase s sb) = Some sid" "ownListing sid i s = Inr l"
      "t_listings t = updRow l_id i (\<lambda>r. r\<lparr>l_isAvailable := b\<rparr>) (t_listings s) \<or>
       t_listings t = updRow l_id i (\<lambda>r. r\<lparr>l_deletedAt := d, l_isAvailable := False\<rparr>) (t_listings s)"
  using assms
  by (fastforce simp: setAvailability_def softDelete_def assertSeller_def updListing_def loadWithAddOns_def
      fail_def ok_def split: sum.splits option.splits if_splits prod.splits)

text \<open>One call of a writing endpoint of the listings service.\<close>

inductive listing_step :: "db \<Rightarrow> db \<Rightarrow> bool" where
  create: "listing_step s (snd (createListing env sb dto s))"
| update: "listing_step s (snd (updateListing env sb i dto' s))"
| toggle: "listing_step s (snd (setAvailability env sb i b s))"
| delete: "listing_step s (snd (softDelete env sb i s))"

definition listings_ok :: "db \<Rightarrow> bool" where
  "listings_ok s \<longleftrightarrow> (\<forall>l \<in> set (t_listings s). listing_ok l)"

lemma listings_ok_updRow:
  assumes "listings_ok s" and "t_listings t = updRow l_id i f (t_listings s)"
    and "\<And>l. l \<in> set (t_listings s) \<Longrightarrow> l_id l = i \<Longrightarrow> listing_ok l \<Longrightarrow> listing_ok (f l)"
  shows "listings_ok t"
  using assms by (auto simp: listings_ok_def in_updRow)

lemma updateData_only_row:
  assumes "getListing s i = Some l" and "distinct (map l_id (t_listings s))" and "q \<in> set (t_listings s)" "l_id q = i"
  shows "q = l"
  using assms findRow_distinct [of l_id "t_listings s" q] by (simp add: getListing_def)

definition listings_inv :: "db \<Rightarrow> bool" where
  "listings_inv s \<longleftrightarrow> listings_ok s \<and> distinct (map l_id (t_listings s))"

lemma listings_inv_upd:
  assumes "listings_inv s" and "t_listings t = updRow l_id i f (t_listings s)"
    and "\<And>l. l_id (f l) = l_id l"
    and "\<And>l. l \<in> set (t_listings s) \<Longrightarrow> l_id l = i \<Longrightarrow> listing_ok l \<Longrightarrow> listing_ok (f l)"
  shows "listings_inv t"
proof -
  have "listings_ok s" "distinct (map l_id (t_listings s))"
    using assms(1) by (simp_all add: listings_inv_def)
  moreover have "listings_ok t" by (rule listings_ok_updRow [OF \<open>listings_ok s\<close> assms(2,4)])
  moreover have "map l_id (t_listings t) = map l_id (t_listings s)"
    unfolding assms(2) by (rule map_key_updRow) (rule assms(3))
  ultimately show ?thesis by (simp add: listings_inv_def)
qed

lemma toggled_inv:
  assumes "listings_inv s"
    and "t_listings t = updRow l_id i (\<lambda>r. r\<lparr>l_isAvailable := b\<rparr>) (t_listings s) \<or>
       t_listings t = updRow l_id i (\<lambda>r. r\<lparr>l_deletedAt := d, l_isAvailable := False\<rparr>) (t_listings s)"
  shows "listings_inv t"
  using assms(2)
proof
  assume "t_listings t = updRow l_id i (\<lambda>r. r\<lparr>l_isAvailable := b\<rparr>) (t_listings s)"
  from listings_inv_upd [OF assms(1) this] show ?thesis by (simp add: listing_ok_def)
next
  assume "t_listings t = updRow l_id i (\<lambda>r. r\<lparr>l_deletedAt := d, l_isAvailable := False\<rparr>) (t_listings s)"
  from listings_inv_upd [OF assms(1) this] show ?thesis by (simp add: listing_ok_def)
qed

lemma listings_inv_step:
  assumes inv: "listings_inv s" and "listing_step s t"
  shows "listings_inv t"
  using assms(2)
proof cases
  case (create env sb dto)
  obtain r where "createListing env sb dto s = (r, t)" using create by (metis prod.collapse)
  then show ?thesis
  proof (cases rule: createListing_cases)
    case (2 sid category expiresAt)
    let ?l = "newListing env sid category dto expiresAt"
    have "getListing s (l_id ?l) = None"
    proof (rule ccontr)
      assume "getListing s (l_id ?l) \<noteq> None"
      with 2(1) have "fst (createListing env sb dto s) = Inl PrismaConflict"
        by (simp add: createListing_def transaction_def fail_def Let_def)
      with 2(3) \<open>createListing env sb dto s = (r, t)\<close> show False by auto
    qed
    then have "l_id ?l \<notin> set (map l_id (t_listings s))"
      by (auto simp: getListing_def findRow_None_iff)
    with inv createCheck_Inr(1) [OF 2(1)] 2(2) show ?thesis
      by (auto simp: listings_inv_def listings_ok_def)
  qed (use inv in simp)
next
  case (update env sb i dto)
  obtain r where "updateListing env sb i dto s = (r, t)" using update by (metis prod.collapse)
  then show ?thesis
  proof (cases rule: updateListing_cases)
    case (2 sid l expiresAt)
    show ?thesis
    proof (rule listings_inv_upd [OF inv 2(4)])
      fix q assume "q \<in> set (t_listings s)" "l_id q = i"
      then have "q = l"
        using inv by (intro updateData_only_row [OF ownListing_Inr(1) [OF 2(2)]]) (simp_all add: listings_inv_def)
      then show "listing_ok (updateData dto expiresAt q)" using updateCheck_Inr [OF 2(3)] by simp
    qed (simp add: updateData_def)
  qed (use inv in simp)
next
  case (toggle env sb i b)
  then have "(fst (setAvailability env sb i b s), t) = setAvailability env sb i b s \<or>
      (Inr (), t) = softDelete env sb i s" by simp
  then show ?thesis
  proof (cases rule: toggle_cases)
    case (2 sid l d)
    from 2(3) show ?thesis by (rule toggled_inv [OF inv])
  qed (use inv in simp)
next
  case (delete env sb i)
  then have "(Inr undefined, t) = setAvailability env sb i True s \<or>
      (fst (softDelete env sb i s), t) = softDelete env sb i s" by simp
  then show ?thesis
  proof (cases rule: toggle_cases)
    case (2 sid l d)
    from 2(3) show ?thesis by (rule toggled_inv [OF inv])
  qed (use inv in simp)
qed

interpretation menu: inductive_invariant listings_inv listing_step listings_inv
  by unfold_locales (auto intro: listings_inv_step)

text \<open>C8: Through any sequence of the listing endpoints every stored listing keeps the publication
  rules of its category: a home-made dish costs at most 4.50 euros and has a portion count
  and an expiry, dish types fit the category, no more than four images, and a struck-out
  price is never below the price.\<close>

theorem listings_keep_rules:
  assumes "listings_inv s" and "listing_step\<^sup>*\<^sup>* s t" and "l \<in> set (t_listings t)"
  shows "length (l_imageUrls l) \<le> 4 \<and> (\<forall>n. l_originalPriceCents l = Some n \<longrightarrow> l_priceCents l \<le> n) \<and>
    set (l_dishTypes l) \<subseteq> set (DISH_TYPES_BY_CATEGORY (l_category l)) \<and>
    (l_category l = SC_FaitMaison \<longrightarrow>
      l_priceCents l \<le> 450 \<and> l_portionsLeft l \<noteq> None \<and> l_expiresAt l \<noteq> None)"
proof -
  have "listing_ok l"
    using menu.reachable_inv [OF assms(1,2)] assms(3) by (simp add: listings_inv_def listings_ok_def)
  then show ?thesis by (simp add: listing_ok_def FAIT_MAISON_PRICE_CAP_CENTS_def)
qed

definition demo_listing_dto :: create_listing_dto where
  "demo_listing_dto = \<lparr>cl_name = ''soup'', cl_description = None, cl_imageUrls = [''u''],
    cl_priceCents = 400, cl_originalPriceCents = Some 500, cl_discountPercent = None,
    cl_portionsLeft = Some 3, cl_cuisineTypes = None, cl_dishTypes = None, cl_dietaryTags = None,
    cl_allergens = None, cl_otherAllergens = None, cl_declaresNoAllergens = Some True,
    cl_isAvailable = None, cl_isVeg = Some True, cl_menuCategory = None,
    cl_fulfillment = Offers_Both, cl_prepMinutes = 10, cl_expiresAt = Some (Some 9000),
    cl_extras = None, cl_termsAccepted = Some True\<rparr>"

definition cook_db :: db where
  "cook_db = updSeller ''s'' (\<lambda>r. r\<lparr>sp_category := Some SC_FaitMaison\<rparr>) payout_db"

definition publish_run :: "(exn, listing_row \<times> addon_row list, db) result" where
  "publish_run = createListing demo_env ''sb'' demo_listing_dto cook_db"

theorem listings_keep_rules_witness:
  "\<exists>l \<in> set (t_listings (snd publish_run)). l_category l = SC_FaitMaison \<and> l_priceCents l = 400 \<and>
    l_portionsLeft l \<noteq> None"
proof -
  have "listings_inv cook_db"
    by (simp add: listings_inv_def listings_ok_def cook_db_def updSeller_def payout_db_def empty_db_def)
  moreover have "listing_step\<^sup>*\<^sup>* cook_db (snd publish_run)"
    unfolding publish_run_def by (intro r_into_rtranclp listing_step.create)
  moreover have "map (\<lambda>l. (l_category l, l_priceCents l)) (t_listings (snd publish_run)) = [(SC_FaitMaison, 400)]"
    by code_simp
  then obtain l where l: "l \<in> set (t_listings (snd publish_run))" "l_category l = SC_FaitMaison" "l_priceCents l = 400"
    by auto
  ultimately have "l_portionsLeft l \<noteq> None" using listings_keep_rules [of cook_db "snd publish_run" l] by simp
  with l show ?thesis by blast
qed

text \<open>Only the owner edits a listing: after a successful update the row with that id is the
  caller's own, still has the same seller and category, and every other row is as it was.\<close>

theorem update_only_own_listing:
  assumes "updateListing env sb i dto s = (Inr (l', as), t)"
  shows "\<exists>u l. getUserBySupabase s sb = Some u \<and> getListing s i = Some l \<and> l_sellerId l = u_id u \<and>
    l_deletedAt l = None \<and> getListing t i = Some l' \<and> l_sellerId l' = u_id u \<and>
    l_category l' = l_category l \<and>
    (\<forall>j. j \<noteq> i \<longrightarrow> getListing t j = getListing s j)"
  using assms
proof (cases rule: updateListing_cases)
  case (2 sid l expiresAt)
  note own = ownListing_Inr [OF 2(2)]
  from 2(1) obtain u where u: "getUserBySupabase s sb = Some u" "u_id u = sid" by auto
  have get: "getListing t j = (if j = i then map_option (updateData dto expiresAt) (getListing s j)
      else getListing s j)" for j
    unfolding getListing_def 2(4) by (subst findRow_updRow) (auto simp: updateData_def)
  have "getListing t i = Some l'"
    using assms by (auto simp: updateListing_def loadWithAddOns_def Let_def fail_eq_iff ok_eq_iff
        split: sum.splits option.splits prod.splits)
  with get own(1) have l': "getListing t i = Some l'" "l' = updateData dto expiresAt l" by simp_all
  then show ?thesis using u own get by (intro exI [of _ u] exI [of _ l]) (simp add: updateData_def)
qed simp

definition price_change :: update_listing_dto where
  "price_change = \<lparr>ul_name = None, ul_description = None, ul_imageUrls = None, ul_priceCents = Some 350,
    ul_originalPriceCents = None, ul_discountPercent = None, ul_portionsLeft = None,
    ul_cuisineTypes = None, ul_dishTypes = None, ul_dietaryTags = None, ul_allergens = None,
    ul_otherAllergens = None, ul_declaresNoAllergens = Some True, ul_isAvailable = None,
    ul_isVeg = None, ul_menuCategory = None, ul_fulfillment = None, ul_prepMinutes = None,
    ul_expiresAt = None, ul_extras = None\<rparr>"

definition edit_run :: "(exn, listing_row \<times> addon_row list, db) result" where
  "edit_run = updateListing demo_env ''sb'' ''n'' price_change (snd publish_run)"

theorem update_only_own_listing_witness:
  "\<exists>l' as t. edit_run = (Inr (l', as), t) \<and> l_sellerId l' = ''s'' \<and> l_priceCents l' = 350"
proof -
  have c: "case fst edit_run of Inl _ \<Rightarrow> False | Inr (l', _) \<Rightarrow> l_priceCents l' = 350" by code_simp
  then obtain x where "edit_run = (Inr x, snd edit_run)" "case x of (l', _) \<Rightarrow> l_priceCents l' = 350"
    by (rule run_InrE)
  then obtain l' as t where r: "edit_run = (Inr (l', as), t)" "l_priceCents l' = 350" by (cases x) auto
  have "map_option u_id (getUserBySupabase (snd publish_run) ''sb'') = Some ''s''" by code_simp
  with update_only_own_listing [OF r(1) [unfolded edit_run_def]] have "l_sellerId l' = ''s''" by auto
  with r show ?thesis by blast
qed

text \<open>The declaration that a dish has no allergens is not stored, but an update asks for it
  again: no field of a listing published with it can be edited, not even the price, unless
  the body repeats an allergen declaration.\<close>

theorem update_needs_redeclaration:
  assumes "getListing s i = Some l" and "l_allergens l = []" and "l_otherAllergens l = None"
    and "ul_allergens dto = None" and "ul_otherAllergens dto = None" and "ul_declaresNoAllergens dto = None"
  shows "\<exists>e. updateListing env sb i dto s = (Inl e, s)"
proof -
  have "\<nexists>x. updateCheck env l dto = Inr x"
    using assms(2-) by (auto simp: updateCheck_def over_def overOpt_def validateAllergens_def
        split: sum.splits option.splits)
  then obtain e where "updateCheck env l dto = Inl e" by (cases "updateCheck env l dto") auto
  with assms(1) show ?thesis
    by (auto simp: updateListing_def ownListing_def fail_def split: sum.split)
qed

theorem update_needs_redeclaration_witness:
  "(\<exists>x. fst publish_run = Inr x) \<and>
   (\<exists>e. updateListing demo_env ''sb'' ''n'' (price_change\<lparr>ul_declaresNoAllergens := None\<rparr>)
      (snd publish_run) = (Inl e, snd publish_run))"
proof -
  have "case fst publish_run of Inl _ \<Rightarrow> False | Inr _ \<Rightarrow> True" by code_simp
  then have a: "\<exists>x. fst publish_run = Inr x" by (cases "fst publish_run") auto
  have "map_option (\<lambda>l. (l_allergens l, l_otherAllergens l)) (getListing (snd publish_run) ''n'') = Some ([], None)"
    by code_simp
  then obtain l where "getListing (snd publish_run) ''n'' = Some l" "l_allergens l = []" "l_otherAllergens l = None"
    by auto
  from update_needs_redeclaration [OF this, of "price_change\<lparr>ul_declaresNoAllergens := None\<rparr>" demo_env "''sb''"] a
  show ?thesis by (simp add: price_change_def)
qed

text \<open>Reading one's bookmarks always ends in an error: the query selects the columns
  \<open>cuisineType\<close> and \<open>dishType\<close>, which the table no longer has.\<close>

theorem bookmarks_never_listed:
  "\<exists>e. listBookmarks sb limit offset s = Inl e"
proof -
  have "''cuisineType'' \<in> set bookmarkColumns" "''cuisineType'' \<notin> set listingColumns"
    by (simp_all add: bookmarkColumns_def listingColumns_def)
  then have "\<not> set bookmarkColumns \<subseteq> set listingColumns" by blast
  then show ?thesis by (simp add: listBookmarks_def split: option.split)
qed

subsection \<open>What the feed shows\<close>

lemma feedJoin_mem:
  "(l', sp, d) \<in> set (feedJoin metres now q pt s l) \<longleftrightarrow>
    l' = l \<and> getSeller s (l_sellerId l) = Some sp \<and>
    (\<exists>u. getUser s (l_sellerId l) = Some u \<and> feedVisible now l sp u) \<and>
    feedMatches metres q pt l sp \<and> d = distanceKm metres pt sp"
  by (cases "getSeller s (l_sellerId l)"; cases "getUser s (l_sellerId l)") (auto simp: feedJoin_def)

lemma feedRows_mem:
  "(l, sp, d) \<in> set (feedRows metres now q pt s) \<longleftrightarrow>
    l \<in> set (t_listings s) \<and> getSeller s (l_sellerId l) = Some sp \<and>
    (\<exists>u. getUser s (l_sellerId l) = Some u \<and> feedVisible now l sp u) \<and>
    feedMatches metres q pt l sp \<and> d = distanceKm metres pt sp"
  unfolding feedRows_def set_concat set_map by (auto simp: feedJoin_mem)

lemma feed_Inr:
  assumes "feed metres env sb q s = Inr res"
  shows "fr_items res = take (fr_limit res) (drop (fr_offset res)
      (sort_key (feedKey (feedSort q (resolveBuyerPoint sb q s)))
        (feedRows metres (e_now env) q (resolveBuyerPoint sb q s) s)))"
    and "fr_hasMore res \<longleftrightarrow> fr_offset res + fr_limit res <
      length (feedRows metres (e_now env) q (resolveBuyerPoint sb q s) s)"
proof -
  let ?xs = "sort_key (feedKey (feedSort q (resolveBuyerPoint sb q s)))
        (feedRows metres (e_now env) q (resolveBuyerPoint sb q s) s)"
  have items: "fr_items res = (if fr_limit res < length (take (fr_limit res + 1) (drop (fr_offset res) ?xs))
       then take (fr_limit res) (take (fr_limit res + 1) (drop (fr_offset res) ?xs))
       else take (fr_limit res + 1) (drop (fr_offset res) ?xs))"
    and more: "fr_hasMore res \<longleftrightarrow> fr_limit res < length (take (fr_limit res + 1) (drop (fr_offset res) ?xs))"
    using assms by (auto simp: feed_def Let_def split: if_splits)
  show "fr_items res = take (fr_limit res) (drop (fr_offset res) ?xs)"
    unfolding items by (auto simp: min_def)
  show "fr_hasMore res \<longleftrightarrow> fr_offset res + fr_limit res <
      length (feedRows metres (e_now env) q (resolveBuyerPoint sb q s) s)"
    unfolding more by (auto simp: min_def)
qed

text \<open>Every dish of the feed could be ordered as it is shown: it passes the cart's checks of the
  listing and of its seller at the same instant, but for a missing delivery fee. It is within
  the category's radius when a distance is asked for, has none of the avoided allergens, and
  the page is ordered by the requested key and no longer than the limit.\<close>

theorem feed_items_orderable:
  assumes "feed metres env sb q s = Inr res" and "(l, sp, d) \<in> set (fr_items res)"
  shows "liveCheck (e_now env) [l] = None \<and>
    (\<exists>u. getUser s (l_sellerId l) = Some u \<and>
      sellerCheck (e_now env) sp u \<in> {None, Some (BadRequest (Cart SellerFeeMissing))}) \<and>
    (\<forall>km x. q_maxDistanceKm q = Some km \<longrightarrow> d = Some x \<longrightarrow>
      x \<le> km \<and> x \<le> of_int (maxRadiusForCategory (q_category q))) \<and>
    set (l_allergens l) \<inter> set (q_avoidAllergens q) = {} \<and>
    length (fr_items res) \<le> fr_limit res \<and>
    sorted (map (feedKey (feedSort q (resolveBuyerPoint sb q s))) (fr_items res))"
proof -
  let ?pt = "resolveBuyerPoint sb q s"
  note items = feed_Inr(1) [OF assms(1)]
  have "(l, sp, d) \<in> set (feedRows metres (e_now env) q ?pt s)"
    using assms(2) unfolding items by (auto dest!: in_set_takeD in_set_dropD)
  then obtain u where r: "getUser s (l_sellerId l) = Some u" "feedVisible (e_now env) l sp u"
    "feedMatches metres q ?pt l sp" "d = distanceKm metres ?pt sp"
    by (auto simp: feedRows_mem)
  have "liveCheck (e_now env) [l] = None"
    using r(2) by (auto simp: feedVisible_def not_le split: option.splits)
  moreover have "sellerCheck (e_now env) sp u \<in> {None, Some (BadRequest (Cart SellerFeeMissing))}"
    using r(2) by (auto simp: feedVisible_def sellerCheck_def isSubscriptionActive_def split: option.splits)
  moreover have "x \<le> km \<and> x \<le> of_int (maxRadiusForCategory (q_category q))"
    if km: "q_maxDistanceKm q = Some km" "d = Some x" for km x
  proof -
    obtain p loc where p: "?pt = Some p" "sp_location sp = Some loc" "x = metres loc p / 1000"
      using r(4) km(2) by (auto simp: distanceKm_def split: option.splits)
    have "metres loc p \<le> effectiveKm q km * 1000"
      using r(3) p km unfolding feedMatches_def by simp
    then have "x \<le> effectiveKm q km" by (simp add: p(3) divide_le_eq)
    then show ?thesis by (simp add: effectiveKm_def)
  qed
  moreover have "set (l_allergens l) \<inter> set (q_avoidAllergens q) = {}"
    using r(3) by (auto simp: feedMatches_def overlaps_def list_ex_iff)
  moreover have "sorted (map (feedKey (feedSort q ?pt)) (fr_items res))"
    unfolding items take_map [symmetric] drop_map [symmetric]
    by (rule sorted_wrt_take, rule sorted_wrt_drop, rule sorted_sort_key)
  moreover have "length (fr_items res) \<le> fr_limit res" by (simp add: items)
  ultimately show ?thesis using r(1) by blast
qed

definition any_query :: feed_query where
  "any_query = \<lparr>q_category = None, q_cuisineTypes = [], q_dishTypes = [], q_fulfillment = None,
    q_dietary = [], q_avoidAllergens = [Al_Gluten], q_isVeg = None, q_minPriceCents = None,
    q_maxPriceCents = None, q_maxDistanceKm = None, q_inStockOnly = True, q_search = ''SO'',
    q_lat = None, q_lng = None, q_sort = None, q_limit = Some 5, q_offset = None\<rparr>"

theorem feed_items_orderable_witness:
  "\<exists>res l sp d. feed (\<lambda>_ _. 0) demo_env ''bb'' any_query (snd publish_run) = Inr res \<and>
    (l, sp, d) \<in> set (fr_items res) \<and> liveCheck 0 [l] = None"
proof -
  have "case feed (\<lambda>_ _. 0) demo_env ''bb'' any_query (snd publish_run) of
      Inl _ \<Rightarrow> False | Inr res \<Rightarrow> length (fr_items res) = 1" by code_simp
  then obtain res where r: "feed (\<lambda>_ _. 0) demo_env ''bb'' any_query (snd publish_run) = Inr res"
    "length (fr_items res) = 1" by (auto split: sum.splits)
  then obtain l sp d where m: "(l, sp, d) \<in> set (fr_items res)"
    by (cases "fr_items res") auto
  have "e_now demo_env = 0" by (simp add: demo_env_def)
  with feed_items_orderable [OF r(1) m] have "liveCheck 0 [l] = None" by simp
  with r(1) m show ?thesis by blast
qed

definition plainText :: "string \<Rightarrow> bool" where
  "plainText t \<longleftrightarrow> set t \<inter> {CHR ''%'', CHR ''_'', CHR 0x5C} = {}"

lemma like_prefix: "plainText t \<Longrightarrow> sqlLike (t @ ''%'') xs \<longleftrightarrow> prefix t xs"
proof (induction t arbitrary: xs)
  case Nil
  then show ?case by (induction xs) (auto split: list.splits)
next
  case (Cons p t)
  then show ?case by (cases xs) (auto simp: plainText_def)
qed

lemma like_substring: "plainText t \<Longrightarrow> sqlLike (''%'' @ t @ ''%'') xs \<longleftrightarrow> sublist t xs"
proof (induction xs)
  case Nil
  then show ?case using like_prefix [of t "[]"] by simp
next
  case (Cons x xs)
  then show ?case using like_prefix [of t "x # xs"] by (auto simp: sublist_Cons_right)
qed

text \<open>A search text without the pattern characters finds exactly the dishes whose name
  contains it, in any case of letters.\<close>

theorem search_finds_substring:
  assumes "plainText (lower t)"
  shows "ilike text (searchPattern t) \<longleftrightarrow> sublist (lower t) (lower text)"
proof -
  have "lower ''%'' = ''%''" by code_simp
  then have "lower (searchPattern t) = ''%'' @ lower t @ ''%''" by (simp add: searchPattern_def lower_def)
  with like_substring [OF assms] show ?thesis by (simp add: ilike_def)
qed

theorem search_finds_substring_witness:
  "ilike ''Leek Soup'' (searchPattern ''SOU'')"
proof -
  have l: "lower ''SOU'' = ''sou''" "lower ''Leek Soup'' = ''leek soup''" by code_simp+
  have "plainText ''sou''" by (simp add: plainText_def)
  moreover have "sublist ''sou'' ''leek soup''"
    by (simp add: sublist_def) (intro exI [of _ "''leek ''"] exI [of _ "''p''"], simp)
  ultimately show ?thesis using search_finds_substring [of "''SOU''" "''Leek Soup''"] unfolding l by simp
qed

end
