(* ===== verification/Catalog.thy ===== *)
theory Catalog
  imports Subscriptions
begin

section \<open>The kitchen catalog and its after-sales claims\<close>

text \<open>
  \<open>src/modules/catalog\<close>: products the administrators sell to the sellers
  (\<open>catalog-admin.service.ts\<close>), the sellers' purchases and their payment
  (\<open>catalog.service.ts\<close>), and the after-sales claims with the administrators' decisions
  (\<open>catalog-claims.service.ts\<close>). The tables are in creation order, so "newest first" is the
  reverse. \<open>ensureCustomer\<close> of the catalog service is the same code as that of the
  subscriptions service and is used from there.
\<close>

subsection \<open>Products\<close>

record create_product_dto =
  cp_name :: string
  cp_description :: "string option"
  cp_imageUrls :: "string list option"
  cp_priceCents :: int
  cp_currency :: "string option"
  cp_isActive :: "bool option"

definition newProduct :: "env \<Rightarrow> id \<Rightarrow> create_product_dto \<Rightarrow> catalog_product_row" where
  "newProduct env adminId dto = \<lparr>pr_id = e_ulid env ForCatalogProduct, pr_name = cp_name dto,
     pr_description = cp_description dto,
     pr_imageUrls = (case cp_imageUrls dto of None \<Rightarrow> [] | Some us \<Rightarrow> us),
     pr_priceCents = cp_priceCents dto,
     pr_currency = lower (case cp_currency dto of None \<Rightarrow> ''eur'' | Some c \<Rightarrow> c),
     pr_isActive = (case cp_isActive dto of None \<Rightarrow> True | Some b \<Rightarrow> b),
     pr_createdById = Some adminId, pr_deletedAt = None\<rparr>"

definition createProduct :: "env \<Rightarrow> id \<Rightarrow> create_product_dto \<Rightarrow> db
    \<Rightarrow> (exn, catalog_product_row, db) result" where
  "createProduct env adminSupabaseId dto s =
    (case getUserBySupabase s adminSupabaseId of
       None \<Rightarrow> fail (NotFound AnAdminAccount) s
     | Some admin \<Rightarrow> let p = newProduct env (u_id admin) dto
         in ok p (s\<lparr>t_catalogProducts := t_catalogProducts s @ [p]\<rparr>))"

definition listAllProducts :: "db \<Rightarrow> catalog_product_row list" where
  "listAllProducts s = rev (filter (\<lambda>p. pr_deletedAt p = None) (t_catalogProducts s))"

definition getAnyProduct :: "id \<Rightarrow> db \<Rightarrow> exn + catalog_product_row" where
  "getAnyProduct i s =
    (case findRow pr_id i (t_catalogProducts s) of
       None \<Rightarrow> Inl (NotFound AProduct)
     | Some p \<Rightarrow> if pr_deletedAt p \<noteq> None then Inl (NotFound AProduct) else Inr p)"

text \<open>An absent field keeps the column; a description may also be set to null.\<close>

record update_product_dto =
  up_name :: "string option"
  up_description :: "string option option"
  up_imageUrls :: "string list option"
  up_priceCents :: "int option"
  up_currency :: "string option"
  up_isActive :: "bool option"

definition updProduct :: "update_product_dto \<Rightarrow> catalog_product_row \<Rightarrow> catalog_product_row" where
  "updProduct dto p = p\<lparr>
     pr_name := (case up_name dto of None \<Rightarrow> pr_name p | Some v \<Rightarrow> v),
     pr_description := (case up_description dto of None \<Rightarrow> pr_description p | Some v \<Rightarrow> v),
     pr_imageUrls := (case up_imageUrls dto of None \<Rightarrow> pr_imageUrls p | Some v \<Rightarrow> v),
     pr_priceCents := (case up_priceCents dto of None \<Rightarrow> pr_priceCents p | Some v \<Rightarrow> v),
     pr_currency := (case up_currency dto of None \<Rightarrow> pr_currency p | Some v \<Rightarrow> lower v),
     pr_isActive := (case up_isActive dto of None \<Rightarrow> pr_isActive p | Some v \<Rightarrow> v)\<rparr>"

definition updateProduct :: "id \<Rightarrow> update_product_dto \<Rightarrow> db \<Rightarrow> (exn, catalog_product_row, db) result" where
  "updateProduct i dto s = bindR (liftE (getAnyProduct i s) s) (\<lambda>p s.
     ok (updProduct dto p)
       (s\<lparr>t_catalogProducts := updRow pr_id i (updProduct dto) (t_catalogProducts s)\<rparr>))"

definition removeProduct :: "env \<Rightarrow> id \<Rightarrow> db \<Rightarrow> (exn, unit, db) result" where
  "removeProduct env i s = bindR (liftE (getAnyProduct i s) s) (\<lambda>_ s.
     ok () (s\<lparr>t_catalogProducts := updRow pr_id i
       (\<lambda>p. p\<lparr>pr_deletedAt := Some (e_now env), pr_isActive := False\<rparr>) (t_catalogProducts s)\<rparr>))"

definition onSale :: "catalog_product_row \<Rightarrow> bool" where
  "onSale p \<longleftrightarrow> pr_deletedAt p = None \<and> pr_isActive p"

definition listProducts :: "db \<Rightarrow> catalog_product_row list" where
  "listProducts s = rev (filter onSale (t_catalogProducts s))"

definition getProduct :: "id \<Rightarrow> db \<Rightarrow> exn + catalog_product_row" where
  "getProduct i s =
    (case findRow pr_id i (t_catalogProducts s) of
       None \<Rightarrow> Inl (NotFound AProduct)
     | Some p \<Rightarrow> if \<not> onSale p then Inl (NotFound AProduct) else Inr p)"

text \<open>The orders view of the administrators, with the seller's columns it selects.\<close>

definition catalogOrdersForAdmin ::
    "db \<Rightarrow> (catalog_order_row \<times> (id \<times> string \<times> string \<times> string) option) list" where
  "catalogOrdersForAdmin s = take 200 (map (\<lambda>c. (c,
     map_option (\<lambda>u. (u_id u, u_firstName u, u_lastName u, u_email u)) (getUser s (co_sellerId c))))
       (rev (t_catalogOrders s)))"

subsection \<open>Purchases\<close>

text \<open>
  The \<open>wanted\<close> map adds up the quantities of repeated products: it is the \<^const>\<open>aggregate\<close> of
  the order's stock lines. \<open>products\<close> has no \<open>orderBy\<close>; the model takes the table's order.
\<close>

definition lineItems :: "env \<Rightarrow> (id \<times> int) list \<Rightarrow> catalog_product_row list \<Rightarrow> catalog_item_row list" where
  "lineItems env wanted products = map (\<lambda>(n, p).
     let quantity = the (map_of wanted (pr_id p)) in
     \<lparr>cit_id = e_ulid env (ForCatalogItem n), cit_productId = Some (pr_id p),
       cit_nameSnapshot = pr_name p, cit_unitPriceCents = pr_priceCents p, cit_quantity = quantity,
       cit_lineTotalCents = pr_priceCents p * quantity\<rparr>) (enumerate 0 products)"

definition catalogTotal :: "catalog_item_row list \<Rightarrow> int" where
  "catalogTotal items = fold (\<lambda>it acc. acc + cit_lineTotalCents it) items 0"

definition wantedProducts :: "(id \<times> int) list \<Rightarrow> db \<Rightarrow> catalog_product_row list" where
  "wantedProducts wanted s =
    filter (\<lambda>p. pr_id p \<in> fst ` set wanted \<and> onSale p) (t_catalogProducts s)"

definition newCatalogOrder :: "env \<Rightarrow> id \<Rightarrow> (id \<times> int) list \<Rightarrow> catalog_product_row list \<Rightarrow> catalog_order_row" where
  "newCatalogOrder env sellerId wanted products =
    (let items = lineItems env wanted products in
     \<lparr>co_id = e_ulid env ForCatalogOrder, co_sellerId = sellerId, co_status = CO_Pending,
       co_totalCents = catalogTotal items, co_currency = pr_currency (hd products),
       co_stripePaymentIntentId = None, co_stripeRefundId = None, co_createdAt = e_now env,
       co_paidAt = None, co_items = items\<rparr>)"

text \<open>Everything that may refuse the purchase before a row is written.\<close>

definition purchaseCheck :: "env \<Rightarrow> id \<Rightarrow> stock_line list \<Rightarrow> db
    \<Rightarrow> exn + (user_row \<times> catalog_order_row)" where
  "purchaseCheck env supabaseId items s =
    (case getUserBySupabase s supabaseId of None \<Rightarrow> Inl (NotFound UserProfile) | Some seller \<Rightarrow>
     if u_role seller \<noteq> R_Seller then Inl (Forbidden (Catalog OnlySellersPurchase))
     else
       let wanted = aggregate items; products = wantedProducts wanted s in
       if length products \<noteq> length wanted then Inl (BadRequest (Catalog ProductsUnavailable))
       else if 1 < length (uniq (map pr_currency products))
         then Inl (BadRequest (Catalog MixedCurrencies))
       else if products = [] then Inl UncaughtError
       else Inr (seller, newCatalogOrder env (u_id seller) wanted products))"

definition updCatalogOrder :: "id \<Rightarrow> (catalog_order_row \<Rightarrow> catalog_order_row) \<Rightarrow> db \<Rightarrow> db" where
  "updCatalogOrder i f s = s\<lparr>t_catalogOrders := updRow co_id i f (t_catalogOrders s)\<rparr>"

definition getCatalogOrder :: "db \<Rightarrow> id \<Rightarrow> catalog_order_row option" where
  "getCatalogOrder s i = findRow co_id i (t_catalogOrders s)"

text \<open>The PaymentIntent of the order, and its id on the order's row.\<close>

definition payCatalogOrder :: "env \<Rightarrow> catalog_order_row \<Rightarrow> db
    \<Rightarrow> (exn, id \<times> string option \<times> int \<times> string, db) result" where
  "payCatalogOrder env ord s =
    (case e_piCreate env of
       Inl _ \<Rightarrow> fail UncaughtError s
     | Inr (pid, clientSecret) \<Rightarrow>
         let s1 = emit (StripeCatalogIntent (co_id ord) (co_totalCents ord) pid) s in
         if list_ex (\<lambda>c. co_id c \<noteq> co_id ord \<and> co_stripePaymentIntentId c = Some pid) (t_catalogOrders s1)
         then fail PrismaConflict s1
         else ok (co_id ord, clientSecret, co_totalCents ord, co_currency ord)
           (updCatalogOrder (co_id ord) (\<lambda>c. c\<lparr>co_stripePaymentIntentId := Some pid\<rparr>) s1))"

definition createCatalogOrder :: "env \<Rightarrow> id \<Rightarrow> stock_line list \<Rightarrow> db
    \<Rightarrow> (exn, id \<times> string option \<times> int \<times> string, db) result" where
  "createCatalogOrder env supabaseId items s =
    bindR (liftE (purchaseCheck env supabaseId items s) s) (\<lambda>(seller, ord) s.
      bindR (ensureCustomer env (u_id seller) (u_stripeCustomerId seller)
          (s\<lparr>t_catalogOrders := t_catalogOrders s @ [ord]\<rparr>)) (\<lambda>_ s.
        payCatalogOrder env ord s))"

text \<open>\<open>confirmPayment\<close>: only PAID is taken as settled, every other state asks Stripe.\<close>

definition confirmCatalogPayment :: "env \<Rightarrow> id \<Rightarrow> id \<Rightarrow> db \<Rightarrow> (exn, catalog_order_row, db) result" where
  "confirmCatalogPayment env supabaseId orderId s =
    (case getUserBySupabase s supabaseId of None \<Rightarrow> fail (NotFound UserProfile) s | Some seller \<Rightarrow>
     (case getCatalogOrder s orderId of
        None \<Rightarrow> fail (NotFound ACatalogOrder) s
      | Some ord \<Rightarrow>
          if co_sellerId ord \<noteq> u_id seller then fail (NotFound ACatalogOrder) s
          else if co_status ord = CO_Paid then ok ord s
          else if \<not> truthy (co_stripePaymentIntentId ord)
            then fail (BadRequest (Catalog OrderHasNoPayment)) s
          else (case e_piRetrieve env (the (co_stripePaymentIntentId ord)) of
             None \<Rightarrow> fail UncaughtError s
           | Some status \<Rightarrow>
               if status \<noteq> ''succeeded'' then fail (BadRequest (Catalog CatalogPaymentNotCompleted)) s
               else let paid = (\<lambda>c. c\<lparr>co_status := CO_Paid, co_paidAt := Some (e_now env)\<rparr>)
                 in ok (paid ord) (updCatalogOrder orderId paid s))))"

definition listMyCatalogOrders :: "id \<Rightarrow> db \<Rightarrow> exn + catalog_order_row list" where
  "listMyCatalogOrders supabaseId s =
    (case getUserBySupabase s supabaseId of None \<Rightarrow> Inl (NotFound UserProfile) | Some seller \<Rightarrow>
     Inr (rev (filter (\<lambda>c. co_sellerId c = u_id seller) (t_catalogOrders s))))"

subsection \<open>After-sales claims\<close>

definition CLAIM_WINDOW_MS :: int where
  "CLAIM_WINDOW_MS = 14 * 24 * 60 * 60 * 1000"

definition OPEN_CLAIM_STATUSES :: "catalog_claim_status list" where
  "OPEN_CLAIM_STATUSES = [CS_Open, CS_AdminReview, CS_ReplacementRequested]"

record create_claim_dto =
  cl_type :: catalog_claim_type
  cl_description :: string
  cl_photoUrls :: "string list option"

definition newClaim :: "env \<Rightarrow> id \<Rightarrow> id \<Rightarrow> create_claim_dto \<Rightarrow> catalog_claim_row" where
  "newClaim env orderId sellerId dto = \<lparr>cc_id = e_ulid env ForCatalogClaim,
     cc_catalogOrderId = orderId, cc_sellerId = sellerId, cc_type = cl_type dto,
     cc_status = CS_Open, cc_description = cl_description dto,
     cc_photoUrls = (case cl_photoUrls dto of None \<Rightarrow> [] | Some us \<Rightarrow> us),
     cc_adminNotes = None, cc_refundAmountCents = None, cc_replacementNotes = None,
     cc_stripeRefundId = None, cc_resolvedAt = None\<rparr>"

definition claimGate :: "env \<Rightarrow> id \<Rightarrow> id \<Rightarrow> create_claim_dto \<Rightarrow> db \<Rightarrow> exn + id" where
  "claimGate env supabaseId orderId dto s =
    (case getUserBySupabase s supabaseId of None \<Rightarrow> Inl (NotFound UserProfile) | Some seller \<Rightarrow>
     (case getCatalogOrder s orderId of
        None \<Rightarrow> Inl (NotFound ACatalogOrder)
      | Some ord \<Rightarrow>
          if co_sellerId ord \<noteq> u_id seller then Inl (Forbidden (Catalog NotYourCatalogOrder))
          else if co_status ord \<noteq> CO_Paid then Inl (BadRequest (Catalog NotEligibleForClaim))
          else if CLAIM_WINDOW_MS < e_now env -
              (case co_paidAt ord of None \<Rightarrow> co_createdAt ord | Some t \<Rightarrow> t)
            then Inl (BadRequest (Catalog ClaimWindowOver))
          else if list_ex (\<lambda>c. cc_catalogOrderId c = orderId \<and> cc_type c = cl_type dto \<and>
              cc_status c \<in> set OPEN_CLAIM_STATUSES) (t_catalogClaims s)
            then Inl (BadRequest (Catalog ClaimAlreadyOpen))
          else Inr (u_id seller)))"

definition createClaim :: "env \<Rightarrow> id \<Rightarrow> id \<Rightarrow> create_claim_dto \<Rightarrow> db
    \<Rightarrow> (exn, catalog_claim_row, db) result" where
  "createClaim env supabaseId orderId dto s =
    bindR (liftE (claimGate env supabaseId orderId dto s) s) (\<lambda>sellerId s.
      let claim = newClaim env orderId sellerId dto
      in ok claim (sendToUsers [sellerId] ''catalog_claim'' (cc_id claim)
           (s\<lparr>t_catalogClaims := t_catalogClaims s @ [claim]\<rparr>)))"

definition listMyClaims :: "id \<Rightarrow> db \<Rightarrow> exn + catalog_claim_row list" where
  "listMyClaims supabaseId s =
    (case getUserBySupabase s supabaseId of None \<Rightarrow> Inl (NotFound UserProfile) | Some seller \<Rightarrow>
     Inr (rev (filter (\<lambda>c. cc_sellerId c = u_id seller) (t_catalogClaims s))))"

text \<open>The administrators' list: filters by status and type, and an exact id to search for.\<close>

definition adminListClaims :: "catalog_claim_status option \<Rightarrow> catalog_claim_type option \<Rightarrow> string option
    \<Rightarrow> db \<Rightarrow> catalog_claim_row list" where
  "adminListClaims status type search s =
    (let q = map_option trim search in
     take 100 (rev (filter (\<lambda>c.
       (case status of None \<Rightarrow> True | Some v \<Rightarrow> cc_status c = v) \<and>
       (case type of None \<Rightarrow> True | Some v \<Rightarrow> cc_type c = v) \<and>
       (\<not> truthy q \<or> the q \<in> {cc_id c, cc_catalogOrderId c, cc_sellerId c})) (t_catalogClaims s))))"

definition getClaim :: "db \<Rightarrow> id \<Rightarrow> catalog_claim_row option" where
  "getClaim s i = findRow cc_id i (t_catalogClaims s)"

definition updClaim :: "id \<Rightarrow> (catalog_claim_row \<Rightarrow> catalog_claim_row) \<Rightarrow> db \<Rightarrow> db" where
  "updClaim i f s = s\<lparr>t_catalogClaims := updRow cc_id i f (t_catalogClaims s)\<rparr>"

definition getClaimOrThrow :: "id \<Rightarrow> db \<Rightarrow> exn + catalog_claim_row" where
  "getClaimOrThrow i s =
    (case getClaim s i of None \<Rightarrow> Inl (NotFound ACatalogClaim) | Some c \<Rightarrow> Inr c)"

definition adminGetClaim :: "id \<Rightarrow> db
    \<Rightarrow> exn + (catalog_claim_row \<times> catalog_order_row option \<times> (id \<times> string \<times> string) option)" where
  "adminGetClaim i s = (case getClaimOrThrow i s of Inl e \<Rightarrow> Inl e | Inr c \<Rightarrow>
     Inr (c, getCatalogOrder s (cc_catalogOrderId c),
       map_option (\<lambda>u. (u_id u, trim (u_firstName u @ '' '' @ u_lastName u), u_email u))
         (getUser s (cc_sellerId c))))"

text \<open>\<open>[existing, note, tag].filter(Boolean).join(' (dot) ')\<close>, where the middle dot is character 0xB7.\<close>

fun joinNotes :: "string list \<Rightarrow> string" where
  "joinNotes [] = []"
| "joinNotes [x] = x"
| "joinNotes (x # xs) = x @ [CHR '' '', CHR 0xB7, CHR '' ''] @ joinNotes xs"

definition appendNote :: "string option \<Rightarrow> string option \<Rightarrow> string \<Rightarrow> string" where
  "appendNote existing note tag =
    joinNotes (map the (filter truthy [existing, note, Some tag]))"

definition notifyDecision :: "catalog_claim_row \<Rightarrow> db \<Rightarrow> db" where
  "notifyDecision c s = sendToUsers [cc_sellerId c] ''catalog_claim'' (cc_id c) s"

record claim_refund_dto =
  cr_refundAmountCents :: "int option"
  cr_notes :: "string option"

text \<open>The part of \<open>adminRefund\<close> after its guards: the Stripe refund, then the two rows.\<close>

definition refundClaim :: "env \<Rightarrow> claim_refund_dto \<Rightarrow> catalog_claim_row \<Rightarrow> catalog_order_row \<Rightarrow> id \<Rightarrow> db
    \<Rightarrow> (exn, catalog_claim_row, db) result" where
  "refundClaim env dto claim ord pid s =
    (let amount = (case cr_refundAmountCents dto of None \<Rightarrow> co_totalCents ord | Some a \<Rightarrow> a) in
     case e_refundCreate env pid of
       Inl _ \<Rightarrow> fail UncaughtError s
     | Inr rid \<Rightarrow>
         let s1 = emit (StripeCatalogRefund (cc_id claim) pid amount rid) s;
             s2 = updCatalogOrder (co_id ord) (\<lambda>c. c\<lparr>co_status := CO_Refunded,
               co_stripeRefundId := Some rid\<rparr>) s1;
             refunded = (\<lambda>c. c\<lparr>cc_status := CS_Refunded, cc_refundAmountCents := Some amount,
               cc_stripeRefundId := Some rid, cc_adminNotes := orElse (cr_notes dto) (cc_adminNotes claim),
               cc_resolvedAt := Some (e_now env)\<rparr>)
         in ok (refunded claim) (notifyDecision claim (updClaim (cc_id claim) refunded s2)))"

definition adminRefund :: "env \<Rightarrow> id \<Rightarrow> claim_refund_dto \<Rightarrow> db \<Rightarrow> (exn, catalog_claim_row, db) result" where
  "adminRefund env i dto s =
    bindR (liftE (getClaimOrThrow i s) s) (\<lambda>claim s.
      if cc_status claim = CS_Refunded \<or> truthy (cc_stripeRefundId claim) then ok claim s
      else case getCatalogOrder s (cc_catalogOrderId claim) of
        None \<Rightarrow> fail (NotFound ACatalogOrder) s
      | Some ord \<Rightarrow>
          if co_status ord = CO_Refunded then fail (BadRequest (Catalog OrderAlreadyRefunded)) s
          else if \<not> truthy (co_stripePaymentIntentId ord)
            then let pending = (\<lambda>c. c\<lparr>cc_status := CS_AdminReview,
                   cc_refundAmountCents := Some (case cr_refundAmountCents dto of
                     None \<Rightarrow> co_totalCents ord | Some a \<Rightarrow> a),
                   cc_adminNotes := Some (appendNote (cc_adminNotes claim) (cr_notes dto)
                     ''REFUND_PENDING (manuel)'')\<rparr>)
                 in ok (pending claim) (updClaim i pending s)
          else refundClaim env dto claim ord (the (co_stripePaymentIntentId ord)) s)"

record claim_action_dto =
  ca_notes :: "string option"
  ca_replacementNotes :: "string option"

text \<open>The three decisions without money: one read, one write, one push.\<close>

definition decideClaim :: "(catalog_claim_row \<Rightarrow> catalog_claim_row \<Rightarrow> catalog_claim_row) \<Rightarrow> id \<Rightarrow> db
    \<Rightarrow> (exn, catalog_claim_row, db) result" where
  "decideClaim f i s = bindR (liftE (getClaimOrThrow i s) s) (\<lambda>claim s.
     ok (f claim claim) (notifyDecision claim (updClaim i (f claim) s)))"

definition adminRequestReplacement :: "id \<Rightarrow> claim_action_dto \<Rightarrow> db \<Rightarrow> (exn, catalog_claim_row, db) result" where
  "adminRequestReplacement i dto = decideClaim (\<lambda>claim c. c\<lparr>cc_status := CS_ReplacementRequested,
     cc_replacementNotes := orElse (ca_replacementNotes dto)
       (orElse (ca_notes dto) (cc_replacementNotes claim)),
     cc_adminNotes := orElse (ca_notes dto) (cc_adminNotes claim)\<rparr>) i"

definition adminReject :: "env \<Rightarrow> id \<Rightarrow> claim_action_dto \<Rightarrow> db \<Rightarrow> (exn, catalog_claim_row, db) result" where
  "adminReject env i dto = decideClaim (\<lambda>claim c. c\<lparr>cc_status := CS_Rejected,
     cc_adminNotes := orElse (ca_notes dto) (cc_adminNotes claim),
     cc_resolvedAt := Some (e_now env)\<rparr>) i"

definition adminResolve :: "env \<Rightarrow> id \<Rightarrow> claim_action_dto \<Rightarrow> db \<Rightarrow> (exn, catalog_claim_row, db) result" where
  "adminResolve env i dto = decideClaim (\<lambda>claim c. c\<lparr>cc_status := CS_Resolved,
     cc_adminNotes := orElse (ca_notes dto) (cc_adminNotes claim),
     cc_resolvedAt := Some (e_now env)\<rparr>) i"

subsection \<open>What a purchase charges\<close>

lemma set_fst_aggregate: "fst ` set (aggregate xs) = fst ` set xs"
proof
  show "fst ` set (aggregate xs) \<subseteq> fst ` set xs" by (auto simp: aggregate_iff rev_image_eqI)
  show "fst ` set xs \<subseteq> fst ` set (aggregate xs)"
  proof
    fix i assume "i \<in> fst ` set xs"
    then have "(i, wantedOf xs i) \<in> set (aggregate xs)" by (simp add: aggregate_iff)
    then show "i \<in> fst ` set (aggregate xs)" by (rule image_eqI [rotated]) simp
  qed
qed

lemma catalogTotal_sum: "catalogTotal items = sum_list (map cit_lineTotalCents items)"
proof -
  have "fold (\<lambda>it acc. acc + cit_lineTotalCents it) items a = a + sum_list (map cit_lineTotalCents items)"
    for a by (induction items arbitrary: a) simp_all
  then show ?thesis by (simp add: catalogTotal_def)
qed

text \<open>With as many products as wanted ids, each wanted id has its product.\<close>

lemma wantedProducts_ids:
  assumes "distinct (map pr_id (t_catalogProducts s))"
    and "length (wantedProducts (aggregate items) s) = length (aggregate items)"
  shows "pr_id ` set (wantedProducts (aggregate items) s) = fst ` set items"
    and "distinct (map pr_id (wantedProducts (aggregate items) s))"
proof -
  let ?ps = "wantedProducts (aggregate items) s"
  show d: "distinct (map pr_id ?ps)"
    using assms(1) unfolding wantedProducts_def by (simp add: distinct_map_filter)
  have sub: "pr_id ` set ?ps \<subseteq> fst ` set items"
    unfolding wantedProducts_def set_fst_aggregate by auto
  have "card (pr_id ` set ?ps) = length ?ps" using distinct_card [OF d] by simp
  moreover have "card (fst ` set items) = length (aggregate items)"
    using distinct_card [OF distinct_aggregate, of items] set_fst_aggregate [of items] by simp
  ultimately show "pr_id ` set ?ps = fst ` set items"
    using assms(2) sub by (metis card_subset_eq finite_imageI finite_set)
qed

text \<open>The price of a product id, read off a list of products.\<close>

definition priceOf :: "catalog_product_row list \<Rightarrow> id \<Rightarrow> int" where
  "priceOf ps i = (case findRow pr_id i ps of None \<Rightarrow> 0 | Some p \<Rightarrow> pr_priceCents p)"

lemma sum_single_id:
  assumes "distinct (map pr_id ps)"
  shows "(\<Sum>p\<leftarrow>ps. pr_priceCents p * (if i = pr_id p then q else 0)) = priceOf ps i * q"
  using assms
proof (induction ps)
  case Nil
  then show ?case by (simp add: priceOf_def)
next
  case (Cons p ps)
  have "findRow pr_id i ps = None" if "pr_id p = i"
  proof -
    have "i \<notin> pr_id ` set ps" using Cons.prems that by auto
    then show ?thesis unfolding findRow_None_iff by blast
  qed
  with Cons show ?case by (auto simp: priceOf_def split: option.splits)
qed

lemma sum_wanted:
  assumes "distinct (map pr_id ps)"
  shows "(\<Sum>p\<leftarrow>ps. pr_priceCents p * wantedOf items (pr_id p)) = (\<Sum>(i, q)\<leftarrow>items. priceOf ps i * q)"
proof (induction items)
  case Nil
  then show ?case by simp
next
  case (Cons x xs)
  have "(\<Sum>p\<leftarrow>ps. pr_priceCents p * wantedOf (x # xs) (pr_id p)) =
    (\<Sum>p\<leftarrow>ps. pr_priceCents p * (if fst x = pr_id p then snd x else 0)) +
    (\<Sum>p\<leftarrow>ps. pr_priceCents p * wantedOf xs (pr_id p))"
    by (simp add: sum_list_addf [symmetric] distrib_left)
  with Cons sum_single_id [OF assms] show ?case by (simp add: case_prod_beta)
qed

lemma lineItems_totals:
  "map cit_lineTotalCents (lineItems env wanted ps) =
    map (\<lambda>p. pr_priceCents p * the (map_of wanted (pr_id p))) ps"
proof -
  have "map (\<lambda>x. f (snd x)) (enumerate n ps) = map f ps" for f :: "catalog_product_row \<Rightarrow> int" and n
    using map_snd_enumerate [of n ps] by (metis (no_types) map_map comp_def map_ext)
  then show ?thesis by (simp add: lineItems_def Let_def o_def case_prod_beta)
qed

lemma order_total:
  assumes "distinct (map pr_id (t_catalogProducts s))"
    and "length (wantedProducts (aggregate items) s) = length (aggregate items)"
  shows "catalogTotal (lineItems env (aggregate items) (wantedProducts (aggregate items) s)) =
    (\<Sum>(i, q)\<leftarrow>items. priceOf (wantedProducts (aggregate items) s) i * q)"
proof -
  let ?ps = "wantedProducts (aggregate items) s"
  have "the (map_of (aggregate items) (pr_id p)) = wantedOf items (pr_id p)" if "p \<in> set ?ps" for p
    using wantedProducts_ids(1) [OF assms] that by (auto simp: map_of_aggregate)
  then have "map (\<lambda>p. pr_priceCents p * the (map_of (aggregate items) (pr_id p))) ?ps =
    map (\<lambda>p. pr_priceCents p * wantedOf items (pr_id p)) ?ps" by (intro map_cong) simp_all
  then show ?thesis
    unfolding catalogTotal_sum lineItems_totals
    using sum_wanted [OF wantedProducts_ids(2) [OF assms]] by (simp only:)
qed

lemma uniq_one: "length (uniq l) \<le> 1 \<Longrightarrow> x \<in> set l \<Longrightarrow> y \<in> set l \<Longrightarrow> x = y"
  using distinct_card [OF distinct_uniq, of l] card_le_Suc0_iff_eq [of "set l"] by auto

lemma purchaseCheck_Inr:
  assumes "purchaseCheck env sb items s = Inr (seller, ord)"
    and "distinct (map pr_id (t_catalogProducts s))"
  shows "getUserBySupabase s sb = Some seller" "u_role seller = R_Seller"
    "co_id ord = e_ulid env ForCatalogOrder" "co_sellerId ord = u_id seller" "co_status ord = CO_Pending"
    "co_totalCents ord = (\<Sum>(i, q)\<leftarrow>items. priceOf (t_catalogProducts s) i * q)"
    "\<And>i. i \<in> fst ` set items \<Longrightarrow> \<exists>p. findRow pr_id i (t_catalogProducts s) = Some p \<and> onSale p \<and>
       pr_currency p = co_currency ord"
    "co_stripePaymentIntentId ord = None"
proof -
  let ?ps = "wantedProducts (aggregate items) s"
  have facts: "getUserBySupabase s sb = Some seller" "u_role seller = R_Seller"
      "length ?ps = length (aggregate items)" "\<not> 1 < length (uniq (map pr_currency ?ps))" "?ps \<noteq> []"
      "ord = newCatalogOrder env (u_id seller) (aggregate items) ?ps"
    using assms(1) by (auto simp: purchaseCheck_def Let_def split: option.splits if_splits)
  then show "getUserBySupabase s sb = Some seller" "u_role seller = R_Seller"
    "co_id ord = e_ulid env ForCatalogOrder" "co_sellerId ord = u_id seller" "co_status ord = CO_Pending"
    "co_stripePaymentIntentId ord = None"
    by (simp_all add: newCatalogOrder_def Let_def)
  have look: "\<exists>p \<in> set ?ps. findRow pr_id i ?ps = Some p \<and> findRow pr_id i (t_catalogProducts s) = Some p"
    if "i \<in> fst ` set items" for i
  proof -
    from that wantedProducts_ids(1) [OF assms(2) facts(3)] obtain p where p: "p \<in> set ?ps" "pr_id p = i"
      by (metis imageE)
    moreover have "p \<in> set (t_catalogProducts s)" using p by (simp add: wantedProducts_def)
    ultimately show ?thesis
      using findRow_distinct [OF assms(2)] findRow_distinct [OF wantedProducts_ids(2) [OF assms(2) facts(3)]]
      by blast
  qed
  have "(\<Sum>(i, q)\<leftarrow>items. priceOf ?ps i * q) = (\<Sum>(i, q)\<leftarrow>items. priceOf (t_catalogProducts s) i * q)"
  proof (rule arg_cong [where f = sum_list], rule map_cong [OF refl])
    fix x assume "x \<in> set items"
    then have "fst x \<in> fst ` set items" by simp
    from look [OF this] show "(case x of (i, q) \<Rightarrow> priceOf ?ps i * q) =
        (case x of (i, q) \<Rightarrow> priceOf (t_catalogProducts s) i * q)"
      by (auto simp: priceOf_def case_prod_beta)
  qed
  then show "co_totalCents ord = (\<Sum>(i, q)\<leftarrow>items. priceOf (t_catalogProducts s) i * q)"
    using order_total [OF assms(2) facts(3)] by (simp add: facts(6) newCatalogOrder_def Let_def)
  show "\<exists>p. findRow pr_id i (t_catalogProducts s) = Some p \<and> onSale p \<and> pr_currency p = co_currency ord"
    if i: "i \<in> fst ` set items" for i
  proof -
    obtain p where p: "p \<in> set ?ps" "findRow pr_id i (t_catalogProducts s) = Some p"
      using look [OF i] by blast
    have "pr_currency p = pr_currency (hd ?ps)"
      by (rule uniq_one [of "map pr_currency ?ps"]) (use facts(4,5) p(1) in auto)
    then have "pr_currency p = co_currency ord"
      unfolding facts(6) by (simp add: newCatalogOrder_def Let_def)
    moreover have "onSale p" using p(1) by (simp add: wantedProducts_def)
    ultimately show ?thesis using p(2) by blast
  qed
qed

lemma ensureCustomer_frame:
  "ensureCustomer env u c s = (r, t) \<Longrightarrow> t_catalogOrders t = t_catalogOrders s \<and> out t = out s"
  by (auto simp: ensureCustomer_def fail_eq_iff ok_eq_iff updUser_def split: if_splits sum.splits)

text \<open>A purchase that succeeds adds one PENDING order of the seller. Its total is the sum over
  the requested lines of the product's current price times the quantity, repeated products
  included; every product is on sale and priced in the order's currency; and Stripe is asked
  for exactly that total, once, under the payment id the order records.\<close>

theorem catalog_purchase_charge:
  assumes "createCatalogOrder env sb items s = (Inr (oid, secret, cents, currency), t)"
    and "distinct (map pr_id (t_catalogProducts s))"
    and "e_ulid env ForCatalogOrder \<notin> co_id ` set (t_catalogOrders s)"
  shows "\<exists>seller ord pid. getUserBySupabase s sb = Some seller \<and> u_role seller = R_Seller \<and>
    t_catalogOrders t = t_catalogOrders s @ [ord] \<and> co_sellerId ord = u_id seller \<and>
    co_status ord = CO_Pending \<and> co_id ord = oid \<and> co_stripePaymentIntentId ord = Some pid \<and>
    co_totalCents ord = cents \<and> cents = (\<Sum>(i, q)\<leftarrow>items. priceOf (t_catalogProducts s) i * q) \<and>
    (\<forall>i \<in> fst ` set items. \<exists>p. findRow pr_id i (t_catalogProducts s) = Some p \<and> onSale p \<and>
      pr_currency p = currency) \<and>
    out t = out s @ [StripeCatalogIntent oid cents pid]"
proof -
  obtain seller ord u v where chk: "purchaseCheck env sb items s = Inr (seller, ord)"
    and c: "ensureCustomer env (u_id seller) (u_stripeCustomerId seller)
        (s\<lparr>t_catalogOrders := t_catalogOrders s @ [ord]\<rparr>) = (Inr v, u)"
    and pay: "payCatalogOrder env ord u = (Inr (oid, secret, cents, currency), t)"
    using assms(1) by (auto simp: createCatalogOrder_def bindR_Inr_iff liftE_Inr_iff)
  note facts = purchaseCheck_Inr [OF chk assms(2)]
  have u: "t_catalogOrders u = t_catalogOrders s @ [ord]" "out u = out s"
    using ensureCustomer_frame [OF c] by simp_all
  obtain pid where p: "oid = co_id ord" "cents = co_totalCents ord" "currency = co_currency ord"
    and t: "t = updCatalogOrder (co_id ord) (\<lambda>c. c\<lparr>co_stripePaymentIntentId := Some pid\<rparr>)
          (emit (StripeCatalogIntent (co_id ord) (co_totalCents ord) pid) u)"
    using pay by (auto simp: payCatalogOrder_def Let_def fail_eq_iff ok_eq_iff split: sum.splits if_splits)
  have fresh: "map (\<lambda>r. if co_id r = co_id ord then f r else r) (t_catalogOrders s) = t_catalogOrders s" for f
    using assms(3) facts(3) by (auto intro!: map_idI simp: image_iff)
  have "t_catalogOrders t = t_catalogOrders s @ [ord\<lparr>co_stripePaymentIntentId := Some pid\<rparr>]"
    "out t = out s @ [StripeCatalogIntent oid cents pid]"
    by (simp_all add: t updCatalogOrder_def emit_def u p updRow_def fresh)
  with facts p show ?thesis
    by (intro exI [of _ seller] exI [of _ "ord\<lparr>co_stripePaymentIntentId := Some pid\<rparr>"] exI [of _ pid]) simp
qed

subsection \<open>How often a purchase is refunded\<close>

text \<open>The refunds Stripe made of one payment, and the invariant about them: a payment
  belongs to one order, and once it was refunded that order is REFUNDED.\<close>

definition catalogRefunds :: "id \<Rightarrow> db \<Rightarrow> nat" where
  "catalogRefunds pid s = length (filter (\<lambda>e. case e of
     StripeCatalogRefund _ p _ _ \<Rightarrow> p = pid | _ \<Rightarrow> False) (out s))"

definition refund_ok :: "id \<Rightarrow> db \<Rightarrow> bool" where
  "refund_ok pid s \<longleftrightarrow> distinct (map co_id (t_catalogOrders s)) \<and>
    (\<forall>c \<in> set (t_catalogOrders s). \<forall>d \<in> set (t_catalogOrders s).
      co_stripePaymentIntentId c = Some pid \<longrightarrow> co_stripePaymentIntentId d = Some pid \<longrightarrow> c = d) \<and>
    catalogRefunds pid s \<le> 1 \<and>
    (catalogRefunds pid s = 0 \<or> (\<exists>c \<in> set (t_catalogOrders s).
      co_stripePaymentIntentId c = Some pid \<and> co_status c = CO_Refunded))"

text \<open>The requests on purchases and claims, except that a seller does not confirm the payment
  of a purchase that is already REFUNDED.\<close>

inductive catalog_step :: "db \<Rightarrow> db \<Rightarrow> bool" where
  purchase: "e_ulid env ForCatalogOrder \<notin> co_id ` set (t_catalogOrders s) \<Longrightarrow>
    catalog_step s (snd (createCatalogOrder env sb items s))"
| confirm: "map_option co_status (getCatalogOrder s oid) \<noteq> Some CO_Refunded \<Longrightarrow>
    catalog_step s (snd (confirmCatalogPayment env sb oid s))"
| claim: "catalog_step s (snd (createClaim env sb oid cdto s))"
| refund: "catalog_step s (snd (adminRefund env i rdto s))"
| replacement: "catalog_step s (snd (adminRequestReplacement i adto s))"
| reject: "catalog_step s (snd (adminReject env i adto s))"
| resolve: "catalog_step s (snd (adminResolve env i adto s))"

lemma catalogRefunds_emit:
  "catalogRefunds pid (emit e s) = catalogRefunds pid s +
    (case e of StripeCatalogRefund _ p _ _ \<Rightarrow> (if p = pid then 1 else 0) | _ \<Rightarrow> 0)"
  by (cases e) (simp_all add: catalogRefunds_def emit_def)

lemma catalogRefunds_fields [simp]:
  "catalogRefunds pid (updCatalogOrder i f s) = catalogRefunds pid s"
  "catalogRefunds pid (updClaim i g s) = catalogRefunds pid s"
  "catalogRefunds pid (s\<lparr>t_catalogClaims := x\<rparr>) = catalogRefunds pid s"
  "catalogRefunds pid (sendToUsers ids k a s) = catalogRefunds pid s"
  "catalogRefunds pid (notifyDecision c s) = catalogRefunds pid s"
  by (simp_all add: catalogRefunds_def updCatalogOrder_def updClaim_def sendToUsers_def
      notifyDecision_def emit_def)

lemma catalogOrders_fields [simp]:
  "t_catalogOrders (updCatalogOrder i f s) = updRow co_id i f (t_catalogOrders s)"
  "t_catalogOrders (updClaim i g s) = t_catalogOrders s"
  "t_catalogOrders (sendToUsers ids k a s) = t_catalogOrders s"
  "t_catalogOrders (notifyDecision c s) = t_catalogOrders s"
  "t_catalogOrders (emit e s) = t_catalogOrders s"
  by (simp_all add: updCatalogOrder_def updClaim_def sendToUsers_def notifyDecision_def emit_def)

lemma refund_ok_same:
  "refund_ok pid s \<Longrightarrow> t_catalogOrders t = t_catalogOrders s \<Longrightarrow>
   catalogRefunds pid t = catalogRefunds pid s \<Longrightarrow> refund_ok pid t"
  by (simp add: refund_ok_def)

lemma getCatalogOrder_unique:
  "distinct (map co_id (t_catalogOrders s)) \<Longrightarrow> getCatalogOrder s i = Some ord \<Longrightarrow>
   q \<in> set (t_catalogOrders s) \<Longrightarrow> co_id q = i \<Longrightarrow> q = ord"
  using findRow_distinct [of co_id "t_catalogOrders s" q] by (simp add: getCatalogOrder_def)

text \<open>Rewriting a row that keeps its id and its payment, and is not REFUNDED before.\<close>

lemma refund_ok_upd:
  assumes inv: "refund_ok pid s" and ord: "getCatalogOrder s i = Some ord" "co_status ord \<noteq> CO_Refunded"
    and f: "\<And>r. co_id (f r) = co_id r"
      "\<And>r. co_stripePaymentIntentId (f r) = co_stripePaymentIntentId r"
    and t: "t_catalogOrders t = updRow co_id i f (t_catalogOrders s)"
      "catalogRefunds pid t = catalogRefunds pid s"
  shows "refund_ok pid t"
proof -
  have "\<exists>c \<in> set (t_catalogOrders t). co_stripePaymentIntentId c = Some pid \<and> co_status c = CO_Refunded"
    if c: "c \<in> set (t_catalogOrders s)" "co_stripePaymentIntentId c = Some pid" "co_status c = CO_Refunded" for c
  proof -
    have "co_id c \<noteq> i" using getCatalogOrder_unique [OF _ ord(1) c(1)] inv ord(2) c(3)
      by (auto simp: refund_ok_def)
    then have "c \<in> set (t_catalogOrders t)" unfolding t in_updRow by (rule_tac bexI [OF _ c(1)]) simp
    with c show ?thesis by blast
  qed
  moreover have "c = d" if m: "c \<in> set (t_catalogOrders t)" "d \<in> set (t_catalogOrders t)"
    "co_stripePaymentIntentId c = Some pid" "co_stripePaymentIntentId d = Some pid" for c d
  proof -
    obtain c' where c: "c' \<in> set (t_catalogOrders s)" "c = (if co_id c' = i then f c' else c')"
      using m(1) unfolding t in_updRow by blast
    obtain d' where d: "d' \<in> set (t_catalogOrders s)" "d = (if co_id d' = i then f d' else d')"
      using m(2) unfolding t in_updRow by blast
    have "co_stripePaymentIntentId c' = Some pid" "co_stripePaymentIntentId d' = Some pid"
      using m(3,4) c(2) d(2) f(2) by (auto split: if_splits)
    with inv c(1) d(1) have "c' = d'" unfolding refund_ok_def by blast
    with c d show ?thesis by simp
  qed
  ultimately show ?thesis
    using inv by (auto simp: refund_ok_def t map_key_updRow [of co_id f, OF f(1)])
qed

lemma refund_ok_purchase:
  assumes inv: "refund_ok pid s" and fresh: "e_ulid env ForCatalogOrder \<notin> co_id ` set (t_catalogOrders s)"
  shows "refund_ok pid (snd (createCatalogOrder env sb items s))"
proof -
  have add: "refund_ok pid t" if "co_id r = e_ulid env ForCatalogOrder"
      "t_catalogOrders t = t_catalogOrders s @ [r]" "catalogRefunds pid t = catalogRefunds pid s"
      "\<forall>c \<in> set (t_catalogOrders s). co_stripePaymentIntentId r = Some pid \<longrightarrow>
         co_stripePaymentIntentId c \<noteq> Some pid" for r t
    using inv fresh that by (auto simp: refund_ok_def)
  show ?thesis
  proof (cases "purchaseCheck env sb items s")
    case (Inl e)
    with inv show ?thesis by (simp add: createCatalogOrder_def)
  next
    case (Inr so)
    obtain seller ord where so: "so = (seller, ord)" by (cases so)
    have ord: "co_id ord = e_ulid env ForCatalogOrder" "co_stripePaymentIntentId ord = None"
      using Inr unfolding so
      by (auto simp: purchaseCheck_def newCatalogOrder_def Let_def split: option.splits if_splits)
    let ?s1 = "s\<lparr>t_catalogOrders := t_catalogOrders s @ [ord]\<rparr>"
    obtain r u where c: "ensureCustomer env (u_id seller) (u_stripeCustomerId seller) ?s1 = (r, u)"
      by (cases "ensureCustomer env (u_id seller) (u_stripeCustomerId seller) ?s1")
    have u: "t_catalogOrders u = t_catalogOrders s @ [ord]" "catalogRefunds pid u = catalogRefunds pid s"
      using ensureCustomer_frame [OF c] by (simp_all add: catalogRefunds_def)
    have old: "map (\<lambda>r. if co_id r = co_id ord then f r else r) (t_catalogOrders s) = t_catalogOrders s" for f
      using fresh ord(1) by (auto intro!: map_idI simp: image_iff)
    have other: "\<forall>c \<in> set (t_catalogOrders s). co_id c \<noteq> e_ulid env ForCatalogOrder"
      using fresh by (metis imageI)
    have u_ok: "refund_ok pid u" by (rule add [OF ord(1) u]) (simp add: ord(2))
    have "refund_ok pid (snd (payCatalogOrder env ord u))"
    proof (cases "e_piCreate env")
      case (Inl e)
      then show ?thesis using u_ok by (simp add: payCatalogOrder_def)
    next
      case (Inr ps)
      obtain p sec where ps: "ps = (p, sec)" by (cases ps)
      let ?u1 = "emit (StripeCatalogIntent (co_id ord) (co_totalCents ord) p) u"
      have n: "catalogRefunds pid ?u1 = catalogRefunds pid s" by (simp add: catalogRefunds_emit u)
      show ?thesis
      proof (cases "list_ex (\<lambda>c. co_id c \<noteq> co_id ord \<and> co_stripePaymentIntentId c = Some p) (t_catalogOrders u)")
        case True
        then show ?thesis
          using refund_ok_same [OF u_ok, of ?u1] Inr ps n u(2) by (simp add: payCatalogOrder_def Let_def)
      next
        case False
        let ?f = "\<lambda>c. c\<lparr>co_stripePaymentIntentId := Some p\<rparr>"
        have "refund_ok pid (updCatalogOrder (co_id ord) ?f ?u1)"
        proof (rule add [of "?f ord"])
          show "t_catalogOrders (updCatalogOrder (co_id ord) ?f ?u1) = t_catalogOrders s @ [?f ord]"
            by (simp add: u updRow_def old)
          show "\<forall>c \<in> set (t_catalogOrders s). co_stripePaymentIntentId (?f ord) = Some pid \<longrightarrow>
              co_stripePaymentIntentId c \<noteq> Some pid"
            using False other by (auto simp: u list_ex_iff ord(1))
        qed (use n in \<open>simp_all add: ord\<close>)
        with False Inr ps show ?thesis by (simp add: payCatalogOrder_def Let_def)
      qed
    qed
    with Inr so c u_ok show ?thesis by (cases r) (simp_all add: createCatalogOrder_def)
  qed
qed

lemma refund_ok_decide:
  "refund_ok pid s \<Longrightarrow> refund_ok pid (snd (decideClaim f i s))"
  by (cases "getClaimOrThrow i s") (auto simp: decideClaim_def intro: refund_ok_same)

lemma refund_ok_confirm:
  assumes inv: "refund_ok pid s" and "map_option co_status (getCatalogOrder s oid) \<noteq> Some CO_Refunded"
  shows "refund_ok pid (snd (confirmCatalogPayment env sb oid s))"
proof (cases "getCatalogOrder s oid")
  case None
  with inv show ?thesis by (simp add: confirmCatalogPayment_def split: option.split)
next
  case (Some ord)
  have "refund_ok pid (updCatalogOrder oid (\<lambda>c. c\<lparr>co_status := CO_Paid, co_paidAt := Some (e_now env)\<rparr>) s)"
    by (rule refund_ok_upd [OF inv Some]) (use assms(2) Some in simp_all)
  with inv Some show ?thesis
    by (simp add: confirmCatalogPayment_def Let_def split: option.split)
qed

text \<open>The refund itself: the order was not REFUNDED, so its payment has none yet.\<close>

lemma refund_ok_refundClaim:
  assumes inv: "refund_ok pid s" and ord: "getCatalogOrder s i = Some ord" "co_status ord \<noteq> CO_Refunded"
    and p: "co_stripePaymentIntentId ord = Some p"
  shows "refund_ok pid (snd (refundClaim env dto claim ord p s))"
proof (cases "e_refundCreate env p")
  case (Inl e)
  with inv show ?thesis by (simp add: refundClaim_def Let_def)
next
  case (Inr rid)
  let ?f = "\<lambda>c. c\<lparr>co_status := CO_Refunded, co_stripeRefundId := Some rid\<rparr>"
  let ?t = "snd (refundClaim env dto claim ord p s)"
  have i: "co_id ord = i" and m: "ord \<in> set (t_catalogOrders s)"
    using ord(1) by (auto simp: getCatalogOrder_def dest: findRow_Some_key findRow_Some_set)
  have t: "t_catalogOrders ?t = updRow co_id i ?f (t_catalogOrders s)"
    by (simp add: refundClaim_def Let_def Inr i)
  have n: "catalogRefunds pid ?t = catalogRefunds pid s + (if p = pid then 1 else 0)"
    by (simp add: refundClaim_def Let_def Inr catalogRefunds_emit)
  show ?thesis
  proof (cases "p = pid")
    case False
    show ?thesis by (rule refund_ok_upd [OF inv ord _ _ t]) (simp_all add: n False)
  next
    case True
    have z: "catalogRefunds pid s = 0"
    proof (rule ccontr)
      assume "catalogRefunds pid s \<noteq> 0"
      with inv obtain c where "c \<in> set (t_catalogOrders s)" "co_stripePaymentIntentId c = Some pid"
        "co_status c = CO_Refunded" by (auto simp: refund_ok_def)
      with inv m p True have "c = ord" unfolding refund_ok_def by blast
      with ord(2) \<open>co_status c = CO_Refunded\<close> show False by simp
    qed
    let ?mid = "updCatalogOrder i ?f s"
    have mid: "refund_ok pid ?mid" by (rule refund_ok_upd [OF inv ord]) simp_all
    have "?f ord \<in> set (t_catalogOrders ?t)"
      unfolding t in_updRow by (rule bexI [OF _ m]) (simp add: i)
    with p True have "\<exists>c \<in> set (t_catalogOrders ?t). co_stripePaymentIntentId c = Some pid \<and>
      co_status c = CO_Refunded" by (intro bexI [of _ "?f ord"]) simp_all
    with mid z n True show ?thesis unfolding refund_ok_def t by (simp add: t)
  qed
qed

lemma refund_ok_adminRefund:
  assumes inv: "refund_ok pid s"
  shows "refund_ok pid (snd (adminRefund env i dto s))"
proof (cases "getClaimOrThrow i s")
  case (Inl e)
  with inv show ?thesis by (simp add: adminRefund_def)
next
  case (Inr claim)
  have upd: "refund_ok pid (updClaim i f s)" for f by (rule refund_ok_same [OF inv]) simp_all
  have ref: "refund_ok pid (snd (refundClaim env dto claim ord (the (co_stripePaymentIntentId ord)) s))"
    if "getCatalogOrder s (cc_catalogOrderId claim) = Some ord" "co_status ord \<noteq> CO_Refunded"
      "truthy (co_stripePaymentIntentId ord)" for ord
    by (rule refund_ok_refundClaim [OF inv that(1,2)]) (use that(3) in \<open>auto simp: truthy_def split: option.splits\<close>)
  show ?thesis
    using Inr inv upd ref by (simp add: adminRefund_def Let_def split: option.split)
qed

lemma refund_ok_step:
  assumes "refund_ok pid s" and "catalog_step s t"
  shows "refund_ok pid t"
  using assms(2)
proof cases
  case (claim env sb oid cdto)
  with assms(1) show ?thesis
    by (cases "claimGate env sb oid cdto s") (auto simp: createClaim_def Let_def intro: refund_ok_same)
qed (simp_all add: assms(1) refund_ok_purchase refund_ok_confirm refund_ok_adminRefund refund_ok_decide
    adminRequestReplacement_def adminReject_def adminResolve_def)

interpretation one_refund: inductive_invariant "refund_ok pid" catalog_step "refund_ok pid"
  by unfold_locales (auto intro: refund_ok_step)

text \<open>C13: Whatever claims are opened and however the administrators decide them, in any order and
  any number, Stripe refunds the payment of a purchase at most once, provided no seller
  confirms the payment of a purchase that is already REFUNDED.\<close>

theorem catalog_refunded_once:
  assumes "refund_ok pid s" and "catalog_step\<^sup>*\<^sup>* s t"
  shows "catalogRefunds pid t \<le> 1"
  using one_refund.reachable_inv [OF assms] by (simp add: refund_ok_def)

text \<open>That proviso is not the code's. \<open>confirmPayment\<close> takes only PAID for settled, and Stripe
  keeps reporting a refunded PaymentIntent as succeeded: the seller's repeated confirmation
  turns a REFUNDED purchase back to PAID, and the refund of another claim on it, which was
  refused before, is made.\<close>

theorem confirm_reopens_refund:
  assumes "getClaim s i = Some claim" and "cc_status claim \<noteq> CS_Refunded"
    and "\<not> truthy (cc_stripeRefundId claim)"
    and "getCatalogOrder s (cc_catalogOrderId claim) = Some ord" and "co_status ord = CO_Refunded"
    and "co_stripePaymentIntentId ord = Some pid" and "pid \<noteq> []"
    and "getUserBySupabase s sb = Some seller" and "co_sellerId ord = u_id seller"
    and "e_piRetrieve env pid = Some ''succeeded''" and "e_refundCreate env' pid = Inr rid"
  shows "adminRefund env' i dto s = (Inl (BadRequest (Catalog OrderAlreadyRefunded)), s) \<and>
    catalogRefunds pid (snd (adminRefund env' i dto
      (snd (confirmCatalogPayment env sb (cc_catalogOrderId claim) s)))) = catalogRefunds pid s + 1"
proof -
  let ?oid = "cc_catalogOrderId claim"
  let ?f = "\<lambda>c. c\<lparr>co_status := CO_Paid, co_paidAt := Some (e_now env)\<rparr>"
  have "confirmCatalogPayment env sb ?oid s = ok (?f ord) (updCatalogOrder ?oid ?f s)"
    using assms by (simp add: confirmCatalogPayment_def truthy_def Let_def)
  moreover have "getCatalogOrder (updCatalogOrder ?oid ?f s) ?oid = Some (?f ord)"
    using assms(4) by (simp add: getCatalogOrder_def findRow_updRow)
  moreover have "getClaim (updCatalogOrder ?oid ?f s) i = Some claim"
    using assms(1) by (simp add: getClaim_def updCatalogOrder_def)
  ultimately show ?thesis
    using assms by (simp add: adminRefund_def getClaimOrThrow_def truthy_def refundClaim_def Let_def
        catalogRefunds_emit fail_def)
qed

subsection \<open>Examples\<close>

definition demo_product :: "id \<Rightarrow> int \<Rightarrow> catalog_product_row" where
  "demo_product i p = \<lparr>pr_id = i, pr_name = ''box'', pr_description = None, pr_imageUrls = [],
     pr_priceCents = p, pr_currency = ''eur'', pr_isActive = True, pr_createdById = None,
     pr_deletedAt = None\<rparr>"

definition catalog_db :: db where
  "catalog_db = payout_db\<lparr>t_catalogProducts := [demo_product ''a'' 250, demo_product ''b'' 100]\<rparr>"

definition purchase_run :: "(exn, id \<times> string option \<times> int \<times> string, db) result" where
  "purchase_run = createCatalogOrder demo_env ''sb'' [(''b'', 2), (''a'', 1), (''b'', 1)] catalog_db"

definition demo_claim :: "id \<Rightarrow> catalog_claim_status \<Rightarrow> catalog_claim_row" where
  "demo_claim i st = \<lparr>cc_id = i, cc_catalogOrderId = ''n'', cc_sellerId = ''s'', cc_type = CC_Defective,
     cc_status = st, cc_description = ''broken'', cc_photoUrls = [], cc_adminNotes = None,
     cc_refundAmountCents = None, cc_replacementNotes = None, cc_stripeRefundId = None,
     cc_resolvedAt = None\<rparr>"

definition demo_purchase :: "catalog_status \<Rightarrow> catalog_order_row" where
  "demo_purchase st = \<lparr>co_id = ''n'', co_sellerId = ''s'', co_status = st, co_totalCents = 550,
     co_currency = ''eur'', co_stripePaymentIntentId = Some ''pi'', co_stripeRefundId = None,
     co_createdAt = 0, co_paidAt = Some 0, co_items = []\<rparr>"

definition claims_db :: "catalog_status \<Rightarrow> db" where
  "claims_db st = payout_db\<lparr>t_catalogOrders := [demo_purchase st],
     t_catalogClaims := [demo_claim ''c1'' CS_Open, demo_claim ''c2'' CS_Open]\<rparr>"

definition demo_refund_dto :: claim_refund_dto where
  "demo_refund_dto = \<lparr>cr_refundAmountCents = Some 200, cr_notes = None\<rparr>"

theorem catalog_purchase_charge_witness:
  "\<exists>pid. out (snd purchase_run) = [StripeCatalogIntent ''n'' ((2 + 1) * 100 + 250) pid]"
proof -
  have run: "purchase_run = (Inr (''n'', Some ''secret'', 550, ''eur''), snd purchase_run)"
    and ids: "distinct (map pr_id (t_catalogProducts catalog_db))" "out catalog_db = []"
      "e_ulid demo_env ForCatalogOrder \<notin> co_id ` set (t_catalogOrders catalog_db)"
    by code_simp+
  from catalog_purchase_charge [OF run [unfolded purchase_run_def] ids(1,3)] ids(2)
  show ?thesis by (auto simp: purchase_run_def)
qed

theorem catalog_refunded_once_witness:
  "catalogRefunds ''pi'' (snd (adminRefund demo_env ''c2'' demo_refund_dto
     (snd (adminRefund demo_env ''c1'' demo_refund_dto (claims_db CO_Paid))))) \<le> 1"
proof (rule catalog_refunded_once)
  let ?s = "claims_db CO_Paid" and ?r = "\<lambda>i s. snd (adminRefund demo_env i demo_refund_dto s)"
  show "refund_ok ''pi'' ?s"
    by (simp add: refund_ok_def claims_db_def demo_purchase_def catalogRefunds_def payout_db_def empty_db_def)
  have "catalog_step ?s (?r ''c1'' ?s)" "catalog_step (?r ''c1'' ?s) (?r ''c2'' (?r ''c1'' ?s))"
    by (rule catalog_step.refund)+
  then show "catalog_step\<^sup>*\<^sup>* ?s (?r ''c2'' (?r ''c1'' ?s))" by (rule rtranclp.rtrancl_into_rtrancl [OF r_into_rtranclp])
qed

theorem confirm_reopens_refund_witness:
  "catalogRefunds ''pi'' (snd (adminRefund demo_env ''c2'' demo_refund_dto
     (snd (confirmCatalogPayment demo_env ''sb'' ''n'' (claims_db CO_Refunded))))) = 1"
  using confirm_reopens_refund [of "claims_db CO_Refunded" "''c2''" "demo_claim ''c2'' CS_Open"
      "demo_purchase CO_Refunded" "''pi''" "''sb''" "demo_user ''s'' ''sb'' R_Seller" demo_env demo_env "''re''" demo_refund_dto]
  by (simp add: claims_db_def getClaim_def demo_claim_def getCatalogOrder_def demo_purchase_def truthy_def
      payout_db_def empty_db_def getUserBySupabase_def demo_env_def catalogRefunds_def)

end
