(* ===== verification/Messaging.thy ===== *)
theory Messaging
  imports Deliveries "HOL-Library.Char_ord" "HOL-Library.List_Lexorder"
begin

section \<open>Conversations and messages\<close>

text \<open>
  \<open>src/modules/messaging\<close>: finding or creating the conversation of two users, listing and
  reading conversations (\<open>conversations.service.ts\<close>), sending a message and the message
  history (\<open>messaging.service.ts\<close>). The thread the claim of a delivery opens is
  \<^const>\<open>ensureSellerDriverConversation\<close> of the deliveries theory. Tables are in creation
  order; a message id is compared as the string PostgreSQL orders. The ellipsis the previews
  end with is written as its UTF-8 bytes.
\<close>

subsection \<open>Who the parties are\<close>

definition resolveRole :: "id \<Rightarrow> conversation_type \<Rightarrow> bool \<Rightarrow> db \<Rightarrow> participant_role" where
  "resolveRole userId type isCaller s =
    (case type of
       CT_Support \<Rightarrow> if isCaller then P_Buyer else P_Support
     | CT_BuyerDelivery \<Rightarrow> if getDriver s userId \<noteq> None then P_Delivery else P_Buyer
     | CT_SellerDriver \<Rightarrow> if getDriver s userId \<noteq> None then P_Delivery else P_Seller
     | CT_BuyerSeller \<Rightarrow> if getSeller s userId \<noteq> None then P_Seller else P_Buyer)"

text \<open>The other side of an order for the requested kind of thread, once the caller's own
  side is known.\<close>

definition otherSide :: "conversation_type \<Rightarrow> bool \<Rightarrow> bool \<Rightarrow> bool \<Rightarrow> id option \<Rightarrow> order_row \<Rightarrow> exn + id" where
  "otherSide type isBuyer isSeller isDriver driverId ord =
    (case type of
       CT_BuyerDelivery \<Rightarrow>
         if isBuyer then (if \<not> truthy driverId then Inl (BadRequest (Chat NoDriverAssigned))
                          else Inr (the driverId))
         else if isDriver then Inr (o_buyerId ord) else Inl (BadRequest (Chat OnlyBuyerOrDriver))
     | CT_SellerDriver \<Rightarrow>
         if isSeller then (if \<not> truthy driverId then Inl (BadRequest (Chat NoDriverAssigned))
                           else Inr (the driverId))
         else if isDriver then Inr (o_sellerId ord) else Inl (BadRequest (Chat OnlySellerOrDriver))
     | _ \<Rightarrow>
         if isBuyer then Inr (o_sellerId ord) else if isSeller then Inr (o_buyerId ord)
         else Inl (BadRequest (Chat OnlyBuyerOrSeller)))"

definition resolvePeerFromOrder :: "id \<Rightarrow> conversation_type \<Rightarrow> id option \<Rightarrow> db \<Rightarrow> exn + id" where
  "resolvePeerFromOrder callerId type orderId s =
    (if type = CT_Support then Inl (BadRequest (Chat SupportNeedsPeer))
     else if \<not> truthy orderId then Inl (BadRequest (Chat PeerOrOrderRequired))
     else case getOrder s (the orderId) of
       None \<Rightarrow> Inl (NotFound AnOrder)
     | Some ord \<Rightarrow>
         let driverId = Option.bind (latestDelivery s (o_id ord)) d_driverId;
             isBuyer = (callerId = o_buyerId ord); isSeller = (callerId = o_sellerId ord);
             isDriver = (driverId = Some callerId)
         in if \<not> isBuyer \<and> \<not> isSeller \<and> \<not> isDriver then Inl (Forbidden (Chat NotOrderParty))
            else otherSide type isBuyer isSeller isDriver driverId ord)"

subsection \<open>Finding or creating a conversation\<close>

record find_or_create_dto =
  fc_type :: conversation_type
  fc_peerUserId :: "id option"
  fc_orderId :: "id option"
  fc_storeId :: "id option"

definition partsOf :: "db \<Rightarrow> id \<Rightarrow> participant_row list" where
  "partsOf s cid = filter (\<lambda>p. cp_conversationId p = cid) (t_participants s)"

definition findThread :: "conversation_type \<Rightarrow> id option \<Rightarrow> id \<Rightarrow> id \<Rightarrow> db \<Rightarrow> conversation_row option" where
  "findThread type orderId a b s = List.find (\<lambda>c. cv_type c = type \<and> cv_orderId c = orderId \<and>
     list_all (\<lambda>p. cp_userId p \<in> {a, b}) (partsOf s (cv_id c)) \<and>
     list_ex (\<lambda>p. cp_userId p = a) (partsOf s (cv_id c)) \<and>
     list_ex (\<lambda>p. cp_userId p = b) (partsOf s (cv_id c))) (t_conversations s)"

text \<open>The transaction; an order id the caller invented breaks the foreign key.\<close>

definition createThread :: "env \<Rightarrow> find_or_create_dto \<Rightarrow> id \<Rightarrow> id \<Rightarrow> db
    \<Rightarrow> (exn, id \<times> conversation_type, db) result" where
  "createThread env dto a b s =
    (let cid = e_ulid env ForConversation in
     if fc_orderId dto \<noteq> None \<and> getOrder s (the (fc_orderId dto)) = None then fail UncaughtError s
     else ok (cid, fc_type dto)
       (s\<lparr>t_conversations := t_conversations s @
            [\<lparr>cv_id = cid, cv_type = fc_type dto, cv_orderId = fc_orderId dto,
              cv_storeId = fc_storeId dto, cv_lastMessage = None, cv_lastMessageAt = None\<rparr>],
          t_participants := t_participants s @
            [newParticipant (e_ulid env (ForParticipant 0)) cid a (resolveRole a (fc_type dto) True s),
             newParticipant (e_ulid env (ForParticipant 1)) cid b (resolveRole b (fc_type dto) False s)]\<rparr>))"

text \<open>The two users of the thread that is asked for.\<close>

definition threadParties :: "id \<Rightarrow> find_or_create_dto \<Rightarrow> db \<Rightarrow> exn + (id \<times> id)" where
  "threadParties supabaseId dto s =
    (case getUserBySupabase s supabaseId of None \<Rightarrow> Inl (NotFound UserProfile) | Some caller \<Rightarrow>
     if fc_type dto \<in> {CT_BuyerDelivery, CT_SellerDriver} \<and> \<not> truthy (fc_orderId dto) \<and>
        \<not> truthy (fc_peerUserId dto)
     then Inl (BadRequest (Chat (TypeNeedsOrderOrPeer (fc_type dto))))
     else
       (case (case fc_peerUserId dto of Some p \<Rightarrow> Inr p
              | None \<Rightarrow> resolvePeerFromOrder (u_id caller) (fc_type dto) (fc_orderId dto) s) of
          Inl e \<Rightarrow> Inl e
        | Inr peer \<Rightarrow>
            if u_id caller = peer then Inl (BadRequest (Chat SelfConversation))
            else if getUser s peer = None then Inl (NotFound APeerUser)
            else Inr (u_id caller, peer)))"

definition findOrCreate :: "env \<Rightarrow> id \<Rightarrow> find_or_create_dto \<Rightarrow> db
    \<Rightarrow> (exn, id \<times> conversation_type, db) result" where
  "findOrCreate env supabaseId dto s =
    bindR (liftE (threadParties supabaseId dto s) s) (\<lambda>(a, b) s.
      case findThread (fc_type dto) (fc_orderId dto) a b s of
        Some c \<Rightarrow> ok (cv_id c, cv_type c) s
      | None \<Rightarrow> createThread env dto a b s)"

subsection \<open>Listing and reading\<close>

text \<open>\<open>orderBy: [{ lastMessageAt: desc, nulls: last }, { createdAt: desc }]\<close>.\<close>

definition byLastMessage :: "conversation_row list \<Rightarrow> conversation_row list" where
  "byLastMessage cs =
    sort_key (\<lambda>c. - the (cv_lastMessageAt c)) (filter (\<lambda>c. cv_lastMessageAt c \<noteq> None) (rev cs)) @
    filter (\<lambda>c. cv_lastMessageAt c = None) (rev cs)"

definition displayNameOf :: "participant_row \<Rightarrow> db \<Rightarrow> string" where
  "displayNameOf peer s =
    (let names = (case getUser s (cp_userId peer) of None \<Rightarrow> [] | Some u \<Rightarrow> [u_firstName u, u_lastName u]);
         present = filter (\<lambda>x. x \<noteq> []) names;
         fallback = trim (case present of [x, y] \<Rightarrow> x @ '' '' @ y | [x] \<Rightarrow> x | _ \<Rightarrow> []);
         sellerName = map_option trim (Option.bind (getSeller s (cp_userId peer)) sp_displayName)
     in if truthy sellerName then the sellerName
        else if fallback \<noteq> [] then fallback
        else if cp_role peer = P_Delivery then ''Livreur''
        else if cp_role peer = P_Support then ''Support''
        else ''Utilisateur'')"

record conversation_item =
  ci_conversation :: conversation_row
  ci_unreadCount :: int
  ci_myRole :: participant_role
  ci_peerId :: id
  ci_peerName :: string
  ci_peerAvatar :: "string option"
  ci_peerRole :: participant_role

definition conversationItem :: "id \<Rightarrow> db \<Rightarrow> conversation_row \<Rightarrow> conversation_item option" where
  "conversationItem me s c =
    (case (List.find (\<lambda>p. cp_userId p = me) (partsOf s (cv_id c)),
           List.find (\<lambda>p. cp_userId p \<noteq> me) (partsOf s (cv_id c))) of
       (Some mine, Some peer) \<Rightarrow>
         Some \<lparr>ci_conversation = c, ci_unreadCount = cp_unreadCount mine, ci_myRole = cp_role mine,
           ci_peerId = cp_userId peer, ci_peerName = displayNameOf peer s,
           ci_peerAvatar = orElse (Option.bind (getSeller s (cp_userId peer)) sp_profilePhotoUrl)
             (Option.bind (getUser s (cp_userId peer)) u_avatarPath),
           ci_peerRole = cp_role peer\<rparr>
     | _ \<Rightarrow> None)"

definition listForUser :: "id \<Rightarrow> conversation_type option \<Rightarrow> nat option \<Rightarrow> nat option \<Rightarrow> db
    \<Rightarrow> exn + conversation_item list" where
  "listForUser supabaseId type lmt off s =
    (case getUserBySupabase s supabaseId of None \<Rightarrow> Inl (NotFound UserProfile) | Some me \<Rightarrow>
     let n = min (case lmt of None \<Rightarrow> 50 | Some l \<Rightarrow> l) 100;
         rows = take n (drop (case off of None \<Rightarrow> 0 | Some k \<Rightarrow> k) (byLastMessage (filter (\<lambda>c.
           (case type of None \<Rightarrow> True | Some ty \<Rightarrow> cv_type c = ty) \<and>
           list_ex (\<lambda>p. cp_userId p = u_id me) (partsOf s (cv_id c))) (t_conversations s))))
     in Inr (List.map_filter (conversationItem (u_id me) s) rows))"

text \<open>\<open>findUnique\<close> on \<open>(conversationId, userId)\<close>.\<close>

definition getParticipant :: "db \<Rightarrow> id \<Rightarrow> id \<Rightarrow> participant_row option" where
  "getParticipant s cid uid =
    findRow (\<lambda>p. (cp_conversationId p, cp_userId p)) (cid, uid) (t_participants s)"

definition assertParticipant :: "id \<Rightarrow> id \<Rightarrow> db \<Rightarrow> exn + (id \<times> participant_row)" where
  "assertParticipant supabaseId cid s =
    (case getUserBySupabase s supabaseId of None \<Rightarrow> Inl (NotFound UserProfile) | Some me \<Rightarrow>
     (case getParticipant s cid (u_id me) of
        None \<Rightarrow> Inl (Forbidden (Chat NotParticipant))
      | Some p \<Rightarrow> Inr (u_id me, p)))"

definition markRead :: "env \<Rightarrow> id \<Rightarrow> id \<Rightarrow> db \<Rightarrow> (exn, unit, db) result" where
  "markRead env supabaseId cid s =
    bindR (liftE (assertParticipant supabaseId cid s) s) (\<lambda>(_, p) s.
      ok () (s\<lparr>t_participants := updRow cp_id (cp_id p)
        (\<lambda>r. r\<lparr>cp_unreadCount := 0, cp_lastReadAt := Some (e_now env)\<rparr>) (t_participants s)\<rparr>))"

subsection \<open>Sending and the history\<close>

definition ellipsis :: string where
  "ellipsis = [CHR 0xE2, CHR 0x80, CHR 0xA6]"

definition lastMessageSnapshot :: "string \<Rightarrow> string" where
  "lastMessageSnapshot t = (if 200 < length t then take 197 t @ ellipsis else t)"

definition sendTx :: "env \<Rightarrow> id \<Rightarrow> id \<Rightarrow> string \<Rightarrow> message_type \<Rightarrow> db \<Rightarrow> db" where
  "sendTx env cid caller text type s = s\<lparr>
     t_messages := t_messages s @ [\<lparr>m_id = e_ulid env ForMessage, m_conversationId = cid,
       m_senderId = caller, m_content = text, m_messageType = type, m_createdAt = e_now env\<rparr>],
     t_conversations := updRow cv_id cid (\<lambda>c. c\<lparr>cv_lastMessage := Some (lastMessageSnapshot text),
       cv_lastMessageAt := Some (e_now env)\<rparr>) (t_conversations s),
     t_participants := updWhere (\<lambda>p. cp_conversationId p = cid \<and> cp_userId p \<noteq> caller)
       (\<lambda>p. p\<lparr>cp_unreadCount := cp_unreadCount p + 1\<rparr>) (t_participants s)\<rparr>"

definition notifyPeers :: "id \<Rightarrow> id \<Rightarrow> db \<Rightarrow> db" where
  "notifyPeers cid sender s =
    (let ids = map cp_userId (filter (\<lambda>p. cp_userId p \<noteq> sender) (partsOf s cid))
     in if ids = [] then s else sendToUsers ids ''chat_message'' cid s)"

record persisted_message =
  pm_row :: message_row
  pm_senderRole :: participant_role

definition send :: "env \<Rightarrow> id \<Rightarrow> id \<Rightarrow> string \<Rightarrow> message_type \<Rightarrow> db
    \<Rightarrow> (exn, persisted_message, db) result" where
  "send env supabaseId cid content type s =
    (let text = trim content in
     if text = [] then fail (Forbidden (Chat EmptyMessage)) s
     else if 4000 < length text then fail (Forbidden (Chat MessageTooLong)) s
     else bindR (liftE (assertParticipant supabaseId cid s) s) (\<lambda>(caller, me) s.
       let s1 = sendTx env cid caller text type s;
           s2 = emit (PubMessage cid (e_ulid env ForMessage)) s1
       in ok \<lparr>pm_row = last (t_messages s1), pm_senderRole = cp_role me\<rparr> (notifyPeers cid caller s2)))"

text \<open>The history page: newest id first, strictly older than the cursor.\<close>

definition listMessages :: "id \<Rightarrow> id \<Rightarrow> nat option \<Rightarrow> id option \<Rightarrow> db \<Rightarrow> exn + persisted_message list" where
  "listMessages supabaseId cid lmt before s =
    (case assertParticipant supabaseId cid s of Inl e \<Rightarrow> Inl e | Inr _ \<Rightarrow>
     let rows = take (min (case lmt of None \<Rightarrow> 50 | Some n \<Rightarrow> n) 200)
           (rev (sort_key m_id (filter (\<lambda>m. m_conversationId m = cid \<and>
              (\<not> truthy before \<or> m_id m < the before)) (t_messages s))))
     in Inr (map (\<lambda>m. \<lparr>pm_row = m, pm_senderRole = (case getParticipant s cid (m_senderId m) of
          None \<Rightarrow> P_Buyer | Some p \<Rightarrow> cp_role p)\<rparr>) rows))"

subsection \<open>One thread for a pair of users\<close>

lemma findThread_swap: "findThread ty oid a b s = findThread ty oid b a s"
  unfolding findThread_def by (simp add: insert_commute conj_ac)

lemma findThread_Some:
  assumes "findThread ty oid a b s = Some c"
  shows "c \<in> set (t_conversations s)" "cv_type c = ty" "cv_orderId c = oid"
    "set (map cp_userId (partsOf s (cv_id c))) = {a, b}"
  using assms unfolding findThread_def find_Some_iff
  by (auto simp: list_all_iff list_ex_iff)

lemma pair_imageD:
  assumes "f ` S = {a, b}"
  shows "\<exists>x \<in> S. f x = a" "\<exists>x \<in> S. f x = b"
proof -
  have "a \<in> f ` S" "b \<in> f ` S" using assms by simp_all
  then show "\<exists>x \<in> S. f x = a" "\<exists>x \<in> S. f x = b" by (metis imageE)+
qed

lemma findThread_None:
  assumes "findThread ty oid a b s = None" and "c \<in> set (t_conversations s)" and "cv_type c = ty"
    and "cv_orderId c = oid"
  shows "set (map cp_userId (partsOf s (cv_id c))) \<noteq> {a, b}"
proof
  let ?P = "set (partsOf s (cv_id c))"
  assume "set (map cp_userId (partsOf s (cv_id c))) = {a, b}"
  then have im: "cp_userId ` ?P = {a, b}" by simp
  have "\<forall>p \<in> ?P. cp_userId p \<in> {a, b}" using im by blast
  with pair_imageD [OF im] assms show False
    unfolding findThread_def find_None_iff list_all_iff list_ex_iff by blast
qed

text \<open>The conversations of the database: ids are unique, each has its two parties, and no two
  of them have the same type, order and parties.\<close>

definition parties :: "db \<Rightarrow> id \<Rightarrow> id set" where
  "parties s cid = set (map cp_userId (partsOf s cid))"

definition chats_ok :: "db \<Rightarrow> bool" where
  "chats_ok s \<longleftrightarrow> distinct (map cv_id (t_conversations s)) \<and>
    (\<forall>p \<in> set (t_participants s). cp_conversationId p \<in> cv_id ` set (t_conversations s)) \<and>
    (\<forall>c \<in> set (t_conversations s). length (partsOf s (cv_id c)) = 2 \<and> card (parties s (cv_id c)) = 2) \<and>
    (\<forall>c \<in> set (t_conversations s). \<forall>d \<in> set (t_conversations s).
      cv_type c = cv_type d \<longrightarrow> cv_orderId c = cv_orderId d \<longrightarrow>
      parties s (cv_id c) = parties s (cv_id d) \<longrightarrow> c = d)"

inductive chat_step :: "db \<Rightarrow> db \<Rightarrow> bool" where
  "open": "e_ulid env ForConversation \<notin> cv_id ` set (t_conversations s) \<Longrightarrow>
    chat_step s (snd (findOrCreate env sb dto s))"
| assigned: "e_ulid env ForConversation \<notin> cv_id ` set (t_conversations s) \<Longrightarrow>
    chat_step s (snd (ensureSellerDriverConversation env oid driverId s))"
| say: "chat_step s (snd (send env sb cid content type s))"
| read: "chat_step s (snd (markRead env sb cid s))"

text \<open>Adding a thread of two users that has no duplicate.\<close>

lemma chats_ok_add:
  assumes inv: "chats_ok s" and fresh: "cv_id c \<notin> cv_id ` set (t_conversations s)" and ab: "a \<noteq> b"
    and none: "\<And>d. d \<in> set (t_conversations s) \<Longrightarrow> cv_type d = cv_type c \<Longrightarrow> cv_orderId d = cv_orderId c \<Longrightarrow>
      parties s (cv_id d) \<noteq> {a, b}"
    and t: "t_conversations t = t_conversations s @ [c]"
      "t_participants t = t_participants s @ [newParticipant i (cv_id c) a r, newParticipant j (cv_id c) b q]"
  shows "chats_ok t"
proof -
  have old: "partsOf t (cv_id d) = partsOf s (cv_id d)" if "d \<in> set (t_conversations s)" for d
    using that fresh by (auto simp: partsOf_def t newParticipant_def)
  have "filter (\<lambda>p. cp_conversationId p = cv_id c) (t_participants s) = []"
    using inv fresh unfolding chats_ok_def filter_empty_conv by metis
  then have new: "partsOf t (cv_id c) = [newParticipant i (cv_id c) a r, newParticipant j (cv_id c) b q]"
    by (simp add: partsOf_def t newParticipant_def)
  have p_old: "parties t (cv_id d) = parties s (cv_id d)" if "d \<in> set (t_conversations s)" for d
    by (simp add: parties_def old [OF that])
  have p_new: "parties t (cv_id c) = {a, b}" by (simp add: parties_def new newParticipant_def)
  have "distinct (map cv_id (t_conversations t))" using inv fresh by (auto simp: chats_ok_def t)
  moreover have "\<forall>p \<in> set (t_participants t). cp_conversationId p \<in> cv_id ` set (t_conversations t)"
    using inv by (auto simp: chats_ok_def t newParticipant_def)
  moreover have "\<forall>d \<in> set (t_conversations t). length (partsOf t (cv_id d)) = 2 \<and> card (parties t (cv_id d)) = 2"
    using inv ab old new p_old p_new by (auto simp: chats_ok_def t)
  moreover have "d = e" if m: "d \<in> set (t_conversations t)" "e \<in> set (t_conversations t)" and
      eq: "cv_type d = cv_type e" "cv_orderId d = cv_orderId e" "parties t (cv_id d) = parties t (cv_id e)" for d e
  proof -
    consider "d \<in> set (t_conversations s)" "e \<in> set (t_conversations s)"
      | "d = c" "e \<in> set (t_conversations s)" | "d \<in> set (t_conversations s)" "e = c" | "d = c" "e = c"
      using m by (auto simp: t)
    then show ?thesis
    proof cases
      case 1
      with inv eq p_old show ?thesis unfolding chats_ok_def by metis
    next
      case 2
      with none [of e] eq p_old p_new show ?thesis by metis
    next
      case 3
      with none [of d] eq p_old p_new show ?thesis by metis
    qed simp
  qed
  ultimately show ?thesis unfolding chats_ok_def by blast
qed

text \<open>Rewriting rows of both tables that keeps ids, types, orders and parties.\<close>

lemma chats_ok_same:
  assumes inv: "chats_ok s"
    and c: "t_conversations t = map g (t_conversations s)"
      "\<And>x. cv_id (g x) = cv_id x \<and> cv_type (g x) = cv_type x \<and> cv_orderId (g x) = cv_orderId x"
    and p: "t_participants t = map f (t_participants s)"
      "\<And>x. cp_conversationId (f x) = cp_conversationId x \<and> cp_userId (f x) = cp_userId x"
  shows "chats_ok t"
proof -
  have parts: "partsOf t i = map f (partsOf s i)" for i
    by (simp add: partsOf_def p filter_map o_def)
  have parties: "parties t i = parties s i" for i by (simp add: parties_def parts p(2) image_image)
  have ids: "map cv_id (t_conversations t) = map cv_id (t_conversations s)" by (simp add: c o_def)
  then have set_ids: "cv_id ` set (t_conversations t) = cv_id ` set (t_conversations s)"
    by (metis set_map)
  have pairs: "\<forall>c' \<in> set (t_conversations t). \<forall>d' \<in> set (t_conversations t).
      cv_type c' = cv_type d' \<longrightarrow> cv_orderId c' = cv_orderId d' \<longrightarrow>
      parties t (cv_id c') = parties t (cv_id d') \<longrightarrow> c' = d'"
    using inv unfolding chats_ok_def c(1) set_map parties by (auto simp: c(2))
  have two: "\<forall>d \<in> set (t_conversations t). length (partsOf t (cv_id d)) = 2 \<and> card (parties t (cv_id d)) = 2"
    using inv unfolding chats_ok_def c(1) set_map parties parts by (auto simp: c(2))
  have "\<forall>q \<in> set (t_participants t). cp_conversationId q \<in> cv_id ` set (t_conversations t)"
    using inv unfolding chats_ok_def set_ids by (auto simp: p)
  with pairs two ids inv show ?thesis by (simp add: chats_ok_def)
qed

lemma chats_ok_send: "chats_ok s \<Longrightarrow> chats_ok (snd (send env sb cid content type s))"
proof -
  assume inv: "chats_ok s"
  have tx: "chats_ok (sendTx env cid caller msg type s)" for caller msg
    by (rule chats_ok_same [OF inv, where
          g = "\<lambda>c. if cv_id c = cid then c\<lparr>cv_lastMessage := Some (lastMessageSnapshot msg),
            cv_lastMessageAt := Some (e_now env)\<rparr> else c" and
          f = "\<lambda>p. if cp_conversationId p = cid \<and> cp_userId p \<noteq> caller
            then p\<lparr>cp_unreadCount := cp_unreadCount p + 1\<rparr> else p"])
      (simp_all add: sendTx_def updRow_def updWhere_def)
  have frame: "chats_ok (notifyPeers cid caller (emit e t)) = chats_ok t" for caller e t
    by (simp add: chats_ok_def parties_def partsOf_def notifyPeers_def sendToUsers_def emit_def Let_def)
  show ?thesis
    using inv tx frame
    by (cases "assertParticipant sb cid s") (auto simp: send_def Let_def split: prod.split)
qed

lemma chats_ok_read: "chats_ok s \<Longrightarrow> chats_ok (snd (markRead env sb cid s))"
proof -
  assume inv: "chats_ok s"
  have "chats_ok (s\<lparr>t_participants := updRow cp_id i
      (\<lambda>r. r\<lparr>cp_unreadCount := 0, cp_lastReadAt := Some (e_now env)\<rparr>) (t_participants s)\<rparr>)" for i
    by (rule chats_ok_same [OF inv, where g = "\<lambda>c. c" and
          f = "\<lambda>r. if cp_id r = i then r\<lparr>cp_unreadCount := 0, cp_lastReadAt := Some (e_now env)\<rparr> else r"])
      (simp_all add: updRow_def)
  with inv show ?thesis
    by (cases "assertParticipant sb cid s") (auto simp: markRead_def split: prod.split)
qed

lemma threadParties_distinct: "threadParties sb dto s = Inr (a, b) \<Longrightarrow> a \<noteq> b"
  by (auto simp: threadParties_def split: option.splits sum.splits if_splits)

lemma chats_ok_open:
  assumes inv: "chats_ok s" and fresh: "e_ulid env ForConversation \<notin> cv_id ` set (t_conversations s)"
  shows "chats_ok (snd (findOrCreate env sb dto s))"
proof (cases "threadParties sb dto s")
  case (Inl e)
  with inv show ?thesis by (simp add: findOrCreate_def)
next
  case (Inr ab)
  obtain a b where ab: "ab = (a, b)" by (cases ab)
  have "chats_ok (snd (createThread env dto a b s))"
    if none: "findThread (fc_type dto) (fc_orderId dto) a b s = None"
  proof (cases "fc_orderId dto \<noteq> None \<and> getOrder s (the (fc_orderId dto)) = None")
    case True
    with inv show ?thesis by (simp add: createThread_def Let_def)
  next
    case False
    let ?c = "\<lparr>cv_id = e_ulid env ForConversation, cv_type = fc_type dto, cv_orderId = fc_orderId dto,
              cv_storeId = fc_storeId dto, cv_lastMessage = None, cv_lastMessageAt = None\<rparr>"
    show ?thesis
      by (rule chats_ok_add [OF inv, of ?c a b])
        (use fresh Inr ab findThread_None [OF none] False in
          \<open>auto simp: createThread_def Let_def parties_def threadParties_distinct\<close>)
  qed
  with Inr ab inv show ?thesis by (simp add: findOrCreate_def split: option.split)
qed

lemma chats_ok_assigned:
  assumes inv: "chats_ok s" and fresh: "e_ulid env ForConversation \<notin> cv_id ` set (t_conversations s)"
  shows "chats_ok (snd (ensureSellerDriverConversation env oid driverId s))"
proof (cases "getOrder s oid")
  case None
  with inv show ?thesis by (simp add: ensureSellerDriverConversation_def)
next
  case (Some ord)
  let ?find = "List.find (\<lambda>c. cv_type c = CT_SellerDriver \<and> cv_orderId c = Some oid \<and>
     isParticipant s (cv_id c) (o_sellerId ord) \<and> isParticipant s (cv_id c) driverId) (t_conversations s)"
  have "chats_ok (snd (ensureSellerDriverConversation env oid driverId s))"
    if none: "?find = None" and d: "o_sellerId ord \<noteq> driverId"
  proof (rule chats_ok_add [OF inv, of "\<lparr>cv_id = e_ulid env ForConversation, cv_type = CT_SellerDriver,
                    cv_orderId = Some oid, cv_storeId = None, cv_lastMessage = None,
                    cv_lastMessageAt = None\<rparr>", OF _ d])
    show "parties s (cv_id e) \<noteq> {o_sellerId ord, driverId}"
      if "e \<in> set (t_conversations s)" "cv_type e = cv_type \<lparr>cv_id = e_ulid env ForConversation,
          cv_type = CT_SellerDriver, cv_orderId = Some oid, cv_storeId = None, cv_lastMessage = None,
          cv_lastMessageAt = None\<rparr>"
        "cv_orderId e = cv_orderId \<lparr>cv_id = e_ulid env ForConversation,
          cv_type = CT_SellerDriver, cv_orderId = Some oid, cv_storeId = None, cv_lastMessage = None,
          cv_lastMessageAt = None\<rparr>" for e
    proof
      assume "parties s (cv_id e) = {o_sellerId ord, driverId}"
      then have im: "cp_userId ` set (partsOf s (cv_id e)) = {o_sellerId ord, driverId}"
        by (simp add: parties_def)
      have "isParticipant s (cv_id e) (o_sellerId ord)" "isParticipant s (cv_id e) driverId"
        using pair_imageD [OF im] by (auto simp: partsOf_def isParticipant_def)
      with that none show False unfolding find_None_iff by simp
    qed
  qed (use fresh Some d none in \<open>simp_all add: ensureSellerDriverConversation_def\<close>)
  with Some inv show ?thesis
    by (cases ?find) (auto simp: ensureSellerDriverConversation_def)
qed

interpretation chats: inductive_invariant chats_ok chat_step chats_ok
  by unfold_locales
    (auto elim!: chat_step.cases intro: chats_ok_open chats_ok_assigned chats_ok_send chats_ok_read)

text \<open>C11: Whatever threads users open, whatever deliveries are claimed and whatever is said and
  read, every conversation keeps exactly two different parties, and two users share at most
  one conversation of a type about an order (or about none).\<close>

theorem conversations_stay_pairwise:
  assumes "chats_ok s" and "chat_step\<^sup>*\<^sup>* s t"
  shows "chats_ok t \<and> (\<forall>c \<in> set (t_conversations t). \<exists>a b. a \<noteq> b \<and> parties t (cv_id c) = {a, b})"
proof -
  have "chats_ok t" by (rule chats.reachable_inv [OF assms])
  moreover from this have "\<exists>a b. a \<noteq> b \<and> parties t (cv_id c) = {a, b}" if "c \<in> set (t_conversations t)" for c
    using that unfolding chats_ok_def by (metis card_2_iff)
  ultimately show ?thesis by blast
qed

lemma partsOf_append:
  "t_participants t = t_participants s @ ps \<Longrightarrow> partsOf t i = partsOf s i @ filter (\<lambda>p. cp_conversationId p = i) ps"
  by (simp add: partsOf_def)

lemma partsOf_fresh: "cid \<notin> cp_conversationId ` set (t_participants s) \<Longrightarrow> partsOf s cid = []"
  by (auto simp: partsOf_def filter_empty_conv)

lemma find_snoc: "List.find P xs = None \<Longrightarrow> P x \<Longrightarrow> List.find P (xs @ [x]) = Some x"
  by (induction xs) (simp_all split: if_splits)

text \<open>What creating a thread leaves to be found.\<close>

lemma findThread_created:
  assumes none: "findThread (fc_type dto) (fc_orderId dto) a b s = None"
    and c: "createThread env dto a b s = (Inr r, t)"
    and fresh: "e_ulid env ForConversation \<notin> cv_id ` set (t_conversations s)"
      "e_ulid env ForConversation \<notin> cp_conversationId ` set (t_participants s)"
  shows "map_option (\<lambda>c. (cv_id c, cv_type c)) (findThread (fc_type dto) (fc_orderId dto) a b t) = Some r"
proof -
  let ?cid = "e_ulid env ForConversation"
  let ?P = "\<lambda>s c. cv_type c = fc_type dto \<and> cv_orderId c = fc_orderId dto \<and>
     list_all (\<lambda>p. cp_userId p \<in> {a, b}) (partsOf s (cv_id c)) \<and>
     list_ex (\<lambda>p. cp_userId p = a) (partsOf s (cv_id c)) \<and>
     list_ex (\<lambda>p. cp_userId p = b) (partsOf s (cv_id c))"
  obtain new where t: "t_conversations t = t_conversations s @ [new]" "cv_id new = ?cid"
      "cv_type new = fc_type dto" "cv_orderId new = fc_orderId dto" "r = (?cid, fc_type dto)"
    and p: "t_participants t = t_participants s @
      [newParticipant (e_ulid env (ForParticipant 0)) ?cid a (resolveRole a (fc_type dto) True s),
       newParticipant (e_ulid env (ForParticipant 1)) ?cid b (resolveRole b (fc_type dto) False s)]"
    using c by (auto simp: createThread_def Let_def fail_eq_iff ok_eq_iff split: if_splits)
  have old: "partsOf t i = partsOf s i" if "i \<noteq> ?cid" for i
    using that by (simp add: partsOf_append [OF p] newParticipant_def)
  have here: "partsOf t ?cid =
      [newParticipant (e_ulid env (ForParticipant 0)) ?cid a (resolveRole a (fc_type dto) True s),
       newParticipant (e_ulid env (ForParticipant 1)) ?cid b (resolveRole b (fc_type dto) False s)]"
    by (simp add: partsOf_append [OF p] partsOf_fresh [OF fresh(2)] newParticipant_def)
  have "\<not> ?P t c" if "c \<in> set (t_conversations s)" for c
  proof -
    have "cv_id c \<noteq> ?cid" using that fresh(1) by (metis imageI)
    then have eq: "partsOf t (cv_id c) = partsOf s (cv_id c)" by (rule old)
    have "\<not> ?P s c" using none that unfolding findThread_def find_None_iff by blast
    then show ?thesis unfolding eq .
  qed
  then have "List.find (?P t) (t_conversations s) = None" unfolding find_None_iff by blast
  moreover have "?P t new" by (simp add: t here newParticipant_def)
  ultimately have "List.find (?P t) (t_conversations t) = Some new"
    unfolding t(1) by (intro find_snoc)
  then show ?thesis by (simp add: findThread_def t)
qed

lemma findThread_type: "findThread ty oid a b s = Some c \<Longrightarrow> cv_type c = ty"
  by (rule findThread_Some(2))

lemma createThread_users: "createThread env dto a b s = (r, t) \<Longrightarrow>
    t_users t = t_users s"
  by (auto simp: createThread_def Let_def fail_eq_iff ok_eq_iff split: if_splits)

text \<open>A thread one user opened with another is the thread the other one gets when asking the
  same about the first: nothing is created the second time, from either side.\<close>

theorem thread_found_from_both_sides:
  assumes run: "findOrCreate env sb dto s = (Inr r, t)"
    and me: "getUserBySupabase s sb = Some me" and you: "getUserBySupabase s sb' = Some you"
    and peer: "fc_peerUserId dto = Some (u_id you)" and "u_id me \<noteq> []"
    and fresh: "e_ulid env ForConversation \<notin> cv_id ` set (t_conversations s)"
      "e_ulid env ForConversation \<notin> cp_conversationId ` set (t_participants s)"
  shows "findOrCreate env' sb' (dto\<lparr>fc_peerUserId := Some (u_id me)\<rparr>) t = (Inr r, t) \<and>
    findOrCreate env' sb dto t = (Inr r, t)"
proof -
  let ?a = "u_id me" and ?b = "u_id you"
  have par: "threadParties sb dto s = Inr (?a, ?b)" and ab: "?a \<noteq> ?b"
    using run me peer by (auto simp: findOrCreate_def threadParties_def fail_eq_iff split: if_splits)
  have found: "map_option (\<lambda>c. (cv_id c, cv_type c)) (findThread (fc_type dto) (fc_orderId dto) ?a ?b t) = Some r"
    and users: "t_users t = t_users s"
  proof -
    show "map_option (\<lambda>c. (cv_id c, cv_type c)) (findThread (fc_type dto) (fc_orderId dto) ?a ?b t) = Some r"
    proof (cases "findThread (fc_type dto) (fc_orderId dto) ?a ?b s")
      case None
      with run par have "createThread env dto ?a ?b s = (Inr r, t)" by (simp add: findOrCreate_def)
      from findThread_created [OF None this fresh] show ?thesis .
    next
      case (Some c)
      with run par show ?thesis by (auto simp: findOrCreate_def ok_eq_iff)
    qed
    show "t_users t = t_users s"
      using run par createThread_users
      by (auto simp: findOrCreate_def ok_eq_iff split: option.splits)
  qed
  then obtain c where c: "findThread (fc_type dto) (fc_orderId dto) ?a ?b t = Some c" "r = (cv_id c, cv_type c)"
    by auto
  have look: "getUserBySupabase t x = getUserBySupabase s x" "getUser t y = getUser s y" for x y
    by (simp_all add: getUserBySupabase_def getUser_def users)
  have exists: "getUser s (u_id u) \<noteq> None" if "getUserBySupabase s x = Some u" for x u
    using that by (auto simp: getUser_def getUserBySupabase_def findRow_None_iff dest: findRow_Some_set)
  have "threadParties sb' (dto\<lparr>fc_peerUserId := Some ?a\<rparr>) t = Inr (?b, ?a)"
    using you exists [OF me] ab assms(5) by (simp add: threadParties_def look truthy_def)
  moreover have "threadParties sb dto t = Inr (?a, ?b)"
    using par peer me by (auto simp: threadParties_def look split: if_splits)
  ultimately show ?thesis
    using c by (simp add: findOrCreate_def findThread_swap [of _ _ "u_id you" "u_id me"] ok_def)
qed

text \<open>Naming the peer skips the order: a user who is no party to an order, and whom the
  look-up through the order refuses, gets a delivery thread about it with any account of
  their choice, assigned driver or not.\<close>

theorem explicit_peer_skips_order:
  assumes me: "getUserBySupabase s sb = Some me" and ord: "getOrder s oid = Some ord" and "oid \<noteq> []"
    and out: "u_id me \<noteq> o_buyerId ord" "u_id me \<noteq> o_sellerId ord"
      "Option.bind (latestDelivery s (o_id ord)) d_driverId \<noteq> Some (u_id me)"
    and peer: "getUser s peer \<noteq> None" "peer \<noteq> u_id me"
    and "findThread CT_BuyerDelivery (Some oid) (u_id me) peer s = None"
  shows "findOrCreate env sb \<lparr>fc_type = CT_BuyerDelivery, fc_peerUserId = None, fc_orderId = Some oid,
      fc_storeId = None\<rparr> s = (Inl (Forbidden (Chat NotOrderParty)), s) \<and>
    (\<exists>t. findOrCreate env sb \<lparr>fc_type = CT_BuyerDelivery, fc_peerUserId = Some peer,
        fc_orderId = Some oid, fc_storeId = None\<rparr> s =
        (Inr (e_ulid env ForConversation, CT_BuyerDelivery), t) \<and>
      isParticipant t (e_ulid env ForConversation) (u_id me) \<and>
      isParticipant t (e_ulid env ForConversation) peer)"
  using assms by (auto simp: findOrCreate_def threadParties_def resolvePeerFromOrder_def truthy_def Let_def
      createThread_def fail_def ok_def isParticipant_def newParticipant_def)

subsection \<open>The unread counter\<close>

datatype chat_request = Say id string message_type | Read id

definition serveChat :: "id \<Rightarrow> env \<times> chat_request \<Rightarrow> db \<Rightarrow> db" where
  "serveChat cid er s = (case er of
     (env, Say sb content type) \<Rightarrow> snd (send env sb cid content type s)
   | (env, Read sb) \<Rightarrow> snd (markRead env sb cid s))"

text \<open>The reference: the number of accepted messages of the other participants since the
  user's last read, from the accounts and the members alone.\<close>

definition unreadAfter :: "(id \<Rightarrow> id option) \<Rightarrow> (id \<Rightarrow> bool) \<Rightarrow> id \<Rightarrow> chat_request \<Rightarrow> int \<Rightarrow> int" where
  "unreadAfter who member uid r n = (case r of
     Say sb content _ \<Rightarrow> (case who sb of
         None \<Rightarrow> n
       | Some v \<Rightarrow> if member v \<and> v \<noteq> uid \<and> trim content \<noteq> [] \<and> length (trim content) \<le> 4000
                   then n + 1 else n)
   | Read sb \<Rightarrow> if who sb = Some uid then 0 else n)"

definition whoIs :: "db \<Rightarrow> id \<Rightarrow> id option" where
  "whoIs s sb = map_option u_id (getUserBySupabase s sb)"

definition memberOf :: "db \<Rightarrow> id \<Rightarrow> id \<Rightarrow> bool" where
  "memberOf s cid v \<longleftrightarrow> getParticipant s cid v \<noteq> None"

abbreviation cp_key :: "participant_row \<Rightarrow> id \<times> id" where
  "cp_key p \<equiv> (cp_conversationId p, cp_userId p)"

definition partKeys :: "db \<Rightarrow> (id \<times> id \<times> id) list" where
  "partKeys s = map (\<lambda>p. (cp_id p, cp_key p)) (t_participants s)"

definition keyed :: "db \<Rightarrow> bool" where
  "keyed s \<longleftrightarrow> distinct (map cp_id (t_participants s)) \<and> distinct (map cp_key (t_participants s))"

lemma keyed_keys: "partKeys t = partKeys s \<Longrightarrow> keyed t = keyed s"
proof -
  assume eq: "partKeys t = partKeys s"
  have "map cp_id (t_participants q) = map fst (partKeys q)"
    "map cp_key (t_participants q) = map snd (partKeys q)" for q
    by (simp_all add: partKeys_def o_def)
  with eq show ?thesis by (simp add: keyed_def)
qed

lemma memberOf_keys: "partKeys t = partKeys s \<Longrightarrow> memberOf t = memberOf s"
proof -
  assume eq: "partKeys t = partKeys s"
  have "memberOf q cid v \<longleftrightarrow> (cid, v) \<in> set (map snd (partKeys q))" for q cid v
    by (auto simp: memberOf_def getParticipant_def findRow_None_iff partKeys_def rev_image_eqI)
  with eq show ?thesis by (simp add: fun_eq_iff)
qed

text \<open>A participant row is found by its id and by its key alike.\<close>

lemma upd_by_id:
  assumes "keyed s" and "getParticipant s cid uid = Some p"
  shows "updRow cp_id (cp_id p) f (t_participants s) = updRow cp_key (cid, uid) f (t_participants s)"
proof -
  have p: "p \<in> set (t_participants s)" "cp_key p = (cid, uid)"
    using assms(2) by (auto simp: getParticipant_def dest: findRow_Some_set findRow_Some_key)
  have inj: "inj_on cp_id (set (t_participants s))" "inj_on cp_key (set (t_participants s))"
    using assms(1) by (simp_all add: keyed_def distinct_map)
  have "cp_id q = cp_id p \<longleftrightarrow> cp_key q = (cid, uid)" if q: "q \<in> set (t_participants s)" for q
    using inj_onD [OF inj(1) _ q p(1)] inj_onD [OF inj(2) _ q p(1)] p(2) by metis
  then show ?thesis unfolding updRow_def by (intro map_cong [OF refl]) (simp only:)
qed

lemma serveChat_say:
  "snd (send env sb cid content type s) =
    (if trim content = [] \<or> 4000 < length (trim content) then s
     else case assertParticipant sb cid s of Inl _ \<Rightarrow> s
       | Inr (caller, _) \<Rightarrow> notifyPeers cid caller (emit (PubMessage cid (e_ulid env ForMessage))
           (sendTx env cid caller (trim content) type s)))"
  by (cases "assertParticipant sb cid s") (auto simp: send_def Let_def split: prod.split)

lemma say_participants:
  "t_participants (notifyPeers cid v (emit e (sendTx env cid v msg type s))) =
    updWhere (\<lambda>p. cp_conversationId p = cid \<and> cp_userId p \<noteq> v)
      (\<lambda>p. p\<lparr>cp_unreadCount := cp_unreadCount p + 1\<rparr>) (t_participants s)"
  "t_users (notifyPeers cid v (emit e (sendTx env cid v msg type s))) = t_users s"
  by (simp_all add: notifyPeers_def sendToUsers_def emit_def sendTx_def Let_def)

lemma assert_who:
  "assertParticipant sb cid s = Inr (v, p) \<longleftrightarrow> whoIs s sb = Some v \<and> getParticipant s cid v = Some p"
  by (auto simp: assertParticipant_def whoIs_def split: option.splits)

lemma serveChat_step:
  assumes k: "keyed s" and p: "getParticipant s cid uid = Some p"
  shows "partKeys (serveChat cid er s) = partKeys s \<and> t_users (serveChat cid er s) = t_users s \<and>
    (\<exists>q. getParticipant (serveChat cid er s) cid uid = Some q \<and>
      cp_unreadCount q = unreadAfter (whoIs s) (memberOf s cid) uid (snd er) (cp_unreadCount p))"
proof -
  obtain env r where er: "er = (env, r)" by (cases er)
  show ?thesis
  proof (cases r)
    case (Say sb content type)
    show ?thesis
    proof (cases "(trim content = [] \<or> 4000 < length (trim content)) \<or> (\<exists>e. assertParticipant sb cid s = Inl e)")
      case True
      moreover have "unreadAfter (whoIs s) (memberOf s cid) uid r n = n" for n
        using True assert_who [of sb cid s]
        by (fastforce simp: Say unreadAfter_def memberOf_def split: option.split)
      ultimately show ?thesis using p by (auto simp: er Say serveChat_def serveChat_say)
    next
      case False
      then obtain v pv where v: "assertParticipant sb cid s = Inr (v, pv)"
        by (cases "assertParticipant sb cid s") auto
      let ?t = "notifyPeers cid v (emit (PubMessage cid (e_ulid env ForMessage)) (sendTx env cid v (trim content) type s))"
      have t: "serveChat cid er s = ?t" using False v by (auto simp: er Say serveChat_def serveChat_say)
      have "partKeys ?t = partKeys s"
        unfolding partKeys_def say_participants by (rule map_key_updWhere) simp
      moreover have "getParticipant ?t cid uid = Some (if v = uid then p else p\<lparr>cp_unreadCount := cp_unreadCount p + 1\<rparr>)"
        using p unfolding getParticipant_def say_participants
        by (subst findRow_updWhere) (auto dest: findRow_Some_key)
      moreover have "unreadAfter (whoIs s) (memberOf s cid) uid r n = (if v = uid then n else n + 1)" for n
        using False v [unfolded assert_who] by (auto simp: Say unreadAfter_def memberOf_def)
      ultimately show ?thesis unfolding t by (simp add: say_participants er)
    qed
  next
    case (Read sb)
    show ?thesis
    proof (cases "assertParticipant sb cid s")
      case (Inl e)
      have "whoIs s sb \<noteq> Some uid" using Inl p assert_who [of sb cid s uid p] by auto
      with Inl p show ?thesis by (simp add: er Read serveChat_def markRead_def unreadAfter_def)
    next
      case (Inr vp)
      obtain v pv where vp: "vp = (v, pv)" by (cases vp)
      have v: "whoIs s sb = Some v" "getParticipant s cid v = Some pv"
        using Inr vp assert_who by auto
      let ?f = "\<lambda>r. r\<lparr>cp_unreadCount := 0, cp_lastReadAt := Some (e_now env)\<rparr>"
      have t: "serveChat cid er s = s\<lparr>t_participants := updRow cp_key (cid, v) ?f (t_participants s)\<rparr>"
        using Inr vp upd_by_id [OF k v(2)] by (simp add: er Read serveChat_def markRead_def)
      have "partKeys (serveChat cid er s) = partKeys s"
        unfolding t partKeys_def db.select_convs db.simps by (simp add: map_key_updRow)
      moreover have "getParticipant (serveChat cid er s) cid uid = Some (if uid = v then ?f p else p)"
        using p unfolding t getParticipant_def by (cases "uid = v") (simp_all add: findRow_updRow)
      moreover have "t_users (serveChat cid er s) = t_users s" by (simp add: t)
      ultimately show ?thesis using v(1) by (auto simp: er Read unreadAfter_def)
    qed
  qed
qed

text \<open>C12: After any sequence of sends and reads on a conversation, accepted or refused, a
  participant's counter is the number of accepted messages of the other participants since
  that participant's last read (on top of what was unread at the start, if they never read).\<close>

theorem unread_counter_exact:
  assumes "keyed s" and "getParticipant s cid uid = Some p"
  shows "\<exists>q. getParticipant (fold (serveChat cid) ers s) cid uid = Some q \<and>
    cp_unreadCount q = fold (\<lambda>er. unreadAfter (whoIs s) (memberOf s cid) uid (snd er)) ers (cp_unreadCount p)"
  using assms
proof (induction ers arbitrary: s p)
  case Nil
  then show ?case by simp
next
  case (Cons er ers)
  from serveChat_step [OF Cons.prems, of er] obtain q where keys: "partKeys (serveChat cid er s) = partKeys s"
    and us: "t_users (serveChat cid er s) = t_users s"
    and q: "getParticipant (serveChat cid er s) cid uid = Some q"
      "cp_unreadCount q = unreadAfter (whoIs s) (memberOf s cid) uid (snd er) (cp_unreadCount p)"
    by blast
  have "whoIs (serveChat cid er s) = whoIs s" by (simp add: whoIs_def getUserBySupabase_def us fun_eq_iff)
  with Cons.IH [OF _ q(1)] keyed_keys [OF keys] memberOf_keys [OF keys] Cons.prems(1) q(2)
  show ?case by simp
qed

subsection \<open>Paging through the history\<close>

definition history :: "id \<Rightarrow> db \<Rightarrow> message_row list" where
  "history cid s = rev (sort_key m_id (filter (\<lambda>m. m_conversationId m = cid) (t_messages s)))"

lemma history_before: "rev (sort_key m_id (filter (\<lambda>m. m_conversationId m = cid \<and> P m) (t_messages s))) =
    filter P (history cid s)"
  unfolding history_def by (simp add: rev_filter [symmetric] filter_sort conj_commute)

lemma filter_desc_drop:
  assumes "sorted_wrt (\<lambda>m n. m_id n < m_id m) xs" and "k < length xs"
  shows "filter (\<lambda>m. m_id m < m_id (xs ! k)) xs = drop (Suc k) xs"
proof -
  have split: "xs = take k xs @ xs ! k # drop (Suc k) xs" using assms(2) by (rule id_take_nth_drop)
  have s: "sorted_wrt (\<lambda>m n. m_id n < m_id m) (take k xs @ xs ! k # drop (Suc k) xs)"
    using assms(1) split by simp
  have a: "filter (\<lambda>m. m_id m < m_id (xs ! k)) (take k xs) = []"
    using s by (auto simp: sorted_wrt_append filter_empty_conv dest: order.asym)
  have b: "filter (\<lambda>m. m_id m < m_id (xs ! k)) (drop (Suc k) xs) = drop (Suc k) xs"
    using s by (auto simp: sorted_wrt_append)
  have "filter (\<lambda>m. m_id m < m_id (xs ! k)) xs =
      filter (\<lambda>m. m_id m < m_id (xs ! k)) (take k xs @ xs ! k # drop (Suc k) xs)"
    using split by simp
  also have "\<dots> = drop (Suc k) xs" by (simp add: a b)
  finally show ?thesis .
qed

lemma history_strict:
  assumes "distinct (map m_id (t_messages s))"
  shows "sorted_wrt (\<lambda>m n. m_id n < m_id m) (history cid s)"
proof -
  let ?xs = "sort_key m_id (filter (\<lambda>m. m_conversationId m = cid) (t_messages s))"
  have "sorted (map m_id ?xs)" by simp
  moreover have "distinct (map m_id ?xs)"
    using assms by (metis distinct_map_filter distinct_map distinct_sort set_sort)
  ultimately have "sorted_wrt (<) (map m_id ?xs)" by (simp add: strict_sorted_iff)
  then show ?thesis by (simp add: history_def sorted_wrt_rev sorted_wrt_map)
qed

text \<open>Paging through a conversation loses and repeats nothing: the page before the cursor is
  the next stretch of the whole history (newest first), whichever message the cursor names,
  and the page without a cursor is its beginning.\<close>

theorem history_pages:
  assumes "assertParticipant sb cid s = Inr me" and "distinct (map m_id (t_messages s))"
    and "k < length (history cid s)" and "m_id (history cid s ! k) \<noteq> []"
  shows "map_sum id (map pm_row) (listMessages sb cid (Some n) (Some (m_id (history cid s ! k))) s) =
      Inr (take (min n 200) (drop (Suc k) (history cid s))) \<and>
    map_sum id (map pm_row) (listMessages sb cid (Some n) None s) =
      Inr (take (min n 200) (history cid s))"
  using assms history_before [of cid "\<lambda>_. True" s]
    filter_desc_drop [OF history_strict [OF assms(2)] assms(3)]
  by (simp add: listMessages_def Let_def truthy_def history_before o_def)

subsection \<open>Examples\<close>

definition demo_thread :: find_or_create_dto where
  "demo_thread = \<lparr>fc_type = CT_BuyerSeller, fc_peerUserId = Some ''s'', fc_orderId = None,
    fc_storeId = None\<rparr>"

definition chat_db :: db where
  "chat_db = payout_db\<lparr>t_users := [demo_user ''b'' ''bb'' R_Buyer, demo_user ''s'' ''sb'' R_Seller,
     demo_user ''x'' ''xx'' R_Buyer], t_orders := [demo_order ''o'' O_Confirmed F_Delivery]\<rparr>"

definition thread_run :: "(exn, id \<times> conversation_type, db) result" where
  "thread_run = findOrCreate demo_env ''bb'' demo_thread chat_db"

definition thread_db :: db where
  "thread_db = chat_db\<lparr>
     t_conversations := [\<lparr>cv_id = ''cv'', cv_type = CT_BuyerSeller, cv_orderId = None, cv_storeId = None,
        cv_lastMessage = None, cv_lastMessageAt = None\<rparr>],
     t_participants := [newParticipant ''p'' ''cv'' ''b'' P_Buyer, newParticipant ''pp'' ''cv'' ''s'' P_Seller]\<rparr>"

definition demo_message :: "id \<Rightarrow> message_row" where
  "demo_message i = \<lparr>m_id = i, m_conversationId = ''cv'', m_senderId = ''b'', m_content = ''hi'',
     m_messageType = M_Text, m_createdAt = 0\<rparr>"

definition history_db :: db where
  "history_db = thread_db\<lparr>t_messages := [demo_message ''1'', demo_message ''2'', demo_message ''3'']\<rparr>"

lemma thread_run_Inr: "thread_run = (Inr (''cv'', CT_BuyerSeller), snd thread_run)"
  by code_simp

theorem conversations_stay_pairwise_witness:
  "chats_ok (snd (findOrCreate demo_env ''bb'' demo_thread chat_db))"
proof -
  have "chats_ok chat_db" by (simp add: chats_ok_def chat_db_def payout_db_def empty_db_def)
  moreover have "chat_step\<^sup>*\<^sup>* chat_db (snd (findOrCreate demo_env ''bb'' demo_thread chat_db))"
    by (rule r_into_rtranclp, rule chat_step.open) (simp add: chat_db_def payout_db_def empty_db_def)
  ultimately show ?thesis using conversations_stay_pairwise by blast
qed

theorem thread_found_from_both_sides_witness:
  "findOrCreate demo_env ''sb'' (demo_thread\<lparr>fc_peerUserId := Some ''b''\<rparr>) (snd thread_run) =
    (Inr (''cv'', CT_BuyerSeller), snd thread_run)"
  using thread_found_from_both_sides [OF thread_run_Inr [unfolded thread_run_def],
      of "demo_user ''b'' ''bb'' R_Buyer" "''sb''" "demo_user ''s'' ''sb'' R_Seller" demo_env]
  by (simp add: thread_run_def demo_thread_def chat_db_def getUserBySupabase_def payout_db_def empty_db_def)

theorem explicit_peer_skips_order_witness:
  "fst (findOrCreate demo_env ''xx'' \<lparr>fc_type = CT_BuyerDelivery, fc_peerUserId = Some ''b'',
     fc_orderId = Some ''o'', fc_storeId = None\<rparr> chat_db) = Inr (''cv'', CT_BuyerDelivery)"
proof -
  have "getUserBySupabase chat_db ''xx'' = Some (demo_user ''x'' ''xx'' R_Buyer)"
    "getOrder chat_db ''o'' = Some (demo_order ''o'' O_Confirmed F_Delivery)"
    by code_simp+
  from explicit_peer_skips_order [OF this, of "''b''" demo_env] show ?thesis
    by (auto simp: demo_order_def chat_db_def payout_db_def empty_db_def latestDelivery_def getUser_def
        findThread_def demo_env_def)
qed

theorem unread_counter_exact_witness:
  "\<exists>q. getParticipant (fold (serveChat ''cv'') [(demo_env, Say ''bb'' '' one '' M_Text), (demo_env, Say ''bb'' ''  '' M_Text),
      (demo_env, Read ''sb''), (demo_env, Say ''bb'' ''two'' M_Text), (demo_env, Say ''xx'' ''three'' M_Text)] thread_db)
      ''cv'' ''s'' = Some q \<and> cp_unreadCount q = 1"
proof -
  let ?ers = "[(demo_env, Say ''bb'' '' one '' M_Text), (demo_env, Say ''bb'' ''  '' M_Text),
      (demo_env, Read ''sb''), (demo_env, Say ''bb'' ''two'' M_Text), (demo_env, Say ''xx'' ''three'' M_Text)]"
  have k: "keyed thread_db" by (simp add: keyed_def thread_db_def newParticipant_def)
  have p: "getParticipant thread_db ''cv'' ''s'' = Some (newParticipant ''pp'' ''cv'' ''s'' P_Seller)"
    by (simp add: getParticipant_def thread_db_def newParticipant_def)
  have n: "fold (\<lambda>er. unreadAfter (whoIs thread_db) (memberOf thread_db ''cv'') ''s'' (snd er)) ?ers
      (cp_unreadCount (newParticipant ''pp'' ''cv'' ''s'' P_Seller)) = 1"
    by code_simp
  show ?thesis using unread_counter_exact [OF k p, of ?ers] unfolding n .
qed

theorem history_pages_witness:
  "map_sum id (map pm_row) (listMessages ''bb'' ''cv'' (Some 1) (Some ''3'') history_db) = Inr [demo_message ''2'']"
proof -
  have h: "history ''cv'' history_db = [demo_message ''3'', demo_message ''2'', demo_message ''1'']"
    by (simp add: history_def history_db_def demo_message_def)
  have a: "assertParticipant ''bb'' ''cv'' history_db = Inr (''b'', newParticipant ''p'' ''cv'' ''b'' P_Buyer)"
    and d: "distinct (map m_id (t_messages history_db))" by code_simp+
  have i: "m_id (demo_message ''3'') = ''3''" by (simp add: demo_message_def)
  from history_pages [OF a d, of 0 1] show ?thesis by (simp add: h i)
qed

end
