(* ===== verification/Kyc.thy ===== *)
theory Kyc
  imports Listings
begin

section \<open>Identity documents and the onboarding state\<close>

text \<open>
  The seller's and driver's KYC documents (\<open>src/modules/compliance/kyc/kyc-documents.service.ts\<close>),
  the administrators' review of them (\<open>src/modules/admin/kyc/admin-kyc-documents.service.ts\<close>) and
  the onboarding state derived from the tables
  (\<open>src/modules/users/onboarding/onboarding.service.ts\<close>). The signed URL of the storage service
  is a parameter.
\<close>

subsection \<open>Uploading a document\<close>

definition MOTORIZED_VEHICLES :: "vehicle_type list" where
  "MOTORIZED_VEHICLES = [V_Scooter, V_Car]"

definition ID_DOCUMENT_TYPES_REQUIRING_VERSO :: "id_document_type list" where
  "ID_DOCUMENT_TYPES_REQUIRING_VERSO = [ID_CarteIdentite, ID_TitreSejour]"

definition SELLER_ALLOWED :: "kyc_doc_type list" where
  "SELLER_ALLOWED = [KD_IdFront, KD_IdBack, KD_Selfie]"

definition DRIVER_MOTORIZED_ONLY :: "kyc_doc_type list" where
  "DRIVER_MOTORIZED_ONLY = [KD_DrivingLicense, KD_CarteGrise, KD_Insurance]"

record upsert_kyc_dto =
  kd_dtoType :: kyc_doc_type
  kd_dtoFileUrl :: string
  kd_dtoIdType :: "id_document_type option"

text \<open>Which slot the user may fill.\<close>

definition kycSlotCheck :: "user_row \<Rightarrow> kyc_doc_type \<Rightarrow> db \<Rightarrow> exn option" where
  "kycSlotCheck user type s =
    (if u_role user = R_Seller then
       (case getSeller s (u_id user) of
          None \<Rightarrow> Some (BadRequest (Kyc SellerProfileMissing))
        | Some p \<Rightarrow>
            if sp_category p = Some SC_FaitMaison then Some (BadRequest (Kyc FaitMaisonNoKyc))
            else if type \<notin> set SELLER_ALLOWED then Some (BadRequest (Kyc (SellerDocNotAllowed type)))
            else None)
     else
       (case getDriver s (u_id user) of
          None \<Rightarrow> Some (BadRequest (Kyc DriverProfileMissing))
        | Some p \<Rightarrow>
            if type \<in> set DRIVER_MOTORIZED_ONLY then
              (case dp_vehicleType p of
                 None \<Rightarrow> Some (BadRequest (Kyc VehicleTypeFirst))
               | Some v \<Rightarrow> if v \<notin> set MOTORIZED_VEHICLES then Some (BadRequest (Kyc (MotorizedOnly type)))
                           else None)
            else None))"

definition kycCheck :: "id \<Rightarrow> upsert_kyc_dto \<Rightarrow> db \<Rightarrow> exn + user_row" where
  "kycCheck supabaseId dto s =
    (case getUserBySupabase s supabaseId of None \<Rightarrow> Inl (NotFound UserProfile) | Some user \<Rightarrow>
     if u_role user \<noteq> R_Seller \<and> u_role user \<noteq> R_Driver then Inl (Forbidden (Kyc KycRolesOnly))
     else (case kycSlotCheck user (kd_dtoType dto) s of
       Some e \<Rightarrow> Inl e
     | None \<Rightarrow>
         if kd_dtoType dto \<in> {KD_IdFront, KD_IdBack} \<and> kd_dtoIdType dto = None
         then Inl (BadRequest (Kyc IdTypeRequired)) else Inr user))"

text \<open>The upsert on \<open>(userId, type)\<close>.\<close>

definition freshDoc :: "env \<Rightarrow> id \<Rightarrow> upsert_kyc_dto \<Rightarrow> kyc_doc_row" where
  "freshDoc env userId dto = \<lparr>kd_id = e_ulid env ForKycDoc, kd_userId = userId,
     kd_type = kd_dtoType dto, kd_fileUrl = kd_dtoFileUrl dto, kd_reviewState = K_Pending,
     kd_reviewerId = None, kd_reviewedAt = None, kd_rejectionReason = None,
     kd_metadata = kd_dtoIdType dto, kd_submittedAt = e_now env\<rparr>"

definition replacedDoc :: "env \<Rightarrow> upsert_kyc_dto \<Rightarrow> kyc_doc_row \<Rightarrow> kyc_doc_row" where
  "replacedDoc env dto d = d\<lparr>kd_fileUrl := kd_dtoFileUrl dto, kd_reviewState := K_Pending,
     kd_rejectionReason := None, kd_reviewerId := None, kd_reviewedAt := None,
     kd_metadata := kd_dtoIdType dto, kd_submittedAt := e_now env\<rparr>"

definition slotOf :: "kyc_doc_row \<Rightarrow> id \<times> kyc_doc_type" where
  "slotOf d = (kd_userId d, kd_type d)"

definition upsertDoc :: "env \<Rightarrow> id \<Rightarrow> upsert_kyc_dto \<Rightarrow> db \<Rightarrow> db" where
  "upsertDoc env userId dto s =
    (if findRow slotOf (userId, kd_dtoType dto) (t_kycDocs s) = None
     then s\<lparr>t_kycDocs := t_kycDocs s @ [freshDoc env userId dto]\<rparr>
     else s\<lparr>t_kycDocs := updRow slotOf (userId, kd_dtoType dto) (replacedDoc env dto) (t_kycDocs s)\<rparr>)"

text \<open>A REJECTED role profile goes back to PENDING; an APPROVED one stays.\<close>

definition reopenProfile :: "user_row \<Rightarrow> db \<Rightarrow> db" where
  "reopenProfile user s =
    (let pend = (\<lambda>k. if k = K_Rejected then K_Pending else k) in
     if u_role user = R_Seller
     then updSeller (u_id user) (\<lambda>p. p\<lparr>sp_kycStatus := pend (sp_kycStatus p)\<rparr>) s
     else updDriver (u_id user) (\<lambda>p. p\<lparr>dp_kycStatus := pend (dp_kycStatus p)\<rparr>) s)"

definition kycUpsert :: "env \<Rightarrow> id \<Rightarrow> upsert_kyc_dto \<Rightarrow> db \<Rightarrow> (exn, kyc_doc_row, db) result" where
  "kycUpsert env supabaseId dto s =
    bindR (liftE (kycCheck supabaseId dto s) s) (\<lambda>user s.
      let s1 = upsertDoc env (u_id user) dto s
      in ok (the (findRow slotOf (u_id user, kd_dtoType dto) (t_kycDocs s1))) (reopenProfile user s1))"

definition kycIndex :: "kyc_doc_type \<Rightarrow> nat" where
  "kycIndex t = (case t of KD_IdFront \<Rightarrow> 0 | KD_IdBack \<Rightarrow> 1 | KD_Selfie \<Rightarrow> 2 | KD_DrivingLicense \<Rightarrow> 3
     | KD_CarteGrise \<Rightarrow> 4 | KD_Insurance \<Rightarrow> 5)"

text \<open>\<open>orderBy: { type: 'asc' }\<close> sorts by the position in the enumeration.\<close>

definition kycListForUser :: "id \<Rightarrow> db \<Rightarrow> exn + kyc_doc_row list" where
  "kycListForUser supabaseId s =
    (case getUserBySupabase s supabaseId of None \<Rightarrow> Inl (NotFound UserProfile) | Some user \<Rightarrow>
     Inr (sort_key (\<lambda>d. kycIndex (kd_type d)) (filter (\<lambda>d. kd_userId d = u_id user) (t_kycDocs s))))"

subsection \<open>Review by an administrator\<close>

record kyc_page =
  kp_items :: "(kyc_doc_row \<times> user_row option) list"
  kp_limit :: nat
  kp_offset :: nat
  kp_hasMore :: bool

definition adminKycList :: "kyc_status option \<Rightarrow> kyc_doc_type option \<Rightarrow> nat option \<Rightarrow> nat option
    \<Rightarrow> db \<Rightarrow> kyc_page" where
  "adminKycList state type lmt off s =
    (let reviewState = (case state of None \<Rightarrow> K_Pending | Some st \<Rightarrow> st);
         n = (case lmt of None \<Rightarrow> 20 | Some l \<Rightarrow> l);
         k = (case off of None \<Rightarrow> 0 | Some o1 \<Rightarrow> o1);
         matching = filter (\<lambda>d. kd_reviewState d = reviewState \<and>
           (case type of None \<Rightarrow> True | Some ty \<Rightarrow> kd_type d = ty)) (t_kycDocs s);
         sorted = (if reviewState = K_Pending then sort_key kd_submittedAt matching
                   else sort_key (\<lambda>d. - kd_submittedAt d) matching);
         rows = take (n + 1) (drop k sorted); hasMore = n < length rows
     in \<lparr>kp_items = map (\<lambda>d. (d, getUser s (kd_userId d))) (if hasMore then take n rows else rows),
         kp_limit = n, kp_offset = k, kp_hasMore = hasMore\<rparr>)"

text \<open>The stored key without the bucket's prefix, signed by the storage service.\<close>

definition signOrThrow :: "(string \<Rightarrow> string \<Rightarrow> string option) \<Rightarrow> string \<Rightarrow> string \<Rightarrow> exn + string" where
  "signOrThrow sign bucket stored =
    (let prefix = bucket @ ''/'';
         path = (if startsWith stored prefix then drop (length prefix) stored else stored)
     in case sign bucket path of
          None \<Rightarrow> Inl (InternalError (Kyc SignFailed))
        | Some url \<Rightarrow> if url = [] then Inl (InternalError (Kyc SignFailed)) else Inr url)"

definition adminKycFind :: "(string \<Rightarrow> string \<Rightarrow> string option) \<Rightarrow> string \<Rightarrow> id \<Rightarrow> db
    \<Rightarrow> exn + (kyc_doc_row \<times> user_row option \<times> business_row option \<times> string)" where
  "adminKycFind sign bucket i s =
    (case findRow kd_id i (t_kycDocs s) of
       None \<Rightarrow> Inl (NotFound AKycDocument)
     | Some d \<Rightarrow> (case signOrThrow sign bucket (kd_fileUrl d) of Inl e \<Rightarrow> Inl e | Inr url \<Rightarrow>
         Inr (d, getUser s (kd_userId d),
           (if getSeller s (kd_userId d) = None then None
            else findRow bu_userId (kd_userId d) (t_businesses s)), url)))"

definition aggregateState :: "kyc_status list \<Rightarrow> kyc_status" where
  "aggregateState states =
    (if K_Rejected \<in> set states then K_Rejected
     else if K_Pending \<in> set states then K_Pending
     else if states = [] then K_Pending
     else K_Approved)"

definition mirrorKyc :: "user_row \<Rightarrow> kyc_status \<Rightarrow> db \<Rightarrow> db" where
  "mirrorKyc user agg s =
    (if u_role user = R_Seller then updSeller (u_id user) (\<lambda>p. p\<lparr>sp_kycStatus := agg\<rparr>) s
     else if u_role user = R_Driver then updDriver (u_id user) (\<lambda>p. p\<lparr>dp_kycStatus := agg\<rparr>) s
     else s)"

definition statesOf :: "id \<Rightarrow> db \<Rightarrow> kyc_status list" where
  "statesOf userId s = uniq (map kd_reviewState (filter (\<lambda>d. kd_userId d = userId) (t_kycDocs s)))"

definition reviewDoc :: "env \<Rightarrow> id \<Rightarrow> kyc_status \<Rightarrow> string option \<Rightarrow> kyc_doc_row \<Rightarrow> kyc_doc_row" where
  "reviewDoc env reviewer newState why d = d\<lparr>kd_reviewState := newState, kd_rejectionReason := why,
     kd_reviewerId := Some reviewer, kd_reviewedAt := Some (e_now env)\<rparr>"

definition transitionStatus :: "env \<Rightarrow> id \<Rightarrow> id \<Rightarrow> kyc_status \<Rightarrow> string option \<Rightarrow> string \<Rightarrow> db
    \<Rightarrow> (exn, kyc_doc_row, db) result" where
  "transitionStatus env documentId reviewerSupabaseId newState why action s =
    (case getUserBySupabase s reviewerSupabaseId of None \<Rightarrow> fail (NotFound AReviewer) s | Some reviewer \<Rightarrow>
     (case findRow kd_id documentId (t_kycDocs s) of None \<Rightarrow> fail (NotFound AKycDocument) s | Some existing \<Rightarrow>
      if kd_reviewState existing = newState
      then fail (Conflict (Kyc (DocAlreadyIn (kd_reviewState existing)))) s
      else
        let f = reviewDoc env (u_id reviewer) newState why;
            s1 = s\<lparr>t_kycDocs := updRow kd_id documentId f (t_kycDocs s)\<rparr>;
            agg = aggregateState (statesOf (kd_userId existing) s1);
            s2 = (case getUser s (kd_userId existing) of None \<Rightarrow> s1 | Some user \<Rightarrow> mirrorKyc user agg s1)
        in ok (f existing) (auditRecord (Some (u_id reviewer)) action (kd_id existing) s2)))"

definition kycApprove :: "env \<Rightarrow> id \<Rightarrow> id \<Rightarrow> db \<Rightarrow> (exn, kyc_doc_row, db) result" where
  "kycApprove env documentId reviewer s =
    transitionStatus env documentId reviewer K_Approved None ''kyc.approve'' s"

definition kycReject :: "env \<Rightarrow> id \<Rightarrow> id \<Rightarrow> string \<Rightarrow> db \<Rightarrow> (exn, kyc_doc_row, db) result" where
  "kycReject env documentId reviewer why s =
    transitionStatus env documentId reviewer K_Rejected (Some why) ''kyc.reject'' s"

subsection \<open>The onboarding state\<close>

datatype step_status = Complete | Incomplete | Skipped | PendingReview

datatype step_key =
  St_Addresses | St_Preferences | St_Profile | St_Business | St_Cuisines | St_KycId | St_KycSelfie
  | St_Charter | St_Vehicle | St_Zones | St_Documents

definition BUYER_ORDER :: "step_key list" where
  "BUYER_ORDER = [St_Addresses, St_Preferences]"

definition SELLER_ORDER :: "step_key list" where
  "SELLER_ORDER = [St_Profile, St_Addresses, St_Business, St_Cuisines, St_KycId, St_KycSelfie, St_Charter]"

definition DRIVER_ORDER :: "step_key list" where
  "DRIVER_ORDER = [St_Addresses, St_Vehicle, St_Zones, St_KycId, St_KycSelfie, St_Documents, St_Charter]"

record onboarding_state =
  os_role :: user_role
  os_next :: "step_key option"
  os_steps :: "(step_key \<times> step_status) list"
  os_kycReviewState :: "kyc_status option"
  os_canList :: "bool option"
  os_canDeliver :: "bool option"

primrec firstIncomplete :: "step_key list \<Rightarrow> (step_key \<times> step_status) list \<Rightarrow> step_key option" where
  "firstIncomplete [] steps = None"
| "firstIncomplete (k # ks) steps =
    (if map_of steps k = Some Incomplete then Some k else firstIncomplete ks steps)"

definition aggregateStepStatuses :: "step_status list \<Rightarrow> step_status" where
  "aggregateStepStatuses slots =
    (if Incomplete \<in> set slots then Incomplete
     else if PendingReview \<in> set slots then PendingReview else Complete)"

definition docOf :: "kyc_doc_type \<Rightarrow> kyc_doc_row list \<Rightarrow> kyc_doc_row option" where
  "docOf type docs = List.find (\<lambda>d. kd_type d = type) docs"

definition derivSlotStatus :: "kyc_doc_row list \<Rightarrow> kyc_doc_type \<Rightarrow> step_status" where
  "derivSlotStatus docs slot =
    (case docOf slot docs of
       None \<Rightarrow> Incomplete
     | Some d \<Rightarrow> if kd_reviewState d = K_Rejected then Incomplete
                 else if kd_reviewState d = K_Pending then PendingReview else Complete)"

definition derivKycIdStatus :: "kyc_doc_row list \<Rightarrow> step_status" where
  "derivKycIdStatus docs =
    (case docOf KD_IdFront docs of
       None \<Rightarrow> Incomplete
     | Some front \<Rightarrow>
         if kd_reviewState front = K_Rejected then Incomplete
         else
           let requiresVerso = (case kd_metadata front of None \<Rightarrow> False
                 | Some t \<Rightarrow> t \<in> set ID_DOCUMENT_TYPES_REQUIRING_VERSO);
               slot = (\<lambda>d. if kd_reviewState d = K_Pending then PendingReview else Complete)
           in if requiresVerso then
                (case docOf KD_IdBack docs of
                   None \<Rightarrow> Incomplete
                 | Some back \<Rightarrow> if kd_reviewState back = K_Rejected then Incomplete
                                else aggregateStepStatuses [slot front, slot back])
              else aggregateStepStatuses [slot front])"

definition charterStatus :: "id \<Rightarrow> charter_kind list \<Rightarrow> db \<Rightarrow> step_status" where
  "charterStatus userId required s =
    (if list_all (\<lambda>c. list_ex (\<lambda>r. uc_userId r = userId \<and> uc_charter r = c \<and>
          uc_version r = ACTIVE_CHARTER_VERSIONS c) (t_charters s)) required
     then Complete else Incomplete)"

definition hasAddress :: "id \<Rightarrow> address_kind \<Rightarrow> db \<Rightarrow> bool" where
  "hasAddress userId kind s \<longleftrightarrow>
    list_ex (\<lambda>a. ad_userId a = userId \<and> ad_kind a = kind \<and> ad_deletedAt a = None) (t_addresses s)"

definition docsOf :: "id \<Rightarrow> db \<Rightarrow> kyc_doc_row list" where
  "docsOf userId s = filter (\<lambda>d. kd_userId d = userId) (t_kycDocs s)"

definition doneIf :: "bool \<Rightarrow> step_status" where
  "doneIf b = (if b then Complete else Incomplete)"

definition buyerState :: "id \<Rightarrow> db \<Rightarrow> onboarding_state" where
  "buyerState userId s =
    (let touched = (case getBuyerProfile s userId of None \<Rightarrow> False
           | Some p \<Rightarrow> bp_createdAt p < bp_updatedAt p \<or> bp_dietaryPreferences p \<noteq> [] \<or> bp_allergies p \<noteq> []);
         steps = [(St_Addresses, doneIf (hasAddress userId AK_BuyerDelivery s)),
                  (St_Preferences, doneIf touched)]
     in \<lparr>os_role = R_Buyer, os_next = firstIncomplete BUYER_ORDER steps, os_steps = steps,
         os_kycReviewState = None, os_canList = None, os_canDeliver = None\<rparr>)"

definition sellerSteps :: "id \<Rightarrow> seller_row \<Rightarrow> db \<Rightarrow> (step_key \<times> step_status) list" where
  "sellerSteps userId p s =
    (let docs = docsOf userId s; isFaitMaison = (sp_category p = Some SC_FaitMaison) in
     [(St_Profile, doneIf (truthy (sp_displayName p) \<and> truthy (sp_profilePhotoUrl p) \<and>
         sp_dateOfBirth p \<noteq> None \<and> sp_category p \<noteq> None)),
      (St_Addresses, doneIf (hasAddress userId AK_SellerPickup s)),
      (St_Business, if isFaitMaison then Skipped
         else doneIf (findRow bu_userId userId (t_businesses s) \<noteq> None)),
      (St_Cuisines, doneIf (list_ex (\<lambda>c. sc_userId c = userId) (t_sellerCuisines s))),
      (St_KycId, if isFaitMaison then Skipped else derivKycIdStatus docs),
      (St_KycSelfie, if isFaitMaison then Skipped else derivSlotStatus docs KD_Selfie),
      (St_Charter, charterStatus userId
         (if isFaitMaison then [Ch_Hygiene, Ch_FaitMaison] else [Ch_Hygiene]) s)])"

definition allDone :: "(step_key \<times> step_status) list \<Rightarrow> bool" where
  "allDone steps \<longleftrightarrow> list_all (\<lambda>st. snd st \<in> {Complete, Skipped}) steps"

definition sellerState :: "id \<Rightarrow> seller_row \<Rightarrow> db \<Rightarrow> onboarding_state" where
  "sellerState userId p s =
    (let steps = sellerSteps userId p s in
     \<lparr>os_role = R_Seller, os_next = firstIncomplete SELLER_ORDER steps, os_steps = steps,
       os_kycReviewState = Some (sp_kycStatus p),
       os_canList = Some (allDone steps \<and> sp_kycStatus p = K_Approved), os_canDeliver = None\<rparr>)"

definition documentsStatus :: "driver_row \<Rightarrow> kyc_doc_row list \<Rightarrow> step_status" where
  "documentsStatus p docs =
    (case dp_vehicleType p of
       None \<Rightarrow> Incomplete
     | Some v \<Rightarrow> if v \<notin> set MOTORIZED_VEHICLES then Skipped
                 else aggregateStepStatuses
                   [derivSlotStatus docs KD_DrivingLicense, derivSlotStatus docs KD_CarteGrise])"

definition driverSteps :: "id \<Rightarrow> driver_row \<Rightarrow> db \<Rightarrow> (step_key \<times> step_status) list" where
  "driverSteps userId p s =
    (let docs = docsOf userId s in
     [(St_Addresses, doneIf (hasAddress userId AK_DriverHome s)),
      (St_Vehicle, doneIf (dp_vehicleType p \<noteq> None \<and> dp_dateOfBirth p \<noteq> None)),
      (St_Zones, doneIf (list_ex (\<lambda>z. dz_userId z = userId) (t_driverZones s))),
      (St_KycId, derivKycIdStatus docs),
      (St_KycSelfie, derivSlotStatus docs KD_Selfie),
      (St_Documents, documentsStatus p docs),
      (St_Charter, charterStatus userId [Ch_Punctuality, Ch_Care] s)])"

definition driverState :: "id \<Rightarrow> driver_row \<Rightarrow> db \<Rightarrow> onboarding_state" where
  "driverState userId p s =
    (let steps = driverSteps userId p s in
     \<lparr>os_role = R_Driver, os_next = firstIncomplete DRIVER_ORDER steps, os_steps = steps,
       os_kycReviewState = Some (dp_kycStatus p), os_canList = None,
       os_canDeliver = Some (allDone steps \<and> dp_kycStatus p = K_Approved)\<rparr>)"

definition getOnboardingState :: "id \<Rightarrow> db \<Rightarrow> exn + onboarding_state" where
  "getOnboardingState supabaseId s =
    (case getUserBySupabase s supabaseId of None \<Rightarrow> Inl (NotFound UserProfile) | Some user \<Rightarrow>
     (case u_role user of
        R_Buyer \<Rightarrow> Inr (buyerState (u_id user) s)
      | R_Seller \<Rightarrow> (case getSeller s (u_id user) of
            None \<Rightarrow> Inl (Forbidden (Kyc RoleProfileMissing)) | Some p \<Rightarrow> Inr (sellerState (u_id user) p s))
      | R_Driver \<Rightarrow> (case getDriver s (u_id user) of
            None \<Rightarrow> Inl (Forbidden (Kyc RoleProfileMissing)) | Some p \<Rightarrow> Inr (driverState (u_id user) p s))
      | _ \<Rightarrow> Inl (Forbidden (Kyc OnboardingRolesOnly))))"

subsection \<open>What the onboarding state says\<close>

text \<open>The reference: an approved document in a slot, an accepted charter.\<close>

definition approvedSlot :: "kyc_doc_type \<Rightarrow> kyc_doc_row list \<Rightarrow> bool" where
  "approvedSlot slot docs \<longleftrightarrow> (\<exists>d. docOf slot docs = Some d \<and> kd_reviewState d = K_Approved)"

definition identityApproved :: "kyc_doc_row list \<Rightarrow> bool" where
  "identityApproved docs \<longleftrightarrow> approvedSlot KD_IdFront docs \<and>
    ((\<exists>d t. docOf KD_IdFront docs = Some d \<and> kd_metadata d = Some t \<and> t \<in> {ID_CarteIdentite, ID_TitreSejour})
      \<longrightarrow> approvedSlot KD_IdBack docs)"

definition acceptedCharter :: "id \<Rightarrow> charter_kind \<Rightarrow> db \<Rightarrow> bool" where
  "acceptedCharter userId c s \<longleftrightarrow>
    (\<exists>r \<in> set (t_charters s). uc_userId r = userId \<and> uc_charter r = c \<and> uc_version r = ''v1.0'')"

lemma kyc_status_cases: "x = K_Approved \<or> x = K_Pending \<or> x = K_Rejected"
  by (cases x) auto

lemma derivSlot_done: "derivSlotStatus docs slot \<in> {Complete, Skipped} \<longleftrightarrow> approvedSlot slot docs"
  using kyc_status_cases
  by (auto simp: derivSlotStatus_def approvedSlot_def split: option.split)

lemma derivKycId_done: "derivKycIdStatus docs \<in> {Complete, Skipped} \<longleftrightarrow> identityApproved docs"
proof (cases "docOf KD_IdFront docs")
  case None
  then show ?thesis by (simp add: derivKycIdStatus_def identityApproved_def approvedSlot_def)
next
  case (Some front)
  define verso where "verso = (\<exists>t. kd_metadata front = Some t \<and> t \<in> {ID_CarteIdentite, ID_TitreSejour})"
  have v: "(case kd_metadata front of None \<Rightarrow> False | Some t \<Rightarrow> t \<in> set ID_DOCUMENT_TYPES_REQUIRING_VERSO) = verso"
    by (simp add: verso_def ID_DOCUMENT_TYPES_REQUIRING_VERSO_def split: option.split)
  have r: "identityApproved docs \<longleftrightarrow> kd_reviewState front = K_Approved \<and> (verso \<longrightarrow> approvedSlot KD_IdBack docs)"
    using Some by (auto simp: identityApproved_def approvedSlot_def verso_def)
  show ?thesis
    unfolding r derivKycIdStatus_def Some option.case(2) Let_def v
    using kyc_status_cases [of "kd_reviewState front"]
      kyc_status_cases [of "kd_reviewState (the (docOf KD_IdBack docs))"]
    by (cases "docOf KD_IdBack docs") (auto simp: aggregateStepStatuses_def approvedSlot_def)
qed

lemma charter_done: "charterStatus userId cs s \<in> {Complete, Skipped} \<longleftrightarrow> (\<forall>c \<in> set cs. acceptedCharter userId c s)"
proof -
  have "ACTIVE_CHARTER_VERSIONS c = ''v1.0''" for c
    by (cases c) (simp_all add: ACTIVE_CHARTER_VERSIONS_def)
  then show ?thesis
    by (auto simp: charterStatus_def acceptedCharter_def list_all_iff list_ex_iff)
qed

lemma doneIf_done: "doneIf b \<in> {Complete, Skipped} \<longleftrightarrow> b"
  by (simp add: doneIf_def)

lemma sellerSteps_done:
  "allDone (sellerSteps userId p s) \<longleftrightarrow>
    (truthy (sp_displayName p) \<and> truthy (sp_profilePhotoUrl p) \<and> sp_dateOfBirth p \<noteq> None \<and> sp_category p \<noteq> None) \<and>
    hasAddress userId AK_SellerPickup s \<and> list_ex (\<lambda>c. sc_userId c = userId) (t_sellerCuisines s) \<and>
    acceptedCharter userId Ch_Hygiene s \<and>
    (if sp_category p = Some SC_FaitMaison then acceptedCharter userId Ch_FaitMaison s
     else findRow bu_userId userId (t_businesses s) \<noteq> None \<and> identityApproved (docsOf userId s) \<and>
       approvedSlot KD_Selfie (docsOf userId s))"
  by (cases "sp_category p = Some SC_FaitMaison")
    (simp_all add: allDone_def sellerSteps_def Let_def doneIf_done derivSlot_done [simplified] derivKycId_done [simplified]
      charter_done [simplified] doneIf_done [simplified] conj_ac)

lemma firstIncomplete_None:
  "firstIncomplete ks steps = None \<longleftrightarrow> (\<forall>k \<in> set ks. map_of steps k \<noteq> Some Incomplete)"
  by (induction ks) auto

text \<open>C14: The seller's \<open>canList\<close> is exactly: the profile is APPROVED and complete, there is a live
  pickup address and a cuisine, the hygiene charter is accepted in its current version, and
  either the seller is fait-maison with that charter too, or the business, the identity
  document (with its back where the kind has one) and the selfie are there and approved. A
  seller who may list has no next step.\<close>

theorem seller_can_list_iff:
  assumes "getUserBySupabase s sb = Some u" and "u_role u = R_Seller" and "getSeller s (u_id u) = Some p"
  shows "\<exists>st. getOnboardingState sb s = Inr st \<and>
    (os_canList st = Some True \<longleftrightarrow> sp_kycStatus p = K_Approved \<and>
      (truthy (sp_displayName p) \<and> truthy (sp_profilePhotoUrl p) \<and> sp_dateOfBirth p \<noteq> None \<and> sp_category p \<noteq> None) \<and>
      hasAddress (u_id u) AK_SellerPickup s \<and> list_ex (\<lambda>c. sc_userId c = u_id u) (t_sellerCuisines s) \<and>
      acceptedCharter (u_id u) Ch_Hygiene s \<and>
      (if sp_category p = Some SC_FaitMaison then acceptedCharter (u_id u) Ch_FaitMaison s
       else findRow bu_userId (u_id u) (t_businesses s) \<noteq> None \<and> identityApproved (docsOf (u_id u) s) \<and>
         approvedSlot KD_Selfie (docsOf (u_id u) s))) \<and>
    (os_canList st = Some True \<longrightarrow> os_next st = None)"
proof -
  let ?st = "sellerState (u_id u) p s"
  have run: "getOnboardingState sb s = Inr ?st" using assms by (simp add: getOnboardingState_def)
  have "os_next ?st = None" if "allDone (sellerSteps (u_id u) p s)"
  proof -
    have "map_of (sellerSteps (u_id u) p s) k \<noteq> Some Incomplete" for k
      using that map_of_SomeD [of "sellerSteps (u_id u) p s" k Incomplete]
      by (fastforce simp: allDone_def list_all_iff)
    then show ?thesis by (simp add: sellerState_def Let_def firstIncomplete_None)
  qed
  with run show ?thesis
    by (intro exI [of _ ?st]) (auto simp: sellerState_def Let_def sellerSteps_done simp del: firstIncomplete.simps)
qed

subsection \<open>What a review does\<close>

text \<open>The status a user's documents amount to.\<close>

definition verdict :: "kyc_doc_row list \<Rightarrow> kyc_status" where
  "verdict docs = (if \<exists>d \<in> set docs. kd_reviewState d = K_Rejected then K_Rejected
     else if docs = [] \<or> (\<exists>d \<in> set docs. kd_reviewState d = K_Pending) then K_Pending else K_Approved)"

lemma aggregate_verdict: "aggregateState (statesOf userId s) = verdict (docsOf userId s)"
  by (auto simp: aggregateState_def statesOf_def verdict_def docsOf_def image_iff)

lemma transition_Inr:
  assumes "transitionStatus env did adm st why act s = (Inr d, t)"
  obtains reviewer existing where "getUserBySupabase s adm = Some reviewer"
    "findRow kd_id did (t_kycDocs s) = Some existing" "kd_reviewState existing \<noteq> st"
    "d = reviewDoc env (u_id reviewer) st why existing"
    "t = auditRecord (Some (u_id reviewer)) act (kd_id existing)
      (case getUser s (kd_userId existing) of
         None \<Rightarrow> s\<lparr>t_kycDocs := updRow kd_id did (reviewDoc env (u_id reviewer) st why) (t_kycDocs s)\<rparr>
       | Some user \<Rightarrow> mirrorKyc user (verdict (docsOf (kd_userId existing)
           (s\<lparr>t_kycDocs := updRow kd_id did (reviewDoc env (u_id reviewer) st why) (t_kycDocs s)\<rparr>)))
           (s\<lparr>t_kycDocs := updRow kd_id did (reviewDoc env (u_id reviewer) st why) (t_kycDocs s)\<rparr>))"
  using assms
  by (auto simp: transitionStatus_def Let_def aggregate_verdict fail_eq_iff ok_eq_iff split: option.splits if_splits)

lemma mirrorKyc_docs [simp]:
  "t_kycDocs (mirrorKyc u k s) = t_kycDocs s" "t_kycDocs (auditRecord a b c s) = t_kycDocs s"
  by (simp_all add: mirrorKyc_def updSeller_def updDriver_def auditRecord_def)

lemma getSeller_auditRecord [simp]: "getSeller (auditRecord a b c s) = getSeller s"
  "getDriver (auditRecord a b c s) = getDriver s"
  by (simp_all add: getSeller_def getDriver_def auditRecord_def fun_eq_iff)

lemma getSeller_kycDocs [simp]: "getSeller (s\<lparr>t_kycDocs := x\<rparr>) = getSeller s"
  "getDriver (s\<lparr>t_kycDocs := x\<rparr>) = getDriver s" "getUser (s\<lparr>t_kycDocs := x\<rparr>) = getUser s"
  by (simp_all add: getSeller_def getDriver_def getUser_def fun_eq_iff)

lemma getDriver_updSeller [simp]: "getDriver (updSeller i f s) = getDriver s"
  by (simp add: getDriver_def updSeller_def fun_eq_iff)

lemma getSeller_updDriver [simp]: "getSeller (updDriver i f s) = getSeller s"
  by (simp add: getSeller_def updDriver_def fun_eq_iff)

lemma mirrorKyc_profiles:
  "getSeller (mirrorKyc u k s) j = map_option (\<lambda>p. if u_role u = R_Seller \<and> j = u_id u
     then p\<lparr>sp_kycStatus := k\<rparr> else p) (getSeller s j)"
  "getDriver (mirrorKyc u k s) j = map_option (\<lambda>p. if u_role u = R_Driver \<and> j = u_id u
     then p\<lparr>dp_kycStatus := k\<rparr> else p) (getDriver s j)"
  by (cases "j = u_id u"; simp add: mirrorKyc_def sel.get_put drv.get_put option.map_ident)+

lemma review_run:
  assumes run: "transitionStatus env did adm st w act s = (Inr d, t)" and own: "getUser s (kd_userId d) = Some u"
  shows "\<exists>reviewer old. findRow kd_id did (t_kycDocs s) = Some old \<and> kd_reviewState old \<noteq> st \<and>
      d = reviewDoc env reviewer st w old \<and>
      t_kycDocs t = updRow kd_id did (reviewDoc env reviewer st w) (t_kycDocs s)"
    and "getSeller t j = map_option (\<lambda>p. if u_role u = R_Seller \<and> j = u_id u
      then p\<lparr>sp_kycStatus := verdict (docsOf (u_id u) t)\<rparr> else p) (getSeller s j)"
    and "getDriver t j = map_option (\<lambda>p. if u_role u = R_Driver \<and> j = u_id u
      then p\<lparr>dp_kycStatus := verdict (docsOf (u_id u) t)\<rparr> else p) (getDriver s j)"
    and "getUser t = getUser s" "getUserBySupabase t = getUserBySupabase s"
proof -
  obtain reviewer existing where "getUserBySupabase s adm = Some reviewer" and x: "findRow kd_id did (t_kycDocs s) = Some existing"
      "kd_reviewState existing \<noteq> st" "d = reviewDoc env (u_id reviewer) st w existing"
    and t: "t = auditRecord (Some (u_id reviewer)) act (kd_id existing)
      (case getUser s (kd_userId existing) of
         None \<Rightarrow> s\<lparr>t_kycDocs := updRow kd_id did (reviewDoc env (u_id reviewer) st w) (t_kycDocs s)\<rparr>
       | Some user \<Rightarrow> mirrorKyc user (verdict (docsOf (kd_userId existing)
           (s\<lparr>t_kycDocs := updRow kd_id did (reviewDoc env (u_id reviewer) st w) (t_kycDocs s)\<rparr>)))
           (s\<lparr>t_kycDocs := updRow kd_id did (reviewDoc env (u_id reviewer) st w) (t_kycDocs s)\<rparr>))"
    using run by (rule transition_Inr)
  let ?f = "reviewDoc env (u_id reviewer) st w"
  have own': "kd_userId existing = kd_userId d" "u_id u = kd_userId d"
    using x(3) own by (auto simp: reviewDoc_def dest: usr.get_key)
  have docs: "t_kycDocs t = updRow kd_id did ?f (t_kycDocs s)"
    using own own' by (simp add: t)
  with x show "\<exists>reviewer old. findRow kd_id did (t_kycDocs s) = Some old \<and> kd_reviewState old \<noteq> st \<and>
      d = reviewDoc env reviewer st w old \<and>
      t_kycDocs t = updRow kd_id did (reviewDoc env reviewer st w) (t_kycDocs s)" by blast
  have "docsOf (kd_userId existing) (s\<lparr>t_kycDocs := updRow kd_id did ?f (t_kycDocs s)\<rparr>) = docsOf (u_id u) t"
    by (simp add: docsOf_def docs own')
  then have t': "t = auditRecord (Some (u_id reviewer)) act (kd_id existing)
      (mirrorKyc u (verdict (docsOf (u_id u) t)) (s\<lparr>t_kycDocs := updRow kd_id did ?f (t_kycDocs s)\<rparr>))"
    using t own own' by simp
  show "getSeller t j = map_option (\<lambda>p. if u_role u = R_Seller \<and> j = u_id u
      then p\<lparr>sp_kycStatus := verdict (docsOf (u_id u) t)\<rparr> else p) (getSeller s j)"
    "getDriver t j = map_option (\<lambda>p. if u_role u = R_Driver \<and> j = u_id u
      then p\<lparr>dp_kycStatus := verdict (docsOf (u_id u) t)\<rparr> else p) (getDriver s j)"
    by (subst t', simp add: mirrorKyc_profiles)+
  have "t_users t = t_users s"
    by (simp add: t auditRecord_def mirrorKyc_def updSeller_def updDriver_def split: option.split)
  then show "getUser t = getUser s" "getUserBySupabase t = getUserBySupabase s"
    by (simp_all add: getUser_def getUserBySupabase_def fun_eq_iff)
qed

text \<open>An accepted review decision rewrites the one document and mirrors the verdict over all
  documents of its owner in the profile of the owner's role: REJECTED if one is rejected,
  else PENDING if one is pending, else APPROVED. No other profile changes.\<close>

theorem review_mirrors_documents:
  assumes "r = kycApprove env did adm s \<or> r = kycReject env did adm why s" and "r = (Inr d, t)"
    and "getUser s (kd_userId d) = Some u"
  shows "map_option sp_kycStatus (getSeller t (u_id u)) = map_option (\<lambda>p. if u_role u = R_Seller
      then verdict (docsOf (u_id u) t) else sp_kycStatus p) (getSeller s (u_id u)) \<and>
    map_option dp_kycStatus (getDriver t (u_id u)) = map_option (\<lambda>p. if u_role u = R_Driver
      then verdict (docsOf (u_id u) t) else dp_kycStatus p) (getDriver s (u_id u)) \<and>
    (\<forall>j. j \<noteq> u_id u \<longrightarrow> getSeller t j = getSeller s j \<and> getDriver t j = getDriver s j) \<and>
    (\<exists>old. findRow kd_id did (t_kycDocs s) = Some old \<and> kd_reviewState old \<noteq> kd_reviewState d \<and>
      findRow kd_id did (t_kycDocs t) = Some d) \<and>
    (\<forall>i. i \<noteq> did \<longrightarrow> findRow kd_id i (t_kycDocs t) = findRow kd_id i (t_kycDocs s))"
proof -
  obtain st w act where run: "transitionStatus env did adm st w act s = (Inr d, t)"
    using assms(1,2) by (auto simp: kycApprove_def kycReject_def)
  note m = review_run [OF run assms(3)]
  from m(1) obtain reviewer old where x: "findRow kd_id did (t_kycDocs s) = Some old" "kd_reviewState old \<noteq> st"
    "d = reviewDoc env reviewer st w old"
    and docs: "t_kycDocs t = updRow kd_id did (reviewDoc env reviewer st w) (t_kycDocs s)" by blast
  have "findRow kd_id i (t_kycDocs t) = (if i = did then map_option (reviewDoc env reviewer st w)
      (findRow kd_id did (t_kycDocs s)) else findRow kd_id i (t_kycDocs s))" for i
    unfolding docs by (subst findRow_updRow) (simp_all add: reviewDoc_def)
  with x m(2,3) show ?thesis
    by (simp add: option.map_comp o_def if_distrib option.map_ident reviewDoc_def cong: if_cong)
qed

text \<open>One approved document is enough for the profile: a seller with no documents uploads a
  selfie, an administrator approves it, and the profile is APPROVED although no identity
  document was ever sent. The onboarding state says the seller may not list; the listings
  service reads the profile and lets them.\<close>

theorem one_document_approves:
  assumes u: "getUserBySupabase s sb = Some u" "getUser s (u_id u) = Some u" "u_role u = R_Seller"
    and p: "getSeller s (u_id u) = Some p" "sp_category p \<noteq> Some SC_FaitMaison"
    and none: "docsOf (u_id u) s = []" "e_ulid env ForKycDoc \<notin> kd_id ` set (t_kycDocs s)"
    and rev: "getUserBySupabase s admin = Some reviewer"
  shows "\<exists>d s1 d' s2 st. kycUpsert env sb \<lparr>kd_dtoType = KD_Selfie, kd_dtoFileUrl = url, kd_dtoIdType = None\<rparr> s = (Inr d, s1) \<and>
    kycApprove env' (kd_id d) admin s1 = (Inr d', s2) \<and>
    map_option sp_kycStatus (getSeller s2 (u_id u)) = Some K_Approved \<and>
    getOnboardingState sb s2 = Inr st \<and> os_canList st = Some False \<and>
    assertSeller env'' opts sb s2 \<noteq> Inl (Forbidden (Listing KycNotApproved))"
proof -
  let ?dto = "\<lparr>kd_dtoType = KD_Selfie, kd_dtoFileUrl = url, kd_dtoIdType = None\<rparr>"
  let ?d = "freshDoc env (u_id u) ?dto"
  let ?s1 = "reopenProfile u (s\<lparr>t_kycDocs := t_kycDocs s @ [?d]\<rparr>)"
  have no: "findRow slotOf (u_id u, KD_Selfie) (t_kycDocs s) = None"
    using none(1) by (auto simp: findRow_None_iff slotOf_def docsOf_def filter_empty_conv)
  have d: "slotOf ?d = (u_id u, KD_Selfie)" "kd_id ?d = e_ulid env ForKycDoc" "kd_userId ?d = u_id u"
      "kd_reviewState ?d = K_Pending"
    by (simp_all add: slotOf_def freshDoc_def)
  have chk: "kycCheck sb ?dto s = Inr u"
    using u p by (simp add: kycCheck_def kycSlotCheck_def SELLER_ALLOWED_def)
  have up: "kycUpsert env sb ?dto s = (Inr ?d, ?s1)"
    using no d(1) by (simp add: kycUpsert_def chk upsertDoc_def Let_def findRow_append ok_def)
  have s1: "t_kycDocs ?s1 = t_kycDocs s @ [?d]" "t_users ?s1 = t_users s"
    by (simp_all add: reopenProfile_def Let_def updSeller_def updDriver_def)
  have s1': "getUserBySupabase ?s1 = getUserBySupabase s" "getUser ?s1 = getUser s"
    by (simp_all add: getUserBySupabase_def getUser_def s1 fun_eq_iff)
  obtain p1 where p1: "getSeller ?s1 (u_id u) = Some p1" "sp_category p1 = sp_category p"
    using p(1) u(3) by (simp add: reopenProfile_def Let_def sel.get_put)
  have f1: "findRow kd_id (kd_id ?d) (t_kycDocs ?s1) = Some ?d"
    unfolding s1 using none(2) by (simp add: findRow_append d(2) findRow_None_iff image_iff split: option.split)
      (metis findRow_Some_key findRow_Some_set)
  let ?d' = "reviewDoc env' (u_id reviewer) K_Approved None ?d"
  obtain s2 where ap: "kycApprove env' (kd_id ?d) admin ?s1 = (Inr ?d', s2)"
    using rev f1 d(4) by (simp add: kycApprove_def transitionStatus_def s1' Let_def ok_def)
  note m = review_run [OF ap [unfolded kycApprove_def], of u]
  have own: "getUser ?s1 (kd_userId ?d') = Some u" using u(2) d(3) s1' by (simp add: reviewDoc_def)
  from m(1) [OF own] f1 obtain a where docs: "t_kycDocs s2 = updRow kd_id (kd_id ?d) (reviewDoc env' a K_Approved None) (t_kycDocs ?s1)"
    by auto
  have ds: "docsOf (u_id u) s2 = [reviewDoc env' a K_Approved None ?d]"
  proof -
    have "docsOf (u_id u) s2 = map (\<lambda>r. if kd_id r = kd_id ?d then reviewDoc env' a K_Approved None r else r)
        (filter (\<lambda>r. kd_userId r = u_id u) (t_kycDocs s @ [?d]))"
      unfolding docsOf_def docs s1 updRow_def filter_map o_def
      by (intro arg_cong [where f = "map _"] filter_cong refl) (simp add: reviewDoc_def)
    with none(1) d(3) show ?thesis by (simp add: docsOf_def)
  qed
  have v: "verdict (docsOf (u_id u) s2) = K_Approved" by (simp add: verdict_def ds reviewDoc_def)
  have p2: "getSeller s2 (u_id u) = Some (p1\<lparr>sp_kycStatus := K_Approved\<rparr>)"
    using m(2) [OF own] p1(1) u(3) v by simp
  have look: "getUserBySupabase s2 sb = Some u" using m(5) [OF own] s1' u(1) by simp
  let ?st = "sellerState (u_id u) (p1\<lparr>sp_kycStatus := K_Approved\<rparr>) s2"
  have st: "getOnboardingState sb s2 = Inr ?st" using look u(3) p2 by (simp add: getOnboardingState_def)
  have "\<not> identityApproved (docsOf (u_id u) s2)"
    by (simp add: ds identityApproved_def approvedSlot_def docOf_def reviewDoc_def freshDoc_def)
  then have "os_canList ?st = Some False"
    using p(2) p1(2) by (simp add: sellerState_def Let_def sellerSteps_done)
  moreover have "assertSeller env'' opts sb s2 \<noteq> Inl (Forbidden (Listing KycNotApproved))"
    using look u(3) p2 by (simp add: assertSeller_def)
  ultimately show ?thesis
    using up ap p2 st by (intro exI conjI) (assumption | simp)+
qed

subsection \<open>Examples\<close>

definition demo_doc :: "id \<Rightarrow> kyc_doc_type \<Rightarrow> kyc_status \<Rightarrow> kyc_doc_row" where
  "demo_doc i ty st = \<lparr>kd_id = i, kd_userId = ''s'', kd_type = ty, kd_fileUrl = ''kyc/f'',
     kd_reviewState = st, kd_reviewerId = None, kd_reviewedAt = None, kd_rejectionReason = None,
     kd_metadata = None, kd_submittedAt = 0\<rparr>"

definition kyc_db :: db where
  "kyc_db = payout_db\<lparr>t_users := t_users payout_db @ [demo_user ''adm'' ''aa'' R_Admin],
     t_kycDocs := [demo_doc ''d1'' KD_IdFront K_Pending, demo_doc ''d2'' KD_Selfie K_Approved]\<rparr>"

definition nodocs_db :: db where
  "nodocs_db = kyc_db\<lparr>t_kycDocs := []\<rparr>"

theorem seller_can_list_iff_witness:
  "\<exists>st. getOnboardingState ''sb'' kyc_db = Inr st \<and> os_canList st \<noteq> Some True"
proof -
  have u: "getUserBySupabase kyc_db ''sb'' = Some (demo_user ''s'' ''sb'' R_Seller)" by code_simp
  have "map_option sp_dateOfBirth (getSeller kyc_db ''s'') = Some None" by code_simp
  then obtain p where p: "getSeller kyc_db ''s'' = Some p" "sp_dateOfBirth p = None" by auto
  from seller_can_list_iff [OF u, of p] p show ?thesis by auto
qed

theorem review_mirrors_documents_witness:
  "map_option sp_kycStatus (getSeller (snd (kycReject demo_env ''d1'' ''aa'' ''blurred'' kyc_db)) ''s'') = Some K_Rejected"
proof -
  let ?r = "kycReject demo_env ''d1'' ''aa'' ''blurred'' kyc_db"
  have "case fst ?r of Inl _ \<Rightarrow> False | Inr d \<Rightarrow> kd_userId d = ''s''" by code_simp
  then obtain d where d: "?r = (Inr d, snd ?r)" "kd_userId d = ''s''" by (rule run_InrE)
  have u: "getUser kyc_db (kd_userId d) = Some (demo_user ''s'' ''sb'' R_Seller)" unfolding d(2) by code_simp
  have v: "verdict (docsOf ''s'' (snd ?r)) = K_Rejected"
    and p: "map_option sp_displayName (getSeller kyc_db ''s'') = Some (Some ''Chez S'')" by code_simp+
  from review_mirrors_documents [OF disjI2 [OF refl] d(1) u] v p show ?thesis by auto
qed

theorem one_document_approves_witness:
  "\<exists>d s1 d' s2 st. kycUpsert demo_env ''sb'' \<lparr>kd_dtoType = KD_Selfie, kd_dtoFileUrl = ''kyc/me'', kd_dtoIdType = None\<rparr>
     nodocs_db = (Inr d, s1) \<and> kycApprove demo_env (kd_id d) ''aa'' s1 = (Inr d', s2) \<and>
     getOnboardingState ''sb'' s2 = Inr st \<and> os_canList st = Some False"
proof -
  have u: "getUserBySupabase nodocs_db ''sb'' = Some (demo_user ''s'' ''sb'' R_Seller)"
    "getUser nodocs_db (u_id (demo_user ''s'' ''sb'' R_Seller)) = Some (demo_user ''s'' ''sb'' R_Seller)"
    "u_role (demo_user ''s'' ''sb'' R_Seller) = R_Seller"
    and none: "docsOf (u_id (demo_user ''s'' ''sb'' R_Seller)) nodocs_db = []"
      "e_ulid demo_env ForKycDoc \<notin> kd_id ` set (t_kycDocs nodocs_db)"
    and rev: "getUserBySupabase nodocs_db ''aa'' = Some (demo_user ''adm'' ''aa'' R_Admin)"
    by code_simp+
  have "map_option sp_category (getSeller nodocs_db ''s'') = Some (Some SC_Restaurant)" by code_simp
  then obtain p where p: "getSeller nodocs_db (u_id (demo_user ''s'' ''sb'' R_Seller)) = Some p"
    "sp_category p \<noteq> Some SC_FaitMaison" by auto
  show ?thesis
    using one_document_approves [OF u p none rev, of "''kyc/me''" demo_env] by blast
qed

end
