(* ===== verification/Users.thy ===== *)
theory Users
  imports Kyc
begin

section \<open>Accounts, addresses and profiles\<close>

text \<open>
  \<open>src/modules/users/users.service.ts\<close>, \<open>src/modules/drivers/drivers.service.ts\<close> and
  \<open>src/modules/buyers/buyers.service.ts\<close>. The Supabase auth user of an identity is an argument;
  \<open>None\<close> is the answer without a user. A date of a body is the parsed \<open>Date\<close>.
\<close>

subsection \<open>The identity behind a token\<close>

record jwt_identity =
  ji_supabaseId :: id
  ji_email :: "string option"
  ji_phone :: "string option"

text \<open>The fields of the Supabase user that are read; metadata values that are no strings are absent.\<close>

record auth_user =
  sbu_email :: "string option"
  sbu_emailConfirmedAt :: "string option"
  sbu_metadataEmail :: "string option"
  sbu_identityEmails :: "string option list"
  sbu_phone :: "string option"
  sbu_phoneConfirmedAt :: "string option"

datatype email_source = ES_Jwt | ES_UserMetadata | ES_IdentityData | ES_Verified | ES_None

definition cleanEmail :: "string option \<Rightarrow> string option" where
  "cleanEmail v = (case v of None \<Rightarrow> None | Some t \<Rightarrow> if CHR ''@'' \<in> set t then Some t else None)"

definition pickEmail :: "string option \<Rightarrow> auth_user option \<Rightarrow> string option \<times> email_source" where
  "pickEmail jwtEmail authUser =
    (if truthy jwtEmail then (jwtEmail, ES_Jwt)
     else case authUser of
         None \<Rightarrow> (None, ES_None)
       | Some a \<Rightarrow>
           (case cleanEmail (sbu_metadataEmail a) of
              Some e \<Rightarrow> (Some e, ES_UserMetadata)
            | None \<Rightarrow>
                (case List.map_filter cleanEmail (sbu_identityEmails a) of
                   e # _ \<Rightarrow> (Some e, ES_IdentityData)
                 | [] \<Rightarrow> if truthy (sbu_email a) \<and> truthy (sbu_emailConfirmedAt a)
                         then (sbu_email a, ES_Verified) else (None, ES_None))))"

subsection \<open>The profile with everything around it\<close>

record seller_aggregate =
  sg_profile :: seller_row
  sg_pickupAddress :: "address_row option"
  sg_business :: "(business_row \<times> opening_row list) option"
  sg_cuisines :: "cuisine_row list"
  sg_dishes :: "dish_row list"

record user_aggregate =
  ua_user :: user_row
  ua_buyerProfile :: "(buyer_row \<times> address_row option) option"
  ua_defaultAddressCoords :: "point option"
  ua_sellerProfile :: "seller_aggregate option"
  ua_pickupAddressCoords :: "point option"
  ua_driverProfile :: "(driver_row \<times> address_row option \<times> id list) option"
  ua_baseAddressCoords :: "point option"

definition liveAddress :: "id \<Rightarrow> address_kind \<Rightarrow> address_row \<Rightarrow> bool" where
  "liveAddress userId kind a \<longleftrightarrow> ad_userId a = userId \<and> ad_kind a = kind \<and> ad_deletedAt a = None"

definition recentAddress :: "id \<Rightarrow> address_kind \<Rightarrow> db \<Rightarrow> address_row option" where
  "recentAddress userId kind s =
    (case sort_key (\<lambda>a. - ad_updatedAt a) (filter (liveAddress userId kind) (t_addresses s)) of
       [] \<Rightarrow> None | a # _ \<Rightarrow> Some a)"

definition someAddress :: "id \<Rightarrow> address_kind \<Rightarrow> db \<Rightarrow> address_row option" where
  "someAddress userId kind s = List.find (liveAddress userId kind) (t_addresses s)"

definition readAddressCoords :: "id \<Rightarrow> db \<Rightarrow> point option" where
  "readAddressCoords addressId s = Option.bind (findRow ad_id addressId (t_addresses s)) ad_point"

definition coordsOf :: "address_row option \<Rightarrow> db \<Rightarrow> point option" where
  "coordsOf a s = (case a of None \<Rightarrow> None | Some r \<Rightarrow> readAddressCoords (ad_id r) s)"

definition sellerAggregate :: "id \<Rightarrow> address_row option \<Rightarrow> db \<Rightarrow> seller_row \<Rightarrow> seller_aggregate" where
  "sellerAggregate userId pickup s p =
    \<lparr>sg_profile = p, sg_pickupAddress = pickup,
     sg_business = map_option (\<lambda>b. (b, filter (\<lambda>h. oh_sellerId h = userId) (t_openings s)))
       (findRow bu_userId userId (t_businesses s)),
     sg_cuisines = filter (\<lambda>c. sc_userId c = userId) (t_sellerCuisines s),
     sg_dishes = filter (\<lambda>d. sd_userId d = userId) (t_sellerDishes s)\<rparr>"

definition userAggregate :: "user_row \<Rightarrow> db \<Rightarrow> user_aggregate" where
  "userAggregate user s =
    (let i = u_id user; buyer = getBuyerProfile s i; seller = getSeller s i; driver = getDriver s i;
         defaultAddress = (if buyer = None then None else recentAddress i AK_BuyerDelivery s);
         pickup = (if seller = None then None else someAddress i AK_SellerPickup s);
         base = (if driver = None then None else someAddress i AK_DriverHome s)
     in \<lparr>ua_user = user, ua_buyerProfile = map_option (\<lambda>b. (b, defaultAddress)) buyer,
         ua_defaultAddressCoords = coordsOf defaultAddress s,
         ua_sellerProfile = map_option (sellerAggregate i pickup s) seller,
         ua_pickupAddressCoords = coordsOf pickup s,
         ua_driverProfile = map_option (\<lambda>d. (d, base,
           map dz_zoneId (filter (\<lambda>z. dz_userId z = i) (t_driverZones s)))) driver,
         ua_baseAddressCoords = coordsOf base s\<rparr>)"

definition findBySupabaseId :: "id \<Rightarrow> db \<Rightarrow> exn + user_aggregate" where
  "findBySupabaseId supabaseId s =
    (case getUserBySupabase s supabaseId of
       None \<Rightarrow> Inl (NotFound UserProfile)
     | Some user \<Rightarrow> Inr (userAggregate user s))"

subsection \<open>Creating and editing the account\<close>

text \<open>The unique columns of \<open>User\<close>: the index knows soft-deleted rows too.\<close>

definition userTaken :: "user_row \<Rightarrow> user_row \<Rightarrow> bool" where
  "userTaken new u \<longleftrightarrow> u_id u = u_id new \<or> u_supabaseId u = u_supabaseId new \<or> u_email u = u_email new \<or>
     (u_phone new \<noteq> None \<and> u_phone u = u_phone new)"

record update_user_dto =
  uu_firstName :: "string option"
  uu_lastName :: "string option"
  uu_phone :: "string option"
  uu_avatarPath :: "string option"

definition profileData :: "update_user_dto \<Rightarrow> user_row \<Rightarrow> user_row" where
  "profileData dto u = u\<lparr>u_firstName := over (uu_firstName dto) (u_firstName u),
     u_lastName := over (uu_lastName dto) (u_lastName u),
     u_phone := overOpt (uu_phone dto) (u_phone u),
     u_avatarPath := overOpt (uu_avatarPath dto) (u_avatarPath u)\<rparr>"

definition updateProfile :: "id \<Rightarrow> update_user_dto \<Rightarrow> db \<Rightarrow> (exn, user_aggregate, db) result" where
  "updateProfile supabaseId dto s =
    (case getUserBySupabase s supabaseId of None \<Rightarrow> fail (NotFound UserProfile) s | Some existing \<Rightarrow>
     if uu_phone dto \<noteq> None \<and>
        list_ex (\<lambda>u. u_id u \<noteq> u_id existing \<and> u_phone u = uu_phone dto) (t_users s)
     then fail PrismaConflict s
     else let t = updUser (u_id existing) (profileData dto) s
          in liftE (findBySupabaseId supabaseId t) t)"

definition assertEmailAvailableForIdentity :: "id \<Rightarrow> string \<Rightarrow> db \<Rightarrow> exn option" where
  "assertEmailAvailableForIdentity supabaseId email s =
    (if list_ex (\<lambda>u. u_email u = email \<and> u_supabaseId u \<noteq> supabaseId \<and> u_deletedAt u = None) (t_users s)
     then Some (Conflict (Account EmailTaken)) else None)"

record create_user_dto =
  cu_firstName :: string
  cu_lastName :: string
  cu_role :: user_role
  cu_phone :: "string option"
  cu_acceptedCgu :: bool
  cu_acceptedCgv :: bool

text \<open>The E.164 number with one leading plus sign, as Supabase stores it without.\<close>

definition withPlus :: "string \<Rightarrow> string" where
  "withPlus p = ''+'' @ (case p of [] \<Rightarrow> [] | c # cs \<Rightarrow> if c = CHR ''+'' then cs else p)"

definition signupPhone :: "jwt_identity \<Rightarrow> auth_user option \<Rightarrow> create_user_dto \<Rightarrow> db \<Rightarrow> string option" where
  "signupPhone ident authUser dto s =
    (let supabasePhone = Option.bind authUser sbu_phone;
         phone = (if truthy supabasePhone then Some (withPlus (the supabasePhone)) else ji_phone ident)
     in if \<not> truthy phone \<and> truthy (cu_phone dto)
        then (if list_ex (\<lambda>u. u_phone u = cu_phone dto \<and> u_supabaseId u \<noteq> ji_supabaseId ident \<and>
                   u_deletedAt u = None) (t_users s)
              then phone else cu_phone dto)
        else phone)"

definition newUser :: "env \<Rightarrow> jwt_identity \<Rightarrow> auth_user option \<Rightarrow> create_user_dto \<Rightarrow> string \<Rightarrow> db \<Rightarrow> user_row" where
  "newUser env ident authUser dto email s =
    \<lparr>u_id = e_ulid env ForUser, u_supabaseId = ji_supabaseId ident, u_email = email,
     u_role = cu_role dto, u_stripeCustomerId = None, u_deletedAt = None, u_isSuspended = False,
     u_suspendedAt = None, u_suspensionReason = None, u_firstName = cu_firstName dto,
     u_lastName = cu_lastName dto, u_avatarPath = None,
     u_phone = signupPhone ident authUser dto s,
     u_emailVerified = (Option.bind authUser sbu_emailConfirmedAt \<noteq> None),
     u_phoneVerified = (Option.bind authUser sbu_phoneConfirmedAt \<noteq> None),
     u_acceptedCgu = cu_acceptedCgu dto, u_acceptedCgv = cu_acceptedCgv dto,
     u_acceptedAt = Some (e_now env)\<rparr>"

definition emptySeller :: "id \<Rightarrow> seller_row" where
  "emptySeller userId =
    \<lparr>sp_userId = userId, sp_kycStatus = K_Pending, sp_deliveryFeeCents = None, sp_isPremium = False,
     sp_stripeConnectAccountId = None, sp_stripeOnboardingCompleted = False,
     sp_stripeSubscriptionId = None, sp_subscriptionStatus = S_None,
     sp_subscriptionCurrentPeriodEnd = None, sp_neighborhood = None, sp_location = None,
     sp_category = None, sp_displayName = None, sp_bio = None, sp_profilePhotoUrl = None,
     sp_dateOfBirth = None, sp_hygieneCommitment = None, sp_faitMaisonCommitment = None,
     sp_deliveryRadiusKm = None, sp_prepMinMinutes = None, sp_prepMaxMinutes = None,
     sp_averageRating = None, sp_reviewCount = 0, sp_revenueCatCustomerId = None,
     sp_revenueCatEntitlement = None, sp_subscriptionPlan = None, sp_subscriptionProductId = None,
     sp_subscriptionCategory = None, sp_trialEndsAt = None\<rparr>"

definition emptyDriver :: "id \<Rightarrow> driver_row" where
  "emptyDriver userId =
    \<lparr>dp_userId = userId, dp_kycStatus = K_Pending, dp_stripeConnectAccountId = None,
     dp_stripeOnboardingCompleted = False, dp_lastKnownPoint = None, dp_lastSeenAt = None,
     dp_isOnline = False, dp_dateOfBirth = None, dp_vehicleType = None\<rparr>"

definition emptyBuyer :: "env \<Rightarrow> id \<Rightarrow> buyer_row" where
  "emptyBuyer env userId = \<lparr>bp_userId = userId, bp_dietaryPreferences = [], bp_allergies = [],
     bp_createdAt = e_now env, bp_updatedAt = e_now env\<rparr>"

definition createAccount :: "env \<Rightarrow> user_row \<Rightarrow> db \<Rightarrow> (exn, unit, db) result" where
  "createAccount env new s =
    (if list_ex (userTaken new) (t_users s) then fail PrismaConflict s
     else let t = s\<lparr>t_users := t_users s @ [new]\<rparr>
          in ok () (case u_role new of
              R_Buyer \<Rightarrow> t\<lparr>t_buyers := t_buyers t @ [emptyBuyer env (u_id new)]\<rparr>
            | R_Seller \<Rightarrow> t\<lparr>t_sellers := t_sellers t @ [emptySeller (u_id new)]\<rparr>
            | R_Driver \<Rightarrow> t\<lparr>t_drivers := t_drivers t @ [emptyDriver (u_id new)]\<rparr>
            | _ \<Rightarrow> t))"

definition createFromJwt :: "env \<Rightarrow> jwt_identity \<Rightarrow> auth_user option \<Rightarrow> create_user_dto \<Rightarrow> db
    \<Rightarrow> (exn, user_aggregate, db) result" where
  "createFromJwt env ident authUser dto s =
    (if getUserBySupabase s (ji_supabaseId ident) \<noteq> None then fail (Conflict (Account ProfileExists)) s
     else case fst (pickEmail (ji_email ident) authUser) of
         None \<Rightarrow> fail (Forbidden (Account EmailRequired)) s
       | Some email \<Rightarrow>
           (case assertEmailAvailableForIdentity (ji_supabaseId ident) email s of
              Some e \<Rightarrow> fail e s
            | None \<Rightarrow>
                bindR (transaction (createAccount env (newUser env ident authUser dto email s)) s)
                  (\<lambda>_ t. liftE (findBySupabaseId (ji_supabaseId ident) t) t)))"

record oauth_sync =
  oy_hasProfile :: bool
  oy_aggregate :: "user_aggregate option"
  oy_email :: "string option"
  oy_needsEmail :: bool

definition syncFromJwt :: "jwt_identity \<Rightarrow> auth_user option \<Rightarrow> db \<Rightarrow> exn + oauth_sync" where
  "syncFromJwt ident authUser s =
    (case getUserBySupabase s (ji_supabaseId ident) of
       Some existing \<Rightarrow> Inr \<lparr>oy_hasProfile = True, oy_aggregate = Some (userAggregate existing s),
         oy_email = Some (u_email existing), oy_needsEmail = False\<rparr>
     | None \<Rightarrow>
         let email = fst (pickEmail (ji_email ident) authUser);
             answer = \<lparr>oy_hasProfile = False, oy_aggregate = None, oy_email = email,
               oy_needsEmail = (email = None)\<rparr>
         in case email of
              None \<Rightarrow> Inr answer
            | Some e \<Rightarrow> (case assertEmailAvailableForIdentity (ji_supabaseId ident) e s of
                Some x \<Rightarrow> Inl x | None \<Rightarrow> Inr answer))"

subsection \<open>Addresses\<close>

text \<open>
  The lookup in an object literal also finds what it inherits from \<open>Object.prototype\<close>; these
  values are truthy, so \<open>None\<close> is a segment that passes without naming a kind.
\<close>

definition OBJECT_PROTOTYPE :: "string list" where
  "OBJECT_PROTOTYPE = [''constructor'', ''__proto__'', ''__defineGetter__'', ''__defineSetter__'',
    ''__lookupGetter__'', ''__lookupSetter__'', ''hasOwnProperty'', ''isPrototypeOf'',
    ''propertyIsEnumerable'', ''toString'', ''toLocaleString'', ''valueOf'']"

definition ADDRESS_KIND_FROM_PATH :: "string \<Rightarrow> address_kind option" where
  "ADDRESS_KIND_FROM_PATH raw =
    (if raw = ''buyer-delivery'' then Some AK_BuyerDelivery
     else if raw = ''seller-pickup'' then Some AK_SellerPickup
     else if raw = ''driver-home'' then Some AK_DriverHome else None)"

definition parseAddressKind :: "string \<Rightarrow> exn + address_kind option" where
  "parseAddressKind raw =
    (case ADDRESS_KIND_FROM_PATH raw of
       Some k \<Rightarrow> Inr (Some k)
     | None \<Rightarrow> if raw \<in> set OBJECT_PROTOTYPE then Inr None
               else Inl (BadRequest (Account (UnknownAddressKind raw))))"

text \<open>
  The partial unique index on \<open>(userId, kind)\<close> of the migration
  \<open>20260512140000_signup_flow_phase_a\<close>: soft-deleted rows are in it.
\<close>

definition singletonTaken :: "id \<Rightarrow> address_kind \<Rightarrow> db \<Rightarrow> bool" where
  "singletonTaken userId kind s \<longleftrightarrow> kind \<in> {AK_SellerPickup, AK_DriverHome} \<and>
     list_ex (\<lambda>a. ad_userId a = userId \<and> ad_kind a = kind) (t_addresses s)"

definition updAddress :: "id \<Rightarrow> (address_row \<Rightarrow> address_row) \<Rightarrow> db \<Rightarrow> db" where
  "updAddress i f s = s\<lparr>t_addresses := updRow ad_id i f (t_addresses s)\<rparr>"

definition insertAddress :: "env \<Rightarrow> id \<Rightarrow> address_kind \<Rightarrow> address_data \<Rightarrow> db \<Rightarrow> (exn, id, db) result" where
  "insertAddress env userId kind data s =
    (if singletonTaken userId kind s then fail PrismaConflict s
     else ok (e_ulid env ForAddress) (s\<lparr>t_addresses := t_addresses s @
       [\<lparr>ad_id = e_ulid env ForAddress, ad_userId = userId, ad_kind = kind, ad_data = data,
         ad_point = None, ad_deletedAt = None, ad_updatedAt = e_now env\<rparr>]\<rparr>))"

definition dtoPoint :: "address_data \<Rightarrow> point option" where
  "dtoPoint dto = (case (ad_lng dto, ad_lat dto) of
     (Some lng, Some lat) \<Rightarrow> Some (lng, lat) | _ \<Rightarrow> None)"

definition writePointIfPresent :: "id \<Rightarrow> id \<Rightarrow> address_kind \<Rightarrow> address_data \<Rightarrow> db \<Rightarrow> db" where
  "writePointIfPresent addressId userId kind dto s =
    (case dtoPoint dto of
       None \<Rightarrow> s
     | Some p \<Rightarrow>
         let t = updAddress addressId (\<lambda>a. a\<lparr>ad_point := Some p\<rparr>) s
         in if kind = AK_SellerPickup then updSeller userId (\<lambda>q. q\<lparr>sp_location := Some p\<rparr>) t else t)"

definition expectedRole :: "address_kind \<Rightarrow> user_role" where
  "expectedRole kind = (case kind of
     AK_BuyerDelivery \<Rightarrow> R_Buyer | AK_SellerPickup \<Rightarrow> R_Seller | AK_DriverHome \<Rightarrow> R_Driver)"

text \<open>\<open>postalCode || null\<close>: the empty string is stored as null.\<close>

definition upsertColumns :: "address_data \<Rightarrow> address_data" where
  "upsertColumns dto = dto\<lparr>ad_postalCode := (if truthy (ad_postalCode dto) then ad_postalCode dto else None)\<rparr>"

definition upsertAddress :: "env \<Rightarrow> id \<Rightarrow> address_kind \<Rightarrow> address_data \<Rightarrow> db \<Rightarrow> (exn, id, db) result" where
  "upsertAddress env supabaseId kind dto s =
    (case getUserBySupabase s supabaseId of None \<Rightarrow> fail (NotFound UserProfile) s | Some user \<Rightarrow>
     if u_role user \<noteq> expectedRole kind
     then fail (BadRequest (Account (AddressKindReserved kind (expectedRole kind)))) s
     else transaction (\<lambda>tx.
       bindR (case recentAddress (u_id user) kind s of
           Some a \<Rightarrow> ok (ad_id a) (updAddress (ad_id a) (\<lambda>r. r\<lparr>ad_data := upsertColumns dto,
             ad_updatedAt := e_now env\<rparr>) tx)
         | None \<Rightarrow> insertAddress env (u_id user) kind (upsertColumns dto) tx)
         (\<lambda>i t. ok i (writePointIfPresent i (u_id user) kind dto t))) s)"

definition kindForRole :: "user_role \<Rightarrow> address_kind" where
  "kindForRole role = (case role of
     R_Seller \<Rightarrow> AK_SellerPickup | R_Driver \<Rightarrow> AK_DriverHome | _ \<Rightarrow> AK_BuyerDelivery)"

definition listAddresses :: "id \<Rightarrow> db \<Rightarrow> exn + (address_row \<times> point option) list" where
  "listAddresses supabaseId s =
    (case getUserBySupabase s supabaseId of None \<Rightarrow> Inl (NotFound UserProfile) | Some user \<Rightarrow>
     Inr (map (\<lambda>a. (a, readAddressCoords (ad_id a) s))
       (sort_key (\<lambda>a. - ad_updatedAt a)
         (filter (\<lambda>a. ad_userId a = u_id user \<and> ad_deletedAt a = None) (t_addresses s)))))"

definition createAddress :: "env \<Rightarrow> id \<Rightarrow> address_data \<Rightarrow> db \<Rightarrow> (exn, id \<times> point option, db) result" where
  "createAddress env supabaseId dto s =
    (case getUserBySupabase s supabaseId of None \<Rightarrow> fail (NotFound UserProfile) s | Some user \<Rightarrow>
     let kind = kindForRole (u_role user)
     in bindR (insertAddress env (u_id user) kind dto s)
          (\<lambda>i t. let t' = writePointIfPresent i (u_id user) kind dto t
                 in ok (i, readAddressCoords i t') t'))"

text \<open>An absent \<open>postalCode\<close> leaves the column, the other absent fields clear theirs.\<close>

definition updateColumns :: "address_data \<Rightarrow> address_data \<Rightarrow> address_data" where
  "updateColumns dto old = dto\<lparr>ad_postalCode := overOpt (ad_postalCode dto) (ad_postalCode old)\<rparr>"

definition ownAddress :: "id \<Rightarrow> id \<Rightarrow> db \<Rightarrow> address_row option" where
  "ownAddress addressId userId s =
    List.find (\<lambda>a. ad_id a = addressId \<and> ad_userId a = userId \<and> ad_deletedAt a = None) (t_addresses s)"

definition updateAddressById :: "env \<Rightarrow> id \<Rightarrow> id \<Rightarrow> address_data \<Rightarrow> db
    \<Rightarrow> (exn, id \<times> point option, db) result" where
  "updateAddressById env supabaseId addressId dto s =
    (case getUserBySupabase s supabaseId of None \<Rightarrow> fail (NotFound UserProfile) s | Some user \<Rightarrow>
     case ownAddress addressId (u_id user) s of None \<Rightarrow> fail (NotFound AnAddress) s | Some existing \<Rightarrow>
     let t = updAddress (ad_id existing) (\<lambda>r. r\<lparr>ad_data := updateColumns dto (ad_data r),
               ad_updatedAt := e_now env\<rparr>) s;
         t' = writePointIfPresent (ad_id existing) (u_id user) (ad_kind existing) dto t
     in ok (ad_id existing, readAddressCoords (ad_id existing) t') t')"

definition deleteAddressById :: "env \<Rightarrow> id \<Rightarrow> id \<Rightarrow> db \<Rightarrow> (exn, unit, db) result" where
  "deleteAddressById env supabaseId addressId s =
    (case getUserBySupabase s supabaseId of None \<Rightarrow> fail (NotFound UserProfile) s | Some user \<Rightarrow>
     case ownAddress addressId (u_id user) s of None \<Rightarrow> fail (NotFound AnAddress) s | Some existing \<Rightarrow>
     ok () (updAddress (ad_id existing) (\<lambda>r. r\<lparr>ad_deletedAt := Some (e_now env),
       ad_updatedAt := e_now env\<rparr>) s))"

subsection \<open>Charters, vehicle, zones and preferences\<close>

definition recordCharter :: "id \<Rightarrow> charter_kind \<Rightarrow> string \<Rightarrow> db \<Rightarrow> (exn, charter_row, db) result" where
  "recordCharter supabaseId charter version s =
    (case getUserBySupabase s supabaseId of None \<Rightarrow> fail (NotFound UserProfile) s | Some user \<Rightarrow>
     let row = \<lparr>uc_userId = u_id user, uc_charter = charter, uc_version = version\<rparr>
     in ok row (upsertCharter row s))"

definition assertDriverProfile :: "id \<Rightarrow> db \<Rightarrow> exn + id" where
  "assertDriverProfile supabaseId s =
    (case getUserBySupabase s supabaseId of None \<Rightarrow> Inl (NotFound UserProfile) | Some user \<Rightarrow>
     if u_role user \<noteq> R_Driver \<or> getDriver s (u_id user) = None
     then Inl (Forbidden (Account OnlyDriversUpdate)) else Inr (u_id user))"

definition upsertVehicle :: "env \<Rightarrow> id \<Rightarrow> vehicle_type \<Rightarrow> time option \<Rightarrow> db
    \<Rightarrow> (exn, driver_row option, db) result" where
  "upsertVehicle env supabaseId vehicleType dateOfBirth s =
    (case assertDriverProfile supabaseId s of Inl e \<Rightarrow> fail e s | Inr userId \<Rightarrow>
     if (case dateOfBirth of None \<Rightarrow> False | Some dob \<Rightarrow> addYears (-18) (e_now env) < dob)
     then fail (BadRequest (Account DriverTooYoung)) s
     else let t = updDriver userId (\<lambda>p. p\<lparr>dp_vehicleType := Some vehicleType,
                dp_dateOfBirth := overOpt dateOfBirth (dp_dateOfBirth p)\<rparr>) s
          in ok (getDriver t userId) t)"

definition replaceZones :: "id \<Rightarrow> string list \<Rightarrow> db \<Rightarrow> (exn, string list, db) result" where
  "replaceZones userId zones s =
    (if \<not> distinct zones then fail PrismaConflict s
     else ok zones (s\<lparr>t_driverZones := filter (\<lambda>z. dz_userId z \<noteq> userId) (t_driverZones s) @
       map (\<lambda>z. \<lparr>dz_userId = userId, dz_zoneId = z\<rparr>) zones\<rparr>))"

definition upsertZones :: "id \<Rightarrow> string list \<Rightarrow> db \<Rightarrow> (exn, string list, db) result" where
  "upsertZones supabaseId zones s =
    (case assertDriverProfile supabaseId s of Inl e \<Rightarrow> fail e s | Inr userId \<Rightarrow>
     transaction (replaceZones userId zones) s)"

definition upsertPreferences :: "env \<Rightarrow> id \<Rightarrow> dietary_tag list \<Rightarrow> allergen list \<Rightarrow> db
    \<Rightarrow> (exn, dietary_tag list \<times> allergen list, db) result" where
  "upsertPreferences env supabaseId dietaryTags allergens s =
    (case getUserBySupabase s supabaseId of None \<Rightarrow> fail (NotFound UserProfile) s | Some user \<Rightarrow>
     if u_role user \<noteq> R_Buyer \<or> getBuyerProfile s (u_id user) = None
     then fail (Forbidden (Account OnlyBuyersPreferences)) s
     else ok (dietaryTags, allergens) (s\<lparr>t_buyers := updRow bp_userId (u_id user)
       (\<lambda>b. b\<lparr>bp_dietaryPreferences := dietaryTags, bp_allergies := allergens,
         bp_updatedAt := e_now env\<rparr>) (t_buyers s)\<rparr>))"

subsection \<open>Accounts\<close>

text \<open>What a sign-up that returns has done.\<close>

lemma createFromJwt_InrE:
  assumes "createFromJwt env ident au dto s = (Inr agg, t)"
  obtains email where "getUserBySupabase s (ji_supabaseId ident) = None"
    "fst (pickEmail (ji_email ident) au) = Some email"
    "\<not> list_ex (userTaken (newUser env ident au dto email s)) (t_users s)"
    "t_users t = t_users s @ [newUser env ident au dto email s]"
    "findBySupabaseId (ji_supabaseId ident) t = Inr agg"
proof -
  have none: "getUserBySupabase s (ji_supabaseId ident) = None"
    using assms by (auto simp: createFromJwt_def split: if_splits)
  obtain email where email: "fst (pickEmail (ji_email ident) au) = Some email"
    using assms none by (auto simp: createFromJwt_def split: option.splits)
  have run: "bindR (transaction (createAccount env (newUser env ident au dto email s)) s)
      (\<lambda>_ t. liftE (findBySupabaseId (ji_supabaseId ident) t) t) = (Inr agg, t)"
    using assms none email by (simp add: createFromJwt_def split: option.splits)
  then obtain u where acc: "createAccount env (newUser env ident au dto email s) s = (Inr (), u)"
    and found: "liftE (findBySupabaseId (ji_supabaseId ident) u) u = (Inr agg, t)"
    by (auto simp: bindR_Inr_iff transaction_Inr)
  have free: "\<not> list_ex (userTaken (newUser env ident au dto email s)) (t_users s)"
    using acc by (auto simp: createAccount_def split: if_splits)
  have "t_users u = t_users s @ [newUser env ident au dto email s]"
    using acc free by (auto simp: createAccount_def Let_def ok_def split: user_role.splits)
  with found show ?thesis
    by (intro that [OF none email free]) (auto simp: liftE_Inr_iff)
qed

lemma newUser_keys [simp]:
  "u_supabaseId (newUser env ident au dto email s) = ji_supabaseId ident"
  "u_email (newUser env ident au dto email s) = email"
  "u_phone (newUser env ident au dto email s) = signupPhone ident au dto s"
  by (simp_all add: newUser_def)

lemma getUserBySupabase_append:
  "getUserBySupabase s k = None \<Longrightarrow> t_users t = t_users s @ [u] \<Longrightarrow> u_supabaseId u = k \<Longrightarrow>
    getUserBySupabase t k = Some u"
  by (simp add: getUserBySupabase_def findRow_append)

lemma findBySupabaseId_user:
  "getUserBySupabase t k = Some u \<Longrightarrow> findBySupabaseId k t = Inr agg \<Longrightarrow> ua_user agg = u"
  by (auto simp: findBySupabaseId_def userAggregate_def Let_def)

text \<open>C16: A sign-up that returns has appended one account: the identity had none before, the
  aggregate it returns is the one every later read of the profile gives, no account that
  already existed has its email address or its phone number, and a second sign-up of the same
  identity is refused, whatever it carries.
\<close>

theorem created_account_found:
  assumes "createFromJwt env ident au dto s = (Inr agg, t)"
  shows "getUserBySupabase s (ji_supabaseId ident) = None \<and>
    findBySupabaseId (ji_supabaseId ident) t = Inr agg \<and>
    t_users t = t_users s @ [ua_user agg] \<and>
    u_supabaseId (ua_user agg) = ji_supabaseId ident \<and> u_role (ua_user agg) = cu_role dto \<and>
    Some (u_email (ua_user agg)) = fst (pickEmail (ji_email ident) au) \<and>
    (\<forall>v \<in> set (t_users s). u_email v \<noteq> u_email (ua_user agg) \<and>
       (u_phone v \<noteq> None \<longrightarrow> u_phone v \<noteq> u_phone (ua_user agg))) \<and>
    createFromJwt env' ident au' dto' t = (Inl (Conflict (Account ProfileExists)), t)"
proof -
  obtain email where r: "getUserBySupabase s (ji_supabaseId ident) = None"
    "fst (pickEmail (ji_email ident) au) = Some email"
    "\<not> list_ex (userTaken (newUser env ident au dto email s)) (t_users s)"
    "t_users t = t_users s @ [newUser env ident au dto email s]"
    "findBySupabaseId (ji_supabaseId ident) t = Inr agg"
    using assms by (rule createFromJwt_InrE)
  have got: "getUserBySupabase t (ji_supabaseId ident) = Some (newUser env ident au dto email s)"
    by (rule getUserBySupabase_append [OF r(1,4)]) simp
  have ua: "ua_user agg = newUser env ident au dto email s"
    by (rule findBySupabaseId_user [OF got r(5)])
  have "\<forall>v \<in> set (t_users s). \<not> userTaken (newUser env ident au dto email s) v"
    using r(3) by (simp add: list_ex_iff)
  then have "\<forall>v \<in> set (t_users s). u_email v \<noteq> email \<and>
      (u_phone v \<noteq> None \<longrightarrow> u_phone v \<noteq> signupPhone ident au dto s)"
    by (auto simp: userTaken_def)
  moreover have "createFromJwt env' ident au' dto' t = (Inl (Conflict (Account ProfileExists)), t)"
    by (simp add: createFromJwt_def got fail_def)
  ultimately show ?thesis using r ua by (simp add: newUser_def)
qed

abbreviation demo_identity :: jwt_identity where
  "demo_identity \<equiv> \<lparr>ji_supabaseId = ''new'', ji_email = Some ''n@x'', ji_phone = None\<rparr>"

abbreviation demo_signup :: create_user_dto where
  "demo_signup \<equiv> \<lparr>cu_firstName = ''N'', cu_lastName = ''L'', cu_role = R_Seller,
    cu_phone = Some ''+336'', cu_acceptedCgu = True, cu_acceptedCgv = True\<rparr>"

lemma demo_signup_runs:
  "case fst (createFromJwt demo_env demo_identity None demo_signup payout_db) of
     Inl _ \<Rightarrow> False | Inr agg \<Rightarrow> u_phone (ua_user agg) = Some ''+336''"
  by code_simp

theorem created_account_found_witness:
  "\<exists>agg. fst (createFromJwt demo_env demo_identity None demo_signup payout_db) = Inr agg \<and>
    u_role (ua_user agg) = R_Seller"
proof -
  obtain agg where run: "createFromJwt demo_env demo_identity None demo_signup payout_db =
      (Inr agg, snd (createFromJwt demo_env demo_identity None demo_signup payout_db))"
    using demo_signup_runs by (rule run_InrE)
  have "fst (createFromJwt demo_env demo_identity None demo_signup payout_db) = Inr agg"
    by (subst run) simp
  moreover have "u_role (ua_user agg) = R_Seller"
    using created_account_found [OF run, of demo_env None demo_signup] by simp
  ultimately show ?thesis by blast
qed

lemma createFromJwt_phone_conflict:
  assumes "getUserBySupabase s (ji_supabaseId ident) = None"
    and "fst (pickEmail (ji_email ident) au) = Some email"
    and "assertEmailAvailableForIdentity (ji_supabaseId ident) email s = None"
    and "v \<in> set (t_users s)" and "u_phone v = Some p" and "signupPhone ident au dto s = Some p"
  shows "createFromJwt env ident au dto s = (Inl PrismaConflict, s)"
proof -
  have "userTaken (newUser env ident au dto email s) v"
    using assms(5,6) by (simp add: userTaken_def)
  then have "list_ex (userTaken (newUser env ident au dto email s)) (t_users s)"
    using assms(4) by (auto simp: list_ex_iff)
  then show ?thesis
    using assms(1-3) by (simp add: createFromJwt_def createAccount_def transaction_def fail_def)
qed

text \<open>The index on the phone number refuses what the sign-up lets through: the number Supabase
  confirmed for the caller when another account has typed it (unverified), and a typed number
  whose owner is a deleted account. The sign-up then ends in a unique-constraint error.
\<close>

theorem phone_blocks_sign_up:
  assumes "getUserBySupabase s (ji_supabaseId ident) = None"
    and "fst (pickEmail (ji_email ident) au) = Some email"
    and "assertEmailAvailableForIdentity (ji_supabaseId ident) email s = None"
    and "v \<in> set (t_users s)" and "u_phone v = Some p"
    and "(\<exists>q. Option.bind au sbu_phone = Some q \<and> q \<noteq> [] \<and> p = withPlus q) \<or>
      (Option.bind au sbu_phone = None \<and> ji_phone ident = None \<and> cu_phone dto = Some p \<and> p \<noteq> [] \<and>
       (\<forall>w \<in> set (t_users s). u_phone w = Some p \<longrightarrow> u_deletedAt w \<noteq> None))"
  shows "createFromJwt env ident au dto s = (Inl PrismaConflict, s)"
proof -
  have "signupPhone ident au dto s = Some p"
    using assms(6)
  proof (elim disjE exE conjE)
    fix q assume q: "Option.bind au sbu_phone = Some q" "q \<noteq> []" "p = withPlus q"
    then show ?thesis by (simp add: signupPhone_def truthy_def withPlus_def)
  next
    assume d: "Option.bind au sbu_phone = None" "ji_phone ident = None" "cu_phone dto = Some p"
      "p \<noteq> []" "\<forall>w \<in> set (t_users s). u_phone w = Some p \<longrightarrow> u_deletedAt w \<noteq> None"
    then have "\<not> list_ex (\<lambda>u. u_phone u = Some p \<and> u_supabaseId u \<noteq> ji_supabaseId ident \<and>
        u_deletedAt u = None) (t_users s)" by (auto simp: list_ex_iff)
    with d show ?thesis by (simp add: signupPhone_def truthy_def)
  qed
  with assms(1-5) show ?thesis by (rule createFromJwt_phone_conflict)
qed

text \<open>A squatter that typed the number, and the owner whose number Supabase has confirmed.\<close>

abbreviation demo_squatter :: user_row where
  "demo_squatter \<equiv> (demo_user ''q'' ''qb'' R_Buyer)\<lparr>u_email := ''q@x'', u_phone := Some ''+336''\<rparr>"

abbreviation demo_owner :: auth_user where
  "demo_owner \<equiv> \<lparr>sbu_email = None, sbu_emailConfirmedAt = None, sbu_metadataEmail = None,
    sbu_identityEmails = [], sbu_phone = Some ''336'', sbu_phoneConfirmedAt = Some ''d''\<rparr>"

theorem phone_blocks_sign_up_witness:
  "createFromJwt demo_env demo_identity (Some demo_owner) demo_signup
     (empty_db\<lparr>t_users := [demo_squatter]\<rparr>) = (Inl PrismaConflict, empty_db\<lparr>t_users := [demo_squatter]\<rparr>)"
  by (rule phone_blocks_sign_up [where v = demo_squatter and p = "''+336''" and email = "''n@x''"])
    (simp_all add: getUserBySupabase_def pickEmail_def truthy_def withPlus_def
      assertEmailAvailableForIdentity_def empty_db_def)

subsection \<open>The pickup location\<close>

definition pickupRow :: "id \<Rightarrow> address_row \<Rightarrow> bool" where
  "pickupRow userId a \<longleftrightarrow> ad_userId a = userId \<and> ad_kind a = AK_SellerPickup"

text \<open>
  Address ids are distinct, a seller has at most one pickup row, and the point of the pickup
  row is the location the feed searches by.
\<close>

definition pickupMirror :: "db \<Rightarrow> bool" where
  "pickupMirror s \<longleftrightarrow> distinct (map ad_id (t_addresses s)) \<and>
    (\<forall>u. \<forall>a \<in> set (t_addresses s). \<forall>b \<in> set (t_addresses s).
       pickupRow u a \<longrightarrow> pickupRow u b \<longrightarrow> ad_id a = ad_id b) \<and>
    (\<forall>a \<in> set (t_addresses s). ad_kind a = AK_SellerPickup \<longrightarrow> ad_point a \<noteq> None \<longrightarrow>
       (\<forall>p. getSeller s (ad_userId a) = Some p \<longrightarrow> sp_location p = ad_point a))"

lemma pickupMirrorI:
  assumes "distinct (map ad_id (t_addresses s))"
    and "\<And>u a b. a \<in> set (t_addresses s) \<Longrightarrow> b \<in> set (t_addresses s) \<Longrightarrow> pickupRow u a \<Longrightarrow>
      pickupRow u b \<Longrightarrow> ad_id a = ad_id b"
    and "\<And>a p. a \<in> set (t_addresses s) \<Longrightarrow> ad_kind a = AK_SellerPickup \<Longrightarrow> ad_point a \<noteq> None \<Longrightarrow>
      getSeller s (ad_userId a) = Some p \<Longrightarrow> sp_location p = ad_point a"
  shows "pickupMirror s"
  using assms unfolding pickupMirror_def by blast

lemma pickupMirrorD:
  assumes "pickupMirror s"
  shows "distinct (map ad_id (t_addresses s))"
    and "a \<in> set (t_addresses s) \<Longrightarrow> b \<in> set (t_addresses s) \<Longrightarrow> pickupRow u a \<Longrightarrow>
      pickupRow u b \<Longrightarrow> ad_id a = ad_id b"
    and "a \<in> set (t_addresses s) \<Longrightarrow> ad_kind a = AK_SellerPickup \<Longrightarrow> ad_point a \<noteq> None \<Longrightarrow>
      getSeller s (ad_userId a) = Some p \<Longrightarrow> sp_location p = ad_point a"
  using assms unfolding pickupMirror_def by blast+

text \<open>Rewriting a row without touching its key, owner, kind and point.\<close>

lemma pickupMirror_upd:
  assumes s: "pickupMirror s"
    and f: "\<And>a. ad_id (f a) = ad_id a \<and> ad_userId (f a) = ad_userId a \<and> ad_kind (f a) = ad_kind a \<and>
      ad_point (f a) = ad_point a"
  shows "pickupMirror (updAddress i f s)"
proof (rule pickupMirrorI)
  show "distinct (map ad_id (t_addresses (updAddress i f s)))"
    using pickupMirrorD(1) [OF s] by (simp add: updAddress_def map_key_updRow f)
next
  fix u a b
  assume ab: "a \<in> set (t_addresses (updAddress i f s))" "b \<in> set (t_addresses (updAddress i f s))"
    and r: "pickupRow u a" "pickupRow u b"
  then obtain a' b' where "a' \<in> set (t_addresses s)" "b' \<in> set (t_addresses s)"
    "a = (if ad_id a' = i then f a' else a')" "b = (if ad_id b' = i then f b' else b')"
    by (auto simp: updAddress_def in_updRow)
  then show "ad_id a = ad_id b"
    using r pickupMirrorD(2) [OF s, of a' b' u] by (auto simp: pickupRow_def f split: if_splits)
next
  fix a p
  assume a: "a \<in> set (t_addresses (updAddress i f s))" "ad_kind a = AK_SellerPickup" "ad_point a \<noteq> None"
    "getSeller (updAddress i f s) (ad_userId a) = Some p"
  then obtain a' where a': "a' \<in> set (t_addresses s)" "a = (if ad_id a' = i then f a' else a')"
    by (auto simp: updAddress_def in_updRow)
  have same: "ad_kind a' = ad_kind a" "ad_point a' = ad_point a" "ad_userId a' = ad_userId a"
    by (simp_all add: a'(2) f)
  have "getSeller s (ad_userId a') = Some p"
    using a(4) by (simp add: same getSeller_def updAddress_def)
  then show "sp_location p = ad_point a"
    using pickupMirrorD(3) [OF s a'(1)] a(2,3) same by simp
qed

lemma pickupMirror_point:
  assumes s: "pickupMirror s" and r: "r \<in> set (t_addresses s)" "ad_id r = i" "ad_userId r = u" "ad_kind r = k"
  shows "pickupMirror (writePointIfPresent i u k dto s)"
proof (cases "dtoPoint dto")
  case None
  then show ?thesis using s by (simp add: writePointIfPresent_def)
next
  case (Some pt)
  define t where "t = writePointIfPresent i u k dto s"
  have addr: "t_addresses t = updRow ad_id i (\<lambda>a. a\<lparr>ad_point := Some pt\<rparr>) (t_addresses s)"
    by (simp add: t_def writePointIfPresent_def Some updAddress_def updSeller_def Let_def)
  have row: "\<exists>a' \<in> set (t_addresses s). ad_id a = ad_id a' \<and> ad_userId a = ad_userId a' \<and> ad_kind a = ad_kind a' \<and>
      ad_point a = (if ad_id a' = i then Some pt else ad_point a')" if "a \<in> set (t_addresses t)" for a
    using that by (auto simp: addr in_updRow)
  have sel: "getSeller t v = (if k = AK_SellerPickup \<and> v = u
      then map_option (\<lambda>q. q\<lparr>sp_location := Some pt\<rparr>) (getSeller s v) else getSeller s v)" for v
  proof -
    have "getSeller (updAddress i f s) = getSeller s" for f
      by (simp add: fun_eq_iff getSeller_def updAddress_def)
    then show ?thesis by (simp add: t_def writePointIfPresent_def Some Let_def sel.get_put)
  qed
  have "pickupMirror t"
  proof (rule pickupMirrorI)
    show "distinct (map ad_id (t_addresses t))"
      using pickupMirrorD(1) [OF s] by (simp add: addr map_key_updRow)
  next
    fix v a b assume "a \<in> set (t_addresses t)" "b \<in> set (t_addresses t)" "pickupRow v a" "pickupRow v b"
    then show "ad_id a = ad_id b"
      using row [of a] row [of b] pickupMirrorD(2) [OF s, of _ _ v] unfolding pickupRow_def by metis
  next
    fix a p assume a: "a \<in> set (t_addresses t)" "ad_kind a = AK_SellerPickup" "ad_point a \<noteq> None"
      "getSeller t (ad_userId a) = Some p"
    obtain a' where a': "a' \<in> set (t_addresses s)" "ad_id a = ad_id a'" "ad_userId a = ad_userId a'"
      "ad_kind a = ad_kind a'" "ad_point a = (if ad_id a' = i then Some pt else ad_point a')"
      using row [OF a(1)] by blast
    show "sp_location p = ad_point a"
    proof (cases "ad_id a' = i")
      case True
      then have "a' = r"
        using a'(1) r(1,2) pickupMirrorD(1) [OF s] by (simp add: distinct_map inj_on_def)
      then have "k = AK_SellerPickup" "ad_userId a = u" using a(2) a' r by simp_all
      then show ?thesis using a(4) sel [of u] a'(5) True by auto
    next
      case False
      have "\<not> (k = AK_SellerPickup \<and> ad_userId a = u)"
      proof
        assume "k = AK_SellerPickup \<and> ad_userId a = u"
        then have "pickupRow u a'" "pickupRow u r" using a a' r by (simp_all add: pickupRow_def)
        then show False using pickupMirrorD(2) [OF s a'(1) r(1)] False r(2) by blast
      qed
      then have "getSeller s (ad_userId a') = Some p" using a(4) sel a'(3) by auto
      then show ?thesis using pickupMirrorD(3) [OF s a'(1)] a a' False by simp
    qed
  qed
  then show ?thesis by (simp add: t_def)
qed

definition freshAddress :: "env \<Rightarrow> db \<Rightarrow> bool" where
  "freshAddress env s \<longleftrightarrow> e_ulid env ForAddress \<notin> ad_id ` set (t_addresses s)"

lemma pickupMirror_insert:
  assumes s: "pickupMirror s" and fresh: "freshAddress env s"
    and ins: "insertAddress env u k data s = (Inr i, t)"
  shows "pickupMirror t \<and> i = e_ulid env ForAddress \<and>
    (\<exists>r \<in> set (t_addresses t). ad_id r = i \<and> ad_userId r = u \<and> ad_kind r = k)"
proof -
  define new where "new = \<lparr>ad_id = e_ulid env ForAddress, ad_userId = u, ad_kind = k, ad_data = data,
      ad_point = None, ad_deletedAt = None, ad_updatedAt = e_now env\<rparr>"
  have free: "\<not> singletonTaken u k s" and i: "i = e_ulid env ForAddress"
    and t: "t = s\<lparr>t_addresses := t_addresses s @ [new]\<rparr>"
    using ins by (auto simp: insertAddress_def new_def split: if_splits)
  have single: False if "a \<in> set (t_addresses s)" "pickupRow v a" "pickupRow v new" for a v
    using that free by (auto simp: singletonTaken_def pickupRow_def new_def list_ex_iff)
  have "pickupMirror t"
  proof (rule pickupMirrorI)
    show "distinct (map ad_id (t_addresses t))"
      using pickupMirrorD(1) [OF s] fresh by (simp add: t new_def freshAddress_def)
  next
    fix v a b assume "a \<in> set (t_addresses t)" "b \<in> set (t_addresses t)" "pickupRow v a" "pickupRow v b"
    then show "ad_id a = ad_id b"
      using pickupMirrorD(2) [OF s, of a b v] single by (auto simp: t)
  next
    fix a p assume a: "a \<in> set (t_addresses t)" "ad_kind a = AK_SellerPickup" "ad_point a \<noteq> None"
      "getSeller t (ad_userId a) = Some p"
    then have "a \<in> set (t_addresses s)" "getSeller s (ad_userId a) = Some p"
      by (auto simp: t new_def getSeller_def)
    then show "sp_location p = ad_point a" using pickupMirrorD(3) [OF s] a by blast
  qed
  then show ?thesis by (simp add: i t new_def)
qed

lemma find_SomeE:
  assumes "List.find P xs = Some x" obtains "x \<in> set xs" "P x"
  using assms by (auto simp: find_Some_iff in_set_conv_nth)

lemma recentAddress_row:
  "recentAddress u k s = Some a \<Longrightarrow> a \<in> set (t_addresses s) \<and> ad_userId a = u \<and> ad_kind a = k"
proof -
  assume "recentAddress u k s = Some a"
  then obtain as where "sort_key (\<lambda>a. - ad_updatedAt a) (filter (liveAddress u k) (t_addresses s)) = a # as"
    by (auto simp: recentAddress_def split: list.splits)
  then have "a \<in> set (sort_key (\<lambda>a. - ad_updatedAt a) (filter (liveAddress u k) (t_addresses s)))"
    by (metis list.set_intros(1))
  then show ?thesis by (simp add: liveAddress_def)
qed

lemma updAddress_row:
  assumes "r \<in> set (t_addresses s)"
    and "\<And>a. ad_id (f a) = ad_id a \<and> ad_userId (f a) = ad_userId a \<and> ad_kind (f a) = ad_kind a"
  shows "\<exists>q \<in> set (t_addresses (updAddress i f s)).
    ad_id q = ad_id r \<and> ad_userId q = ad_userId r \<and> ad_kind q = ad_kind r"
  using assms by (intro bexI [of _ "if ad_id r = i then f r else r"]) (auto simp: updAddress_def in_updRow)

lemma pickupMirror_write:
  assumes "pickupMirror s" and "\<exists>r \<in> set (t_addresses s). ad_id r = i \<and> ad_userId r = u \<and> ad_kind r = k"
  shows "pickupMirror (writePointIfPresent i u k dto s)"
  using assms pickupMirror_point by blast

lemma upsertAddress_mirror:
  assumes s: "pickupMirror s" and fresh: "freshAddress env s"
    and run: "upsertAddress env sid kind dto s = (Inr i, t)"
  shows "pickupMirror t"
proof -
  define step where "step user = (case recentAddress (u_id user) kind s of
       Some a \<Rightarrow> ok (ad_id a) (updAddress (ad_id a) (\<lambda>r. r\<lparr>ad_data := upsertColumns dto,
         ad_updatedAt := e_now env\<rparr>) s)
     | None \<Rightarrow> insertAddress env (u_id user) kind (upsertColumns dto) s)" for user :: user_row
  obtain user where user: "getUserBySupabase s sid = Some user"
    using run by (auto simp: upsertAddress_def split: option.splits)
  then have "u_role user = expectedRole kind"
    using run by (auto simp: upsertAddress_def split: if_splits)
  with user run have "bindR (step user)
      (\<lambda>i t. ok i (writePointIfPresent i (u_id user) kind dto t)) = (Inr i, t)"
    by (simp add: upsertAddress_def step_def transaction_Inr)
  then obtain v where st: "step user = (Inr i, v)" and t: "t = writePointIfPresent i (u_id user) kind dto v"
    by (auto simp: bindR_Inr_iff)
  have "pickupMirror v \<and>
      (\<exists>r \<in> set (t_addresses v). ad_id r = i \<and> ad_userId r = u_id user \<and> ad_kind r = kind)"
  proof (cases "recentAddress (u_id user) kind s")
    case None
    then have "insertAddress env (u_id user) kind (upsertColumns dto) s = (Inr i, v)"
      using st by (simp add: step_def)
    from pickupMirror_insert [OF s fresh this] show ?thesis by blast
  next
    case (Some a)
    let ?f = "\<lambda>r. r\<lparr>ad_data := upsertColumns dto, ad_updatedAt := e_now env\<rparr>"
    have v: "i = ad_id a" "v = updAddress (ad_id a) ?f s"
      using st by (auto simp: step_def Some)
    have "pickupMirror v" unfolding v(2) by (rule pickupMirror_upd [OF s]) simp
    moreover have "\<exists>q \<in> set (t_addresses v). ad_id q = ad_id a \<and> ad_userId q = ad_userId a \<and>
        ad_kind q = ad_kind a"
      unfolding v(2) by (rule updAddress_row) (simp_all add: recentAddress_row [OF Some])
    ultimately show ?thesis using recentAddress_row [OF Some] v(1) by simp
  qed
  then show ?thesis unfolding t by (intro pickupMirror_write) auto
qed

lemma createAddress_mirror:
  assumes s: "pickupMirror s" and fresh: "freshAddress env s"
    and run: "createAddress env sid dto s = (Inr x, t)"
  shows "pickupMirror t"
proof -
  obtain user where "getUserBySupabase s sid = Some user"
    using run by (auto simp: createAddress_def split: option.splits)
  then obtain i v where ins: "insertAddress env (u_id user) (kindForRole (u_role user)) dto s = (Inr i, v)"
    and t: "t = writePointIfPresent i (u_id user) (kindForRole (u_role user)) dto v"
    using run by (auto simp: createAddress_def Let_def bindR_Inr_iff)
  from pickupMirror_insert [OF s fresh ins] show ?thesis
    unfolding t by (intro pickupMirror_write) auto
qed

lemma ownAddress_row: "ownAddress i u s = Some a \<Longrightarrow>
    a \<in> set (t_addresses s) \<and> ad_id a = i \<and> ad_userId a = u"
  unfolding ownAddress_def by (erule find_SomeE) simp

lemma updateAddressById_mirror:
  assumes s: "pickupMirror s" and run: "updateAddressById env sid i dto s = (Inr x, t)"
  shows "pickupMirror t"
proof -
  obtain user where u: "getUserBySupabase s sid = Some user"
    using run by (auto simp: updateAddressById_def split: option.splits)
  then obtain a where a: "ownAddress i (u_id user) s = Some a"
    using run by (auto simp: updateAddressById_def split: option.splits)
  have t: "t = writePointIfPresent (ad_id a) (u_id user) (ad_kind a) dto
      (updAddress (ad_id a) (\<lambda>r. r\<lparr>ad_data := updateColumns dto (ad_data r), ad_updatedAt := e_now env\<rparr>) s)"
    using run by (simp add: updateAddressById_def Let_def u a)
  show ?thesis unfolding t
  proof (rule pickupMirror_write)
    show "pickupMirror (updAddress (ad_id a)
        (\<lambda>r. r\<lparr>ad_data := updateColumns dto (ad_data r), ad_updatedAt := e_now env\<rparr>) s)"
      by (rule pickupMirror_upd [OF s]) simp
    have "\<exists>q \<in> set (t_addresses (updAddress (ad_id a)
        (\<lambda>r. r\<lparr>ad_data := updateColumns dto (ad_data r), ad_updatedAt := e_now env\<rparr>) s)).
        ad_id q = ad_id a \<and> ad_userId q = ad_userId a \<and> ad_kind q = ad_kind a"
      by (rule updAddress_row) (simp_all add: ownAddress_row [OF a])
    then show "\<exists>r \<in> set (t_addresses (updAddress (ad_id a)
        (\<lambda>r. r\<lparr>ad_data := updateColumns dto (ad_data r), ad_updatedAt := e_now env\<rparr>) s)).
        ad_id r = ad_id a \<and> ad_userId r = u_id user \<and> ad_kind r = ad_kind a"
      using ownAddress_row [OF a] by simp
  qed
qed

lemma deleteAddressById_mirror:
  assumes s: "pickupMirror s" and run: "deleteAddressById env sid i s = (Inr x, t)"
  shows "pickupMirror t"
proof -
  have "\<exists>j. t = updAddress j (\<lambda>r. r\<lparr>ad_deletedAt := Some (e_now env), ad_updatedAt := e_now env\<rparr>) s"
    using run by (auto simp: deleteAddressById_def split: option.splits)
  then show ?thesis using pickupMirror_upd [OF s] by auto
qed

text \<open>The requests on the address book.\<close>

inductive address_step :: "db \<Rightarrow> db \<Rightarrow> bool" where
  st_upsert: "freshAddress env s \<Longrightarrow> upsertAddress env sid kind dto s = (Inr i, t) \<Longrightarrow> address_step s t"
| st_create: "freshAddress env s \<Longrightarrow> createAddress env sid dto s = (Inr x, t) \<Longrightarrow> address_step s t"
| st_update: "updateAddressById env sid i dto s = (Inr x, t) \<Longrightarrow> address_step s t"
| st_delete: "deleteAddressById env sid i s = (Inr (), t) \<Longrightarrow> address_step s t"

lemma address_step_mirror: "pickupMirror s \<Longrightarrow> address_step s t \<Longrightarrow> pickupMirror t"
  by (erule address_step.cases)
    (auto intro: upsertAddress_mirror createAddress_mirror updateAddressById_mirror deleteAddressById_mirror)

interpretation addressBook: inductive_invariant pickupMirror address_step pickupMirror
  by unfold_locales (auto intro: address_step_mirror)


text \<open>A seller that has just set the pickup address with coordinates.\<close>

abbreviation demo_address :: address_data where
  "demo_address \<equiv> \<lparr>ad_type = None, ad_customLabel = None, ad_fullAddress = ''1 rue'', ad_city = ''P'',
    ad_postalCode = None, ad_apartment = None, ad_floor = None, ad_digicode = None,
    ad_deliveryNotes = None, ad_lat = Some (JNum 48), ad_lng = Some (JNum 2)\<rparr>"

abbreviation pickup_db :: db where
  "pickup_db \<equiv> snd (upsertAddress demo_env ''sb'' AK_SellerPickup demo_address payout_db)"

lemma pickup_db_run:
  "case fst (upsertAddress demo_env ''sb'' AK_SellerPickup demo_address payout_db) of
     Inl _ \<Rightarrow> False | Inr i \<Rightarrow> i = ''ad''"
  "map (\<lambda>a. (ad_id a, ad_userId a, ad_kind a, ad_point a, ad_deletedAt a)) (t_addresses pickup_db) =
     [(''ad'', ''s'', AK_SellerPickup, Some (JNum 2, JNum 48), None)]"
  "map_option sp_location (getSeller pickup_db ''s'') = Some (Some (JNum 2, JNum 48))"
  by code_simp+


text \<open>C29: A seller who has deleted the pickup address can never set one again: the deleted row still
  holds the place in the unique index, and neither the wizard's upsert nor the creation of an
  address finds it to rewrite. The location the feed uses is not cleared either.
\<close>

theorem deleted_pickup_blocks:
  assumes "getUserBySupabase s sid = Some user" and "u_role user = R_Seller"
    and "ownAddress i (u_id user) s = Some a" and "ad_kind a = AK_SellerPickup"
    and "\<forall>b \<in> set (t_addresses s). pickupRow (u_id user) b \<longrightarrow> ad_id b = i"
    and "deleteAddressById env sid i s = (Inr (), t)"
  shows "upsertAddress env' sid AK_SellerPickup dto t = (Inl PrismaConflict, t) \<and>
    createAddress env' sid dto t = (Inl PrismaConflict, t) \<and>
    updateAddressById env' sid i dto t = (Inl (NotFound AnAddress), t) \<and>
    getSeller t (u_id user) = getSeller s (u_id user)"
proof -
  define f where "f r = r\<lparr>ad_deletedAt := Some (e_now env), ad_updatedAt := e_now env\<rparr>" for r :: address_row
  have ai: "ad_id a = i" and aset: "a \<in> set (t_addresses s)" and au: "ad_userId a = u_id user"
    using ownAddress_row [OF assms(3)] by simp_all
  have t: "t = updAddress i f s"
    using assms(6) by (simp add: deleteAddressById_def assms(1,3) ai f_def [abs_def])
  have user: "getUserBySupabase t sid = Some user"
    using assms(1) by (simp add: t getUserBySupabase_def updAddress_def)
  have rows: "\<exists>q \<in> set (t_addresses s). b = (if ad_id q = i then f q else q)"
    if "b \<in> set (t_addresses t)" for b
    using that by (simp add: t updAddress_def in_updRow)
  have gone: "\<not> liveAddress (u_id user) AK_SellerPickup b" if b: "b \<in> set (t_addresses t)" for b
  proof
    assume live: "liveAddress (u_id user) AK_SellerPickup b"
    obtain q where q: "q \<in> set (t_addresses s)" "b = (if ad_id q = i then f q else q)"
      using rows [OF b] by blast
    have "pickupRow (u_id user) q"
      using live q(2) by (auto simp: liveAddress_def pickupRow_def f_def split: if_splits)
    then have "b = f q" using assms(5) q by simp
    with live show False by (simp add: liveAddress_def f_def)
  qed
  have none: "recentAddress (u_id user) AK_SellerPickup t = None"
  proof -
    have "filter (liveAddress (u_id user) AK_SellerPickup) (t_addresses t) = []"
      using gone by (simp add: filter_empty_conv)
    then show ?thesis by (simp add: recentAddress_def)
  qed
  have fa: "f a \<in> set (t_addresses t)"
    using aset ai by (auto simp: t updAddress_def in_updRow)
  have taken: "singletonTaken (u_id user) AK_SellerPickup t"
    using fa assms(4) au by (auto simp: singletonTaken_def list_ex_iff f_def intro!: bexI [OF _ fa])
  have own: "ownAddress i (u_id user) t = None"
  proof -
    have "\<not> (ad_id b = i \<and> ad_userId b = u_id user \<and> ad_deletedAt b = None)"
      if b: "b \<in> set (t_addresses t)" for b
    proof -
      obtain q where "b = (if ad_id q = i then f q else q)" using rows [OF b] by blast
      then show ?thesis by (auto simp: f_def)
    qed
    then show ?thesis by (simp add: ownAddress_def find_None_iff)
  qed
  show ?thesis
    using user none taken own assms(2)
    by (simp add: upsertAddress_def expectedRole_def transaction_def insertAddress_def createAddress_def
      kindForRole_def updateAddressById_def t getSeller_def updAddress_def fail_def)
qed

lemma pickup_db_deletes:
  "case fst (deleteAddressById demo_env ''sb'' ''ad'' pickup_db) of Inl _ \<Rightarrow> False | Inr _ \<Rightarrow> True"
  "map_option u_id (getUserBySupabase pickup_db ''sb'') = Some ''s''"
  "map_option u_role (getUserBySupabase pickup_db ''sb'') = Some R_Seller"
  "map_option ad_kind (ownAddress ''ad'' ''s'' pickup_db) = Some AK_SellerPickup"
  "list_all (\<lambda>b. ad_id b = ''ad'') (t_addresses pickup_db)"
  by code_simp+

theorem deleted_pickup_blocks_witness:
  "\<exists>t. deleteAddressById demo_env ''sb'' ''ad'' pickup_db = (Inr (), t) \<and>
    upsertAddress demo_env ''sb'' AK_SellerPickup demo_address t = (Inl PrismaConflict, t)"
proof -
  obtain t where run: "deleteAddressById demo_env ''sb'' ''ad'' pickup_db = (Inr (), t)"
    using run_InrE [OF pickup_db_deletes(1)] by (metis old.unit.exhaust)
  obtain user where user: "getUserBySupabase pickup_db ''sb'' = Some user" "u_role user = R_Seller" "u_id user = ''s''"
    using pickup_db_deletes(2,3) by auto
  obtain a where a: "ownAddress ''ad'' ''s'' pickup_db = Some a" "ad_kind a = AK_SellerPickup"
    using pickup_db_deletes(4) by auto
  have "\<forall>b \<in> set (t_addresses pickup_db). pickupRow (u_id user) b \<longrightarrow> ad_id b = ''ad''"
    using pickup_db_deletes(5) by (simp add: list_all_iff)
  from deleted_pickup_blocks [OF user(1,2) a(1) [folded user(3)] a(2) this run] run
  show ?thesis by blast
qed

subsection \<open>Profiles\<close>

text \<open>A call that replaces the driver's zones leaves exactly the given zones, in their order, and
  every other driver's zones alone; a birth date on record after a vehicle update is at least
  eighteen years old or was there before.
\<close>

theorem driver_profile_effect:
  "(upsertZones sid zones s = (Inr r, t) \<longrightarrow> (\<exists>u. assertDriverProfile sid s = Inr u \<and> r = zones \<and> distinct zones \<and>
      (\<forall>v. map dz_zoneId (filter (\<lambda>z. dz_userId z = v) (t_driverZones t)) =
        (if v = u then zones else map dz_zoneId (filter (\<lambda>z. dz_userId z = v) (t_driverZones s)))))) \<and>
   (upsertVehicle env sid v dob s = (Inr q, t) \<longrightarrow> (\<exists>u p p'. assertDriverProfile sid s = Inr u \<and>
      getDriver s u = Some p \<and> getDriver t u = Some p' \<and> q = Some p' \<and> dp_vehicleType p' = Some v \<and>
      (dp_dateOfBirth p' = dp_dateOfBirth p \<or>
       (\<exists>d. dp_dateOfBirth p' = Some d \<and> d \<le> addYears (-18) (e_now env)))))"
proof (intro conjI impI)
  assume "upsertZones sid zones s = (Inr r, t)"
  then obtain u where u: "assertDriverProfile sid s = Inr u" "replaceZones u zones s = (Inr r, t)"
    by (auto simp: upsertZones_def transaction_Inr split: sum.splits)
  then have z: "distinct zones" "r = zones"
      "t_driverZones t = filter (\<lambda>z. dz_userId z \<noteq> u) (t_driverZones s) @
        map (\<lambda>z. \<lparr>dz_userId = u, dz_zoneId = z\<rparr>) zones"
    by (auto simp: replaceZones_def split: if_splits)
  have "map dz_zoneId (filter (\<lambda>z. dz_userId z = v) (t_driverZones t)) =
      (if v = u then zones else map dz_zoneId (filter (\<lambda>z. dz_userId z = v) (t_driverZones s)))" for v
  proof (cases "v = u")
    case True
    then show ?thesis unfolding z(3) by (simp add: filter_map o_def)
  next
    case False
    then have "filter (\<lambda>z. dz_userId z \<noteq> u \<and> dz_userId z = v) (t_driverZones s) =
        filter (\<lambda>z. dz_userId z = v) (t_driverZones s)"
      by (intro filter_cong) auto
    with False show ?thesis unfolding z(3) by (simp add: filter_map o_def)
  qed
  with u(1) z(1,2) show "\<exists>u. assertDriverProfile sid s = Inr u \<and> r = zones \<and> distinct zones \<and>
      (\<forall>v. map dz_zoneId (filter (\<lambda>z. dz_userId z = v) (t_driverZones t)) =
        (if v = u then zones else map dz_zoneId (filter (\<lambda>z. dz_userId z = v) (t_driverZones s))))"
    by blast
next
  assume run: "upsertVehicle env sid v dob s = (Inr q, t)"
  then obtain u where u: "assertDriverProfile sid s = Inr u"
    by (auto simp: upsertVehicle_def split: sum.splits)
  then obtain p where p: "getDriver s u = Some p"
    by (auto simp: assertDriverProfile_def split: option.splits if_splits)
  have adult: "dob = None \<or> (\<exists>d. dob = Some d \<and> d \<le> addYears (-18) (e_now env))"
    using run u by (cases dob) (auto simp: upsertVehicle_def split: if_splits)
  define f where "f p = p\<lparr>dp_vehicleType := Some v, dp_dateOfBirth := overOpt dob (dp_dateOfBirth p)\<rparr>"
    for p :: driver_row
  have t: "t = updDriver u f s \<and> q = getDriver (updDriver u f s) u"
    using run u adult by (auto simp: upsertVehicle_def Let_def f_def [abs_def])
  have "getDriver t u = Some (f p)" using t p by (simp add: drv.get_put f_def)
  then show "\<exists>u p p'. assertDriverProfile sid s = Inr u \<and> getDriver s u = Some p \<and> getDriver t u = Some p' \<and>
      q = Some p' \<and> dp_vehicleType p' = Some v \<and> (dp_dateOfBirth p' = dp_dateOfBirth p \<or>
       (\<exists>d. dp_dateOfBirth p' = Some d \<and> d \<le> addYears (-18) (e_now env)))"
    using u p t adult by (intro exI [of _ u] exI [of _ p] exI [of _ "f p"]) (auto simp: f_def overOpt_def)
qed

end
