(* ===== verification/Moderation.thy ===== *)
theory Moderation
  imports Users
begin

section \<open>Reports and legal documents\<close>

text \<open>
  The moderation reports (\<open>src/modules/moderation/reports.service.ts\<close>) and the terms documents
  the administrators edit and publish
  (\<open>src/modules/compliance/legal-documents/legal-documents.service.ts\<close>). The tables are in
  creation order, so the newest first is the reversed table.
\<close>

subsection \<open>Filing a report\<close>

definition TARGET_LISTING :: string where "TARGET_LISTING = ''LISTING''"

definition TARGET_SELLER :: string where "TARGET_SELLER = ''SELLER''"

record create_report_dto =
  cr_type :: report_reason
  cr_listingId :: "id option"
  cr_sellerId :: "id option"
  cr_reason :: "string option"

definition reportTarget :: "create_report_dto \<Rightarrow> exn + string \<times> id" where
  "reportTarget dto =
    (if truthy (cr_listingId dto) then Inr (TARGET_LISTING, the (cr_listingId dto))
     else if truthy (cr_sellerId dto) then Inr (TARGET_SELLER, the (cr_sellerId dto))
     else Inl (BadRequest (Account TargetRequired)))"

definition reportGate :: "create_report_dto \<Rightarrow> db \<Rightarrow> exn option" where
  "reportGate dto s =
    (if cr_type dto = RR_NonFaitMaison then
       (if \<not> truthy (cr_listingId dto) then Some (BadRequest (Account NonFaitMaisonNeedsListing))
        else case getListing s (the (cr_listingId dto)) of
            None \<Rightarrow> Some (NotFound AListing)
          | Some l \<Rightarrow> if l_category l \<noteq> SC_FaitMaison
              then Some (BadRequest (Account OnlyFaitMaisonListings)) else None)
     else if truthy (cr_listingId dto) \<and> getListing s (the (cr_listingId dto)) = None
     then Some (NotFound AListing) else None)"

definition pendingDup :: "id \<Rightarrow> id \<Rightarrow> report_reason \<Rightarrow> report_row \<Rightarrow> bool" where
  "pendingDup reporterId targetId type r \<longleftrightarrow> rp_reporterId r = reporterId \<and> rp_targetId r = targetId \<and>
     rp_reason r = type \<and> rp_status r = RS_Pending"

definition createReport :: "env \<Rightarrow> id \<Rightarrow> create_report_dto \<Rightarrow> db \<Rightarrow> (exn, id \<times> report_status, db) result" where
  "createReport env supabaseId dto s =
    (case getUserBySupabase s supabaseId of None \<Rightarrow> fail (NotFound UserProfile) s | Some reporter \<Rightarrow>
     case reportTarget dto of Inl e \<Rightarrow> fail e s | Inr (targetType, targetId) \<Rightarrow>
     case reportGate dto s of Some e \<Rightarrow> fail e s | None \<Rightarrow>
     if list_ex (pendingDup (u_id reporter) targetId (cr_type dto)) (t_reports s)
     then fail (Conflict (Account AlreadyReported2)) s
     else ok (e_ulid env ForReport, RS_Pending) (s\<lparr>t_reports := t_reports s @
       [\<lparr>rp_id = e_ulid env ForReport, rp_reporterId = u_id reporter, rp_targetType = targetType,
         rp_targetId = targetId, rp_reason = cr_type dto, rp_description = cr_reason dto,
         rp_status = RS_Pending, rp_reviewedBy = None, rp_adminNote = None\<rparr>]\<rparr>))"

subsection \<open>The administrators' list\<close>

record person =
  pe_id :: id
  pe_email :: string
  pe_name :: string

record enriched_report =
  er_row :: report_row
  er_reporter :: "person option"
  er_listing :: "(id \<times> string \<times> seller_category) option"
  er_seller :: "person option"

definition personName :: "user_row \<Rightarrow> string" where
  "personName u = trim (u_firstName u @ '' '' @ u_lastName u)"

definition reporterView :: "user_row \<Rightarrow> person" where
  "reporterView u = \<lparr>pe_id = u_id u, pe_email = u_email u, pe_name = personName u\<rparr>"

definition sellerView :: "db \<Rightarrow> user_row \<Rightarrow> person" where
  "sellerView s u =
    (let displayName = Option.bind (getSeller s (u_id u)) sp_displayName
     in \<lparr>pe_id = u_id u, pe_email = u_email u,
         pe_name = (if truthy displayName then the displayName else personName u)\<rparr>)"

text \<open>\<open>new Map(rows.map((r) => [r.id, r]))\<close>: a later row of the same key replaces an earlier one.\<close>

definition byId :: "('r \<Rightarrow> id) \<Rightarrow> 'r list \<Rightarrow> id \<Rightarrow> 'r option" where
  "byId key rows = map_of (rev (map (\<lambda>r. (key r, r)) rows))"

text \<open>\<open>findMany\<close> leaves deleted users and deleted listings out.\<close>

definition usersIn :: "id list \<Rightarrow> db \<Rightarrow> user_row list" where
  "usersIn ids s = (if ids = [] then [] else filter (\<lambda>u. u_id u \<in> set ids \<and> u_deletedAt u = None) (t_users s))"

definition listingsIn :: "id list \<Rightarrow> db \<Rightarrow> listing_row list" where
  "listingsIn ids s = (if ids = [] then [] else filter (\<lambda>l. l_id l \<in> set ids \<and> l_deletedAt l = None) (t_listings s))"

definition enrich :: "report_row list \<Rightarrow> db \<Rightarrow> enriched_report list" where
  "enrich reports s =
    (let reporterIds = uniq (map rp_reporterId reports);
         listingIds = uniq (map rp_targetId (filter (\<lambda>r. rp_targetType r = TARGET_LISTING) reports));
         reporterMap = byId u_id (usersIn reporterIds s);
         listings = listingsIn listingIds s;
         listingMap = byId l_id listings;
         sellerUserIds = uniq (map rp_targetId (filter (\<lambda>r. rp_targetType r = TARGET_SELLER) reports) @
           map l_sellerId listings);
         sellerMap = byId u_id (usersIn sellerUserIds s)
     in map (\<lambda>r.
          let reporter = reporterMap (rp_reporterId r);
              listing = (if rp_targetType r = TARGET_LISTING then listingMap (rp_targetId r) else None);
              sellerUserId = (if rp_targetType r = TARGET_SELLER then Some (rp_targetId r)
                else map_option l_sellerId listing);
              seller = (if truthy sellerUserId then sellerMap (the sellerUserId) else None)
          in \<lparr>er_row = r, er_reporter = map_option reporterView reporter,
              er_listing = map_option (\<lambda>l. (l_id l, l_name l, l_category l)) listing,
              er_seller = map_option (sellerView s) seller\<rparr>) reports)"

record reports_page =
  rg_items :: "enriched_report list"
  rg_limit :: nat
  rg_offset :: nat
  rg_hasMore :: bool

definition listReports :: "report_status option \<Rightarrow> report_reason option \<Rightarrow> nat option \<Rightarrow> nat option \<Rightarrow> db
    \<Rightarrow> reports_page" where
  "listReports status type limitQ offsetQ s =
    (let limit = (case limitQ of None \<Rightarrow> 20 | Some n \<Rightarrow> n);
         offset = (case offsetQ of None \<Rightarrow> 0 | Some n \<Rightarrow> n);
         rows = take (limit + 1) (drop offset (rev (filter (\<lambda>r.
           (status = None \<or> status = Some (rp_status r)) \<and> (type = None \<or> type = Some (rp_reason r)))
           (t_reports s))));
         hasMore = limit < length rows;
         items = (if hasMore then take limit rows else rows)
     in \<lparr>rg_items = enrich items s, rg_limit = limit, rg_offset = offset, rg_hasMore = hasMore\<rparr>)"

definition updateReportStatus :: "id \<Rightarrow> report_status \<Rightarrow> string option \<Rightarrow> id \<Rightarrow> db
    \<Rightarrow> (exn, id \<times> report_status, db) result" where
  "updateReportStatus reportId status adminNote reviewerSupabaseId s =
    (if status \<noteq> RS_Resolved \<and> status \<noteq> RS_Rejected then fail (BadRequest (Account BadReportStatus)) s
     else case findRow rp_id reportId (t_reports s) of None \<Rightarrow> fail (NotFound AReport) s | Some _ \<Rightarrow>
       ok (reportId, status) (s\<lparr>t_reports := updRow rp_id reportId
         (\<lambda>r. r\<lparr>rp_status := status, rp_adminNote := adminNote,
           rp_reviewedBy := map_option u_id (getUserBySupabase s reviewerSupabaseId)\<rparr>) (t_reports s)\<rparr>))"

subsection \<open>Legal documents\<close>

definition LEGAL_KINDS :: "charter_kind list" where
  "LEGAL_KINDS = [CGU, CGV]"

text \<open>Ordered by kind (the order of the enum), then newest first.\<close>

definition listLegal :: "db \<Rightarrow> legal_doc_row list" where
  "listLegal s = concat (map (\<lambda>k. rev (filter (\<lambda>d. ld_kind d = k) (t_legalDocs s))) LEGAL_KINDS)"

definition activeAll :: "db \<Rightarrow> legal_doc_row list" where
  "activeAll s = concat (map (\<lambda>k. filter (\<lambda>d. ld_kind d = k \<and> ld_isActive d) (t_legalDocs s)) LEGAL_KINDS)"

definition versionRow :: "charter_kind \<Rightarrow> string \<Rightarrow> legal_doc_row \<Rightarrow> bool" where
  "versionRow kind version d \<longleftrightarrow> ld_kind d = kind \<and> ld_version d = version"

definition resolveLocalUserId :: "id \<Rightarrow> db \<Rightarrow> id option" where
  "resolveLocalUserId supabaseId s = map_option u_id (getUserBySupabase s supabaseId)"

definition createLegal :: "env \<Rightarrow> charter_kind \<Rightarrow> string \<Rightarrow> string \<Rightarrow> string \<Rightarrow> id \<Rightarrow> db
    \<Rightarrow> (exn, legal_doc_row, db) result" where
  "createLegal env kind version title content adminSupabaseId s =
    (if list_ex (versionRow kind version) (t_legalDocs s)
     then fail (Conflict (Account (VersionExists kind version))) s
     else let adminId = resolveLocalUserId adminSupabaseId s;
              doc = \<lparr>ld_id = e_ulid env ForLegalDoc, ld_kind = kind, ld_version = version,
                ld_title = title, ld_content = content, ld_isActive = False, ld_publishedAt = None,
                ld_createdBy = adminId, ld_updatedBy = adminId\<rparr>
          in ok doc (s\<lparr>t_legalDocs := t_legalDocs s @ [doc]\<rparr>))"

definition getLegalOrThrow :: "id \<Rightarrow> db \<Rightarrow> exn + legal_doc_row" where
  "getLegalOrThrow i s =
    (case findRow ld_id i (t_legalDocs s) of
       None \<Rightarrow> Inl (NotFound ALegalDocument)
     | Some doc \<Rightarrow> if ld_kind doc \<notin> set LEGAL_KINDS then Inl (NotFound ALegalDocument) else Inr doc)"

record update_legal_dto =
  ul_version :: "string option"
  ul_title :: "string option"
  ul_content :: "string option"

text \<open>The second clash is the unique index on \<open>(kind, version)\<close>, which also sees an empty version.\<close>

definition updateLegal :: "id \<Rightarrow> update_legal_dto \<Rightarrow> id \<Rightarrow> db \<Rightarrow> (exn, legal_doc_row, db) result" where
  "updateLegal i dto adminSupabaseId s =
    (case getLegalOrThrow i s of Inl e \<Rightarrow> fail e s | Inr current \<Rightarrow>
     let version = over (ul_version dto) (ld_version current);
         clash = list_ex (\<lambda>d. versionRow (ld_kind current) version d \<and> ld_id d \<noteq> i) (t_legalDocs s);
         doc = current\<lparr>ld_version := version, ld_title := over (ul_title dto) (ld_title current),
           ld_content := over (ul_content dto) (ld_content current),
           ld_updatedBy := resolveLocalUserId adminSupabaseId s\<rparr>
     in if truthy (ul_version dto) \<and> version \<noteq> ld_version current \<and> clash
        then fail (Conflict (Account (VersionExists (ld_kind current) version))) s
        else if clash then fail PrismaConflict s
        else ok doc (s\<lparr>t_legalDocs := updRow ld_id i (\<lambda>_. doc) (t_legalDocs s)\<rparr>))"

definition notifyUsersOfUpdate :: "string \<Rightarrow> db \<Rightarrow> db" where
  "notifyUsersOfUpdate version s =
    (let userIds = map u_id (filter (\<lambda>u. u_deletedAt u = None) (t_users s))
     in if userIds = [] then s else sendToUsers userIds ''legal_terms_updated'' version s)"

definition publishTx :: "env \<Rightarrow> id \<Rightarrow> legal_doc_row \<Rightarrow> id option \<Rightarrow> legal_doc_row list \<Rightarrow> legal_doc_row list" where
  "publishTx env i target adminId docs =
    updRow ld_id i (\<lambda>d. d\<lparr>ld_isActive := True,
        ld_publishedAt := orElse (ld_publishedAt target) (Some (e_now env)), ld_updatedBy := adminId\<rparr>)
      (updWhere (\<lambda>d. ld_kind d = ld_kind target \<and> ld_isActive d \<and> ld_id d \<noteq> i)
        (\<lambda>d. d\<lparr>ld_isActive := False\<rparr>) docs)"

definition publishLegal :: "env \<Rightarrow> id \<Rightarrow> id \<Rightarrow> db \<Rightarrow> (exn, legal_doc_row, db) result" where
  "publishLegal env i adminSupabaseId s =
    (case getLegalOrThrow i s of Inl e \<Rightarrow> fail e s | Inr target \<Rightarrow>
     let adminId = resolveLocalUserId adminSupabaseId s;
         t = s\<lparr>t_legalDocs := publishTx env i target adminId (t_legalDocs s)\<rparr>
     in case findRow ld_id i (t_legalDocs t) of
          None \<Rightarrow> fail UncaughtError s
        | Some doc \<Rightarrow> ok doc (notifyUsersOfUpdate (ld_version doc) t))"

subsection \<open>The batch is the row by row lookup\<close>

definition liveUser :: "db \<Rightarrow> id \<Rightarrow> user_row option" where
  "liveUser s i = Option.bind (getUser s i) (\<lambda>u. if u_deletedAt u = None then Some u else None)"

definition liveListing :: "db \<Rightarrow> id \<Rightarrow> listing_row option" where
  "liveListing s i = Option.bind (getListing s i) (\<lambda>l. if l_deletedAt l = None then Some l else None)"

definition enrichOne :: "db \<Rightarrow> report_row \<Rightarrow> enriched_report" where
  "enrichOne s r =
    (let listing = (if rp_targetType r = TARGET_LISTING then liveListing s (rp_targetId r) else None);
         seller = (if rp_targetType r = TARGET_SELLER then Some (rp_targetId r)
           else map_option l_sellerId listing)
     in \<lparr>er_row = r, er_reporter = map_option reporterView (liveUser s (rp_reporterId r)),
         er_listing = map_option (\<lambda>l. (l_id l, l_name l, l_category l)) listing,
         er_seller = map_option (sellerView s)
           (if truthy seller then liveUser s (the seller) else None)\<rparr>)"

lemma byId_filter:
  assumes "distinct (map key rows)" and "i \<in> I"
  shows "byId key (filter (\<lambda>r. key r \<in> I \<and> P r) rows) i =
    Option.bind (findRow key i rows) (\<lambda>r. if P r then Some r else None)"
proof -
  let ?rows = "filter (\<lambda>r. key r \<in> I \<and> P r) rows"
  have d: "distinct (map key ?rows)" using assms(1) by (simp add: distinct_map_filter)
  then have ds: "distinct (map fst (map (\<lambda>r. (key r, r)) ?rows))" by (simp add: o_def)
  have "byId key ?rows i = map_of (map (\<lambda>r. (key r, r)) ?rows) i"
    unfolding byId_def by (rule fun_cong, subst map_of_inject_set) (use ds in \<open>simp_all add: rev_map [symmetric]\<close>)
  also have "\<dots> = Option.bind (findRow key i rows) (\<lambda>r. if P r then Some r else None)"
    using assms
  proof (induction rows)
    case (Cons r rows)
    have "findRow key i rows = None" if "key r = i"
      unfolding findRow_None_iff using Cons.prems(1) that by (auto simp: image_iff)
    with Cons show ?case by auto
  qed simp
  finally show ?thesis .
qed

lemma byId_usersIn:
  assumes "distinct (map u_id (t_users s))" and "i \<in> set ids"
  shows "byId u_id (usersIn ids s) i = liveUser s i"
  using byId_filter [OF assms, of "\<lambda>u. u_deletedAt u = None"] assms(2)
  by (auto simp: usersIn_def liveUser_def getUser_def)

lemma byId_listingsIn:
  assumes "distinct (map l_id (t_listings s))" and "i \<in> set ids"
  shows "byId l_id (listingsIn ids s) i = liveListing s i"
  using byId_filter [OF assms, of "\<lambda>l. l_deletedAt l = None"] assms(2)
  by (auto simp: listingsIn_def liveListing_def getListing_def)

lemma liveListing_in:
  assumes "liveListing s i = Some l" and "i \<in> set ids"
  shows "l \<in> set (listingsIn ids s)"
proof -
  have "l \<in> set (t_listings s)" "l_id l = i" "l_deletedAt l = None"
    using assms(1) findRow_Some_set [of l_id i "t_listings s"] findRow_Some_key [of l_id i "t_listings s"]
    by (auto simp: liveListing_def getListing_def bind_eq_Some_conv split: if_splits)
  then show ?thesis using assms(2) by (auto simp: listingsIn_def)
qed

text \<open>C26: The batched lookups of the administrators' list give each report exactly what looking up
  its reporter, its listing and its seller one by one gives; deleted accounts and deleted
  listings are blank, and so is the seller of a deleted listing.
\<close>

theorem enrich_rowwise:
  assumes "distinct (map u_id (t_users s))" and "distinct (map l_id (t_listings s))"
  shows "enrich reports s = map (enrichOne s) reports"
proof -
  define reporterIds where "reporterIds = uniq (map rp_reporterId reports)"
  define listingIds where "listingIds = uniq (map rp_targetId (filter (\<lambda>r. rp_targetType r = TARGET_LISTING) reports))"
  define listings where "listings = listingsIn listingIds s"
  define sellerUserIds where "sellerUserIds = uniq (map rp_targetId (filter (\<lambda>r. rp_targetType r = TARGET_SELLER) reports) @
      map l_sellerId listings)"
  define one where "one r = (let reporter = byId u_id (usersIn reporterIds s) (rp_reporterId r);
          listing = if rp_targetType r = TARGET_LISTING then byId l_id listings (rp_targetId r) else None;
          sellerUserId = if rp_targetType r = TARGET_SELLER then Some (rp_targetId r) else map_option l_sellerId listing;
          seller = if truthy sellerUserId then byId u_id (usersIn sellerUserIds s) (the sellerUserId) else None
        in \<lparr>er_row = r, er_reporter = map_option reporterView reporter,
            er_listing = map_option (\<lambda>l. (l_id l, l_name l, l_category l)) listing,
            er_seller = map_option (sellerView s) seller\<rparr>)" for r
  have "enrich reports s = map one reports"
    by (simp add: enrich_def one_def Let_def reporterIds_def listingIds_def listings_def sellerUserIds_def)
  also have "\<dots> = map (enrichOne s) reports"
  proof (rule map_cong [OF refl])
    fix r assume r: "r \<in> set reports"
    have rep: "byId u_id (usersIn reporterIds s) (rp_reporterId r) = liveUser s (rp_reporterId r)"
      using r by (intro byId_usersIn [OF assms(1)]) (simp add: reporterIds_def)
    have lst: "byId l_id listings (rp_targetId r) = liveListing s (rp_targetId r)"
      if "rp_targetType r = TARGET_LISTING"
      using r that unfolding listings_def by (intro byId_listingsIn [OF assms(2)]) (auto simp: listingIds_def)
    have sel: "byId u_id (usersIn sellerUserIds s) i = liveUser s i"
      if "(rp_targetType r = TARGET_SELLER \<and> i = rp_targetId r) \<or>
        (rp_targetType r = TARGET_LISTING \<and> map_option l_sellerId (liveListing s (rp_targetId r)) = Some i)" for i
      using that
    proof (elim disjE conjE)
      assume "rp_targetType r = TARGET_SELLER" "i = rp_targetId r"
      then show ?thesis using r by (intro byId_usersIn [OF assms(1)]) (auto simp: sellerUserIds_def)
    next
      assume t: "rp_targetType r = TARGET_LISTING" "map_option l_sellerId (liveListing s (rp_targetId r)) = Some i"
      then obtain l where l: "liveListing s (rp_targetId r) = Some l" "i = l_sellerId l" by auto
      have "l \<in> set listings"
        using r t(1) unfolding listings_def by (intro liveListing_in [OF l(1)]) (auto simp: listingIds_def)
      then show ?thesis using l(2) by (intro byId_usersIn [OF assms(1)]) (auto simp: sellerUserIds_def)
    qed
    have neq: "TARGET_LISTING \<noteq> TARGET_SELLER" by (simp add: TARGET_LISTING_def TARGET_SELLER_def)
    show "one r = enrichOne s r"
    proof (cases "rp_targetType r = TARGET_SELLER")
      case True
      then show ?thesis using rep sel [of "rp_targetId r"] neq by (simp add: one_def enrichOne_def Let_def)
    next
      case False
      then show ?thesis
        using rep lst sel by (cases "rp_targetType r = TARGET_LISTING"; cases "liveListing s (rp_targetId r)")
          (simp_all add: one_def enrichOne_def Let_def truthy_def)
    qed
  qed
  finally show ?thesis .
qed

abbreviation demo_report :: "id \<Rightarrow> string \<Rightarrow> id \<Rightarrow> report_row" where
  "demo_report i type target \<equiv> \<lparr>rp_id = i, rp_reporterId = ''s'', rp_targetType = type,
    rp_targetId = target, rp_reason = RR_Spam, rp_description = None, rp_status = RS_Pending,
    rp_reviewedBy = None, rp_adminNote = None\<rparr>"


theorem enrich_rowwise_witness:
  "distinct (map u_id (t_users payout_db)) \<and> distinct (map l_id (t_listings payout_db)) \<and>
   enrich [demo_report ''r1'' TARGET_SELLER ''s'', demo_report ''r2'' TARGET_LISTING ''x''] payout_db =
     [enrichOne payout_db (demo_report ''r1'' TARGET_SELLER ''s''),
      enrichOne payout_db (demo_report ''r2'' TARGET_LISTING ''x'')]"
proof (intro conjI)
  show u: "distinct (map u_id (t_users payout_db))" by (simp add: payout_db_def empty_db_def)
  show l: "distinct (map l_id (t_listings payout_db))" by (simp add: payout_db_def empty_db_def)
  show "enrich [demo_report ''r1'' TARGET_SELLER ''s'', demo_report ''r2'' TARGET_LISTING ''x''] payout_db =
     [enrichOne payout_db (demo_report ''r1'' TARGET_SELLER ''s''),
      enrichOne payout_db (demo_report ''r2'' TARGET_LISTING ''x'')]"
    by (subst enrich_rowwise [OF u l]) simp
qed

subsection \<open>Pending reports\<close>

definition pendingOnce :: "report_row list \<Rightarrow> bool" where
  "pendingOnce rows \<longleftrightarrow> distinct (map (\<lambda>r. (rp_reporterId r, rp_targetId r, rp_reason r))
     (filter (\<lambda>r. rp_status r = RS_Pending) rows))"

inductive report_step :: "db \<Rightarrow> db \<Rightarrow> bool" where
  rs_create: "createReport env sid dto s = (Inr x, t) \<Longrightarrow> report_step s t"
| rs_status: "updateReportStatus i st msg adm s = (Inr x, t) \<Longrightarrow> report_step s t"

lemma createReport_pendingOnce:
  assumes once: "pendingOnce (t_reports s)" and run: "createReport env sid dto s = (Inr x, t)"
  shows "pendingOnce (t_reports t)"
proof -
  obtain reporter where rep: "getUserBySupabase s sid = Some reporter"
    using run by (auto simp: createReport_def split: option.splits)
  obtain tt ti where tgt: "reportTarget dto = Inr (tt, ti)"
    using run rep by (auto simp: createReport_def split: sum.splits)
  have gate: "reportGate dto s = None"
    using run rep tgt by (auto simp: createReport_def split: option.splits)
  have free: "\<not> list_ex (pendingDup (u_id reporter) ti (cr_type dto)) (t_reports s)"
    using run rep tgt gate by (auto simp: createReport_def split: if_splits)
  have t: "t_reports t = t_reports s @ [\<lparr>rp_id = e_ulid env ForReport, rp_reporterId = u_id reporter,
      rp_targetType = tt, rp_targetId = ti, rp_reason = cr_type dto, rp_description = cr_reason dto,
      rp_status = RS_Pending, rp_reviewedBy = None, rp_adminNote = None\<rparr>]"
    using run rep tgt gate free by (auto simp: createReport_def ok_def)
  have "(u_id reporter, ti, cr_type dto) \<notin> (\<lambda>r. (rp_reporterId r, rp_targetId r, rp_reason r)) `
      {r \<in> set (t_reports s). rp_status r = RS_Pending}"
    using free by (auto simp: list_ex_iff pendingDup_def)
  then show ?thesis using once by (simp add: pendingOnce_def t)
qed

lemma pendingOnce_close:
  assumes "\<And>r. rp_status (f r) \<noteq> RS_Pending"
  shows "pendingOnce rows \<Longrightarrow> pendingOnce (updRow rp_id i f rows)"
proof (induction rows)
  case (Cons r rows)
  have sub: "set (filter (\<lambda>r. rp_status r = RS_Pending) (updRow rp_id i f rows)) \<subseteq>
      set (filter (\<lambda>r. rp_status r = RS_Pending) rows)"
    using assms by (auto simp: in_updRow)
  have "pendingOnce rows" using Cons.prems by (auto simp: pendingOnce_def split: if_splits)
  with Cons.IH have IH: "pendingOnce (updRow rp_id i f rows)" .
  show ?case
  proof (cases "rp_id r = i \<or> rp_status r \<noteq> RS_Pending")
    case True
    then have "filter (\<lambda>r. rp_status r = RS_Pending) (updRow rp_id i f (r # rows)) =
        filter (\<lambda>r. rp_status r = RS_Pending) (updRow rp_id i f rows)"
      using assms by (auto simp: updRow_def)
    then show ?thesis using IH by (simp add: pendingOnce_def)
  next
    case False
    then have "updRow rp_id i f (r # rows) = r # updRow rp_id i f rows" by (simp add: updRow_def)
    moreover have "(rp_reporterId r, rp_targetId r, rp_reason r) \<notin>
        (\<lambda>r. (rp_reporterId r, rp_targetId r, rp_reason r)) `
          set (filter (\<lambda>r. rp_status r = RS_Pending) (updRow rp_id i f rows))"
      using Cons.prems False sub by (auto simp: pendingOnce_def)
    ultimately show ?thesis using IH False by (simp add: pendingOnce_def)
  qed
qed (simp add: pendingOnce_def updRow_def)

lemma report_step_pendingOnce:
  "pendingOnce (t_reports s) \<Longrightarrow> report_step s t \<Longrightarrow> pendingOnce (t_reports t)"
proof (erule report_step.cases, goal_cases)
  case (1 env s' sid dto x t')
  then show ?case by (auto intro: createReport_pendingOnce)
next
  case (2 i st msg adm s' x t')
  have "t_reports t' = updRow rp_id i (\<lambda>r. r\<lparr>rp_status := st, rp_adminNote := msg,
      rp_reviewedBy := map_option u_id (getUserBySupabase s' adm)\<rparr>) (t_reports s')"
    and "st = RS_Resolved \<or> st = RS_Rejected"
    using 2(4) by (auto simp: updateReportStatus_def split: if_splits option.splits)
  then show ?case using 2 pendingOnce_close by auto
qed

interpretation reports: inductive_invariant "\<lambda>s. pendingOnce (t_reports s)" report_step
    "\<lambda>s. pendingOnce (t_reports s)"
  by unfold_locales (auto intro: report_step_pendingOnce)

text \<open>However reports are filed and reviewed one after the other, a user has at most one pending
  report on a target for a reason, and a report is filed again only after the first is closed.
\<close>

theorem pending_reports_unique:
  assumes "pendingOnce (t_reports s)" and "report_step\<^sup>*\<^sup>* s t"
    and "r \<in> set (t_reports t)" and "rp_status r = RS_Pending"
  shows "countWhere (pendingDup (rp_reporterId r) (rp_targetId r) (rp_reason r)) (t_reports t) = 1"
proof -
  have once: "pendingOnce (t_reports t)" using assms(1,2) by (rule reports.run_inv)
  have "countWhere (pendingDup a b c) rows = (if \<exists>r \<in> set rows. pendingDup a b c r then 1 else 0)"
    if "pendingOnce rows" for a b c and rows :: "report_row list"
    using that
  proof (induction rows)
    case (Cons q rows)
    have "pendingOnce rows" using Cons.prems by (auto simp: pendingOnce_def split: if_splits)
    moreover have "\<not> (\<exists>r \<in> set rows. pendingDup a b c r)" if "pendingDup a b c q"
      using Cons.prems that by (simp add: pendingOnce_def pendingDup_def image_iff) metis
    ultimately show ?case using Cons.IH by (auto simp: countWhere_def)
  qed (simp add: countWhere_def)
  moreover have "pendingDup (rp_reporterId r) (rp_targetId r) (rp_reason r) r"
    using assms(4) by (simp add: pendingDup_def)
  ultimately show ?thesis using once assms(3) by auto
qed

theorem pending_reports_unique_witness:
  "pendingOnce (t_reports payout_db) \<and>
   (\<exists>t. report_step payout_db t \<and>
     (\<exists>r \<in> set (t_reports t). countWhere (pendingDup (rp_reporterId r) (rp_targetId r) (rp_reason r)) (t_reports t) = 1))"
proof -
  let ?dto = "\<lparr>cr_type = RR_Spam, cr_listingId = None, cr_sellerId = Some ''s'', cr_reason = None\<rparr>"
  let ?t = "snd (createReport demo_env ''sb'' ?dto payout_db)"
  have run: "case fst (createReport demo_env ''sb'' ?dto payout_db) of Inl _ \<Rightarrow> False | Inr _ \<Rightarrow> True"
    and rows: "map rp_status (t_reports ?t) = [RS_Pending]"
    by code_simp+
  obtain x where "createReport demo_env ''sb'' ?dto payout_db = (Inr x, ?t)"
    using run by (rule run_InrE)
  then have step: "report_step payout_db ?t" by (rule rs_create)
  have once: "pendingOnce (t_reports payout_db)" by (simp add: pendingOnce_def payout_db_def empty_db_def)
  obtain r where r: "t_reports ?t = [r]" "rp_status r = RS_Pending" using rows by auto
  have "countWhere (pendingDup (rp_reporterId r) (rp_targetId r) (rp_reason r)) (t_reports ?t) = 1"
    by (rule pending_reports_unique [OF once r_into_rtranclp [of report_step, OF step]]) (simp_all add: r)
  then show ?thesis using once step r(1) by (metis list.set_intros(1))
qed

subsection \<open>Documents\<close>

text \<open>Ids are distinct, a version names one document of its kind, at most one document of a kind is active.\<close>

definition legalOk :: "legal_doc_row list \<Rightarrow> bool" where
  "legalOk docs \<longleftrightarrow> distinct (map ld_id docs) \<and>
     distinct (map (\<lambda>d. (ld_kind d, ld_version d)) docs) \<and>
     distinct (map ld_kind (filter ld_isActive docs))"

lemma distinct_map_updRow:
  assumes "distinct (map key rows)" and "\<And>r. r \<in> set rows \<Longrightarrow> key r = i \<Longrightarrow> key (f r) = i"
    and "distinct (map g rows)"
    and "\<And>r q. r \<in> set rows \<Longrightarrow> key r = i \<Longrightarrow> q \<in> set rows \<Longrightarrow> key q \<noteq> i \<Longrightarrow> g q \<noteq> g (f r)"
  shows "distinct (map g (updRow key i f rows))"
  using assms
proof (induction rows)
  case (Cons r rows)
  have IH: "distinct (map g (updRow key i f rows))"
    using Cons.prems by (intro Cons.IH) auto
  show ?case
  proof (cases "key r = i")
    case True
    then have "i \<notin> key ` set rows" using Cons.prems(1) by auto
    then have same: "updRow key i f rows = rows" by (auto simp: updRow_def intro!: map_idI)
    have "g (f r) \<notin> g ` set rows"
    proof
      assume "g (f r) \<in> g ` set rows"
      then obtain q where q: "q \<in> set rows" "g (f r) = g q" by blast
      then have "key q \<noteq> i" using \<open>i \<notin> key ` set rows\<close> by blast
      then show False using Cons.prems(4) [of r q] True q by simp
    qed
    with True same Cons.prems(3) show ?thesis by (simp add: updRow_def)
  next
    case False
    have "g r \<notin> g ` set (updRow key i f rows)"
    proof
      assume "g r \<in> g ` set (updRow key i f rows)"
      then obtain q where q: "q \<in> set rows" "g r = g (if key q = i then f q else q)"
        by (auto simp: in_updRow)
      show False
      proof (cases "key q = i")
        case True
        then show False using Cons.prems(4) [of q r] q False by simp
      next
        case False
        then show False using Cons.prems(3) q by (auto simp: rev_image_eqI)
      qed
    qed
    moreover have "updRow key i f (r # rows) = r # updRow key i f rows" using False by (simp add: updRow_def)
    ultimately show ?thesis using IH by simp
  qed
qed (simp add: updRow_def)

lemma active_publishTx:
  "filter ld_isActive (publishTx env i target adm docs) =
    map (\<lambda>d. if ld_id d = i then d\<lparr>ld_isActive := True,
        ld_publishedAt := orElse (ld_publishedAt target) (Some (e_now env)), ld_updatedBy := adm\<rparr> else d)
      (filter (\<lambda>d. ld_id d = i \<or> (ld_isActive d \<and> ld_kind d \<noteq> ld_kind target)) docs)"
  unfolding publishTx_def updRow_def updWhere_def map_map
  by (induction docs) auto

lemma publishTx_keys:
  "map ld_id (publishTx env i target adm docs) = map ld_id docs"
  "map (\<lambda>d. (ld_kind d, ld_version d)) (publishTx env i target adm docs) =
    map (\<lambda>d. (ld_kind d, ld_version d)) docs"
  unfolding publishTx_def by (simp_all add: map_key_updRow map_key_updWhere)

lemma publishTx_legalOk:
  assumes docs: "legalOk docs" and target: "findRow ld_id i docs = Some target"
  shows "legalOk (publishTx env i target adm docs)"
proof -
  let ?keep = "\<lambda>d. ld_id d = i \<or> (ld_isActive d \<and> ld_kind d \<noteq> ld_kind target)"
  have ids: "distinct (map ld_id docs)" and act: "distinct (map ld_kind (filter ld_isActive docs))"
    using docs by (simp_all add: legalOk_def)
  have tgt: "target \<in> set docs" "ld_id target = i"
    using findRow_Some_set [OF target] findRow_Some_key [OF target] by simp_all
  have only: "d = target" if "d \<in> set docs" "ld_id d = i" for d
    using ids tgt that by (simp add: distinct_map inj_on_def)
  have "distinct (map ld_kind (filter ?keep docs))"
    unfolding distinct_map
  proof (intro conjI inj_onI)
    show "distinct (filter ?keep docs)" using ids by (simp add: distinct_map)
    fix a b assume "a \<in> set (filter ?keep docs)" "b \<in> set (filter ?keep docs)" "ld_kind a = ld_kind b"
    then show "a = b"
      using only [of a] only [of b] act tgt by (auto simp: distinct_map inj_on_def)
  qed
  moreover have "map ld_kind (filter ld_isActive (publishTx env i target adm docs)) =
      map ld_kind (filter ?keep docs)"
    unfolding active_publishTx by (simp add: comp_def cong: map_cong if_cong)
  ultimately show ?thesis using docs by (simp add: legalOk_def publishTx_keys)
qed

lemma createLegal_legalOk:
  assumes docs: "legalOk (t_legalDocs s)" and fresh: "e_ulid env ForLegalDoc \<notin> ld_id ` set (t_legalDocs s)"
    and run: "createLegal env kind version title content adm s = (Inr x, t)"
  shows "legalOk (t_legalDocs t)"
proof -
  have free: "\<not> list_ex (versionRow kind version) (t_legalDocs s)"
    using run by (auto simp: createLegal_def split: if_splits)
  have "t_legalDocs t = t_legalDocs s @ [x]" "ld_id x = e_ulid env ForLegalDoc" "ld_kind x = kind"
    "ld_version x = version" "\<not> ld_isActive x"
    using run free by (auto simp: createLegal_def Let_def)
  then show ?thesis
    using docs fresh free by (auto simp: legalOk_def list_ex_iff versionRow_def)
qed

lemma getLegalOrThrow_InrD:
  "getLegalOrThrow i s = Inr d \<Longrightarrow> findRow ld_id i (t_legalDocs s) = Some d \<and> ld_kind d \<in> {CGU, CGV}"
  by (auto simp: getLegalOrThrow_def LEGAL_KINDS_def split: option.splits if_splits)

lemma updateLegal_InrE:
  assumes "updateLegal i dto adm s = (Inr doc, t)"
  obtains current where "findRow ld_id i (t_legalDocs s) = Some current" "ld_kind current \<in> {CGU, CGV}"
    "doc = current\<lparr>ld_version := over (ul_version dto) (ld_version current),
      ld_title := over (ul_title dto) (ld_title current),
      ld_content := over (ul_content dto) (ld_content current),
      ld_updatedBy := resolveLocalUserId adm s\<rparr>"
    "\<forall>d \<in> set (t_legalDocs s). versionRow (ld_kind current) (ld_version doc) d \<longrightarrow> ld_id d = i"
    "t = s\<lparr>t_legalDocs := updRow ld_id i (\<lambda>_. doc) (t_legalDocs s)\<rparr>"
proof -
  obtain current where c: "getLegalOrThrow i s = Inr current"
    using assms by (auto simp: updateLegal_def split: sum.splits)
  have free: "\<not> list_ex (\<lambda>d. versionRow (ld_kind current) (over (ul_version dto) (ld_version current)) d \<and>
      ld_id d \<noteq> i) (t_legalDocs s)"
    using assms by (auto simp: updateLegal_def c Let_def split: if_splits)
  let ?doc = "current\<lparr>ld_version := over (ul_version dto) (ld_version current),
      ld_title := over (ul_title dto) (ld_title current),
      ld_content := over (ul_content dto) (ld_content current),
      ld_updatedBy := resolveLocalUserId adm s\<rparr>"
  have run: "doc = ?doc \<and> t = s\<lparr>t_legalDocs := updRow ld_id i (\<lambda>_. ?doc) (t_legalDocs s)\<rparr>"
    using assms free by (simp add: updateLegal_def Let_def c)
  have rest: "findRow ld_id i (t_legalDocs s) = Some current" "ld_kind current \<in> {CGU, CGV}"
    using getLegalOrThrow_InrD [OF c] by blast+
  have "\<forall>d \<in> set (t_legalDocs s). versionRow (ld_kind current) (ld_version doc) d \<longrightarrow> ld_id d = i"
    using free run by (auto simp: list_ex_iff)
  from that [OF rest _ this] run show ?thesis by blast
qed

lemma updateLegal_legalOk:
  assumes docs: "legalOk (t_legalDocs s)" and run: "updateLegal i dto adm s = (Inr doc, t)"
  shows "legalOk (t_legalDocs t)"
proof -
  obtain current where c: "findRow ld_id i (t_legalDocs s) = Some current"
    and kind: "ld_kind current \<in> {CGU, CGV}"
    and doc: "doc = current\<lparr>ld_version := over (ul_version dto) (ld_version current),
      ld_title := over (ul_title dto) (ld_title current),
      ld_content := over (ul_content dto) (ld_content current),
      ld_updatedBy := resolveLocalUserId adm s\<rparr>"
    and free: "\<forall>d \<in> set (t_legalDocs s). versionRow (ld_kind current) (ld_version doc) d \<longrightarrow> ld_id d = i"
    and t: "t = s\<lparr>t_legalDocs := updRow ld_id i (\<lambda>_. doc) (t_legalDocs s)\<rparr>"
    using run by (rule updateLegal_InrE)
  have cur: "current \<in> set (t_legalDocs s)" "ld_id current = i"
    using findRow_Some_set [OF c] findRow_Some_key [OF c] by simp_all
  have keep: "ld_id doc = i" "ld_kind doc = ld_kind current" "ld_isActive doc = ld_isActive current"
    using cur(2) by (simp_all add: doc)
  have ids: "distinct (map ld_id (t_legalDocs s))" using docs by (simp add: legalOk_def)
  have only: "d = current" if "d \<in> set (t_legalDocs s)" "ld_id d = i" for d
    using ids cur that by (simp add: distinct_map inj_on_def)
  have "distinct (map ld_id (updRow ld_id i (\<lambda>_. doc) (t_legalDocs s)))"
    using ids keep(1) by (intro distinct_map_updRow) auto
  moreover have "distinct (map (\<lambda>d. (ld_kind d, ld_version d)) (updRow ld_id i (\<lambda>_. doc) (t_legalDocs s)))"
    using ids docs free keep
    by (intro distinct_map_updRow) (auto simp: legalOk_def versionRow_def)
  moreover have "map ld_kind (filter ld_isActive (updRow ld_id i (\<lambda>_. doc) (t_legalDocs s))) =
      map ld_kind (filter ld_isActive (t_legalDocs s))"
  proof -
    have "updRow ld_id i (\<lambda>_. doc) (t_legalDocs s) =
        map (\<lambda>d. if d = current then doc else d) (t_legalDocs s)"
      unfolding updRow_def
    proof (rule map_cong [OF refl])
      fix d assume "d \<in> set (t_legalDocs s)"
      then show "(if ld_id d = i then doc else d) = (if d = current then doc else d)"
        using only [of d] cur(2) by (cases "ld_id d = i") auto
    qed
    moreover have "map ld_kind (filter ld_isActive (map (\<lambda>d. if d = current then doc else d) ds)) =
        map ld_kind (filter ld_isActive ds)" for ds
      using keep by (induction ds) auto
    ultimately show ?thesis by simp
  qed
  ultimately show ?thesis using docs by (simp add: legalOk_def t)
qed

lemma publishLegal_InrE:
  assumes "publishLegal env i adm s = (Inr doc, t)"
  obtains target where "findRow ld_id i (t_legalDocs s) = Some target" "ld_kind target \<in> {CGU, CGV}"
    "t_legalDocs t = publishTx env i target (resolveLocalUserId adm s) (t_legalDocs s)"
    "findRow ld_id i (t_legalDocs t) = Some doc"
proof -
  obtain target where g: "getLegalOrThrow i s = Inr target"
    using assms by (auto simp: publishLegal_def split: sum.splits)
  have "t_legalDocs t = publishTx env i target (resolveLocalUserId adm s) (t_legalDocs s) \<and>
      findRow ld_id i (t_legalDocs t) = Some doc"
    using assms by (auto simp: publishLegal_def g Let_def notifyUsersOfUpdate_def sendToUsers_def emit_def
      split: option.splits)
  then show ?thesis using getLegalOrThrow_InrD [OF g] that by blast
qed

lemma publishLegal_legalOk:
  "legalOk (t_legalDocs s) \<Longrightarrow> publishLegal env i adm s = (Inr doc, t) \<Longrightarrow> legalOk (t_legalDocs t)"
  by (erule publishLegal_InrE) (simp add: publishTx_legalOk)

inductive legal_step :: "db \<Rightarrow> db \<Rightarrow> bool" where
  ls_create: "e_ulid env ForLegalDoc \<notin> ld_id ` set (t_legalDocs s) \<Longrightarrow>
     createLegal env kind version title content adm s = (Inr x, t) \<Longrightarrow> legal_step s t"
| ls_update: "updateLegal i dto adm s = (Inr x, t) \<Longrightarrow> legal_step s t"
| ls_publish: "publishLegal env i adm s = (Inr x, t) \<Longrightarrow> legal_step s t"

lemma legal_step_ok: "legalOk (t_legalDocs s) \<Longrightarrow> legal_step s t \<Longrightarrow> legalOk (t_legalDocs t)"
  by (erule legal_step.cases) (auto intro: createLegal_legalOk updateLegal_legalOk publishLegal_legalOk)

interpretation legal: inductive_invariant "\<lambda>s. legalOk (t_legalDocs s)" legal_step
    "\<lambda>s. legalOk (t_legalDocs s)"
  by unfold_locales (auto intro: legal_step_ok)

text \<open>What the acceptance of the terms is recorded against.\<close>

lemma resolve_active:
  assumes "legalOk (t_legalDocs s)" and "d \<in> set (t_legalDocs s)" and "ld_isActive d"
    and "ld_kind d \<in> {CGU, CGV}"
  shows "resolveActiveTermsVersions s (ld_kind d) = ld_version d"
proof -
  have gen: "fold (\<lambda>doc versions. versions(ld_kind doc := ld_version doc)) ds v k =
      (if \<exists>d \<in> set ds. ld_kind d = k then (THE x. \<exists>d \<in> set ds. ld_kind d = k \<and> x = ld_version d) else v k)"
    if "distinct (map ld_kind ds)" for ds v and k :: charter_kind
    using that
  proof (induction ds arbitrary: v)
    case (Cons e ds)
    show ?case
    proof (cases "ld_kind e = k")
      case True
      then have "\<not> (\<exists>d \<in> set ds. ld_kind d = k)" using Cons.prems by (auto simp: rev_image_eqI)
      then show ?thesis using True Cons by auto
    next
      case False
      then show ?thesis using Cons by auto
    qed
  qed simp
  let ?ds = "filter (\<lambda>doc. ld_kind doc \<in> {CGU, CGV} \<and> ld_isActive doc) (t_legalDocs s)"
  have act: "distinct (map ld_kind (filter ld_isActive (t_legalDocs s)))"
    using assms(1) by (simp add: legalOk_def)
  have sub: "?ds = filter (\<lambda>doc. ld_kind doc \<in> {CGU, CGV}) (filter ld_isActive (t_legalDocs s))"
    by (simp add: conj_commute)
  have dist: "distinct (map ld_kind ?ds)"
    unfolding sub using act by (rule distinct_map_filter)
  have mem: "d \<in> set ?ds" using assms by simp
  have "(THE x. \<exists>e \<in> set ?ds. ld_kind e = ld_kind d \<and> x = ld_version e) = ld_version d"
  proof (rule the_equality)
    show "\<exists>e \<in> set ?ds. ld_kind e = ld_kind d \<and> ld_version d = ld_version e" using mem by blast
    fix x assume "\<exists>e \<in> set ?ds. ld_kind e = ld_kind d \<and> x = ld_version e"
    then obtain e where "e \<in> set ?ds" "ld_kind e = ld_kind d" "x = ld_version e" by blast
    moreover have "inj_on ld_kind (set ?ds)" using dist unfolding distinct_map by blast
    ultimately have "e = d" using mem by (blast dest: inj_onD)
    then show "x = ld_version d" using \<open>x = ld_version e\<close> by simp
  qed
  moreover have "\<exists>e \<in> set ?ds. ld_kind e = ld_kind d" using mem by blast
  ultimately show ?thesis unfolding resolveActiveTermsVersions_def gen [OF dist] by simp
qed

lemma publishTx_other:
  assumes "\<forall>d \<in> set docs. ld_id d = i \<longrightarrow> ld_kind d \<noteq> k" and "k \<noteq> ld_kind target"
  shows "filter (\<lambda>d. ld_kind d = k \<and> ld_isActive d) (publishTx env i target adm docs) =
    filter (\<lambda>d. ld_kind d = k \<and> ld_isActive d) docs"
  using assms(1)
proof (induction docs)
  case Nil
  show ?case by (simp add: publishTx_def updRow_def updWhere_def)
next
  case (Cons d docs)
  have IH: "filter (\<lambda>d. ld_kind d = k \<and> ld_isActive d) (publishTx env i target adm docs) =
      filter (\<lambda>d. ld_kind d = k \<and> ld_isActive d) docs" using Cons by simp
  have step: "\<exists>d'. publishTx env i target adm (d # docs) = d' # publishTx env i target adm docs \<and>
      (if ld_kind d = k \<and> ld_isActive d then d' = d else \<not> (ld_kind d' = k \<and> ld_isActive d'))"
    using Cons.prems assms(2) by (auto simp: publishTx_def updRow_def updWhere_def)
  then obtain d' where "publishTx env i target adm (d # docs) = d' # publishTx env i target adm docs"
    "if ld_kind d = k \<and> ld_isActive d then d' = d else \<not> (ld_kind d' = k \<and> ld_isActive d')" by blast
  then show ?case using IH by (simp split: if_splits)
qed

lemma resolve_other:
  assumes "filter (\<lambda>d. ld_kind d = k \<and> ld_isActive d) (t_legalDocs t) =
    filter (\<lambda>d. ld_kind d = k \<and> ld_isActive d) (t_legalDocs s)"
  shows "resolveActiveTermsVersions t k = resolveActiveTermsVersions s k"
proof -
  have fold_k: "fold (\<lambda>doc versions. versions(ld_kind doc := ld_version doc)) ds v k =
      fold (\<lambda>doc versions. versions(ld_kind doc := ld_version doc)) (filter (\<lambda>d. ld_kind d = k) ds) v k"
    for ds v by (induction ds rule: rev_induct) auto
  have sub: "filter (\<lambda>d. ld_kind d = k) (filter (\<lambda>d. ld_kind d \<in> {CGU, CGV} \<and> ld_isActive d) ds) =
      (if k \<in> {CGU, CGV} then filter (\<lambda>d. ld_kind d = k \<and> ld_isActive d) ds else [])" for ds
    by (induction ds) auto
  show ?thesis
    unfolding resolveActiveTermsVersions_def by (subst (1 2) fold_k) (simp only: sub assms)
qed


abbreviation demo_doc :: "id \<Rightarrow> string \<Rightarrow> bool \<Rightarrow> legal_doc_row" where
  "demo_doc i version active \<equiv> \<lparr>ld_id = i, ld_kind = CGU, ld_version = version, ld_title = ''t'',
    ld_content = ''c'', ld_isActive = active, ld_publishedAt = None, ld_createdBy = None,
    ld_updatedBy = None\<rparr>"

abbreviation legal_db :: db where
  "legal_db \<equiv> payout_db\<lparr>t_legalDocs := [demo_doc ''d1'' ''v1'' True, demo_doc ''d2'' ''v2'' False]\<rparr>"


text \<open>Editing a document that is already published changes, at once and without a push, the
  version that acceptances are recorded against: the edit is not limited to drafts.
\<close>

theorem published_text_editable:
  assumes "legalOk (t_legalDocs s)" and "findRow ld_id i (t_legalDocs s) = Some d"
    and "ld_isActive d" and "ld_kind d \<in> {CGU, CGV}" and "v \<noteq> []"
    and "\<forall>e \<in> set (t_legalDocs s). \<not> versionRow (ld_kind d) v e"
  shows "\<exists>doc t. updateLegal i \<lparr>ul_version = Some v, ul_title = None, ul_content = Some c\<rparr> adm s = (Inr doc, t) \<and>
    ld_isActive doc \<and> ld_content doc = c \<and> resolveActiveTermsVersions t (ld_kind d) = v \<and> out t = out s"
proof -
  let ?dto = "\<lparr>ul_version = Some v, ul_title = None, ul_content = Some c\<rparr>"
  define doc where "doc = d\<lparr>ld_version := v, ld_content := c, ld_updatedBy := resolveLocalUserId adm s\<rparr>"
  define t where "t = s\<lparr>t_legalDocs := updRow ld_id i (\<lambda>_. doc) (t_legalDocs s)\<rparr>"
  have "getLegalOrThrow i s = Inr d" using assms(2,4) by (auto simp: getLegalOrThrow_def LEGAL_KINDS_def)
  moreover have "\<not> list_ex (\<lambda>e. versionRow (ld_kind d) v e \<and> ld_id e \<noteq> i) (t_legalDocs s)"
    using assms(6) by (auto simp: list_ex_iff)
  ultimately have run: "updateLegal i ?dto adm s = (Inr doc, t)"
    by (simp add: updateLegal_def Let_def over_def doc_def t_def)
  have "doc \<in> set (t_legalDocs t)"
    using findRow_Some_set [OF assms(2)] findRow_Some_key [OF assms(2)]
    unfolding t_def by (simp add: in_updRow) blast
  then have "resolveActiveTermsVersions t (ld_kind doc) = ld_version doc"
    using assms(3,4) by (intro resolve_active updateLegal_legalOk [OF assms(1) run]) (simp_all add: doc_def)
  with run assms(3) show ?thesis by (intro exI [of _ doc] exI [of _ t]) (simp add: doc_def t_def)
qed

theorem published_text_editable_witness:
  "\<exists>t. resolveActiveTermsVersions t CGU = ''v9'' \<and> out t = out legal_db"
proof -
  have l: "legalOk (t_legalDocs legal_db)" by (simp add: legalOk_def)
  show ?thesis
    using published_text_editable [OF l, of "''d1''" "demo_doc ''d1'' ''v1'' True" "''v9''" "''new''" "''adm''"]
    by (auto simp: versionRow_def)
qed

end
