(* ===== verification/Dashboard.thy ===== *)
theory Dashboard
  imports Moderation "HOL-Library.Multiset"
begin

section \<open>The administrators' figures\<close>

text \<open>
  The aggregations of \<open>src/modules/admin/stats/dashboard.service.ts\<close>, the audiences of
  \<open>src/modules/admin/notifications/admin-notifications.service.ts\<close> that are built on them, and
  the user search of \<open>src/modules/admin/users/admin-users.service.ts\<close>. The date arguments of a
  query are the parsed \<open>Date\<close>s. Where a statement orders by a figure only, equal figures keep
  the order of their first row.
\<close>

definition PAID_STATUSES :: "order_status list" where
  "PAID_STATUSES = [O_Confirmed, O_Preparing, O_Ready, O_PickedUp, O_InDelivery, O_Delivered, O_Completed]"

definition CANCELLED_STATUSES :: "order_status list" where
  "CANCELLED_STATUSES = [O_Cancelled, O_Refunded]"

definition DAY_MS :: int where "DAY_MS = 24 * 60 * 60 * 1000"

definition FAR_FUTURE :: time where "FAR_FUTURE = 32503679999999"

subsection \<open>The date window\<close>

datatype dashboard_range = DR_Today | DR_Last7Days | DR_Last30Days | DR_All | DR_Custom

record dashboard_query =
  dq_range :: "dashboard_range option"
  dq_dateFrom :: "time option"
  dq_dateTo :: "time option"

text \<open>\<open>setHours(0, 0, 0, 0)\<close> with the process in UTC.\<close>

definition resolveRange :: "time \<Rightarrow> dashboard_query \<Rightarrow> time option \<times> time option" where
  "resolveRange now q =
    (if dq_dateFrom q \<noteq> None \<or> dq_dateTo q \<noteq> None then (dq_dateFrom q, dq_dateTo q)
     else case dq_range q of
         Some DR_Today \<Rightarrow> (Some (now - now mod DAY_MS), None)
       | Some DR_Last7Days \<Rightarrow> (Some (now - 7 * DAY_MS), None)
       | Some DR_Last30Days \<Rightarrow> (Some (now - 30 * DAY_MS), None)
       | _ \<Rightarrow> (None, None))"

definition placedWithin :: "time option \<times> time option \<Rightarrow> order_row \<Rightarrow> bool" where
  "placedWithin win ord \<longleftrightarrow>
     (case fst win of None \<Rightarrow> True | Some lo \<Rightarrow> lo \<le> o_placedAt ord) \<and>
     (case snd win of None \<Rightarrow> True | Some hi \<Rightarrow> o_placedAt ord \<le> hi)"

text \<open>The bounds of the raw statements, \<open>BETWEEN lo AND hi\<close>.\<close>

definition between :: "time option \<times> time option \<Rightarrow> order_row \<Rightarrow> bool" where
  "between win ord \<longleftrightarrow>
     (case fst win of None \<Rightarrow> 0 | Some lo \<Rightarrow> lo) \<le> o_placedAt ord \<and>
     o_placedAt ord \<le> (case snd win of None \<Rightarrow> FAR_FUTURE | Some hi \<Rightarrow> hi)"

definition isPaid :: "order_row \<Rightarrow> bool" where
  "isPaid ord \<longleftrightarrow> o_status ord \<in> set PAID_STATUSES"

definition sumOf :: "('r \<Rightarrow> int) \<Rightarrow> 'r list \<Rightarrow> int" where
  "sumOf g rows = sum_list (map g rows)"

subsection \<open>Recurring and single users\<close>

text \<open>\<open>GROUP BY\<close> a user column with a condition on the number of rows, and the \<open>UNION\<close> of two such.\<close>

definition usersHaving :: "(order_row \<Rightarrow> id) \<Rightarrow> (nat \<Rightarrow> bool) \<Rightarrow> order_row list \<Rightarrow> id list" where
  "usersHaving key p orders =
    filter (\<lambda>i. p (length (filter (\<lambda>ord. key ord = i) orders))) (uniq (map key orders))"

definition userUnion :: "(nat \<Rightarrow> bool) \<Rightarrow> order_row list \<Rightarrow> id list" where
  "userUnion p orders = uniq (usersHaving o_buyerId p orders @ usersHaving o_sellerId p orders)"

definition recurringUserIds :: "time \<Rightarrow> db \<Rightarrow> id list" where
  "recurringUserIds now s = userUnion (\<lambda>n. 2 \<le> n)
    (filter (\<lambda>ord. isPaid ord \<and> now - 7 * DAY_MS \<le> o_placedAt ord) (t_orders s))"

definition recurringUsersCount :: "time \<Rightarrow> db \<Rightarrow> nat" where
  "recurringUsersCount now s = length (recurringUserIds now s)"

definition monoUsersCount :: "time option \<times> time option \<Rightarrow> db \<Rightarrow> nat" where
  "monoUsersCount win s = length (userUnion (\<lambda>n. n = 1)
    (filter (\<lambda>ord. isPaid ord \<and> between win ord) (t_orders s)))"

definition monoUserIds :: "db \<Rightarrow> id list" where
  "monoUserIds s = userUnion (\<lambda>n. n = 1) (filter isPaid (t_orders s))"

definition topSellerIds :: "nat \<Rightarrow> db \<Rightarrow> id list" where
  "topSellerIds n s =
    (let paid = filter isPaid (t_orders s)
     in take n (sort_key (\<lambda>i. - sumOf o_buyerTotalCents (filter (\<lambda>ord. o_sellerId ord = i) paid))
          (uniq (map o_sellerId paid))))"

subsection \<open>Overview\<close>

definition countUsers :: "user_role option \<Rightarrow> db \<Rightarrow> nat" where
  "countUsers role s = countWhere (\<lambda>u. u_deletedAt u = None \<and> (role = None \<or> role = Some (u_role u))) (t_users s)"

record dashboard_overview =
  ov_totalUsers :: nat
  ov_totalBuyers :: nat
  ov_totalSellers :: nat
  ov_totalDrivers :: nat
  ov_totalListings :: nat
  ov_activeListings :: nat
  ov_totalOrders :: nat
  ov_confirmedOrders :: nat
  ov_cancelledOrders :: nat
  ov_totalRevenueCents :: int
  ov_totalCommissionCents :: int
  ov_totalDeliveryFeeCents :: int
  ov_recurringUsersCount :: nat
  ov_monoUsersCount :: nat
  ov_range :: "time option \<times> time option"

definition overview :: "time \<Rightarrow> dashboard_query \<Rightarrow> db \<Rightarrow> dashboard_overview" where
  "overview now q s =
    (let win = resolveRange now q;
         orders = filter (placedWithin win) (t_orders s);
         paid = filter isPaid orders
     in \<lparr>ov_totalUsers = countUsers None s, ov_totalBuyers = countUsers (Some R_Buyer) s,
         ov_totalSellers = countUsers (Some R_Seller) s, ov_totalDrivers = countUsers (Some R_Driver) s,
         ov_totalListings = countWhere (\<lambda>l. l_deletedAt l = None) (t_listings s),
         ov_activeListings = countWhere (\<lambda>l. l_deletedAt l = None \<and> l_isAvailable l \<and>
           (case l_expiresAt l of None \<Rightarrow> True | Some e \<Rightarrow> now < e)) (t_listings s),
         ov_totalOrders = length orders, ov_confirmedOrders = length paid,
         ov_cancelledOrders = countWhere (\<lambda>ord. o_status ord \<in> set CANCELLED_STATUSES) orders,
         ov_totalRevenueCents = sumOf o_buyerTotalCents paid,
         ov_totalCommissionCents = sumOf o_commissionCents paid,
         ov_totalDeliveryFeeCents = sumOf o_fulfillmentFeeCents paid,
         ov_recurringUsersCount = recurringUsersCount now s,
         ov_monoUsersCount = monoUsersCount win s, ov_range = win\<rparr>)"

text \<open>\<open>userStats\<close> is the six user figures of the overview.\<close>

definition userStats :: "time \<Rightarrow> dashboard_query \<Rightarrow> db \<Rightarrow> nat list" where
  "userStats now q s = [countUsers None s, countUsers (Some R_Buyer) s, countUsers (Some R_Seller) s,
    countUsers (Some R_Driver) s, recurringUsersCount now s, monoUsersCount (resolveRange now q) s]"

subsection \<open>Revenue\<close>

record category_revenue =
  cv_category :: seller_category
  cv_orderCount :: nat
  cv_revenueCents :: int
  cv_commissionCents :: int

definition sellerCategory :: "db \<Rightarrow> order_row \<Rightarrow> seller_category option" where
  "sellerCategory s ord = Option.bind (getSeller s (o_sellerId ord)) sp_category"

definition revenueByCategory :: "time \<Rightarrow> dashboard_query \<Rightarrow> db \<Rightarrow> category_revenue list" where
  "revenueByCategory now q s =
    map (\<lambda>c. let rows = filter (\<lambda>ord. placedWithin (resolveRange now q) ord \<and> isPaid ord \<and>
                 sellerCategory s ord = Some c) (t_orders s)
             in \<lparr>cv_category = c, cv_orderCount = length rows, cv_revenueCents = sumOf o_buyerTotalCents rows,
                 cv_commissionCents = sumOf o_commissionCents rows\<rparr>)
      [SC_FaitMaison, SC_Traiteur, SC_Restaurant]"

definition dropoffCity :: "db \<Rightarrow> order_row \<Rightarrow> string option" where
  "dropoffCity s ord = Option.bind (o_dropoffAddressId ord)
    (\<lambda>i. map_option (\<lambda>a. ad_city (ad_data a)) (findRow ad_id i (t_addresses s)))"

definition revenueByCity :: "time \<Rightarrow> dashboard_query \<Rightarrow> db \<Rightarrow> (string \<times> nat \<times> int) list" where
  "revenueByCity now q s =
    (let rows = filter (\<lambda>ord. isPaid ord \<and> between (resolveRange now q) ord \<and> dropoffCity s ord \<noteq> None) (t_orders s);
         group = (\<lambda>c. filter (\<lambda>ord. dropoffCity s ord = Some c) rows)
     in sort_key (\<lambda>(_, _, revenue). - revenue)
          (map (\<lambda>c. (c, length (group c), sumOf o_buyerTotalCents (group c)))
            (uniq (List.map_filter (dropoffCity s) rows))))"

record revenue_summary =
  rv_totalRevenueCents :: int
  rv_totalCommissionCents :: int
  rv_totalDeliveryFeeCents :: int
  rv_byCategory :: "category_revenue list"
  rv_byCity :: "(string \<times> nat \<times> int) list"

definition revenueSummary :: "time \<Rightarrow> dashboard_query \<Rightarrow> db \<Rightarrow> revenue_summary" where
  "revenueSummary now q s =
    (let paid = filter (\<lambda>ord. placedWithin (resolveRange now q) ord \<and> isPaid ord) (t_orders s)
     in \<lparr>rv_totalRevenueCents = sumOf o_buyerTotalCents paid,
         rv_totalCommissionCents = sumOf o_commissionCents paid,
         rv_totalDeliveryFeeCents = sumOf o_fulfillmentFeeCents paid,
         rv_byCategory = revenueByCategory now q s, rv_byCity = revenueByCity now q s\<rparr>)"

subsection \<open>Audiences\<close>

datatype notification_target =
  NT_All | NT_Buyers | NT_Sellers | NT_Drivers | NT_RecurringUsers | NT_MonoUsers | NT_TopSellers
  | NT_Category | NT_City

definition userIdsWhere :: "user_role option \<Rightarrow> db \<Rightarrow> id list" where
  "userIdsWhere role s = map u_id (filter (\<lambda>u. (role = None \<or> role = Some (u_role u)) \<and> u_deletedAt u = None) (t_users s))"

definition resolveTargetUserIds :: "time \<Rightarrow> notification_target \<Rightarrow> seller_category option \<Rightarrow> string option \<Rightarrow> db
    \<Rightarrow> exn + id list" where
  "resolveTargetUserIds now target category city s =
    (case target of
       NT_All \<Rightarrow> Inr (userIdsWhere None s)
     | NT_Buyers \<Rightarrow> Inr (userIdsWhere (Some R_Buyer) s)
     | NT_Sellers \<Rightarrow> Inr (userIdsWhere (Some R_Seller) s)
     | NT_Drivers \<Rightarrow> Inr (userIdsWhere (Some R_Driver) s)
     | NT_RecurringUsers \<Rightarrow> Inr (recurringUserIds now s)
     | NT_MonoUsers \<Rightarrow> Inr (monoUserIds s)
     | NT_TopSellers \<Rightarrow> Inr (topSellerIds 20 s)
     | NT_Category \<Rightarrow> (case category of
         None \<Rightarrow> Inl (BadRequest (Account CategoryRequired))
       | Some c \<Rightarrow> Inr (map sp_userId (filter (\<lambda>p. sp_category p = Some c) (t_sellers s))))
     | NT_City \<Rightarrow>
         if \<not> truthy city then Inl (BadRequest (Account CityRequired))
         else Inr (uniq (map ad_userId (filter (\<lambda>a. Some (ad_city (ad_data a)) = city) (t_addresses s)))))"

definition sendAdminNotification :: "time \<Rightarrow> notification_target \<Rightarrow> seller_category option \<Rightarrow> string option \<Rightarrow> db
    \<Rightarrow> (exn, nat, db) result" where
  "sendAdminNotification now target category city s =
    bindR (liftE (resolveTargetUserIds now target category city s) s)
      (\<lambda>userIds t. ok (length userIds) (sendToUsers userIds ''admin_broadcast'' [] t))"

subsection \<open>User search\<close>

definition userMatches :: "string \<Rightarrow> user_row \<Rightarrow> bool" where
  "userMatches q u \<longleftrightarrow> u_id u = q \<or> ilike (u_email u) (searchPattern q) \<or>
     ilike (u_firstName u) (searchPattern q) \<or> ilike (u_lastName u) (searchPattern q) \<or>
     (case u_phone u of None \<Rightarrow> False | Some p \<Rightarrow> sqlLike (searchPattern q) p)"

definition withRating :: "db \<Rightarrow> user_row \<Rightarrow> user_row \<times> rat option \<times> int option" where
  "withRating s u = (case getSeller s (u_id u) of
     None \<Rightarrow> (u, None, None) | Some p \<Rightarrow> (u, sp_averageRating p, Some (sp_reviewCount p)))"

definition searchUsers :: "string option \<Rightarrow> nat \<Rightarrow> nat \<Rightarrow> db \<Rightarrow> (user_row \<times> rat option \<times> int option) list" where
  "searchUsers query n offset s =
    (let q = map_option trim query
     in map (withRating s) (take n (drop offset (rev (filter (\<lambda>u. u_deletedAt u = None \<and>
          (truthy q \<longrightarrow> userMatches (the q) u)) (t_users s))))))"

definition adminGetUser :: "id \<Rightarrow> db \<Rightarrow> exn + user_row \<times> rat option \<times> int option" where
  "adminGetUser i s = (case getUser s i of None \<Rightarrow> Inl (NotFound AnyUser) | Some u \<Rightarrow> Inr (withRating s u))"

subsection \<open>The figures agree\<close>

lemma sumOf_filter_split: "sumOf g rows = sumOf g (filter p rows) + sumOf g (filter (\<lambda>r. \<not> p r) rows)"
  by (induction rows) (auto simp: sumOf_def)

lemma sumOf_cong: "(\<And>r. r \<in> set rows \<Longrightarrow> p r = q r) \<Longrightarrow> sumOf g (filter p rows) = sumOf g (filter q rows)"
  by (metis filter_cong)

lemma length_sumOf: "int (length rows) = sumOf (\<lambda>_. 1) rows"
  by (induction rows) (auto simp: sumOf_def)

lemma sumOf_categories:
  "sumOf g (filter (\<lambda>r. p r \<and> c r = Some SC_FaitMaison) rows) +
   sumOf g (filter (\<lambda>r. p r \<and> c r = Some SC_Traiteur) rows) +
   sumOf g (filter (\<lambda>r. p r \<and> c r = Some SC_Restaurant) rows) =
   sumOf g (filter (\<lambda>r. p r \<and> c r \<noteq> None) rows)"
proof (induction rows)
  case (Cons r rows)
  show ?case
  proof (cases "c r")
    case None
    then show ?thesis using Cons.IH by (simp add: sumOf_def)
  next
    case (Some k)
    then show ?thesis using Cons.IH by (cases k) (auto simp: sumOf_def)
  qed
qed (simp add: sumOf_def)

lemma sumOf_groups:
  assumes "distinct cs" and "\<And>r. r \<in> set rows \<Longrightarrow> \<exists>c \<in> set cs. k r = Some c"
  shows "(\<Sum>c \<leftarrow> cs. sumOf g (filter (\<lambda>r. k r = Some c) rows)) = sumOf g rows"
  using assms(2)
proof (induction rows)
  case Nil
  then show ?case by (induction cs) (simp_all add: sumOf_def)
next
  case (Cons r rows)
  obtain c where c: "c \<in> set cs" "k r = Some c" using Cons.prems [of r] by auto
  have "(\<Sum>d \<leftarrow> cs. sumOf g (filter (\<lambda>r. k r = Some d) (r # rows))) =
      (\<Sum>d \<leftarrow> cs. (if d = c then g r else 0) + sumOf g (filter (\<lambda>r. k r = Some d) rows))"
    by (rule arg_cong [of _ _ sum_list], rule map_cong [OF refl]) (auto simp: c sumOf_def)
  also have "\<dots> = (\<Sum>d \<leftarrow> cs. if d = c then g r else 0) +
      (\<Sum>d \<leftarrow> cs. sumOf g (filter (\<lambda>r. k r = Some d) rows))"
    by (rule sum_list_addf)
  also have "(\<Sum>d \<leftarrow> cs. if d = c then g r else 0) = g r"
    using assms(1) c(1)
  proof (induction cs)
    case (Cons d cs)
    have "(\<Sum>d \<leftarrow> cs. if d = c then g r else 0) = 0" if "c \<notin> set cs"
      using that by (induction cs) auto
    with Cons show ?case by auto
  qed simp
  finally show ?case using Cons by (simp add: sumOf_def)
qed

lemma sum_list_sort_key: "sum_list (map f (sort_key g xs)) = sum_list (map (f :: _ \<Rightarrow> int) xs)"
proof -
  have "mset (map f (sort_key g xs)) = mset (map f xs)" by simp
  then show ?thesis by (metis sum_mset_sum_list)
qed

text \<open>C24: When every paid order's seller has a category, the three category rows of the revenue page
  add up to its total revenue, its total commission and the overview's number of confirmed
  orders, for every date window; the city rows add up to the revenue of the paid orders of
  the window with a drop-off address.
\<close>

theorem revenue_reconciles:
  assumes "\<forall>ord \<in> set (t_orders s). isPaid ord \<longrightarrow> sellerCategory s ord \<noteq> None"
  shows "sumOf cv_revenueCents (rv_byCategory (revenueSummary now q s)) = rv_totalRevenueCents (revenueSummary now q s) \<and>
    sumOf cv_commissionCents (rv_byCategory (revenueSummary now q s)) = rv_totalCommissionCents (revenueSummary now q s) \<and>
    sumOf (\<lambda>c. int (cv_orderCount c)) (rv_byCategory (revenueSummary now q s)) = int (ov_confirmedOrders (overview now q s)) \<and>
    sumOf (\<lambda>(_, _, r). r) (rv_byCity (revenueSummary now q s)) =
      sumOf o_buyerTotalCents (filter (\<lambda>ord. isPaid ord \<and> between (resolveRange now q) ord \<and>
        dropoffCity s ord \<noteq> None) (t_orders s))"
proof -
  let ?p = "\<lambda>ord. placedWithin (resolveRange now q) ord \<and> isPaid ord"
  have cats: "sumOf g (filter (\<lambda>ord. ?p ord \<and> sellerCategory s ord = Some SC_FaitMaison) (t_orders s)) +
      sumOf g (filter (\<lambda>ord. ?p ord \<and> sellerCategory s ord = Some SC_Traiteur) (t_orders s)) +
      sumOf g (filter (\<lambda>ord. ?p ord \<and> sellerCategory s ord = Some SC_Restaurant) (t_orders s)) =
      sumOf g (filter ?p (t_orders s))" for g
    unfolding sumOf_categories [where p = ?p and c = "sellerCategory s"]
    by (rule sumOf_cong) (use assms in auto)
  have a: "sumOf cv_revenueCents (revenueByCategory now q s) = sumOf o_buyerTotalCents (filter ?p (t_orders s))"
    unfolding cats [symmetric] by (simp add: revenueByCategory_def Let_def sumOf_def)
  have b: "sumOf cv_commissionCents (revenueByCategory now q s) = sumOf o_commissionCents (filter ?p (t_orders s))"
    unfolding cats [symmetric] by (simp add: revenueByCategory_def Let_def sumOf_def)
  have c: "sumOf (\<lambda>c. int (cv_orderCount c)) (revenueByCategory now q s) = int (length (filter ?p (t_orders s)))"
    unfolding length_sumOf cats [symmetric] by (simp add: revenueByCategory_def Let_def length_sumOf sumOf_def)
  let ?rows = "filter (\<lambda>ord. isPaid ord \<and> between (resolveRange now q) ord \<and> dropoffCity s ord \<noteq> None) (t_orders s)"
  let ?cs = "uniq (List.map_filter (dropoffCity s) ?rows)"
  have "sumOf (\<lambda>(_, _, r). r) (revenueByCity now q s) =
      (\<Sum>c \<leftarrow> ?cs. sumOf o_buyerTotalCents (filter (\<lambda>ord. dropoffCity s ord = Some c) ?rows))"
    by (simp add: revenueByCity_def Let_def sumOf_def sum_list_sort_key comp_def)
  also have "\<dots> = sumOf o_buyerTotalCents ?rows"
  proof (rule sumOf_groups)
    fix r assume r: "r \<in> set ?rows"
    then obtain c where "dropoffCity s r = Some c" by auto
    moreover from this have "c \<in> set (List.map_filter (dropoffCity s) ?rows)"
      unfolding map_filter_def using r by (force intro: rev_image_eqI)
    ultimately show "\<exists>c \<in> set ?cs. dropoffCity s r = Some c" by auto
  qed simp
  finally have d: "sumOf (\<lambda>(_, _, r). r) (revenueByCity now q s) = sumOf o_buyerTotalCents ?rows" .
  have "filter isPaid (filter (placedWithin (resolveRange now q)) (t_orders s)) = filter ?p (t_orders s)"
    by (simp add: conj_commute)
  then show ?thesis using a b c d by (simp add: revenueSummary_def overview_def Let_def)
qed

lemma mem_usersHaving: "p 0 = False \<Longrightarrow> i \<in> set (usersHaving key p orders) \<longleftrightarrow>
    p (length (filter (\<lambda>ord. key ord = i) orders))"
proof -
  assume p: "p 0 = False"
  have "i \<in> key ` set orders" if "p (length (filter (\<lambda>ord. key ord = i) orders))"
  proof (rule ccontr)
    assume "i \<notin> key ` set orders"
    then have "filter (\<lambda>ord. key ord = i) orders = []" by (auto simp: filter_empty_conv)
    with that p show False by simp
  qed
  then show ?thesis by (auto simp: usersHaving_def)
qed

text \<open>The recurring users are exactly the accounts that bought at least two, or sold at least two,
  paid orders in the last seven days, each once; the single users of a window are those that
  bought exactly one or sold exactly one. The two are no partition: an account that sold many
  orders and bought one is in both.
\<close>

theorem recurring_and_mono_users:
  "distinct (recurringUserIds now s) \<and>
   (i \<in> set (recurringUserIds now s) \<longleftrightarrow>
     2 \<le> countWhere (\<lambda>ord. o_buyerId ord = i \<and> isPaid ord \<and> now - 7 * DAY_MS \<le> o_placedAt ord) (t_orders s) \<or>
     2 \<le> countWhere (\<lambda>ord. o_sellerId ord = i \<and> isPaid ord \<and> now - 7 * DAY_MS \<le> o_placedAt ord) (t_orders s)) \<and>
   (i \<in> set (monoUserIds s) \<longleftrightarrow>
     countWhere (\<lambda>ord. o_buyerId ord = i \<and> isPaid ord) (t_orders s) = 1 \<or>
     countWhere (\<lambda>ord. o_sellerId ord = i \<and> isPaid ord) (t_orders s) = 1)"
  by (simp add: recurringUserIds_def monoUserIds_def userUnion_def mem_usersHaving countWhere_def conj_commute conj_left_commute)

text \<open>One seller with a category who has sold a paid order and bought none.\<close>

abbreviation sales_db :: db where
  "sales_db \<equiv> payout_db\<lparr>t_orders := [demo_order ''o1'' O_Completed F_Pickup, demo_order ''o2'' O_Refunded F_Pickup],
    t_sellers := [(emptySeller ''s'')\<lparr>sp_category := Some SC_Traiteur\<rparr>]\<rparr>"

theorem revenue_reconciles_witness:
  "sumOf cv_revenueCents (rv_byCategory (revenueSummary 0 \<lparr>dq_range = None, dq_dateFrom = None, dq_dateTo = None\<rparr> sales_db)) =
     rv_totalRevenueCents (revenueSummary 0 \<lparr>dq_range = None, dq_dateFrom = None, dq_dateTo = None\<rparr> sales_db) \<and>
   rv_totalRevenueCents (revenueSummary 0 \<lparr>dq_range = None, dq_dateFrom = None, dq_dateTo = None\<rparr> sales_db) > 0"
proof -
  have "list_all (\<lambda>ord. isPaid ord \<longrightarrow> sellerCategory sales_db ord \<noteq> None) (t_orders sales_db)" by code_simp
  then have "\<forall>ord \<in> set (t_orders sales_db). isPaid ord \<longrightarrow> sellerCategory sales_db ord \<noteq> None"
    by (simp only: list_all_iff)
  moreover have "rv_totalRevenueCents (revenueSummary 0 \<lparr>dq_range = None, dq_dateFrom = None, dq_dateTo = None\<rparr> sales_db) > 0"
    by code_simp
  ultimately show ?thesis using revenue_reconciles [of sales_db 0] by blast
qed

text \<open>Every order of a window is counted as confirmed, as cancelled, or has one of three other
  states. Two of them hold the buyer's money: an order without a driver that waits for the
  buyer's answer, and one in dispute are neither in the confirmed count nor in the revenue.
\<close>

theorem overview_partition:
  "int (ov_totalOrders (overview now q s)) = int (ov_confirmedOrders (overview now q s)) +
     int (ov_cancelledOrders (overview now q s)) +
     int (countWhere (\<lambda>ord. placedWithin (resolveRange now q) ord \<and>
       o_status ord \<in> {O_Pending, O_NoDriverAvailable, O_Disputed}) (t_orders s)) \<and>
   ov_totalRevenueCents (overview now q s) = sumOf o_buyerTotalCents (filter (\<lambda>ord.
     placedWithin (resolveRange now q) ord \<and> o_status ord \<notin>
       {O_Pending, O_NoDriverAvailable, O_Disputed, O_Cancelled, O_Refunded}) (t_orders s))"
proof -
  have parts: "int (length rows) = int (length (filter isPaid rows)) +
      int (countWhere (\<lambda>ord. o_status ord \<in> set CANCELLED_STATUSES) rows) +
      int (countWhere (\<lambda>ord. o_status ord \<in> {O_Pending, O_NoDriverAvailable, O_Disputed}) rows)" for rows
  proof (induction rows)
    case (Cons r rows)
    then show ?case
      by (cases "o_status r") (simp_all add: countWhere_def isPaid_def PAID_STATUSES_def CANCELLED_STATUSES_def)
  qed (simp add: countWhere_def)
  have paid: "isPaid ord \<longleftrightarrow> o_status ord \<notin>
      {O_Pending, O_NoDriverAvailable, O_Disputed, O_Cancelled, O_Refunded}" for ord
    by (cases "o_status ord") (simp_all add: isPaid_def PAID_STATUSES_def)
  let ?rows = "filter (placedWithin (resolveRange now q)) (t_orders s)"
  have held: "countWhere (\<lambda>ord. placedWithin (resolveRange now q) ord \<and> p ord) (t_orders s) = countWhere p ?rows" for p
    by (simp add: countWhere_def)
  have revenue: "filter isPaid ?rows = filter (\<lambda>ord. placedWithin (resolveRange now q) ord \<and>
      o_status ord \<notin> {O_Pending, O_NoDriverAvailable, O_Disputed, O_Cancelled, O_Refunded}) (t_orders s)"
    unfolding filter_filter paid ..
  have counts: "ov_totalOrders (overview now q s) = length ?rows" "ov_confirmedOrders (overview now q s) = length (filter isPaid ?rows)"
    "ov_cancelledOrders (overview now q s) = countWhere (\<lambda>ord. o_status ord \<in> set CANCELLED_STATUSES) ?rows"
    "ov_totalRevenueCents (overview now q s) = sumOf o_buyerTotalCents (filter isPaid ?rows)"
    by (simp_all only: overview_def Let_def dashboard_overview.simps)
  show ?thesis
    unfolding counts held revenue [symmetric] by (rule conjI [OF parts refl])
qed

end
