(* ===== verification/Auth.thy ===== *)
theory Auth
  imports Dashboard
begin

section \<open>Sign-in, one-time codes and verified contact data\<close>

text \<open>
  \<open>src/modules/auth/auth.service.ts\<close> with the decisions of \<open>src/modules/auth/auth.controller.ts\<close> on
  the address a code goes to, the Prelude client
  \<open>src/infrastructure/notifications/sms/prelude-verify.service.ts\<close> and the claims
  \<open>src/modules/auth/strategies/supabase-jwt.strategy.ts\<close> reads. The answers of Supabase and of
  Prelude are arguments; what the code asks Supabase to change is an effect.
\<close>

subsection \<open>Sessions and errors of Supabase\<close>

record sb_error =
  sx_code :: "string option"
  sx_status :: "int option"
  sx_message :: string

record session_user =
  su_id :: id
  su_email :: "string option"
  su_phone :: "string option"
  su_emailConfirmedAt :: "string option"
  su_phoneConfirmedAt :: "string option"

record sb_session =
  sn_accessToken :: string
  sn_refreshToken :: string
  sn_expiresAt :: "int option"
  sn_user :: session_user

record sb_answer =
  sa_error :: "sb_error option"
  sa_session :: "sb_session option"

record session_response =
  sr_accessToken :: string
  sr_refreshToken :: string
  sr_expiresAt :: int
  sr_user :: session_user

definition toSession :: "sb_session \<Rightarrow> session_response" where
  "toSession session = \<lparr>sr_accessToken = sn_accessToken session, sr_refreshToken = sn_refreshToken session,
    sr_expiresAt = (case sn_expiresAt session of None \<Rightarrow> 0 | Some t \<Rightarrow> t), sr_user = sn_user session\<rparr>"

definition toHttpException :: "sb_error \<Rightarrow> exn" where
  "toHttpException e =
    (let code = (case sx_code e of None \<Rightarrow> [] | Some c \<Rightarrow> c);
         status = (case sx_status e of None \<Rightarrow> 500 | Some n \<Rightarrow> n)
     in if code = ''weak_password'' then BadRequest (Auth (AuthMessage (sx_message e)))
        else if code = ''email_exists'' \<or> code = ''user_already_exists''
        then Conflict (Auth (AuthMessage (sx_message e)))
        else if code = ''over_email_send_rate_limit'' \<or> status = 429
        then TooManyRequests (Auth (AuthMessage (sx_message e)))
        else if 400 \<le> status \<and> status < 500 then BadRequest (Auth (AuthMessage (sx_message e)))
        else InternalError (Auth AuthServiceError))"

definition localError :: "string \<Rightarrow> sb_error" where
  "localError msg = \<lparr>sx_code = None, sx_status = Some 401, sx_message = msg\<rparr>"

text \<open>\<open>None\<close> is the call that threw or did not settle in time.\<close>

definition signUp :: "sb_answer option \<Rightarrow> exn + session_response" where
  "signUp answer =
    (case answer of
       None \<Rightarrow> Inl (ServiceUnavailable (Auth SignupTimedOut))
     | Some a \<Rightarrow> (case sa_error a of
         Some e \<Rightarrow> Inl (toHttpException e)
       | None \<Rightarrow> (case sa_session a of
           None \<Rightarrow> Inl (BadRequest (Auth ConfirmEmailFirst))
         | Some session \<Rightarrow> Inr (toSession session))))"

text \<open>The answer has an error or no session: the first branch; otherwise the session.\<close>

definition sessionOr :: "(sb_error option \<Rightarrow> exn) \<Rightarrow> sb_answer \<Rightarrow> exn + sb_session" where
  "sessionOr refuse a =
    (case (sa_error a, sa_session a) of
       (None, Some session) \<Rightarrow> Inr session
     | (err, _) \<Rightarrow> Inl (refuse err))"

definition refuseWith :: "auth_reason \<Rightarrow> sb_error option \<Rightarrow> exn" where
  "refuseWith r err = Unauthorized (Auth (case err of None \<Rightarrow> r | Some e \<Rightarrow> AuthMessage (sx_message e)))"

definition refuseMapped :: "string \<Rightarrow> sb_error option \<Rightarrow> exn" where
  "refuseMapped msg err = toHttpException (case err of None \<Rightarrow> localError msg | Some e \<Rightarrow> e)"

definition signIn :: "sb_answer \<Rightarrow> exn + session_response" where
  "signIn a = map_sum id toSession (sessionOr (refuseWith InvalidCredentials) a)"

definition signInWithGoogle :: "sb_answer \<Rightarrow> exn + session_response" where
  "signInWithGoogle a = map_sum id toSession (sessionOr (refuseMapped ''Google sign-in failed'') a)"

definition refreshSession :: "sb_answer \<Rightarrow> exn + session_response" where
  "refreshSession a = map_sum id toSession (sessionOr (refuseWith RefreshTokenInvalid) a)"

text \<open>An error of the provider is logged and swallowed.\<close>

definition signOut :: "sb_error option \<Rightarrow> exn + unit" where
  "signOut err = Inr ()"

definition requestPasswordReset :: "sb_error option \<Rightarrow> exn + unit" where
  "requestPasswordReset err = (case err of Some e \<Rightarrow> Inl (toHttpException e) | None \<Rightarrow> Inr ())"

definition verifyPasswordResetOtp :: "sb_answer \<Rightarrow> exn + session_response" where
  "verifyPasswordResetOtp a = map_sum id toSession (sessionOr (refuseMapped ''reset code verification failed'') a)"

text \<open>A change of the Supabase user, with the provider's answer; the effect is what was asked for.\<close>

definition adminUpdate :: "id \<Rightarrow> string \<Rightarrow> string \<Rightarrow> sb_error option \<Rightarrow> db \<Rightarrow> (exn, unit, db) result" where
  "adminUpdate supabaseId column val err s =
    (case err of Some e \<Rightarrow> fail (toHttpException e) s
     | None \<Rightarrow> ok () (emit (AuthUserUpdate supabaseId column val) s))"

definition updatePassword :: "id \<Rightarrow> string \<Rightarrow> sb_error option \<Rightarrow> db \<Rightarrow> (exn, unit, db) result" where
  "updatePassword userId newPassword err s = adminUpdate userId ''password'' newPassword err s"

definition sendEmailOtp :: "string \<Rightarrow> bool \<Rightarrow> sb_error option \<Rightarrow> db \<Rightarrow> (exn, unit, db) result" where
  "sendEmailOtp email createUser err s =
    (case err of Some e \<Rightarrow> fail (toHttpException e) s | None \<Rightarrow> ok () (emit (AuthEmailOtp email createUser) s))"

definition requestEmailOtp :: "id \<Rightarrow> string \<Rightarrow> bool \<Rightarrow> sb_error option \<Rightarrow> sb_error option \<Rightarrow> db
    \<Rightarrow> (exn, unit, db) result" where
  "requestEmailOtp supabaseId email attach updateErr otpErr s =
    bindR (if attach then adminUpdate supabaseId ''email'' email updateErr s else ok () s)
      (\<lambda>_ t. sendEmailOtp email False otpErr t)"

definition attachEmail :: "id \<Rightarrow> string \<Rightarrow> sb_error option \<Rightarrow> db \<Rightarrow> (exn, unit, db) result" where
  "attachEmail supabaseId email err s = adminUpdate supabaseId ''email'' email err s"

text \<open>\<open>user.update\<close> on the identity; a missing row (\<open>P2025\<close>) is swallowed.\<close>

definition mirrorEmailVerified :: "id \<Rightarrow> db \<Rightarrow> db" where
  "mirrorEmailVerified supabaseId s =
    s\<lparr>t_users := updRow u_supabaseId supabaseId (\<lambda>u. u\<lparr>u_emailVerified := True\<rparr>) (t_users s)\<rparr>"

definition verifyEmailOtp :: "id \<Rightarrow> sb_answer \<Rightarrow> db \<Rightarrow> (exn, session_response, db) result" where
  "verifyEmailOtp supabaseId a s =
    (case sessionOr (refuseMapped ''OTP verification failed'') a of
       Inl e \<Rightarrow> fail e s
     | Inr session \<Rightarrow> ok (toSession session) (mirrorEmailVerified supabaseId s))"

subsection \<open>The social fallback without a session\<close>

definition supportedProvider :: "string \<Rightarrow> bool" where
  "supportedProvider provider \<longleftrightarrow> provider = ''facebook''"

definition assertEmailNotTaken :: "string \<Rightarrow> db \<Rightarrow> exn option" where
  "assertEmailNotTaken email s =
    (if list_ex (\<lambda>u. u_email u = email \<and> u_deletedAt u = None) (t_users s)
     then Some (Conflict (Auth EmailUsed)) else None)"

definition requestSocialEmailOtp :: "string \<Rightarrow> string \<Rightarrow> sb_error option \<Rightarrow> db \<Rightarrow> (exn, unit, db) result" where
  "requestSocialEmailOtp provider email err s =
    (if \<not> supportedProvider provider then fail (BadRequest (Auth UnsupportedProvider)) s
     else case assertEmailNotTaken email s of Some e \<Rightarrow> fail e s
     | None \<Rightarrow> sendEmailOtp email True err s)"

definition verifySocialEmailOtp :: "string \<Rightarrow> sb_answer \<Rightarrow> db \<Rightarrow> (exn, session_response, db) result" where
  "verifySocialEmailOtp provider a s =
    (if \<not> supportedProvider provider then fail (BadRequest (Auth UnsupportedProvider)) s
     else case sessionOr (\<lambda>_. Unauthorized (Auth SocialCodeInvalid)) a of
       Inl e \<Rightarrow> fail e s
     | Inr session \<Rightarrow> ok (toSession session) (mirrorEmailVerified (su_id (sn_user session)) s))"

subsection \<open>Phone codes\<close>

text \<open>
  An answer of Prelude: no key configured, a transport error, an HTTP error, or the status of the
  body (absent when the body has none).
\<close>

datatype prelude_answer = PR_NotReady | PR_Transport | PR_HttpError | PR_Status "string option"

definition preludeStatus :: "auth_reason \<Rightarrow> prelude_answer \<Rightarrow> exn + string" where
  "preludeStatus failed a =
    (case a of
       PR_Status (Some st) \<Rightarrow> Inr st
     | PR_Status None \<Rightarrow> Inr ''unknown''
     | PR_NotReady \<Rightarrow> Inl (ServiceUnavailable (Auth PreludeUnavailable))
     | _ \<Rightarrow> Inl (ServiceUnavailable (Auth failed)))"

definition assertPhoneAvailable :: "id \<Rightarrow> string \<Rightarrow> db \<Rightarrow> exn option" where
  "assertPhoneAvailable supabaseId phone s =
    (if list_ex (\<lambda>u. u_phone u = Some phone \<and> u_supabaseId u \<noteq> supabaseId \<and> u_deletedAt u = None) (t_users s)
     then Some (Conflict (Auth PhoneAlreadyUsed)) else None)"

definition requestPhoneOtp :: "id \<Rightarrow> string \<Rightarrow> prelude_answer \<Rightarrow> db \<Rightarrow> (exn, unit, db) result" where
  "requestPhoneOtp supabaseId phone a s =
    (case assertPhoneAvailable supabaseId phone s of
       Some e \<Rightarrow> fail e s
     | None \<Rightarrow> (case preludeStatus CodeSendFailed a of
         Inl e \<Rightarrow> fail e s
       | Inr status \<Rightarrow>
           if status \<noteq> ''success'' \<and> status \<noteq> ''retry'' then fail (ServiceUnavailable (Auth SmsNotSent)) s
           else ok () (emit (SmsOtp phone) s)))"

definition withoutPlus :: "string \<Rightarrow> string" where
  "withoutPlus p = (case p of [] \<Rightarrow> [] | c # cs \<Rightarrow> if c = CHR ''+'' then cs else p)"

text \<open>\<open>updateMany\<close> on the identity; the unique index sees deleted accounts too.\<close>

definition mirrorPhone :: "id \<Rightarrow> string \<Rightarrow> db \<Rightarrow> (exn, unit, db) result" where
  "mirrorPhone supabaseId phone s =
    (if list_ex (\<lambda>u. u_supabaseId u = supabaseId) (t_users s) \<and>
        list_ex (\<lambda>u. u_phone u = Some phone \<and> u_supabaseId u \<noteq> supabaseId) (t_users s)
     then fail (Conflict (Auth PhoneAlreadyUsed)) s
     else ok () (s\<lparr>t_users := updRow u_supabaseId supabaseId
       (\<lambda>u. u\<lparr>u_phone := Some phone, u_phoneVerified := True\<rparr>) (t_users s)\<rparr>))"

definition verifyPhoneOtp :: "id \<Rightarrow> string \<Rightarrow> prelude_answer \<Rightarrow> sb_error option \<Rightarrow> db
    \<Rightarrow> (exn, bool \<times> string, db) result" where
  "verifyPhoneOtp supabaseId phone a err s =
    (case preludeStatus CodeCheckFailed a of Inl e \<Rightarrow> fail e s | Inr status \<Rightarrow>
     if status = ''failure'' then fail (BadRequest (Auth PhoneCodeInvalid)) s
     else if status \<noteq> ''success'' then fail (BadRequest (Auth PhoneCodeExpired)) s
     else case assertPhoneAvailable supabaseId phone s of Some e \<Rightarrow> fail e s | None \<Rightarrow>
       bindR (adminUpdate supabaseId ''phone'' (withoutPlus phone) err s)
         (\<lambda>_ t. bindR (mirrorPhone supabaseId phone t) (\<lambda>_ u. ok (True, phone) u)))"

subsection \<open>Tokens\<close>

text \<open>
  The header of a token as decoded; the secret of the configuration; the published key of a key
  id; the verification of the signature, the expiry and the audience, with the payload's claims.
\<close>

record token_header =
  th_alg :: string
  th_kid :: "string option"

record token_claims =
  tc_sub :: "string option"
  tc_email :: "string option"
  tc_phone :: "string option"
  tc_role :: "user_role option"

record jwt_user =
  ju_id :: id
  ju_email :: "string option"
  ju_phone :: "string option"
  ju_role :: user_role

definition tokenKey :: "string option \<Rightarrow> (string \<Rightarrow> string option) \<Rightarrow> token_header option \<Rightarrow> exn + string" where
  "tokenKey jwtSecret jwks header =
    (case header of
       None \<Rightarrow> Inl (Unauthorized (Auth TokenMalformed))
     | Some h \<Rightarrow>
         if th_alg h = ''HS256'' then
           (if \<not> truthy jwtSecret then Inl (Unauthorized (Auth TokenSecretMissing)) else Inr (the jwtSecret))
         else if th_alg h = ''ES256'' \<or> th_alg h = ''RS256'' then
           (if \<not> truthy (th_kid h) then Inl (Unauthorized (Auth TokenKidMissing))
            else case jwks (the (th_kid h)) of None \<Rightarrow> Inl UncaughtError | Some k \<Rightarrow> Inr k)
         else Inl (Unauthorized (Auth (TokenAlgUnsupported (th_alg h)))))"

text \<open>The claims of a verified token.\<close>

definition validateClaims :: "token_claims \<Rightarrow> exn + jwt_user" where
  "validateClaims c =
    (if \<not> truthy (tc_sub c) then Inl (Unauthorized (Auth TokenPayloadInvalid))
     else Inr \<lparr>ju_id = the (tc_sub c), ju_email = tc_email c,
       ju_phone = (if truthy (tc_phone c) then tc_phone c else None),
       ju_role = (case tc_role c of None \<Rightarrow> R_Buyer | Some r \<Rightarrow> r)\<rparr>)"

definition verifyToken :: "string option \<Rightarrow> (string \<Rightarrow> string option) \<Rightarrow> token_header option \<Rightarrow>
    (string \<Rightarrow> token_claims option) \<Rightarrow> exn + jwt_user" where
  "verifyToken jwtSecret jwks header check =
    (case tokenKey jwtSecret jwks header of Inl e \<Rightarrow> Inl e | Inr key \<Rightarrow>
     (case check key of None \<Rightarrow> Inl (Unauthorized (Auth TokenInvalid)) | Some c \<Rightarrow> validateClaims c))"

subsection \<open>Endpoints that choose the address\<close>

definition trimmedOrEmpty :: "string option \<Rightarrow> string" where
  "trimmedOrEmpty v = (case v of None \<Rightarrow> [] | Some t \<Rightarrow> trim t)"

definition otpAddress :: "jwt_user \<Rightarrow> string option \<Rightarrow> string" where
  "otpAddress u bodyEmail = (if trimmedOrEmpty (ju_email u) \<noteq> [] then trimmedOrEmpty (ju_email u) else trimmedOrEmpty bodyEmail)"

definition postRequestEmailOtp :: "jwt_user \<Rightarrow> string option \<Rightarrow> sb_error option \<Rightarrow> sb_error option \<Rightarrow> db
    \<Rightarrow> (exn, unit, db) result" where
  "postRequestEmailOtp u bodyEmail updateErr otpErr s =
    (let email = otpAddress u bodyEmail
     in if email = [] then fail (BadRequest (Account EmailRequired)) s
        else requestEmailOtp (ju_id u) email (trimmedOrEmpty (ju_email u) = []) updateErr otpErr s)"

definition postAttachEmail :: "jwt_user \<Rightarrow> string option \<Rightarrow> sb_error option \<Rightarrow> db \<Rightarrow> (exn, unit, db) result" where
  "postAttachEmail u bodyEmail err s =
    (if trimmedOrEmpty bodyEmail = [] then fail (BadRequest (Account EmailRequired)) s
     else attachEmail (ju_id u) (trimmedOrEmpty bodyEmail) err s)"

text \<open>\<open>answer\<close> is what Supabase says of the code for the address.\<close>

definition postVerifyEmailOtp :: "jwt_user \<Rightarrow> string option \<Rightarrow> (string \<Rightarrow> sb_answer) \<Rightarrow> db
    \<Rightarrow> (exn, session_response, db) result" where
  "postVerifyEmailOtp u bodyEmail answer s =
    (let email = otpAddress u bodyEmail
     in if email = [] then fail (BadRequest (Account EmailRequired)) s
        else verifyEmailOtp (ju_id u) (answer email) s)"

definition extractBearer :: "string option \<Rightarrow> exn + string" where
  "extractBearer header =
    (if \<not> truthy header then Inl (BadRequest (Auth MissingAuthHeader))
     else let h = the header; scheme = takeWhile (\<lambda>c. c \<noteq> CHR '' '') h;
              token = takeWhile (\<lambda>c. c \<noteq> CHR '' '') (drop (length scheme + 1) h)
          in if lower scheme \<noteq> ''bearer'' \<or> token = [] then Inl (BadRequest (Auth BearerExpected))
             else Inr token)"

subsection \<open>Sessions come from the provider\<close>

lemma sessionOr_Inr: "sessionOr refuse a = Inr session \<longleftrightarrow> sa_error a = None \<and> sa_session a = Some session"
  by (auto simp: sessionOr_def split: option.splits)

lemma map_sum_Inr: "map_sum id f x = Inr r \<longleftrightarrow> (\<exists>y. x = Inr y \<and> r = f y)"
  by (cases x) auto

text \<open>Every way to sign in answers with the session the provider gave, and with none of its own.\<close>

lemma session_only_from_provider:
  assumes "signIn a = Inr r \<or> signInWithGoogle a = Inr r \<or> refreshSession a = Inr r \<or>
    verifyPasswordResetOtp a = Inr r \<or> signUp (Some a) = Inr r \<or> fst (verifyEmailOtp sid a s) = Inr r \<or>
    fst (verifySocialEmailOtp provider a s) = Inr r"
  shows "\<exists>session. sa_error a = None \<and> sa_session a = Some session \<and> r = toSession session"
  using assms
  by (auto simp: signIn_def signInWithGoogle_def refreshSession_def verifyPasswordResetOtp_def signUp_def
      verifyEmailOtp_def verifySocialEmailOtp_def map_sum_Inr sessionOr_Inr ok_def fail_def
      split: option.splits sum.splits if_splits)

text \<open>An answer without error and session is a client error of status 400, though the code builds a 401.\<close>

lemma no_session_is_bad_request:
  assumes "sa_error a = None" and "sa_session a = None"
  shows "signInWithGoogle a = Inl (BadRequest (Auth (AuthMessage ''Google sign-in failed''))) \<and>
    signIn a = Inl (Unauthorized (Auth InvalidCredentials))"
  using assms by (simp add: signInWithGoogle_def signIn_def sessionOr_def refuseMapped_def refuseWith_def
    toHttpException_def localError_def Let_def)

subsection \<open>Verified contact data\<close>

lemma getUserBySupabase_updRow:
  "(\<And>u. u_supabaseId (f u) = u_supabaseId u) \<Longrightarrow>
    getUserBySupabase (s\<lparr>t_users := updRow u_supabaseId k f (t_users s)\<rparr>) k = map_option f (getUserBySupabase s k)"
  by (simp add: getUserBySupabase_def findRow_updRow)

text \<open>The account's email address is marked verified by a code that went to another address: a
  token without an email lets the body name the address, and the row is flagged without a look
  at the address it stores.
\<close>

theorem email_flag_for_other_address:
  assumes "getUserBySupabase s (ju_id u) = Some v" and "trimmedOrEmpty (ju_email u) = []"
    and "trimmedOrEmpty body \<noteq> []" and "sa_error (answer (trimmedOrEmpty body)) = None"
    and "sa_session (answer (trimmedOrEmpty body)) = Some session"
  shows "\<exists>t w. postVerifyEmailOtp u body answer s = (Inr (toSession session), t) \<and>
    getUserBySupabase t (ju_id u) = Some w \<and> u_emailVerified w \<and> u_email w = u_email v"
proof -
  let ?t = "mirrorEmailVerified (ju_id u) s"
  have "postVerifyEmailOtp u body answer s = (Inr (toSession session), ?t)"
    using assms by (simp add: postVerifyEmailOtp_def otpAddress_def verifyEmailOtp_def sessionOr_def Let_def ok_def)
  moreover have "getUserBySupabase ?t (ju_id u) = Some (v\<lparr>u_emailVerified := True\<rparr>)"
    unfolding mirrorEmailVerified_def by (subst getUserBySupabase_updRow) (simp_all add: assms(1))
  ultimately show ?thesis by (intro exI [of _ ?t] exI [of _ "v\<lparr>u_emailVerified := True\<rparr>"]) simp
qed

abbreviation demo_session :: sb_session where
  "demo_session \<equiv> \<lparr>sn_accessToken = ''at'', sn_refreshToken = ''rt'', sn_expiresAt = None,
    sn_user = \<lparr>su_id = ''zz'', su_email = Some ''mine@x'', su_phone = None, su_emailConfirmedAt = Some ''d'',
      su_phoneConfirmedAt = None\<rparr>\<rparr>"

text \<open>The account of the seller stores \<open>e\<close>; the code went to \<open>mine@x\<close>.\<close>

theorem email_flag_for_other_address_witness:
  "\<exists>t w. postVerifyEmailOtp \<lparr>ju_id = ''sb'', ju_email = None, ju_phone = None, ju_role = R_Seller\<rparr> (Some ''mine@x'')
      (\<lambda>_. \<lparr>sa_error = None, sa_session = Some demo_session\<rparr>) payout_db = (Inr (toSession demo_session), t) \<and>
    getUserBySupabase t ''sb'' = Some w \<and> u_emailVerified w \<and> u_email w = ''e''"
proof -
  have t: "trimmedOrEmpty (Some ''mine@x'') \<noteq> []" "trimmedOrEmpty None = []" by code_simp+
  show ?thesis
    using email_flag_for_other_address [of payout_db "\<lparr>ju_id = ''sb'', ju_email = None, ju_phone = None, ju_role = R_Seller\<rparr>"
        "demo_user ''s'' ''sb'' R_Seller" "Some ''mine@x''" "\<lambda>_. \<lparr>sa_error = None, sa_session = Some demo_session\<rparr>" demo_session]
    by (simp add: t getUserBySupabase_def payout_db_def empty_db_def)
qed

lemma verifyPhoneOtp_eq:
  assumes "preludeStatus CodeCheckFailed a = Inr ''success''" and "assertPhoneAvailable sid phone s = None"
  shows "verifyPhoneOtp sid phone a None s =
    bindR (mirrorPhone sid phone (emit (AuthUserUpdate sid ''phone'' (withoutPlus phone)) s)) (\<lambda>_ u. ok (True, phone) u)"
  using assms by (simp add: verifyPhoneOtp_def adminUpdate_def)

text \<open>C17: A confirmed phone code that returns leaves the number on the caller's account alone: an
  account of the caller has it, verified, and of the other accounts only deleted ones of a caller
  without a profile can still hold it; no other account is touched.
\<close>

theorem confirmed_phone_exclusive:
  assumes "verifyPhoneOtp sid phone a err s = (Inr r, t)" and "distinct (map u_supabaseId (t_users s))"
  shows "r = (True, phone) \<and> preludeStatus CodeCheckFailed a = Inr ''success'' \<and> err = None \<and>
    out t = out s @ [AuthUserUpdate sid ''phone'' (withoutPlus phone)] \<and>
    (\<forall>u \<in> set (t_users t). u_supabaseId u = sid \<longrightarrow> u_phone u = Some phone \<and> u_phoneVerified u) \<and>
    filter (\<lambda>u. u_supabaseId u \<noteq> sid) (t_users t) = filter (\<lambda>u. u_supabaseId u \<noteq> sid) (t_users s) \<and>
    (\<forall>u \<in> set (t_users t). u_phone u = Some phone \<and> u_supabaseId u \<noteq> sid \<longrightarrow>
       u_deletedAt u \<noteq> None \<and> getUserBySupabase s sid = None)"
proof -
  have st: "preludeStatus CodeCheckFailed a = Inr ''success''"
    using assms(1) by (auto simp: verifyPhoneOtp_def split: sum.splits if_splits)
  have free: "assertPhoneAvailable sid phone s = None"
    using assms(1) st by (auto simp: verifyPhoneOtp_def split: option.splits)
  have err: "err = None"
    using assms(1) st free by (cases err) (auto simp: verifyPhoneOtp_def adminUpdate_def)
  let ?s = "emit (AuthUserUpdate sid ''phone'' (withoutPlus phone)) s"
  let ?f = "\<lambda>u. u\<lparr>u_phone := Some phone, u_phoneVerified := True\<rparr>"
  have run: "bindR (mirrorPhone sid phone ?s) (\<lambda>_ u. ok (True, phone) u) = (Inr r, t)"
    using assms(1) st free err by (simp add: verifyPhoneOtp_eq)
  then have m: "mirrorPhone sid phone ?s = (Inr (), t)" and r: "r = (True, phone)"
    by (auto simp: bindR_Inr_iff)
  have noclash: "\<not> (list_ex (\<lambda>u. u_supabaseId u = sid) (t_users s) \<and>
      list_ex (\<lambda>u. u_phone u = Some phone \<and> u_supabaseId u \<noteq> sid) (t_users s))"
    and t: "t = ?s\<lparr>t_users := updRow u_supabaseId sid ?f (t_users s)\<rparr>"
    using m by (auto simp: mirrorPhone_def emit_def split: if_splits)
  have users: "t_users t = updRow u_supabaseId sid ?f (t_users s)" by (simp add: t)
  have others: "filter (\<lambda>u. u_supabaseId u \<noteq> sid) (updRow u_supabaseId sid ?f us) = filter (\<lambda>u. u_supabaseId u \<noteq> sid) us" for us
    by (induction us) (simp_all add: updRow_def)
  have left: "u_deletedAt u \<noteq> None \<and> getUserBySupabase s sid = None"
    if u: "u \<in> set (t_users t)" "u_phone u = Some phone" "u_supabaseId u \<noteq> sid" for u
  proof -
    have us: "u \<in> set (t_users s)" using u(1,3) by (auto simp: users in_updRow split: if_splits)
    then have "u_deletedAt u \<noteq> None"
      using free u by (auto simp: assertPhoneAvailable_def list_ex_iff split: if_splits)
    moreover have "getUserBySupabase s sid = None"
      using noclash us u by (auto simp: getUserBySupabase_def findRow_None_iff list_ex_iff)
    ultimately show ?thesis by blast
  qed
  have own: "u_phone u = Some phone \<and> u_phoneVerified u" if u: "u \<in> set (t_users t)" "u_supabaseId u = sid" for u
  proof -
    obtain q where "u = (if u_supabaseId q = sid then ?f q else q)" using u(1) unfolding users in_updRow by blast
    then show ?thesis using u(2) by (cases "u_supabaseId q = sid") auto
  qed
  show ?thesis
    using r st err own left others [of "t_users s"] by (auto simp: t emit_def)
qed

lemma demo_phone_run:
  "case fst (verifyPhoneOtp ''sb'' ''+33'' (PR_Status (Some ''success'')) None payout_db) of
     Inl _ \<Rightarrow> False | Inr r \<Rightarrow> r = (True, ''+33'')"
  by code_simp

theorem confirmed_phone_exclusive_witness:
  "\<exists>t. verifyPhoneOtp ''sb'' ''+33'' (PR_Status (Some ''success'')) None payout_db = (Inr (True, ''+33''), t) \<and>
    (\<forall>u \<in> set (t_users t). u_supabaseId u = ''sb'' \<longrightarrow> u_phone u = Some ''+33'')"
proof -
  obtain t where run: "verifyPhoneOtp ''sb'' ''+33'' (PR_Status (Some ''success'')) None payout_db = (Inr (True, ''+33''), t)"
    using run_InrE [OF demo_phone_run] by metis
  have "distinct (map u_supabaseId (t_users payout_db))" by (simp add: payout_db_def empty_db_def)
  from confirmed_phone_exclusive [OF run this] run show ?thesis by blast
qed

text \<open>Where the number belongs to a deleted account, the code is confirmed and the number is
  written to the caller's Supabase user, but the sign-up that follows can then never succeed: with
  the number on the Supabase user it ends in the unique-constraint error every time.
\<close>

theorem deleted_owner_blocks_sign_up:
  assumes "getUserBySupabase s (ji_supabaseId ident) = None"
    and "v \<in> set (t_users s)" and "u_phone v = Some (''+'' @ q)" and "q \<noteq> []" and "hd q \<noteq> CHR ''+''"
    and "\<forall>w \<in> set (t_users s). u_phone w = Some (''+'' @ q) \<longrightarrow> u_deletedAt w \<noteq> None"
    and "Option.bind au sbu_phone = Some q" and "fst (pickEmail (ji_email ident) au) = Some email"
    and "assertEmailAvailableForIdentity (ji_supabaseId ident) email s = None"
  shows "\<exists>t. verifyPhoneOtp (ji_supabaseId ident) (''+'' @ q) (PR_Status (Some ''success'')) None s = (Inr (True, ''+'' @ q), t) \<and>
    AuthUserUpdate (ji_supabaseId ident) ''phone'' q \<in> set (out t) \<and>
    createFromJwt env ident au dto t = (Inl PrismaConflict, t)"
proof -
  let ?sid = "ji_supabaseId ident" and ?p = "''+'' @ q"
  let ?s = "emit (AuthUserUpdate ?sid ''phone'' q) s"
  have free: "assertPhoneAvailable ?sid ?p s = None"
    using assms(6) by (auto simp: assertPhoneAvailable_def list_ex_iff)
  have none: "\<forall>u \<in> set (t_users s). u_supabaseId u \<noteq> ?sid"
    using assms(1) by (simp add: getUserBySupabase_def findRow_None_iff)
  have same: "updRow u_supabaseId ?sid f (t_users s) = t_users s" for f
    using assms(1) by (intro updRow_absent) (simp add: getUserBySupabase_def)
  have "mirrorPhone ?sid ?p ?s = ok () ?s"
    using none by (auto simp: mirrorPhone_def emit_def list_ex_iff same)
  then have run: "verifyPhoneOtp ?sid ?p (PR_Status (Some ''success'')) None s = (Inr (True, ?p), ?s)"
    using free by (subst verifyPhoneOtp_eq) (simp_all add: preludeStatus_def withoutPlus_def ok_def)
  have users: "t_users ?s = t_users s" by (simp add: emit_def)
  have phone: "signupPhone ident au dto ?s = Some ?p"
  proof -
    obtain c cs where "q = c # cs" "c \<noteq> CHR ''+''" using assms(4,5) by (cases q) auto
    then show ?thesis using assms(7) by (simp add: signupPhone_def truthy_def withPlus_def Let_def)
  qed
  have "createFromJwt env ident au dto ?s = (Inl PrismaConflict, ?s)"
    by (rule createFromJwt_phone_conflict [where v = v and email = email and p = ?p])
      (use assms phone in \<open>simp_all add: users getUserBySupabase_def assertEmailAvailableForIdentity_def\<close>)
  with run show ?thesis by (auto simp: emit_def)
qed

abbreviation gone_db :: db where
  "gone_db \<equiv> empty_db\<lparr>t_users := [demo_squatter\<lparr>u_deletedAt := Some 1\<rparr>]\<rparr>"

theorem deleted_owner_blocks_sign_up_witness:
  "\<exists>t. verifyPhoneOtp ''new'' ''+336'' (PR_Status (Some ''success'')) None gone_db = (Inr (True, ''+336''), t) \<and>
    createFromJwt demo_env demo_identity (Some demo_owner) demo_signup t = (Inl PrismaConflict, t)"
  using deleted_owner_blocks_sign_up [of gone_db demo_identity "demo_squatter\<lparr>u_deletedAt := Some 1\<rparr>" "''336''"
      "Some demo_owner" "''n@x''" demo_env demo_signup]
  by (auto simp: getUserBySupabase_def empty_db_def pickEmail_def truthy_def assertEmailAvailableForIdentity_def)

end
