(* ===== verification/Connect.thy ===== *)
theory Connect
  imports Auth
begin

section \<open>Payout accounts and uploads\<close>

text \<open>
  The Stripe Connect onboarding link (\<open>src/modules/payments/onboarding/onboarding.service.ts\<close>) and
  the signed upload URLs (\<open>src/modules/files/files.service.ts\<close>). The answers of Stripe and of the
  storage service are arguments: the link of an account, and the n-th account created.
\<close>

subsection \<open>Errors of Stripe\<close>

record stripe_failure =
  sf_code :: "string option"
  sf_message :: string
  sf_isStripe :: bool

fun hasSub :: "string \<Rightarrow> string \<Rightarrow> bool" where
  "hasSub [] p = (p = [])"
| "hasSub (c # cs) p = (startsWith (c # cs) p \<or> hasSub cs p)"

definition isNoSuchAccountError :: "stripe_failure \<Rightarrow> bool" where
  "isNoSuchAccountError e \<longleftrightarrow> sf_code e = Some ''resource_missing'' \<or> hasSub (sf_message e) ''No such account''"

text \<open>\<open>/enable .*Connect/i\<close>: the dot stops at the end of the line.\<close>

fun enableConnect :: "string \<Rightarrow> bool" where
  "enableConnect [] = False"
| "enableConnect (c # cs) =
    ((startsWith (c # cs) ''enable '' \<and>
      hasSub (takeWhile (\<lambda>d. d \<noteq> CHR 0x0A \<and> d \<noteq> CHR 0x0D) (drop 7 (c # cs))) ''connect'') \<or> enableConnect cs)"

definition connectDisabled :: "string \<Rightarrow> bool" where
  "connectDisabled message \<longleftrightarrow> (let m = lower message in
     hasSub m ''signed up for connect'' \<or> enableConnect m \<or> hasSub m ''connect settings'')"

definition rethrowMapped :: "stripe_failure \<Rightarrow> exn" where
  "rethrowMapped e = ServiceUnavailable (Connect
    (if sf_isStripe e \<and> connectDisabled (sf_message e) then ConnectNotEnabled else ConnectUnavailable))"

subsection \<open>The onboarding link\<close>

record account_link =
  lk_url :: string
  lk_expiresAt :: int

definition storeAccount :: "user_row \<Rightarrow> id \<Rightarrow> db \<Rightarrow> db" where
  "storeAccount user account s =
    (if u_role user = R_Seller then updSeller (u_id user) (\<lambda>p. p\<lparr>sp_stripeConnectAccountId := Some account\<rparr>) s
     else updDriver (u_id user) (\<lambda>p. p\<lparr>dp_stripeConnectAccountId := Some account\<rparr>) s)"

definition createExpressAccount :: "user_row \<Rightarrow> stripe_failure + id \<Rightarrow> db \<Rightarrow> (stripe_failure, id, db) result" where
  "createExpressAccount user created s =
    (case created of
       Inl e \<Rightarrow> fail e s
     | Inr account \<Rightarrow> ok account (storeAccount user account (emit (StripeAccountCreated account (u_id user)) s)))"

definition connectAccountOf :: "user_row \<Rightarrow> db \<Rightarrow> id option option" where
  "connectAccountOf user s =
    (if u_role user = R_Seller then map_option sp_stripeConnectAccountId (getSeller s (u_id user))
     else map_option dp_stripeConnectAccountId (getDriver s (u_id user)))"

definition linkOrRecreate :: "(id \<Rightarrow> stripe_failure + account_link) \<Rightarrow> (nat \<Rightarrow> stripe_failure + id) \<Rightarrow>
    user_row \<Rightarrow> id option \<Rightarrow> db \<Rightarrow> (stripe_failure, account_link, db) result" where
  "linkOrRecreate links accounts user stored s =
    bindR (case stored of Some a \<Rightarrow> ok a s | None \<Rightarrow> createExpressAccount user (accounts 0) s)
      (\<lambda>account t. case links account of
         Inr link \<Rightarrow> ok link t
       | Inl e \<Rightarrow>
           if \<not> isNoSuchAccountError e then fail e t
           else bindR (createExpressAccount user (accounts 1) t)
             (\<lambda>fresh u. liftE (links fresh) u))"

definition createAccountLink :: "bool \<Rightarrow> (id \<Rightarrow> stripe_failure + account_link) \<Rightarrow> (nat \<Rightarrow> stripe_failure + id) \<Rightarrow>
    id \<Rightarrow> db \<Rightarrow> (exn, account_link, db) result" where
  "createAccountLink urlsConfigured links accounts supabaseId s =
    (if \<not> urlsConfigured then fail (InternalError (Connect ConnectUrlsMissing)) s
     else case getUserBySupabase s supabaseId of None \<Rightarrow> fail (NotFound UserProfile) s | Some user \<Rightarrow>
     if u_role user \<noteq> R_Seller \<and> u_role user \<noteq> R_Driver then fail (Forbidden (Connect ConnectRolesOnly)) s
     else case connectAccountOf user s of None \<Rightarrow> fail (NotFound ARoleProfile) s | Some stored \<Rightarrow>
     (case linkOrRecreate links accounts user stored s of
        (Inl e, t) \<Rightarrow> fail (rethrowMapped e) t
      | (Inr link, t) \<Rightarrow> ok link t))"

subsection \<open>Uploads\<close>

datatype upload_purpose =
  UP_Avatar | UP_KycDocument | UP_ListingImage | UP_SellerFacade | UP_DeliveryProof | UP_DisputeProof

datatype bucket_key = BK_Avatars | BK_Kyc | BK_Listings | BK_SellerFacades

definition purposeBucket :: "upload_purpose \<Rightarrow> bucket_key" where
  "purposeBucket p = (case p of
     UP_Avatar \<Rightarrow> BK_Avatars | UP_KycDocument \<Rightarrow> BK_Kyc | UP_ListingImage \<Rightarrow> BK_Listings
   | UP_SellerFacade \<Rightarrow> BK_SellerFacades | UP_DeliveryProof \<Rightarrow> BK_Avatars | UP_DisputeProof \<Rightarrow> BK_Avatars)"

definition purposeRoles :: "upload_purpose \<Rightarrow> user_role list" where
  "purposeRoles p = (case p of
     UP_Avatar \<Rightarrow> [R_Buyer, R_Seller, R_Driver] | UP_KycDocument \<Rightarrow> [R_Seller, R_Driver]
   | UP_ListingImage \<Rightarrow> [R_Seller] | UP_SellerFacade \<Rightarrow> [R_Seller]
   | UP_DeliveryProof \<Rightarrow> [R_Driver] | UP_DisputeProof \<Rightarrow> [R_Buyer])"

definition blockedFor :: "upload_purpose \<Rightarrow> seller_category option \<Rightarrow> file_reason option" where
  "blockedFor p category = (case p of
     UP_KycDocument \<Rightarrow> if category = Some SC_FaitMaison then Some UploadNoKyc else None
   | UP_SellerFacade \<Rightarrow> if category = Some SC_FaitMaison then Some UploadNoFacade else None
   | _ \<Rightarrow> None)"

definition purposeName :: "upload_purpose \<Rightarrow> string" where
  "purposeName p = (case p of
     UP_Avatar \<Rightarrow> ''avatar'' | UP_KycDocument \<Rightarrow> ''kyc_document'' | UP_ListingImage \<Rightarrow> ''listing_image''
   | UP_SellerFacade \<Rightarrow> ''seller_facade'' | UP_DeliveryProof \<Rightarrow> ''delivery_proof'' | UP_DisputeProof \<Rightarrow> ''dispute_proof'')"

text \<open>\<open>buckets\<close> is the configuration; the facade bucket is hard-coded.\<close>

definition bucketName :: "(bucket_key \<Rightarrow> string) \<Rightarrow> bucket_key \<Rightarrow> string" where
  "bucketName buckets k = (if k = BK_SellerFacades then ''seller-facades'' else buckets k)"

record upload_url =
  up_uploadUrl :: string
  up_token :: string
  up_path :: string
  up_bucket :: string

definition createUploadUrl :: "env \<Rightarrow> (bucket_key \<Rightarrow> string) \<Rightarrow> (string \<Rightarrow> string \<Rightarrow> (string \<times> string) option) \<Rightarrow>
    id \<Rightarrow> upload_purpose \<Rightarrow> db \<Rightarrow> exn + upload_url" where
  "createUploadUrl env buckets sign supabaseId purpose s =
    (case getUserBySupabase s supabaseId of None \<Rightarrow> Inl (NotFound UserProfile) | Some user \<Rightarrow>
     if u_role user \<notin> set (purposeRoles purpose)
     then Inl (Forbidden (File (UploadNotAllowed (purposeName purpose) (u_role user))))
     else case blockedFor purpose (Option.bind (getSeller s (u_id user)) sp_category) of
       Some r \<Rightarrow> Inl (Forbidden (File r))
     | None \<Rightarrow>
         let bucket = bucketName buckets (purposeBucket purpose);
             objectPath = supabaseId @ ''/'' @ e_ulid env ForUpload
         in (case sign bucket objectPath of
               None \<Rightarrow> Inl (InternalError (File UploadUrlFailed))
             | Some (url, token) \<Rightarrow> Inr \<lparr>up_uploadUrl = url, up_token = token,
                 up_path = bucket @ ''/'' @ objectPath, up_bucket = bucket\<rparr>))"

subsection \<open>The link belongs to the account on file\<close>

lemma storeAccount_of:
  assumes "connectAccountOf user s \<noteq> None"
  shows "connectAccountOf user (storeAccount user a (emit e s)) = Some (Some a)"
proof -
  have "getSeller (emit e s) = getSeller s" "getDriver (emit e s) = getDriver s"
    by (simp_all add: fun_eq_iff getSeller_def getDriver_def emit_def)
  then show ?thesis
    using assms by (auto simp: connectAccountOf_def storeAccount_def sel.get_put drv.get_put)
qed

lemma createExpressAccount_Inr:
  assumes "createExpressAccount user created s = (Inr a, t)" and "connectAccountOf user s \<noteq> None"
  shows "created = Inr a \<and> connectAccountOf user t = Some (Some a) \<and>
    t = storeAccount user a (emit (StripeAccountCreated a (u_id user)) s)"
  using assms storeAccount_of [OF assms(2)] by (auto simp: createExpressAccount_def split: sum.splits)

lemma linkOrRecreate_Inr:
  assumes "linkOrRecreate links accounts user stored s = (Inr link, t)" and "connectAccountOf user s = Some stored"
  shows "\<exists>a. connectAccountOf user t = Some (Some a) \<and> links a = Inr link \<and>
    (case stored of Some a0 \<Rightarrow> isl (links a0) \<or> t = s | None \<Rightarrow> True)"
proof -
  define first where "first = (case stored of Some a \<Rightarrow> ok a s | None \<Rightarrow> createExpressAccount user (accounts 0) s)"
  define rest where "rest account u = (case links account of
         Inr link \<Rightarrow> ok link u
       | Inl e \<Rightarrow>
           if \<not> isNoSuchAccountError e then fail e u
           else bindR (createExpressAccount user (accounts 1) u) (\<lambda>fresh v. liftE (links fresh) v))" for account u
  have "bindR first rest = (Inr link, t)"
    using assms(1) by (simp add: linkOrRecreate_def first_def rest_def [abs_def])
  then obtain account u where f: "first = (Inr account, u)" and r: "rest account u = (Inr link, t)"
    by (auto simp: bindR_Inr_iff)
  have u: "connectAccountOf user u = Some (Some account) \<and> (case stored of Some a0 \<Rightarrow> account = a0 \<and> u = s | None \<Rightarrow> True)"
  proof (cases stored)
    case None
    then have c: "createExpressAccount user (accounts 0) s = (Inr account, u)" using f by (simp add: first_def)
    have "connectAccountOf user u = Some (Some account)"
      using createExpressAccount_Inr [OF c] assms(2) by blast
    then show ?thesis using None by simp
  next
    case (Some a)
    then show ?thesis using f assms(2) by (simp add: first_def)
  qed
  show ?thesis
  proof (cases "links account")
    case (Inr l)
    then have "l = link" "t = u" using r by (simp_all add: rest_def)
    then show ?thesis using u Inr by (intro exI [of _ account]) (auto split: option.splits)
  next
    case (Inl e)
    then have "bindR (createExpressAccount user (accounts 1) u) (\<lambda>fresh v. liftE (links fresh) v) = (Inr link, t)"
      using r by (auto simp: rest_def split: if_splits)
    then obtain fresh v where c: "createExpressAccount user (accounts 1) u = (Inr fresh, v)"
      and l: "liftE (links fresh) v = (Inr link, t)" by (auto simp: bindR_Inr_iff)
    have "connectAccountOf user v = Some (Some fresh)" using createExpressAccount_Inr [OF c] u by blast
    moreover have "links fresh = Inr link" "t = v" using l by (auto simp: liftE_Inr_iff)
    ultimately show ?thesis using u Inl by (intro exI [of _ fresh]) (auto split: option.splits)
  qed
qed

text \<open>An onboarding link that is returned is a link of the account that the caller's profile
  stores afterwards; when the stored account still has a link nothing is written and no account
  is created.
\<close>

theorem link_of_stored_account:
  assumes "createAccountLink cfg links accounts sid s = (Inr link, t)"
  shows "\<exists>user stored a. getUserBySupabase s sid = Some user \<and> u_role user \<in> {R_Seller, R_Driver} \<and>
    connectAccountOf user s = Some stored \<and> connectAccountOf user t = Some (Some a) \<and> links a = Inr link \<and>
    (\<forall>a0. stored = Some a0 \<and> \<not> isl (links a0) \<longrightarrow> t = s \<and> a = a0)"
proof -
  obtain user where user: "getUserBySupabase s sid = Some user"
    using assms by (auto simp: createAccountLink_def split: if_splits option.splits)
  have role: "u_role user \<in> {R_Seller, R_Driver}"
    using assms user by (auto simp: createAccountLink_def split: if_splits)
  obtain stored where st: "connectAccountOf user s = Some stored"
    using assms user role by (auto simp: createAccountLink_def split: if_splits option.splits)
  have run: "linkOrRecreate links accounts user stored s = (Inr link, t)"
    using assms user role st
    by (cases "linkOrRecreate links accounts user stored s") (auto simp: createAccountLink_def split: if_splits sum.splits)
  obtain a where a: "connectAccountOf user t = Some (Some a)" "links a = Inr link"
    "case stored of Some a0 \<Rightarrow> isl (links a0) \<or> t = s | None \<Rightarrow> True"
    using linkOrRecreate_Inr [OF run st] by blast
  have "t = s \<and> a = a0" if "stored = Some a0" "\<not> isl (links a0)" for a0
    using a that st by auto
  then show ?thesis using user role st a by (intro exI [of _ user] exI [of _ stored] exI [of _ a]) auto
qed

abbreviation demo_links :: "id \<Rightarrow> stripe_failure + account_link" where
  "demo_links a \<equiv> (if a = ''acct2'' then Inr \<lparr>lk_url = ''u'', lk_expiresAt = 9\<rparr>
    else Inl \<lparr>sf_code = Some ''resource_missing'', sf_message = [], sf_isStripe = True\<rparr>)"

text \<open>A seller whose Stripe account is gone gets a fresh one, but the profile keeps saying that the
  payout setup is complete, for an account on which nothing has been filled in.
\<close>

theorem recreated_account_counts_as_complete:
  assumes "getUserBySupabase s sid = Some user" and "u_role user = R_Seller"
    and "getSeller s (u_id user) = Some p" and "sp_stripeConnectAccountId p = Some gone"
    and "sp_stripeOnboardingCompleted p" and "links gone = Inl e" and "isNoSuchAccountError e"
    and "accounts 1 = Inr fresh" and "links fresh = Inr link"
  shows "\<exists>t q. createAccountLink True links accounts sid s = (Inr link, t) \<and>
    getSeller t (u_id user) = Some q \<and> sp_stripeConnectAccountId q = Some fresh \<and> sp_stripeOnboardingCompleted q"
proof -
  let ?s = "emit (StripeAccountCreated fresh (u_id user)) s"
  let ?t = "storeAccount user fresh ?s"
  have st: "connectAccountOf user s = Some (Some gone)" using assms(2-4) by (simp add: connectAccountOf_def)
  have "linkOrRecreate links accounts user (Some gone) s = (Inr link, ?t)"
    using assms(6-9) by (simp add: linkOrRecreate_def createExpressAccount_def ok_def)
  then have run: "createAccountLink True links accounts sid s = (Inr link, ?t)"
    using assms(1,2) st by (simp add: createAccountLink_def ok_def)
  have "getSeller ?s (u_id user) = Some p" using assms(3) by (simp add: getSeller_def emit_def)
  then have "getSeller ?t (u_id user) = Some (p\<lparr>sp_stripeConnectAccountId := Some fresh\<rparr>)"
    using assms(2) by (simp add: storeAccount_def sel.get_put)
  with run assms(5) show ?thesis by (intro exI [of _ ?t] exI [of _ "p\<lparr>sp_stripeConnectAccountId := Some fresh\<rparr>"]) simp
qed

theorem recreated_account_counts_as_complete_witness:
  "\<exists>t q. createAccountLink True demo_links (\<lambda>_. Inr ''acct2'') ''sb'' payout_db = (Inr \<lparr>lk_url = ''u'', lk_expiresAt = 9\<rparr>, t) \<and>
    getSeller t ''s'' = Some q \<and> sp_stripeOnboardingCompleted q"
  using recreated_account_counts_as_complete [of payout_db "''sb''" "demo_user ''s'' ''sb'' R_Seller"
      "hd (t_sellers payout_db)" "the (sp_stripeConnectAccountId (hd (t_sellers payout_db)))" demo_links
      "\<lparr>sf_code = Some ''resource_missing'', sf_message = [], sf_isStripe = True\<rparr>" "\<lambda>_. Inr ''acct2''" "''acct2''"]
  by (auto simp: getUserBySupabase_def getSeller_def payout_db_def empty_db_def isNoSuchAccountError_def)

text \<open>An upload goes to a fresh name in the caller's own folder, and only for a purpose of the caller's role.\<close>

lemma upload_in_own_folder:
  assumes "createUploadUrl env buckets sign sid purpose s = Inr u"
  shows "\<exists>user. getUserBySupabase s sid = Some user \<and> u_role user \<in> set (purposeRoles purpose) \<and>
    up_path u = up_bucket u @ ''/'' @ sid @ ''/'' @ e_ulid env ForUpload \<and>
    up_bucket u = bucketName buckets (purposeBucket purpose)"
  using assms by (auto simp: createUploadUrl_def Let_def split: option.splits if_splits prod.splits)

end
