(* ===== verification/Tracking.thy ===== *)
theory Tracking
  imports Connect Messaging
begin

section \<open>The realtime gateway\<close>

text \<open>
  The socket gateway of \<open>src/modules/tracking/tracking.gateway.ts\<close>: the Redis channels and the
  rooms they are fanned out to, and which rooms a socket may join. The verification of a token
  (\<open>src/modules/tracking/ws-jwt.service.ts\<close>) is \<^const>\<open>verifyToken\<close>; its answer is an argument.
\<close>

subsection \<open>Channels\<close>

definition driverLocChannel :: "id \<Rightarrow> string" where
  "driverLocChannel deliveryId = ''delivery:'' @ deliveryId @ '':loc''"

definition orderStatusChannel :: "id \<Rightarrow> string" where
  "orderStatusChannel orderId = ''order:'' @ orderId @ '':status''"

definition conversationChannel :: "id \<Rightarrow> string" where
  "conversationChannel conversationId = ''conv:'' @ conversationId @ '':msg''"

definition userDeliveryChannel :: "id \<Rightarrow> string" where
  "userDeliveryChannel userId = ''user:'' @ userId @ '':delivery''"

definition endsWith :: "string \<Rightarrow> string \<Rightarrow> bool" where
  "endsWith t q \<longleftrightarrow> startsWith (rev t) (rev q)"

text \<open>\<open>channel.slice(prefix.length, channel.length - suffix.length)\<close>.\<close>

definition between_affixes :: "string \<Rightarrow> string \<Rightarrow> string \<Rightarrow> string" where
  "between_affixes p q channel = take (length channel - length q - length p) (drop (length p) channel)"

text \<open>The room and the event of a published message.\<close>

definition onMessage :: "string \<Rightarrow> (string \<times> string) option" where
  "onMessage channel =
    (if startsWith channel ''delivery:'' \<and> endsWith channel '':loc''
     then Some (''delivery:'' @ between_affixes ''delivery:'' '':loc'' channel, ''driver:location'')
     else if startsWith channel ''order:'' \<and> endsWith channel '':status''
     then Some (''order:'' @ between_affixes ''order:'' '':status'' channel, ''order:status'')
     else if startsWith channel ''user:'' \<and> endsWith channel '':delivery''
     then Some (''user:'' @ between_affixes ''user:'' '':delivery'' channel, ''delivery:cancelled'')
     else if startsWith channel ''conv:'' \<and> endsWith channel '':msg''
     then Some (''conv:'' @ between_affixes ''conv:'' '':msg'' channel, ''message:new'')
     else None)"

subsection \<open>Sockets\<close>

record socket =
  sk_user :: "jwt_user option"
  sk_internalUserId :: "id option"
  sk_rooms :: "string list"
  sk_connected :: bool

datatype ws_error =
  WsUnauthorized | WsTargetRequired | WsUserNotFound | WsDeliveryNotFound | WsOrderNotFound
  | WsForbidden | WsConversationRequired | WsFrom exn

definition joinRoom :: "string \<Rightarrow> socket \<Rightarrow> socket" where
  "joinRoom room k = k\<lparr>sk_rooms := List.insert room (sk_rooms k)\<rparr>"

definition leaveRoom :: "string \<Rightarrow> socket \<Rightarrow> socket" where
  "leaveRoom room k = k\<lparr>sk_rooms := removeAll room (sk_rooms k)\<rparr>"

definition extractToken :: "string option \<Rightarrow> string option \<Rightarrow> string option" where
  "extractToken fromAuth header =
    (if truthy fromAuth then fromAuth
     else case header of
         Some h \<Rightarrow> if startsWith h ''Bearer '' then Some (drop 7 h) else None
       | None \<Rightarrow> None)"

text \<open>A new socket; \<open>verify\<close> is the verification of its token.\<close>

definition handleConnection :: "(string \<Rightarrow> exn + jwt_user) \<Rightarrow> string option \<Rightarrow> string option \<Rightarrow> db \<Rightarrow> socket" where
  "handleConnection verify fromAuth header s =
    (let closed = \<lparr>sk_user = None, sk_internalUserId = None, sk_rooms = [], sk_connected = False\<rparr>
     in if \<not> truthy (extractToken fromAuth header) then closed
        else case verify (the (extractToken fromAuth header)) of
            Inl _ \<Rightarrow> closed
          | Inr user \<Rightarrow>
              (case getUserBySupabase s (ju_id user) of
                 None \<Rightarrow> closed\<lparr>sk_user := Some user, sk_connected := True\<rparr>
               | Some u \<Rightarrow> joinRoom (''user:'' @ u_id u)
                   (closed\<lparr>sk_user := Some user, sk_internalUserId := Some (u_id u), sk_connected := True\<rparr>)))"

definition internalUser :: "socket \<Rightarrow> jwt_user \<Rightarrow> db \<Rightarrow> id option" where
  "internalUser k user s =
    (if truthy (sk_internalUserId k) then sk_internalUserId k
     else map_option u_id (getUserBySupabase s (ju_id user)))"

text \<open>The order, the delivery and the buyer a subscription names.\<close>

definition subscriptionTarget :: "id option \<Rightarrow> id option \<Rightarrow> db \<Rightarrow> ws_error + (id \<times> id option \<times> id)" where
  "subscriptionTarget orderId deliveryId s =
    (if truthy deliveryId then
       (case getDelivery s (the deliveryId) of
          None \<Rightarrow> Inl WsDeliveryNotFound
        | Some d \<Rightarrow> (case getOrder s (d_orderId d) of
            None \<Rightarrow> Inl WsOrderNotFound
          | Some ord \<Rightarrow> Inr (d_orderId d, Some (d_id d), o_buyerId ord)))
     else
       (case Option.bind orderId (getOrder s) of
          None \<Rightarrow> Inl WsOrderNotFound
        | Some ord \<Rightarrow> Inr (o_id ord,
            map_option d_id (List.find (\<lambda>d. d_orderId d = o_id ord) (t_deliveries s)), o_buyerId ord)))"

definition onSubscribe :: "id option \<Rightarrow> id option \<Rightarrow> db \<Rightarrow> socket \<Rightarrow> (ws_error, id \<times> id option, socket) result" where
  "onSubscribe orderId deliveryId s k =
    (case sk_user k of None \<Rightarrow> fail WsUnauthorized k | Some user \<Rightarrow>
     if \<not> truthy orderId \<and> \<not> truthy deliveryId then fail WsTargetRequired k
     else case internalUser k user s of None \<Rightarrow> fail WsUserNotFound k | Some me \<Rightarrow>
     let k1 = k\<lparr>sk_internalUserId := Some me\<rparr>
     in case subscriptionTarget orderId deliveryId s of
          Inl e \<Rightarrow> fail e k1
        | Inr (oid, did, buyerId) \<Rightarrow>
            if buyerId \<noteq> me then fail WsForbidden k1
            else let k2 = joinRoom (''order:'' @ oid) k1
                 in ok (oid, did) (if truthy did then joinRoom (''delivery:'' @ the did) k2 else k2))"

definition onUnsubscribe :: "id option \<Rightarrow> socket \<Rightarrow> socket" where
  "onUnsubscribe deliveryId k = (if truthy deliveryId then leaveRoom (''delivery:'' @ the deliveryId) k else k)"

definition onConvSubscribe :: "id option \<Rightarrow> db \<Rightarrow> socket \<Rightarrow> (ws_error, id, socket) result" where
  "onConvSubscribe conversationId s k =
    (case sk_user k of None \<Rightarrow> fail WsUnauthorized k | Some user \<Rightarrow>
     if \<not> truthy conversationId then fail WsConversationRequired k
     else case assertParticipant (ju_id user) (the conversationId) s of
         Inl e \<Rightarrow> fail (WsFrom e) k
       | Inr _ \<Rightarrow> ok (the conversationId) (joinRoom (''conv:'' @ the conversationId) k))"

definition onConvUnsubscribe :: "id option \<Rightarrow> socket \<Rightarrow> socket" where
  "onConvUnsubscribe conversationId k =
    (if truthy conversationId then leaveRoom (''conv:'' @ the conversationId) k else k)"

subsection \<open>A message reaches the room of its id\<close>

lemma startsWith_append: "startsWith (p @ t) p"
  by (simp add: startsWith_def)

lemma endsWith_append: "endsWith (t @ q) q"
  by (simp add: endsWith_def startsWith_def)

lemma between_affixes_append: "between_affixes p q (p @ t @ q) = t"
  by (simp add: between_affixes_def)

text \<open>Whatever the id, the channel a service publishes on is routed to the room of that id: the
  driver's position to the delivery's room, an order's status to the order's room, a message to
  its conversation's room and a cancelled delivery to its driver's room.
\<close>

theorem channels_route_back:
  "onMessage (driverLocChannel i) = Some (''delivery:'' @ i, ''driver:location'') \<and>
   onMessage (orderStatusChannel i) = Some (''order:'' @ i, ''order:status'') \<and>
   onMessage (userDeliveryChannel i) = Some (''user:'' @ i, ''delivery:cancelled'') \<and>
   onMessage (conversationChannel i) = Some (''conv:'' @ i, ''message:new'')"
proof -
  have s: "startsWith (p @ i @ q) p" "endsWith (p @ i @ q) q" "between_affixes p q (p @ i @ q) = i" for p q
    using startsWith_append [of p "i @ q"] endsWith_append [of "p @ i" q] between_affixes_append [of p q i]
    by simp_all
  have no: "\<not> startsWith (''order:'' @ t) ''delivery:''" "\<not> startsWith (''user:'' @ t) ''delivery:''"
    "\<not> startsWith (''user:'' @ t) ''order:''" "\<not> startsWith (''conv:'' @ t) ''delivery:''"
    "\<not> startsWith (''conv:'' @ t) ''order:''" "\<not> startsWith (''conv:'' @ t) ''user:''" for t
    by (simp_all add: startsWith_def)
  show ?thesis
    unfolding onMessage_def driverLocChannel_def orderStatusChannel_def userDeliveryChannel_def
      conversationChannel_def by (simp only: s no simp_thms if_True if_False)
qed

subsection \<open>Who may listen\<close>

text \<open>The rooms an account may be in.\<close>

definition mayListen :: "db \<Rightarrow> id \<Rightarrow> string \<Rightarrow> bool" where
  "mayListen s me room \<longleftrightarrow>
     room = ''user:'' @ me \<or>
     (\<exists>ord. getOrder s (o_id ord) = Some ord \<and> o_buyerId ord = me \<and> room = ''order:'' @ o_id ord) \<or>
     (\<exists>d ord. d \<in> set (t_deliveries s) \<and> getOrder s (d_orderId d) = Some ord \<and> o_buyerId ord = me \<and>
        room = ''delivery:'' @ d_id d) \<or>
     (\<exists>cid p. getParticipant s cid me = Some p \<and> room = ''conv:'' @ cid)"

text \<open>
  Every room is one the account may be in; the account of the socket is the one its token names.
\<close>

definition socketOk :: "db \<Rightarrow> socket \<Rightarrow> bool" where
  "socketOk s k \<longleftrightarrow>
     (case sk_user k of
        None \<Rightarrow> sk_rooms k = [] \<and> sk_internalUserId k = None
      | Some user \<Rightarrow>
          (\<forall>me. sk_internalUserId k = Some me \<longrightarrow> map_option u_id (getUserBySupabase s (ju_id user)) = Some me) \<and>
          (\<forall>room \<in> set (sk_rooms k). \<exists>me. map_option u_id (getUserBySupabase s (ju_id user)) = Some me \<and>
             mayListen s me room))"

inductive socket_step :: "db \<Rightarrow> socket \<Rightarrow> socket \<Rightarrow> bool" for s where
  sk_subscribe: "onSubscribe oid did s k = (r, k') \<Longrightarrow> socket_step s k k'"
| sk_unsubscribe: "socket_step s k (onUnsubscribe did k)"
| sk_conv: "onConvSubscribe cid s k = (r, k') \<Longrightarrow> socket_step s k k'"
| sk_unconv: "socket_step s k (onConvUnsubscribe cid k)"

lemma socketOk_connection: "socketOk s (handleConnection verify a h s)"
  by (auto simp: handleConnection_def socketOk_def joinRoom_def mayListen_def Let_def
      split: sum.splits option.splits)

lemma socketOk_join:
  assumes "socketOk s k" and "sk_user k = Some user"
    and "map_option u_id (getUserBySupabase s (ju_id user)) = Some me" and "mayListen s me room"
  shows "socketOk s (joinRoom room k)"
  using assms by (auto simp: socketOk_def joinRoom_def)

lemma socketOk_leave: "socketOk s k \<Longrightarrow> socketOk s (leaveRoom room k)"
  by (auto simp: socketOk_def leaveRoom_def split: option.splits)

lemma subscriptionTarget_Inr:
  assumes "subscriptionTarget orderId deliveryId s = Inr (oid, did, buyerId)"
  shows "mayListen s buyerId (''order:'' @ oid) \<and> (\<forall>i. did = Some i \<longrightarrow> mayListen s buyerId (''delivery:'' @ i))"
proof (cases "truthy deliveryId")
  case True
  then obtain d ord where d: "getDelivery s (the deliveryId) = Some d" and o: "getOrder s (d_orderId d) = Some ord"
    and e: "oid = d_orderId d" "did = Some (d_id d)" "buyerId = o_buyerId ord"
    using assms by (auto simp: subscriptionTarget_def split: option.splits)
  have "d \<in> set (t_deliveries s)" using d by (auto simp: getDelivery_def dest: findRow_Some_set)
  moreover have "o_id ord = d_orderId d" using o by (auto simp: getOrder_def dest: findRow_Some_key)
  ultimately show ?thesis using o e unfolding mayListen_def by (metis option.sel)
next
  case False
  then obtain ord where o: "Option.bind orderId (getOrder s) = Some ord"
    and e: "oid = o_id ord" "did = map_option d_id (List.find (\<lambda>d. d_orderId d = o_id ord) (t_deliveries s))"
      "buyerId = o_buyerId ord"
    using assms by (auto simp: subscriptionTarget_def split: option.splits)
  have ord: "getOrder s (o_id ord) = Some ord"
    using o by (auto simp: bind_eq_Some_conv getOrder_def dest: findRow_Some_key)
  have "mayListen s buyerId (''delivery:'' @ i)" if some: "did = Some i" for i
  proof -
    obtain d where f: "List.find (\<lambda>d. d_orderId d = o_id ord) (t_deliveries s) = Some d" and "i = d_id d"
      using some e(2) by auto
    then have "d \<in> set (t_deliveries s)" "d_orderId d = o_id ord" by (auto elim: find_SomeE)
    then show ?thesis using ord e(3) \<open>i = d_id d\<close> unfolding mayListen_def by metis
  qed
  then show ?thesis using ord e(1,3) unfolding mayListen_def by blast
qed

lemma internalUser_ok:
  assumes "socketOk s k" and "sk_user k = Some user" and "internalUser k user s = Some me"
  shows "map_option u_id (getUserBySupabase s (ju_id user)) = Some me"
  using assms by (auto simp: internalUser_def socketOk_def split: if_splits)

lemma socketOk_subscribe:
  assumes k: "socketOk s k" and run: "onSubscribe orderId deliveryId s k = (r, k')"
  shows "socketOk s k'"
proof (cases "sk_user k")
  case None
  then show ?thesis using k run by (auto simp: onSubscribe_def fail_def)
next
  case (Some user)
  show ?thesis
  proof (cases "(\<not> truthy orderId \<and> \<not> truthy deliveryId) \<or> internalUser k user s = None")
    case True
    then show ?thesis using k run Some by (auto simp: onSubscribe_def fail_def split: option.splits if_splits)
  next
    case False
    then obtain me where me: "internalUser k user s = Some me" by auto
    have mine: "map_option u_id (getUserBySupabase s (ju_id user)) = Some me"
      using k Some me by (rule internalUser_ok)
    define k1 where "k1 = k\<lparr>sk_internalUserId := Some me\<rparr>"
    have k1: "socketOk s k1" "sk_user k1 = Some user"
      using k Some mine by (auto simp: socketOk_def k1_def)
    show ?thesis
    proof (cases "subscriptionTarget orderId deliveryId s")
      case (Inl e)
      then have "k' = k1" using run Some False me by (auto simp: onSubscribe_def Let_def fail_def k1_def)
      then show ?thesis using k1 by simp
    next
      case (Inr x)
      obtain oid did buyerId where x: "x = (oid, did, buyerId)" by (cases x)
      show ?thesis
      proof (cases "buyerId = me")
        case False
        then have "k' = k1"
          using run Some me Inr x \<open>\<not> ((\<not> truthy orderId \<and> \<not> truthy deliveryId) \<or> internalUser k user s = None)\<close>
          by (auto simp: onSubscribe_def Let_def fail_def k1_def)
        then show ?thesis using k1 by simp
      next
        case True
        then have k': "k' = (if truthy did then joinRoom (''delivery:'' @ the did) (joinRoom (''order:'' @ oid) k1)
            else joinRoom (''order:'' @ oid) k1)"
          using run Some me Inr x \<open>\<not> ((\<not> truthy orderId \<and> \<not> truthy deliveryId) \<or> internalUser k user s = None)\<close>
          by (auto simp: onSubscribe_def Let_def ok_def k1_def)
        have may: "mayListen s me (''order:'' @ oid)" "did = Some i \<Longrightarrow> mayListen s me (''delivery:'' @ i)" for i
          using subscriptionTarget_Inr [of orderId deliveryId s oid did buyerId] Inr x True by auto
        have j: "socketOk s (joinRoom (''order:'' @ oid) k1)"
          by (rule socketOk_join [OF k1 mine may(1)])
        have "socketOk s (joinRoom (''delivery:'' @ i) (joinRoom (''order:'' @ oid) k1))" if "did = Some i" for i
          by (rule socketOk_join [OF j _ mine may(2) [OF that]]) (simp add: joinRoom_def k1)
        then show ?thesis using j k' by (auto simp: truthy_def split: option.splits)
      qed
    qed
  qed
qed

lemma socketOk_conv:
  assumes k: "socketOk s k" and run: "onConvSubscribe cid s k = (r, k')"
  shows "socketOk s k'"
proof (cases "k' = k")
  case False
  then obtain user x where u: "sk_user k = Some user" "assertParticipant (ju_id user) (the cid) s = Inr x"
    "k' = joinRoom (''conv:'' @ the cid) k"
    using run by (auto simp: onConvSubscribe_def fail_def ok_def split: option.splits if_splits sum.splits)
  then obtain me p where "getUserBySupabase s (ju_id user) = Some me" "getParticipant s (the cid) (u_id me) = Some p"
    by (auto simp: assertParticipant_def split: option.splits)
  then show ?thesis
    unfolding u(3) by (intro socketOk_join [OF k u(1)]) (auto simp: mayListen_def)
qed (simp add: k)

lemma socket_step_ok: "socketOk s k \<Longrightarrow> socket_step s k k' \<Longrightarrow> socketOk s k'"
  by (erule socket_step.cases)
    (auto intro: socketOk_subscribe socketOk_conv socketOk_leave simp: onUnsubscribe_def onConvUnsubscribe_def)

interpretation sockets: inductive_invariant "socketOk s" "socket_step s" "socketOk s" for s
  by unfold_locales (auto intro: socket_step_ok)


abbreviation demo_jwt :: jwt_user where
  "demo_jwt \<equiv> \<lparr>ju_id = ''sb'', ju_email = None, ju_phone = None, ju_role = R_Buyer\<rparr>"

abbreviation own_order_db :: db where
  "own_order_db \<equiv> payout_db\<lparr>t_orders := [(demo_order ''o1'' O_Confirmed F_Delivery)\<lparr>o_buyerId := ''s''\<rparr>,
    demo_order ''o2'' O_Confirmed F_Delivery]\<rparr>"

abbreviation demo_socket :: socket where
  "demo_socket \<equiv> handleConnection (\<lambda>_. Inr demo_jwt) (Some ''t'') None own_order_db"

lemma demo_socket_runs:
  "sk_rooms (snd (onSubscribe (Some ''o1'') None own_order_db demo_socket)) = [''order:o1'', ''user:s'']"
  "fst (onSubscribe (Some ''o2'') None own_order_db demo_socket) = Inl WsForbidden"
  by code_simp+


text \<open>
  Leaving a delivery leaves the order's room behind: the socket still gets the status events of
  the order it has subscribed to with the same call.
\<close>

lemma unsubscribe_keeps_order_room:
  "''order:'' @ oid \<in> set (sk_rooms k) \<Longrightarrow> ''order:'' @ oid \<in> set (sk_rooms (onUnsubscribe did k))"
  by (auto simp: onUnsubscribe_def leaveRoom_def)

end
