(* ===== verification/Http.thy ===== *)
theory Http
  imports Tracking
begin

section \<open>What a client sees of an error\<close>

text \<open>
  The global filter \<open>src/common/filters/all-exceptions.filter.ts\<close> with the codes of
  \<open>src/common/constants/error-codes.constants.ts\<close> and the exception classes of
  \<open>src/common/exceptions\<close>: the status and the machine code of the answer to a request whose handler
  threw. The message, the path and the time of the envelope are not modelled. The handlers of
  the other theories throw the exceptions of \<^typ>\<open>exn\<close>.
\<close>

datatype error_code =
  EC_Unknown | EC_ValidationFailed | EC_Unauthorized | EC_Forbidden | EC_NotFound | EC_Conflict
  | EC_RateLimited | EC_IdempotencyConflict | EC_InvalidToken | EC_ExpiredToken
  | EC_EmailRequired | EC_PhoneAlreadyUsed | EC_ListingExpired | EC_ListingUnavailable
  | EC_InsufficientStock | EC_PriceCapExceeded | EC_OrderTransitionInvalid
  | EC_OrderAlreadyCancelled | EC_PaymentFailed | EC_InsufficientFunds
  | EC_WithdrawalBelowMinimum | EC_SellerNotVerified | EC_KycPending | EC_NoDriverAvailable
  | EC_DriverOffline | EC_PayoutOnboardingIncomplete | EC_PayoutSetupRequired

definition codeText :: "error_code \<Rightarrow> string" where
  "codeText c = (case c of
     EC_Unknown \<Rightarrow> ''INCACOOK_UNKNOWN''
   | EC_ValidationFailed \<Rightarrow> ''INCACOOK_VALIDATION_FAILED''
   | EC_Unauthorized \<Rightarrow> ''INCACOOK_UNAUTHORIZED''
   | EC_Forbidden \<Rightarrow> ''INCACOOK_FORBIDDEN''
   | EC_NotFound \<Rightarrow> ''INCACOOK_NOT_FOUND''
   | EC_Conflict \<Rightarrow> ''INCACOOK_CONFLICT''
   | EC_RateLimited \<Rightarrow> ''INCACOOK_RATE_LIMITED''
   | EC_IdempotencyConflict \<Rightarrow> ''INCACOOK_IDEMPOTENCY_CONFLICT''
   | EC_InvalidToken \<Rightarrow> ''INCACOOK_INVALID_TOKEN''
   | EC_ExpiredToken \<Rightarrow> ''INCACOOK_EXPIRED_TOKEN''
   | EC_EmailRequired \<Rightarrow> ''INCACOOK_EMAIL_REQUIRED''
   | EC_PhoneAlreadyUsed \<Rightarrow> ''INCACOOK_PHONE_ALREADY_USED''
   | EC_ListingExpired \<Rightarrow> ''INCACOOK_LISTING_EXPIRED''
   | EC_ListingUnavailable \<Rightarrow> ''INCACOOK_LISTING_UNAVAILABLE''
   | EC_InsufficientStock \<Rightarrow> ''INCACOOK_INSUFFICIENT_STOCK''
   | EC_PriceCapExceeded \<Rightarrow> ''INCACOOK_PRICE_CAP_EXCEEDED''
   | EC_OrderTransitionInvalid \<Rightarrow> ''INCACOOK_ORDER_TRANSITION_INVALID''
   | EC_OrderAlreadyCancelled \<Rightarrow> ''INCACOOK_ORDER_ALREADY_CANCELLED''
   | EC_PaymentFailed \<Rightarrow> ''INCACOOK_PAYMENT_FAILED''
   | EC_InsufficientFunds \<Rightarrow> ''INCACOOK_INSUFFICIENT_FUNDS''
   | EC_WithdrawalBelowMinimum \<Rightarrow> ''INCACOOK_WITHDRAWAL_BELOW_MINIMUM''
   | EC_SellerNotVerified \<Rightarrow> ''INCACOOK_SELLER_NOT_VERIFIED''
   | EC_KycPending \<Rightarrow> ''INCACOOK_KYC_PENDING''
   | EC_NoDriverAvailable \<Rightarrow> ''INCACOOK_NO_DRIVER_AVAILABLE''
   | EC_DriverOffline \<Rightarrow> ''INCACOOK_DRIVER_OFFLINE''
   | EC_PayoutOnboardingIncomplete \<Rightarrow> ''INCACOOK_PAYOUT_ONBOARDING_INCOMPLETE''
   | EC_PayoutSetupRequired \<Rightarrow> ''INCACOOK_PAYOUT_SETUP_REQUIRED'')"

text \<open>
  What a handler or a pipe can throw: an HTTP exception, a Zod error, an error of Prisma with a
  code, an error of Prisma's validation, anything else.
\<close>

datatype thrown = T_Http int | T_Domain int error_code | T_Zod | T_Prisma string | T_PrismaValidation | T_Other

text \<open>The class of an exception: the domain exceptions carry a code of their own.\<close>

fun thrownBy :: "exn \<Rightarrow> thrown" where
  "thrownBy (Forbidden (Account EmailRequired)) = T_Domain 403 EC_EmailRequired"
| "thrownBy (Conflict (Auth PhoneAlreadyUsed)) = T_Domain 409 EC_PhoneAlreadyUsed"
| "thrownBy (Forbidden (Pay PayoutSetupRequired)) = T_Domain 403 EC_PayoutSetupRequired"
| "thrownBy (BusinessRule r) = T_Domain 422 EC_PriceCapExceeded"
| "thrownBy (NotFound e) = T_Http 404"
| "thrownBy (BadRequest r) = T_Http 400"
| "thrownBy (Forbidden r) = T_Http 403"
| "thrownBy (Conflict r) = T_Http 409"
| "thrownBy (ServiceUnavailable r) = T_Http 503"
| "thrownBy (InternalError r) = T_Http 500"
| "thrownBy (Unauthorized r) = T_Http 401"
| "thrownBy (TooManyRequests r) = T_Http 429"
| "thrownBy PrismaValidation = T_PrismaValidation"
| "thrownBy PrismaConflict = T_Prisma ''P2002''"
| "thrownBy UncaughtError = T_Other"

definition codeForStatus :: "int \<Rightarrow> error_code" where
  "codeForStatus status =
    (if status = 401 then EC_Unauthorized
     else if status = 403 then EC_Forbidden
     else if status = 404 then EC_NotFound
     else if status = 409 then EC_Conflict
     else if status = 429 then EC_RateLimited
     else if status = 422 then EC_ValidationFailed
     else EC_Unknown)"

definition fromPrisma :: "string \<Rightarrow> int \<times> error_code" where
  "fromPrisma code =
    (if code = ''P2002'' then (409, EC_Conflict)
     else if code = ''P2025'' then (404, EC_NotFound)
     else if code = ''P2003'' then (400, EC_ValidationFailed)
     else if code = ''P2000'' then (400, EC_ValidationFailed)
     else if code = ''P2011'' then (400, EC_ValidationFailed)
     else (500, EC_Unknown))"

definition toPayload :: "thrown \<Rightarrow> int \<times> error_code" where
  "toPayload x = (case x of
     T_Domain status code \<Rightarrow> (status, code)
   | T_Http status \<Rightarrow> (status, codeForStatus status)
   | T_Zod \<Rightarrow> (400, EC_ValidationFailed)
   | T_Prisma code \<Rightarrow> fromPrisma code
   | T_PrismaValidation \<Rightarrow> (400, EC_ValidationFailed)
   | T_Other \<Rightarrow> (500, EC_Unknown))"

text \<open>A body the global \<open>ValidationPipe\<close> of \<open>src/main.ts\<close> refuses: its default error is a \<open>BadRequestException\<close>.\<close>

definition validationPipeError :: thrown where
  "validationPipeError = T_Http 400"

subsection \<open>The answers\<close>


text \<open>A number that a live account of somebody else holds is never texted: the request is
  answered with the status 409 and the code the app keys on, whatever Prelude would say, and
  nothing is sent; an upsert of such a number by the code confirmation ends the same way.
\<close>

theorem phone_in_use_never_texted:
  assumes "v \<in> set (t_users s)" and "u_phone v = Some phone" and "u_supabaseId v \<noteq> sid" and "u_deletedAt v = None"
  shows "\<exists>e. requestPhoneOtp sid phone a s = (Inl e, s) \<and> toPayload (thrownBy e) = (409, EC_PhoneAlreadyUsed) \<and>
    (preludeStatus CodeCheckFailed a = Inr ''success'' \<longrightarrow> verifyPhoneOtp sid phone a err s = (Inl e, s))"
proof -
  have "list_ex (\<lambda>u. u_phone u = Some phone \<and> u_supabaseId u \<noteq> sid \<and> u_deletedAt u = None) (t_users s)"
    using assms by (auto simp: list_ex_iff)
  then have "assertPhoneAvailable sid phone s = Some (Conflict (Auth PhoneAlreadyUsed))"
    by (simp add: assertPhoneAvailable_def)
  then show ?thesis
    by (intro exI [of _ "Conflict (Auth PhoneAlreadyUsed)"])
      (simp add: requestPhoneOtp_def verifyPhoneOtp_def toPayload_def fail_def)
qed

theorem phone_in_use_never_texted_witness:
  "\<exists>e. requestPhoneOtp ''new'' ''+336'' PR_NotReady (empty_db\<lparr>t_users := [demo_squatter]\<rparr>) =
     (Inl e, empty_db\<lparr>t_users := [demo_squatter]\<rparr>) \<and> toPayload (thrownBy e) = (409, EC_PhoneAlreadyUsed)"
  using phone_in_use_never_texted [of demo_squatter "empty_db\<lparr>t_users := [demo_squatter]\<rparr>" "''+336''" "''new''" PR_NotReady]
  by auto

end
