(* ===== verification/Devices.thy ===== *)
theory Devices
  imports Http
begin

section \<open>Device tokens and the delivery of pushes\<close>

text \<open>
  The table of push tokens (\<open>src/modules/notifications/device-tokens.service.ts\<close>) and how a push
  to accounts becomes pushes to devices (\<open>src/modules/notifications/notifications.service.ts\<close>).
  The table is a state of its own, which nothing else reads; the answer of Firebase for a token
  is an argument, \<open>None\<close> for a call that threw. Theory Notify holds which accounts an event
  notifies.
\<close>

record token_row =
  dt_id :: id
  dt_token :: string
  dt_platform :: string
  dt_userId :: id

record fcm_result =
  fr_delivered :: bool
  fr_invalidToken :: bool

subsection \<open>The table\<close>

definition tokenUserId :: "id \<Rightarrow> db \<Rightarrow> exn + id" where
  "tokenUserId supabaseId s =
    (case getUserBySupabase s supabaseId of None \<Rightarrow> Inl (NotFound UserProfile) | Some u \<Rightarrow> Inr (u_id u))"

definition upsertToken :: "env \<Rightarrow> id \<Rightarrow> string \<Rightarrow> string \<Rightarrow> token_row list \<Rightarrow> token_row list" where
  "upsertToken env userId token platform rows =
    (if list_ex (\<lambda>r. dt_token r = token) rows
     then updRow dt_token token (\<lambda>r. r\<lparr>dt_platform := platform, dt_userId := userId\<rparr>) rows
     else rows @ [\<lparr>dt_id = e_ulid env ForDevice, dt_token = token, dt_platform = platform, dt_userId = userId\<rparr>])"

definition registerToken :: "env \<Rightarrow> db \<Rightarrow> id \<Rightarrow> string \<Rightarrow> string \<Rightarrow> token_row list \<Rightarrow> (exn, unit, token_row list) result" where
  "registerToken env s supabaseId token platform rows =
    (case tokenUserId supabaseId s of
       Inl e \<Rightarrow> fail e rows
     | Inr userId \<Rightarrow> ok () (upsertToken env userId token platform rows))"

definition removeToken :: "db \<Rightarrow> id \<Rightarrow> string \<Rightarrow> token_row list \<Rightarrow> (exn, unit, token_row list) result" where
  "removeToken s supabaseId token rows =
    (case tokenUserId supabaseId s of
       Inl e \<Rightarrow> fail e rows
     | Inr userId \<Rightarrow> ok () (filter (\<lambda>r. \<not> (dt_token r = token \<and> dt_userId r = userId)) rows))"

definition listTokensForUser :: "id \<Rightarrow> token_row list \<Rightarrow> string list" where
  "listTokensForUser userId rows = map dt_token (filter (\<lambda>r. dt_userId r = userId) rows)"

definition tokensForUsers :: "id list \<Rightarrow> token_row list \<Rightarrow> token_row list" where
  "tokensForUsers userIds rows = (if userIds = [] then [] else filter (\<lambda>r. dt_userId r \<in> set userIds) rows)"

definition deleteByIds :: "id list \<Rightarrow> token_row list \<Rightarrow> nat \<times> token_row list" where
  "deleteByIds ids rows =
    (if ids = [] then (0, rows)
     else (length (filter (\<lambda>r. dt_id r \<in> set ids) rows), filter (\<lambda>r. dt_id r \<notin> set ids) rows))"

subsection \<open>Sending\<close>

record push_counts =
  pc_tokensFound :: nat
  pc_sent :: nat
  pc_failed :: nat
  pc_invalidRemoved :: nat

text \<open>The loop over the tokens: sent, failed and the ids Firebase calls invalid.\<close>

fun sendLoop :: "(string \<Rightarrow> fcm_result) \<Rightarrow> token_row list \<Rightarrow> nat \<times> nat \<times> id list \<Rightarrow> nat \<times> nat \<times> id list" where
  "sendLoop fcm [] acc = acc"
| "sendLoop fcm (r # rows) (sent, failed, invalid) =
    (if fr_delivered (fcm (dt_token r)) then sendLoop fcm rows (sent + 1, failed, invalid)
     else sendLoop fcm rows (sent, failed + 1,
       if fr_invalidToken (fcm (dt_token r)) then invalid @ [dt_id r] else invalid))"

definition pushToUsers :: "(string \<Rightarrow> fcm_result) \<Rightarrow> id list \<Rightarrow> token_row list \<Rightarrow> push_counts \<times> token_row list" where
  "pushToUsers fcm userIds rows =
    (let tokens = tokensForUsers userIds rows
     in if tokens = [] then (\<lparr>pc_tokensFound = 0, pc_sent = 0, pc_failed = 0, pc_invalidRemoved = 0\<rparr>, rows)
        else let (sent, failed, invalidIds) = sendLoop fcm tokens (0, 0, []);
                 (invalidRemoved, rows') = deleteByIds invalidIds rows
             in (\<lparr>pc_tokensFound = length tokens, pc_sent = sent, pc_failed = failed,
                   pc_invalidRemoved = invalidRemoved\<rparr>, rows'))"

text \<open>\<open>dispatch\<close> of an event: duplicates and empty ids are dropped; a call that throws ends it without pruning.\<close>

definition dispatchTokens :: "(string \<Rightarrow> fcm_result option) \<Rightarrow> id list \<Rightarrow> token_row list \<Rightarrow> token_row list" where
  "dispatchTokens fcm userIds rows =
    (let ids = uniq (filter (\<lambda>i. i \<noteq> []) userIds)
     in if ids = [] then rows
        else let tokens = tokensForUsers ids rows
        in if list_ex (\<lambda>r. fcm (dt_token r) = None) tokens then rows
           else snd (deleteByIds (map dt_id (filter (\<lambda>r. case fcm (dt_token r) of
                Some a \<Rightarrow> \<not> fr_delivered a \<and> fr_invalidToken a | None \<Rightarrow> False) tokens)) rows))"

text \<open>The developer's test push: one message per token when Firebase is configured.\<close>

definition sendTestToUser :: "db \<Rightarrow> bool \<Rightarrow> id \<Rightarrow> token_row list \<Rightarrow> exn + (bool \<times> nat \<times> nat)" where
  "sendTestToUser s fcmReady supabaseId rows =
    (case tokenUserId supabaseId s of
       Inl e \<Rightarrow> Inl e
     | Inr userId \<Rightarrow> let n = length (listTokensForUser userId rows)
         in Inr (fcmReady, n, if fcmReady then n else 0))"

subsection \<open>Properties\<close>

text \<open>A token is on one row, and a row has an id of its own.\<close>

definition tokensOk :: "token_row list \<Rightarrow> bool" where
  "tokensOk rows \<longleftrightarrow> distinct (map dt_token rows) \<and> distinct (map dt_id rows)"

lemma tokensOk_filter: "tokensOk rows \<Longrightarrow> tokensOk (filter p rows)"
  by (simp add: tokensOk_def distinct_map_filter)

lemma tokensOk_upsert:
  assumes "tokensOk rows" and "e_ulid env ForDevice \<notin> dt_id ` set rows"
  shows "tokensOk (upsertToken env userId token platform rows)"
  using assms by (auto simp: tokensOk_def upsertToken_def map_key_updRow list_ex_iff)

inductive token_step :: "db \<Rightarrow> token_row list \<Rightarrow> token_row list \<Rightarrow> bool" for s where
  tk_register: "e_ulid env ForDevice \<notin> dt_id ` set rows \<Longrightarrow>
     registerToken env s sid token platform rows = (r, rows') \<Longrightarrow> token_step s rows rows'"
| tk_remove: "removeToken s sid token rows = (r, rows') \<Longrightarrow> token_step s rows rows'"
| tk_push: "pushToUsers fcm ids rows = (c, rows') \<Longrightarrow> token_step s rows rows'"
| tk_dispatch: "token_step s rows (dispatchTokens fcm' ids rows)"

lemma snd_deleteByIds: "snd (deleteByIds ids rows) = filter (\<lambda>r. dt_id r \<notin> set ids) rows"
  by (simp add: deleteByIds_def)

lemma snd_pushToUsers: "\<exists>ids. snd (pushToUsers fcm userIds rows) = filter (\<lambda>r. dt_id r \<notin> set ids) rows"
proof (cases "tokensForUsers userIds rows = []")
  case True
  then show ?thesis by (intro exI [of _ "[]"]) (simp add: pushToUsers_def)
next
  case False
  obtain sent failed invalid where "sendLoop fcm (tokensForUsers userIds rows) (0, 0, []) = (sent, failed, invalid)"
    by (metis prod_cases3)
  moreover obtain n left where "deleteByIds invalid rows = (n, left)" by (cases "deleteByIds invalid rows")
  ultimately show ?thesis
    using False snd_deleteByIds [of invalid rows]
    by (intro exI [of _ invalid]) (simp add: pushToUsers_def Let_def)
qed

lemma token_step_ok: "tokensOk rows \<Longrightarrow> token_step s rows rows' \<Longrightarrow> tokensOk rows'"
proof (erule token_step.cases, goal_cases)
  case (1 env rows sid token platform r rows')
  then show ?case
    by (auto simp: registerToken_def ok_def fail_def intro: tokensOk_upsert split: sum.splits)
next
  case (2 sid token rows r rows')
  then show ?case by (auto simp: removeToken_def ok_def fail_def intro: tokensOk_filter split: sum.splits)
next
  case (3 fcm ids rows c rows')
  then show ?case using snd_pushToUsers [of fcm ids rows] by (auto intro: tokensOk_filter)
next
  case (4 rows fcm' ids)
  then show ?case by (auto simp: dispatchTokens_def Let_def snd_deleteByIds intro: tokensOk_filter)
qed

interpretation tokens: inductive_invariant tokensOk "token_step s" tokensOk for s
  by unfold_locales (auto intro: token_step_ok)

lemma sendLoop_eq:
  "sendLoop fcm rows (a, b, c) =
    (a + length (filter (\<lambda>r. fr_delivered (fcm (dt_token r))) rows),
     b + length (filter (\<lambda>r. \<not> fr_delivered (fcm (dt_token r))) rows),
     c @ map dt_id (filter (\<lambda>r. \<not> fr_delivered (fcm (dt_token r)) \<and> fr_invalidToken (fcm (dt_token r))) rows))"
  by (induction rows arbitrary: a b c) auto

lemma pushToUsers_eq:
  assumes "tokensForUsers ids rows = tok"
    and "map dt_id (filter (\<lambda>r. \<not> fr_delivered (fcm (dt_token r)) \<and> fr_invalidToken (fcm (dt_token r))) tok) = gone"
  shows "pushToUsers fcm ids rows =
    (\<lparr>pc_tokensFound = length tok, pc_sent = length (filter (\<lambda>r. fr_delivered (fcm (dt_token r))) tok),
      pc_failed = length (filter (\<lambda>r. \<not> fr_delivered (fcm (dt_token r))) tok),
      pc_invalidRemoved = length (filter (\<lambda>r. dt_id r \<in> set gone) rows)\<rparr>,
     filter (\<lambda>r. dt_id r \<notin> set gone) rows)"
proof (cases "tok = []")
  case True
  then have "gone = []" using assms(2) by simp
  with True assms(1) show ?thesis by (simp add: pushToUsers_def)
next
  case False
  then show ?thesis
    by (cases "gone = []") (simp_all add: pushToUsers_def assms Let_def sendLoop_eq deleteByIds_def)
qed

text \<open>The two halves: registering a token, and pruning the tokens a push found dead.\<close>

lemma moved_token:
  "map dt_userId (filter (\<lambda>r. dt_token r = token) (updRow dt_token token
     (\<lambda>r. r\<lparr>dt_platform := platform, dt_userId := v\<rparr>) rows)) = map (\<lambda>_. v) (filter (\<lambda>r. dt_token r = token) rows)"
  "filter (\<lambda>r. dt_token r \<noteq> token) (updRow dt_token token
     (\<lambda>r. r\<lparr>dt_platform := platform, dt_userId := v\<rparr>) rows) = filter (\<lambda>r. dt_token r \<noteq> token) rows"
  by (induction rows) (simp_all add: updRow_def)

lemma one_row:
  assumes "distinct (map dt_token rows)" and "list_ex (\<lambda>r. dt_token r = token) rows"
  shows "length (filter (\<lambda>r. dt_token r = token) rows) = 1"
  using assms
proof (induction rows)
  case (Cons q qs)
  have "filter (\<lambda>r. dt_token r = token) qs = []" if "dt_token q = token"
    using Cons.prems(1) that by (auto simp: filter_empty_conv rev_image_eqI)
  with Cons show ?case by auto
qed simp

lemma upsertToken_moves:
  assumes "tokensOk rows"
  shows "map dt_userId (filter (\<lambda>r. dt_token r = token) (upsertToken env u token platform rows)) = [u]"
    and "filter (\<lambda>r. dt_token r \<noteq> token) (upsertToken env u token platform rows) =
      filter (\<lambda>r. dt_token r \<noteq> token) rows"
proof -
  show "map dt_userId (filter (\<lambda>r. dt_token r = token) (upsertToken env u token platform rows)) = [u]"
  proof (cases "list_ex (\<lambda>r. dt_token r = token) rows")
    case True
    then have "length (filter (\<lambda>r. dt_token r = token) rows) = 1"
      using assms by (intro one_row) (simp_all add: tokensOk_def)
    then obtain q where "filter (\<lambda>r. dt_token r = token) rows = [q]"
      by (cases "filter (\<lambda>r. dt_token r = token) rows") auto
    then show ?thesis using True by (simp add: upsertToken_def moved_token)
  next
    case False
    then have "filter (\<lambda>r. dt_token r = token) rows = []" by (auto simp: filter_empty_conv list_ex_iff)
    then show ?thesis using False by (simp add: upsertToken_def)
  qed
  show "filter (\<lambda>r. dt_token r \<noteq> token) (upsertToken env u token platform rows) =
      filter (\<lambda>r. dt_token r \<noteq> token) rows"
    by (simp add: upsertToken_def moved_token)
qed

lemma registerToken_user:
  assumes "registerToken env s sid token platform rows = (Inr (), rows')"
  obtains u where "getUserBySupabase s sid = Some u" and "rows' = upsertToken env (u_id u) token platform rows"
  using assms by (auto simp: registerToken_def tokenUserId_def split: option.splits)

text \<open>Ids are unique, so deleting by the ids of the dead rows deletes the dead rows.\<close>

lemma push_prunes_invalid:
  assumes "tokensOk rows" and "pushToUsers fcm ids rows = (c, pruned)"
  shows "pc_tokensFound c = countWhere (\<lambda>r. dt_userId r \<in> set ids) rows"
    and "pc_sent c + pc_failed c = pc_tokensFound c"
    and "pruned = filter (\<lambda>r. \<not> (dt_userId r \<in> set ids \<and> \<not> fr_delivered (fcm (dt_token r)) \<and>
      fr_invalidToken (fcm (dt_token r)))) rows"
    and "pc_invalidRemoved c + length pruned = length rows"
proof -
  let ?tok = "filter (\<lambda>r. dt_userId r \<in> set ids) rows"
  let ?bad = "\<lambda>r. \<not> fr_delivered (fcm (dt_token r)) \<and> fr_invalidToken (fcm (dt_token r))"
  have tok: "tokensForUsers ids rows = ?tok" by (auto simp: tokensForUsers_def)
  define gone where "gone = map dt_id (filter ?bad ?tok)"
  have c: "c = \<lparr>pc_tokensFound = length ?tok, pc_sent = length (filter (\<lambda>r. fr_delivered (fcm (dt_token r))) ?tok),
      pc_failed = length (filter (\<lambda>r. \<not> fr_delivered (fcm (dt_token r))) ?tok),
      pc_invalidRemoved = length (filter (\<lambda>r. dt_id r \<in> set gone) rows)\<rparr>"
    and p: "pruned = filter (\<lambda>r. dt_id r \<notin> set gone) rows"
    using assms(2) unfolding pushToUsers_eq [OF tok gone_def [symmetric]] by simp_all
  have mem: "dt_id r \<in> set gone \<longleftrightarrow> dt_userId r \<in> set ids \<and> ?bad r" if r: "r \<in> set rows" for r
  proof
    assume "dt_id r \<in> set gone"
    then obtain q where q: "q \<in> set rows" "dt_userId q \<in> set ids" "?bad q" "dt_id q = dt_id r"
      by (auto simp: gone_def)
    have "q = r" using assms(1) r q(1,4) by (simp add: tokensOk_def distinct_map inj_on_def)
    then show "dt_userId r \<in> set ids \<and> ?bad r" using q by blast
  next
    assume "dt_userId r \<in> set ids \<and> ?bad r"
    then show "dt_id r \<in> set gone" using r by (auto simp: gone_def)
  qed
  show "pc_tokensFound c = countWhere (\<lambda>r. dt_userId r \<in> set ids) rows" by (simp add: c countWhere_def)
  show "pc_sent c + pc_failed c = pc_tokensFound c"
    unfolding c push_counts.simps by (rule sum_length_filter_compl)
  show "pruned = filter (\<lambda>r. \<not> (dt_userId r \<in> set ids \<and> \<not> fr_delivered (fcm (dt_token r)) \<and>
      fr_invalidToken (fcm (dt_token r)))) rows"
    unfolding p by (rule filter_cong) (auto simp: mem)
  show "pc_invalidRemoved c + length pruned = length rows"
    by (simp add: c p sum_length_filter_compl)
qed

text \<open>C27: In any history of the table a token stays on one device row; registering it moves it to the
  caller, whoever had it before, and touches no other token; and a push to accounts counts each
  of their tokens once, as sent or as failed, and removes exactly the rows of these accounts
  that Firebase refused as invalid.
\<close>

theorem tokens_follow_device:
  assumes "tokensOk rows0" and "(token_step s)\<^sup>*\<^sup>* rows0 rows"
  shows "(registerToken env s sid token platform rows = (Inr (), rows') \<longrightarrow>
      (\<exists>u. getUserBySupabase s sid = Some u \<and>
        map dt_userId (filter (\<lambda>r. dt_token r = token) rows') = [u_id u]) \<and>
        filter (\<lambda>r. dt_token r \<noteq> token) rows' = filter (\<lambda>r. dt_token r \<noteq> token) rows) \<and>
    (pushToUsers fcm ids rows = (c, pruned) \<longrightarrow>
      pc_tokensFound c = countWhere (\<lambda>r. dt_userId r \<in> set ids) rows \<and>
      pc_sent c + pc_failed c = pc_tokensFound c \<and>
      pruned = filter (\<lambda>r. \<not> (dt_userId r \<in> set ids \<and> \<not> fr_delivered (fcm (dt_token r)) \<and>
        fr_invalidToken (fcm (dt_token r)))) rows \<and>
      pc_invalidRemoved c + length pruned = length rows)"
proof -
  have rows: "tokensOk rows" using assms by (rule tokens.run_inv)
  have "(\<exists>u. getUserBySupabase s sid = Some u \<and> map dt_userId (filter (\<lambda>r. dt_token r = token) rows') = [u_id u]) \<and>
      filter (\<lambda>r. dt_token r \<noteq> token) rows' = filter (\<lambda>r. dt_token r \<noteq> token) rows"
    if "registerToken env s sid token platform rows = (Inr (), rows')"
    using that by (rule registerToken_user) (simp add: upsertToken_moves [OF rows])
  then show ?thesis using push_prunes_invalid [OF rows] by blast
qed

abbreviation demo_tokens :: "token_row list" where
  "demo_tokens \<equiv> [\<lparr>dt_id = ''t1'', dt_token = ''aa'', dt_platform = ''IOS'', dt_userId = ''s''\<rparr>,
    \<lparr>dt_id = ''t2'', dt_token = ''bb'', dt_platform = ''ANDROID'', dt_userId = ''x''\<rparr>]"

theorem tokens_follow_device_witness:
  "\<exists>rows'. registerToken demo_env payout_db ''sb'' ''bb'' ''ANDROID'' demo_tokens = (Inr (), rows') \<and>
    map dt_userId (filter (\<lambda>r. dt_token r = ''bb'') rows') = [''s'']"
proof -
  have ok: "tokensOk demo_tokens" by (simp add: tokensOk_def)
  have u: "getUserBySupabase payout_db ''sb'' = Some (demo_user ''s'' ''sb'' R_Seller)"
    by (simp add: getUserBySupabase_def payout_db_def)
  have "\<exists>rows'. registerToken demo_env payout_db ''sb'' ''bb'' ''ANDROID'' demo_tokens = (Inr (), rows')"
    by (simp add: registerToken_def tokenUserId_def u ok_def)
  then obtain rows' where run: "registerToken demo_env payout_db ''sb'' ''bb'' ''ANDROID'' demo_tokens = (Inr (), rows')"
    by blast
  have "\<exists>v. getUserBySupabase payout_db ''sb'' = Some v \<and>
      map dt_userId (filter (\<lambda>r. dt_token r = ''bb'') rows') = [u_id v]"
    using tokens_follow_device [OF ok rtranclp.rtrancl_refl, where s = payout_db and env = demo_env and sid = "''sb''" and
      token = "''bb''" and platform = "''ANDROID''" and rows' = rows'] run
    by blast
  with run u show ?thesis by auto
qed

end
