(* ===== verification/Access.thy ===== *)
theory Access
  imports Devices Orders_Disputes Catalog
begin

section \<open>Who reaches a handler\<close>

text \<open>
  The guards \<open>src/common/guards/jwt-auth.guard.ts\<close> and \<open>src/common/guards/roles.guard.ts\<close>, and the
  state-changing requests of the administration: the controllers under \<open>src/modules/admin\<close>,
  \<open>src/modules/moderation/admin-reports.controller.ts\<close>,
  \<open>src/modules/compliance/legal-documents/admin-legal-documents.controller.ts\<close> and
  \<open>src/modules/catalog/admin-catalog*.controller.ts\<close>, with the roles they declare and the service
  method they call. A request is answered through the filter of theory Http.
\<close>

subsection \<open>The guards\<close>

text \<open>
  Whatever the verification objects to is a 401; a public route is entered without looking at
  the header, so without a user.
\<close>

definition jwtGuard :: "bool \<Rightarrow> (string \<Rightarrow> exn + jwt_user) \<Rightarrow> string option \<Rightarrow> exn + jwt_user option" where
  "jwtGuard isPublic verify bearer =
    (if isPublic then Inr None
     else case bearer of
         None \<Rightarrow> Inl (Unauthorized (Auth TokenInvalid))
       | Some t \<Rightarrow> (case verify t of Inl _ \<Rightarrow> Inl (Unauthorized (Auth TokenInvalid)) | Inr u \<Rightarrow> Inr (Some u)))"

definition roleText :: "user_role \<Rightarrow> string" where
  "roleText r = (case r of R_Buyer \<Rightarrow> ''BUYER'' | R_Seller \<Rightarrow> ''SELLER'' | R_Driver \<Rightarrow> ''DRIVER''
     | R_Admin \<Rightarrow> ''ADMIN'' | R_Moderator \<Rightarrow> ''MODERATOR'')"

fun joinComma :: "string list \<Rightarrow> string" where
  "joinComma [] = []"
| "joinComma [t] = t"
| "joinComma (t # ts) = t @ '', '' @ joinComma ts"

definition rolesGuard :: "user_role list \<Rightarrow> jwt_user option \<Rightarrow> db \<Rightarrow> exn + jwt_user option" where
  "rolesGuard required user s =
    (if required = [] then Inr user
     else case user of None \<Rightarrow> Inl (Forbidden (Auth (AuthMessage ''Authentication required''))) | Some u \<Rightarrow>
     case getUserBySupabase s (ju_id u) of None \<Rightarrow> Inl (Forbidden (Auth (AuthMessage ''User not found''))) | Some dbUser \<Rightarrow>
     if u_role dbUser \<notin> set required
     then Inl (Forbidden (Auth (AuthMessage (''Requires role: '' @ joinComma (map roleText required)))))
     else Inr (Some (u\<lparr>ju_role := u_role dbUser\<rparr>)))"

text \<open>A request through both guards, with the answer of the filter when anything throws.\<close>

definition serve :: "user_role list \<Rightarrow> bool \<Rightarrow> (string \<Rightarrow> exn + jwt_user) \<Rightarrow> string option \<Rightarrow>
    (jwt_user option \<Rightarrow> db \<Rightarrow> (exn, 'a, db) result) \<Rightarrow> db \<Rightarrow> (int \<times> error_code, 'a, db) result" where
  "serve required isPublic verify bearer handler s =
    (case jwtGuard isPublic verify bearer of
       Inl e \<Rightarrow> fail (toPayload (thrownBy e)) s
     | Inr user \<Rightarrow> (case rolesGuard required user s of
          Inl e \<Rightarrow> fail (toPayload (thrownBy e)) s
        | Inr user' \<Rightarrow> (case handler user' s of
            (Inl e, t) \<Rightarrow> fail (toPayload (thrownBy e)) t | (Inr a, t) \<Rightarrow> ok a t)))"

subsection \<open>The requests of the administration\<close>

datatype dispute_action =
  ApproveRefund id "string option" | RejectDispute id "string option" | ResolveDispute id "string option"
  | ConfirmAllergen id "string option" | ConfirmChargebackFraud id "string option"

definition disputeRoles :: "user_role list" where "disputeRoles = [R_Admin, R_Moderator]"

text \<open>A handler for its effect: the body of its answer is dropped.\<close>

definition effect_of :: "(exn, 'a, db) result \<Rightarrow> (exn, unit, db) result" where
  "effect_of r = bindR r (\<lambda>_ t. ok () t)"

definition disputeHandler :: "env \<Rightarrow> dispute_action \<Rightarrow> db \<Rightarrow> (exn, unit, db) result" where
  "disputeHandler env q s = effect_of (case q of
     ApproveRefund i notes \<Rightarrow> adminApproveRefund env i notes s
   | RejectDispute i notes \<Rightarrow> adminRejectDispute env i notes s
   | ResolveDispute i notes \<Rightarrow> adminResolveDispute env i notes s
   | ConfirmAllergen i notes \<Rightarrow> adminConfirmAllergenViolation env i notes s
   | ConfirmChargebackFraud i notes \<Rightarrow> adminConfirmFraudulentChargeback env i notes s)"

record add_strike_dto =
  as_role :: actor_role
  as_points :: int
  as_reason :: string
  as_severity :: strike_severity
  as_sourceType :: strike_source
  as_sourceId :: "id option"
  as_orderId :: "id option"
  as_deliveryId :: "id option"
  as_notes :: "string option"

datatype strike_request = AddStrike id add_strike_dto | SuspendUser id string | UnsuspendUser id

definition strikeRoles :: "user_role list" where "strikeRoles = [R_Admin, R_Moderator]"

definition manualStrike :: "id \<Rightarrow> id \<Rightarrow> add_strike_dto \<Rightarrow> strike_input" where
  "manualStrike adminId userId dto =
    \<lparr>si_userId = userId, si_role = as_role dto, si_points = as_points dto, si_reason = as_reason dto,
     si_severity = as_severity dto, si_sourceType = as_sourceType dto, si_sourceId = as_sourceId dto,
     si_orderId = as_orderId dto, si_deliveryId = as_deliveryId dto, si_notes = as_notes dto,
     si_createdBy = Some adminId\<rparr>"

text \<open>The update of a missing user is Prisma's \<open>P2025\<close>, which is answered like a missing entity.\<close>

definition strikeHandler :: "env \<Rightarrow> id \<Rightarrow> strike_request \<Rightarrow> db \<Rightarrow> (exn, unit, db) result" where
  "strikeHandler env adminId q s = (case q of
     AddStrike userId dto \<Rightarrow> ok () (snd (addStrike env (manualStrike adminId userId dto) s))
   | SuspendUser userId reason \<Rightarrow> ok () (suspendUser (e_now env) userId reason s)
   | UnsuspendUser userId \<Rightarrow>
       if getUser s userId = None then fail (NotFound AnyUser) s else ok () (unsuspendUser userId s))"

datatype kyc_request = ApproveDocument id | RejectDocument id string

definition kycRoles :: "user_role list" where "kycRoles = [R_Admin, R_Moderator]"

definition kycHandler :: "env \<Rightarrow> id \<Rightarrow> kyc_request \<Rightarrow> db \<Rightarrow> (exn, unit, db) result" where
  "kycHandler env adminId q s = effect_of (case q of
     ApproveDocument i \<Rightarrow> kycApprove env i adminId s
   | RejectDocument i why \<Rightarrow> kycReject env i adminId why s)"

datatype broadcast_request = SendBroadcast notification_target "seller_category option" "string option"

definition broadcastRoles :: "user_role list" where "broadcastRoles = [R_Admin]"

definition broadcastHandler :: "env \<Rightarrow> broadcast_request \<Rightarrow> db \<Rightarrow> (exn, unit, db) result" where
  "broadcastHandler env q s = effect_of (case q of
     SendBroadcast target category city \<Rightarrow> sendAdminNotification (e_now env) target category city s)"

datatype report_request = UpdateReport id report_status "string option"

definition reportRoles :: "user_role list" where "reportRoles = [R_Admin, R_Moderator]"

definition reportHandler :: "id \<Rightarrow> report_request \<Rightarrow> db \<Rightarrow> (exn, unit, db) result" where
  "reportHandler adminId q s = effect_of (case q of
     UpdateReport i status adminNote \<Rightarrow> updateReportStatus i status adminNote adminId s)"

datatype legal_request =
  CreateDocument charter_kind string string string | UpdateDocument id update_legal_dto | PublishDocument id

definition legalRoles :: "user_role list" where "legalRoles = [R_Admin, R_Moderator]"

definition legalHandler :: "env \<Rightarrow> id \<Rightarrow> legal_request \<Rightarrow> db \<Rightarrow> (exn, unit, db) result" where
  "legalHandler env adminId q s = effect_of (case q of
     CreateDocument kind version title content \<Rightarrow> createLegal env kind version title content adminId s
   | UpdateDocument i dto \<Rightarrow> updateLegal i dto adminId s
   | PublishDocument i \<Rightarrow> publishLegal env i adminId s)"

datatype product_request = CreateProduct create_product_dto | UpdateProduct id update_product_dto | RemoveProduct id

definition productRoles :: "user_role list" where "productRoles = [R_Admin, R_Moderator]"

definition productHandler :: "env \<Rightarrow> id \<Rightarrow> product_request \<Rightarrow> db \<Rightarrow> (exn, unit, db) result" where
  "productHandler env adminId q s = (case q of
     CreateProduct dto \<Rightarrow> effect_of (createProduct env adminId dto s)
   | UpdateProduct i dto \<Rightarrow> effect_of (updateProduct i dto s)
   | RemoveProduct i \<Rightarrow> removeProduct env i s)"

datatype claim_request =
  RefundClaim id claim_refund_dto | RequestReplacement id claim_action_dto
  | RejectClaim id claim_action_dto | ResolveClaim id claim_action_dto

definition claimRoles :: "user_role list" where "claimRoles = [R_Admin, R_Moderator]"

definition claimHandler :: "env \<Rightarrow> claim_request \<Rightarrow> db \<Rightarrow> (exn, unit, db) result" where
  "claimHandler env q s = effect_of (case q of
     RefundClaim i dto \<Rightarrow> adminRefund env i dto s
   | RequestReplacement i dto \<Rightarrow> adminRequestReplacement i dto s
   | RejectClaim i dto \<Rightarrow> adminReject env i dto s
   | ResolveClaim i dto \<Rightarrow> adminResolve env i dto s)"

text \<open>Every state-changing request of the administration, with the caller's identity as reviewer.\<close>

datatype admin_request =
  DisputeRequest dispute_action | StrikeRequest strike_request | KycRequest kyc_request
  | BroadcastRequest broadcast_request | ReportRequest report_request | LegalRequest legal_request
  | ProductRequest product_request | ClaimRequest claim_request

definition adminRoles :: "admin_request \<Rightarrow> user_role list" where
  "adminRoles q = (case q of
     DisputeRequest _ \<Rightarrow> disputeRoles | StrikeRequest _ \<Rightarrow> strikeRoles | KycRequest _ \<Rightarrow> kycRoles
   | BroadcastRequest _ \<Rightarrow> broadcastRoles | ReportRequest _ \<Rightarrow> reportRoles | LegalRequest _ \<Rightarrow> legalRoles
   | ProductRequest _ \<Rightarrow> productRoles | ClaimRequest _ \<Rightarrow> claimRoles)"

definition adminHandler :: "env \<Rightarrow> id \<Rightarrow> admin_request \<Rightarrow> db \<Rightarrow> (exn, unit, db) result" where
  "adminHandler env adminId q s = (case q of
     DisputeRequest r \<Rightarrow> disputeHandler env r s
   | StrikeRequest r \<Rightarrow> strikeHandler env adminId r s
   | KycRequest r \<Rightarrow> kycHandler env adminId r s
   | BroadcastRequest r \<Rightarrow> broadcastHandler env r s
   | ReportRequest r \<Rightarrow> reportHandler adminId r s
   | LegalRequest r \<Rightarrow> legalHandler env adminId r s
   | ProductRequest r \<Rightarrow> productHandler env adminId r s
   | ClaimRequest r \<Rightarrow> claimHandler env r s)"

definition adminServe :: "env \<Rightarrow> (string \<Rightarrow> exn + jwt_user) \<Rightarrow> string option \<Rightarrow> admin_request \<Rightarrow> db
    \<Rightarrow> (int \<times> error_code, unit, db) result" where
  "adminServe env verify bearer q s = serve (adminRoles q) False verify bearer
     (\<lambda>user t. adminHandler env (case user of None \<Rightarrow> [] | Some u \<Rightarrow> ju_id u) q t) s"

subsection \<open>Only staff gets in\<close>

text \<open>The caller a bearer token stands for, and a handler's result as the client sees it.\<close>

definition caller :: "(string \<Rightarrow> exn + jwt_user) \<Rightarrow> string option \<Rightarrow> jwt_user option" where
  "caller verify bearer = (case bearer of None \<Rightarrow> None
     | Some t \<Rightarrow> (case verify t of Inl _ \<Rightarrow> None | Inr u \<Rightarrow> Some u))"

definition answered :: "(exn, 'a, db) result \<Rightarrow> (int \<times> error_code, 'a, db) result" where
  "answered r = (map_sum (\<lambda>e. toPayload (thrownBy e)) id (fst r), snd r)"

definition roleInDb :: "db \<Rightarrow> jwt_user \<Rightarrow> user_role option" where
  "roleInDb s j = map_option u_role (getUserBySupabase s (ju_id j))"

lemma guard_payloads:
  "toPayload (T_Http 401) = (401, EC_Unauthorized)" "toPayload (T_Http 403) = (403, EC_Forbidden)"
  by (simp_all add: toPayload_def codeForStatus_def)

lemma answer_of:
  "(case r of (Inl e, t) \<Rightarrow> fail (toPayload (thrownBy e)) t | (Inr a, t) \<Rightarrow> ok a t) = answered r"
  by (cases r; cases "fst r") (auto simp: answered_def fail_def ok_def)

lemma serve_closed:
  assumes "required \<noteq> []"
  shows "serve required False verify bearer h s =
    (case caller verify bearer of
       None \<Rightarrow> fail (401, EC_Unauthorized) s
     | Some j \<Rightarrow> (case roleInDb s j of
         None \<Rightarrow> fail (403, EC_Forbidden) s
       | Some r \<Rightarrow> if r \<in> set required then answered (h (Some (j\<lparr>ju_role := r\<rparr>)) s)
                   else fail (403, EC_Forbidden) s))"
proof (cases "caller verify bearer")
  case None
  then have "jwtGuard False verify bearer = Inl (Unauthorized (Auth TokenInvalid))"
    by (auto simp: caller_def jwtGuard_def split: option.splits sum.splits)
  then show ?thesis by (simp add: serve_def None guard_payloads)
next
  case (Some j)
  then have "jwtGuard False verify bearer = Inr (Some j)"
    by (auto simp: caller_def jwtGuard_def split: option.splits sum.splits)
  then show ?thesis
    by (cases "getUserBySupabase s (ju_id j)")
      (simp_all add: serve_def Some assms rolesGuard_def roleInDb_def guard_payloads answer_of)
qed


text \<open>The guards look at the role alone: a moderator whose account is suspended, or deleted, can
  still call the administration, and lift the own suspension.
\<close>

theorem suspended_moderator_lifts_suspension:
  assumes "verify t = Inr j" and "getUserBySupabase s (ju_id j) = Some u" and "getUser s (u_id u) = Some u"
    and "u_role u = R_Moderator" and "u_isSuspended u"
  shows "adminServe env verify (Some t) (StrikeRequest (UnsuspendUser (u_id u))) s = (Inr (), unsuspendUser (u_id u) s) \<and>
    getUser (unsuspendUser (u_id u) s) (u_id u) =
      Some (u\<lparr>u_isSuspended := False, u_suspendedAt := None, u_suspensionReason := None\<rparr>)"
  using assms by (simp add: adminServe_def serve_closed adminRoles_def strikeRoles_def caller_def roleInDb_def
      answered_def adminHandler_def strikeHandler_def ok_def unsuspendUser_def usr.get_put)

abbreviation demo_moderator :: user_row where
  "demo_moderator \<equiv> (demo_user ''m'' ''mb'' R_Moderator)\<lparr>u_isSuspended := True, u_deletedAt := Some 1\<rparr>"

theorem suspended_moderator_lifts_suspension_witness:
  "let s = empty_db\<lparr>t_users := [demo_moderator]\<rparr>;
       verify = (\<lambda>_. Inr \<lparr>ju_id = ''mb'', ju_email = None, ju_phone = None, ju_role = R_Buyer\<rparr>)
   in map_option u_isSuspended (getUser (snd (adminServe demo_env verify (Some ''t'')
        (StrikeRequest (UnsuspendUser ''m'')) s)) ''m'') = Some False"
proof -
  let ?s = "empty_db\<lparr>t_users := [demo_moderator]\<rparr>"
  let ?verify = "\<lambda>_. Inr \<lparr>ju_id = ''mb'', ju_email = None, ju_phone = None, ju_role = R_Buyer\<rparr> :: exn + jwt_user"
  have "getUserBySupabase ?s ''mb'' = Some demo_moderator" "getUser ?s ''m'' = Some demo_moderator"
    "u_id demo_moderator = ''m''" "u_role demo_moderator = R_Moderator" "u_isSuspended demo_moderator"
    by code_simp+
  then show ?thesis
    using suspended_moderator_lifts_suspension [of ?verify "''t''" _ ?s demo_moderator demo_env]
    by (simp add: Let_def)
qed

end
