(* ===== verification/Life_Cycle.thy ===== *)
theory Life_Cycle
  imports System
begin

section \<open>The status life cycle of an order\<close>

text \<open>
  Which status changes the requests of \<open>System.thy\<close> can make, all services together
  (\<open>src/modules/orders/orders.service.ts\<close>, \<open>src/modules/deliveries/deliveries.service.ts\<close>,
  \<open>src/modules/orders/order-disputes.service.ts\<close> and the Stripe webhook). An order that still
  waits for its buyer, its cook or a driver is open, and \<open>openRank\<close> counts the changes it
  has before it; every request either leaves status and fulfilment of an order alone, or lowers
  the rank, or moves an order that is no longer open to another such status.
\<close>

subsection \<open>Ranks and moves\<close>

type_synonym life = "order_status \<times> fulfillment_choice"

definition lifeRow :: "order_row \<Rightarrow> life" where
  "lifeRow r = (o_status r, o_fulfillmentChoice r)"

fun openRank :: "life \<Rightarrow> nat" where
  "openRank (O_Pending, _) = 6"
| "openRank (O_Confirmed, _) = 5"
| "openRank (O_Preparing, _) = 4"
| "openRank (O_Ready, F_Delivery) = 3"
| "openRank (O_NoDriverAvailable, _) = 2"
| "openRank (O_Ready, F_Pickup) = 1"
| "openRank _ = 0"

definition moves :: "life \<Rightarrow> life \<Rightarrow> bool" where
  "moves a b \<longleftrightarrow> a = b \<or> openRank b < openRank a \<or> openRank a = 0 \<and> openRank b = 0"

lemma moves_refl [simp]: "moves a a"
  by (simp add: moves_def)

lemma moves_trans: "moves a b \<Longrightarrow> moves b c \<Longrightarrow> moves a c"
  by (auto simp: moves_def)

lemma moves_closed: "openRank b = 0 \<Longrightarrow> moves a b"
  by (auto simp: moves_def)

lemma moves_kitchen [simp]:
  "moves (O_Pending, c) (O_Confirmed, c)" "moves (O_Confirmed, c) (O_Preparing, c)"
  "moves (O_Preparing, c) (O_Ready, c)" "moves (O_Ready, F_Delivery) (O_NoDriverAvailable, F_Delivery)"
  "moves (O_NoDriverAvailable, c) (O_Ready, F_Pickup)"
  by (cases c; simp add: moves_def)+

lemma moves_end [simp]:
  "moves a (O_Cancelled, c)" "moves a (O_Refunded, c)" "moves a (O_Delivered, c)" "moves a (O_InDelivery, c)"
  by (simp_all add: moves_closed)

text \<open>The lives of all orders, by id, and how a request may change them.\<close>

definition lives :: "db \<Rightarrow> id \<Rightarrow> life option" where
  "lives s oid = map_option lifeRow (getOrder s oid)"

definition advances :: "(id \<Rightarrow> life option) \<Rightarrow> (id \<Rightarrow> life option) \<Rightarrow> bool" where
  "advances f g \<longleftrightarrow> (\<forall>oid a. f oid = Some a \<longrightarrow> (\<exists>b. g oid = Some b \<and> moves a b))"

lemma advances_refl [simp]: "advances f f"
  by (simp add: advances_def)

lemma advances_trans: "advances f g \<Longrightarrow> advances g h \<Longrightarrow> advances f h"
  unfolding advances_def using moves_trans by blast

lemma advances_upd:
  assumes "f oid = Some a" and "moves a b"
  shows "advances f (f(oid := Some b))"
  using assms by (cases b) (auto simp: advances_def)

lemma advances_absent: "f oid = None \<Longrightarrow> advances f (f(oid := x))"
  by (auto simp: advances_def)

lemma lives_getOrder: "getOrder s oid = Some ord \<Longrightarrow> lives s oid = Some (o_status ord, o_fulfillmentChoice ord)"
  by (simp add: lives_def lifeRow_def)

subsection \<open>Operations that leave status and fulfilment alone\<close>

named_theorems placid "operations that keep the life of every order"

lemma lives_cong: "t_orders t = t_orders s \<Longrightarrow> lives t = lives s"
  by (simp add: lives_def getOrder_def fun_eq_iff)

lemma lives_written:
  assumes "\<And>r. o_id (f r) = o_id r"
  shows "lives (updOrder oid f s) = (lives s)(oid := map_option (\<lambda>r. lifeRow (f r)) (getOrder s oid))"
  using ord.get_put [of f, OF assms] by (auto simp: lives_def fun_eq_iff option.map_comp o_def)

lemma lives_updOrder_same [placid]:
  assumes "\<And>r. o_id (f r) = o_id r" and "\<And>r. o_status (f r) = o_status r"
    and "\<And>r. o_fulfillmentChoice (f r) = o_fulfillmentChoice r"
  shows "lives (updOrder oid f s) = lives s"
  using lives_written [OF assms(1)] assms(2,3) by (simp add: lifeRow_def [abs_def] lives_def fun_eq_iff)

declare lives_written [placid]

lemma lives_emit [placid]: "lives (emit e s) = lives s"
  by (rule lives_cong) simp

lemma lives_side [placid]:
  "lives (sendToUsers ids k a s) = lives s"
  "lives (notifyOrderPaid u oid s) = lives s"
  "lives (notifyOrderStatus oid k s) = lives s"
  "lives (notifyDeliveryEvent oid did k b c s) = lives s"
  "lives (notifyDeliveryAvailable oid did s) = lives s"
  "lives (publishOrderStatusChanged oid st s) = lives s"
  "lives (publishDeliveryCancelledToDriver u did oid t w s) = lives s"
  "lives (auditRecord actor act tg s) = lives s"
  "lives (clearTimer key s) = lives s"
  "lives (scheduleNoDriverTimeout env oid s) = lives s"
  "lives (scheduleNoDriverResponseTimeout env oid s) = lives s"
  "lives (scheduleDriverDeliveryTimeout env did s) = lives s"
  by (rule lives_cong, simp add: side_defs Let_def split: option.splits)+

lemma lives_upd [placid]:
  "lives (updUser i fu s) = lives s" "lives (updSeller i fs s) = lives s"
  "lives (updDriver i fd s) = lives s" "lives (updDelivery i fl s) = lives s"
  "lives (updDispute i fi s) = lives s" "lives (restock ord s) = lives s"
  by (rule lives_cong, simp add: updUser_def updSeller_def)+

lemma lives_fields [placid]:
  "lives (s\<lparr>t_deliveries := ds\<rparr>) = lives s" "lives (s\<lparr>t_disputes := di\<rparr>) = lives s"
  "lives (s\<lparr>t_participants := pa\<rparr>) = lives s" "lives (s\<lparr>t_issues := is\<rparr>) = lives s"
  "lives (s\<lparr>t_conversations := cv\<rparr>) = lives s" "lives (s\<lparr>t_catalogOrders := co\<rparr>) = lives s"
  "lives (s\<lparr>t_sellers := se\<rparr>) = lives s" "lives (s\<lparr>t_drivers := dr\<rparr>) = lives s"
  "lives (s\<lparr>t_wallet := wa\<rparr>) = lives s" "lives (s\<lparr>t_users := us\<rparr>) = lives s"
  "lives (s\<lparr>t_strikes := st\<rparr>) = lives s"
  by (rule lives_cong, simp)+

lemma lives_wallet [placid]:
  "lives (cancelPending p s) = lives s" "lives (creditForCompletedOrder env oid s) = lives s"
  "lives (compensateDriver env oid d a s) = lives s" "lives (creditSellerEarning env oid d a s) = lives s"
  "lives (recordDriverDebt env oid d a s) = lives s" "lives (releaseFundsForCompletedOrder env oid s) = lives s"
  by (rule lives_cong, simp add: releaseFundsForCompletedOrder_def)+

lemma lives_insertEntries [placid]: "lives (insertEntries rows s) = lives s"
  by (rule lives_cong) (simp add: insertEntries_def)

lemma lives_strike [placid]:
  "lives (suspendUser now u r s) = lives s" "lives (snd (addStrike env inp s)) = lives s"
  "lives (immediateExclude env u role r src did oid s) = lives s"
  by (simp_all add: suspendUser_def addStrike_def immediateExclude_def evaluateSuspension_def Let_def
      split_beta placid)

lemma lives_refund [placid]: "lives (refundOrderIfNeeded env oid s) = lives s"
  by (simp add: refundOrderIfNeeded_def Let_def placid split: option.split sum.split)

lemma lives_reads [placid]:
  "lives (snd (findOrderWithRelations oid s)) = lives s" "lives (snd (loadDelivery did s)) = lives s"
  by (simp_all add: findOrderWithRelations_def loadDelivery_def split: option.split)

subsection \<open>One status write\<close>

text \<open>Every handler writes the status of at most one order, which it has read before.\<close>

lemma advances_write:
  assumes "lives t = (lives s)(oid := Some b)" and "lives s oid = Some a" and "moves a b"
  shows "advances (lives s) (lives t)"
  unfolding assms(1) by (rule advances_upd) (fact assms)+

lemma advances_cancelRow:
  assumes "getOrder s oid = Some ord"
  shows "advances (lives s) (lives (updOrder oid (cancelRow now why) (restock rest s)))"
  by (rule advances_write [OF _ lives_getOrder [OF assms]])
    (simp add: placid assms cancelRow_def lifeRow_def)+

lemma advances_deliver:
  assumes "getOrder s oid = Some ord"
  shows "advances (lives s) (lives (deliverOrder oid s))"
  by (rule advances_write [OF _ lives_getOrder [OF assms]])
    (simp add: deliverOrder_def placid assms lifeRow_def)+

lemma advances_confirmed:
  assumes "getOrder s oid = Some ord" and "o_status ord = O_Pending"
  shows "advances (lives s) (lives (confirmOrderPaid env ord s))"
  using getOrder_id [OF assms(1)] assms
  by (intro advances_write [OF _ lives_getOrder [OF assms(1)]])
    (simp add: confirmOrderPaid_def Let_def placid lifeRow_def)+

lemma advances_transition:
  assumes "\<And>r. o_id (ts r) = o_id r" and "\<And>r. o_status (ts r) = o_status r"
    and "\<And>r. o_fulfillmentChoice (ts r) = o_fulfillmentChoice r"
    and "\<And>st c. st \<in> set from \<Longrightarrow> moves (st, c) (to, c)"
  shows "advances (lives s) (lives (snd (transitionAsSeller u oid from to ts s)))"
proof (cases "loadAsSeller u oid s")
  case (Inr x)
  then obtain ord where o: "x = (fst x, ord)" "getOrder s oid = Some ord"
    by (auto simp: loadAsSeller_def loadOrderForSellerAction_def split: sum.splits option.splits if_splits)
  have "advances (lives s) ((lives s)(oid \<mapsto> (to, o_fulfillmentChoice ord)))"
    if "o_status ord \<in> set from"
    by (rule advances_upd, rule lives_getOrder [OF o(2)], rule assms(4) [OF that])
  with Inr o assms(1-3) show ?thesis by (cases x) (simp add: transitionAsSeller_def placid lifeRow_def)
qed (simp add: transitionAsSeller_def)

subsection \<open>Requests of buyers and sellers\<close>

lemma advances_confirmPayment: "advances (lives s) (lives (snd (confirmPaymentForBuyer env u oid s)))"
  using advances_confirmed by (simp add: confirmPaymentForBuyer_def placid split: option.split)

lemma advances_startPreparing: "advances (lives s) (lives (snd (startPreparing u oid s)))"
  using advances_transition [of "\<lambda>r. r" "[O_Confirmed]" O_Preparing s u oid]
  by (simp add: startPreparing_def snd_bindR placid split: sum.split)

lemma advances_markReady: "advances (lives s) (lives (snd (markReady env u oid s)))"
proof (cases "loadAsSeller u oid s")
  case (Inr x)
  then obtain ord where o: "x = (fst x, ord)" "getOrder s oid = Some ord"
    by (auto simp: loadAsSeller_def loadOrderForSellerAction_def split: sum.splits option.splits if_splits)
  have "advances (lives s) ((lives s)(oid \<mapsto> (O_Ready, o_fulfillmentChoice ord)))"
    if "o_status ord = O_Preparing"
    by (rule advances_upd, rule lives_getOrder [OF o(2)]) (simp add: that)
  with Inr o show ?thesis
    by (cases x, cases "o_fulfillmentChoice ord") (simp_all add: markReady_def Let_def placid lifeRow_def)
qed (simp add: markReady_def)

lemma lives_qr [placid]:
  "lives (snd (getSellerPickupQr env u oid s)) = lives s" "lives (snd (getBuyerDeliveryQr env u oid s)) = lives s"
  by (simp_all add: getSellerPickupQr_def getBuyerDeliveryQr_def Let_def placid split: option.split sum.split)

lemma advances_confirmPickup: "advances (lives s) (lives (snd (confirmPickup env u oid s)))"
  using advances_deliver by (simp add: confirmPickup_def placid split: option.split sum.split)

lemma advances_commitCancel: "advances (lives s) (lives (snd (commitCancelAsSeller env sel oid why s)))"
proof (cases "getOrder s oid")
  case None
  then have "transaction (cancelAsSellerTx env oid why) s = fail (NotFound AnOrder) s"
    by (intro transaction_fail) (simp add: cancelAsSellerTx_def)
  then show ?thesis by (simp add: commitCancelAsSeller_def)
next
  case (Some ord)
  then have "transaction (cancelAsSellerTx env oid why) s = ok () (if o_status ord \<notin> set cancellableFrom then s
      else updOrder oid (cancelRow (e_now env) why) (restock ord s))"
    by (intro transaction_ok) (simp add: cancelAsSellerTx_def)
  then show ?thesis
    using advances_cancelRow [OF Some] by (simp add: commitCancelAsSeller_def Let_def placid del: lives_written)
qed

lemma advances_cannotProvide: "advances (lives s) (lives (snd (sellerCannotProvide env u oid dto s)))"
proof -
  have "lives (cancelDelivery env why did x) = lives x" for why did x by (simp add: cancelDelivery_def placid)
  then have "advances (lives s) (lives (cannotProvideTx env ord dlv s))" if "getOrder s oid = Some ord" for ord dlv
    using advances_cancelRow [OF that] getOrder_id [OF that]
    by (simp add: cannotProvideTx_def Let_def split: option.split)
  moreover have "lives (cannotProvideNotify ord dlv x) = lives x" for ord dlv x
    by (simp add: cannotProvideNotify_def Let_def placid split: option.split)
  ultimately show ?thesis
    by (simp add: sellerCannotProvide_def Let_def placid split: option.split sum.split)
qed

subsection \<open>Searching for a driver\<close>

lemma lives_cancelDelivery [placid]: "lives (cancelDelivery env why did s) = lives s"
  by (simp add: cancelDelivery_def placid)

lemma advances_noDriver: "advances (lives s) (lives (handleNoDriverTimeout env oid s))"
proof (cases "getOrder s oid")
  case (Some ord)
  have "advances (lives s) ((lives s)(oid \<mapsto> (O_NoDriverAvailable, o_fulfillmentChoice ord)))"
    if "noDriverDue ord (latestDelivery s oid)"
    by (rule advances_upd, rule lives_getOrder [OF Some]) (use that in \<open>simp add: noDriverDue_def\<close>)
  with Some show ?thesis by (simp add: handleNoDriverTimeout_def Let_def placid lifeRow_def)
qed (simp add: handleNoDriverTimeout_def)

lemma advances_noDriverOrder: "advances (lives s) (lives (cancelNoDriverOrder env oid why s))"
proof (cases "getOrder s oid")
  case (Some ord)
  with advances_cancelRow [OF Some] show ?thesis
    by (simp add: cancelNoDriverOrder_def Let_def placid del: lives_written split: option.split)
qed (simp add: cancelNoDriverOrder_def)

lemma advances_autoCancel: "advances (lives s) (lives (autoCancelNoResponse env oid s))"
  using advances_noDriverOrder by (simp add: autoCancelNoResponse_def split: option.split)

lemma advances_switch:
  assumes "getOrder s oid = Some ord" and "o_status ord = O_NoDriverAvailable"
  shows "advances (lives s) (lives (switchOrderToPickup env ord dlv s))"
proof -
  have "advances (lives s) ((lives s)(oid \<mapsto> (O_Ready, F_Pickup)))"
    by (rule advances_upd, rule lives_getOrder [OF assms(1)]) (simp add: assms(2))
  then show ?thesis
    using assms(1) getOrder_id [OF assms(1)]
    by (simp add: switchOrderToPickup_def Let_def placid lifeRow_def split: option.split)
qed

lemma getOrder_clearTimer [simp]: "getOrder (clearTimer k s) = getOrder s"
  by (simp add: getOrder_def clearTimer_def fun_eq_iff)

lemma advances_decide: "advances (lives s) (lives (snd (decideNoDriver env u oid dec s)))"
proof (cases "getOrder s oid")
  case (Some ord)
  have a: "lives (clearTimer k s) = lives s" for k by (simp add: placid)
  have "advances (lives s) (lives (switchOrderToPickup env ord dlv (clearTimer k s)))"
    if "o_status ord = O_NoDriverAvailable" for dlv k
    using advances_switch [of "clearTimer k s" oid ord env dlv] Some that by (simp add: a)
  moreover have "advances (lives s) (lives (cancelNoDriverOrder env oid why (clearTimer k s)))" for why k
    using advances_noDriverOrder [of "clearTimer k s" env oid why] by (simp add: a)
  ultimately show ?thesis
    using Some by (simp add: decideNoDriver_def Let_def placid del: lives_written
        split: option.split no_driver_decision.split)
qed (simp add: decideNoDriver_def split: option.split)

subsection \<open>Requests of drivers\<close>

lemma advances_delivered: "advances (lives s) (lives (snd (confirmDeliveredByDriver env oid s)))"
  using advances_deliver by (simp add: confirmDeliveredByDriver_def Let_def placid split: option.split)

lemma advances_delivered_after:
  assumes "lives t = lives s"
  shows "advances (lives s) (lives (snd (confirmDeliveredByDriver env oid t)))"
  using advances_delivered [of t] by (simp add: assms)

lemma lives_drivers [placid]:
  "lives (approveKyc v s) = lives s" "lives (snd (claimUpdate env v did s)) = lives s"
  "lives (snd (ensureSellerDriverConversation env oid v s)) = lives s"
  "lives (absentNotify v oid did s) = lives s"
  by (simp_all add: approveKyc_def claimUpdate_def ensureSellerDriverConversation_def absentNotify_def
      Let_def placid split: option.split)

lemma lives_driver_requests [placid]:
  "lives (snd (setOnline env u b x y s)) = lives s"
  "lives (snd (claim env u did s)) = lives s"
  "lives (snd (arriveAtPickup u did s)) = lives s"
  "lives (snd (recordLocation env u lat lng s)) = lives s"
  "lives (snd (reportIssue env u did iss s)) = lives s"
  by (simp_all add: setOnline_def claim_def arriveAtPickup_def transitionDelivery_def recordLocation_def
      reportIssue_def snd_bindR Let_def split_beta placid split: option.split sum.split)

lemma advances_pickup: "advances (lives s) (lives (snd (confirmDriverPickup env u did dto s)))"
proof -
  have "advances (lives s) ((lives s)(oid := map_option (\<lambda>r. (O_InDelivery, o_fulfillmentChoice r)) (getOrder s oid)))"
    for oid
  proof (cases "getOrder s oid")
    case (Some ord)
    show ?thesis
      unfolding Some option.map by (rule advances_upd, rule lives_getOrder [OF Some]) simp
  qed (simp add: advances_absent lives_def)
  then show ?thesis
    by (simp add: confirmDriverPickup_def Let_def placid lifeRow_def split: option.split sum.split)
qed

lemma advances_dropoff:
  "advances (lives s) (lives (snd (confirmDelivery env u did sc s)))"
  "advances (lives s) (lives (snd (confirmAbsentDropoff env u did ab s)))"
  by (simp_all add: confirmDelivery_def confirmAbsentDropoff_def snd_bindR Let_def split_beta
      placid del: lives_written split: option.split sum.split)
    (simp_all add: advances_delivered_after placid)

lemma advances_unavailable: "advances (lives s) (lives (snd (cancelForSellerUnavailable env oid v s)))"
proof (cases "getOrder s oid")
  case (Some ord)
  with advances_cancelRow [OF Some] show ?thesis
    by (simp add: cancelForSellerUnavailable_def Let_def placid del: lives_written)
qed (simp add: cancelForSellerUnavailable_def)

lemma advances_report: "advances (lives s) (lives (snd (reportSellerUnavailable env u did dto s)))"
  using advances_unavailable [of "updDelivery did (unavailableRow env dto) s"]
  by (simp add: reportSellerUnavailable_def snd_bindR Let_def split_beta placid del: lives_written
      split: option.split sum.split)

lemma advances_disappeared: "advances (lives s) (lives (handleDriverDeliveryTimeout env did s))"
proof -
  have tx: "advances (lives s) (lives (disappearedTx env oid did s))" if "getOrder s oid = Some ord" for oid ord
    using advances_upd [of "lives s" oid, OF lives_getOrder [OF that] moves_end(1)] that
    by (simp add: disappearedTx_def failDelivery_def placid lifeRow_def)
  moreover have "lives (notifyDisappeared ord did v x) = lives x" for ord v x
    by (simp add: notifyDisappeared_def Let_def placid split: option.split)
  moreover have "lives (settleDisappeared env ord did v x) = lives x" for ord v x
    by (simp add: settleDisappeared_def Let_def placid split: option.split)
  ultimately show ?thesis
    by (simp add: handleDriverDeliveryTimeout_def resolveDriverDisappeared_def Let_def getOrder_id
        split: option.split)
qed

subsection \<open>Disputes, Stripe and the background worker\<close>

lemma advances_refundForDispute: "advances (lives s) (lives (refundForDispute env oid s))"
proof (cases "getOrder s oid")
  case None
  have "lives (updOrder oid f x) = lives x" if "lives x = lives s" for f x
  proof -
    have "getOrder x oid = None" using that None by (auto simp: lives_def fun_eq_iff dest: spec [of _ oid])
    then show ?thesis by (simp add: ord.put_absent)
  qed
  then show ?thesis by (simp add: refundForDispute_def placid del: lives_written)
next
  case (Some ord)
  have "lives (refundOrderIfNeeded env oid s) oid = lives s oid" by (simp add: placid)
  then obtain ord' where "getOrder (refundOrderIfNeeded env oid s) oid = Some ord'"
      "o_fulfillmentChoice ord' = o_fulfillmentChoice ord"
    using Some by (auto simp: lives_def lifeRow_def)
  with advances_upd [of "lives s" oid, OF lives_getOrder [OF Some] moves_end(2)] show ?thesis
    by (simp add: refundForDispute_def placid lifeRow_def)
qed

lemma lives_admin [placid]:
  "lives (notifyDisputeParties b v oid ty s) = lives s"
  "lives (snd (adminRejectDispute env i n s)) = lives s"
  "lives (snd (adminResolveDispute env i n s)) = lives s"
  "lives (snd (adminConfirmAllergenViolation env i n s)) = lives s"
  "lives (snd (adminConfirmFraudulentChargeback env i n s)) = lives s"
  by (simp_all add: notifyDisputeParties_def adminRejectDispute_def adminResolveDispute_def
      adminConfirmAllergenViolation_def adminConfirmFraudulentChargeback_def returnDispute_def Let_def placid
      split: sum.split)

lemma advances_refund_after:
  "lives t = lives s \<Longrightarrow> advances (lives s) (lives (refundForDispute env oid t))"
  using advances_refundForDispute [of t env oid] by simp

lemma advances_dispute:
  "advances (lives s) (lives (snd (createDispute env u oid dto s)))"
  "advances (lives s) (lives (snd (adminApproveRefund env i n s)))"
  by (simp_all add: createDispute_def fileDispute_def adminApproveRefund_def returnDispute_def Let_def placid
      advances_refund_after split: option.split sum.split)

lemma advances_paid:
  assumes "distinct (map o_id (t_orders s))"
  shows "advances (lives s) (lives (handlePaymentIntentSucceeded env evt s))"
proof (cases "findOrderForPaymentIntent evt s")
  case (Some ord)
  note get = found_is_stored [OF Some assms]
  have bf: "lifeRow (backfillPi p r) = lifeRow r" "o_id (backfillPi p r) = o_id r" for p r
    by (simp_all add: backfillPi_def lifeRow_def)
  have "advances (lives s) ((lives s)(o_id ord \<mapsto> (O_Confirmed, o_fulfillmentChoice ord)))"
    if "o_status ord = O_Pending"
    by (rule advances_upd, rule lives_getOrder [OF get]) (simp add: that)
  then show ?thesis
    using Some get by (simp add: handlePaymentIntentSucceeded_def markCatalogOrderPaid_def Let_def placid bf
        split: option.split) (simp add: lifeRow_def)
qed (simp add: handlePaymentIntentSucceeded_def markCatalogOrderPaid_def placid split: option.split)

lemma advances_failed: "advances (lives s) (lives (handlePaymentIntentFailed env evt s))"
proof -
  have "advances (lives s) (lives (paymentFailedTx env evt oid s))" for oid
  proof (cases "getOrder s oid")
    case (Some ord)
    have bf: "o_status (backfillPi p r) = o_status r" "o_fulfillmentChoice (backfillPi p r) = o_fulfillmentChoice r"
      "o_id (backfillPi p r) = o_id r" for p r by (simp_all add: backfillPi_def)
    show ?thesis
      using advances_upd [of "lives s" oid, OF lives_getOrder [OF Some] moves_end(1)] Some
      by (simp add: paymentFailedTx_def placid bf lifeRow_def cancelRow_def)
  qed (simp add: paymentFailedTx_def)
  then show ?thesis
    by (simp add: handlePaymentIntentFailed_def markCatalogOrderFailed_def placid split: option.split)
qed

lemma advances_stripe:
  assumes "distinct (map o_id (t_orders s))"
  shows "advances (lives s) (lives (snd (handleEvent env retrieve evt s)))"
proof -
  have "lives (applySubscriptionState x s) = lives s" for x
    by (simp add: applySubscriptionState_def placid split: option.split)
  then show ?thesis
    by (cases evt) (simp_all add: advances_paid [OF assms] advances_failed handleAccountUpdated_def
        updateSellerOnboarding_def updateDriverOnboarding_def handleChargeDispute_def
        handleCheckoutCompleted_def refreshSubscription_def Let_def placid del: lives_written split: option.split)
qed

lemma lives_wallet_requests [placid]:
  "lives (snd (payWithdrawal env plan s)) = lives s" "lives (snd (requestWithdrawal env u s)) = lives s"
  "lives (unsuspendUser u s) = lives s"
  by (simp_all add: payWithdrawal_def requestWithdrawal_def settleWithdrawal_def unsuspendUser_def placid
      split: sum.split)

lemma lives_sweep [placid]: "lives (processWalletSweep env s) = lives s"
  by (rule lives_cong) (simp add: processWalletSweep_def releaseDuePendingEntries_def Let_def)

lemma advances_timers:
  "advances (lives s) (lives (processTimerJob env job s))" "advances (lives s) (lives (fireNoDriver env oid s))"
  "advances (lives s) (lives (fireNoDriverResponse env oid s))"
  "advances (lives s) (lives (fireDriverDelivery env did s))"
proof -
  have a: "lives (clearTimer k s) = lives s" for k by (simp add: placid)
  show "advances (lives s) (lives (processTimerJob env job s))"
    by (simp add: processTimerJob_def advances_noDriver advances_autoCancel advances_disappeared)
  show "advances (lives s) (lives (fireNoDriver env oid s))"
    using advances_noDriver [of "clearTimer (noDriverTimeoutKey oid) s"] by (simp add: fireNoDriver_def a)
  show "advances (lives s) (lives (fireNoDriverResponse env oid s))"
    using advances_autoCancel [of "clearTimer (noDriverResponseKey oid) s"] by (simp add: fireNoDriverResponse_def a)
  show "advances (lives s) (lives (fireDriverDelivery env did s))"
    using advances_disappeared [of "clearTimer (driverDeliveryKey did) s"] by (simp add: fireDriverDelivery_def a)
qed

subsection \<open>Any request\<close>

lemma advances_create: "advances (lives s) (lives (snd (createOrder env u dto s)))"
proof -
  have app: "advances (lives s) (lives (s\<lparr>t_listings := ls, t_orders := t_orders s @ [r]\<rparr>))" for s ls r
    by (auto simp: advances_def lives_def getOrder_def findRow_append)
  have un: "lives t = lives s" if "untouched s t" for s t using that by (intro lives_cong) (simp add: untouched_def)
  have pay: "lives t = lives s" if "payOrder env ord s = (r, t)" for s ord r t
    using that by (auto simp: payOrder_def finishOrder_def backfillPaymentIntent_def Let_def fail_eq_iff
        ok_eq_iff placid split: sum.splits if_splits)
  obtain r s' where run: "createOrder env u dto s = (r, s')" by force
  then show ?thesis
  proof (rule createOrder_result)
    fix e assume "untouched s s'"
    with run show ?thesis by (simp add: un)
  next
    fix buyer cart dropoff totals s1 ord s2
    assume u: "untouched s s1" and p: "placeOrder env (u_id buyer) cart dropoff dto totals s1 = (Inr ord, s2)"
      and py: "payOrder env ord (recordTermsAcceptance (u_id buyer) s2) = (r, s')"
    have "lives (recordTermsAcceptance v s2) = lives s2" for v
      using recordTermsAcceptance_eq [of v s2] by (intro lives_cong) auto
    moreover have "advances (lives s1) (lives s2)" using p by (rule placeOrder_Inr) (simp add: app)
    ultimately show ?thesis using run un [OF u] pay [OF py] by simp
  qed
qed

lemma advances_exec:
  assumes "distinct (map o_id (t_orders s))"
  shows "advances (lives s) (lives (exec env r s))"
proof (cases r)
  case (OrderReq q)
  then show ?thesis
    by (cases q) (simp_all add: placid advances_create advances_confirmPayment advances_startPreparing
        advances_markReady advances_confirmPickup advances_commitCancel advances_cannotProvide
        advances_decide cancelAsSeller_def split: sum.split)
next
  case (DisputeReq q)
  then show ?thesis by (cases q) (simp_all add: placid advances_dispute)
next
  case (DriverReq q)
  then show ?thesis by (cases q) (simp_all add: placid advances_pickup advances_dropoff advances_report)
next
  case (Background q)
  then show ?thesis
    by (cases q) (simp_all add: placid advances_timers advances_stripe [OF assms])
qed

subsection \<open>Runs\<close>

definition placed :: db where
  "placed = exec demo_env (OrderReq (CreateOrder ''bb'' delivery_dto)) clean_shop"

text \<open>How often an order changes its status or its fulfilment in a run while it is open.\<close>

fun openMoves :: "id \<Rightarrow> (env \<times> request) list \<Rightarrow> db \<Rightarrow> nat" where
  "openMoves oid [] s = 0"
| "openMoves oid ((env, r) # rs) s =
    (case lives s oid of None \<Rightarrow> 0
     | Some a \<Rightarrow> if 0 < openRank a \<and> lives (exec env r s) oid \<noteq> Some a then 1 else 0) +
    openMoves oid rs (exec env r s)"

lemma openRank_max: "openRank a \<le> 6"
  by (cases a rule: openRank.cases) simp_all

lemma well_kept_distinct: "well_kept (absDb s) \<Longrightarrow> distinct (map o_id (t_orders s))"
  by (simp add: well_kept_def absDb_def o_def)

lemma well_kept_exec:
  assumes "well_kept (absDb s)" and "legal env r s"
  shows "well_kept (absDb (exec env r s))"
  using evolves_exec [OF assms(2)] assms(1) well_kept_steps by (auto simp: evolves_def)

text \<open>C4: The life of an order ends: in a run of requests of any kind and order, each change of
  its status or fulfilment while it is open costs it a rank, so that at most six such changes
  happen, and an order that is no longer open never becomes open again.\<close>

theorem open_orders_run_down:
  assumes "well_kept (absDb s)" and "legalAll rs s" and "\<forall>(env, r) \<in> set rs. honest env"
    and "lives s oid = Some a"
  shows "\<exists>b. lives (runAll rs s) oid = Some b \<and>
    openMoves oid rs s + openRank b \<le> openRank a \<and> openRank a \<le> 6"
  using assms
proof (induction rs s arbitrary: a rule: runAll.induct)
  case (1 s)
  then show ?case by (simp add: openRank_max)
next
  case (2 env r rs s)
  from 2(3,4) have l: "legal env r s" by (simp add: legal_def honest_def)
  obtain c where c: "lives (exec env r s) oid = Some c" "moves a c"
    using advances_exec [OF well_kept_distinct [OF 2(2)], of env r] 2(5) unfolding advances_def by blast
  from 2(3,4) have "legalAll rs (exec env r s)" "\<forall>(env, r) \<in> set rs. honest env" by auto
  from 2(1) [OF well_kept_exec [OF 2(2) l] this c(1)] show ?case
    using c(2) openRank_max [of a] by (auto simp: 2(5) c(1) moves_def)
qed

abbreviation "payment \<equiv> [(later_env, OrderReq (ConfirmPayment ''bb'' ''o''))]"

theorem open_orders_run_down_witness:
  "\<exists>b. lives (runAll payment placed) ''o'' = Some b \<and> openMoves ''o'' payment placed + openRank b \<le> 6"
proof -
  have "shelf_open (\<lambda>_. 5) (absDb clean_shop)"
    using shelf_open_shop by (simp add: clean_shop_def absDb_def)
  then have "well_kept (absDb clean_shop)" using shelf_open_inv by (auto simp: shelf_inv_def)
  moreover have "legal demo_env (OrderReq (CreateOrder ''bb'' delivery_dto)) clean_shop"
    by (rule demo_legal) code_simp+
  ultimately have "well_kept (absDb placed)" unfolding placed_def by (rule well_kept_exec)
  moreover have run: "legalAll payment placed" by code_simp
  moreover have "\<forall>(env, r) \<in> set payment. honest env" by (simp add: demo_honest)
  moreover have "lives placed ''o'' = Some (O_Pending, F_Delivery)" by code_simp
  ultimately obtain b where "lives (runAll payment placed) ''o'' = Some b"
      "openMoves ''o'' payment placed + openRank b \<le> openRank (O_Pending, F_Delivery)"
    using open_orders_run_down [OF _ run] by blast
  then show ?thesis by (intro exI [of _ b]) (simp del: openMoves.simps runAll.simps)
qed

end
