(* ===== verification/SoftDelete.thy ===== *)
theory SoftDelete
  imports Dashboard Moderation Users Auth
begin

section \<open>Soft deletion\<close>

text \<open>
  \<open>src/infrastructure/database/soft-delete.extension.ts\<close>: the rewriting that the Prisma extension
  applies to every query of the services. The tables are those of \<open>Model\<close>, and a query runs on
  them the way the rest of the development writes it, as a filter, an update or a removal.
  The lemmas show that the reads of users and listings in the other theories are the rewritten
  queries, and what a deletion through the extension does to later reads.
\<close>

subsection \<open>Queries\<close>

text \<open>
  The argument \<open>where\<close>: what it asks of a row apart from the column \<open>deletedAt\<close>, and the filter
  on that column when the caller writes one.
\<close>

record 'r where_clause =
  wc_match :: "'r \<Rightarrow> bool"
  wc_deletedAt :: "(time option \<Rightarrow> bool) option"

datatype 'r prisma_query =
  FindFirst "'r where_clause option" | FindFirstOrThrow "'r where_clause option"
  | FindMany "'r where_clause option" | Count "'r where_clause option"
  | Aggregate "'r where_clause option" | GroupBy "'r where_clause option"
  | FindUnique "'r where_clause" | Delete "'r where_clause" | DeleteMany "'r where_clause option"
  | Update "'r where_clause" "'r \<Rightarrow> 'r" | UpdateMany "'r where_clause option" "'r \<Rightarrow> 'r"

text \<open>Answers; \<open>Rows\<close> are also the rows an aggregate or a grouping runs over.\<close>

datatype 'r prisma_answer = FirstRow "'r option" | Rows "'r list" | Affected nat | RecordNotFound

subsection \<open>The extension\<close>

definition SOFT_DELETE_MODELS :: "string list" where
  "SOFT_DELETE_MODELS = [''User'', ''Listing'']"

definition isSoftDeleteModel :: "string option \<Rightarrow> bool" where
  "isSoftDeleteModel model \<longleftrightarrow> truthy model \<and> the model \<in> set SOFT_DELETE_MODELS"

definition mergeDeletedAt :: "'r where_clause option \<Rightarrow> 'r where_clause" where
  "mergeDeletedAt w =
    (case w of
       None \<Rightarrow> \<lparr>wc_match = (\<lambda>_. True), wc_deletedAt = Some (\<lambda>d. d = None)\<rparr>
     | Some base \<Rightarrow>
         if wc_deletedAt base \<noteq> None then base else base\<lparr>wc_deletedAt := Some (\<lambda>d. d = None)\<rparr>)"

text \<open>\<open>mark\<close> writes \<open>deletedAt: new Date()\<close>; the queries the extension does not name pass as they are.\<close>

definition softDeleteExtension :: "string option \<Rightarrow> ('r \<Rightarrow> 'r) \<Rightarrow> 'r prisma_query \<Rightarrow> 'r prisma_query" where
  "softDeleteExtension model mark q =
    (if \<not> isSoftDeleteModel model then q
     else case q of
         FindFirst w \<Rightarrow> FindFirst (Some (mergeDeletedAt w))
       | FindFirstOrThrow w \<Rightarrow> FindFirstOrThrow (Some (mergeDeletedAt w))
       | FindMany w \<Rightarrow> FindMany (Some (mergeDeletedAt w))
       | Count w \<Rightarrow> Count (Some (mergeDeletedAt w))
       | Aggregate w \<Rightarrow> Aggregate (Some (mergeDeletedAt w))
       | GroupBy w \<Rightarrow> GroupBy (Some (mergeDeletedAt w))
       | Delete w \<Rightarrow> Update w mark
       | DeleteMany w \<Rightarrow> UpdateMany (Some (mergeDeletedAt w)) mark
       | _ \<Rightarrow> q)"

subsection \<open>Running a query\<close>

definition picks :: "('r \<Rightarrow> time option) \<Rightarrow> 'r where_clause option \<Rightarrow> 'r \<Rightarrow> bool" where
  "picks deletedAt w r \<longleftrightarrow>
    (case w of None \<Rightarrow> True
     | Some c \<Rightarrow> wc_match c r \<and> (case wc_deletedAt c of None \<Rightarrow> True | Some p \<Rightarrow> p (deletedAt r)))"

definition perform :: "('r \<Rightarrow> time option) \<Rightarrow> 'r prisma_query \<Rightarrow> 'r list \<Rightarrow> 'r prisma_answer \<times> 'r list" where
  "perform deletedAt q rows =
    (case q of
       FindFirst w \<Rightarrow> (FirstRow (List.find (picks deletedAt w) rows), rows)
     | FindFirstOrThrow w \<Rightarrow> (case List.find (picks deletedAt w) rows of
         None \<Rightarrow> (RecordNotFound, rows) | Some r \<Rightarrow> (FirstRow (Some r), rows))
     | FindMany w \<Rightarrow> (Rows (filter (picks deletedAt w) rows), rows)
     | Count w \<Rightarrow> (Affected (countWhere (picks deletedAt w) rows), rows)
     | Aggregate w \<Rightarrow> (Rows (filter (picks deletedAt w) rows), rows)
     | GroupBy w \<Rightarrow> (Rows (filter (picks deletedAt w) rows), rows)
     | FindUnique w \<Rightarrow> (FirstRow (List.find (picks deletedAt (Some w)) rows), rows)
     | Delete w \<Rightarrow> (case List.find (picks deletedAt (Some w)) rows of
         None \<Rightarrow> (RecordNotFound, rows)
       | Some r \<Rightarrow> (FirstRow (Some r), filter (\<lambda>x. \<not> picks deletedAt (Some w) x) rows))
     | DeleteMany w \<Rightarrow> (Affected (countWhere (picks deletedAt w) rows), filter (\<lambda>x. \<not> picks deletedAt w x) rows)
     | Update w f \<Rightarrow> (case List.find (picks deletedAt (Some w)) rows of
         None \<Rightarrow> (RecordNotFound, rows)
       | Some r \<Rightarrow> (FirstRow (Some (f r)), updWhere (picks deletedAt (Some w)) f rows))
     | UpdateMany w f \<Rightarrow> (Affected (countWhere (picks deletedAt w) rows), updWhere (picks deletedAt w) f rows))"

text \<open>The clients of the two tables, \<open>prisma.db.user\<close> and \<open>prisma.db.listing\<close>.\<close>

definition dbUser :: "time \<Rightarrow> user_row prisma_query \<Rightarrow> db \<Rightarrow> user_row prisma_answer \<times> db" where
  "dbUser now q s =
    (let (a, rows) = perform u_deletedAt
       (softDeleteExtension (Some ''User'') (\<lambda>u. u\<lparr>u_deletedAt := Some now\<rparr>) q) (t_users s)
     in (a, s\<lparr>t_users := rows\<rparr>))"

definition dbListing :: "time \<Rightarrow> listing_row prisma_query \<Rightarrow> db \<Rightarrow> listing_row prisma_answer \<times> db" where
  "dbListing now q s =
    (let (a, rows) = perform l_deletedAt
       (softDeleteExtension (Some ''Listing'') (\<lambda>l. l\<lparr>l_deletedAt := Some now\<rparr>) q) (t_listings s)
     in (a, s\<lparr>t_listings := rows\<rparr>))"

definition matching :: "('r \<Rightarrow> bool) \<Rightarrow> 'r where_clause option" where
  "matching p = Some \<lparr>wc_match = p, wc_deletedAt = None\<rparr>"

subsection \<open>Which rows a rewritten read sees\<close>

lemma soft_models [simp]: "isSoftDeleteModel (Some ''User'')" "isSoftDeleteModel (Some ''Listing'')"
  by (simp_all add: isSoftDeleteModel_def SOFT_DELETE_MODELS_def truthy_def)

lemma picks_merged:
  assumes "Option.bind w wc_deletedAt = None"
  shows "picks d (Some (mergeDeletedAt w)) r \<longleftrightarrow> d r = None \<and> (case w of None \<Rightarrow> True | Some c \<Rightarrow> wc_match c r)"
  using assms by (cases w) (auto simp: picks_def mergeDeletedAt_def)

lemma picks_matching: "picks d (Some (mergeDeletedAt (matching p))) = (\<lambda>r. d r = None \<and> p r)"
  by (rule ext) (simp add: picks_merged matching_def)

lemma picks_explicit: "wc_deletedAt c = Some f \<Longrightarrow> picks d (Some (mergeDeletedAt (Some c))) = (\<lambda>r. wc_match c r \<and> f (d r))"
  by (rule ext) (simp add: picks_def mergeDeletedAt_def)

lemma db_reads:
  "dbUser now (FindFirst (matching p)) s = (FirstRow (List.find (\<lambda>u. u_deletedAt u = None \<and> p u) (t_users s)), s)"
  "dbUser now (FindMany (matching p)) s = (Rows (filter (\<lambda>u. u_deletedAt u = None \<and> p u) (t_users s)), s)"
  "dbUser now (Count (matching p)) s = (Affected (countWhere (\<lambda>u. u_deletedAt u = None \<and> p u) (t_users s)), s)"
  "dbListing now (FindMany (matching q)) s = (Rows (filter (\<lambda>l. l_deletedAt l = None \<and> q l) (t_listings s)), s)"
  "dbListing now (Count (matching q)) s = (Affected (countWhere (\<lambda>l. l_deletedAt l = None \<and> q l) (t_listings s)), s)"
  by (simp_all add: dbUser_def dbListing_def softDeleteExtension_def perform_def picks_matching)

lemma find_none_iff: "List.find p xs \<noteq> None \<longleftrightarrow> list_ex p xs"
  by (induction xs) auto


subsection \<open>What a deletion leaves\<close>

lemma map_updWhere: "(\<And>r. key (f r) = key r) \<Longrightarrow> map key (updWhere p f rows) = map key rows"
  by (simp add: updWhere_def o_def if_distrib [of key] cong: if_cong)

lemma filter_updWhere_none:
  "(\<And>r. p r \<Longrightarrow> \<not> q (f r)) \<Longrightarrow> (\<And>r. \<not> p r \<Longrightarrow> \<not> q r) \<Longrightarrow> filter q (updWhere p f rows) = []"
  by (auto simp: updWhere_def filter_empty_conv)

lemma dbUser_deleteMany:
  "dbUser now (DeleteMany (matching p)) s =
     (Affected (countWhere (\<lambda>u. u_deletedAt u = None \<and> p u) (t_users s)),
      s\<lparr>t_users := updWhere (\<lambda>u. u_deletedAt u = None \<and> p u) (\<lambda>u. u\<lparr>u_deletedAt := Some now\<rparr>) (t_users s)\<rparr>)"
  by (simp add: dbUser_def softDeleteExtension_def perform_def picks_matching)

lemma dbUser_findUnique:
  "dbUser now (FindUnique \<lparr>wc_match = p, wc_deletedAt = None\<rparr>) s = (FirstRow (List.find p (t_users s)), s)"
  by (simp add: dbUser_def softDeleteExtension_def perform_def picks_def [abs_def])

text \<open>A deletion of users through the extended client removes no row: whatever is asked, every
  account keeps its place and its id. After \<open>deleteMany\<close> the accounts it named are gone from
  every filtered read and from a second deletion, while \<open>findUnique\<close> still returns them.\<close>

theorem deleted_users_hidden_not_removed:
  "map u_id (t_users (snd (dbUser now (DeleteMany w) s))) = map u_id (t_users s) \<and>
   map u_id (t_users (snd (dbUser now (Delete c) s))) = map u_id (t_users s) \<and>
   (let t = snd (dbUser now (DeleteMany (matching (\<lambda>u. u_id u \<in> set ids))) s);
        named = matching (\<lambda>u. u_id u \<in> set ids)
    in fst (dbUser later (FindMany named) t) = Rows [] \<and>
       dbUser later (DeleteMany named) t = (Affected 0, t) \<and>
       fst (dbUser later (FindUnique \<lparr>wc_match = (\<lambda>u. u_id u = i), wc_deletedAt = None\<rparr>) t) =
         FirstRow (map_option (\<lambda>u. if u_deletedAt u = None \<and> i \<in> set ids then u\<lparr>u_deletedAt := Some now\<rparr> else u)
           (getUser s i)))"
proof -
  let ?p = "\<lambda>u. u_deletedAt u = None \<and> u_id u \<in> set ids" and ?f = "\<lambda>u. u\<lparr>u_deletedAt := Some now\<rparr>"
  have none: "filter ?p (updWhere ?p ?f rows) = []" for rows by (rule filter_updWhere_none) auto
  have gone: "\<not> ?p u" if "u \<in> set (updWhere ?p ?f rows)" for u rows
    using none [of rows] that by (metis (mono_tags, lifting) empty_filter_conv)
  have again: "countWhere ?p (updWhere ?p ?f rows) = 0" for rows
    using gone by (simp add: countWhere_def none)
  have same: "updWhere ?p g (updWhere ?p ?f rows) = updWhere ?p ?f rows" for rows g
    using gone by (intro updWhere_none) blast
  have unique: "List.find (\<lambda>u. u_id u = i) (updWhere ?p ?f rows) =
      map_option (\<lambda>u. if u_deletedAt u = None \<and> i \<in> set ids then ?f u else u) (findRow u_id i rows)" for rows
    by (induction rows) (auto simp: updWhere_def)
  show ?thesis
    unfolding Let_def
  proof (intro conjI)
    show "map u_id (t_users (snd (dbUser now (DeleteMany w) s))) = map u_id (t_users s)"
      by (simp add: dbUser_def softDeleteExtension_def perform_def map_updWhere)
    show "map u_id (t_users (snd (dbUser now (Delete c) s))) = map u_id (t_users s)"
      by (simp add: dbUser_def softDeleteExtension_def perform_def map_updWhere split: option.split)
  qed (simp_all add: dbUser_deleteMany dbUser_findUnique db_reads none again same unique getUser_def)
qed

end
