(* ===== verification/Routes.thy ===== *)
theory Routes
  imports Access Life_Cycle Idempotency
begin

section \<open>The endpoints of orders and deliveries\<close>

text \<open>
  \<open>src/modules/orders/orders.controller.ts\<close> and \<open>src/modules/deliveries/deliveries.controller.ts\<close>:
  one constructor per route, the service call it makes with its defaults, and the view it
  answers (\<open>order-response.dto.ts\<close>, \<open>delivery-response.dto.ts\<close>, \<open>address-response.dto.ts\<close>).
  Neither controller declares a role, so every verified token reaches every route; who may do
  what to an order is decided in the services. The property at the end says what these
  decisions come to, for all routes together.
\<close>

subsection \<open>Views\<close>

record address_response =
  ar_id :: id
  ar_type :: "string option"
  ar_customLabel :: "string option"
  ar_fullAddress :: string
  ar_city :: string
  ar_postalCode :: string
  ar_apartment :: "string option"
  ar_floor :: "string option"
  ar_digicode :: "string option"
  ar_deliveryNotes :: "string option"
  ar_coords :: "point option"

definition addressResponse :: "address_row \<Rightarrow> point option \<Rightarrow> address_response" where
  "addressResponse address coords =
    (let d = ad_data address in
     \<lparr>ar_id = ad_id address, ar_type = ad_type d, ar_customLabel = ad_customLabel d,
      ar_fullAddress = ad_fullAddress d, ar_city = ad_city d,
      ar_postalCode = (case ad_postalCode d of None \<Rightarrow> [] | Some t \<Rightarrow> t),
      ar_apartment = ad_apartment d, ar_floor = ad_floor d, ar_digicode = ad_digicode d,
      ar_deliveryNotes = ad_deliveryNotes d, ar_coords = coords\<rparr>)"

record item_response =
  ir_id :: id
  ir_listingId :: id
  ir_listingName :: string
  ir_listingImageUrl :: "string option"
  ir_unitPriceCents :: int
  ir_quantity :: int
  ir_lineTotalCents :: int
  ir_note :: "string option"
  ir_addOns :: "(id \<times> string \<times> int) list"

definition addOnResponse :: "item_addon_row \<Rightarrow> id \<times> string \<times> int" where
  "addOnResponse a = (ia_id a, ia_labelSnapshot a, ia_priceDeltaCentsSnapshot a)"

definition itemResponse :: "item_row \<Rightarrow> item_response" where
  "itemResponse item =
    (let addOnsTotal = sum_list (map ia_priceDeltaCentsSnapshot (i_addOns item));
         lineTotal = (i_unitPriceCentsSnapshot item + addOnsTotal) * i_quantity item
     in \<lparr>ir_id = i_id item, ir_listingId = i_listingId item, ir_listingName = i_listingNameSnapshot item,
         ir_listingImageUrl = i_listingImageUrlSnapshot item,
         ir_unitPriceCents = i_unitPriceCentsSnapshot item, ir_quantity = i_quantity item,
         ir_lineTotalCents = lineTotal, ir_note = i_note item, ir_addOns = map addOnResponse (i_addOns item)\<rparr>)"

record order_response =
  or_id :: id
  or_orderNumber :: string
  or_status :: order_status
  or_buyerId :: id
  or_sellerId :: id
  or_subtotalCents :: int
  or_fulfillmentFeeCents :: int
  or_deliveryFeeCents :: int
  or_platformBuyerFeeCents :: int
  or_commissionCents :: int
  or_sellerEarningsCents :: int
  or_buyerTotalCents :: int
  or_commissionRateBps :: int
  or_fulfillmentChoice :: fulfillment_choice
  or_dropoffAddress :: "address_response option"
  or_deliveryInstructions :: "string option"
  or_deliveryTiming :: delivery_timing
  or_scheduledAt :: "time option"
  or_expectedAt :: "time option"
  or_note :: "string option"
  or_placedAt :: time
  or_confirmedAt :: "time option"
  or_readyAt :: "time option"
  or_completedAt :: "time option"
  or_cancelledAt :: "time option"
  or_cancellationReason :: "string option"
  or_items :: "item_response list"

definition orderResponse :: "order_row \<Rightarrow> address_response option \<Rightarrow> order_response" where
  "orderResponse r dropoff =
    \<lparr>or_id = o_id r, or_orderNumber = o_orderNumber r, or_status = o_status r, or_buyerId = o_buyerId r,
     or_sellerId = o_sellerId r, or_subtotalCents = o_subtotalCents r,
     or_fulfillmentFeeCents = o_fulfillmentFeeCents r, or_deliveryFeeCents = o_fulfillmentFeeCents r,
     or_platformBuyerFeeCents = o_buyerTotalCents r - o_subtotalCents r - o_fulfillmentFeeCents r,
     or_commissionCents = o_commissionCents r, or_sellerEarningsCents = o_sellerEarningsCents r,
     or_buyerTotalCents = o_buyerTotalCents r, or_commissionRateBps = o_commissionRateBps r,
     or_fulfillmentChoice = o_fulfillmentChoice r, or_dropoffAddress = dropoff,
     or_deliveryInstructions = o_deliveryInstructions r, or_deliveryTiming = o_deliveryTiming r,
     or_scheduledAt = o_scheduledAt r, or_expectedAt = o_expectedAt r, or_note = o_note r,
     or_placedAt = o_placedAt r, or_confirmedAt = o_confirmedAt r, or_readyAt = o_readyAt r,
     or_completedAt = o_completedAt r, or_cancelledAt = o_cancelledAt r,
     or_cancellationReason = o_cancellationReason r, or_items = map itemResponse (o_items r)\<rparr>"

text \<open>The expression every order route answers with; the address is the joined row.\<close>

definition orderView :: "db \<Rightarrow> order_row \<Rightarrow> order_response" where
  "orderView s r = orderResponse r
    (map_option (\<lambda>a. addressResponse a None)
      (Option.bind (o_dropoffAddressId r) (\<lambda>i. findRow ad_id i (t_addresses s))))"

record delivery_response =
  dr_id :: id
  dr_status :: delivery_status
  dr_orderId :: id
  dr_orderNumber :: string
  dr_orderStatus :: order_status
  dr_driverId :: "id option"
  dr_driverPayoutCents :: int
  dr_pickupNeighborhood :: "string option"
  dr_dropoffCity :: string
  dr_dropoffPostalCode :: string
  dr_pickup :: "point option"
  dr_dropoff :: "point option"
  dr_dropoffFullAddress :: "string option"
  dr_sellerName :: "string option"
  dr_recipientName :: "string option"
  dr_orderTotalCents :: "int option"
  dr_placedAt :: "time option"
  dr_itemCount :: "int option"
  dr_driverAssignedAt :: "time option"
  dr_pickedUpAt :: "time option"
  dr_deliveredAt :: "time option"

definition deliveryResponse :: "delivery_row \<Rightarrow> order_row \<Rightarrow> seller_row \<Rightarrow> address_row option
    \<Rightarrow> enrichment option \<Rightarrow> delivery_response" where
  "deliveryResponse d r sel address e =
    \<lparr>dr_id = d_id d, dr_status = d_status d, dr_orderId = d_orderId d,
     dr_orderNumber = o_orderNumber r, dr_orderStatus = o_status r, dr_driverId = d_driverId d,
     dr_driverPayoutCents = o_fulfillmentFeeCents r, dr_pickupNeighborhood = sp_neighborhood sel,
     dr_dropoffCity = (case address of None \<Rightarrow> [] | Some a \<Rightarrow> ad_city (ad_data a)),
     dr_dropoffPostalCode = (case Option.bind address (\<lambda>a. ad_postalCode (ad_data a)) of
        None \<Rightarrow> [] | Some t \<Rightarrow> t),
     dr_pickup = Option.bind e en_pickup, dr_dropoff = Option.bind e en_dropoff,
     dr_dropoffFullAddress = map_option en_dropoffFullAddress e,
     dr_sellerName = Option.bind e en_sellerName, dr_recipientName = Option.bind e en_recipientName,
     dr_orderTotalCents = map_option en_orderTotalCents e, dr_placedAt = map_option en_placedAt e,
     dr_itemCount = map_option en_itemCount e, dr_driverAssignedAt = d_driverAssignedAt d,
     dr_pickedUpAt = d_pickedUpAt d, dr_deliveredAt = d_deliveredAt d\<rparr>"

text \<open>The row with the relations the services include; a row without its order or its seller
  cannot be read, which the foreign keys rule out.\<close>

definition deliveryView :: "db \<Rightarrow> delivery_row \<times> enrichment option \<Rightarrow> exn + delivery_response" where
  "deliveryView s de =
    (case getOrder s (d_orderId (fst de)) of None \<Rightarrow> Inl UncaughtError | Some r \<Rightarrow>
     (case getSeller s (o_sellerId r) of None \<Rightarrow> Inl UncaughtError | Some sel \<Rightarrow>
       Inr (deliveryResponse (fst de) r sel
         (Option.bind (o_dropoffAddressId r) (\<lambda>i. findRow ad_id i (t_addresses s))) (snd de))))"

fun deliveryViews :: "db \<Rightarrow> (delivery_row \<times> enrichment option) list \<Rightarrow> exn + delivery_response list" where
  "deliveryViews s [] = Inr []"
| "deliveryViews s (de # des) =
    (case deliveryView s de of Inl e \<Rightarrow> Inl e | Inr v \<Rightarrow>
     (case deliveryViews s des of Inl e \<Rightarrow> Inl e | Inr vs \<Rightarrow> Inr (v # vs)))"

subsection \<open>The order routes\<close>

record list_query =
  lq_status :: "order_status option"
  lq_limit :: "nat option"
  lq_offset :: "nat option"

definition orElseNat :: "nat option \<Rightarrow> nat \<Rightarrow> nat" where
  "orElseNat x d = (case x of None \<Rightarrow> d | Some n \<Rightarrow> n)"

record order_page =
  pg_items :: "order_response list"
  pg_limit :: nat
  pg_offset :: nat
  pg_hasMore :: bool

datatype order_query =
  GetMyOrders list_query | GetSellerOrders list_query | GetPickupQr id | GetDeliveryQr id
  | GetDeliveryProof id | GetOrder id | GetTracking id

datatype order_command =
  PostOrder "string option" create_order_dto | PostConfirmPayment id | PostStartPreparing id
  | PostMarkReady id | PostConfirmPickup id | PostCancel id string
  | PostNoDriverDecision id no_driver_decision | PostCannotProvide id cannot_provide_dto
  | PostDispute id create_dispute_dto

datatype order_answer =
  Created string | OrderPage order_page | Qr qr_payload | Proof delivery_proof
  | OneOrder order_response | Track tracking | Dispute dispute_row

text \<open>A service result, turned into the route's answer; the view reads the state after the call.\<close>

definition answerWith :: "(db \<Rightarrow> 'a \<Rightarrow> 'b) \<Rightarrow> (exn, 'a, db) result \<Rightarrow> (exn, 'b, db) result" where
  "answerWith f r = bindR r (\<lambda>x t. ok (f t x) t)"

definition orderPage :: "db \<Rightarrow> list_query \<Rightarrow> order_row list \<times> bool \<Rightarrow> order_page" where
  "orderPage s q x = \<lparr>pg_items = map (orderView s) (fst x), pg_limit = orElseNat (lq_limit q) 20,
     pg_offset = orElseNat (lq_offset q) 0, pg_hasMore = snd x\<rparr>"

definition oneOrder :: "(exn, order_row, db) result \<Rightarrow> (exn, order_answer, db) result" where
  "oneOrder = answerWith (\<lambda>t r. OneOrder (orderView t r))"

definition orderQuery :: "env \<Rightarrow> id \<Rightarrow> order_query \<Rightarrow> db \<Rightarrow> (exn, order_answer, db) result" where
  "orderQuery env uid q s =
    (let limit = (\<lambda>x. orElseNat (lq_limit x) 20); offset = (\<lambda>x. orElseNat (lq_offset x) 0)
     in case q of
       GetMyOrders x \<Rightarrow> answerWith (\<lambda>t p. OrderPage (orderPage t x p))
         (liftE (listForBuyer uid (lq_status x) (limit x) (offset x) s) s)
     | GetSellerOrders x \<Rightarrow> answerWith (\<lambda>t p. OrderPage (orderPage t x p))
         (liftE (listForSeller uid (lq_status x) (limit x) (offset x) s) s)
     | GetPickupQr i \<Rightarrow> answerWith (\<lambda>_. Qr) (getSellerPickupQr env uid i s)
     | GetDeliveryQr i \<Rightarrow> answerWith (\<lambda>_. Qr) (getBuyerDeliveryQr env uid i s)
     | GetDeliveryProof i \<Rightarrow> answerWith (\<lambda>_. Proof) (liftE (getOrderDeliveryProof uid i s) s)
     | GetOrder i \<Rightarrow> oneOrder (liftE (findOrderById uid i s) s)
     | GetTracking i \<Rightarrow> answerWith (\<lambda>_. Track) (liftE (getTracking uid i s) s))"

definition orderCommand :: "idem_codec \<Rightarrow> env \<Rightarrow> id \<Rightarrow> order_command \<Rightarrow> db \<Rightarrow> (exn, order_answer, db) result" where
  "orderCommand cod env uid q s =
    (case q of
       PostOrder key dto \<Rightarrow> answerWith (\<lambda>_. Created) (ordersCreate cod env uid key dto s)
     | PostConfirmPayment i \<Rightarrow> oneOrder (confirmPaymentForBuyer env uid i s)
     | PostStartPreparing i \<Rightarrow> oneOrder (startPreparing uid i s)
     | PostMarkReady i \<Rightarrow> oneOrder (markReady env uid i s)
     | PostConfirmPickup i \<Rightarrow> oneOrder (confirmPickup env uid i s)
     | PostCancel i why \<Rightarrow> oneOrder (cancelAsSeller env uid i why s)
     | PostNoDriverDecision i d \<Rightarrow> oneOrder (decideNoDriver env uid i d s)
     | PostCannotProvide i dto \<Rightarrow> oneOrder (sellerCannotProvide env uid i dto s)
     | PostDispute i dto \<Rightarrow> answerWith (\<lambda>_. Dispute) (createDispute env uid i dto s))"

subsection \<open>The delivery routes\<close>

record delivery_query =
  dq_status :: "delivery_status option"
  dq_limit :: "nat option"
  dq_offset :: "nat option"

datatype driver_status = PostOnline bool "js_number option" "js_number option" | PostLocation js_number js_number

datatype delivery_read = GetAvailable delivery_query | GetMyDeliveries delivery_query | GetDelivery id

datatype delivery_command =
  PostClaim id | PostArrivePickup id | PostScanPickup id scan_dto | PostScanDelivery id scan_dto
  | PostAbsentDropoff id absent_dto | PostSellerUnavailable id unavailable_dto | PostIssue id issue_dto

datatype delivery_answer =
  NoContent | Location "bool \<times> id option" | DeliveryPage "delivery_response list" nat nat bool
  | OneDelivery delivery_response | Issue "id \<times> issue_severity"

text \<open>A row from the service, with no enrichment.\<close>

definition oneDelivery :: "(exn, delivery_row, db) result \<Rightarrow> (exn, delivery_answer, db) result" where
  "oneDelivery r = bindR r (\<lambda>d t. bindR (liftE (deliveryView t (d, None)) t) (\<lambda>v t. ok (OneDelivery v) t))"

definition deliveryPage :: "delivery_query \<Rightarrow> db \<Rightarrow> exn + ((delivery_row \<times> enrichment option) list \<times> bool)
    \<Rightarrow> (exn, delivery_answer, db) result" where
  "deliveryPage q s r = bindR (liftE r s) (\<lambda>x s. bindR (liftE (deliveryViews s (fst x)) s) (\<lambda>vs s.
     ok (DeliveryPage vs (orElseNat (dq_limit q) 20) (orElseNat (dq_offset q) 0) (snd x)) s))"

definition driverStatus :: "env \<Rightarrow> id \<Rightarrow> driver_status \<Rightarrow> db \<Rightarrow> (exn, delivery_answer, db) result" where
  "driverStatus env uid q s =
    (case q of
       PostOnline b lat lng \<Rightarrow> answerWith (\<lambda>_ _. NoContent) (setOnline env uid b lat lng s)
     | PostLocation lat lng \<Rightarrow> answerWith (\<lambda>_. Location) (recordLocation env uid lat lng s))"

definition deliveryRead :: "(point \<Rightarrow> point \<Rightarrow> rat) \<Rightarrow> id \<Rightarrow> delivery_read \<Rightarrow> db \<Rightarrow> (exn, delivery_answer, db) result" where
  "deliveryRead gap uid q s =
    (case q of
       GetAvailable x \<Rightarrow> deliveryPage x s
         (listAvailable gap uid (orElseNat (dq_limit x) 20) (orElseNat (dq_offset x) 0) s)
     | GetMyDeliveries x \<Rightarrow> deliveryPage x s (map_sum id (\<lambda>(ds, more). (map (\<lambda>d. (d, None)) ds, more))
         (listMine uid (dq_status x) (orElseNat (dq_limit x) 20) (orElseNat (dq_offset x) 0) s))
     | GetDelivery i \<Rightarrow> oneDelivery (liftE (findDeliveryById uid i s) s))"

definition deliveryCommand :: "env \<Rightarrow> id \<Rightarrow> delivery_command \<Rightarrow> db \<Rightarrow> (exn, delivery_answer, db) result" where
  "deliveryCommand env uid q s =
    (case q of
       PostClaim i \<Rightarrow> oneDelivery (claim env uid i s)
     | PostArrivePickup i \<Rightarrow> oneDelivery (arriveAtPickup uid i s)
     | PostScanPickup i dto \<Rightarrow> oneDelivery (confirmDriverPickup env uid i dto s)
     | PostScanDelivery i dto \<Rightarrow> oneDelivery (confirmDelivery env uid i dto s)
     | PostAbsentDropoff i dto \<Rightarrow> oneDelivery (confirmAbsentDropoff env uid i dto s)
     | PostSellerUnavailable i dto \<Rightarrow> oneDelivery (reportSellerUnavailable env uid i dto s)
     | PostIssue i dto \<Rightarrow> answerWith (\<lambda>_. Issue) (reportIssue env uid i dto s))"

text \<open>A request to either controller, through the guards: no route declares roles or is public.\<close>

datatype route =
  OrderQuery order_query | OrderCommand order_command
  | DriverStatus driver_status | DeliveryRead delivery_read | DeliveryCommand delivery_command

definition routeHandler :: "idem_codec \<Rightarrow> (point \<Rightarrow> point \<Rightarrow> rat) \<Rightarrow> env \<Rightarrow> id \<Rightarrow> route \<Rightarrow> db
    \<Rightarrow> (exn, order_answer + delivery_answer, db) result" where
  "routeHandler cod gap env uid q s =
    (case q of
       OrderQuery r \<Rightarrow> answerWith (\<lambda>_. Inl) (orderQuery env uid r s)
     | OrderCommand r \<Rightarrow> answerWith (\<lambda>_. Inl) (orderCommand cod env uid r s)
     | DriverStatus r \<Rightarrow> answerWith (\<lambda>_. Inr) (driverStatus env uid r s)
     | DeliveryRead r \<Rightarrow> answerWith (\<lambda>_. Inr) (deliveryRead gap uid r s)
     | DeliveryCommand r \<Rightarrow> answerWith (\<lambda>_. Inr) (deliveryCommand env uid r s))"

definition routeServe :: "idem_codec \<Rightarrow> (point \<Rightarrow> point \<Rightarrow> rat) \<Rightarrow> env \<Rightarrow> (string \<Rightarrow> exn + jwt_user) \<Rightarrow>
    string option \<Rightarrow> route \<Rightarrow> db \<Rightarrow> (int \<times> error_code, order_answer + delivery_answer, db) result" where
  "routeServe cod gap env verify bearer q s = serve [] False verify bearer
     (\<lambda>user t. routeHandler cod gap env (case user of None \<Rightarrow> [] | Some u \<Rightarrow> ju_id u) q t) s"

subsection \<open>Who moves an order\<close>

text \<open>The buyer and the seller of an order, and a driver its delivery is assigned to.\<close>

definition party :: "db \<Rightarrow> id \<Rightarrow> id \<Rightarrow> bool" where
  "party s uid oid \<longleftrightarrow> (\<exists>u r. getUserBySupabase s uid = Some u \<and> getOrder s oid = Some r \<and>
     (u_id u = o_buyerId r \<or> u_id u = o_sellerId r \<or>
      (\<exists>d \<in> set (t_deliveries s). d_orderId d = oid \<and> d_driverId d = Some (u_id u))))"

text \<open>No life but that of one order changes, and that one only for a party.\<close>

definition touches :: "id \<Rightarrow> db \<Rightarrow> db \<Rightarrow> bool" where
  "touches oid s t \<longleftrightarrow> (\<forall>j. j \<noteq> oid \<longrightarrow> lives t j = lives s j)"

definition restricted :: "db \<Rightarrow> id \<Rightarrow> db \<Rightarrow> bool" where
  "restricted s uid t \<longleftrightarrow>
     (\<forall>oid. lives s oid \<noteq> None \<longrightarrow> lives t oid \<noteq> lives s oid \<longrightarrow> party s uid oid)"

lemma restricted_same: "lives t = lives s \<Longrightarrow> restricted s uid t"
  by (simp add: restricted_def)

lemma restrictedI:
  assumes "touches oid s t" and "getOrder s oid \<noteq> None \<Longrightarrow> party s uid oid"
  shows "restricted s uid t"
  unfolding restricted_def
proof (intro allI impI)
  fix j assume a: "lives s j \<noteq> None" "lives t j \<noteq> lives s j"
  then have "j = oid" using assms(1) by (auto simp: touches_def)
  with a(1) show "party s uid j" using assms(2) by (auto simp: lives_def)
qed

lemma seller_party:
  assumes "loadAsSeller uid oid s = Inr x"
  shows "party s uid oid"
  using assms by (auto simp: loadAsSeller_def loadOrderForSellerAction_def assertSellerUser_def party_def
      split: sum.splits option.splits if_splits)

lemma driver_party:
  assumes "loadAsDriver uid did s = Inr (v, d)" and "getOrder s (d_orderId d) \<noteq> None"
  shows "party s uid (d_orderId d)"
proof -
  from assms(1) obtain u drv where u: "assertDriver uid s = Inr (u, drv)" "v = dp_userId drv"
      "getDelivery s did = Some d" "d_driverId d = Some (dp_userId drv)"
    by (auto simp: loadAsDriver_def loadDeliveryForDriver_def split: sum.splits option.splits if_splits)
  have "d \<in> set (t_deliveries s)" using u(3) by (auto simp: getDelivery_def dest: findRow_Some_set)
  with assertDriver_Inr [OF u(1)] u(4) assms(2) show ?thesis by (auto simp: party_def)
qed

lemma touches_refl [simp]: "touches oid s s"
  by (simp add: touches_def)

lemma touches_seller:
  "touches oid s (snd (transitionAsSeller uid oid from to (\<lambda>r. r) s))"
  "touches oid s (snd (startPreparing uid oid s))" "touches oid s (snd (markReady env uid oid s))"
  by (simp_all add: touches_def transitionAsSeller_def startPreparing_def markReady_def snd_bindR Let_def
      placid split: sum.split prod.split)

lemma touches_cancel: "touches oid s (snd (cancelAsSeller env uid oid why s))"
proof (cases "getOrder s oid")
  case None
  then have "transaction (cancelAsSellerTx env oid why) s = fail (NotFound AnOrder) s"
    by (intro transaction_fail) (simp add: cancelAsSellerTx_def)
  then show ?thesis by (simp add: cancelAsSeller_def commitCancelAsSeller_def split: sum.split)
next
  case (Some ord)
  then have "transaction (cancelAsSellerTx env oid why) s = ok () (if o_status ord \<notin> set cancellableFrom then s
      else updOrder oid (cancelRow (e_now env) why) (restock ord s))"
    by (intro transaction_ok) (simp add: cancelAsSellerTx_def)
  then show ?thesis
    by (simp add: touches_def cancelAsSeller_def commitCancelAsSeller_def Let_def placid split: sum.split)
qed

text \<open>The seller's routes.\<close>

lemma restricted_seller:
  "restricted s uid (snd (startPreparing uid oid s))" "restricted s uid (snd (markReady env uid oid s))"
  "restricted s uid (snd (cancelAsSeller env uid oid why s))"
proof -
  have party: "restricted s uid t" if "touches oid s t" "\<And>e. loadAsSeller uid oid s = Inl e \<Longrightarrow> t = s" for t
    using that seller_party [of uid oid s]
    by (cases "loadAsSeller uid oid s") (auto intro: restrictedI restricted_same)
  show "restricted s uid (snd (startPreparing uid oid s))"
    by (rule party) (simp_all add: touches_seller, simp add: startPreparing_def transitionAsSeller_def)
  show "restricted s uid (snd (markReady env uid oid s))"
    by (rule party) (simp_all add: touches_seller, simp add: markReady_def)
  show "restricted s uid (snd (cancelAsSeller env uid oid why s))"
    by (rule party) (simp_all add: touches_cancel, simp add: cancelAsSeller_def checkCancelAsSeller_def)
qed

lemma restricted_cannotProvide: "restricted s uid (snd (sellerCannotProvide env uid oid dto s))"
proof -
  have tx: "lives (cannotProvideTx env ord dlv s) = (lives s)(o_id ord := map_option (\<lambda>r. lifeRow (cancelRow (e_now env)
      ''seller_cannot_provide'' r)) (getOrder s (o_id ord)))" for ord dlv
    by (simp add: cannotProvideTx_def Let_def placid cancelRow_def split: option.split)
  have n: "lives (cannotProvideNotify ord dlv x) = lives x" for ord dlv x
    by (simp add: cannotProvideNotify_def Let_def placid split: option.split)
  have "touches oid s (snd (sellerCannotProvide env uid oid dto s))"
    using getOrder_id [of s oid]
    by (simp add: touches_def sellerCannotProvide_def Let_def tx n placid split: sum.split option.split)
  moreover have "party s uid oid \<or> snd (sellerCannotProvide env uid oid dto s) = s"
    by (auto simp: sellerCannotProvide_def assertSellerUser_def party_def split: sum.split option.split)
  ultimately show ?thesis by (metis restrictedI restricted_same)
qed

text \<open>The buyer's routes.\<close>

lemma buyer_party: "getUserBySupabase s uid = Some u \<Longrightarrow> getOrder s oid = Some r \<Longrightarrow> o_buyerId r = u_id u \<Longrightarrow> party s uid oid"
  by (auto simp: party_def)

lemma restricted_buyer:
  assumes "touches oid s t" and "getUserBySupabase s uid = None \<Longrightarrow> t = s"
    and "\<And>u r. getUserBySupabase s uid = Some u \<Longrightarrow> getOrder s oid = Some r \<Longrightarrow> o_buyerId r \<noteq> u_id u \<Longrightarrow> t = s"
  shows "restricted s uid t"
proof (cases "getOrder s oid")
  case None
  then show ?thesis by (intro restrictedI [OF assms(1)]) simp
next
  case (Some r)
  show ?thesis
  proof (cases "getUserBySupabase s uid")
    case None
    with assms(2) show ?thesis by (simp add: restricted_same)
  next
    case u: (Some u)
    show ?thesis
    proof (cases "o_buyerId r = u_id u")
      case True
      with u Some show ?thesis using assms(1) by (blast intro: restrictedI buyer_party)
    next
      case False
      with assms(3) [OF u Some] show ?thesis by (simp add: restricted_same)
    qed
  qed
qed

lemma touches_payment: "touches oid s (snd (confirmPaymentForBuyer env uid oid s))"
  using getOrder_id [of s oid]
  by (simp add: touches_def confirmPaymentForBuyer_def confirmOrderPaid_def Let_def placid split: option.split)

lemma touches_decide: "touches oid s (snd (decideNoDriver env uid oid dec s))"
proof -
  have "lives (switchOrderToPickup env ord dlv x) j = lives x j" if "j \<noteq> o_id ord" for ord dlv x j
    using that by (simp add: switchOrderToPickup_def Let_def placid split: option.split)
  moreover have "lives (cancelNoDriverOrder env oid why x) j = lives x j" if "j \<noteq> oid" for x j why
    using that by (simp add: cancelNoDriverOrder_def Let_def placid cancelRow_def split: option.split)
  ultimately show ?thesis
    using getOrder_id [of s oid]
    by (simp add: touches_def decideNoDriver_def Let_def placid split: option.split no_driver_decision.split)
qed

lemma lives_dispute_other: "j \<noteq> oid \<Longrightarrow> lives (refundForDispute env oid x) j = lives x j"
  by (simp add: refundForDispute_def placid)

lemma touches_dispute: "touches oid s (snd (createDispute env uid oid dto s))"
  using getOrder_id [of s oid]
  by (simp add: touches_def createDispute_def fileDispute_def Let_def placid lives_dispute_other
      split: option.split sum.split)

lemma restricted_buyer_routes:
  "restricted s uid (snd (confirmPaymentForBuyer env uid oid s))"
  "restricted s uid (snd (decideNoDriver env uid oid dec s))"
  "restricted s uid (snd (createDispute env uid oid dto s))"
proof -
  show "restricted s uid (snd (confirmPaymentForBuyer env uid oid s))"
    by (rule restricted_buyer [OF touches_payment]) (simp_all add: confirmPaymentForBuyer_def)
  show "restricted s uid (snd (decideNoDriver env uid oid dec s))"
    by (rule restricted_buyer [OF touches_decide]) (simp_all add: decideNoDriver_def)
  show "restricted s uid (snd (createDispute env uid oid dto s))"
    by (rule restricted_buyer [OF touches_dispute]) (simp_all add: createDispute_def)
qed

lemma lives_deliver_other: "j \<noteq> oid \<Longrightarrow> lives (deliverOrder oid x) j = lives x j"
  by (simp add: deliverOrder_def placid)

lemma restricted_confirmPickup: "restricted s uid (snd (confirmPickup env uid oid s))"
proof -
  have "touches oid s (snd (confirmPickup env uid oid s))"
    by (simp add: touches_def confirmPickup_def placid lives_deliver_other split: sum.split option.split)
  moreover have "party s uid oid \<or> snd (confirmPickup env uid oid s) = s"
    by (auto simp: confirmPickup_def assertSellerUser_def party_def split: sum.split option.split)
  ultimately show ?thesis by (metis restrictedI restricted_same)
qed

lemma restricted_create: "restricted s uid (snd (createOrder env uid dto s))"
proof -
  have app: "lives (s\<lparr>t_listings := ls, t_orders := t_orders s @ [r]\<rparr>) j = lives s j" if "lives s j \<noteq> None" for s ls r j
    using that by (auto simp: lives_def getOrder_def findRow_append)
  have un: "lives t = lives s" if "untouched s t" for s t using that by (intro lives_cong) (simp add: untouched_def)
  have pay: "lives t = lives s" if "payOrder env ord s = (r, t)" for s ord r t
    using that by (auto simp: payOrder_def finishOrder_def backfillPaymentIntent_def Let_def fail_eq_iff
        ok_eq_iff placid split: sum.splits if_splits)
  obtain r s' where run: "createOrder env uid dto s = (r, s')" by force
  then show ?thesis
  proof (rule createOrder_result)
    fix e assume "untouched s s'"
    with run show ?thesis by (simp add: un restricted_same)
  next
    fix buyer cart dropoff totals s1 ord s2
    assume u: "untouched s s1" and p: "placeOrder env (u_id buyer) cart dropoff dto totals s1 = (Inr ord, s2)"
      and py: "payOrder env ord (recordTermsAcceptance (u_id buyer) s2) = (r, s')"
    have "lives (recordTermsAcceptance v s2) = lives s2" for v
      using recordTermsAcceptance_eq [of v s2] by (intro lives_cong) auto
    moreover have "lives s2 j = lives s1 j" if "lives s1 j \<noteq> None" for j
      using p by (rule placeOrder_Inr) (simp add: app that)
    ultimately show ?thesis using run un [OF u] pay [OF py] by (simp add: restricted_def)
  qed
qed

text \<open>The driver's routes.\<close>

lemma restricted_driver:
  assumes "\<And>v d. loadAsDriver uid did s = Inr (v, d) \<Longrightarrow> touches (d_orderId d) s t"
    and "\<And>e. loadAsDriver uid did s = Inl e \<Longrightarrow> t = s"
  shows "restricted s uid t"
proof (cases "loadAsDriver uid did s")
  case (Inl e)
  with assms(2) show ?thesis by (simp add: restricted_same)
next
  case (Inr x)
  obtain v d where x: "x = (v, d)" by force
  from assms(1) [OF Inr [unfolded x]] driver_party [OF Inr [unfolded x]] show ?thesis by (rule restrictedI)
qed

lemma lives_delivered_other: "j \<noteq> oid \<Longrightarrow> lives (snd (confirmDeliveredByDriver env oid x)) j = lives x j"
  by (simp add: confirmDeliveredByDriver_def Let_def placid lives_deliver_other split: option.split)

lemma lives_unavailable_other: "j \<noteq> oid \<Longrightarrow> lives (snd (cancelForSellerUnavailable env oid v x)) j = lives x j"
  by (simp add: cancelForSellerUnavailable_def Let_def placid cancelRow_def split: option.split)

lemma restricted_driver_routes:
  "restricted s uid (snd (confirmDriverPickup env uid did sc s))"
  "restricted s uid (snd (confirmDelivery env uid did sc s))"
  "restricted s uid (snd (confirmAbsentDropoff env uid did ab s))"
  "restricted s uid (snd (reportSellerUnavailable env uid did un s))"
proof -
  show "restricted s uid (snd (confirmDriverPickup env uid did sc s))"
    by (rule restricted_driver [of uid did])
      (simp_all add: touches_def confirmDriverPickup_def Let_def placid split: option.split)
  show "restricted s uid (snd (confirmDelivery env uid did sc s))"
    by (rule restricted_driver [of uid did])
      (simp_all add: touches_def confirmDelivery_def snd_bindR Let_def split_beta placid lives_delivered_other
        split: option.split sum.split)
  show "restricted s uid (snd (confirmAbsentDropoff env uid did ab s))"
    by (rule restricted_driver [of uid did])
      (simp_all add: touches_def confirmAbsentDropoff_def snd_bindR Let_def split_beta placid lives_delivered_other
        split: option.split sum.split)
  show "restricted s uid (snd (reportSellerUnavailable env uid did un s))"
    by (rule restricted_driver [of uid did])
      (simp_all add: touches_def reportSellerUnavailable_def snd_bindR Let_def split_beta placid
        lives_unavailable_other split: option.split sum.split)
qed

subsection \<open>All routes together\<close>

lemma liftE_state [simp]: "snd (liftE r s) = s"
  by (cases r) simp_all

lemma answerWith_state [simp]: "snd (answerWith f r) = snd r"
  by (cases r; cases "fst r") (auto simp: answerWith_def)

lemma lives_idem_save [placid]: "lives (snd (idem_save sha env sb key body st resp s)) = lives s"
proof -
  have "lives (s\<lparr>t_idempotency := x\<rparr>) = lives s" for x by (rule lives_cong) simp
  then show ?thesis by (simp add: idem_save_def split: sum.split)
qed

lemma restricted_ordersCreate: "restricted s uid (snd (ordersCreate cod env uid key dto s))"
  using restricted_create [of s uid env dto]
  by (simp add: ordersCreate_def ordersCreateWork_def snd_bindR restricted_def Let_def placid split_beta
      split: sum.split option.split)

lemma oneDelivery_state [simp]: "snd (oneDelivery r) = snd r"
  by (cases r; cases "fst r") (auto simp: oneDelivery_def snd_bindR split: sum.split)

lemma deliveryPage_state [simp]: "snd (deliveryPage q s r) = s"
  by (auto simp: deliveryPage_def snd_bindR split: sum.split)

lemma restricted_routes: "restricted s uid (snd (routeHandler cod gap env uid q s))"
proof (cases q)
  case (OrderQuery r)
  then show ?thesis by (cases r) (simp_all add: routeHandler_def orderQuery_def oneOrder_def Let_def restricted_same placid)
next
  case (OrderCommand r)
  then show ?thesis
    by (cases r) (simp_all add: routeHandler_def orderCommand_def oneOrder_def restricted_ordersCreate restricted_seller
        restricted_cannotProvide restricted_buyer_routes restricted_confirmPickup)
next
  case (DriverStatus r)
  then show ?thesis by (cases r) (simp_all add: routeHandler_def driverStatus_def restricted_same placid)
next
  case (DeliveryRead r)
  then show ?thesis by (cases r) (simp_all add: routeHandler_def deliveryRead_def restricted_same)
next
  case (DeliveryCommand r)
  then show ?thesis
    by (cases r) (simp_all add: routeHandler_def deliveryCommand_def restricted_same restricted_driver_routes placid)
qed

lemma serve_open:
  "serve [] False verify bearer h s = (case caller verify bearer of
     None \<Rightarrow> fail (401, EC_Unauthorized) s | Some j \<Rightarrow> answered (h (Some j) s))"
  by (auto simp: serve_def jwtGuard_def caller_def rolesGuard_def guard_payloads answer_of
      split: option.split sum.split)

text \<open>C7: The controllers of orders and deliveries declare no role, yet the services let nobody
  else in: whatever request of whatever token changes the status or the fulfilment of an
  existing order, the caller is its buyer, its seller or the driver its delivery is assigned to.\<close>

theorem order_moved_by_parties:
  assumes "lives s oid = Some a"
    and "lives (snd (routeServe cod gap env verify bearer q s)) oid \<noteq> Some a"
  shows "\<exists>j. caller verify bearer = Some j \<and> party s (ju_id j) oid"
proof (cases "caller verify bearer")
  case None
  with assms show ?thesis by (simp add: routeServe_def serve_open)
next
  case (Some j)
  have "restricted s (ju_id j) (snd (routeServe cod gap env verify bearer q s))"
    using restricted_routes by (simp add: routeServe_def serve_open Some answered_def)
  with assms Some show ?thesis by (auto simp: restricted_def)
qed

abbreviation demo_verify :: "string \<Rightarrow> exn + jwt_user" where
  "demo_verify t \<equiv> Inr \<lparr>ju_id = t, ju_email = None, ju_phone = None, ju_role = R_Buyer\<rparr>"

definition paid_db :: db where
  "paid_db = exec later_env (OrderReq (ConfirmPayment ''bb'' ''o'')) placed"

definition demo_codec :: idem_codec where
  "demo_codec = \<lparr>ic_sha = (\<lambda>t. t), ic_stringify = (\<lambda>_. ''order''), ic_render = (\<lambda>_. ''answer'')\<rparr>"

theorem order_moved_by_parties_witness: "party paid_db ''sb'' ''o''"
proof -
  have run: "lives (snd (routeServe demo_codec (\<lambda>_ _. 0) later_env demo_verify (Some ''sb'')
      (OrderCommand (PostStartPreparing ''o'')) paid_db)) ''o'' \<noteq> Some (O_Confirmed, F_Delivery)"
    by code_simp
  have "lives paid_db ''o'' = Some (O_Confirmed, F_Delivery)" by code_simp
  from order_moved_by_parties [OF this run] show ?thesis by (simp add: caller_def)
qed

end
