(* ===== verification/Account_Routes.thy ===== *)
theory Account_Routes
  imports Routes Users
begin

section \<open>The endpoints of sign-in and of the own account\<close>

text \<open>
  \<open>src/modules/auth/auth.controller.ts\<close> and \<open>src/modules/users/users.controller.ts\<close>: one
  constructor per route, the routes marked \<open>@Public\<close>, the service call and the view
  (\<open>user-response.dto.ts\<close> and the profile views under it). What Supabase and Prelude answer is a
  record of answers; the routes that return before asking do not look at it.
\<close>

subsection \<open>Views of a profile\<close>

definition pad2 :: "nat \<Rightarrow> string" where
  "pad2 n = [char_of (48 + n div 10), char_of (48 + n mod 10)]"

text \<open>A \<open>time\<close> column holds milliseconds of one day.\<close>

definition formatTime :: "int \<Rightarrow> string" where
  "formatTime ms = pad2 (nat (ms div 3600000 mod 24)) @ '':'' @ pad2 (nat (ms div 60000 mod 60))"

record opening_response =
  oq_dayOfWeek :: day_of_week
  oq_startTime :: string
  oq_endTime :: string

definition openingResponse :: "opening_row \<Rightarrow> opening_response" where
  "openingResponse h = \<lparr>oq_dayOfWeek = oh_dayOfWeek h, oq_startTime = formatTime (oh_startTime h),
     oq_endTime = formatTime (oh_endTime h)\<rparr>"

record buyer_response =
  br_defaultAddress :: "address_response option"
  br_dietaryTags :: "dietary_tag list"
  br_allergens :: "allergen list"

definition buyerResponse :: "buyer_row \<Rightarrow> address_response option \<Rightarrow> buyer_response" where
  "buyerResponse p address = \<lparr>br_defaultAddress = address, br_dietaryTags = bp_dietaryPreferences p,
     br_allergens = bp_allergies p\<rparr>"

text \<open>
  The remaining columns of the views are written by no service and stay at the schema's defaults:
  \<open>languageCodes\<close>, \<open>availabilitySchedule\<close>, \<open>verifications\<close>, \<open>promoText\<close> and \<open>categoryTag\<close> of a
  seller, the three commitments, \<open>averageRating\<close> and \<open>totalDeliveries\<close> of a driver; and
  \<open>createdAt\<close> of a user is not in the model.
\<close>

record seller_response =
  slr_category :: "seller_category option"
  slr_displayName :: "string option"
  slr_bio :: "string option"
  slr_profilePhotoUrl :: "string option"
  slr_dateOfBirth :: "time option"
  slr_pickupAddress :: "address_response option"
  slr_businessName :: "string option"
  slr_siret :: "string option"
  slr_facadeUrl :: "string option"
  slr_cuisineTypes :: "cuisine_type list"
  slr_dishTypes :: "dish_type list"
  slr_hygieneCommitment :: "bool option"
  slr_faitMaisonCommitment :: "bool option"
  slr_deliveryRadiusKm :: "rat option"
  slr_deliveryFeeCents :: "int option"
  slr_prepMinMinutes :: "int option"
  slr_prepMaxMinutes :: "int option"
  slr_neighborhood :: "string option"
  slr_kycStatus :: kyc_status
  slr_stripeOnboardingCompleted :: bool
  slr_subscriptionStatus :: subscription_status
  slr_subscriptionActive :: bool
  slr_subscriptionCurrentPeriodEnd :: "time option"
  slr_openingHours :: "opening_response list"

definition sellerResponse :: "time \<Rightarrow> seller_aggregate \<Rightarrow> address_response option \<Rightarrow> opening_response list
    \<Rightarrow> seller_response" where
  "sellerResponse now g pickup hours =
    (let p = sg_profile g; b = map_option fst (sg_business g) in
     \<lparr>slr_category = sp_category p, slr_displayName = sp_displayName p, slr_bio = sp_bio p,
      slr_profilePhotoUrl = sp_profilePhotoUrl p, slr_dateOfBirth = sp_dateOfBirth p,
      slr_pickupAddress = pickup, slr_businessName = map_option bu_businessName b,
      slr_siret = Option.bind b bu_siret, slr_facadeUrl = Option.bind b bu_facadeUrl,
      slr_cuisineTypes = map sc_cuisineType (sg_cuisines g), slr_dishTypes = map sd_dishType (sg_dishes g),
      slr_hygieneCommitment = sp_hygieneCommitment p, slr_faitMaisonCommitment = sp_faitMaisonCommitment p,
      slr_deliveryRadiusKm = sp_deliveryRadiusKm p, slr_deliveryFeeCents = sp_deliveryFeeCents p,
      slr_prepMinMinutes = sp_prepMinMinutes p, slr_prepMaxMinutes = sp_prepMaxMinutes p,
      slr_neighborhood = sp_neighborhood p, slr_kycStatus = sp_kycStatus p,
      slr_stripeOnboardingCompleted = sp_stripeOnboardingCompleted p,
      slr_subscriptionStatus = sp_subscriptionStatus p,
      slr_subscriptionActive = isSubscriptionActive now (sp_subscriptionStatus p) (sp_subscriptionCurrentPeriodEnd p),
      slr_subscriptionCurrentPeriodEnd = sp_subscriptionCurrentPeriodEnd p, slr_openingHours = hours\<rparr>)"

record driver_response =
  dvr_dateOfBirth :: "time option"
  dvr_baseAddress :: "address_response option"
  dvr_vehicleType :: "vehicle_type option"
  dvr_operatingZones :: "id list"
  dvr_kycStatus :: kyc_status
  dvr_stripeOnboardingCompleted :: bool
  dvr_isOnline :: bool

definition driverResponse :: "driver_row \<Rightarrow> address_response option \<Rightarrow> id list \<Rightarrow> driver_response" where
  "driverResponse p base zones = \<lparr>dvr_dateOfBirth = dp_dateOfBirth p, dvr_baseAddress = base,
     dvr_vehicleType = dp_vehicleType p, dvr_operatingZones = zones, dvr_kycStatus = dp_kycStatus p,
     dvr_stripeOnboardingCompleted = dp_stripeOnboardingCompleted p, dvr_isOnline = dp_isOnline p\<rparr>"

record user_response =
  ur_id :: id
  ur_email :: string
  ur_phone :: "string option"
  ur_role :: user_role
  ur_firstName :: string
  ur_lastName :: string
  ur_avatarPath :: "string option"
  ur_emailVerified :: bool
  ur_phoneVerified :: bool
  ur_buyerProfile :: "buyer_response option"
  ur_sellerProfile :: "seller_response option"
  ur_driverProfile :: "driver_response option"

definition userResponse :: "user_row \<Rightarrow> buyer_response option \<Rightarrow> seller_response option
    \<Rightarrow> driver_response option \<Rightarrow> user_response" where
  "userResponse u buyer seller driver =
    \<lparr>ur_id = u_id u, ur_email = u_email u, ur_phone = u_phone u, ur_role = u_role u,
     ur_firstName = u_firstName u, ur_lastName = u_lastName u, ur_avatarPath = u_avatarPath u,
     ur_emailVerified = u_emailVerified u, ur_phoneVerified = u_phoneVerified u,
     ur_buyerProfile = buyer, ur_sellerProfile = seller, ur_driverProfile = driver\<rparr>"

definition toUserResponse :: "time \<Rightarrow> user_aggregate \<Rightarrow> user_response" where
  "toUserResponse now g = userResponse (ua_user g)
     (map_option (\<lambda>(p, a). buyerResponse p (map_option (\<lambda>r. addressResponse r (ua_defaultAddressCoords g)) a))
       (ua_buyerProfile g))
     (map_option (\<lambda>p. sellerResponse now p
         (map_option (\<lambda>r. addressResponse r (ua_pickupAddressCoords g)) (sg_pickupAddress p))
         (case sg_business p of None \<Rightarrow> [] | Some (_, hours) \<Rightarrow> map openingResponse hours)) (ua_sellerProfile g))
     (map_option (\<lambda>(p, a, zones). driverResponse p
         (map_option (\<lambda>r. addressResponse r (ua_baseAddressCoords g)) a) zones) (ua_driverProfile g))"

subsection \<open>Signing in\<close>

text \<open>The answers of the providers to the calls a route makes.\<close>

record provider =
  pv_signUp :: "sb_answer option"
  pv_session :: sb_answer
  pv_otp :: "string \<Rightarrow> sb_answer"
  pv_update :: "sb_error option"
  pv_send :: "sb_error option"
  pv_sms :: prelude_answer
  pv_authUser :: "auth_user option"

datatype public_route =
  PostSignUp | PostSignIn | PostGoogle | PostRefresh | PostResetRequest | PostVerifyResetOtp
  | PostSocialRequestOtp string string | PostSocialVerifyOtp string

datatype auth_answer =
  Session session_response | Message string | Verified "bool \<times> string" | Synced oauth_sync "user_response option"
  | Nothing

definition publicAuth :: "provider \<Rightarrow> public_route \<Rightarrow> db \<Rightarrow> (exn, auth_answer, db) result" where
  "publicAuth pv q s =
    (case q of
       PostSignUp \<Rightarrow> answerWith (\<lambda>_. Session) (liftE (signUp (pv_signUp pv)) s)
     | PostSignIn \<Rightarrow> answerWith (\<lambda>_. Session) (liftE (signIn (pv_session pv)) s)
     | PostGoogle \<Rightarrow> answerWith (\<lambda>_. Session) (liftE (signInWithGoogle (pv_session pv)) s)
     | PostRefresh \<Rightarrow> answerWith (\<lambda>_. Session) (liftE (refreshSession (pv_session pv)) s)
     | PostResetRequest \<Rightarrow> answerWith (\<lambda>_ _. Message ''If this email exists, a reset code has been sent.'')
         (liftE (requestPasswordReset (pv_send pv)) s)
     | PostVerifyResetOtp \<Rightarrow> answerWith (\<lambda>_. Session) (liftE (verifyPasswordResetOtp (pv_session pv)) s)
     | PostSocialRequestOtp prov email \<Rightarrow> answerWith (\<lambda>_ _. Nothing) (requestSocialEmailOtp prov email (pv_send pv) s)
     | PostSocialVerifyOtp prov \<Rightarrow> answerWith (\<lambda>_. Session) (verifySocialEmailOtp prov (pv_session pv) s))"

datatype private_route =
  PostOauthSync | PostSignOut "string option" | PostUpdatePassword string
  | PostRequestEmailOtp "string option" | PostAttachEmail "string option" | PostVerifyEmailOtp "string option"
  | PostRequestPhoneOtp string | PostVerifyPhoneOtp string

definition identityOf :: "jwt_user \<Rightarrow> jwt_identity" where
  "identityOf j = \<lparr>ji_supabaseId = ju_id j, ji_email = ju_email j, ji_phone = ju_phone j\<rparr>"

definition privateAuth :: "time \<Rightarrow> provider \<Rightarrow> jwt_user \<Rightarrow> private_route \<Rightarrow> db \<Rightarrow> (exn, auth_answer, db) result" where
  "privateAuth now pv j q s =
    (case q of
       PostOauthSync \<Rightarrow> answerWith (\<lambda>_ y. Synced y (map_option (toUserResponse now) (oy_aggregate y)))
         (liftE (syncFromJwt (identityOf j) (pv_authUser pv) s) s)
     | PostSignOut header \<Rightarrow> answerWith (\<lambda>_ _. Nothing)
         (bindR (liftE (extractBearer header) s) (\<lambda>_ s. liftE (signOut (pv_update pv)) s))
     | PostUpdatePassword new \<Rightarrow> answerWith (\<lambda>_ _. Nothing) (updatePassword (ju_id j) new (pv_update pv) s)
     | PostRequestEmailOtp body \<Rightarrow> answerWith (\<lambda>_ _. Nothing)
         (postRequestEmailOtp j body (pv_update pv) (pv_send pv) s)
     | PostAttachEmail body \<Rightarrow> answerWith (\<lambda>_ _. Nothing) (postAttachEmail j body (pv_update pv) s)
     | PostVerifyEmailOtp body \<Rightarrow> answerWith (\<lambda>_. Session) (postVerifyEmailOtp j body (pv_otp pv) s)
     | PostRequestPhoneOtp phone \<Rightarrow> answerWith (\<lambda>_ _. Nothing) (requestPhoneOtp (ju_id j) phone (pv_sms pv) s)
     | PostVerifyPhoneOtp phone \<Rightarrow> answerWith (\<lambda>_. Verified)
         (verifyPhoneOtp (ju_id j) phone (pv_sms pv) (pv_update pv) s))"

subsection \<open>The own account\<close>

datatype account_route =
  PostUser create_user_dto | GetMe | GetMyOnboarding | PatchMe update_user_dto
  | PutAddress string address_data | GetAddresses | PostAddress address_data
  | PatchAddress id address_data | DeleteAddress id | PostCharter charter_kind string

datatype account_answer =
  OneUser user_response | Onboarding onboarding_state | OneAddress "address_response option"
  | Addresses "address_response list" | Removed | Charter charter_row

definition addressView :: "id \<Rightarrow> point option \<Rightarrow> db \<Rightarrow> address_response option" where
  "addressView i coords s = map_option (\<lambda>r. addressResponse r coords) (findRow ad_id i (t_addresses s))"

text \<open>
  A path segment that the lookup finds on \<open>Object.prototype\<close> goes on as a kind that is none of the
  three: it is reserved for drivers, and for a driver Prisma refuses the query.
\<close>

definition putAddress :: "env \<Rightarrow> id \<Rightarrow> string \<Rightarrow> address_data \<Rightarrow> db \<Rightarrow> (exn, account_answer, db) result" where
  "putAddress env uid raw dto s =
    (case parseAddressKind raw of
       Inl e \<Rightarrow> fail e s
     | Inr (Some kind) \<Rightarrow> answerWith (\<lambda>t i. OneAddress (addressView i (dtoPoint dto) t)) (upsertAddress env uid kind dto s)
     | Inr None \<Rightarrow>
         (case getUserBySupabase s uid of None \<Rightarrow> fail (NotFound UserProfile) s | Some user \<Rightarrow>
          if u_role user \<noteq> R_Driver then fail (BadRequest (Account (UnknownAddressKind raw))) s
          else fail PrismaValidation s))"

definition accountRoute :: "env \<Rightarrow> provider \<Rightarrow> jwt_user \<Rightarrow> account_route \<Rightarrow> db \<Rightarrow> (exn, account_answer, db) result" where
  "accountRoute env pv j q s =
    (let uid = ju_id j; user = answerWith (\<lambda>_ g. OneUser (toUserResponse (e_now env) g))
     in case q of
       PostUser dto \<Rightarrow> user (createFromJwt env (identityOf j) (pv_authUser pv) dto s)
     | GetMe \<Rightarrow> user (liftE (findBySupabaseId uid s) s)
     | GetMyOnboarding \<Rightarrow> answerWith (\<lambda>_. Onboarding) (liftE (getOnboardingState uid s) s)
     | PatchMe dto \<Rightarrow> user (updateProfile uid dto s)
     | PutAddress raw dto \<Rightarrow> putAddress env uid raw dto s
     | GetAddresses \<Rightarrow> answerWith (\<lambda>_ rows. Addresses (map (\<lambda>(a, c). addressResponse a c) rows))
         (liftE (listAddresses uid s) s)
     | PostAddress dto \<Rightarrow> answerWith (\<lambda>t (i, c). OneAddress (addressView i c t)) (createAddress env uid dto s)
     | PatchAddress i dto \<Rightarrow> answerWith (\<lambda>t (i, c). OneAddress (addressView i c t)) (updateAddressById env uid i dto s)
     | DeleteAddress i \<Rightarrow> answerWith (\<lambda>_ _. Removed) (deleteAddressById env uid i s)
     | PostCharter kind version \<Rightarrow> answerWith (\<lambda>_. Charter) (recordCharter uid kind version s))"

text \<open>All of them behind the guards; a route without a user cannot reach a private handler.\<close>

datatype account_request = PublicRoute public_route | PrivateRoute private_route | AccountRoute account_route

definition accountServe :: "env \<Rightarrow> provider \<Rightarrow> (string \<Rightarrow> exn + jwt_user) \<Rightarrow> string option \<Rightarrow> account_request
    \<Rightarrow> db \<Rightarrow> (int \<times> error_code, auth_answer + account_answer, db) result" where
  "accountServe env pv verify bearer q s =
    serve [] (case q of PublicRoute _ \<Rightarrow> True | _ \<Rightarrow> False) verify bearer
      (\<lambda>user t. case q of
         PublicRoute r \<Rightarrow> answerWith (\<lambda>_. Inl) (publicAuth pv r t)
       | PrivateRoute r \<Rightarrow> (case user of None \<Rightarrow> fail UncaughtError t
           | Some j \<Rightarrow> answerWith (\<lambda>_. Inl) (privateAuth (e_now env) pv j r t))
       | AccountRoute r \<Rightarrow> (case user of None \<Rightarrow> fail UncaughtError t
           | Some j \<Rightarrow> answerWith (\<lambda>_. Inr) (accountRoute env pv j r t))) s"

subsection \<open>Nobody else's account\<close>

text \<open>
  What belongs to others: the accounts of other identities and the addresses of other accounts,
  \<open>me\<close> being the caller's account if there is one.
\<close>

definition foreign :: "id \<Rightarrow> id option \<Rightarrow> db \<Rightarrow> user_row list \<times> address_row list" where
  "foreign uid me s = (filter (\<lambda>u. u_supabaseId u \<noteq> uid) (t_users s),
     filter (\<lambda>a. Some (ad_userId a) \<noteq> me) (t_addresses s))"

definition myId :: "id \<Rightarrow> db \<Rightarrow> id option" where
  "myId uid s = map_option u_id (getUserBySupabase s uid)"

lemma filter_updRow:
  "(\<And>r. r \<in> set rows \<Longrightarrow> key r = k \<Longrightarrow> \<not> P r \<and> \<not> P (f r)) \<Longrightarrow> filter P (updRow key k f rows) = filter P rows"
  by (induction rows) (auto simp: updRow_def)

lemma distinct_keyD: "distinct (map key rows) \<Longrightarrow> r \<in> set rows \<Longrightarrow> q \<in> set rows \<Longrightarrow> key r = key q \<Longrightarrow> r = q"
  by (auto simp: distinct_map dest: inj_onD)

lemma foreign_cong: "t_users t = t_users s \<Longrightarrow> t_addresses t = t_addresses s \<Longrightarrow> foreign uid me t = foreign uid me s"
  by (simp add: foreign_def)

lemma foreign_emit [simp]: "foreign uid me (emit e s) = foreign uid me s"
  by (rule foreign_cong) (simp_all add: emit_def)

lemma foreign_mine:
  assumes "\<And>u. u_supabaseId (f u) = u_supabaseId u"
  shows "foreign uid me (s\<lparr>t_users := updRow u_supabaseId uid f (t_users s)\<rparr>) = foreign uid me s"
  using assms by (simp add: foreign_def filter_updRow)

lemma foreign_auth [simp]:
  "foreign uid me (snd (adminUpdate i c v err s)) = foreign uid me s"
  "foreign uid me (snd (sendEmailOtp email b err s)) = foreign uid me s"
  "foreign uid me (snd (requestPhoneOtp i phone a s)) = foreign uid me s"
  "foreign uid me (mirrorEmailVerified uid s) = foreign uid me s"
  "foreign uid me (snd (mirrorPhone uid phone s)) = foreign uid me s"
  by (simp_all add: adminUpdate_def sendEmailOtp_def requestPhoneOtp_def mirrorEmailVerified_def mirrorPhone_def
      foreign_mine split: option.split sum.split)

lemma foreign_private:
  "foreign (ju_id j) me (snd (privateAuth now pv j q s)) = foreign (ju_id j) me s"
  by (cases q) (simp_all add: privateAuth_def updatePassword_def postRequestEmailOtp_def requestEmailOtp_def
      postAttachEmail_def attachEmail_def postVerifyEmailOtp_def verifyEmailOtp_def verifyPhoneOtp_def Let_def
      snd_bindR split_beta split: sum.split option.split)

lemma snd_transaction: "snd (transaction body s) = s \<or> snd (transaction body s) = snd (body s)"
  by (auto simp: transaction_def split: prod.split sum.split)

lemma foreign_signUp:
  "foreign (ji_supabaseId ident) me (snd (createFromJwt env ident au dto s)) = foreign (ji_supabaseId ident) me s"
proof -
  have "foreign (ji_supabaseId ident) me (snd (createAccount env (newUser env ident au dto email s) s)) =
      foreign (ji_supabaseId ident) me s" for email
    by (simp add: createAccount_def Let_def foreign_def split: user_role.split)
  then have "foreign (ji_supabaseId ident) me (snd (transaction (createAccount env (newUser env ident au dto email s)) s)) =
      foreign (ji_supabaseId ident) me s" for email
    using snd_transaction [of "createAccount env (newUser env ident au dto email s)" s] by auto
  then show ?thesis by (simp add: createFromJwt_def snd_bindR split_beta split: option.split sum.split)
qed

lemma foreign_profile:
  assumes "distinct (map u_id (t_users s))"
  shows "foreign uid me (snd (updateProfile uid dto s)) = foreign uid me s"
proof (cases "getUserBySupabase s uid")
  case (Some u)
  have u: "u \<in> set (t_users s)" "u_supabaseId u = uid"
    using Some by (auto simp: getUserBySupabase_def dest: findRow_Some_set findRow_Some_key)
  have "u_supabaseId (profileData dto r) = u_supabaseId r" for r by (simp add: profileData_def)
  then have "foreign uid me (updUser (u_id u) (profileData dto) s) = foreign uid me s"
    using u distinct_keyD [OF assms _ u(1)] by (auto simp: foreign_def updUser_def intro!: filter_updRow)
  then show ?thesis by (simp add: updateProfile_def Some Let_def)
qed (simp add: updateProfile_def)

text \<open>Writes to addresses: every row of the id is one of the caller's.\<close>

lemma foreign_updAddress:
  assumes "\<And>a. a \<in> set (t_addresses s) \<Longrightarrow> ad_id a = i \<Longrightarrow> Some (ad_userId a) = me"
    and "\<And>a. ad_userId (f a) = ad_userId a"
  shows "foreign uid me (updAddress i f s) = foreign uid me s"
  using assms by (simp add: foreign_def updAddress_def filter_updRow)

lemma foreign_point:
  assumes "\<And>a. a \<in> set (t_addresses s) \<Longrightarrow> ad_id a = i \<Longrightarrow> Some (ad_userId a) = me"
  shows "foreign uid me (writePointIfPresent i u kind dto s) = foreign uid me s"
proof -
  have "foreign uid me (updSeller j g x) = foreign uid me x" for j g x
    by (rule foreign_cong) (simp_all add: updSeller_def)
  then show ?thesis
    using foreign_updAddress [OF assms] by (simp add: writePointIfPresent_def Let_def split: option.split)
qed

lemma foreign_insert:
  assumes "insertAddress env u kind data s = (Inr i, t)" and "freshAddress env s"
  shows "foreign uid (Some u) t = foreign uid (Some u) s" and "a \<in> set (t_addresses t) \<Longrightarrow> ad_id a = i \<Longrightarrow> ad_userId a = u"
proof -
  from assms(1) have i: "i = e_ulid env ForAddress" and t: "t = s\<lparr>t_addresses := t_addresses s @
      [\<lparr>ad_id = i, ad_userId = u, ad_kind = kind, ad_data = data, ad_point = None, ad_deletedAt = None,
        ad_updatedAt = e_now env\<rparr>]\<rparr>"
    by (auto simp: insertAddress_def ok_eq_iff fail_eq_iff split: if_splits)
  show "foreign uid (Some u) t = foreign uid (Some u) s" by (simp add: t foreign_def)
  have "ad_id r \<noteq> i" if "r \<in> set (t_addresses s)" for r
    using assms(2) that i by (force simp: freshAddress_def)
  then show "a \<in> set (t_addresses t) \<Longrightarrow> ad_id a = i \<Longrightarrow> ad_userId a = u"
    by (auto simp: t dest: arg_cong [where f = ad_userId])
qed

lemma insert_fails: "insertAddress env u kind data s = (Inl e, t) \<Longrightarrow> t = s"
  by (auto simp: insertAddress_def fail_eq_iff split: if_splits)

lemma foreign_insert_point:
  assumes "freshAddress env s"
  shows "foreign uid (Some u) (snd (bindR (insertAddress env u kind data s)
    (\<lambda>i t. ok (g i t) (writePointIfPresent i u kind dto t)))) = foreign uid (Some u) s"
proof (cases "insertAddress env u kind data s")
  case (Pair r t)
  show ?thesis
  proof (cases r)
    case (Inl e)
    with Pair have "t = s" using insert_fails by blast
    with Pair Inl show ?thesis by simp
  next
    case (Inr i)
    with Pair have ins: "insertAddress env u kind data s = (Inr i, t)" by simp
    have "foreign uid (Some u) (writePointIfPresent i u kind dto t) = foreign uid (Some u) t"
      by (rule foreign_point) (simp add: foreign_insert(2) [OF ins assms])
    then show ?thesis using foreign_insert(1) [OF ins assms] by (simp add: ins)
  qed
qed

lemma foreign_edit:
  assumes "distinct (map ad_id (t_addresses s))" and "a \<in> set (t_addresses s)" and "ad_userId a = u"
    and "\<And>r. ad_userId (f r) = ad_userId r" and "\<And>r. ad_id (f r) = ad_id r"
  shows "foreign uid (Some u) (writePointIfPresent (ad_id a) u kind dto (updAddress (ad_id a) f s)) = foreign uid (Some u) s"
    and "foreign uid (Some u) (updAddress (ad_id a) f s) = foreign uid (Some u) s"
proof -
  have mine: "ad_userId r = u" if "r \<in> set (t_addresses s)" "ad_id r = ad_id a" for r
    using distinct_keyD [OF assms(1) that(1) assms(2) that(2)] assms(3) by simp
  show e: "foreign uid (Some u) (updAddress (ad_id a) f s) = foreign uid (Some u) s"
    by (rule foreign_updAddress) (simp_all add: mine assms(4))
  have "foreign uid (Some u) (writePointIfPresent (ad_id a) u kind dto (updAddress (ad_id a) f s)) =
      foreign uid (Some u) (updAddress (ad_id a) f s)"
    by (rule foreign_point) (auto simp: updAddress_def updRow_def mine assms(4,5))
  with e show "foreign uid (Some u) (writePointIfPresent (ad_id a) u kind dto (updAddress (ad_id a) f s)) =
      foreign uid (Some u) s" by simp
qed

lemma ownAddress_some:
  assumes "ownAddress i u s = Some a"
  shows "a \<in> set (t_addresses s)" "ad_userId a = u" "ad_id a = i"
  using assms by (auto simp: ownAddress_def find_Some_iff)

lemma recentAddress_some:
  assumes "recentAddress u kind s = Some a"
  shows "a \<in> set (t_addresses s)" "ad_userId a = u"
proof -
  obtain rest where e: "sort_key (\<lambda>a. - ad_updatedAt a) (filter (liveAddress u kind) (t_addresses s)) = a # rest"
    using assms by (auto simp: recentAddress_def split: list.splits)
  have "a \<in> set (sort_key (\<lambda>a. - ad_updatedAt a) (filter (liveAddress u kind) (t_addresses s)))"
    unfolding e by simp
  then show "a \<in> set (t_addresses s)" "ad_userId a = u" by (simp_all add: liveAddress_def)
qed

lemma foreign_address_routes:
  assumes "distinct (map ad_id (t_addresses s))" and "freshAddress env s" and "getUserBySupabase s uid = Some user"
  shows "foreign uid (Some (u_id user)) (snd (upsertAddress env uid kind dto s)) = foreign uid (Some (u_id user)) s"
    and "foreign uid (Some (u_id user)) (snd (createAddress env uid dto s)) = foreign uid (Some (u_id user)) s"
    and "foreign uid (Some (u_id user)) (snd (updateAddressById env uid i dto s)) = foreign uid (Some (u_id user)) s"
    and "foreign uid (Some (u_id user)) (snd (deleteAddressById env uid i s)) = foreign uid (Some (u_id user)) s"
proof -
  let ?body = "\<lambda>tx. bindR (case recentAddress (u_id user) kind s of
           Some a \<Rightarrow> ok (ad_id a) (updAddress (ad_id a) (\<lambda>r. r\<lparr>ad_data := upsertColumns dto,
             ad_updatedAt := e_now env\<rparr>) tx)
         | None \<Rightarrow> insertAddress env (u_id user) kind (upsertColumns dto) tx)
         (\<lambda>i t. ok i (writePointIfPresent i (u_id user) kind dto t))"
  have "foreign uid (Some (u_id user)) (snd (?body s)) = foreign uid (Some (u_id user)) s"
  proof (cases "recentAddress (u_id user) kind s")
    case None
    then show ?thesis using foreign_insert_point [OF assms(2)] by simp
  next
    case (Some a)
    then show ?thesis
      using foreign_edit(1) [OF assms(1) recentAddress_some [OF Some]] by simp
  qed
  then have "foreign uid (Some (u_id user)) (snd (transaction ?body s)) = foreign uid (Some (u_id user)) s"
    using snd_transaction [of ?body s] by auto
  then show "foreign uid (Some (u_id user)) (snd (upsertAddress env uid kind dto s)) = foreign uid (Some (u_id user)) s"
    by (simp add: upsertAddress_def assms(3))
  show "foreign uid (Some (u_id user)) (snd (createAddress env uid dto s)) = foreign uid (Some (u_id user)) s"
    using foreign_insert_point [OF assms(2), of uid "u_id user" "kindForRole (u_role user)" dto
        "\<lambda>i t. (i, readAddressCoords i (writePointIfPresent i (u_id user) (kindForRole (u_role user)) dto t))" dto]
    by (simp add: createAddress_def assms(3) Let_def)
  show "foreign uid (Some (u_id user)) (snd (updateAddressById env uid i dto s)) = foreign uid (Some (u_id user)) s"
    using foreign_edit(1) [OF assms(1) ownAddress_some(1,2)]
    by (simp add: updateAddressById_def assms(3) Let_def split: option.split)
  show "foreign uid (Some (u_id user)) (snd (deleteAddressById env uid i s)) = foreign uid (Some (u_id user)) s"
    using foreign_edit(2) [OF assms(1) ownAddress_some(1,2)]
    by (simp add: deleteAddressById_def assms(3) split: option.split)
qed

lemma foreign_account:
  assumes "distinct (map u_id (t_users s))" and "distinct (map ad_id (t_addresses s))" and "freshAddress env s"
  shows "foreign (ju_id j) (myId (ju_id j) s) (snd (accountRoute env pv j q s)) = foreign (ju_id j) (myId (ju_id j) s) s"
proof (cases "getUserBySupabase s (ju_id j)")
  case None
  then show ?thesis
    using foreign_signUp [of "identityOf j"]
    by (cases q) (simp_all add: accountRoute_def Let_def putAddress_def upsertAddress_def createAddress_def
        updateAddressById_def deleteAddressById_def recordCharter_def updateProfile_def identityOf_def
        split: sum.split option.split)
next
  case (Some user)
  have charter: "foreign uid me (upsertCharter row x) = foreign uid me x" for uid me row x
    by (rule foreign_cong) (simp_all add: upsertCharter_def)
  show ?thesis
    using foreign_signUp [of "identityOf j"] Some
    by (cases q) (simp_all add: accountRoute_def Let_def putAddress_def myId_def recordCharter_def charter
        identityOf_def foreign_profile [OF assms(1)] foreign_address_routes [OF assms(2,3) Some]
        split: sum.split option.split)
qed

lemma serve_public:
  "serve [] True verify bearer h s = answered (h None s)"
  by (simp add: serve_def jwtGuard_def rolesGuard_def answer_of)

text \<open>C18: Requests about accounts stay at home. A public one leaves every account as it was but for the
  flag that its email address is verified, and no address changes. Any other one needs a valid
  token and leaves the accounts of all other identities, and the addresses of all other
  accounts, as they were.\<close>

theorem account_requests_stay_home:
  assumes "distinct (map u_id (t_users s))" and "distinct (map ad_id (t_addresses s))" and "freshAddress env s"
    and "t = snd (accountServe env pv verify bearer q s)"
  shows "case q of
      PublicRoute _ \<Rightarrow> map (\<lambda>u. u\<lparr>u_emailVerified := True\<rparr>) (t_users t) = map (\<lambda>u. u\<lparr>u_emailVerified := True\<rparr>) (t_users s) \<and>
        t_addresses t = t_addresses s
    | _ \<Rightarrow> (case caller verify bearer of None \<Rightarrow> t = s
        | Some j \<Rightarrow> foreign (ju_id j) (myId (ju_id j) s) t = foreign (ju_id j) (myId (ju_id j) s) s)"
proof (cases q)
  case (PublicRoute r)
  have flag: "map (\<lambda>u. u\<lparr>u_emailVerified := True\<rparr>) (updRow u_supabaseId i (\<lambda>u. u\<lparr>u_emailVerified := True\<rparr>) us) =
      map (\<lambda>u. u\<lparr>u_emailVerified := True\<rparr>) us" for i us by (induction us) (auto simp: updRow_def)
  show ?thesis
    using assms(4) by (cases r) (simp_all add: PublicRoute accountServe_def serve_public answered_def publicAuth_def
        requestSocialEmailOtp_def verifySocialEmailOtp_def mirrorEmailVerified_def flag sendEmailOtp_def emit_def
        split: option.split sum.split)
next
  case (PrivateRoute r)
  then show ?thesis
    using assms(4) foreign_private by (simp add: accountServe_def serve_open answered_def split: option.split)
next
  case (AccountRoute r)
  then show ?thesis
    using assms(4) foreign_account [OF assms(1-3)]
    by (simp add: accountServe_def serve_open answered_def split: option.split)
qed

abbreviation demo_provider :: provider where
  "demo_provider \<equiv> \<lparr>pv_signUp = None, pv_session = \<lparr>sa_error = None, sa_session = None\<rparr>,
     pv_otp = (\<lambda>_. \<lparr>sa_error = None, sa_session = None\<rparr>), pv_update = None, pv_send = None,
     pv_sms = PR_Status (Some ''success''), pv_authUser = None\<rparr>"

definition neighbours_db :: db where
  "neighbours_db = payout_db\<lparr>t_users := [demo_user ''s'' ''sb'' R_Seller, demo_user ''x'' ''xb'' R_Buyer]\<rparr>"

theorem account_requests_stay_home_witness:
  "map u_id (fst (foreign ''sb'' (Some ''s'') (snd (accountServe demo_env demo_provider demo_verify (Some ''sb'')
     (PrivateRoute (PostVerifyPhoneOtp ''+33'')) neighbours_db)))) = [''x'']"
proof -
  have d: "distinct (map u_id (t_users neighbours_db))" "distinct (map ad_id (t_addresses neighbours_db))" by code_simp+
  have f: "freshAddress demo_env neighbours_db" "myId ''sb'' neighbours_db = Some ''s''"
    "map u_id (fst (foreign ''sb'' (Some ''s'') neighbours_db)) = [''x'']" by code_simp+
  show ?thesis
    using account_requests_stay_home [OF d f(1) refl, of demo_provider demo_verify "Some ''sb''"
        "PrivateRoute (PostVerifyPhoneOtp ''+33'')"] f(2,3) by (simp add: caller_def)
qed

end
