(* ===== verification/Shop_Routes.thy ===== *)
theory Shop_Routes
  imports Account_Routes Reviews
begin

section \<open>The endpoints of shops\<close>

text \<open>
  \<open>listings.controller.ts\<close>, \<open>bookmarks.controller.ts\<close>, \<open>sellers.controller.ts\<close>,
  \<open>buyer-sellers.controller.ts\<close>, \<open>buyers.controller.ts\<close>, \<open>drivers.controller.ts\<close> and
  \<open>reviews.controller.ts\<close> under \<open>src/modules\<close>: one constructor per route, the service call with
  its defaults and the view it answers (\<open>listing-response.dto.ts\<close>,
  \<open>feed-listing-response.dto.ts\<close>, \<open>review-response.dto.ts\<close>). No route is public and none names a
  role. The property at the end is that a request changes nobody else's shop.
\<close>

subsection \<open>Views\<close>

record extra_response =
  xw_id :: id
  xw_label :: string
  xw_priceDeltaCents :: int
  xw_isSelectedByDefault :: bool
  xw_sortOrder :: int

definition extraResponse :: "addon_row \<Rightarrow> extra_response" where
  "extraResponse a = \<lparr>xw_id = a_id a, xw_label = a_label a, xw_priceDeltaCents = a_priceDeltaCents a,
     xw_isSelectedByDefault = a_isSelectedByDefault a, xw_sortOrder = a_sortOrder a\<rparr>"

text \<open>The column \<open>updatedAt\<close> of a listing is not in the model.\<close>

record listing_response =
  lw_id :: id
  lw_sellerId :: id
  lw_sellerName :: "string option"
  lw_sellerAvatarUrl :: "string option"
  lw_name :: string
  lw_description :: "string option"
  lw_imageUrls :: "string list"
  lw_priceCents :: int
  lw_originalPriceCents :: "int option"
  lw_discountPercent :: "int option"
  lw_portionsLeft :: "int option"
  lw_cuisineTypes :: "cuisine_type list"
  lw_dishTypes :: "dish_type list"
  lw_dietaryTags :: "dietary_tag list"
  lw_allergens :: "allergen list"
  lw_otherAllergens :: "string option"
  lw_isAvailable :: bool
  lw_isVeg :: bool
  lw_menuCategory :: "string option"
  lw_category :: seller_category
  lw_fulfillment :: fulfillment
  lw_prepMinutes :: int
  lw_expiresAt :: "time option"
  lw_createdAt :: time
  lw_extras :: "extra_response list"

definition listingResponse :: "listing_row \<times> addon_row list \<Rightarrow> seller_row option \<Rightarrow> listing_response" where
  "listingResponse la seller =
    (let l = fst la in
     \<lparr>lw_id = l_id l, lw_sellerId = l_sellerId l, lw_sellerName = Option.bind seller sp_displayName,
      lw_sellerAvatarUrl = Option.bind seller sp_profilePhotoUrl, lw_name = l_name l,
      lw_description = l_description l, lw_imageUrls = l_imageUrls l, lw_priceCents = l_priceCents l,
      lw_originalPriceCents = l_originalPriceCents l, lw_discountPercent = l_discountPercent l,
      lw_portionsLeft = l_portionsLeft l, lw_cuisineTypes = l_cuisineTypes l, lw_dishTypes = l_dishTypes l,
      lw_dietaryTags = l_dietaryTags l, lw_allergens = l_allergens l, lw_otherAllergens = l_otherAllergens l,
      lw_isAvailable = l_isAvailable l, lw_isVeg = l_isVeg l, lw_menuCategory = l_menuCategory l,
      lw_category = l_category l, lw_fulfillment = l_fulfillment l, lw_prepMinutes = l_prepMinutes l,
      lw_expiresAt = l_expiresAt l, lw_createdAt = l_createdAt l,
      lw_extras = map extraResponse (sort_key a_sortOrder (snd la))\<rparr>)"

text \<open>The feed's class extends the one of a listing.\<close>

record feed_listing = listing_response +
  fw_distanceKm :: "rat option"
  fw_inRange :: "bool option"
  fw_rating :: "rat option"
  fw_reviewCount :: int
  fw_point :: "point option"

text \<open>In JavaScript a comparison with the \<open>null\<close> of a missing radius compares with zero.\<close>

definition toFeedListing :: "feed_row \<Rightarrow> feed_listing" where
  "toFeedListing row =
    (case row of (l, sp, d) \<Rightarrow>
     listing_response.extend (listingResponse (l, []) (Some sp))
       (feed_listing.fields d
         (map_option (\<lambda>km. km \<le> (case sp_deliveryRadiusKm sp of None \<Rightarrow> 0 | Some r \<Rightarrow> r)) d)
         (sp_averageRating sp) (sp_reviewCount sp) (sp_location sp)))"

definition bookmarkListing :: "db \<Rightarrow> listing_row \<Rightarrow> feed_listing" where
  "bookmarkListing s l =
    (let sp = getSeller s (l_sellerId l) in
     listing_response.extend (listingResponse (l, []) sp)
       (feed_listing.fields None None (Option.bind sp sp_averageRating)
         (case sp of None \<Rightarrow> 0 | Some p \<Rightarrow> sp_reviewCount p) None))"

record feed_page =
  fd_items :: "feed_listing list"
  fd_limit :: nat
  fd_offset :: nat
  fd_hasMore :: bool

definition feedPage :: "feed_result \<Rightarrow> feed_page" where
  "feedPage x = \<lparr>fd_items = map toFeedListing (fr_items x), fd_limit = fr_limit x, fd_offset = fr_offset x,
     fd_hasMore = fr_hasMore x\<rparr>"

text \<open>The columns \<open>createdAt\<close> and \<open>helpfulCount\<close>, which no service writes, are not in the model.\<close>

record review_response =
  rw_id :: id
  rw_orderId :: id
  rw_sellerId :: id
  rw_rating :: int
  rw_body :: string
  rw_author :: "(id \<times> string \<times> string \<times> string option) option"
  rw_criteriaRatings :: "(rating_criterion \<times> rat \<times> int) list"

definition criterionResponse :: "criterion_row \<Rightarrow> rating_criterion \<times> rat \<times> int" where
  "criterionResponse c = (cr_criterion c, cr_value c, cr_sampleCount c)"

definition reviewResponse :: "db \<Rightarrow> review_row \<Rightarrow> review_response" where
  "reviewResponse s r =
    \<lparr>rw_id = rv_id r, rw_orderId = rv_orderId r, rw_sellerId = rv_sellerId r, rw_rating = rv_rating r,
     rw_body = rv_body r,
     rw_author = map_option (\<lambda>u. (u_id u, u_firstName u, u_lastName u, u_avatarPath u)) (getUser s (rv_authorId r)),
     rw_criteriaRatings = map criterionResponse (filter (\<lambda>c. cr_reviewId c = rv_id r) (t_criteria s))\<rparr>"

subsection \<open>Routes\<close>

datatype listing_route =
  PostListing create_listing_dto | GetFeed feed_query | GetListing id | PatchListing id update_listing_dto
  | PatchAvailability id bool | DeleteListing id

datatype bookmark_route = PostBookmark id | DeleteBookmark id | GetBookmarks "nat option" "nat option"

datatype seller_route =
  PutProfile upsert_profile_dto | PutBusiness upsert_business_dto | PutCuisines "cuisine_type list" "dish_type list"
  | PostSubscriptionSync sync_subscription_dto | GetMyListings | GetKitchens

datatype profile_route =
  PutPreferences "dietary_tag list" "allergen list" | PutVehicle vehicle_type "time option" | PutZones "string list"

datatype review_route =
  PostReview id create_review_dto | GetSellerReviews id "nat option" "nat option" | GetSellerStats id

datatype shop_answer =
  ListingView listing_response | ListingViews "listing_response list" | FeedView feed_page | Empty
  | ProfileView seller_row | BusinessView "business_row \<times> opening_row list"
  | CuisinesView "cuisine_type list \<times> dish_type list" | SubscriptionView seller_subscription_response
  | KitchenViews "kitchen list" | PreferencesView "dietary_tag list \<times> allergen list"
  | VehicleView "driver_row option" | ZonesView "string list"
  | ReviewView review_response | ReviewViews "review_response list" nat nat bool | StatsView seller_stats

definition listingRoute :: "(point \<Rightarrow> point \<Rightarrow> rat) \<Rightarrow> env \<Rightarrow> id \<Rightarrow> listing_route \<Rightarrow> db \<Rightarrow> (exn, shop_answer, db) result" where
  "listingRoute metres env uid q s =
    (case q of
       PostListing dto \<Rightarrow> answerWith (\<lambda>_ x. ListingView (listingResponse x None)) (createListing env uid dto s)
     | GetFeed query \<Rightarrow> answerWith (\<lambda>_ x. FeedView (feedPage x)) (liftE (feed metres env uid query s) s)
     | GetListing i \<Rightarrow> answerWith (\<lambda>t x. ListingView (listingResponse x (getSeller t (l_sellerId (fst x)))))
         (liftE (findListingById i s) s)
     | PatchListing i dto \<Rightarrow> answerWith (\<lambda>_ x. ListingView (listingResponse x None)) (updateListing env uid i dto s)
     | PatchAvailability i b \<Rightarrow> answerWith (\<lambda>_ x. ListingView (listingResponse x None)) (setAvailability env uid i b s)
     | DeleteListing i \<Rightarrow> answerWith (\<lambda>_ _. Empty) (softDelete env uid i s))"

definition bookmarkRoute :: "id \<Rightarrow> bookmark_route \<Rightarrow> db \<Rightarrow> (exn, shop_answer, db) result" where
  "bookmarkRoute uid q s =
    (case q of
       PostBookmark i \<Rightarrow> answerWith (\<lambda>_ _. Empty) (addBookmark uid i s)
     | DeleteBookmark i \<Rightarrow> answerWith (\<lambda>_ _. Empty) (removeBookmark uid i s)
     | GetBookmarks limit offset \<Rightarrow> answerWith (\<lambda>t x. FeedView \<lparr>fd_items = map (bookmarkListing t) (fst x),
           fd_limit = orElseNat limit 20, fd_offset = orElseNat offset 0, fd_hasMore = snd x\<rparr>)
         (liftE (listBookmarks uid (orElseNat limit 20) (orElseNat offset 0) s) s))"

text \<open>\<open>key\<close> and \<open>rc\<close> are the key of the RevenueCat interface and what it answers.\<close>

definition sellerRoute :: "env \<Rightarrow> string \<Rightarrow> rc_subscriber option \<Rightarrow> id \<Rightarrow> seller_route \<Rightarrow> db
    \<Rightarrow> (exn, shop_answer, db) result" where
  "sellerRoute env key rc uid q s =
    (case q of
       PutProfile dto \<Rightarrow> answerWith (\<lambda>_. ProfileView) (upsertProfile env uid dto s)
     | PutBusiness dto \<Rightarrow> answerWith (\<lambda>_. BusinessView) (upsertBusiness uid dto s)
     | PutCuisines cuisines dishes \<Rightarrow> answerWith (\<lambda>_. CuisinesView) (upsertCuisines uid cuisines dishes s)
     | PostSubscriptionSync dto \<Rightarrow> answerWith (\<lambda>_. SubscriptionView) (syncRevenueCatSubscription env key rc uid dto s)
     | GetMyListings \<Rightarrow> answerWith (\<lambda>t rows. ListingViews (map (\<lambda>l. listingResponse (l, addOnsOf (l_id l) t) None) rows))
         (liftE (findMyListings env uid s) s)
     | GetKitchens \<Rightarrow> ok (KitchenViews (listKitchens s)) s)"

definition profileRoute :: "env \<Rightarrow> id \<Rightarrow> profile_route \<Rightarrow> db \<Rightarrow> (exn, shop_answer, db) result" where
  "profileRoute env uid q s =
    (case q of
       PutPreferences tags allergens \<Rightarrow> answerWith (\<lambda>_. PreferencesView) (upsertPreferences env uid tags allergens s)
     | PutVehicle v dob \<Rightarrow> answerWith (\<lambda>_. VehicleView) (upsertVehicle env uid v dob s)
     | PutZones zones \<Rightarrow> answerWith (\<lambda>_. ZonesView) (upsertZones uid zones s))"

definition reviewRoute :: "env \<Rightarrow> id \<Rightarrow> review_route \<Rightarrow> db \<Rightarrow> (exn, shop_answer, db) result" where
  "reviewRoute env uid q s =
    (case q of
       PostReview i dto \<Rightarrow> answerWith (\<lambda>t r. ReviewView (reviewResponse t r)) (createForOrder env uid i dto s)
     | GetSellerReviews i limit offset \<Rightarrow>
         (let x = reviewsForSeller i (orElseNat limit 20) (orElseNat offset 0) s
          in ok (ReviewViews (map (reviewResponse s) (fst x)) (orElseNat limit 20) (orElseNat offset 0) (snd x)) s)
     | GetSellerStats i \<Rightarrow> answerWith (\<lambda>_. StatsView) (liftE (getSellerStats i s) s))"

datatype shop_route =
  ListingRoute listing_route | BookmarkRoute bookmark_route | SellerRoute seller_route
  | ProfileRoute profile_route | ReviewRoute review_route

definition shopRoute :: "(point \<Rightarrow> point \<Rightarrow> rat) \<Rightarrow> env \<Rightarrow> string \<Rightarrow> rc_subscriber option \<Rightarrow> id \<Rightarrow> shop_route \<Rightarrow> db
    \<Rightarrow> (exn, shop_answer, db) result" where
  "shopRoute metres env key rc uid q s =
    (case q of
       ListingRoute r \<Rightarrow> listingRoute metres env uid r s
     | BookmarkRoute r \<Rightarrow> bookmarkRoute uid r s
     | SellerRoute r \<Rightarrow> sellerRoute env key rc uid r s
     | ProfileRoute r \<Rightarrow> profileRoute env uid r s
     | ReviewRoute r \<Rightarrow> reviewRoute env uid r s)"

definition shopServe :: "(point \<Rightarrow> point \<Rightarrow> rat) \<Rightarrow> env \<Rightarrow> string \<Rightarrow> rc_subscriber option \<Rightarrow> (string \<Rightarrow> exn + jwt_user)
    \<Rightarrow> string option \<Rightarrow> shop_route \<Rightarrow> db \<Rightarrow> (int \<times> error_code, shop_answer, db) result" where
  "shopServe metres env key rc verify bearer q s =
    serve [] False verify bearer
      (\<lambda>user t. case user of None \<Rightarrow> fail UncaughtError t | Some j \<Rightarrow> shopRoute metres env key rc (ju_id j) q t) s"

subsection \<open>Nobody else's shop\<close>

text \<open>
  What belongs to others, \<open>me\<close> being the caller's account if there is one: their listings with the
  extras, their profiles, businesses, opening hours, cuisines and dishes, their bookmarks, their
  preferences and their zones. The average and the number of ratings are what reviews are for.
\<close>

definition unrated :: "seller_row \<Rightarrow> seller_row" where
  "unrated r = r\<lparr>sp_averageRating := None, sp_reviewCount := 0\<rparr>"

record holdings =
  ho_listings :: "listing_row list"
  ho_extras :: "addon_row list"
  ho_sellers :: "seller_row list"
  ho_businesses :: "business_row list"
  ho_openings :: "opening_row list"
  ho_cuisines :: "cuisine_row list"
  ho_dishes :: "dish_row list"
  ho_bookmarks :: "bookmark_row list"
  ho_buyers :: "buyer_row list"
  ho_drivers :: "driver_row list"
  ho_zones :: "zone_row list"

definition others :: "('r \<Rightarrow> id) \<Rightarrow> id option \<Rightarrow> 'r list \<Rightarrow> 'r list" where
  "others owner me rows = filter (\<lambda>r. Some (owner r) \<noteq> me) rows"

definition holdingsOf :: "id option \<Rightarrow> db \<Rightarrow> holdings" where
  "holdingsOf me s =
    \<lparr>ho_listings = others l_sellerId me (t_listings s),
     ho_extras = filter (\<lambda>a. a_listingId a \<in> l_id ` set (others l_sellerId me (t_listings s))) (t_addOns s),
     ho_sellers = map unrated (others sp_userId me (t_sellers s)),
     ho_businesses = others bu_userId me (t_businesses s),
     ho_openings = others oh_sellerId me (t_openings s),
     ho_cuisines = others sc_userId me (t_sellerCuisines s),
     ho_dishes = others sd_userId me (t_sellerDishes s),
     ho_bookmarks = others bm_buyerId me (t_bookmarks s),
     ho_buyers = others bp_userId me (t_buyers s),
     ho_drivers = others dp_userId me (t_drivers s),
     ho_zones = others dz_userId me (t_driverZones s)\<rparr>"

lemma others_append: "others owner me (xs @ ys) = others owner me xs @ others owner me ys"
  by (simp add: others_def)

lemma others_upd:
  assumes "\<And>r. r \<in> set rows \<Longrightarrow> key r = k \<Longrightarrow> Some (owner r) = me" and "\<And>r. owner (f r) = owner r"
  shows "others owner me (updRow key k f rows) = others owner me rows"
  unfolding others_def by (rule filter_updRow) (use assms in auto)

lemma others_drop: "others owner (Some u) (filter (\<lambda>r. owner r \<noteq> u) rows) = others owner (Some u) rows"
  by (simp add: others_def)

lemma others_mine: "(\<And>r. r \<in> set rows \<Longrightarrow> owner r = u) \<Longrightarrow> others owner (Some u) rows = []"
  by (simp add: others_def filter_empty_conv)

lemma holdings_emit [simp]: "holdingsOf me (emit e s) = holdingsOf me s"
  by (simp add: holdingsOf_def emit_def)

lemma holdings_terms [simp]: "holdingsOf me (recordTermsAcceptance u s) = holdingsOf me s"
  using recordTermsAcceptance_eq [of u s] by (auto simp: holdingsOf_def)

lemma myId_some: "getUserBySupabase s uid = Some user \<Longrightarrow> myId uid s = Some (u_id user)"
  by (simp add: myId_def)

subsubsection \<open>Profiles\<close>

lemma holdings_seller:
  assumes "\<And>r. sp_userId (f r) = sp_userId r"
  shows "holdingsOf (Some u) (updSeller u f s) = holdingsOf (Some u) s"
  using assms by (simp add: holdingsOf_def updSeller_def others_upd)

lemma assertSellerProfile_me: "assertSellerProfile uid s = Inr u \<Longrightarrow> myId uid s = Some u"
  by (erule assertSellerProfile_Inr) (simp add: myId_def)

lemma subscriptionFields_owner [simp]: "sp_userId (buildSubscriptionFields now upd r) = sp_userId r"
  by (simp add: buildSubscriptionFields_def Let_def)

lemma profileRow_owner [simp]: "sp_userId (profileRow env dto r) = sp_userId r"
  by (simp add: profileRow_def)

lemma holdings_business: "holdingsOf (Some u) (snd (businessTx u dto s)) = holdingsOf (Some u) s"
proof -
  have "others bu_userId (Some u) (updRow bu_userId u (\<lambda>_. businessRow u dto) rows) = others bu_userId (Some u) rows" for rows
    by (induction rows) (simp_all add: others_def updRow_def businessRow_def)
  moreover have "others bu_userId (Some u) [businessRow u dto] = []" by (simp add: others_def businessRow_def)
  moreover have "others oh_sellerId (Some u) (map (openingRow u) hrs) = []" for hrs
    by (rule others_mine) (auto simp: openingRow_def)
  ultimately show ?thesis
    by (simp add: businessTx_def Let_def holdingsOf_def others_append others_drop split: option.split)
qed

lemma holdings_cuisines:
  "others sc_userId (Some u) (map (\<lambda>c. \<lparr>sc_userId = u, sc_cuisineType = c\<rparr>) cs) = []"
  "others sd_userId (Some u) (map (\<lambda>d. \<lparr>sd_userId = u, sd_dishType = d\<rparr>) ds) = []"
  by (rule others_mine; auto)+

lemma holdings_sellerRoute: "holdingsOf (myId uid s) (snd (sellerRoute env key rc uid q s)) = holdingsOf (myId uid s) s"
proof (cases "assertSellerProfile uid s")
  case (Inl e)
  then show ?thesis
    by (cases q) (simp_all add: sellerRoute_def upsertProfile_def upsertBusiness_def upsertCuisines_def
        syncRevenueCatSubscription_def split: sum.split)
next
  case (Inr u)
  have "holdingsOf (Some u) (snd (transaction (businessTx u dto) s)) = holdingsOf (Some u) s" for dto
    using snd_transaction [of "businessTx u dto" s] holdings_business [of u dto s] by auto
  moreover have "holdingsOf (Some u) (s\<lparr>t_sellerCuisines := filter (\<lambda>c. sc_userId c \<noteq> u) (t_sellerCuisines s) @
        map (\<lambda>c. \<lparr>sc_userId = u, sc_cuisineType = c\<rparr>) cs,
      t_sellerDishes := filter (\<lambda>d. sd_userId d \<noteq> u) (t_sellerDishes s) @
        map (\<lambda>d. \<lparr>sd_userId = u, sd_dishType = d\<rparr>) ds\<rparr>) = holdingsOf (Some u) s" for cs ds
    by (simp add: holdingsOf_def others_append others_drop holdings_cuisines)
  ultimately show ?thesis
    using assertSellerProfile_me [OF Inr] Inr
    by (cases q) (simp_all add: sellerRoute_def upsertProfile_def upsertBusiness_def upsertCuisines_def
        syncRevenueCatSubscription_def holdings_seller Let_def split: option.split sum.split)
qed

lemma holdings_profileRoute: "holdingsOf (myId uid s) (snd (profileRoute env uid q s)) = holdingsOf (myId uid s) s"
proof -
  have vehicle: "holdingsOf (Some u) (updDriver u f s) = holdingsOf (Some u) s"
    if "\<And>r. dp_userId (f r) = dp_userId r" for u f
    using that by (simp add: holdingsOf_def updDriver_def others_upd)
  have "holdingsOf (Some u) (snd (replaceZones u zones s)) = holdingsOf (Some u) s" for u zones
  proof -
    have "others dz_userId (Some u) (map (\<lambda>z. \<lparr>dz_userId = u, dz_zoneId = z\<rparr>) zones) = []"
      by (rule others_mine) auto
    then show ?thesis by (simp add: replaceZones_def holdingsOf_def others_append others_drop)
  qed
  then have zones: "holdingsOf (Some u) (snd (transaction (replaceZones u zones) s)) = holdingsOf (Some u) s" for u zones
    using snd_transaction [of "replaceZones u zones" s] by auto
  have "holdingsOf (Some u) (s\<lparr>t_buyers := updRow bp_userId u f (t_buyers s)\<rparr>) = holdingsOf (Some u) s"
    if "\<And>r. bp_userId (f r) = bp_userId r" for u f
    using that by (simp add: holdingsOf_def others_upd)
  with vehicle zones show ?thesis
    by (cases q) (auto simp: profileRoute_def upsertVehicle_def upsertZones_def upsertPreferences_def
        assertDriverProfile_def Let_def myId_def split: option.split)
qed

subsubsection \<open>Bookmarks and reviews\<close>

lemma holdings_bookmarkRoute: "holdingsOf (myId uid s) (snd (bookmarkRoute uid q s)) = holdingsOf (myId uid s) s"
proof -
  have "others bm_buyerId (Some u) [\<lparr>bm_buyerId = u, bm_listingId = i\<rparr>] = []" for u i by (simp add: others_def)
  moreover have "others bm_buyerId (Some u) (filter (\<lambda>b. bm_buyerId b = u \<longrightarrow> bm_listingId b \<noteq> i) bs) =
      others bm_buyerId (Some u) bs" for u i bs by (induction bs) (auto simp: others_def)
  ultimately show ?thesis
    by (cases q) (auto simp: bookmarkRoute_def addBookmark_def removeBookmark_def holdingsOf_def others_append
        myId_def Let_def split: option.split)
qed

lemma holdings_rating:
  assumes "\<And>r. unrated (f r) = unrated r" and "\<And>r. sp_userId (f r) = sp_userId r"
  shows "holdingsOf me (updSeller i f s) = holdingsOf me s"
proof -
  have "map unrated (others sp_userId me (updRow sp_userId i f rows)) = map unrated (others sp_userId me rows)" for rows
    using assms by (induction rows) (simp_all add: others_def updRow_def)
  then show ?thesis by (simp add: holdingsOf_def updSeller_def)
qed

lemma holdings_suspend: "holdingsOf me (suspendUser now u reason s) = holdingsOf me s"
  by (simp add: suspendUser_def Let_def sendToUsers_def) (simp add: holdingsOf_def)

lemma holdings_reviewRoute: "holdingsOf me (snd (reviewRoute env uid q s)) = holdingsOf me s"
proof -
  have "holdingsOf me (snd (reviewTx env a ord dto s)) = holdingsOf me s" for a ord dto
    by (simp add: reviewTx_def recomputeSellerAggregates_def holdings_rating unrated_def split: option.split)
      (simp add: holdingsOf_def)
  then have "holdingsOf me (snd (transaction (reviewTx env a ord dto) s)) = holdingsOf me s" for a ord dto
    using snd_transaction [of "reviewTx env a ord dto" s] by auto
  moreover have "holdingsOf me (evaluateSellerRatingSuspension now i t) = holdingsOf me t" for now i t
    by (simp add: evaluateSellerRatingSuspension_def holdings_suspend split: prod.split option.split)
  ultimately show ?thesis
    by (cases q) (simp_all add: reviewRoute_def createForOrder_def snd_bindR split_beta Let_def split: sum.split)
qed

subsubsection \<open>Listings\<close>

lemma assertSeller_me: "assertSeller env opts uid s = Inr (u, r) \<Longrightarrow> myId uid s = Some u"
  by (auto simp: assertSeller_def myId_def split: option.splits if_splits)

text \<open>Whoever passes \<open>ownListing\<close> edits a row, and extras, that are no other seller's.\<close>

lemma own_rows:
  assumes "distinct (map l_id (t_listings s))" and "ownListing u i s = Inr l"
  shows "r \<in> set (t_listings s) \<Longrightarrow> l_id r = i \<Longrightarrow> l_sellerId r = u"
    and "i \<notin> l_id ` set (others l_sellerId (Some u) (t_listings s))"
proof -
  have l: "l \<in> set (t_listings s)" "l_id l = i" "l_sellerId l = u"
    using ownListing_Inr [OF assms(2)] by (auto simp: getListing_def dest: findRow_Some_set findRow_Some_key)
  show mine: "r \<in> set (t_listings s) \<Longrightarrow> l_id r = i \<Longrightarrow> l_sellerId r = u" for r
    using distinct_keyD [OF assms(1) _ l(1)] l(2,3) by auto
  then show "i \<notin> l_id ` set (others l_sellerId (Some u) (t_listings s))" by (auto simp: others_def)
qed

lemma holdings_listing:
  assumes "distinct (map l_id (t_listings s))" and "ownListing u i s = Inr l"
    and "\<And>r. l_sellerId (f r) = l_sellerId r"
  shows "holdingsOf (Some u) (updListing i f s) = holdingsOf (Some u) s"
proof -
  have "others l_sellerId (Some u) (updRow l_id i f (t_listings s)) = others l_sellerId (Some u) (t_listings s)"
    by (rule others_upd) (simp_all add: own_rows [OF assms(1,2)] assms(3))
  then show ?thesis by (simp add: holdingsOf_def updListing_def)
qed

lemma holdings_extras:
  assumes "i \<notin> l_id ` set (others l_sellerId me (t_listings s))"
  shows "holdingsOf me (replaceExtras env i xs s) = holdingsOf me s"
    and "holdingsOf me (s\<lparr>t_addOns := filter (\<lambda>a. a_listingId a \<noteq> i) (t_addOns s)\<rparr>) = holdingsOf me s"
proof -
  have "filter (\<lambda>a. a_listingId a \<in> A) (map (extraRow env i) ys) = []" if "i \<notin> A" for A ys
    using that by (auto simp: filter_empty_conv extraRow_def)
  then show "holdingsOf me (replaceExtras env i xs s) = holdingsOf me s"
    using assms by (simp add: holdingsOf_def replaceExtras_def)
  have "filter (\<lambda>a. a_listingId a \<noteq> i \<and> a_listingId a \<in> A) as = filter (\<lambda>a. a_listingId a \<in> A) as" if "i \<notin> A" for A as
    using that by (intro filter_cong) auto
  then show "holdingsOf me (s\<lparr>t_addOns := filter (\<lambda>a. a_listingId a \<noteq> i) (t_addOns s)\<rparr>) = holdingsOf me s"
    using assms by (simp add: holdingsOf_def)
qed

lemma snd_load [simp]: "snd (loadWithAddOns i s) = s"
  by (simp add: loadWithAddOns_def split: option.split)

lemma holdings_update:
  assumes "distinct (map l_id (t_listings s))"
  shows "holdingsOf (myId uid s) (snd (updateListing env uid i dto s)) = holdingsOf (myId uid s) s"
    and "holdingsOf (myId uid s) (snd (setAvailability env uid i b s)) = holdingsOf (myId uid s) s"
    and "holdingsOf (myId uid s) (snd (softDelete env uid i s)) = holdingsOf (myId uid s) s"
proof -
  have edit: "holdingsOf (Some u) (replaceExtras env i xs (updListing i (updateData dto e) s
        \<lparr>t_addOns := filter (\<lambda>a. a_listingId a \<noteq> i) (t_addOns (updListing i (updateData dto e) s))\<rparr>)) = holdingsOf (Some u) s"
    and plain: "holdingsOf (Some u) (updListing i (updateData dto e) s) = holdingsOf (Some u) s"
    if own: "ownListing u i s = Inr l" for u l xs e
  proof -
    let ?s1 = "updListing i (updateData dto e) s"
    have "l_sellerId (updateData dto e r) = l_sellerId r" for r by (simp add: updateData_def)
    then show p: "holdingsOf (Some u) ?s1 = holdingsOf (Some u) s"
      by (rule holdings_listing [OF assms own])
    have "ho_listings (holdingsOf (Some u) ?s1) = ho_listings (holdingsOf (Some u) s)" unfolding p by (rule refl)
    then have "i \<notin> l_id ` set (others l_sellerId (Some u) (t_listings ?s1))"
      using own_rows(2) [OF assms own] by (simp add: holdingsOf_def)
    then show "holdingsOf (Some u) (replaceExtras env i xs (?s1
        \<lparr>t_addOns := filter (\<lambda>a. a_listingId a \<noteq> i) (t_addOns ?s1)\<rparr>)) = holdingsOf (Some u) s"
      using p by (simp add: holdings_extras)
  qed
  show "holdingsOf (myId uid s) (snd (updateListing env uid i dto s)) = holdingsOf (myId uid s) s"
    by (auto simp: updateListing_def Let_def edit plain dest: assertSeller_me split: sum.split option.split)
  show "holdingsOf (myId uid s) (snd (setAvailability env uid i b s)) = holdingsOf (myId uid s) s"
    by (auto simp: setAvailability_def holdings_listing [OF assms] dest: assertSeller_me split: sum.split)
  show "holdingsOf (myId uid s) (snd (softDelete env uid i s)) = holdingsOf (myId uid s) s"
    by (auto simp: softDelete_def holdings_listing [OF assms] dest: assertSeller_me split: sum.split)
qed

lemma createCheck_me: "createCheck env uid dto s = Inr (u, c, e) \<Longrightarrow> myId uid s = Some u"
  by (auto simp: createCheck_def dest: assertSeller_me split: sum.splits option.splits if_splits)

lemma holdings_create:
  "holdingsOf (myId uid s) (snd (createListing env uid dto s)) = holdingsOf (myId uid s) s"
proof (cases "createCheck env uid dto s")
  case (Inl e)
  then show ?thesis by (simp add: createListing_def)
next
  case (Inr x)
  obtain u c e where x: "x = (u, c, e)" by (cases x)
  let ?l = "newListing env u c dto e"
  let ?s1 = "s\<lparr>t_listings := t_listings s @ [?l]\<rparr>"
  have one: "others l_sellerId (Some u) (t_listings ?s1) = others l_sellerId (Some u) (t_listings s)"
    by (simp add: others_def newListing_def)
  then have "holdingsOf (Some u) ?s1 = holdingsOf (Some u) s" by (simp add: holdingsOf_def)
  moreover have "l_id ?l \<notin> l_id ` set (others l_sellerId (Some u) (t_listings ?s1))"
    if "getListing s (l_id ?l) = None"
    using that unfolding one by (auto simp: getListing_def findRow_None_iff others_def)
  ultimately have "holdingsOf (Some u) (snd (transaction (\<lambda>s. if getListing s (l_id ?l) \<noteq> None then fail PrismaConflict s
      else loadWithAddOns (l_id ?l) (case cl_extras dto of None \<Rightarrow> s\<lparr>t_listings := t_listings s @ [?l]\<rparr>
        | Some xs \<Rightarrow> replaceExtras env (l_id ?l) xs (s\<lparr>t_listings := t_listings s @ [?l]\<rparr>))) s)) = holdingsOf (Some u) s"
    by (auto simp: transaction_def split_beta holdings_extras split: sum.split option.split)
  then show ?thesis
    using createCheck_me [OF Inr [unfolded x]]
    by (simp add: createListing_def Inr x Let_def snd_bindR split: sum.split)
qed

lemma holdings_listingRoute:
  "distinct (map l_id (t_listings s)) \<Longrightarrow>
    holdingsOf (myId uid s) (snd (listingRoute metres env uid q s)) = holdingsOf (myId uid s) s"
  by (cases q) (simp_all add: listingRoute_def holdings_create holdings_update)

text \<open>C19: A request to the shop endpoints changes nobody else's shop: whatever the caller sends, to whatever
  route and with whatever id, the listings, extras, profiles, businesses, opening hours, cuisines
  and dishes of other sellers, the bookmarks and preferences of other buyers and the vehicles and
  zones of other drivers stay as they were, but for a seller's rating average and count; and
  without a valid token nothing changes at all.\<close>

theorem shop_requests_stay_home:
  assumes "distinct (map l_id (t_listings s))"
  shows "case caller verify bearer of
      None \<Rightarrow> snd (shopServe metres env key rc verify bearer q s) = s
    | Some j \<Rightarrow> holdingsOf (myId (ju_id j) s) (snd (shopServe metres env key rc verify bearer q s)) =
        holdingsOf (myId (ju_id j) s) s"
  by (cases q) (simp_all add: shopServe_def serve_open answered_def shopRoute_def holdings_listingRoute [OF assms]
      holdings_bookmarkRoute holdings_sellerRoute holdings_profileRoute holdings_reviewRoute split: option.split)

definition rival_db :: db where
  "rival_db = payout_db\<lparr>t_listings := [newListing demo_env ''x'' SC_FaitMaison demo_listing_dto None]\<rparr>"

theorem shop_requests_stay_home_witness:
  "ho_listings (holdingsOf (Some ''s'') (snd (shopServe (\<lambda>_ _. 0) demo_env ''k'' None demo_verify (Some ''sb'')
     (ListingRoute (DeleteListing (e_ulid demo_env ForListing))) rival_db))) = t_listings rival_db"
proof -
  have d: "distinct (map l_id (t_listings rival_db))" "myId ''sb'' rival_db = Some ''s''" by code_simp+
  have r: "ho_listings (holdingsOf (Some ''s'') rival_db) = t_listings rival_db"
    by (simp add: holdingsOf_def others_def rival_db_def newListing_def)
  show ?thesis
    using shop_requests_stay_home [OF d(1), where verify = demo_verify and bearer = "Some ''sb''" and
        metres = "\<lambda>_ _. 0" and env = demo_env and key = "''k''" and rc = None and
        q = "ListingRoute (DeleteListing (e_ulid demo_env ForListing))"] d(2) r by (simp add: caller_def)
qed

end
