(* ===== verification/Spec2Isabelle.thy ===== *)
theory Spec2Isabelle
  imports Pricing Inventory Wallet Notify Charters Strikes Orders_Create Orders_Lifecycle
    Orders_Watchdogs Orders_Disputes Deliveries StripeWebhook Jobs Stock_Spec System
    Idempotency Reviews Calendar Subscriptions Sellers Listings Catalog Messaging Kyc
    Users Moderation Dashboard Auth Connect Tracking Http Devices Access
    Life_Cycle SoftDelete Routes Account_Routes Shop_Routes
begin

section \<open>A verified model of the IncaCook server\<close>

text \<open>
  The server is a NestJS application over PostgreSQL: home cooks, caterers and restaurants
  publish dishes, buyers order and pay through Stripe, drivers deliver, and the platform keeps
  a ledger, strikes, disputes, chats, reviews, subscriptions and a small shop for sellers.
  Each theory models one service of \<open>src/modules\<close> (all of it under \<open>src/\<close> of the repository);
  the definitions keep the methods' names and their order, and every guard, early return and
  exception of a method is a branch of its definition.

  \<^bold>\<open>State.\<close> A table of \<open>prisma/schema.prisma\<close> is a list of records in creation order (\<open>Model\<close>: the
  rows, the enumerations and the record \<open>db\<close> of all tables); a row keeps the columns that the
  modelled code reads or writes. What leaves the process (Stripe calls that move money, pushes,
  Redis publications, queue jobs) is appended to the field \<open>out\<close> of the state. A service method
  takes an \<open>env\<close> (the clock, the generated ids by purpose, what Stripe answers) and the state,
  and returns an exception or a value together with the state it leaves behind (\<open>Prelude\<close>:
  \<open>result\<close>, \<open>ok\<close>, \<open>fail\<close>, \<open>bindR\<close>); a Prisma \<open>$transaction\<close> is \<open>transaction\<close>, which undoes the
  writes of a throwing body.

  \<^bold>\<open>Theories and what they show.\<close>

    \<^item> \<open>Prelude\<close>: results, tables, the JavaScript \<open>Map\<close> and \<open>Set\<close>, and the contracts the components
      instantiate: \<open>row_store\<close> (a table read and updated by key), \<open>idempotent_handler\<close> (a handler
      that closes the state it acts on, so that a second run changes nothing) and
      \<open>inductive_invariant\<close> (a property every step keeps, hence every run).
    \<^item> \<open>Pricing\<close> (\<open>common/constants/pricing.constants.ts\<close>), \<open>Inventory\<close> (the stock loops of
      \<open>orders.service.ts\<close>): the split of a price adds up; a decrement takes exactly what was
      asked of every listing or throws.
    \<^item> \<open>Orders_Create\<close>, \<open>Orders_Lifecycle\<close>, \<open>Orders_Watchdogs\<close>, \<open>Orders_Disputes\<close>
      (\<open>orders.service.ts\<close>, 2972 lines, in this order), \<open>Deliveries\<close> (\<open>deliveries.service.ts\<close>),
      \<open>StripeWebhook\<close> (\<open>stripe-webhook-handler.service.ts\<close>) and \<open>Jobs\<close> (\<open>src/jobs\<close>): the gates and
      the effect of every request, the timers, the settlement of each way a delivery can fail.
    \<^item> \<open>Wallet\<close> (\<open>wallets.service.ts\<close>), \<open>Strikes\<close>, \<open>Notify\<close> (notifications, audit log, timers),
      \<open>Charters\<close> (accepted terms, the subscription gate): crediting is idempotent, the release
      sweep decides entry by entry, a withdrawal pays the balance.
    \<^item> \<open>Stock_Spec\<close> is the abstract machine of food and refunds, \<open>System\<close> the step relation of all
      order, delivery, payment and timer requests in any interleaving; every concrete step refines
      a sequence of abstract ones, from which stock is conserved and refunds happen at most once.
    \<^item> \<open>Idempotency\<close> (\<open>idempotency.service.ts\<close>, \<open>orders.controller.ts\<close>): a repeated request gets the
      stored answer and changes nothing.
    \<^item> \<open>Reviews\<close> (\<open>reviews.service.ts\<close>): the cached average and count stay exact.
    \<^item> \<open>Calendar\<close> (JavaScript's \<open>Date\<close>), \<open>Subscriptions\<close> (\<open>revenuecat.util.ts\<close>, its webhook, the sync
      endpoint of \<open>sellers.service.ts\<close>, \<open>subscriptions.service.ts\<close>): when the paid gate is open.
    \<^item> \<open>Sellers\<close> (\<open>sellers.service.ts\<close>), \<open>Listings\<close> (\<open>listings.service.ts\<close>, \<open>bookmarks.service.ts\<close>): the
      publication rules of stored dishes, the buyer feed and its filters.
    \<^item> \<open>Catalog\<close> (\<open>src/modules/catalog\<close>): purchases are charged what they cost, claims are refunded
      once as long as nobody confirms a refunded purchase again.
    \<^item> \<open>Messaging\<close> (\<open>src/modules/messaging\<close>): two parties per conversation, exact unread counters,
      complete history pages.
    \<^item> \<open>Kyc\<close> (\<open>kyc-documents.service.ts\<close>, \<open>admin-kyc-documents.service.ts\<close>, \<open>onboarding.service.ts\<close>):
      the review of identity documents and what the onboarding state reports of them.
    \<^item> \<open>Users\<close> (\<open>users.service.ts\<close>, \<open>drivers.service.ts\<close>, \<open>buyers.service.ts\<close>): a sign-up is found
      again, which phone numbers and deleted addresses block, and that the location of a seller
      mirrors the pickup address.
    \<^item> \<open>Moderation\<close> (\<open>reports.service.ts\<close>, \<open>legal-documents.service.ts\<close>): one pending report per
      reporter, target and reason; the batched list is the row by row lookup; one active
      document per kind.
    \<^item> \<open>Dashboard\<close> (\<open>dashboard.service.ts\<close>, \<open>admin-notifications.service.ts\<close>,
      \<open>admin-users.service.ts\<close>): the figures of the administrators agree with each other.
    \<^item> \<open>Auth\<close> (\<open>auth.service.ts\<close>, the addresses chosen by \<open>auth.controller.ts\<close>, tokens, Prelude):
      whom a confirmed code verifies.
    \<^item> \<open>Connect\<close> (\<open>payments/onboarding/onboarding.service.ts\<close>, \<open>files.service.ts\<close>): payout accounts and
      upload URLs.
    \<^item> \<open>Tracking\<close> (\<open>tracking.gateway.ts\<close>): a socket is only in rooms its account may listen to.
    \<^item> \<open>Http\<close> (\<open>all-exceptions.filter.ts\<close>): the status and the code of every exception.
    \<^item> \<open>Devices\<close> (\<open>device-tokens.service.ts\<close>, the sending half of \<open>notifications.service.ts\<close>): a token
      is on one device row; what Firebase calls invalid is pruned, nothing else.
    \<^item> \<open>Access\<close> (\<open>jwt-auth.guard.ts\<close>, \<open>roles.guard.ts\<close>, the controllers of the administration): only
      staff gets in, and what the guards do not look at.
    \<^item> \<open>Life_Cycle\<close> (over \<open>System\<close>): which status changes all services together can make; an open
      order changes at most six times, and a closed one never opens again.
    \<^item> \<open>SoftDelete\<close> (\<open>infrastructure/database/soft-delete.extension.ts\<close>): the rewriting of every
      query, and that the reads of users and listings above are the rewritten ones.
    \<^item> \<open>Routes\<close> (\<open>orders.controller.ts\<close>, \<open>deliveries.controller.ts\<close> and the views they answer): every
      route behind the guards; only the parties of an order move it.
    \<^item> \<open>Account_Routes\<close> (\<open>auth.controller.ts\<close>, \<open>users.controller.ts\<close> and the views of a profile) and
      \<open>Shop_Routes\<close> (the controllers of listings, bookmarks, sellers, buyers, drivers and reviews):
      every route behind the guards; a request changes nobody else's account, address book or shop.

  \<^bold>\<open>Assumptions of the model.\<close> A \<open>DateTime\<close> is an integer number of milliseconds and the process runs
  in UTC. Amounts are unbounded integers: the 32-bit range of a Prisma \<open>Int\<close> is not modelled.
  Averages and distances are exact rationals. Foreign keys are taken to hold where the code
  relies on them; a violated unique constraint is \<open>PrismaConflict\<close>, any other exception that is
  not an HTTP one \<open>UncaughtError\<close>. The database fails only where the code catches the failure.
  The soft-delete extension of the Prisma client is part of the reads of \<open>User\<close> and \<open>Listing\<close>
  (it filters \<open>findFirst\<close>, \<open>findMany\<close> and \<open>count\<close>, not \<open>findUnique\<close>; theory \<open>SoftDelete\<close>). Calls of Stripe, RevenueCat,
  Supabase, PostGIS distances, SHA-256, JSON and the signing of URLs are parameters: fields of
  \<open>env\<close> or arguments. Handlers run one after the other, except where a theorem is about a race:
  there the two halves of a handler are separate steps. No definition needs fuel: every loop of
  the modelled code is over a list and is a structural recursion.

  \<^bold>\<open>Not modelled.\<close> The remaining controllers, which only pass their arguments on (the shop for sellers,
  messages, the wallet, uploads, the administration's pages), the field by field copies into the
  other response DTOs and the validation decorators of the DTOs; the clients under
  \<open>src/infrastructure\<close> (Redis, BullMQ, Stripe, Supabase, Firebase, Prisma), whose answers are
  parameters; logging, compression, CORS and the configuration; the throttle, whose counting is
  in a library; the seed and the operator scripts.
\<close>

end
